(* ===== verification/Klights_Prelude.thy ===== *)
theory Klights_Prelude
  imports Main "HOL-Library.Word" "HOL-Library.Char_ord" "HOL-Library.List_Lexorder"
begin

text \<open>
  The shared vocabulary of the development: the Rust standard-library types and
  functions that several components of klights use, with the facts their proofs
  share.

  \<^item> a Rust \<^verbatim>\<open>str\<close> is the list of its UTF-8 bytes (\<^typ>\<open>string\<close>), so that the
    order on \<^typ>\<open>string\<close> of the library is the byte-wise order of \<^verbatim>\<open>str\<close>;
  \<^item> \<^verbatim>\<open>Result<T, E>\<close> is \<^typ>\<open>'e + 'a\<close>, with abbreviations for its constructors;
  \<^item> \<^verbatim>\<open>i64\<close> values that the code only stores and compares are \<^typ>\<open>int\<close>, and the
    saturating operations write the bounds out; \<^verbatim>\<open>u64\<close> counters that wrap are
    64-bit words;
  \<^item> \<^verbatim>\<open>BTreeMap\<close> (also the object type of a JSON document) is an association list
    with strictly increasing keys, with the insertion and removal that keep it so;
  \<^item> decimal printing and \<^verbatim>\<open>parse::<i64>()\<close>.
\<close>

named_theorems btree_simps \<open>lookup, membership and length facts of ordered maps\<close>
named_theorems wf_intros \<open>introduction rules for well-formedness of maps and documents\<close>


section \<open>Results\<close>

type_synonym ('a, 'e) rust_result = "'e + 'a"

abbreviation Ok :: "'a \<Rightarrow> ('a, 'e) rust_result"
  where "Ok \<equiv> Inr"

abbreviation Err :: "'e \<Rightarrow> ('a, 'e) rust_result"
  where "Err \<equiv> Inl"

fun result_bind :: "('a, 'e) rust_result \<Rightarrow> ('a \<Rightarrow> ('b, 'e) rust_result) \<Rightarrow> ('b, 'e) rust_result"
where
  "result_bind (Inl e) f = Inl e"
| "result_bind (Inr a) f = f a"

lemma result_bind_Ok_iff [simp]:
  "result_bind r f = Inr b \<longleftrightarrow> (\<exists>a. r = Inr a \<and> f a = Inr b)"
  by (cases r) auto

lemma result_bind_Err_iff [simp]:
  "result_bind r f = Inl e \<longleftrightarrow> r = Inl e \<or> (\<exists>a. r = Inr a \<and> f a = Inl e)"
  by (cases r) auto


section \<open>Options\<close>

definition is_some_and :: "'a option \<Rightarrow> ('a \<Rightarrow> bool) \<Rightarrow> bool"
  where "is_some_and o' P = (case o' of None \<Rightarrow> False | Some a \<Rightarrow> P a)"

definition unwrap_or :: "'a option \<Rightarrow> 'a \<Rightarrow> 'a"
  where "unwrap_or o' d = (case o' of None \<Rightarrow> d | Some a \<Rightarrow> a)"

lemma is_some_and_simps [simp]:
  "is_some_and None P = False"
  "is_some_and (Some a) P = P a"
  by (simp_all add: is_some_and_def)

lemma is_some_and_iff: "is_some_and o' P \<longleftrightarrow> (\<exists>a. o' = Some a \<and> P a)"
  by (cases o') simp_all

lemma unwrap_or_simps [simp]:
  "unwrap_or None d = d"
  "unwrap_or (Some a) d = a"
  by (simp_all add: unwrap_or_def)


section \<open>Bounded integers\<close>

definition i64_min :: int where "i64_min = - 9223372036854775808"

definition i64_max :: int where "i64_max = 9223372036854775807"

definition in_i64 :: "int \<Rightarrow> bool"
  where "in_i64 n \<longleftrightarrow> i64_min \<le> n \<and> n \<le> i64_max"

definition saturating_add_i64 :: "int \<Rightarrow> int \<Rightarrow> int"
  where "saturating_add_i64 a b = max i64_min (min i64_max (a + b))"

lemma saturating_add_i64_in [simp]: "in_i64 (saturating_add_i64 a b)"
  by (simp add: saturating_add_i64_def in_i64_def i64_min_def i64_max_def)

lemma saturating_add_i64_exact:
  "in_i64 (a + b) \<Longrightarrow> saturating_add_i64 a b = a + b"
  by (simp add: saturating_add_i64_def in_i64_def)

lemma saturating_succ_le:
  "a \<le> i64_max \<Longrightarrow> a \<le> saturating_add_i64 a 1"
  by (simp add: saturating_add_i64_def i64_max_def i64_min_def)

lemma saturating_succ_gt:
  "i64_min \<le> a \<Longrightarrow> a < i64_max \<Longrightarrow> saturating_add_i64 a 1 = a + 1"
  by (simp add: saturating_add_i64_def i64_max_def i64_min_def)


section \<open>Decimal text\<close>

definition digit_char :: "nat \<Rightarrow> char"
  where "digit_char d = char_of (48 + d)"

definition is_digit :: "char \<Rightarrow> bool"
  where "is_digit c \<longleftrightarrow> 48 \<le> (of_char c :: nat) \<and> (of_char c :: nat) \<le> 57"

definition digit_val :: "char \<Rightarrow> nat"
  where "digit_val c = of_char c - 48"

fun show_nat :: "nat \<Rightarrow> string"
where
  "show_nat n = (if n < 10 then [digit_char n] else show_nat (n div 10) @ [digit_char (n mod 10)])"

declare show_nat.simps [simp del]

definition show_int :: "int \<Rightarrow> string"
  where "show_int n = (if n < 0 then CHR ''-'' # show_nat (nat (- n)) else show_nat (nat n))"

definition digits_val :: "string \<Rightarrow> nat"
  where "digits_val s = foldl (\<lambda>acc c. acc * 10 + digit_val c) 0 s"

definition parse_digits :: "string \<Rightarrow> nat option"
  where "parse_digits s = (if s = [] \<or> \<not> list_all is_digit s then None else Some (digits_val s))"

text \<open>\<^verbatim>\<open>str::parse::<i64>()\<close>: an optional sign, then at least one decimal digit, and the
  value must fit.\<close>

definition parse_i64 :: "string \<Rightarrow> int option"
where
  "parse_i64 s =
    (let (negative, digits) =
       (case s of
          [] \<Rightarrow> (False, [])
        | c # cs \<Rightarrow> if c = CHR ''-'' then (True, cs) else if c = CHR ''+'' then (False, cs) else (False, s))
     in case parse_digits digits of
          None \<Rightarrow> None
        | Some n \<Rightarrow>
            (let v = (if negative then - int n else int n) in if in_i64 v then Some v else None))"

lemma digit_char_is_digit: "d < 10 \<Longrightarrow> is_digit (digit_char d)"
  by (simp add: is_digit_def digit_char_def)

lemma digit_val_digit_char: "d < 10 \<Longrightarrow> digit_val (digit_char d) = d"
  by (simp add: digit_val_def digit_char_def)

lemma show_nat_not_Nil [simp]: "show_nat n \<noteq> []"
  by (subst show_nat.simps) simp

lemma show_nat_digits: "list_all is_digit (show_nat n)"
proof (induction n rule: show_nat.induct)
  case (1 n)
  then show ?case
    by (subst show_nat.simps) (auto simp: digit_char_is_digit)
qed

lemma digits_val_snoc: "digits_val (s @ [c]) = digits_val s * 10 + digit_val c"
  by (simp add: digits_val_def)

lemma digits_val_show_nat: "digits_val (show_nat n) = n"
proof (induction n rule: show_nat.induct)
  case (1 n)
  show ?case
  proof (cases "n < 10")
    case True
    then show ?thesis
      by (subst show_nat.simps) (simp add: digits_val_def digit_val_digit_char)
  next
    case False
    then show ?thesis
      using 1 by (subst show_nat.simps) (simp add: digits_val_snoc digit_val_digit_char)
  qed
qed

lemma parse_digits_show_nat [simp]: "parse_digits (show_nat n) = Some n"
  by (simp add: parse_digits_def show_nat_digits digits_val_show_nat)

lemma show_nat_head_not_sign:
  assumes "show_nat n = c # cs"
  shows "c \<noteq> CHR ''-''" and "c \<noteq> CHR ''+''"
proof -
  have "is_digit c"
    using show_nat_digits [of n] assms by simp
  then show "c \<noteq> CHR ''-''" and "c \<noteq> CHR ''+''"
    by (auto simp: is_digit_def)
qed

lemma parse_i64_show_int:
  assumes "in_i64 n"
  shows "parse_i64 (show_int n) = Some n"
proof (cases "n < 0")
  case True
  then show ?thesis
    using assms by (simp add: parse_i64_def show_int_def)
next
  case False
  obtain c cs where "show_nat (nat n) = c # cs"
    by (cases "show_nat (nat n)") simp_all
  moreover from this have "parse_digits (c # cs) = Some (nat n)"
    using parse_digits_show_nat [of "nat n"] by simp
  ultimately show ?thesis
    using False assms show_nat_head_not_sign [of "nat n" c cs]
    by (simp add: parse_i64_def show_int_def)
qed

lemma show_int_inject: "in_i64 a \<Longrightarrow> in_i64 b \<Longrightarrow> show_int a = show_int b \<longleftrightarrow> a = b"
  by (metis parse_i64_show_int option.inject)


section \<open>Text search\<close>

text \<open>\<^verbatim>\<open>s.contains(needle)\<close>\<close>

fun str_contains :: "string \<Rightarrow> string \<Rightarrow> bool"
where
  "str_contains needle [] = (needle = [])"
| "str_contains needle (c # cs) = (take (length needle) (c # cs) = needle \<or> str_contains needle cs)"


section \<open>White space\<close>

text \<open>The number of bytes of the white-space character (Unicode \<^verbatim>\<open>White_Space\<close>) a UTF-8
  text starts with, 0 if it starts with none.\<close>

definition whitespace_len :: "string \<Rightarrow> nat"
where
  "whitespace_len s =
    (let b = map (of_char :: char \<Rightarrow> nat) (take 3 s) in
     case b of
       [] \<Rightarrow> 0
     | x # xs \<Rightarrow>
         if (9 \<le> x \<and> x \<le> 13) \<or> x = 32 then 1
         else if x = 194 \<and> (take 1 xs = [133] \<or> take 1 xs = [160]) then 2
         else if x = 225 \<and> xs = [154, 128] then 3
         else if x = 226 \<and> take 1 xs = [128] \<and> length xs = 2
              \<and> ((128 \<le> xs ! 1 \<and> xs ! 1 \<le> 138) \<or> xs ! 1 \<in> {168, 169, 175}) then 3
         else if x = 226 \<and> xs = [129, 159] then 3
         else if x = 227 \<and> xs = [128, 128] then 3
         else 0)"

text \<open>\<^verbatim>\<open>s.trim().is_empty()\<close>\<close>

fun is_blank :: "string \<Rightarrow> bool"
where
  "is_blank [] = True"
| "is_blank (c # cs) =
    (whitespace_len (c # cs) > 0 \<and> is_blank (drop (whitespace_len (c # cs) - 1) cs))"

text \<open>\<^verbatim>\<open>str::trim\<close>: a white-space character never starts with the bytes that continue one, so the
  text to drop at the end is found byte by byte.\<close>

fun trim_start :: "string \<Rightarrow> string"
where
  "trim_start [] = []"
| "trim_start (c # cs) =
    (if whitespace_len (c # cs) > 0 then trim_start (drop (whitespace_len (c # cs) - 1) cs) else c # cs)"

fun trim_end :: "string \<Rightarrow> string"
where
  "trim_end [] = []"
| "trim_end (c # cs) = (if is_blank (c # cs) then [] else c # trim_end cs)"

definition trim :: "string \<Rightarrow> string"
  where "trim s = trim_end (trim_start s)"


section \<open>Ordered maps\<close>

text \<open>\<^verbatim>\<open>BTreeMap\<close>: the entries in increasing key order. Lookup is \<^const>\<open>map_of\<close>.\<close>

fun om_insert :: "'k::linorder \<Rightarrow> 'v \<Rightarrow> ('k \<times> 'v) list \<Rightarrow> ('k \<times> 'v) list"
where
  "om_insert k v [] = [(k, v)]"
| "om_insert k v ((k', v') # m) =
    (if k < k' then (k, v) # (k', v') # m
     else if k = k' then (k, v) # m
     else (k', v') # om_insert k v m)"

definition om_remove :: "'k \<Rightarrow> ('k \<times> 'v) list \<Rightarrow> ('k \<times> 'v) list"
  where "om_remove k m = filter (\<lambda>e. fst e \<noteq> k) m"

definition om_modify :: "'k::linorder \<Rightarrow> ('v \<Rightarrow> 'v) \<Rightarrow> ('k \<times> 'v) list \<Rightarrow> ('k \<times> 'v) list"
  where "om_modify k f m = (case map_of m k of None \<Rightarrow> m | Some v \<Rightarrow> om_insert k (f v) m)"

definition om_wf :: "('k::linorder \<times> 'v) list \<Rightarrow> bool"
  where "om_wf m \<longleftrightarrow> sorted_wrt (<) (map fst m)"

definition om_insert_all :: "('k::linorder \<times> 'v) list \<Rightarrow> ('k \<times> 'v) list \<Rightarrow> ('k \<times> 'v) list"
  where "om_insert_all es m = foldl (\<lambda>m' e. om_insert (fst e) (snd e) m') m es"

text \<open>The interface of an ordered map that the clients (JSON objects, observation
  sets, condition tables) rely on: what a lookup returns after an update, that
  updates keep the map well formed, and that a well-formed map is determined by
  its lookups.\<close>

locale ordered_map =
  fixes lookup :: "'m \<Rightarrow> 'k \<Rightarrow> 'v option"
    and ins :: "'k \<Rightarrow> 'v \<Rightarrow> 'm \<Rightarrow> 'm"
    and del :: "'k \<Rightarrow> 'm \<Rightarrow> 'm"
    and wf :: "'m \<Rightarrow> bool"
  assumes lookup_ins: "lookup (ins k v m) = (lookup m)(k \<mapsto> v)"
    and lookup_del: "lookup (del k m) = (lookup m)(k := None)"
    and wf_ins: "wf m \<Longrightarrow> wf (ins k v m)"
    and wf_del: "wf m \<Longrightarrow> wf (del k m)"
    and extensional: "wf m \<Longrightarrow> wf m' \<Longrightarrow> lookup m = lookup m' \<Longrightarrow> m = m'"
begin

lemma ins_overwrite: "wf m \<Longrightarrow> ins k v (ins k v' m) = ins k v m"
  by (rule extensional) (simp_all add: wf_ins lookup_ins)

lemma ins_commute: "wf m \<Longrightarrow> k \<noteq> k' \<Longrightarrow> ins k v (ins k' v' m) = ins k' v' (ins k v m)"
  by (rule extensional) (simp_all add: wf_ins lookup_ins fun_upd_twist)

lemma ins_same: "wf m \<Longrightarrow> lookup m k = Some v \<Longrightarrow> ins k v m = m"
  by (rule extensional) (auto simp add: wf_ins lookup_ins)

lemma del_absent: "wf m \<Longrightarrow> lookup m k = None \<Longrightarrow> del k m = m"
  by (rule extensional) (auto simp add: wf_del lookup_del)

lemma del_ins: "wf m \<Longrightarrow> del k (ins k v m) = del k m"
  by (rule extensional) (simp_all add: wf_ins wf_del lookup_ins lookup_del)

lemma lookup_foldl_ins:
  "lookup (foldl (\<lambda>m' e. ins (fst e) (snd e) m') m es) = lookup m ++ map_of (rev es)"
  by (induction es arbitrary: m) (simp_all add: lookup_ins map_add_def fun_eq_iff split: option.split)

lemma wf_foldl_ins: "wf m \<Longrightarrow> wf (foldl (\<lambda>m' e. ins (fst e) (snd e) m') m es)"
  by (induction es arbitrary: m) (simp_all add: wf_ins)

end

lemma map_of_om_insert [simp, btree_simps]: "map_of (om_insert k v m) = (map_of m)(k \<mapsto> v)"
  by (induction k v m rule: om_insert.induct) (auto simp: fun_eq_iff)

lemma map_of_om_remove [simp, btree_simps]: "map_of (om_remove k m) = (map_of m)(k := None)"
  by (induction m) (auto simp: om_remove_def fun_eq_iff)

lemma keys_om_insert [simp, btree_simps]: "fst ` set (om_insert k v m) = insert k (fst ` set m)"
  by (induction k v m rule: om_insert.induct) auto

lemma keys_om_remove [simp, btree_simps]: "fst ` set (om_remove k m) = fst ` set m - {k}"
  by (auto simp: om_remove_def)

lemma set_om_insert_subset: "set (om_insert k v m) \<subseteq> insert (k, v) (set m)"
  by (induction k v m rule: om_insert.induct) auto

lemma om_insert_not_Nil [simp]: "om_insert k v m \<noteq> []"
  by (cases "(k, v, m)" rule: om_insert.cases) auto

lemma om_wf_Nil [simp, wf_intros]: "om_wf []"
  by (simp add: om_wf_def)

lemma om_wf_Cons [simp]: "om_wf (e # m) \<longleftrightarrow> (\<forall>k \<in> fst ` set m. fst e < k) \<and> om_wf m"
  by (simp add: om_wf_def)

lemma om_wf_insert [simp, wf_intros]: "om_wf m \<Longrightarrow> om_wf (om_insert k v m)"
  by (induction k v m rule: om_insert.induct) (auto simp del: image_iff)

lemma om_wf_filter [wf_intros]: "om_wf m \<Longrightarrow> om_wf (filter P m)"
  by (induction m) auto

lemma om_wf_remove [simp, wf_intros]: "om_wf m \<Longrightarrow> om_wf (om_remove k m)"
  by (simp add: om_remove_def om_wf_filter)

lemma om_wf_distinct: "om_wf m \<Longrightarrow> distinct (map fst m)"
  by (induction m) force+

lemma map_of_rev_distinct: "distinct (map fst m) \<Longrightarrow> map_of (rev m) = map_of m"
  by (rule map_of_inject_set [THEN iffD2]) (simp_all add: rev_map [symmetric])

lemma om_wf_entry: "om_wf m \<Longrightarrow> (k, v) \<in> set m \<longleftrightarrow> map_of m k = Some v"
  by (simp add: om_wf_distinct)

lemma om_list_all_iff:
  assumes "om_wf m"
  shows "list_all (\<lambda>(k, v). P k v) m \<longleftrightarrow> (\<forall>k v. map_of m k = Some v \<longrightarrow> P k v)"
proof -
  have "list_all (\<lambda>(k, v). P k v) m \<longleftrightarrow> (\<forall>k v. (k, v) \<in> set m \<longrightarrow> P k v)"
    unfolding list_all_iff by fast
  then show ?thesis
    by (simp only: om_wf_entry [OF assms])
qed

lemma card_dom_om:
  assumes "om_wf m"
  shows "card (dom (map_of m)) = length m"
proof -
  have "dom (map_of m) = set (map fst m)"
    by (simp add: dom_map_of_conv_image_fst)
  then show ?thesis
    using om_wf_distinct [OF assms] distinct_card [of "map fst m"] by simp
qed

lemma map_of_not_key: "k \<notin> fst ` set m \<Longrightarrow> map_of m k = None"
  by (simp add: map_of_eq_None_iff)

lemma om_wf_ext:
  assumes "om_wf m" and "om_wf m'" and "map_of m = map_of m'"
  shows "m = m'"
proof -
  have dist: "distinct (map fst m)" "distinct (map fst m')"
    using assms by (simp_all add: om_wf_distinct)
  have same: "set m = set m'"
  proof (rule set_eqI)
    fix e :: "'a \<times> 'b"
    show "e \<in> set m \<longleftrightarrow> e \<in> set m'"
      using dist assms(3) by (cases e) (metis map_of_eq_Some_iff)
  qed
  have "inj_on fst (set m \<union> set m')"
    using dist(1) same by (simp add: distinct_map)
  moreover have "sorted (map fst m)" "sorted (map fst m')"
    using assms by (simp_all add: om_wf_def strict_sorted_iff)
  ultimately show ?thesis
    using dist same map_sorted_distinct_set_unique by blast
qed

lemma map_of_om_modify [simp, btree_simps]:
  "map_of (om_modify k f m) = (map_of m)(k := map_option f (map_of m k))"
  by (auto simp: om_modify_def fun_eq_iff split: option.split)

lemma om_wf_modify [simp, wf_intros]: "om_wf m \<Longrightarrow> om_wf (om_modify k f m)"
  by (simp add: om_modify_def split: option.split)

lemma length_om_modify [simp, btree_simps]:
  assumes "om_wf m"
  shows "length (om_modify k f m) = length m"
proof -
  have "dom (map_of (om_modify k f m)) = dom (map_of m)"
    by (auto simp: dom_def)
  then show ?thesis
    using assms card_dom_om [of m] card_dom_om [of "om_modify k f m"] by simp
qed

lemma map_le_iff: "f \<subseteq>\<^sub>m g \<longleftrightarrow> (\<forall>k v. f k = Some v \<longrightarrow> g k = Some v)"
  by (force simp: map_le_def)

text \<open>Two maps of the same size, one contained in the other, are the same map.\<close>

lemma om_le_same_length:
  assumes "om_wf m" and "om_wf m'" and "length m = length m'" and "map_of m \<subseteq>\<^sub>m map_of m'"
  shows "m = m'"
proof -
  have "dom (map_of m) \<subseteq> dom (map_of m')"
    using assms(4) by (rule map_le_implies_dom_le)
  then have "dom (map_of m) = dom (map_of m')"
    using assms by (intro card_subset_eq) (simp_all add: card_dom_om finite_dom_map_of)
  then have "map_of m k = map_of m' k" for k
    using assms(4) unfolding map_le_def by (cases "k \<in> dom (map_of m)") (auto simp: domIff)
  then show ?thesis
    using assms by (intro om_wf_ext) auto
qed

lemma om_eq_iff_le_length:
  "om_wf m \<Longrightarrow> om_wf m' \<Longrightarrow> length m = length m' \<and> map_of m \<subseteq>\<^sub>m map_of m' \<longleftrightarrow> m = m'"
  by (metis om_le_same_length map_le_refl)

interpretation btree: ordered_map map_of om_insert om_remove om_wf
  by unfold_locales (simp_all add: om_wf_ext)

lemma map_of_om_insert_all [simp, btree_simps]:
  "map_of (om_insert_all es m) = map_of m ++ map_of (rev es)"
  unfolding om_insert_all_def by (rule btree.lookup_foldl_ins)

lemma om_wf_insert_all [simp, wf_intros]: "om_wf m \<Longrightarrow> om_wf (om_insert_all es m)"
  unfolding om_insert_all_def by (rule btree.wf_foldl_ins)

end
