(* ===== verification/Json_Value.thy ===== *)
theory Json_Value
  imports Klights_Prelude
begin

text \<open>
  JSON documents, the type \<^verbatim>\<open>serde_json::Value\<close> whose constructors the sources match
  on and whose accessors they call. The crate is built without
  \<^verbatim>\<open>preserve_order\<close>, so an object is a \<^verbatim>\<open>BTreeMap<String, Value>\<close>: an ordered map of
  \<^theory_text>\<open>Klights_Prelude\<close>.

  The in-place updates of the sources (\<^verbatim>\<open>as_object_mut\<close>, \<^verbatim>\<open>get_mut\<close>, \<^verbatim>\<open>entry\<close>) are
  functions from the old to the new document. A document is well formed
  (\<^verbatim>\<open>wf_json\<close>) when every object in it has its keys in increasing order, which is
  what every Rust value of the type satisfies.
\<close>

section \<open>Documents\<close>

text \<open>A number is an integer (\<^verbatim>\<open>u64\<close> or negative \<^verbatim>\<open>i64\<close>) or a finite \<^verbatim>\<open>f64\<close>, given by its
  bits with the two zeros identified, as \<^verbatim>\<open>==\<close> on \<^verbatim>\<open>f64\<close> does.\<close>

datatype json_number = IntNum int | FloatNum "64 word"

datatype json =
    JNull
  | JBool bool
  | JNumber json_number
  | JString string
  | JArray "json list"
  | JObject "(string \<times> json) list"

type_synonym json_object = "(string \<times> json) list"

fun wf_json :: "json \<Rightarrow> bool"
where
  "wf_json JNull = True"
| "wf_json (JBool b) = True"
| "wf_json (JNumber n) = True"
| "wf_json (JString s) = True"
| "wf_json (JArray vs) = (\<forall>v \<in> set vs. wf_json v)"
| "wf_json (JObject m) = (om_wf m \<and> (\<forall>v \<in> snd ` set m. wf_json v))"


section \<open>Accessors\<close>

fun as_object :: "json \<Rightarrow> json_object option"
where
  "as_object (JObject m) = Some m"
| "as_object _ = None"

fun as_array :: "json \<Rightarrow> json list option"
where
  "as_array (JArray vs) = Some vs"
| "as_array _ = None"

fun as_str :: "json \<Rightarrow> string option"
where
  "as_str (JString s) = Some s"
| "as_str _ = None"

fun as_bool :: "json \<Rightarrow> bool option"
where
  "as_bool (JBool b) = Some b"
| "as_bool _ = None"

fun as_i64 :: "json \<Rightarrow> int option"
where
  "as_i64 (JNumber (IntNum n)) = (if in_i64 n then Some n else None)"
| "as_i64 _ = None"

fun as_u64 :: "json \<Rightarrow> nat option"
where
  "as_u64 (JNumber (IntNum n)) = (if 0 \<le> n \<and> n < 2 ^ 64 then Some (nat n) else None)"
| "as_u64 _ = None"

fun is_object :: "json \<Rightarrow> bool"
where
  "is_object (JObject m) = True"
| "is_object _ = False"

definition is_null :: "json \<Rightarrow> bool"
  where "is_null v \<longleftrightarrow> v = JNull"

text \<open>\<^verbatim>\<open>Value::get(key)\<close> with a string key.\<close>

fun jget :: "string \<Rightarrow> json \<Rightarrow> json option"
where
  "jget k (JObject m) = map_of m k"
| "jget k _ = None"

text \<open>\<^verbatim>\<open>Value::pointer\<close> on the object paths the sources use, given as its reference
  tokens. None of the tokens in the sources is a decimal number, so a pointer never
  descends into an array.\<close>

fun pointer :: "string list \<Rightarrow> json \<Rightarrow> json option"
where
  "pointer [] v = Some v"
| "pointer (t # ts) v = (case jget t v of None \<Rightarrow> None | Some v' \<Rightarrow> pointer ts v')"

definition str_at :: "string list \<Rightarrow> json \<Rightarrow> string option"
  where "str_at ts v = Option.bind (pointer ts v) as_str"

definition get_str :: "string \<Rightarrow> json \<Rightarrow> string option"
  where "get_str k v = Option.bind (jget k v) as_str"


section \<open>Updates\<close>

text \<open>\<^verbatim>\<open>if let Some(o) = v.as_object_mut() { o.insert(k, x); }\<close> and the removal
  likewise.\<close>

fun jput :: "string \<Rightarrow> json \<Rightarrow> json \<Rightarrow> json"
where
  "jput k x (JObject m) = JObject (om_insert k x m)"
| "jput k x v = v"

fun jdel :: "string \<Rightarrow> json \<Rightarrow> json"
where
  "jdel k (JObject m) = JObject (om_remove k m)"
| "jdel k v = v"

text \<open>\<^verbatim>\<open>if let Some(x) = v.get_mut(k) { *x = f(x) }\<close>\<close>

definition jmodify :: "string \<Rightarrow> (json \<Rightarrow> json) \<Rightarrow> json \<Rightarrow> json"
  where "jmodify k f v = (case jget k v of None \<Rightarrow> v | Some x \<Rightarrow> jput k (f x) v)"

text \<open>Removing several keys in turn, the loop \<^verbatim>\<open>for key in [...] { o.remove(key); }\<close>.\<close>

definition jdel_all :: "string list \<Rightarrow> json \<Rightarrow> json"
  where "jdel_all ks v = foldl (\<lambda>v' k. jdel k v') v ks"


section \<open>Facts about accessors and updates\<close>

lemma jget_jput [simp]:
  "jget k (jput k' x v) = (if is_object v \<and> k = k' then Some x else jget k v)"
  by (cases v) auto

lemma jget_jdel [simp]: "jget k (jdel k' v) = (if k = k' then None else jget k v)"
  by (cases v) auto

lemma is_object_jput [simp]: "is_object (jput k x v) = is_object v"
  by (cases v) simp_all

lemma is_object_jdel [simp]: "is_object (jdel k v) = is_object v"
  by (cases v) simp_all

lemma jget_Some_is_object: "jget k v = Some x \<Longrightarrow> is_object v"
  by (cases v) simp_all

lemma is_object_iff: "is_object v \<longleftrightarrow> (\<exists>m. v = JObject m)"
  by (cases v) simp_all

lemma as_object_Some_iff [simp]: "as_object v = Some m \<longleftrightarrow> v = JObject m"
  by (cases v) simp_all

lemma as_array_Some_iff [simp]: "as_array v = Some vs \<longleftrightarrow> v = JArray vs"
  by (cases v) simp_all

lemma as_str_Some_iff [simp]: "as_str v = Some s \<longleftrightarrow> v = JString s"
  by (cases v) simp_all

lemma as_object_None_iff: "as_object v = None \<longleftrightarrow> \<not> is_object v"
  by (cases v) simp_all

lemma jget_jdel_all [simp]: "jget k (jdel_all ks v) = (if k \<in> set ks then None else jget k v)"
  unfolding jdel_all_def by (induction ks arbitrary: v) simp_all

lemma is_object_jdel_all [simp]: "is_object (jdel_all ks v) = is_object v"
  unfolding jdel_all_def by (induction ks arbitrary: v) simp_all

lemma jdel_not_object: "\<not> is_object v \<Longrightarrow> jdel k v = v"
  by (cases v) simp_all

lemma jdel_all_not_object: "\<not> is_object v \<Longrightarrow> jdel_all ks v = v"
  unfolding jdel_all_def by (induction ks arbitrary: v) (simp_all add: jdel_not_object)

lemma jget_jmodify [simp]:
  "jget k (jmodify k' f v) = (if k = k' then map_option f (jget k v) else jget k v)"
  by (auto simp: jmodify_def jget_Some_is_object split: option.split)

lemma is_object_jmodify [simp]: "is_object (jmodify k f v) = is_object v"
  by (simp add: jmodify_def split: option.split)

lemma jmodify_JObject: "jmodify k f (JObject m) = JObject (om_modify k f m)"
  by (simp add: jmodify_def om_modify_def split: option.split)

lemma jmodify_None [simp]: "jget k v = None \<Longrightarrow> jmodify k f v = v"
  by (simp add: jmodify_def)

lemma jmodify_Some: "jget k v = Some x \<Longrightarrow> jmodify k f v = jput k (f x) v"
  by (simp add: jmodify_def)

lemma wf_json_snd: "wf_json (JObject m) \<Longrightarrow> (k, x) \<in> set m \<Longrightarrow> wf_json x"
  by force

lemma wf_json_jget [wf_intros]: "wf_json v \<Longrightarrow> jget k v = Some x \<Longrightarrow> wf_json x"
  by (cases v) (auto dest: map_of_SomeD intro: wf_json_snd)

lemma wf_json_insert [simp, wf_intros]:
  "wf_json (JObject m) \<Longrightarrow> wf_json x \<Longrightarrow> wf_json (JObject (om_insert k x m))"
  using set_om_insert_subset [of k x m] by fastforce

lemma wf_json_remove [simp, wf_intros]:
  "wf_json (JObject m) \<Longrightarrow> wf_json (JObject (om_remove k m))"
  by (auto simp: om_remove_def intro: om_wf_filter)

lemma wf_json_jput [simp, wf_intros]: "wf_json v \<Longrightarrow> wf_json x \<Longrightarrow> wf_json (jput k x v)"
proof (cases v)
  case (JObject m)
  assume "wf_json v" and "wf_json x"
  then show ?thesis
    unfolding JObject by (simp only: jput.simps wf_json_insert)
qed simp_all

lemma wf_json_jdel [simp, wf_intros]: "wf_json v \<Longrightarrow> wf_json (jdel k v)"
proof (cases v)
  case (JObject m)
  assume "wf_json v"
  then show ?thesis
    unfolding JObject by (simp only: jdel.simps wf_json_remove)
qed simp_all

lemma wf_json_jdel_all [simp, wf_intros]: "wf_json v \<Longrightarrow> wf_json (jdel_all ks v)"
  unfolding jdel_all_def by (induction ks arbitrary: v) simp_all

lemma wf_json_jmodify [wf_intros]:
  "wf_json v \<Longrightarrow> (\<And>x. wf_json x \<Longrightarrow> wf_json (f x)) \<Longrightarrow> wf_json (jmodify k f v)"
  by (auto simp: jmodify_def split: option.split intro!: wf_json_jput dest: wf_json_jget)

text \<open>Well-formed objects with the same fields are the same document.\<close>

lemma json_object_ext:
  assumes "wf_json v" and "wf_json v'" and "is_object v" and "is_object v'"
    and "\<And>k. jget k v = jget k v'"
  shows "v = v'"
proof -
  obtain m m' where "v = JObject m" and "v' = JObject m'"
    using assms by (auto simp: is_object_iff)
  moreover from this have "map_of m = map_of m'"
    using assms(5) by (simp add: fun_eq_iff)
  ultimately show ?thesis
    using assms by (auto intro: om_wf_ext)
qed

lemma jput_same:
  "wf_json v \<Longrightarrow> jget k v = Some x \<Longrightarrow> jput k x v = v"
  by (cases v) (auto intro: btree.ins_same)

lemma pointer_append:
  "pointer (ts @ us) v = Option.bind (pointer ts v) (pointer us)"
  by (induction ts v rule: pointer.induct) (auto split: option.split)

lemma wf_json_pointer: "wf_json v \<Longrightarrow> pointer ts v = Some x \<Longrightarrow> wf_json x"
  by (induction ts v rule: pointer.induct) (auto split: option.splits intro: wf_json_jget)

end
