(* ===== verification/Resource_Model.thy ===== *)
theory Resource_Model
  imports Json_Value
begin

text \<open>
  The canonical stored resource of \<^verbatim>\<open>klights-cluster-core/src/resource.rs\<close>: the record,
  its normalisation from a JSON object (strict and lossy), the optimistic write guards,
  and the facts of a Pod that decide Service endpoints.
\<close>

section \<open>Stored resources\<close>

record resource =
  r_id :: int
  r_api_version :: string
  r_kind :: string
  r_namespace :: "string option"
  r_name :: string
  r_uid :: string
  r_resource_version :: int
  r_data :: json

datatype resource_identity_error =
    ResourceMissingApiVersion
  | ResourceMissingKind
  | ResourceMissingMetadataName
  | WatchEventMissingApiVersion
  | WatchEventMissingKind
  | WatchEventMissingMetadataName
  | MetadataUidRequired

type_synonym resource_key = "string \<times> string \<times> string option \<times> string"

definition resource_key :: "resource \<Rightarrow> resource_key"
  where "resource_key r = (r_api_version r, r_kind r, r_namespace r, r_name r)"

definition uid_from_data :: "json \<Rightarrow> string"
  where "uid_from_data data = unwrap_or (str_at [''metadata'', ''uid''] data) []"

definition resource_version_from_data :: "json \<Rightarrow> int"
where
  "resource_version_from_data data =
    unwrap_or (Option.bind (str_at [''metadata'', ''resourceVersion''] data) parse_i64) 0"

definition from_normalized_parts :: "json \<Rightarrow> string \<Rightarrow> string \<Rightarrow> string \<Rightarrow> resource"
where
  "from_normalized_parts data api_version kind name =
    \<lparr>r_id = 0, r_api_version = api_version, r_kind = kind,
     r_namespace =
       (case str_at [''metadata'', ''namespace''] data of
          None \<Rightarrow> None
        | Some ns \<Rightarrow> if ns = [] then None else Some ns),
     r_name = name, r_uid = uid_from_data data,
     r_resource_version = resource_version_from_data data, r_data = data\<rparr>"

definition try_from_data :: "json \<Rightarrow> (resource, resource_identity_error) rust_result"
where
  "try_from_data data =
    (case get_str ''apiVersion'' data of
       None \<Rightarrow> Err ResourceMissingApiVersion
     | Some api_version \<Rightarrow>
         (case get_str ''kind'' data of
            None \<Rightarrow> Err ResourceMissingKind
          | Some kind \<Rightarrow>
              (case str_at [''metadata'', ''name''] data of
                 None \<Rightarrow> Err ResourceMissingMetadataName
               | Some name \<Rightarrow> Ok (from_normalized_parts data api_version kind name))))"

definition try_from_watch_event :: "json \<Rightarrow> (resource, resource_identity_error) rust_result"
where
  "try_from_watch_event data =
    (if get_str ''apiVersion'' data = None then Err WatchEventMissingApiVersion
     else if get_str ''kind'' data = None then Err WatchEventMissingKind
     else if str_at [''metadata'', ''name''] data = None then Err WatchEventMissingMetadataName
     else try_from_data data)"

definition from_data_lossy :: "json \<Rightarrow> resource"
where
  "from_data_lossy data =
    from_normalized_parts data
      (unwrap_or (get_str ''apiVersion'' data) [])
      (unwrap_or (get_str ''kind'' data) [])
      (unwrap_or (str_at [''metadata'', ''name''] data) [])"


section \<open>Write guards and batches\<close>

record resource_preconditions =
  rp_uid :: "string option"
  rp_resource_version :: "int option"

definition preconditions_uid_and_resource_version :: "string \<Rightarrow> int \<Rightarrow> resource_preconditions"
where
  "preconditions_uid_and_resource_version uid rv =
    \<lparr>rp_uid = Some uid, rp_resource_version = Some rv\<rparr>"

definition preconditions_from_resource :: "resource \<Rightarrow> resource_preconditions"
where
  "preconditions_from_resource r =
    preconditions_uid_and_resource_version (r_uid r) (r_resource_version r)"

definition preconditions_from_metadata ::
  "json \<Rightarrow> int \<Rightarrow> (resource_preconditions, resource_identity_error) rust_result"
where
  "preconditions_from_metadata metadata rv =
    (case get_str ''uid'' metadata of
       Some uid \<Rightarrow>
         if \<not> is_blank uid then Ok (preconditions_uid_and_resource_version uid rv)
         else Err MetadataUidRequired
     | None \<Rightarrow> Err MetadataUidRequired)"

datatype resource_batch_put_mode = BatchCreate | BatchUpdate

datatype resource_batch_operation =
    BatchPut (batch_api_version: string) (batch_kind: string) (batch_namespace: "string option")
      (batch_name: string) json resource_batch_put_mode (batch_preconditions: resource_preconditions)
  | BatchDelete (batch_api_version: string) (batch_kind: string) (batch_namespace: "string option")
      (batch_name: string) (batch_preconditions: resource_preconditions)

datatype patch_kind = Merge

record resource_patch_request =
  prq_patch_kind :: patch_kind
  prq_patch :: json
  prq_preconditions :: resource_preconditions
  prq_strict_resource_version :: bool


section \<open>Endpoint-relevant Pod facts\<close>

record pod_endpoint_state =
  pes_ready :: bool
  pes_terminal :: bool
  pes_labels :: "json option"
  pes_pod_ip :: "json option"
  pes_pod_ips :: "json option"
  pes_deletion_timestamp :: "json option"

definition endpoint_state_differs_from :: "pod_endpoint_state \<Rightarrow> pod_endpoint_state \<Rightarrow> bool"
where
  "endpoint_state_differs_from a b \<longleftrightarrow>
    pes_ready a \<noteq> pes_ready b \<or> pes_terminal a \<noteq> pes_terminal b \<or> pes_labels a \<noteq> pes_labels b
    \<or> pes_pod_ip a \<noteq> pes_pod_ip b \<or> pes_pod_ips a \<noteq> pes_pod_ips b
    \<or> pes_deletion_timestamp a \<noteq> pes_deletion_timestamp b"

definition pod_endpoint_state_of :: "json \<Rightarrow> pod_endpoint_state"
where
  "pod_endpoint_state_of pod =
    (let status = jget ''status'' pod; metadata = jget ''metadata'' pod;
         conditions = Option.bind (Option.bind status (jget ''conditions'')) as_array;
         ready_condition = Option.bind conditions
           (\<lambda>cs. List.find (\<lambda>c. get_str ''type'' c = Some ''Ready'') cs)
     in \<lparr>pes_ready = (Option.bind ready_condition (get_str ''status'') = Some ''True''),
         pes_terminal = (Option.bind status (get_str ''phase'') \<in> {Some ''Failed'', Some ''Succeeded''}),
         pes_labels = Option.bind metadata (jget ''labels''),
         pes_pod_ip = Option.bind status (jget ''podIP''),
         pes_pod_ips = Option.bind status (jget ''podIPs''),
         pes_deletion_timestamp = Option.bind metadata (jget ''deletionTimestamp'')\<rparr>)"

definition pod_endpoint_state_changed :: "json \<Rightarrow> json \<Rightarrow> bool"
where
  "pod_endpoint_state_changed previous updated =
    endpoint_state_differs_from (pod_endpoint_state_of previous) (pod_endpoint_state_of updated)"


section \<open>Normalisation\<close>

lemma try_from_data_eq_lossy:
  "try_from_data data = Ok r \<Longrightarrow> r = from_data_lossy data"
  by (auto simp: try_from_data_def from_data_lossy_def split: option.splits)

lemma try_from_data_Ok_iff:
  "(\<exists>r. try_from_data data = Ok r) \<longleftrightarrow>
    get_str ''apiVersion'' data \<noteq> None \<and> get_str ''kind'' data \<noteq> None
    \<and> str_at [''metadata'', ''name''] data \<noteq> None"
  by (auto simp: try_from_data_def split: option.splits)

lemma try_from_watch_event_Ok_iff:
  "try_from_watch_event data = Ok r \<longleftrightarrow> try_from_data data = Ok r"
  by (auto simp: try_from_watch_event_def try_from_data_def split: option.splits)

lemma endpoint_state_differs_iff: "endpoint_state_differs_from a b \<longleftrightarrow> a \<noteq> b"
  by (cases a; cases b) (auto simp: endpoint_state_differs_from_def)

end
