(* ===== verification/Resource_Apply.thy ===== *)
theory Resource_Apply
  imports Json_Value
begin

text \<open>
  The resource-apply decisions of \<^verbatim>\<open>klights-cluster-core/src/apply.rs\<close>, shared by the
  persistence adapters: structural and compare-and-swap preconditions, the put and
  delete decisions with the watch transition they produce, the freshness of a status
  stamp, and the two equality tests on resource bodies.
\<close>

section \<open>Preconditions\<close>

record apply_preconditions =
  ap_require_absent :: bool
  ap_require_existing :: bool
  ap_uid :: "string option"
  ap_resource_version :: "int option"

record current_resource_state =
  cr_uid :: "string option"
  cr_resource_version :: int

datatype apply_precondition_violation =
    AlreadyExists
  | NotFound
  | Uid (expected_uid: string) (actual_uid: "string option")
  | ResourceVersion (expected_rv: int) (actual_rv: int)

definition default_apply_preconditions :: apply_preconditions
where
  "default_apply_preconditions =
    \<lparr>ap_require_absent = False, ap_require_existing = False, ap_uid = None, ap_resource_version = None\<rparr>"

fun violation_message :: "apply_precondition_violation \<Rightarrow> string"
where
  "violation_message AlreadyExists = ''resource already exists''"
| "violation_message NotFound = ''resource not found''"
| "violation_message (Uid expected actual) =
    ''UID precondition failed: expected '' @ expected @ '' got '' @ unwrap_or actual ''<missing>''"
| "violation_message (ResourceVersion expected actual) =
    ''resourceVersion precondition failed: expected '' @ show_int expected @ '' got '' @ show_int actual"

definition validate_apply_preconditions ::
  "apply_preconditions \<Rightarrow> current_resource_state option \<Rightarrow> (unit, apply_precondition_violation) rust_result"
where
  "validate_apply_preconditions pre current =
    (if ap_require_absent pre \<and> current \<noteq> None then Err AlreadyExists
     else if ap_require_existing pre \<and> current = None then Err NotFound
     else case current of
       None \<Rightarrow> Ok ()
     | Some cur \<Rightarrow>
         (case ap_uid pre of
            Some expected \<Rightarrow>
              if cr_uid cur \<noteq> Some expected then Err (Uid expected (cr_uid cur))
              else (case ap_resource_version pre of
                      Some rv \<Rightarrow>
                        if cr_resource_version cur \<noteq> rv
                        then Err (ResourceVersion rv (cr_resource_version cur)) else Ok ()
                    | None \<Rightarrow> Ok ())
          | None \<Rightarrow>
              (case ap_resource_version pre of
                 Some rv \<Rightarrow>
                   if cr_resource_version cur \<noteq> rv
                   then Err (ResourceVersion rv (cr_resource_version cur)) else Ok ()
               | None \<Rightarrow> Ok ())))"


section \<open>Write, delete and status-stamp decisions\<close>

datatype resource_event_type = Added | Modified | Deleted

fun event_type_as_str :: "resource_event_type \<Rightarrow> string"
where
  "event_type_as_str Added = ''ADDED''"
| "event_type_as_str Modified = ''MODIFIED''"
| "event_type_as_str Deleted = ''DELETED''"

datatype resource_write_decision = WriteNoOp | Write resource_event_type

definition decide_resource_put :: "bool \<Rightarrow> bool \<Rightarrow> resource_write_decision"
where
  "decide_resource_put resource_exists same_resource_version_and_body =
    (if resource_exists \<and> same_resource_version_and_body then WriteNoOp
     else if resource_exists then Write Modified
     else Write Added)"

datatype resource_delete_decision = DeleteNoOp | Delete resource_event_type

definition decide_resource_delete ::
  "string option \<Rightarrow> int option \<Rightarrow> current_resource_state option
    \<Rightarrow> (resource_delete_decision, apply_precondition_violation) rust_result"
where
  "decide_resource_delete requested_uid expected_resource_version current =
    (case current of
       None \<Rightarrow> Ok DeleteNoOp
     | Some cur \<Rightarrow>
         if is_some_and requested_uid (\<lambda>uid. uid \<noteq> [] \<and> cr_uid cur \<noteq> Some uid) then Ok DeleteNoOp
         else result_bind
           (validate_apply_preconditions
             (default_apply_preconditions\<lparr>ap_resource_version := expected_resource_version\<rparr>) (Some cur))
           (\<lambda>_. Ok (Delete Deleted)))"

datatype status_stamp_decision = ApplyResourceMutation | RecordLedgerOnly

definition decide_status_stamp :: "int option \<Rightarrow> int option \<Rightarrow> status_stamp_decision"
where
  "decide_status_stamp last_applied_stamp incoming_stamp =
    (case (last_applied_stamp, incoming_stamp) of
       (Some last', Some incoming) \<Rightarrow>
         if incoming > 0 \<and> incoming \<le> last' then RecordLedgerOnly else ApplyResourceMutation
     | _ \<Rightarrow> ApplyResourceMutation)"


section \<open>Equality of resource bodies\<close>

definition objects_equal_ignoring_key :: "json \<Rightarrow> json \<Rightarrow> string \<Rightarrow> bool"
where
  "objects_equal_ignoring_key left right key =
    (case (left, right) of
       (JObject l, JObject r) \<Rightarrow>
         (let left_count = length (filter (\<lambda>k. k \<noteq> key) (map fst l));
              right_count = length (filter (\<lambda>k. k \<noteq> key) (map fst r))
          in left_count = right_count
             \<and> list_all (\<lambda>(k, v). k = key \<or> is_some_and (map_of r k) (\<lambda>w. w = v)) l)
     | _ \<Rightarrow> left = right)"

definition resource_bodies_equal_ignoring_metadata_field :: "json \<Rightarrow> json \<Rightarrow> string \<Rightarrow> bool"
where
  "resource_bodies_equal_ignoring_metadata_field left right metadata_field =
    (case (left, right) of
       (JObject l, JObject r) \<Rightarrow>
         length l = length r
         \<and> list_all (\<lambda>(k, v). is_some_and (map_of r k) (\<lambda>w.
              if k = ''metadata'' then objects_equal_ignoring_key v w metadata_field else v = w)) l
     | _ \<Rightarrow> left = right)"

definition server_metadata_keys :: "string list"
where
  "server_metadata_keys =
    [''resourceVersion'', ''uid'', ''creationTimestamp'', ''generation'',
     ''deletionTimestamp'', ''deletionGracePeriodSeconds'', ''managedFields'']"

definition strip_status_and_server_metadata :: "json \<Rightarrow> json"
where
  "strip_status_and_server_metadata v =
    (case as_object v of
       None \<Rightarrow> v
     | Some m \<Rightarrow> jmodify ''metadata'' (jdel_all server_metadata_keys) (jdel ''status'' (JObject m)))"

definition resource_client_owned_state_equal :: "json \<Rightarrow> json \<Rightarrow> bool"
where
  "resource_client_owned_state_equal left right \<longleftrightarrow>
    strip_status_and_server_metadata left = strip_status_and_server_metadata right"


section \<open>What the preconditions decide\<close>

text \<open>The admission condition of the optimistic-concurrency contract, stated without the
  order in which the code tests it.\<close>

definition cas_admits :: "apply_preconditions \<Rightarrow> current_resource_state option \<Rightarrow> bool"
where
  "cas_admits pre current \<longleftrightarrow>
    (current \<noteq> None \<longrightarrow> \<not> ap_require_absent pre) \<and>
    (current = None \<longrightarrow> \<not> ap_require_existing pre) \<and>
    (\<forall>cur. current = Some cur \<longrightarrow>
       ap_uid pre \<in> {None, cr_uid cur} \<and> ap_resource_version pre \<in> {None, Some (cr_resource_version cur)})"

lemma validate_Ok_iff:
  "validate_apply_preconditions pre current = Ok () \<longleftrightarrow> cas_admits pre current"
  by (auto simp: validate_apply_preconditions_def cas_admits_def split: option.split)

lemma validate_default_rv:
  "validate_apply_preconditions (default_apply_preconditions\<lparr>ap_resource_version := rv\<rparr>) (Some cur) =
    (if rv \<in> {None, Some (cr_resource_version cur)} then Ok ()
     else Err (ResourceVersion (the rv) (cr_resource_version cur)))"
  by (auto simp: validate_apply_preconditions_def default_apply_preconditions_def split: option.split)

lemma decide_resource_delete_Delete_iff:
  "decide_resource_delete requested rv current = Ok (Delete e) \<longleftrightarrow>
    e = Deleted \<and> (\<exists>cur. current = Some cur
      \<and> (requested \<in> {None, Some [], cr_uid cur}) \<and> rv \<in> {None, Some (cr_resource_version cur)})"
  by (cases requested; cases current)
    (auto simp: decide_resource_delete_def validate_default_rv split: if_splits)


section \<open>The equality tests against their reference\<close>

lemma filter_keys_om_remove: "filter (\<lambda>k. k \<noteq> key) (map fst m) = map fst (om_remove key m)"
  by (simp add: om_remove_def filter_map comp_def)

lemma objects_equal_ignoring_key_iff:
  assumes "wf_json left" and "wf_json right"
  shows "objects_equal_ignoring_key left right key \<longleftrightarrow> jdel key left = jdel key right"
proof (cases "is_object left \<and> is_object right")
  case True
  then obtain l r where lr: "left = JObject l" "right = JObject r"
    by (auto simp: is_object_iff)
  have wf: "om_wf l" "om_wf r"
    using assms lr by simp_all
  have "objects_equal_ignoring_key left right key \<longleftrightarrow>
      length (om_remove key l) = length (om_remove key r)
        \<and> map_of (om_remove key l) \<subseteq>\<^sub>m map_of (om_remove key r)"
    using wf lr
    by (auto simp: objects_equal_ignoring_key_def filter_keys_om_remove om_list_all_iff map_le_iff
        is_some_and_iff)
  also have "\<dots> \<longleftrightarrow> om_remove key l = om_remove key r"
    using wf by (intro om_eq_iff_le_length) simp_all
  finally show ?thesis
    using lr by simp
next
  case False
  then show ?thesis
    by (cases left; cases right) (simp_all add: objects_equal_ignoring_key_def)
qed

definition without_metadata_field :: "string \<Rightarrow> json \<Rightarrow> json"
  where "without_metadata_field field v = jmodify ''metadata'' (jdel field) v"

lemma resource_bodies_equal_iff:
  assumes "wf_json left" and "wf_json right"
  shows "resource_bodies_equal_ignoring_metadata_field left right field \<longleftrightarrow>
    without_metadata_field field left = without_metadata_field field right"
proof (cases "is_object left \<and> is_object right")
  case True
  then obtain l r where lr: "left = JObject l" "right = JObject r"
    by (auto simp: is_object_iff)
  let ?g = "om_modify ''metadata'' (jdel field)"
  have wf: "om_wf l" "om_wf r"
    using assms lr by simp_all
  have sub: "objects_equal_ignoring_key v w field \<longleftrightarrow> jdel field v = jdel field w"
    if "map_of l k = Some v" "map_of r k = Some w" for k v w
    using that assms lr wf_json_jget [of left k v] wf_json_jget [of right k w]
    by (intro objects_equal_ignoring_key_iff) simp_all
  have "(\<forall>v. map_of l k = Some v \<longrightarrow> is_some_and (map_of r k)
          (\<lambda>w. if k = ''metadata'' then objects_equal_ignoring_key v w field else v = w))
        \<longleftrightarrow> (\<forall>v. map_of (?g l) k = Some v \<longrightarrow> map_of (?g r) k = Some v)" for k
    by (cases "map_of l k"; cases "map_of r k") (auto simp: sub)
  then have "resource_bodies_equal_ignoring_metadata_field left right field \<longleftrightarrow>
      length (?g l) = length (?g r) \<and> map_of (?g l) \<subseteq>\<^sub>m map_of (?g r)"
    using wf lr
    by (simp add: resource_bodies_equal_ignoring_metadata_field_def om_list_all_iff map_le_iff
        del: map_of_om_modify)
  also have "\<dots> \<longleftrightarrow> ?g l = ?g r"
    using wf by (intro om_eq_iff_le_length) simp_all
  finally show ?thesis
    using lr by (simp add: without_metadata_field_def jmodify_JObject)
next
  case False
  then show ?thesis
    by (cases left; cases right)
      (simp_all add: resource_bodies_equal_ignoring_metadata_field_def without_metadata_field_def
        jmodify_JObject)
qed

text \<open>What stripping leaves of a document.\<close>

lemma strip_eq:
  "strip_status_and_server_metadata v =
    jmodify ''metadata'' (jdel_all server_metadata_keys) (jdel ''status'' v)"
  by (cases v) (simp_all add: strip_status_and_server_metadata_def jmodify_def)

lemma jget_strip:
  "jget k (strip_status_and_server_metadata v) =
    (if k = ''status'' then None
     else if k = ''metadata'' then map_option (jdel_all server_metadata_keys) (jget k v)
     else jget k v)"
  by (simp add: strip_eq)

lemma wf_json_strip: "wf_json v \<Longrightarrow> wf_json (strip_status_and_server_metadata v)"
  by (simp add: strip_eq wf_json_jmodify)

lemma client_owned_equal_iff:
  assumes "wf_json l" and "wf_json r" and "is_object l" and "is_object r"
  shows "resource_client_owned_state_equal l r \<longleftrightarrow>
    (\<forall>k. jget k (strip_status_and_server_metadata l) = jget k (strip_status_and_server_metadata r))"
proof -
  have "is_object (strip_status_and_server_metadata v) \<longleftrightarrow> is_object v" for v
    by (simp add: strip_eq)
  then show ?thesis
    unfolding resource_client_owned_state_equal_def
    using json_object_ext [OF wf_json_strip wf_json_strip, of l r] assms by auto
qed


section \<open>Properties\<close>

text \<open>C27: Optimistic concurrency is decided exactly. The preconditions of an apply are accepted if
  and only if the presence requirement holds and, for an existing object, the expected UID and
  resourceVersion, where given, are the current ones.\<close>

theorem cas_validation_exact:
  "validate_apply_preconditions pre current = Ok () \<longleftrightarrow> cas_admits pre current"
  by (rule validate_Ok_iff)

text \<open>C28: A delete removes only the object it names. The decision is to delete exactly when an
  object exists, the requested UID is absent, empty or that of the object, and the expected
  resourceVersion is absent or the current one; the event is then DELETED.\<close>

theorem delete_only_bound_object:
  "decide_resource_delete requested rv current = Ok (Delete e) \<longleftrightarrow>
    e = Deleted \<and> (\<exists>cur. current = Some cur
      \<and> requested \<in> {None, Some [], cr_uid cur} \<and> rv \<in> {None, Some (cr_resource_version cur)})"
  by (rule decide_resource_delete_Delete_iff)

text \<open>The one-pass comparison of two resource bodies is equality up to one metadata field. On
  well-formed documents it holds exactly when the documents are equal after removing that field
  from the metadata object of each.\<close>

lemma body_equality_exact:
  assumes "wf_json left" and "wf_json right"
  shows "resource_bodies_equal_ignoring_metadata_field left right field \<longleftrightarrow>
    without_metadata_field field left = without_metadata_field field right"
  using assms by (rule resource_bodies_equal_iff)

definition example_body :: "string \<Rightarrow> json"
where
  "example_body rv =
    JObject [(''kind'', JString ''Pod''), (''metadata'', JObject [(''resourceVersion'', JString rv)])]"

text \<open>Client-owned equality ignores exactly the status and the server-managed metadata. Two
  well-formed objects are equal for it if and only if all their other fields agree and their
  metadata agree outside the server-managed keys.\<close>

lemma client_owned_equality_exact:
  assumes "wf_json left" and "wf_json right" and "is_object left" and "is_object right"
  shows "resource_client_owned_state_equal left right \<longleftrightarrow>
    (\<forall>k. k \<in> {''status'', ''metadata''} \<or> jget k left = jget k right)
    \<and> map_option (jdel_all server_metadata_keys) (jget ''metadata'' left)
      = map_option (jdel_all server_metadata_keys) (jget ''metadata'' right)"
  unfolding client_owned_equal_iff [OF assms] jget_strip by (auto simp: if_distrib)

end
