(* ===== verification/Watch_Replay.thy ===== *)
theory Watch_Replay
  imports Resource_Model
begin

text \<open>
  Durable watch replay: the composite cursor of \<^verbatim>\<open>klights-cluster-core/src/replay.rs\<close>, the
  retention boundaries of \<^verbatim>\<open>klights-cluster-store/src/replay_retention.rs\<close>, the validated
  history page of \<^verbatim>\<open>durable_recovery.rs\<close> and \<^verbatim>\<open>raw_watch_history.rs\<close>, and the bounded
  positioned reads of the two storage backends (\<^verbatim>\<open>redb/read_core.rs\<close> and the row predicate
  of the SQLite query in \<^verbatim>\<open>sqlite/read_store.rs\<close>).

  The watch log of a database is the list of its rows in increasing event-id order.
\<close>

section \<open>The cursor\<close>

record watch_replay_position =
  wrp_resource_version :: int
  wrp_event_id :: int
  wrp_filter_through :: int

datatype replay_position_error =
    NegativePosition watch_replay_position
  | CompletedFilterBoundary watch_replay_position
  | ExactCarriesFilter watch_replay_position
  | EventNotFollowing watch_replay_position watch_replay_position
  | EventExcluded watch_replay_position watch_replay_position
  | HighWaterRegresses int watch_replay_position

definition from_resource_version :: "int \<Rightarrow> watch_replay_position"
where
  "from_resource_version rv =
    \<lparr>wrp_resource_version = rv, wrp_event_id = 0, wrp_filter_through = 0\<rparr>"

definition from_resource_version_through_event_id :: "int \<Rightarrow> int \<Rightarrow> watch_replay_position"
where
  "from_resource_version_through_event_id rv event_id =
    \<lparr>wrp_resource_version = rv, wrp_event_id = 0, wrp_filter_through = event_id\<rparr>"

definition represents_event :: "watch_replay_position \<Rightarrow> int \<Rightarrow> int \<Rightarrow> bool"
where
  "represents_event p event_id resource_version =
    (if event_id \<le> wrp_event_id p then True
     else if wrp_filter_through p > 0
     then event_id \<le> wrp_filter_through p \<and> resource_version \<le> wrp_resource_version p
     else wrp_event_id p = 0 \<and> resource_version \<le> wrp_resource_version p)"

definition validate_position :: "watch_replay_position \<Rightarrow> (unit, replay_position_error) rust_result"
where
  "validate_position p =
    (if wrp_resource_version p < 0 \<or> wrp_event_id p < 0 \<or> wrp_filter_through p < 0
     then Err (NegativePosition p)
     else if wrp_filter_through p > 0 \<and> wrp_event_id p \<ge> wrp_filter_through p
     then Err (CompletedFilterBoundary p)
     else Ok ())"

definition validate_exact :: "watch_replay_position \<Rightarrow> (unit, replay_position_error) rust_result"
where
  "validate_exact p =
    result_bind (validate_position p)
      (\<lambda>_. if wrp_filter_through p \<noteq> 0 then Err (ExactCarriesFilter p) else Ok ())"

definition permits_successor :: "watch_replay_position \<Rightarrow> watch_replay_position \<Rightarrow> bool"
where
  "permits_successor p next =
    (if isl (validate_position p) \<or> isl (validate_position next) then False
     else if wrp_event_id next < wrp_event_id p then False
     else if wrp_event_id next = wrp_event_id p then next = p
     else (let boundary = wrp_filter_through p in
       if boundary = 0 then wrp_filter_through next = 0
       else if wrp_event_id next < boundary
       then wrp_resource_version next = wrp_resource_version p \<and> wrp_filter_through next = boundary
       else wrp_filter_through next = 0))"

definition advance_through_event ::
  "watch_replay_position \<Rightarrow> watch_replay_position
    \<Rightarrow> (watch_replay_position, replay_position_error) rust_result"
where
  "advance_through_event p event =
    result_bind (validate_position p) (\<lambda>_.
    result_bind (validate_exact event) (\<lambda>_.
      if wrp_event_id event \<le> wrp_event_id p then Err (EventNotFollowing event p)
      else if wrp_filter_through p > 0 \<and> wrp_event_id event \<le> wrp_filter_through p
              \<and> wrp_resource_version event \<le> wrp_resource_version p
      then Err (EventExcluded event p)
      else Ok (if wrp_filter_through p > 0 \<and> wrp_event_id event < wrp_filter_through p
               then \<lparr>wrp_resource_version = wrp_resource_version p,
                     wrp_event_id = wrp_event_id event,
                     wrp_filter_through = wrp_filter_through p\<rparr>
               else event)))"

definition advance_to_high_water ::
  "watch_replay_position \<Rightarrow> int \<Rightarrow> (watch_replay_position, replay_position_error) rust_result"
where
  "advance_to_high_water p high_water_event_id =
    result_bind (validate_position p) (\<lambda>_.
      if high_water_event_id < wrp_event_id p then Err (HighWaterRegresses high_water_event_id p)
      else if high_water_event_id = wrp_event_id p then Ok p
      else Ok \<lparr>wrp_resource_version = wrp_resource_version p,
               wrp_event_id = high_water_event_id,
               wrp_filter_through =
                 (if high_water_event_id < wrp_filter_through p then wrp_filter_through p else 0)\<rparr>)"

record 'a positioned_watch_event =
  pwe_position :: watch_replay_position
  pwe_event :: 'a

text \<open>\<^verbatim>\<open>after_page\<close> unwraps the result of the transition: an error here is a panic of the
  code.\<close>

definition after_page ::
  "watch_replay_position \<Rightarrow> 'a positioned_watch_event list \<Rightarrow> int
    \<Rightarrow> (watch_replay_position, replay_position_error) rust_result"
where
  "after_page current events high_water_event_id =
    (if events \<noteq> [] then advance_through_event current (pwe_position (last events))
     else advance_to_high_water current high_water_event_id)"


section \<open>Retention boundaries\<close>

datatype replay_retention_boundary =
    ExactBoundary watch_replay_position
  | LegacyRvOnly int

datatype replay_availability = Available | Expired

fun classify :: "replay_retention_boundary \<Rightarrow> watch_replay_position \<Rightarrow> replay_availability"
where
  "classify (ExactBoundary floor) cursor =
    (if wrp_event_id cursor > 0
     then (if wrp_event_id cursor < wrp_event_id floor then Expired else Available)
     else if wrp_filter_through cursor > 0
     then (if wrp_resource_version cursor < wrp_resource_version floor
              \<or> wrp_filter_through cursor < wrp_event_id floor
           then Expired else Available)
     else if wrp_resource_version cursor < wrp_resource_version floor then Expired else Available)"
| "classify (LegacyRvOnly rv) cursor =
    (if wrp_event_id cursor > 0 \<or> wrp_filter_through cursor > 0 \<or> wrp_resource_version cursor < rv
     then Expired else Available)"

definition classify_all ::
  "replay_retention_boundary list \<Rightarrow> watch_replay_position \<Rightarrow> replay_availability"
where
  "classify_all boundaries cursor =
    (if list_ex (\<lambda>b. classify b cursor = Expired) boundaries then Expired else Available)"

fun exact_position :: "replay_retention_boundary \<Rightarrow> watch_replay_position option"
where
  "exact_position (ExactBoundary p) = Some p"
| "exact_position (LegacyRvOnly _) = None"

text \<open>\<^verbatim>\<open>Iterator::max_by_key\<close>: the last of the elements with the greatest key.\<close>

fun max_by_key :: "('a \<Rightarrow> int) \<Rightarrow> 'a \<Rightarrow> 'a list \<Rightarrow> 'a"
where
  "max_by_key f best [] = best"
| "max_by_key f best (x # xs) = max_by_key f (if f best \<le> f x then x else best) xs"

definition retain_exact ::
  "replay_retention_boundary list \<Rightarrow> watch_replay_position \<Rightarrow> replay_retention_boundary list"
where
  "retain_exact boundaries candidate =
    (let exact = List.map_filter exact_position boundaries @ [candidate];
         highest_resource_version = max_by_key wrp_resource_version (hd exact) (tl exact);
         highest_event_id = max_by_key wrp_event_id (hd exact) (tl exact)
     in filter (\<lambda>b. exact_position b = None) boundaries
        @ [ExactBoundary highest_resource_version]
        @ (if highest_event_id \<noteq> highest_resource_version then [ExactBoundary highest_event_id] else []))"


section \<open>History pages\<close>

record durable_watch_event =
  dwe_event_type :: string
  dwe_resource :: resource

datatype watch_history_error =
    CorruptPosition replay_position_error
  | DuplicateOrOutOfOrder
  | EventExceedsPage
  | InvalidContinuation replay_position_error
  | NotCanonicalContinuation watch_replay_position watch_replay_position
  | LimitTooLarge nat nat

definition max_watch_history_page :: nat
  where "max_watch_history_page = 4096"

record 'a watch_history_page =
  whp_events :: "'a positioned_watch_event list"
  whp_next_position :: watch_replay_position

fun map_err :: "('e \<Rightarrow> 'f) \<Rightarrow> ('a, 'e) rust_result \<Rightarrow> ('a, 'f) rust_result"
where
  "map_err f (Inl e) = Inl (f e)"
| "map_err f (Inr a) = Inr a"

text \<open>The loop of \<^verbatim>\<open>WatchHistoryPage::try_new\<close> over the events, with the id of the prior
  event.\<close>

fun check_page_events ::
  "int option \<Rightarrow> watch_replay_position \<Rightarrow> 'a positioned_watch_event list
    \<Rightarrow> (unit, watch_history_error) rust_result"
where
  "check_page_events prior next [] = Ok ()"
| "check_page_events prior next (event # events) =
    result_bind (map_err CorruptPosition (validate_position (pwe_position event))) (\<lambda>_.
      if is_some_and prior (\<lambda>p. wrp_event_id (pwe_position event) \<le> p) then Err DuplicateOrOutOfOrder
      else if wrp_event_id (pwe_position event) > wrp_event_id next then Err EventExceedsPage
      else check_page_events (Some (wrp_event_id (pwe_position event))) next events)"

definition watch_history_page_try_new ::
  "'a positioned_watch_event list \<Rightarrow> watch_replay_position
    \<Rightarrow> ('a watch_history_page, watch_history_error) rust_result"
where
  "watch_history_page_try_new events next =
    result_bind (map_err CorruptPosition (validate_position next)) (\<lambda>_.
    result_bind (check_page_events None next events) (\<lambda>_.
      Ok \<lparr>whp_events = events, whp_next_position = next\<rparr>))"

definition validate_event_count :: "nat \<Rightarrow> (unit, watch_history_error) rust_result"
where
  "validate_event_count len =
    (if len > max_watch_history_page then Err (LimitTooLarge len max_watch_history_page) else Ok ())"

definition positioned_raw_page_try_new ::
  "'a positioned_watch_event list \<Rightarrow> watch_replay_position
    \<Rightarrow> ('a watch_history_page, watch_history_error) rust_result"
where
  "positioned_raw_page_try_new events next =
    result_bind (validate_event_count (length events)) (\<lambda>_. watch_history_page_try_new events next)"

text \<open>Folding the positions of a page's events through a cursor.\<close>

fun advance_all ::
  "watch_replay_position \<Rightarrow> 'a positioned_watch_event list
    \<Rightarrow> (watch_replay_position, replay_position_error) rust_result"
where
  "advance_all cursor [] = Ok cursor"
| "advance_all cursor (event # events) =
    result_bind (advance_through_event cursor (pwe_position event)) (\<lambda>c. advance_all c events)"

definition validate_after ::
  "'a watch_history_page \<Rightarrow> watch_replay_position \<Rightarrow> (unit, watch_history_error) rust_result"
where
  "validate_after page requested =
    result_bind (map_err CorruptPosition (validate_position requested)) (\<lambda>_.
    result_bind (map_err InvalidContinuation (advance_all requested (whp_events page))) (\<lambda>cursor.
      if \<not> permits_successor cursor (whp_next_position page)
      then Err (NotCanonicalContinuation (whp_next_position page) cursor)
      else Ok ()))"


section \<open>Validity and order of cursors\<close>

definition valid_position :: "watch_replay_position \<Rightarrow> bool"
where
  "valid_position p \<longleftrightarrow>
    0 \<le> wrp_resource_version p \<and> 0 \<le> wrp_event_id p \<and> 0 \<le> wrp_filter_through p
    \<and> (wrp_filter_through p > 0 \<longrightarrow> wrp_event_id p < wrp_filter_through p)"

text \<open>A cursor given by a resourceVersion alone: it has neither an event id nor a filter
  boundary.\<close>

definition scalar_cursor :: "watch_replay_position \<Rightarrow> bool"
  where "scalar_cursor p \<longleftrightarrow> wrp_event_id p = 0 \<and> wrp_filter_through p = 0"

lemma validate_position_Ok_iff: "validate_position p = Ok u \<longleftrightarrow> valid_position p"
  by (auto simp: validate_position_def valid_position_def)

lemma validate_position_isl_iff [simp]: "isl (validate_position p) \<longleftrightarrow> \<not> valid_position p"
  by (auto simp: validate_position_def valid_position_def)

lemma validate_exact_Ok_iff:
  "validate_exact p = Ok u \<longleftrightarrow> valid_position p \<and> wrp_filter_through p = 0"
  by (auto simp: validate_exact_def validate_position_Ok_iff)

lemma map_err_Ok_iff [simp]: "map_err f r = Inr a \<longleftrightarrow> r = Inr a"
  by (cases r) simp_all

lemmas replay_defs = permits_successor_def valid_position_def Let_def

lemma permits_successor_valid:
  "permits_successor p q \<Longrightarrow> valid_position p \<and> valid_position q"
  by (simp add: permits_successor_def split: if_splits)

lemma permits_successor_refl: "permits_successor p p \<longleftrightarrow> valid_position p"
  by (simp add: permits_successor_def)

lemma permits_successor_trans:
  "permits_successor p q \<Longrightarrow> permits_successor q r \<Longrightarrow> permits_successor p r"
  by (auto simp: replay_defs split: if_splits)

lemma permits_successor_antisym:
  "permits_successor p q \<Longrightarrow> permits_successor q p \<Longrightarrow> p = q"
  by (auto simp: replay_defs split: if_splits)

lemma represents_successor:
  assumes "permits_successor p q" and "\<not> scalar_cursor p" and "represents_event p e rv"
  shows "represents_event q e rv"
  using assms by (auto simp: replay_defs scalar_cursor_def represents_event_def split: if_splits)

lemma successor_not_scalar:
  "permits_successor p q \<Longrightarrow> \<not> scalar_cursor p \<Longrightarrow> \<not> scalar_cursor q"
  by (auto simp: replay_defs scalar_cursor_def split: if_splits)


section \<open>Advancing\<close>

abbreviation event_position :: "int \<Rightarrow> int \<Rightarrow> watch_replay_position"
where
  "event_position event_id rv \<equiv>
    \<lparr>wrp_resource_version = rv, wrp_event_id = event_id, wrp_filter_through = 0\<rparr>"

definition advanced :: "watch_replay_position \<Rightarrow> watch_replay_position \<Rightarrow> watch_replay_position"
where
  "advanced p event =
    (if wrp_filter_through p > 0 \<and> wrp_event_id event < wrp_filter_through p
     then p\<lparr>wrp_event_id := wrp_event_id event\<rparr> else event)"

lemma advance_through_event_Ok_iff:
  "advance_through_event p event = Ok q \<longleftrightarrow>
    valid_position p \<and> valid_position event \<and> wrp_filter_through event = 0
    \<and> wrp_event_id p < wrp_event_id event
    \<and> (scalar_cursor p \<or> \<not> represents_event p (wrp_event_id event) (wrp_resource_version event))
    \<and> q = advanced p event"
  by (cases p)
    (auto simp: advance_through_event_def validate_position_Ok_iff validate_exact_Ok_iff
      scalar_cursor_def represents_event_def advanced_def valid_position_def)

lemma advanced_permitted:
  assumes "valid_position p" and "valid_position event" and "wrp_filter_through event = 0"
    and "wrp_event_id p < wrp_event_id event"
  shows "permits_successor p (advanced p event)"
  using assms by (auto simp: replay_defs advanced_def)

lemma represents_advanced:
  assumes "valid_position p" and "\<not> scalar_cursor p" and "wrp_event_id p < wrp_event_id event"
    and "wrp_filter_through event = 0"
  shows "represents_event (advanced p event) e rv \<longleftrightarrow>
    represents_event p e rv \<or> e \<le> wrp_event_id event"
  using assms
  by (auto simp: advanced_def represents_event_def scalar_cursor_def valid_position_def)

lemma advance_to_high_water_Ok_iff:
  "advance_to_high_water p hw = Ok q \<longleftrightarrow>
    valid_position p \<and> wrp_event_id p \<le> hw \<and>
    q = (if hw = wrp_event_id p then p
         else p\<lparr>wrp_event_id := hw,
                wrp_filter_through := (if hw < wrp_filter_through p then wrp_filter_through p else 0)\<rparr>)"
  by (cases p) (auto simp: advance_to_high_water_def validate_position_Ok_iff)

lemma advance_to_high_water_permitted:
  "advance_to_high_water p hw = Ok q \<Longrightarrow> permits_successor p q"
  by (auto simp: advance_to_high_water_Ok_iff replay_defs)

lemma represents_high_water:
  assumes "advance_to_high_water p hw = Ok q" and "\<not> scalar_cursor p"
  shows "represents_event q e rv \<longleftrightarrow> represents_event p e rv \<or> e \<le> hw"
  using assms
  by (auto simp: advance_to_high_water_Ok_iff represents_event_def scalar_cursor_def valid_position_def)


section \<open>The interface of a replay cursor\<close>

text \<open>What the readers of the log rely on: an unrepresented event can be advanced through,
  and afterwards exactly the events up to it have become represented. From this, a page
  of unrepresented events taken in order can be folded through the cursor, and the
  next page starts where this one ended.\<close>

locale replay_cursor =
  fixes valid :: "'c \<Rightarrow> bool"
    and represents :: "'c \<Rightarrow> 'e \<Rightarrow> bool"
    and advance :: "'c \<Rightarrow> 'e \<Rightarrow> ('c, 'x) rust_result"
    and pos :: "'e \<Rightarrow> int"
    and wf_event :: "'e \<Rightarrow> bool"
  assumes advance_defined:
      "valid c \<Longrightarrow> wf_event e \<Longrightarrow> \<not> represents c e \<Longrightarrow> \<exists>c'. advance c e = Ok c'"
    and advance_valid: "valid c \<Longrightarrow> advance c e = Ok c' \<Longrightarrow> valid c'"
    and represents_advance:
      "valid c \<Longrightarrow> advance c e = Ok c' \<Longrightarrow> represents c' e' \<longleftrightarrow> represents c e' \<or> pos e' \<le> pos e"
begin

lemma fold_advance:
  assumes "valid c" and "sorted_wrt (<) (map pos es)"
    and "\<forall>e \<in> set es. wf_event e \<and> \<not> represents c e"
  shows "\<exists>c'. foldl (\<lambda>r e. result_bind r (\<lambda>c. advance c e)) (Ok c) es = Ok c' \<and> valid c'
    \<and> (\<forall>e'. represents c' e' \<longleftrightarrow> represents c e' \<or> (\<exists>e \<in> set es. pos e' \<le> pos e))"
  using assms
proof (induction es arbitrary: c)
  case Nil
  then show ?case by simp
next
  case (Cons e es)
  then obtain c1 where c1: "advance c e = Ok c1"
    using advance_defined [of c e] by fastforce
  have "\<forall>e' \<in> set es. wf_event e' \<and> \<not> represents c1 e'"
    using Cons.prems represents_advance [OF Cons.prems(1) c1] by auto
  moreover have "valid c1"
    using Cons.prems(1) c1 by (rule advance_valid)
  moreover have "sorted_wrt (<) (map pos es)"
    using Cons.prems(2) by simp
  ultimately obtain c' where
      "foldl (\<lambda>r e. result_bind r (\<lambda>c. advance c e)) (Ok c1) es = Ok c'" "valid c'"
      "\<forall>e'. represents c' e' \<longleftrightarrow> represents c1 e' \<or> (\<exists>e \<in> set es. pos e' \<le> pos e)"
    using Cons.IH by blast
  then show ?case
    using c1 represents_advance [OF Cons.prems(1) c1] by auto
qed

lemma next_page_continues:
  assumes "sorted_wrt (<) (map pos rows)"
    and "\<forall>e'. represents c' e' \<longleftrightarrow>
      represents c e' \<or> (\<exists>e \<in> set (take n (filter (\<lambda>e. \<not> represents c e) rows)). pos e' \<le> pos e)"
  shows "filter (\<lambda>e. \<not> represents c' e) rows = drop n (filter (\<lambda>e. \<not> represents c e) rows)"
proof -
  let ?open = "filter (\<lambda>e. \<not> represents c e) rows"
  have sorted: "sorted_wrt (\<lambda>a b. pos a < pos b) ?open"
    using assms(1) by (simp add: sorted_wrt_map sorted_wrt_filter)
  have "sorted_wrt (\<lambda>a b. pos a < pos b) (take n ?open @ drop n ?open)"
    using sorted by simp
  then have later: "\<forall>a \<in> set (take n ?open). \<forall>b \<in> set (drop n ?open). pos a < pos b"
    unfolding sorted_wrt_append by blast
  have "filter (\<lambda>e. \<not> represents c' e) rows
      = filter (\<lambda>e'. \<not> (\<exists>e \<in> set (take n ?open). pos e' \<le> pos e)) ?open" (is "_ = filter ?P ?open")
    using assms(2) by simp
  also have "\<dots> = filter ?P (take n ?open) @ filter ?P (drop n ?open)"
    by (simp flip: filter_append)
  also have "filter ?P (take n ?open) = []"
    by (auto simp: filter_empty_conv)
  also have "filter ?P (drop n ?open) = drop n ?open"
    using later by (intro filter_True) (auto simp: not_le)
  finally show ?thesis by simp
qed

end

definition wf_log_event :: "watch_replay_position \<Rightarrow> bool"
where
  "wf_log_event e \<longleftrightarrow>
    0 < wrp_event_id e \<and> 0 \<le> wrp_resource_version e \<and> wrp_filter_through e = 0"

definition represents_position :: "watch_replay_position \<Rightarrow> watch_replay_position \<Rightarrow> bool"
  where "represents_position p e = represents_event p (wrp_event_id e) (wrp_resource_version e)"

definition positioned_cursor :: "watch_replay_position \<Rightarrow> bool"
  where "positioned_cursor p \<longleftrightarrow> valid_position p \<and> \<not> scalar_cursor p"

interpretation wrp: replay_cursor positioned_cursor represents_position advance_through_event
  wrp_event_id wf_log_event
proof
  fix p e
  assume p: "positioned_cursor p" and e: "wf_log_event e" "\<not> represents_position p e"
  then have "advance_through_event p e = Ok (advanced p e)"
    by (auto simp: advance_through_event_Ok_iff positioned_cursor_def wf_log_event_def
        represents_position_def represents_event_def valid_position_def split: if_splits)
  then show "\<exists>q. advance_through_event p e = Ok q"
    by blast
next
  fix p e q
  assume "positioned_cursor p" and "advance_through_event p e = Ok q"
  then show "positioned_cursor q"
    using advanced_permitted [of p e] permits_successor_valid [of p q] successor_not_scalar [of p q]
    by (auto simp: advance_through_event_Ok_iff positioned_cursor_def)
next
  fix p e q e'
  assume "positioned_cursor p" and "advance_through_event p e = Ok q"
  then show "represents_position q e' \<longleftrightarrow> represents_position p e' \<or> wrp_event_id e' \<le> wrp_event_id e"
    by (auto simp: advance_through_event_Ok_iff positioned_cursor_def represents_position_def
        represents_advanced)
qed

text \<open>The same for events that carry their position.\<close>

interpretation pwe: replay_cursor positioned_cursor "\<lambda>p e. represents_position p (pwe_position e)"
  "\<lambda>p e. advance_through_event p (pwe_position e)" "\<lambda>e. wrp_event_id (pwe_position e)"
  "\<lambda>e. wf_log_event (pwe_position e)"
  by unfold_locales (auto intro: wrp.advance_defined wrp.advance_valid simp: wrp.represents_advance)

lemma advance_all_foldl:
  "advance_all c es = foldl (\<lambda>r e. result_bind r (\<lambda>c. advance_through_event c (pwe_position e))) (Ok c) es"
proof -
  have "foldl (\<lambda>r e. result_bind r (\<lambda>c. advance_through_event c (pwe_position e))) r es
      = result_bind r (\<lambda>c. advance_all c es)" for r
  proof (induction es arbitrary: r)
    case (Cons e es)
    then show ?case by (cases r) simp_all
  next
    case Nil
    then show ?case by (cases r) simp_all
  qed
  then show ?thesis by simp
qed

text \<open>Folding all events of a page gives the cursor that \<^const>\<open>after_page\<close> computes from the
  last one alone.\<close>

lemma advanced_advanced:
  assumes "wrp_filter_through e = 0" and "wrp_event_id e < wrp_event_id e'"
  shows "advanced (advanced p e) e' = advanced p e'"
  using assms by (auto simp: advanced_def)

lemma event_id_advanced [simp]: "wrp_event_id (advanced p e) = wrp_event_id e"
  by (simp add: advanced_def)

lemma advance_all_follow:
  "advance_all p es = Ok q \<Longrightarrow> e \<in> set es \<Longrightarrow> wrp_event_id p < wrp_event_id (pwe_position e)"
  by (induction es arbitrary: p) (fastforce simp: advance_through_event_Ok_iff)+

lemma advance_all_last:
  assumes "advance_all p es = Ok q" and "es \<noteq> []"
  shows "q = advanced p (pwe_position (last es))"
  using assms
proof (induction es arbitrary: p)
  case (Cons e es)
  then obtain p1 where p1: "advance_through_event p (pwe_position e) = Ok p1" "advance_all p1 es = Ok q"
    by auto
  then have p1': "p1 = advanced p (pwe_position e)" "wrp_filter_through (pwe_position e) = 0"
    by (simp_all add: advance_through_event_Ok_iff)
  show ?case
  proof (cases es)
    case Nil
    then show ?thesis using p1 p1' by simp
  next
    case (Cons e2 es2)
    have "q = advanced p1 (pwe_position (last es))"
      using Cons.IH p1(2) Cons by simp
    moreover have "wrp_event_id (pwe_position e) < wrp_event_id (pwe_position (last es))"
      using advance_all_follow [OF p1(2)] p1'(1) Cons by simp
    ultimately show ?thesis
      using p1' advanced_advanced Cons by simp
  qed
qed simp


section \<open>Compaction of retention boundaries\<close>

lemma max_by_key_in: "max_by_key f best xs \<in> insert best (set xs)"
  by (induction f best xs rule: max_by_key.induct) auto

lemma max_by_key_ge: "x \<in> insert best (set xs) \<Longrightarrow> f x \<le> f (max_by_key f best xs)"
proof (induction xs arbitrary: best x)
  case (Cons y ys)
  let ?best = "if f best \<le> f y then y else best"
  have "f ?best \<le> f (max_by_key f ?best ys)"
    by (rule Cons.IH) simp
  moreover have "f best \<le> f ?best" and "f y \<le> f ?best"
    by simp_all
  ultimately show ?case
    using Cons.IH [of x ?best] Cons.prems by auto
qed simp

lemma classify_Exact_Expired_mono:
  assumes "classify (ExactBoundary p) c = Expired"
    and "wrp_resource_version p \<le> wrp_resource_version q" and "wrp_event_id p \<le> wrp_event_id r"
  shows "classify (ExactBoundary q) c = Expired \<or> classify (ExactBoundary r) c = Expired"
  using assms by (auto split: if_splits)

lemma classify_all_Expired_iff:
  "classify_all bs c = Expired \<longleftrightarrow> (\<exists>b \<in> set bs. classify b c = Expired)"
  by (simp add: classify_all_def list_ex_iff)

lemma exact_position_Some_iff [simp]: "exact_position b = Some p \<longleftrightarrow> b = ExactBoundary p"
  by (cases b) simp_all

lemma set_map_filter_exact:
  "set (List.map_filter exact_position bs) = {p. ExactBoundary p \<in> set bs}"
  by (force simp: map_filter_def)

lemma classify_all_retain_exact_Expired_iff:
  "classify_all (retain_exact bs candidate) c = Expired \<longleftrightarrow>
    classify_all (bs @ [ExactBoundary candidate]) c = Expired"
proof -
  define exact where "exact = List.map_filter exact_position bs @ [candidate]"
  define top_rv where "top_rv = max_by_key wrp_resource_version (hd exact) (tl exact)"
  define top_id where "top_id = max_by_key wrp_event_id (hd exact) (tl exact)"
  have "exact \<noteq> []"
    by (simp add: exact_def)
  then have all: "insert (hd exact) (set (tl exact)) = set exact"
    by (cases exact) simp_all
  have mem: "p \<in> set exact \<longleftrightarrow> ExactBoundary p \<in> set bs \<or> p = candidate" for p
    by (auto simp: exact_def set_map_filter_exact)
  have "top_rv \<in> set exact" "top_id \<in> set exact"
    unfolding top_rv_def top_id_def all [symmetric] by (rule max_by_key_in)+
  moreover have "wrp_resource_version p \<le> wrp_resource_version top_rv"
      "wrp_event_id p \<le> wrp_event_id top_id" if "p \<in> set exact" for p
    using that unfolding top_rv_def top_id_def all [symmetric] by (auto intro!: max_by_key_ge)
  ultimately have tops: "(\<exists>p \<in> set exact. classify (ExactBoundary p) c = Expired) \<longleftrightarrow>
      classify (ExactBoundary top_rv) c = Expired \<or> classify (ExactBoundary top_id) c = Expired"
    using classify_Exact_Expired_mono by blast
  have "set (retain_exact bs candidate) =
      {b \<in> set bs. exact_position b = None} \<union> {ExactBoundary top_rv, ExactBoundary top_id}"
    by (auto simp: retain_exact_def Let_def exact_def top_rv_def top_id_def)
  moreover have "(\<exists>b \<in> set bs \<union> {ExactBoundary candidate}. classify b c = Expired) \<longleftrightarrow>
      (\<exists>b \<in> {b \<in> set bs. exact_position b = None}. classify b c = Expired)
      \<or> (\<exists>p \<in> set exact. classify (ExactBoundary p) c = Expired)"
  proof -
    have "b \<in> set bs \<union> {ExactBoundary candidate} \<longleftrightarrow>
        b \<in> {b \<in> set bs. exact_position b = None} \<or> (\<exists>p \<in> set exact. b = ExactBoundary p)" for b
      by (cases b) (auto simp: mem)
    then show ?thesis by blast
  qed
  ultimately show ?thesis
    unfolding classify_all_Expired_iff using tops by auto
qed

lemma classify_all_retain_exact:
  "classify_all (retain_exact bs candidate) c = classify_all (bs @ [ExactBoundary candidate]) c"
  using classify_all_retain_exact_Expired_iff [of bs candidate c]
  by (metis (full_types) replay_availability.exhaust)


section \<open>Properties\<close>

text \<open>Every cursor transition is canonical. Whenever \<^verbatim>\<open>advance_through_event\<close> or
  \<^verbatim>\<open>advance_to_high_water\<close> succeeds, the new cursor is a permitted successor of the old one (the
  debug assertions of both functions hold), it is valid, and its event id has not gone back.\<close>

lemma advance_is_canonical:
  assumes "advance_through_event p event = Ok q \<or> advance_to_high_water p hw = Ok q"
  shows "permits_successor p q \<and> validate_position q = Ok () \<and> wrp_event_id p \<le> wrp_event_id q"
proof -
  have "permits_successor p q"
    using assms advance_to_high_water_permitted advanced_permitted
    by (auto simp: advance_through_event_Ok_iff)
  moreover have "wrp_event_id p \<le> wrp_event_id q"
    using assms by (auto simp: advance_through_event_Ok_iff advance_to_high_water_Ok_iff)
  ultimately show ?thesis
    using permits_successor_valid [of p q] by (simp add: validate_position_Ok_iff)
qed

text \<open>Replay never forgets. Once a cursor carries an event id or a filter boundary, every
  event it represents is represented by each of its canonical continuations, so no such event
  can be delivered a second time.\<close>

lemma replay_never_forgets:
  assumes "permits_successor p q" and "\<not> scalar_cursor p" and "represents_event p e rv"
  shows "represents_event q e rv"
  using assms by (rule represents_successor)

text \<open>C19: Compacting the retention boundaries of a scope loses nothing. Keeping only the exact
  boundary with the highest resourceVersion and the one with the highest event id (next to the
  legacy boundaries) classifies every cursor as keeping all boundaries would.\<close>

theorem retention_compaction_exact:
  "classify_all (retain_exact boundaries candidate) cursor =
    classify_all (boundaries @ [ExactBoundary candidate]) cursor"
  by (rule classify_all_retain_exact)

end
