(* ===== verification/Watch_Store.thy ===== *)
theory Watch_Store
  imports Watch_Replay
begin

text \<open>
  Bounded positioned reads of the durable watch log in the two storage backends:
  \<^verbatim>\<open>positioned_watch_events\<close> of \<^verbatim>\<open>klights-cluster-datastore/src/redb/read_core.rs\<close> with its
  retention floors (\<^verbatim>\<open>redb/replay_floor.rs\<close>), and \<^verbatim>\<open>replay_watch_history\<close> of
  \<^verbatim>\<open>sqlite/read_store.rs\<close> with the row predicate of its query and the boundaries of
  \<^verbatim>\<open>sqlite/replay_floor.rs\<close>.

  A table of the database is the list of its rows in key order; a row that does not
  decode is \<^const>\<open>None\<close>.
\<close>

section \<open>Targets\<close>

datatype durable_watch_scope = ClusterScope | NamespacedScope "string option"

record durable_watch_target =
  dwt_api_version :: string
  dwt_kind :: string
  dwt_scope :: durable_watch_scope

fun scope_matches_namespace :: "durable_watch_scope \<Rightarrow> string option \<Rightarrow> bool"
where
  "scope_matches_namespace ClusterScope namespace \<longleftrightarrow> namespace = None"
| "scope_matches_namespace (NamespacedScope (Some expected)) namespace \<longleftrightarrow> namespace = Some expected"
| "scope_matches_namespace (NamespacedScope None) namespace \<longleftrightarrow> namespace \<noteq> None"

definition target_matches_namespace :: "durable_watch_target \<Rightarrow> string option \<Rightarrow> bool"
  where "target_matches_namespace target namespace = scope_matches_namespace (dwt_scope target) namespace"


section \<open>The redb backend\<close>

record stored_watch_event =
  swe_api_version :: "string option"
  swe_kind :: "string option"
  swe_namespace :: "string option"
  swe_name :: "string option"
  swe_event_type :: "string option"
  swe_resource_version :: "int option"
  swe_data :: "json option"

definition stored_matches :: "durable_watch_target \<Rightarrow> stored_watch_event \<Rightarrow> bool"
where
  "stored_matches target stored \<longleftrightarrow>
    dwt_api_version target = unwrap_or (swe_api_version stored) []
    \<and> dwt_kind target = unwrap_or (swe_kind stored) []
    \<and> target_matches_namespace target (swe_namespace stored)"

definition durable_event_from_stored :: "stored_watch_event \<Rightarrow> durable_watch_event"
where
  "durable_event_from_stored stored =
    (let data = unwrap_or (swe_data stored) JNull in
     \<lparr>dwe_event_type = unwrap_or (swe_event_type stored) [],
      dwe_resource =
        \<lparr>r_id = 0, r_api_version = unwrap_or (swe_api_version stored) [],
         r_kind = unwrap_or (swe_kind stored) [], r_namespace = swe_namespace stored,
         r_name = unwrap_or (swe_name stored) [], r_uid = uid_from_data data,
         r_resource_version = unwrap_or (swe_resource_version stored) 0, r_data = data\<rparr>\<rparr>)"

text \<open>The metadata position and the tables a positioned read opens.\<close>

record redb_watch_store =
  rws_position :: watch_replay_position
  rws_rv_floors :: "(string \<times> int) list"
  rws_position_floors :: "(string \<times> string) list"
  rws_watch_events :: "(int \<times> stored_watch_event option) list"

definition cluster_namespace_key :: string
  where "cluster_namespace_key = ''#cluster''"

definition floor_prefix :: "string \<Rightarrow> string \<Rightarrow> string"
  where "floor_prefix api_version kind = api_version @ [CHR 0x00] @ kind @ [CHR 0x00]"

definition floor_key :: "string \<Rightarrow> string \<Rightarrow> string \<Rightarrow> string"
  where "floor_key api_version kind namespace = floor_prefix api_version kind @ namespace"

definition from_be_bytes :: "string \<Rightarrow> int"
  where "from_be_bytes bytes = foldl (\<lambda>acc c. acc * 256 + of_char c) 0 bytes"

definition decode_position :: "string \<Rightarrow> (int \<times> int) option"
where
  "decode_position encoded =
    (if length encoded = 16
     then Some (min i64_max (from_be_bytes (take 8 encoded)), min i64_max (from_be_bytes (drop 8 encoded)))
     else None)"

definition strip_prefix :: "string \<Rightarrow> string \<Rightarrow> string option"
where
  "strip_prefix p s = (if take (length p) s = p then Some (drop (length p) s) else None)"

definition max_floor :: "int option \<Rightarrow> int \<Rightarrow> int option"
  where "max_floor floor candidate = Some (case floor of None \<Rightarrow> candidate | Some current \<Rightarrow> max current candidate)"

definition namespaced_scan :: "string \<Rightarrow> ('v \<Rightarrow> int option) \<Rightarrow> (string \<times> 'v) list \<Rightarrow> int option"
where
  "namespaced_scan prefix candidate_of table =
    foldl (\<lambda>floor (key, value).
      case strip_prefix prefix key of
        None \<Rightarrow> floor
      | Some namespace \<Rightarrow>
          if namespace = [] \<or> namespace = cluster_namespace_key then floor
          else (case candidate_of value of None \<Rightarrow> floor | Some candidate \<Rightarrow> max_floor floor candidate))
      None table"

definition namespaced_floor :: "redb_watch_store \<Rightarrow> string \<Rightarrow> string \<Rightarrow> bool \<Rightarrow> int option"
where
  "namespaced_floor db api_version kind positioned =
    (if positioned
     then namespaced_scan (floor_prefix api_version kind)
            (\<lambda>value. map_option snd (decode_position value)) (rws_position_floors db)
     else namespaced_scan (floor_prefix api_version kind) Some (rws_rv_floors db))"

record legacy_replay_floor =
  lrf_resource_version :: int
  lrf_event_id :: int

definition legacy_replay_floor_read :: "redb_watch_store \<Rightarrow> legacy_replay_floor option"
where
  "legacy_replay_floor_read db =
    (let key = floor_key ''*'' ''*'' ''*'' in
     case (map_of (rws_rv_floors db) key,
           Option.bind (map_of (rws_position_floors db) key) (\<lambda>v. map_option snd (decode_position v))) of
       (Some rv, Some event_id) \<Rightarrow> Some \<lparr>lrf_resource_version = rv, lrf_event_id = event_id\<rparr>
     | _ \<Rightarrow> None)"

definition merge_legacy :: "int option \<Rightarrow> int option \<Rightarrow> int option"
where
  "merge_legacy legacy scoped =
    (case legacy of
       None \<Rightarrow> scoped
     | Some l \<Rightarrow> Some (case scoped of None \<Rightarrow> l | Some value \<Rightarrow> max value l))"

definition target_rv_floor :: "redb_watch_store \<Rightarrow> durable_watch_target \<Rightarrow> int option"
where
  "target_rv_floor db target =
    merge_legacy (map_option lrf_resource_version (legacy_replay_floor_read db))
      (case dwt_scope target of
         ClusterScope \<Rightarrow>
           map_of (rws_rv_floors db) (floor_key (dwt_api_version target) (dwt_kind target) cluster_namespace_key)
       | NamespacedScope (Some namespace) \<Rightarrow>
           map_of (rws_rv_floors db) (floor_key (dwt_api_version target) (dwt_kind target) namespace)
       | NamespacedScope None \<Rightarrow> namespaced_floor db (dwt_api_version target) (dwt_kind target) False)"

definition target_event_floor :: "redb_watch_store \<Rightarrow> durable_watch_target \<Rightarrow> int option"
where
  "target_event_floor db target =
    (let scoped_at = (\<lambda>namespace. Option.bind
           (map_of (rws_position_floors db) (floor_key (dwt_api_version target) (dwt_kind target) namespace))
           (\<lambda>value. map_option snd (decode_position value)))
     in merge_legacy (map_option lrf_event_id (legacy_replay_floor_read db))
          (case dwt_scope target of
             ClusterScope \<Rightarrow> scoped_at cluster_namespace_key
           | NamespacedScope (Some namespace) \<Rightarrow> scoped_at namespace
           | NamespacedScope None \<Rightarrow> namespaced_floor db (dwt_api_version target) (dwt_kind target) True))"

definition position_expired_for_targets ::
  "redb_watch_store \<Rightarrow> durable_watch_target list \<Rightarrow> watch_replay_position \<Rightarrow> bool"
where
  "position_expired_for_targets db targets position =
    list_ex (\<lambda>target.
      let floor = (if wrp_event_id position = 0 then target_rv_floor db target
                   else target_event_floor db target);
          cursor = (if wrp_event_id position = 0 then wrp_resource_version position
                    else wrp_event_id position)
      in is_some_and floor (\<lambda>f. cursor < f)) targets"

datatype 'a history_read = HistoryEvents "'a watch_history_page" | HistoryExpired

datatype history_read_error =
    MalformedRow
  | PageTransitionPanic replay_position_error
  | InvalidPage watch_history_error

text \<open>The loop over the rows of the selected id range: skip what the cursor's filter covers
  and what no target selects, stop at the limit.\<close>

fun redb_collect ::
  "durable_watch_target list \<Rightarrow> watch_replay_position \<Rightarrow> int \<Rightarrow> nat
    \<Rightarrow> (int \<times> stored_watch_event option) list \<Rightarrow> durable_watch_event positioned_watch_event list
    \<Rightarrow> (durable_watch_event positioned_watch_event list, history_read_error) rust_result"
where
  "redb_collect targets position filter_through limit [] events = Ok events"
| "redb_collect targets position filter_through limit ((event_id, encoded) # rows) events =
    (case encoded of
       None \<Rightarrow> Err MalformedRow
     | Some stored \<Rightarrow>
         (let rv = unwrap_or (swe_resource_version stored) 0 in
          if event_id \<le> filter_through \<and> rv \<le> wrp_resource_version position
          then redb_collect targets position filter_through limit rows events
          else if \<not> list_ex (\<lambda>target. stored_matches target stored) targets
          then redb_collect targets position filter_through limit rows events
          else (let events' = events @ [\<lparr>pwe_position = event_position event_id rv,
                                       pwe_event = durable_event_from_stored stored\<rparr>]
                in if length events' = limit then Ok events'
                   else redb_collect targets position filter_through limit rows events')))"

definition redb_positioned_watch_events ::
  "redb_watch_store \<Rightarrow> durable_watch_target list \<Rightarrow> watch_replay_position \<Rightarrow> nat
    \<Rightarrow> (durable_watch_event history_read, history_read_error) rust_result"
where
  "redb_positioned_watch_events db targets position limit =
    (let current = rws_position db in
     if wrp_event_id position > wrp_event_id current
        \<or> (wrp_event_id position = 0 \<and> wrp_resource_version position > wrp_resource_version current)
        \<or> position_expired_for_targets db targets position
     then Ok HistoryExpired
     else
      (let start = (if wrp_event_id position = 0 then 0
                    else max 0 (saturating_add_i64 (wrp_event_id position) 1));
           filter_through =
             (if wrp_filter_through position > 0 then wrp_filter_through position
              else if wrp_event_id position = 0 then i64_max else 0);
           rows = filter (\<lambda>(event_id, _). start \<le> event_id \<and> event_id \<le> max 0 (wrp_event_id current))
                    (rws_watch_events db)
       in result_bind (redb_collect targets position filter_through limit rows []) (\<lambda>events.
          result_bind (map_err PageTransitionPanic (after_page position events (wrp_event_id current)))
            (\<lambda>next. Ok (HistoryEvents \<lparr>whp_events = events, whp_next_position = next\<rparr>)))))"


section \<open>The SQLite backend\<close>

record watch_event_row =
  wer_id :: int
  wer_api_version :: string
  wer_kind :: string
  wer_namespace :: "string option"
  wer_name :: string
  wer_resource_version :: int
  wer_event_type :: string
  wer_data :: "json option"

record watch_replay_floor_row =
  wfr_api_version :: string
  wfr_kind :: string
  wfr_namespace_key :: string
  wfr_floor_rv :: int
  wfr_floor_event_id :: int
  wfr_floor_position_exact :: bool

record sqlite_watch_store =
  sws_position :: watch_replay_position
  sws_floors :: "watch_replay_floor_row list"
  sws_watch_events :: "watch_event_row list"

definition row_to_boundary :: "watch_replay_floor_row \<Rightarrow> replay_retention_boundary"
where
  "row_to_boundary row =
    (if wfr_floor_position_exact row
     then ExactBoundary (event_position (wfr_floor_event_id row) (wfr_floor_rv row))
     else LegacyRvOnly (wfr_floor_rv row))"

definition read_scope ::
  "sqlite_watch_store \<Rightarrow> string \<Rightarrow> string \<Rightarrow> string \<Rightarrow> replay_retention_boundary list"
where
  "read_scope db api_version kind namespace_key =
    map row_to_boundary (filter (\<lambda>row. wfr_api_version row = api_version \<and> wfr_kind row = kind
      \<and> wfr_namespace_key row = namespace_key) (sws_floors db))"

definition read_namespaced_all ::
  "sqlite_watch_store \<Rightarrow> string \<Rightarrow> string \<Rightarrow> replay_retention_boundary list"
where
  "read_namespaced_all db api_version kind =
    map row_to_boundary (filter (\<lambda>row. wfr_api_version row = api_version \<and> wfr_kind row = kind
      \<and> wfr_namespace_key row \<noteq> cluster_namespace_key) (sws_floors db))"

definition target_replay_boundaries ::
  "sqlite_watch_store \<Rightarrow> durable_watch_target \<Rightarrow> replay_retention_boundary list"
where
  "target_replay_boundaries db target =
    (case dwt_scope target of
       ClusterScope \<Rightarrow> read_scope db (dwt_api_version target) (dwt_kind target) cluster_namespace_key
     | NamespacedScope (Some namespace) \<Rightarrow> read_scope db (dwt_api_version target) (dwt_kind target) namespace
     | NamespacedScope None \<Rightarrow> read_namespaced_all db (dwt_api_version target) (dwt_kind target))
    @ read_scope db ''*'' ''*'' ''*''"

definition sqlite_watch_position_expired ::
  "sqlite_watch_store \<Rightarrow> durable_watch_target list \<Rightarrow> watch_replay_position \<Rightarrow> bool"
where
  "sqlite_watch_position_expired db targets position =
    list_ex (\<lambda>target. classify_all (target_replay_boundaries db target) position = Expired) targets"

text \<open>The \<^verbatim>\<open>WHERE\<close> clause of the positioned query, without the targets.\<close>

definition sqlite_positioned_watch_predicate ::
  "watch_replay_position \<Rightarrow> int \<Rightarrow> watch_event_row \<Rightarrow> bool"
where
  "sqlite_positioned_watch_predicate position high_water_event_id row =
    (if wrp_filter_through position > 0
     then wer_id row > wrp_event_id position \<and> wer_id row \<le> high_water_event_id
          \<and> (wer_id row > wrp_filter_through position
             \<or> wer_resource_version row > wrp_resource_version position)
     else if wrp_event_id position = 0
     then wer_resource_version row > wrp_resource_version position \<and> wer_id row \<le> high_water_event_id
     else wer_id row > wrp_event_id position \<and> wer_id row \<le> high_water_event_id)"

definition row_matches_target :: "watch_event_row \<Rightarrow> durable_watch_target \<Rightarrow> bool"
where
  "row_matches_target row target \<longleftrightarrow>
    wer_api_version row = dwt_api_version target \<and> wer_kind row = dwt_kind target
    \<and> target_matches_namespace target (wer_namespace row)"

fun decode_rows ::
  "watch_event_row list \<Rightarrow> (durable_watch_event positioned_watch_event list, history_read_error) rust_result"
where
  "decode_rows [] = Ok []"
| "decode_rows (row # rows) =
    (case wer_data row of
       None \<Rightarrow> Err MalformedRow
     | Some data \<Rightarrow>
         result_bind (decode_rows rows) (\<lambda>events.
           Ok (\<lparr>pwe_position = event_position (wer_id row) (wer_resource_version row),
                pwe_event =
                  \<lparr>dwe_event_type = wer_event_type row,
                   dwe_resource =
                     \<lparr>r_id = 0, r_api_version = wer_api_version row, r_kind = wer_kind row,
                      r_namespace = wer_namespace row, r_name = wer_name row,
                      r_uid = uid_from_data data,
                      r_resource_version = wer_resource_version row, r_data = data\<rparr>\<rparr>\<rparr> # events)))"

definition sqlite_replay_watch_history ::
  "sqlite_watch_store \<Rightarrow> durable_watch_target list \<Rightarrow> watch_replay_position \<Rightarrow> nat
    \<Rightarrow> (durable_watch_event history_read, history_read_error) rust_result"
where
  "sqlite_replay_watch_history db targets position limit =
    (let current = sws_position db in
     if wrp_event_id position > wrp_event_id current
        \<or> (wrp_event_id position = 0 \<and> wrp_resource_version position > wrp_resource_version current)
     then Ok HistoryExpired
     else
      (let cursor_covers_current =
             wrp_event_id position \<ge> wrp_event_id current
             \<or> (wrp_filter_through position \<ge> wrp_event_id current
                \<and> wrp_resource_version position \<ge> wrp_resource_version current)
       in if \<not> cursor_covers_current \<and> sqlite_watch_position_expired db targets position
          then Ok HistoryExpired
          else
            result_bind
              (decode_rows (take limit (filter (\<lambda>row.
                 sqlite_positioned_watch_predicate position (wrp_event_id current) row
                 \<and> list_ex (row_matches_target row) targets) (sws_watch_events db)))) (\<lambda>events.
            result_bind (map_err PageTransitionPanic (after_page position events (wrp_event_id current)))
              (\<lambda>next.
            result_bind (map_err InvalidPage (watch_history_page_try_new events next))
              (\<lambda>page. Ok (HistoryEvents page))))))"


section \<open>The log a target sees\<close>

definition open_events ::
  "watch_replay_position \<Rightarrow> 'a positioned_watch_event list \<Rightarrow> 'a positioned_watch_event list"
  where "open_events p log = filter (\<lambda>e. \<not> represents_position p (pwe_position e)) log"

definition stored_event :: "int \<times> stored_watch_event option \<Rightarrow> durable_watch_event positioned_watch_event"
where
  "stored_event row =
    (let stored = the (snd row) in
     \<lparr>pwe_position = event_position (fst row) (unwrap_or (swe_resource_version stored) 0),
      pwe_event = durable_event_from_stored stored\<rparr>)"

definition redb_log ::
  "redb_watch_store \<Rightarrow> durable_watch_target list \<Rightarrow> durable_watch_event positioned_watch_event list"
where
  "redb_log db targets =
    map stored_event (filter (\<lambda>row. list_ex (\<lambda>t. stored_matches t (the (snd row))) targets)
      (rws_watch_events db))"

text \<open>A well-formed watch log: event ids are positive, strictly increasing and below the
  allocated head, every row decodes, and resource versions are not negative.\<close>

definition redb_log_wf :: "redb_watch_store \<Rightarrow> bool"
where
  "redb_log_wf db \<longleftrightarrow>
    0 \<le> wrp_event_id (rws_position db) \<and> wrp_event_id (rws_position db) < i64_max
    \<and> sorted_wrt (<) (map fst (rws_watch_events db))
    \<and> list_all (\<lambda>row. 0 < fst row \<and> fst row \<le> wrp_event_id (rws_position db)
         \<and> is_some_and (snd row) (\<lambda>stored. 0 \<le> unwrap_or (swe_resource_version stored) 0))
       (rws_watch_events db)"

definition redb_expired ::
  "redb_watch_store \<Rightarrow> durable_watch_target list \<Rightarrow> watch_replay_position \<Rightarrow> bool"
where
  "redb_expired db targets p \<longleftrightarrow>
    wrp_event_id p > wrp_event_id (rws_position db)
    \<or> (wrp_event_id p = 0 \<and> wrp_resource_version p > wrp_resource_version (rws_position db))
    \<or> position_expired_for_targets db targets p"

definition row_event :: "watch_event_row \<Rightarrow> durable_watch_event positioned_watch_event"
where
  "row_event row =
    \<lparr>pwe_position = event_position (wer_id row) (wer_resource_version row),
     pwe_event =
       \<lparr>dwe_event_type = wer_event_type row,
        dwe_resource =
          \<lparr>r_id = 0, r_api_version = wer_api_version row, r_kind = wer_kind row,
           r_namespace = wer_namespace row, r_name = wer_name row,
           r_uid = uid_from_data (the (wer_data row)),
           r_resource_version = wer_resource_version row, r_data = the (wer_data row)\<rparr>\<rparr>\<rparr>"

definition sqlite_log ::
  "sqlite_watch_store \<Rightarrow> durable_watch_target list \<Rightarrow> durable_watch_event positioned_watch_event list"
where
  "sqlite_log db targets =
    map row_event (filter (\<lambda>row. list_ex (row_matches_target row) targets) (sws_watch_events db))"

definition sqlite_log_wf :: "sqlite_watch_store \<Rightarrow> bool"
where
  "sqlite_log_wf db \<longleftrightarrow>
    0 \<le> wrp_event_id (sws_position db)
    \<and> sorted_wrt (<) (map wer_id (sws_watch_events db))
    \<and> list_all (\<lambda>row. 0 < wer_id row \<and> wer_id row \<le> wrp_event_id (sws_position db)
         \<and> wer_data row \<noteq> None \<and> 0 \<le> wer_resource_version row) (sws_watch_events db)"

definition sqlite_expired ::
  "sqlite_watch_store \<Rightarrow> durable_watch_target list \<Rightarrow> watch_replay_position \<Rightarrow> bool"
where
  "sqlite_expired db targets p \<longleftrightarrow>
    wrp_event_id p > wrp_event_id (sws_position db)
    \<or> (wrp_event_id p = 0 \<and> wrp_resource_version p > wrp_resource_version (sws_position db))
    \<or> (wrp_event_id p < wrp_event_id (sws_position db)
       \<and> \<not> (wrp_filter_through p \<ge> wrp_event_id (sws_position db)
            \<and> wrp_resource_version p \<ge> wrp_resource_version (sws_position db))
       \<and> sqlite_watch_position_expired db targets p)"


section \<open>Both backends read the unrepresented events\<close>

lemma redb_collect_eq:
  assumes "length events < limit" and "\<forall>row \<in> set rows. snd row \<noteq> None"
  shows "redb_collect targets p ft limit rows events =
    Ok (events @ take (limit - length events) (map stored_event (filter (\<lambda>row.
      \<not> (fst row \<le> ft \<and> unwrap_or (swe_resource_version (the (snd row))) 0 \<le> wrp_resource_version p)
      \<and> list_ex (\<lambda>t. stored_matches t (the (snd row))) targets) rows)))"
  using assms
proof (induction targets p ft limit rows events rule: redb_collect.induct)
  case (2 targets p ft limit event_id encoded rows events)
  then obtain stored where "encoded = Some stored" by auto
  with 2 show ?case
    by (auto simp: Let_def stored_event_def take_Cons' Suc_diff_Suc not_less_eq)
qed simp

lemma redb_selected_iff:
  assumes "valid_position p" and "0 < e" and "e \<le> i64_max" and "wrp_event_id p < i64_max"
  shows "(if wrp_event_id p = 0 then 0 else max 0 (saturating_add_i64 (wrp_event_id p) 1)) \<le> e
      \<and> \<not> (e \<le> (if wrp_filter_through p > 0 then wrp_filter_through p
                else if wrp_event_id p = 0 then i64_max else 0) \<and> rv \<le> wrp_resource_version p)
    \<longleftrightarrow> \<not> represents_event p e rv"
proof -
  have "saturating_add_i64 (wrp_event_id p) 1 = wrp_event_id p + 1"
    using assms by (intro saturating_succ_gt) (auto simp: valid_position_def i64_min_def)
  then show ?thesis
    using assms by (auto simp: represents_event_def valid_position_def)
qed

lemma sqlite_selected_iff:
  assumes "valid_position p" and "0 < wer_id row" and "wer_id row \<le> hw"
  shows "sqlite_positioned_watch_predicate p hw row \<longleftrightarrow>
    \<not> represents_event p (wer_id row) (wer_resource_version row)"
  using assms by (auto simp: sqlite_positioned_watch_predicate_def represents_event_def valid_position_def)

lemma redb_page_events:
  assumes wf: "redb_log_wf db" and p: "valid_position p" "wrp_event_id p \<le> wrp_event_id (rws_position db)"
    and "0 < limit"
  shows "redb_collect targets p
      (if wrp_filter_through p > 0 then wrp_filter_through p
       else if wrp_event_id p = 0 then i64_max else 0) limit
      (filter (\<lambda>(event_id, _).
         (if wrp_event_id p = 0 then 0 else max 0 (saturating_add_i64 (wrp_event_id p) 1)) \<le> event_id
         \<and> event_id \<le> max 0 (wrp_event_id (rws_position db))) (rws_watch_events db)) []
    = Ok (take limit (open_events p (redb_log db targets)))"
    (is "redb_collect targets p ?ft limit (filter ?range ?rows) [] = _")
proof -
  let ?keep = "\<lambda>row. \<not> (fst row \<le> ?ft
      \<and> unwrap_or (swe_resource_version (the (snd row))) 0 \<le> wrp_resource_version p)
      \<and> list_ex (\<lambda>t. stored_matches t (the (snd row))) targets"
  have row: "0 < fst row \<and> fst row \<le> wrp_event_id (rws_position db) \<and> fst row \<le> i64_max \<and> snd row \<noteq> None"
    if "row \<in> set ?rows" for row
    using wf that by (fastforce simp: redb_log_wf_def list_all_iff is_some_and_iff)
  have "filter ?keep (filter ?range ?rows) =
      filter (\<lambda>row. \<not> represents_position p (pwe_position (stored_event row)))
        (filter (\<lambda>row. list_ex (\<lambda>t. stored_matches t (the (snd row))) targets) ?rows)"
    unfolding filter_filter
  proof (rule filter_cong [OF refl])
    fix row
    assume "row \<in> set ?rows"
    moreover have "wrp_event_id p < i64_max"
      using wf p by (simp add: redb_log_wf_def)
    ultimately show "(?range row \<and> ?keep row) =
        (list_ex (\<lambda>t. stored_matches t (the (snd row))) targets
          \<and> \<not> represents_position p (pwe_position (stored_event row)))"
      using row [of row] p(1)
        redb_selected_iff [of p "fst row" "unwrap_or (swe_resource_version (the (snd row))) 0"]
      by (auto simp: represents_position_def stored_event_def Let_def case_prod_beta)
  qed
  then show ?thesis
    using row \<open>0 < limit\<close>
    by (subst redb_collect_eq) (auto simp: open_events_def redb_log_def filter_map comp_def)
qed

lemma decode_rows_eq:
  "\<forall>row \<in> set rows. wer_data row \<noteq> None \<Longrightarrow> decode_rows rows = Ok (map row_event rows)"
  by (induction rows) (auto simp: row_event_def)

lemma sqlite_page_events:
  assumes wf: "sqlite_log_wf db" and p: "valid_position p"
  shows "decode_rows (take limit (filter (\<lambda>row.
      sqlite_positioned_watch_predicate p (wrp_event_id (sws_position db)) row
      \<and> list_ex (row_matches_target row) targets) (sws_watch_events db)))
    = Ok (take limit (open_events p (sqlite_log db targets)))"
proof -
  let ?rows = "sws_watch_events db" and ?head = "wrp_event_id (sws_position db)"
  have row: "0 < wer_id row \<and> wer_id row \<le> ?head \<and> wer_data row \<noteq> None" if "row \<in> set ?rows" for row
    using wf that by (auto simp: sqlite_log_wf_def list_all_iff)
  have "filter (\<lambda>row. sqlite_positioned_watch_predicate p ?head row
      \<and> list_ex (row_matches_target row) targets) ?rows =
      filter (\<lambda>row. \<not> represents_position p (pwe_position (row_event row)))
        (filter (\<lambda>row. list_ex (row_matches_target row) targets) ?rows)"
    unfolding filter_filter
    using row p by (intro filter_cong)
      (auto simp: sqlite_selected_iff represents_position_def row_event_def)
  then show ?thesis
    using row
    by (subst decode_rows_eq)
      (auto dest!: in_set_takeD simp: open_events_def sqlite_log_def filter_map comp_def take_map)
qed


section \<open>Pages of unrepresented events\<close>

text \<open>A page of a log: in id order, well formed, below the head, not represented by the
  cursor it was read from.\<close>

definition open_page ::
  "watch_replay_position \<Rightarrow> int \<Rightarrow> 'a positioned_watch_event list \<Rightarrow> bool"
where
  "open_page p hw es \<longleftrightarrow>
    sorted_wrt (<) (map (\<lambda>e. wrp_event_id (pwe_position e)) es) \<and>
    (\<forall>e \<in> set es. wf_log_event (pwe_position e) \<and> wrp_event_id (pwe_position e) \<le> hw
       \<and> \<not> represents_position p (pwe_position e))"

lemma open_page_Cons:
  "open_page p hw (e # es) \<longleftrightarrow>
    wf_log_event (pwe_position e) \<and> wrp_event_id (pwe_position e) \<le> hw
    \<and> \<not> represents_position p (pwe_position e)
    \<and> (\<forall>e' \<in> set es. wrp_event_id (pwe_position e) < wrp_event_id (pwe_position e'))
    \<and> open_page p hw es"
  by (auto simp: open_page_def)

lemma advance_positioned_page:
  fixes es :: "'a positioned_watch_event list"
  assumes "positioned_cursor p" and "open_page p hw es"
  shows "\<exists>q. advance_all p es = Ok q \<and> positioned_cursor q
    \<and> (\<forall>e' :: 'a positioned_watch_event. represents_position q (pwe_position e') \<longleftrightarrow> represents_position p (pwe_position e')
         \<or> (\<exists>e \<in> set es. wrp_event_id (pwe_position e') \<le> wrp_event_id (pwe_position e)))"
  unfolding advance_all_foldl
  using assms by (intro pwe.fold_advance) (auto simp: open_page_def)

lemma advance_scalar_event:
  assumes "valid_position p" and "scalar_cursor p" and "wf_log_event e"
  shows "advance_through_event p e = Ok e" and "positioned_cursor e"
    and "represents_position e e' \<longleftrightarrow> wrp_event_id e' \<le> wrp_event_id e"
  using assms
  by (auto simp: advance_through_event_Ok_iff advanced_def scalar_cursor_def wf_log_event_def
      valid_position_def positioned_cursor_def represents_position_def represents_event_def)

lemma advance_page:
  assumes "valid_position p" and "open_page p hw es"
  shows "\<exists>q. advance_all p es = Ok q"
proof (cases "scalar_cursor p")
  case False
  then show ?thesis
    using assms advance_positioned_page [of p hw es] by (auto simp: positioned_cursor_def)
next
  case True
  show ?thesis
  proof (cases es)
    case (Cons e es')
    have e: "wf_log_event (pwe_position e)" and rest: "open_page (pwe_position e) hw es'"
      using assms(2) Cons advance_scalar_event(3) [OF assms(1) True, of "pwe_position e"]
      by (auto simp: open_page_def)
    then show ?thesis
      using Cons advance_positioned_page [OF advance_scalar_event(2) [OF assms(1) True e] rest]
        advance_scalar_event(1) [OF assms(1) True e] by auto
  qed simp
qed

lemma event_of_open_page:
  assumes "open_page p hw es" and "e \<in> set es"
  shows "valid_position (pwe_position e)" and "wrp_event_id (pwe_position e) \<le> hw"
    and "wrp_filter_through (pwe_position e) = 0" and "wrp_event_id p < wrp_event_id (pwe_position e)"
  using assms
  by (auto simp: open_page_def wf_log_event_def valid_position_def represents_position_def
      represents_event_def split: if_splits)

lemma sorted_last_greatest:
  "sorted_wrt (<) (map f es) \<Longrightarrow> e \<in> set es \<Longrightarrow> (f e :: int) \<le> f (last es)"
  by (induction es) (auto intro: less_imp_le)

text \<open>Reading such a page never makes \<^const>\<open>after_page\<close> panic, and the cursor it returns is
  the one obtained by folding the events.\<close>

lemma after_page_open:
  assumes "valid_position p" and "wrp_event_id p \<le> hw" and "open_page p hw es"
  shows "\<exists>next. after_page p es hw = Ok next \<and> permits_successor p next \<and> wrp_event_id next \<le> hw
    \<and> (\<forall>e \<in> set es. wrp_event_id (pwe_position e) \<le> wrp_event_id next)
    \<and> (es \<noteq> [] \<longrightarrow> advance_all p es = Ok next)"
proof (cases "es = []")
  case True
  have "\<exists>next. advance_to_high_water p hw = Ok next"
    using assms by (auto simp: advance_to_high_water_Ok_iff)
  then show ?thesis
    using True advance_to_high_water_permitted by (auto simp: after_page_def advance_to_high_water_Ok_iff)
next
  case False
  let ?e = "last es"
  obtain q where q: "advance_all p es = Ok q"
    using advance_page assms by blast
  note last = event_of_open_page [OF assms(3), of ?e]
  have qe: "q = advanced p (pwe_position ?e)"
    using advance_all_last [OF q False] .
  have "scalar_cursor p \<or> \<not> represents_position p (pwe_position ?e)"
    using assms(3) False by (auto simp: open_page_def)
  then have "advance_through_event p (pwe_position ?e) = Ok q"
    using last assms(1) False by (simp add: advance_through_event_Ok_iff qe represents_position_def)
  moreover have "wrp_event_id (pwe_position e) \<le> wrp_event_id q" if "e \<in> set es" for e
    using sorted_last_greatest [of "\<lambda>e. wrp_event_id (pwe_position e)" es e] that assms(3)
    by (simp add: qe open_page_def)
  moreover have "permits_successor p q"
    unfolding qe using last assms(1) False by (intro advanced_permitted) auto
  moreover have "wrp_event_id q \<le> hw"
    using last(2) False by (simp add: qe)
  ultimately show ?thesis
    using False q by (auto simp: after_page_def)
qed

lemma check_page_events_Ok:
  assumes "sorted_wrt (<) (map (\<lambda>e. wrp_event_id (pwe_position e)) es)"
    and "\<forall>e \<in> set es. valid_position (pwe_position e)
      \<and> wrp_event_id (pwe_position e) \<le> wrp_event_id next
      \<and> (\<forall>b. prior = Some b \<longrightarrow> b < wrp_event_id (pwe_position e))"
  shows "check_page_events prior next es = Ok ()"
  using assms
proof (induction es arbitrary: prior)
  case (Cons e es)
  then have "check_page_events (Some (wrp_event_id (pwe_position e))) next es = Ok ()"
    by (intro Cons.IH) auto
  moreover have "validate_position (pwe_position e) = Ok ()"
    using Cons.prems by (simp add: validate_position_Ok_iff)
  ultimately show ?case
    using Cons.prems by (auto simp: is_some_and_iff not_le)
qed simp

lemma open_page_validates:
  assumes "valid_position p" and "wrp_event_id p \<le> hw" and "open_page p hw es"
    and "after_page p es hw = Ok next"
  shows "watch_history_page_try_new es next = Ok \<lparr>whp_events = es, whp_next_position = next\<rparr>"
    and "validate_after \<lparr>whp_events = es, whp_next_position = next\<rparr> p = Ok ()"
proof -
  have nxt: "permits_successor p next"
      "\<forall>e \<in> set es. wrp_event_id (pwe_position e) \<le> wrp_event_id next"
      "es \<noteq> [] \<longrightarrow> advance_all p es = Ok next"
    using after_page_open [OF assms(1-3)] assms(4) by auto
  then have valid: "valid_position next"
    using permits_successor_valid by blast
  have "check_page_events None next es = Ok ()"
    using assms(3) nxt(2) event_of_open_page(1) [OF assms(3)]
    by (intro check_page_events_Ok) (auto simp: open_page_def)
  then show "watch_history_page_try_new es next = Ok \<lparr>whp_events = es, whp_next_position = next\<rparr>"
    using valid by (simp add: watch_history_page_try_new_def validate_position_Ok_iff)
  have "\<exists>c. advance_all p es = Ok c \<and> permits_successor c next"
    using nxt valid by (cases "es = []") (auto simp: permits_successor_refl)
  then show "validate_after \<lparr>whp_events = es, whp_next_position = next\<rparr> p = Ok ()"
    using assms(1) by (auto simp: validate_after_def validate_position_Ok_iff)
qed


section \<open>The interface of a watch-log backend\<close>

text \<open>What a reader of the log may rely on, whichever database holds it: a positioned read
  that is not refused returns the first unrepresented events of the log its targets select,
  and the cursor \<^const>\<open>after_page\<close> computes from them.\<close>

locale watch_log_backend =
  fixes read :: "'db \<Rightarrow> durable_watch_target list \<Rightarrow> watch_replay_position \<Rightarrow> nat
      \<Rightarrow> (durable_watch_event history_read, history_read_error) rust_result"
    and log :: "'db \<Rightarrow> durable_watch_target list \<Rightarrow> durable_watch_event positioned_watch_event list"
    and head :: "'db \<Rightarrow> int"
    and wf :: "'db \<Rightarrow> bool"
    and expired :: "'db \<Rightarrow> durable_watch_target list \<Rightarrow> watch_replay_position \<Rightarrow> bool"
  assumes log_event: "wf db \<Longrightarrow> e \<in> set (log db targets) \<Longrightarrow>
      wf_log_event (pwe_position e) \<and> wrp_event_id (pwe_position e) \<le> head db"
    and log_sorted: "wf db \<Longrightarrow> sorted_wrt (<) (map (\<lambda>e. wrp_event_id (pwe_position e)) (log db targets))"
    and read_expired: "wf db \<Longrightarrow> expired db targets p \<Longrightarrow> read db targets p limit = Ok HistoryExpired"
    and read_page: "wf db \<Longrightarrow> \<not> expired db targets p \<Longrightarrow> valid_position p \<Longrightarrow> 0 < limit \<Longrightarrow>
      after_page p (take limit (open_events p (log db targets))) (head db) = Ok next \<Longrightarrow>
      watch_history_page_try_new (take limit (open_events p (log db targets))) next = Ok page \<Longrightarrow>
      read db targets p limit = Ok (HistoryEvents page)"
    and not_expired_head: "\<not> expired db targets p \<Longrightarrow> wrp_event_id p \<le> head db"
begin

lemma open_page_of_log:
  assumes "wf db"
  shows "open_page p (head db) (take n (open_events p (log db targets)))"
proof -
  have "sorted_wrt (<) (map (\<lambda>e. wrp_event_id (pwe_position e)) (take n (open_events p (log db targets))))"
    using log_sorted [OF assms, of targets]
    by (simp add: open_events_def sorted_wrt_map sorted_wrt_filter sorted_wrt_take)
  then show ?thesis
    using log_event [OF assms] by (auto simp: open_page_def open_events_def dest!: in_set_takeD)
qed

lemma read_open_page:
  assumes "wf db" and "\<not> expired db targets p" and "valid_position p" and "0 < limit"
  shows "\<exists>page. read db targets p limit = Ok (HistoryEvents page)
    \<and> whp_events page = take limit (open_events p (log db targets))
    \<and> after_page p (whp_events page) (head db) = Ok (whp_next_position page)
    \<and> validate_after page p = Ok ()"
proof -
  let ?es = "take limit (open_events p (log db targets))"
  note page = open_page_of_log [OF assms(1), of p limit targets]
  note at_head = not_expired_head [OF assms(2)]
  obtain next' where nxt: "after_page p ?es (head db) = Ok next'"
    using after_page_open [OF assms(3) at_head page] by blast
  show ?thesis
    using open_page_validates [OF assms(3) at_head page nxt] read_page [OF assms(1-4) nxt] nxt
    by auto
qed

text \<open>After a page, exactly what the page held is no longer open.\<close>

lemma open_after_page:
  assumes "wf db" and "positioned_cursor p" and "wrp_event_id p \<le> head db"
    and "after_page p (take limit (open_events p (log db targets))) (head db) = Ok next" and "0 < limit"
  shows "open_events next (log db targets) = drop limit (open_events p (log db targets))"
    and "positioned_cursor next"
proof -
  let ?log = "log db targets" and ?es = "take limit (open_events p (log db targets))"
  note page = open_page_of_log [OF assms(1), of p limit targets]
  have p: "valid_position p" "\<not> scalar_cursor p"
    using assms(2) by (simp_all add: positioned_cursor_def)
  note after = after_page_open [OF p(1) assms(3) page]
  show "positioned_cursor next"
    using after assms(4) p successor_not_scalar permits_successor_valid
    by (auto simp: positioned_cursor_def)
  show "open_events next ?log = drop limit (open_events p ?log)"
  proof (cases "?es = []")
    case True
    then have none: "open_events p ?log = []"
      using assms(5) by simp
    have "represents_position next (pwe_position e)" if "e \<in> set ?log" for e
      using assms(4) True represents_high_water [OF _ p(2)] log_event [OF assms(1) that]
      by (auto simp: after_page_def represents_position_def)
    then show ?thesis
      using none by (simp add: open_events_def filter_empty_conv)
  next
    case False
    then have "advance_all p ?es = Ok next"
      using after assms(4) by auto
    then have "\<forall>e' :: durable_watch_event positioned_watch_event. represents_position next (pwe_position e') \<longleftrightarrow> represents_position p (pwe_position e')
         \<or> (\<exists>e \<in> set ?es. wrp_event_id (pwe_position e') \<le> wrp_event_id (pwe_position e))"
      using advance_positioned_page [OF assms(2) page] by auto
    then show ?thesis
      unfolding open_events_def by (intro pwe.next_page_continues [OF log_sorted [OF assms(1)]])
  qed
qed

end


section \<open>Both backends provide it\<close>

lemma page_try_new_Ok:
  "watch_history_page_try_new es next = Ok page \<Longrightarrow> page = \<lparr>whp_events = es, whp_next_position = next\<rparr>"
  by (auto simp: watch_history_page_try_new_def)

interpretation redb: watch_log_backend redb_positioned_watch_events redb_log
  "\<lambda>db. wrp_event_id (rws_position db)" redb_log_wf redb_expired
proof
  fix db targets and e :: "durable_watch_event positioned_watch_event"
  assume "redb_log_wf db" and "e \<in> set (redb_log db targets)"
  then show "wf_log_event (pwe_position e) \<and> wrp_event_id (pwe_position e) \<le> wrp_event_id (rws_position db)"
    by (fastforce simp: redb_log_def redb_log_wf_def list_all_iff is_some_and_iff stored_event_def
        Let_def wf_log_event_def)
next
  fix db targets
  assume "redb_log_wf db"
  then show "sorted_wrt (<) (map (\<lambda>e. wrp_event_id (pwe_position e)) (redb_log db targets))"
    by (simp add: redb_log_wf_def redb_log_def stored_event_def Let_def sorted_wrt_map comp_def
        sorted_wrt_filter)
next
  fix db targets p limit
  assume "redb_expired db targets p"
  then show "redb_positioned_watch_events db targets p limit = Ok HistoryExpired"
    by (simp add: redb_expired_def redb_positioned_watch_events_def Let_def)
next
  fix db targets p and limit :: nat and nxt page
  assume wf: "redb_log_wf db" and ne: "\<not> redb_expired db targets p" and p: "valid_position p" "0 < limit"
    and after: "after_page p (take limit (open_events p (redb_log db targets)))
      (wrp_event_id (rws_position db)) = Ok nxt"
    and page: "watch_history_page_try_new (take limit (open_events p (redb_log db targets))) nxt = Ok page"
  have "wrp_event_id p \<le> wrp_event_id (rws_position db)"
    using ne by (auto simp: redb_expired_def)
  note events = redb_page_events [OF wf p(1) this p(2), of targets]
  have "redb_positioned_watch_events db targets p limit =
      Ok (HistoryEvents \<lparr>whp_events = take limit (open_events p (redb_log db targets)), whp_next_position = nxt\<rparr>)"
    using ne unfolding redb_positioned_watch_events_def Let_def
    by (simp only: events result_bind.simps after map_err.simps redb_expired_def if_False)
  then show "redb_positioned_watch_events db targets p limit = Ok (HistoryEvents page)"
    using page_try_new_Ok [OF page] by simp
next
  fix db targets p
  assume "\<not> redb_expired db targets p"
  then show "wrp_event_id p \<le> wrp_event_id (rws_position db)"
    by (auto simp: redb_expired_def)
qed

interpretation sqlite: watch_log_backend sqlite_replay_watch_history sqlite_log
  "\<lambda>db. wrp_event_id (sws_position db)" sqlite_log_wf sqlite_expired
proof
  fix db targets and e :: "durable_watch_event positioned_watch_event"
  assume "sqlite_log_wf db" and "e \<in> set (sqlite_log db targets)"
  then show "wf_log_event (pwe_position e) \<and> wrp_event_id (pwe_position e) \<le> wrp_event_id (sws_position db)"
    by (auto simp: sqlite_log_def sqlite_log_wf_def list_all_iff row_event_def wf_log_event_def)
next
  fix db targets
  assume "sqlite_log_wf db"
  then show "sorted_wrt (<) (map (\<lambda>e. wrp_event_id (pwe_position e)) (sqlite_log db targets))"
    by (simp add: sqlite_log_wf_def sqlite_log_def row_event_def sorted_wrt_map comp_def sorted_wrt_filter)
next
  fix db targets p limit
  assume "sqlite_expired db targets p"
  then show "sqlite_replay_watch_history db targets p limit = Ok HistoryExpired"
    by (auto simp: sqlite_expired_def sqlite_replay_watch_history_def Let_def)
next
  fix db targets p and limit :: nat and nxt page
  assume wf: "sqlite_log_wf db" and ne: "\<not> sqlite_expired db targets p" and p: "valid_position p"
    and after: "after_page p (take limit (open_events p (sqlite_log db targets)))
      (wrp_event_id (sws_position db)) = Ok nxt"
    and page: "watch_history_page_try_new (take limit (open_events p (sqlite_log db targets))) nxt = Ok page"
  note events = sqlite_page_events [OF wf p, of limit targets]
  have "\<not> (wrp_event_id p > wrp_event_id (sws_position db) \<or> (wrp_event_id p = 0
        \<and> wrp_resource_version p > wrp_resource_version (sws_position db)))"
    and "\<not> (\<not> (wrp_event_id p \<ge> wrp_event_id (sws_position db)
        \<or> (wrp_filter_through p \<ge> wrp_event_id (sws_position db)
           \<and> wrp_resource_version p \<ge> wrp_resource_version (sws_position db)))
      \<and> sqlite_watch_position_expired db targets p)"
    using ne unfolding sqlite_expired_def by (blast, auto)
  then show "sqlite_replay_watch_history db targets p limit = Ok (HistoryEvents page)"
    unfolding sqlite_replay_watch_history_def Let_def
    by (simp only: events result_bind.simps after page map_err.simps if_False)
next
  fix db targets p
  assume "\<not> sqlite_expired db targets p"
  then show "wrp_event_id p \<le> wrp_event_id (sws_position db)"
    by (auto simp: sqlite_expired_def)
qed


section \<open>Properties\<close>

definition example_stored :: "int \<Rightarrow> string \<Rightarrow> stored_watch_event"
where
  "example_stored rv event_type =
    \<lparr>swe_api_version = Some ''v1'', swe_kind = Some ''ConfigMap'', swe_namespace = Some ''default'',
     swe_name = Some ''a'', swe_event_type = Some event_type, swe_resource_version = Some rv,
     swe_data = None\<rparr>"

definition example_target :: durable_watch_target
where
  "example_target =
    \<lparr>dwt_api_version = ''v1'', dwt_kind = ''ConfigMap'', dwt_scope = NamespacedScope (Some ''default'')\<rparr>"

text \<open>The same retention in both databases: they stand at the same position, every SQLite boundary
  of a target is an exact one at or below it, and the redb floors of the target are the
  greatest event id and the greatest version of those boundaries.\<close>

definition greatest :: "int list \<Rightarrow> int option"
  where "greatest xs = (if xs = [] then None else Some (Max (set xs)))"

definition same_retention ::
  "redb_watch_store \<Rightarrow> sqlite_watch_store \<Rightarrow> durable_watch_target list \<Rightarrow> bool"
where
  "same_retention rdb sdb targets \<longleftrightarrow>
    rws_position rdb = sws_position sdb
    \<and> list_all (\<lambda>target.
        let boundaries = target_replay_boundaries sdb target;
            floors = List.map_filter exact_position boundaries
        in list_all (\<lambda>b. exact_position b \<noteq> None) boundaries
           \<and> list_all (\<lambda>f. 0 < wrp_event_id f \<and> wrp_event_id f \<le> wrp_event_id (sws_position sdb)) floors
           \<and> target_event_floor rdb target = greatest (map wrp_event_id floors)
           \<and> target_rv_floor rdb target = greatest (map wrp_resource_version floors)) targets"

lemma greatest_above: "is_some_and (greatest xs) (\<lambda>m. c < m) \<longleftrightarrow> (\<exists>x \<in> set xs. c < x)"
  by (auto simp: greatest_def Max_gr_iff)

lemma exact_boundaries:
  assumes "list_all (\<lambda>b. exact_position b \<noteq> None) boundaries"
  shows "boundaries = map ExactBoundary (List.map_filter exact_position boundaries)"
  using assms
proof (induction boundaries)
  case (Cons b bs)
  then show ?case by (cases b) (simp_all add: List.map_filter_simps)
qed (simp add: List.map_filter_simps)

lemma classify_exact:
  assumes "wrp_filter_through p = 0" and "valid_position p"
  shows "classify_all (map ExactBoundary floors) p = Expired \<longleftrightarrow>
    (if wrp_event_id p = 0 then \<exists>f \<in> set floors. wrp_resource_version p < wrp_resource_version f
     else \<exists>f \<in> set floors. wrp_event_id p < wrp_event_id f)"
  using assms by (auto simp: classify_all_def list_ex_iff valid_position_def split: if_splits)

text \<open>A cursor without a listing boundary is expired for one backend if and only if it is for the
  other.\<close>

lemma expiry_agrees:
  assumes "same_retention rdb sdb targets" and "valid_position p" and "wrp_filter_through p = 0"
  shows "redb_expired rdb targets p \<longleftrightarrow> sqlite_expired sdb targets p"
proof -
  let ?head = "wrp_event_id (sws_position sdb)"
  have same: "rws_position rdb = sws_position sdb"
    using assms(1) by (simp add: same_retention_def)
  have target: "(let floor = (if wrp_event_id p = 0 then target_rv_floor rdb t else target_event_floor rdb t);
        cursor = (if wrp_event_id p = 0 then wrp_resource_version p else wrp_event_id p)
      in is_some_and floor (\<lambda>f. cursor < f)) \<longleftrightarrow>
      classify_all (target_replay_boundaries sdb t) p = Expired"
    and below: "classify_all (target_replay_boundaries sdb t) p = Expired \<Longrightarrow> wrp_event_id p < ?head"
    if "t \<in> set targets" for t
  proof -
    let ?floors = "List.map_filter exact_position (target_replay_boundaries sdb t)"
    have t: "list_all (\<lambda>b. exact_position b \<noteq> None) (target_replay_boundaries sdb t)"
        "list_all (\<lambda>f. 0 < wrp_event_id f \<and> wrp_event_id f \<le> ?head) ?floors"
        "target_event_floor rdb t = greatest (map wrp_event_id ?floors)"
        "target_rv_floor rdb t = greatest (map wrp_resource_version ?floors)"
      using assms(1) that by (auto simp: same_retention_def list_all_iff Let_def)
    note boundaries = exact_boundaries [OF t(1)]
    have expired: "classify_all (target_replay_boundaries sdb t) p = Expired \<longleftrightarrow>
        (if wrp_event_id p = 0 then \<exists>f \<in> set ?floors. wrp_resource_version p < wrp_resource_version f
         else \<exists>f \<in> set ?floors. wrp_event_id p < wrp_event_id f)"
      using classify_exact [OF assms(3,2), of ?floors] boundaries by simp
    then show "(let floor = (if wrp_event_id p = 0 then target_rv_floor rdb t else target_event_floor rdb t);
        cursor = (if wrp_event_id p = 0 then wrp_resource_version p else wrp_event_id p)
      in is_some_and floor (\<lambda>f. cursor < f)) \<longleftrightarrow>
      classify_all (target_replay_boundaries sdb t) p = Expired"
      by (simp add: t(3,4) greatest_above Let_def)
    show "wrp_event_id p < ?head" if "classify_all (target_replay_boundaries sdb t) p = Expired"
      using that t(2) expired by (fastforce simp: list_all_iff split: if_splits)
  qed
  have "position_expired_for_targets rdb targets p \<longleftrightarrow> sqlite_watch_position_expired sdb targets p"
    unfolding position_expired_for_targets_def sqlite_watch_position_expired_def list_ex_iff
    using target by blast
  moreover have "wrp_event_id p < ?head" if "sqlite_watch_position_expired sdb targets p"
    using that below by (auto simp: sqlite_watch_position_expired_def list_ex_iff)
  moreover have "\<not> wrp_filter_through p \<ge> ?head" if "wrp_event_id p < ?head"
    using that assms(2,3) by (simp add: valid_position_def)
  ultimately show ?thesis
    unfolding redb_expired_def sqlite_expired_def same by blast
qed

text \<open>Two backends whose selected logs and heads agree return the same page, when both return one.\<close>

lemma pages_agree:
  assumes "redb_log_wf rdb" and "sqlite_log_wf sdb" and "redb_log rdb targets = sqlite_log sdb targets"
    and "wrp_event_id (rws_position rdb) = wrp_event_id (sws_position sdb)"
    and "valid_position p" and "0 < limit"
    and "\<not> redb_expired rdb targets p" and "\<not> sqlite_expired sdb targets p"
  shows "redb_positioned_watch_events rdb targets p limit = sqlite_replay_watch_history sdb targets p limit"
proof -
  obtain page where "redb_positioned_watch_events rdb targets p limit = Ok (HistoryEvents page)"
      "whp_events page = take limit (open_events p (redb_log rdb targets))"
      "after_page p (whp_events page) (wrp_event_id (rws_position rdb)) = Ok (whp_next_position page)"
    using redb.read_open_page [OF assms(1,7,5,6)] by blast
  moreover obtain page' where "sqlite_replay_watch_history sdb targets p limit = Ok (HistoryEvents page')"
      "whp_events page' = take limit (open_events p (sqlite_log sdb targets))"
      "after_page p (whp_events page') (wrp_event_id (sws_position sdb)) = Ok (whp_next_position page')"
    using sqlite.read_open_page [OF assms(2,8,5,6)] by blast
  ultimately show ?thesis
    using assms(3,4) by simp
qed

text \<open>C13: The two storage backends serve the same watch. If a redb and a SQLite database stand at the
  same position, hold the same events for the targets and the same retention floors, then for
  every event cursor and every plain resource-version cursor the range scan of one and the SQL query of
  the other give the same answer: both report that the cursor has expired, or both return the
  same page with the same next cursor. A cursor that carries the boundary of a listing is checked
  differently by the two (SQLite compares the boundary with the floor and accepts a cursor that
  covers the head, redb does neither); for it the pages agree when both return one.\<close>

theorem backends_agree:
  assumes "redb_log_wf rdb" and "sqlite_log_wf sdb" and "redb_log rdb targets = sqlite_log sdb targets"
    and "same_retention rdb sdb targets" and "valid_position p" and "0 < limit"
  shows "(wrp_filter_through p = 0 \<longrightarrow>
      redb_positioned_watch_events rdb targets p limit = sqlite_replay_watch_history sdb targets p limit)
    \<and> (\<not> redb_expired rdb targets p \<and> \<not> sqlite_expired sdb targets p \<longrightarrow>
      redb_positioned_watch_events rdb targets p limit = sqlite_replay_watch_history sdb targets p limit)"
proof -
  have "wrp_event_id (rws_position rdb) = wrp_event_id (sws_position sdb)"
    using assms(4) by (simp add: same_retention_def)
  note pages = pages_agree [OF assms(1-3) this assms(5,6)]
  have "redb_positioned_watch_events rdb targets p limit = sqlite_replay_watch_history sdb targets p limit"
    if "wrp_filter_through p = 0"
    using pages expiry_agrees [OF assms(4,5) that] redb.read_expired [OF assms(1)]
      sqlite.read_expired [OF assms(2)] by (cases "redb_expired rdb targets p") auto
  then show ?thesis
    using pages by blast
qed

definition example_row :: "int \<Rightarrow> int \<Rightarrow> string \<Rightarrow> watch_event_row"
where
  "example_row event_id rv event_type =
    \<lparr>wer_id = event_id, wer_api_version = ''v1'', wer_kind = ''ConfigMap'', wer_namespace = Some ''default'',
     wer_name = ''a'', wer_resource_version = rv, wer_event_type = event_type, wer_data = Some JNull\<rparr>"

definition example_sqlite :: sqlite_watch_store
where
  "example_sqlite =
    \<lparr>sws_position = event_position 2 6, sws_floors = [],
     sws_watch_events = [example_row 1 5 ''ADDED'', example_row 2 6 ''MODIFIED'']\<rparr>"

lemma example_sqlite_wf: "sqlite_log_wf example_sqlite"
  by (simp add: sqlite_log_wf_def example_sqlite_def example_row_def)

text \<open>Both databases with the first event collected: cursors below it are expired.\<close>

definition example_collected_redb :: redb_watch_store
where
  "example_collected_redb =
    (let key = floor_key ''v1'' ''ConfigMap'' ''default'' in
     \<lparr>rws_position = event_position 2 6, rws_rv_floors = [(key, 5)],
      rws_position_floors = [(key, replicate 7 (CHR 0x00) @ [CHR 0x05] @ replicate 7 (CHR 0x00) @ [CHR 0x01])],
      rws_watch_events = [(2, Some (example_stored 6 ''MODIFIED''))]\<rparr>)"

definition example_collected_sqlite :: sqlite_watch_store
where
  "example_collected_sqlite =
    \<lparr>sws_position = event_position 2 6,
     sws_floors = [\<lparr>wfr_api_version = ''v1'', wfr_kind = ''ConfigMap'', wfr_namespace_key = ''default'',
       wfr_floor_rv = 5, wfr_floor_event_id = 1, wfr_floor_position_exact = True\<rparr>],
     sws_watch_events = [example_row 2 6 ''MODIFIED'']\<rparr>"

lemma example_collected_wf: "redb_log_wf example_collected_redb" "sqlite_log_wf example_collected_sqlite"
  by (simp_all add: redb_log_wf_def example_collected_redb_def example_stored_def i64_max_def
      sqlite_log_wf_def example_collected_sqlite_def example_row_def Let_def)

lemma example_collected_retention:
  "same_retention example_collected_redb example_collected_sqlite [example_target]"
  by code_simp

theorem backends_agree_witness:
  "redb_positioned_watch_events example_collected_redb [example_target] (event_position 1 5) 10 =
    sqlite_replay_watch_history example_collected_sqlite [example_target] (event_position 1 5) 10
  \<and> redb_positioned_watch_events example_collected_redb [example_target] (from_resource_version 3) 10 =
    sqlite_replay_watch_history example_collected_sqlite [example_target] (from_resource_version 3) 10"
proof -
  have log: "redb_log example_collected_redb [example_target] = sqlite_log example_collected_sqlite [example_target]"
    by (simp add: redb_log_def sqlite_log_def example_collected_redb_def example_collected_sqlite_def
        example_row_def example_stored_def stored_matches_def row_matches_target_def stored_event_def
        row_event_def Let_def durable_event_from_stored_def uid_from_data_def str_at_def)
  note agree = backends_agree [OF example_collected_wf log example_collected_retention, of _ 10]
  show ?thesis
    using agree [of "event_position 1 5"] agree [of "from_resource_version 3"]
    by (simp add: valid_position_def from_resource_version_def)
qed

text \<open>C16: For a listing cursor the redb check lets collected events go unnoticed. Take a cursor that holds
  the objects up to a resource version and a boundary event, as a listing hands out, and let the
  retention floor of a target have passed the boundary while its version has not passed the cursor's. The event
  at the floor is collected and not represented by the cursor. SQLite reports that the cursor
  has expired; redb, which looks at the version only, returns a page of what is left.\<close>

theorem redb_serves_expired_listing:
  assumes "redb_log_wf rdb" and "sqlite_log_wf sdb" and "same_retention rdb sdb targets" and "0 < limit"
    and "p = from_resource_version_through_event_id rv boundary" and "0 < boundary" and "0 \<le> rv"
    and "rv \<le> wrp_resource_version (rws_position rdb)"
    and "target \<in> set targets" and "target_event_floor rdb target = Some floor" and "boundary < floor"
    and "\<forall>t \<in> set targets. \<forall>f. target_rv_floor rdb t = Some f \<longrightarrow> f \<le> rv"
  shows "\<not> represents_event p floor floor_rv
    \<and> sqlite_replay_watch_history sdb targets p limit = Ok HistoryExpired
    \<and> (\<exists>page. redb_positioned_watch_events rdb targets p limit = Ok (HistoryEvents page)
        \<and> whp_events page = take limit (open_events p (redb_log rdb targets)))"
proof -
  have same: "rws_position rdb = sws_position sdb"
    using assms(3) by (simp add: same_retention_def)
  let ?boundaries = "target_replay_boundaries sdb target"
  let ?floors = "List.map_filter exact_position ?boundaries"
  have t: "list_all (\<lambda>b. exact_position b \<noteq> None) ?boundaries"
      "list_all (\<lambda>f. 0 < wrp_event_id f \<and> wrp_event_id f \<le> wrp_event_id (sws_position sdb)) ?floors"
      "target_event_floor rdb target = greatest (map wrp_event_id ?floors)"
    using assms(3,9) by (auto simp: same_retention_def list_all_iff Let_def)
  have "is_some_and (greatest (map wrp_event_id ?floors)) (\<lambda>m. boundary < m)"
    unfolding t(3) [symmetric] assms(10) using assms(11) by simp
  then obtain f where f: "f \<in> set ?floors" "boundary < wrp_event_id f"
    by (auto simp: greatest_above)
  have head: "boundary < wrp_event_id (sws_position sdb)"
    using t(2) f by (force simp: list_all_iff)
  have "classify_all ?boundaries p = Expired"
    using f assms(5,6) by (subst exact_boundaries [OF t(1)])
      (auto simp: classify_all_def list_ex_iff from_resource_version_through_event_id_def)
  then have "sqlite_expired sdb targets p"
    using assms(5,6,9) head
    by (auto simp: sqlite_expired_def sqlite_watch_position_expired_def list_ex_iff
        from_resource_version_through_event_id_def)
  moreover have "\<not> redb_expired rdb targets p"
    using assms(5,6,8,12) head same
    by (auto simp: redb_expired_def position_expired_for_targets_def list_ex_iff is_some_and_iff
        from_resource_version_through_event_id_def)
  moreover have "valid_position p"
    using assms(5,6,7) by (simp add: valid_position_def from_resource_version_through_event_id_def)
  moreover have "\<not> represents_event p floor floor_rv"
    using assms(5,6,11) by (simp add: represents_event_def from_resource_version_through_event_id_def)
  ultimately show ?thesis
    using sqlite.read_expired [OF assms(2)] redb.read_open_page [OF assms(1) _ _ assms(4)] by blast
qed

text \<open>Events 1 and 2 of one version, the second of them collected after a listing that saw only the first.\<close>

definition example_passed_redb :: redb_watch_store
where
  "example_passed_redb =
    (let key = floor_key ''v1'' ''ConfigMap'' ''default'' in
     \<lparr>rws_position = event_position 3 6, rws_rv_floors = [(key, 5)],
      rws_position_floors = [(key, replicate 7 (CHR 0x00) @ [CHR 0x05] @ replicate 7 (CHR 0x00) @ [CHR 0x02])],
      rws_watch_events = [(3, Some (example_stored 6 ''MODIFIED''))]\<rparr>)"

definition example_passed_sqlite :: sqlite_watch_store
where
  "example_passed_sqlite =
    \<lparr>sws_position = event_position 3 6,
     sws_floors = [\<lparr>wfr_api_version = ''v1'', wfr_kind = ''ConfigMap'', wfr_namespace_key = ''default'',
       wfr_floor_rv = 5, wfr_floor_event_id = 2, wfr_floor_position_exact = True\<rparr>],
     sws_watch_events = [example_row 3 6 ''MODIFIED'']\<rparr>"

lemma example_passed_wf: "redb_log_wf example_passed_redb" "sqlite_log_wf example_passed_sqlite"
  by (simp_all add: redb_log_wf_def example_passed_redb_def example_stored_def i64_max_def
      sqlite_log_wf_def example_passed_sqlite_def example_row_def Let_def)

lemma example_passed_retention:
  "same_retention example_passed_redb example_passed_sqlite [example_target]"
  by code_simp

lemma example_passed_floors:
  "target_event_floor example_passed_redb example_target = Some 2"
  "target_rv_floor example_passed_redb example_target = Some 5"
  by code_simp+

theorem redb_serves_expired_listing_witness:
  "sqlite_replay_watch_history example_passed_sqlite [example_target]
      (from_resource_version_through_event_id 5 1) 10 = Ok HistoryExpired
  \<and> (\<exists>page. redb_positioned_watch_events example_passed_redb [example_target]
      (from_resource_version_through_event_id 5 1) 10 = Ok (HistoryEvents page))"
  using redb_serves_expired_listing [OF example_passed_wf example_passed_retention _ refl _ _ _ _
      example_passed_floors(1), of 10 1 5] example_passed_floors(2)
  by (auto simp: example_passed_redb_def Let_def)

end
