(* ===== verification/Watch_Session.thy ===== *)
theory Watch_Session
  imports Watch_Store
begin

text \<open>
  One positioned watch session: the events of \<^verbatim>\<open>klights-leader-api/src/lib.rs\<close> with the
  consumer's resume cursor, and \<^verbatim>\<open>klights-watch/src/session.rs\<close> with the selector
  membership, the bounded replay step and the pull loop.

  The durable history, the optional resource projection and the label and field selectors
  of the request are arguments of the session. Waiting for the next live signal is a state
  of its own, in which the loop has nothing left to deliver.
\<close>

section \<open>Events and the resume cursor\<close>

datatype watch_event_type = WAdded | WModified | WDeleted | WBookmark | WError

record resource_event =
  re_event_type :: watch_event_type
  re_resource :: resource
  re_resume_position :: "watch_replay_position option"

datatype leader_watch_error =
    InvalidRequest string
  | ReplayExpired int
  | MalformedEvent string
  | InvalidResumePosition replay_position_error
  | MismatchedEvent resource
  | UnknownEventType string
  | OutOfOrderEvent int int
  | HistoryCorrupt watch_history_error
  | HistoryFailed history_read_error

fun watch_event_type_as_str :: "watch_event_type \<Rightarrow> string"
where
  "watch_event_type_as_str WAdded = ''ADDED''"
| "watch_event_type_as_str WModified = ''MODIFIED''"
| "watch_event_type_as_str WDeleted = ''DELETED''"
| "watch_event_type_as_str WBookmark = ''BOOKMARK''"
| "watch_event_type_as_str WError = ''ERROR''"

definition resource_event_try_new ::
  "watch_event_type \<Rightarrow> resource \<Rightarrow> watch_replay_position option
    \<Rightarrow> (resource_event, leader_watch_error) rust_result"
where
  "resource_event_try_new event_type resource resume_position =
    (if r_api_version resource = [] \<or> r_kind resource = []
     then Err (MalformedEvent ''watch event is missing apiVersion or kind'')
     else if event_type \<in> {WAdded, WModified, WDeleted} \<and> r_name resource = []
     then Err (MalformedEvent ''resource watch event is missing metadata.name'')
     else if r_resource_version resource < 0
     then Err (MalformedEvent ''watch event has a negative resourceVersion'')
     else (case resume_position of
             None \<Rightarrow> Ok \<lparr>re_event_type = event_type, re_resource = resource, re_resume_position = None\<rparr>
           | Some position \<Rightarrow>
               (case validate_position position of
                  Inl e \<Rightarrow> Err (InvalidResumePosition e)
                | Inr _ \<Rightarrow> Ok \<lparr>re_event_type = event_type, re_resource = resource,
                              re_resume_position = Some position\<rparr>)))"

definition try_from_wire_type ::
  "string \<Rightarrow> resource \<Rightarrow> watch_replay_position option \<Rightarrow> (resource_event, leader_watch_error) rust_result"
where
  "try_from_wire_type event_type resource resume_position =
    (if event_type = ''ADDED'' then resource_event_try_new WAdded resource resume_position
     else if event_type = ''MODIFIED'' then resource_event_try_new WModified resource resume_position
     else if event_type = ''DELETED'' then resource_event_try_new WDeleted resource resume_position
     else if event_type = ''BOOKMARK'' then resource_event_try_new WBookmark resource resume_position
     else if event_type = ''ERROR'' then resource_event_try_new WError resource resume_position
     else Err (UnknownEventType event_type))"

datatype resource_list_scope = ListCluster | ListAllNamespaces | ListNamespace string

record watch_request =
  wq_api_version :: string
  wq_kind :: string
  wq_namespace :: "string option"
  wq_scope :: resource_list_scope
  wq_start_resource_version :: "int option"

definition event_validate_for ::
  "resource_event \<Rightarrow> watch_request \<Rightarrow> (unit, leader_watch_error) rust_result"
where
  "event_validate_for event request =
    (if re_event_type event = WError then Ok ()
     else if r_api_version (re_resource event) \<noteq> wq_api_version request
             \<or> r_kind (re_resource event) \<noteq> wq_kind request
             \<or> (re_event_type event \<in> {WAdded, WModified, WDeleted}
                \<and> is_some_and (wq_namespace request)
                    (\<lambda>namespace. r_namespace (re_resource event) \<noteq> Some namespace))
     then Err (MismatchedEvent (re_resource event))
     else Ok ())"

record watch_resume_cursor =
  wrc_resource_version :: "int option"
  wrc_replay_position :: "watch_replay_position option"

definition advance_after_apply ::
  "watch_resume_cursor \<Rightarrow> resource_event \<Rightarrow> (watch_resume_cursor, leader_watch_error) rust_result"
where
  "advance_after_apply cursor event =
    result_bind (case (wrc_replay_position cursor, re_resume_position event) of
       (Some current, Some delivered) \<Rightarrow>
         if \<not> permits_successor current delivered
         then Err (OutOfOrderEvent (wrp_event_id current) (wrp_event_id delivered)) else Ok ()
     | _ \<Rightarrow> Ok ())
    (\<lambda>_. let delivered_rv = r_resource_version (re_resource event) in
      Ok \<lparr>wrc_resource_version =
            (if delivered_rv > 0 then Some (max (unwrap_or (wrc_resource_version cursor) 0) delivered_rv)
             else wrc_resource_version cursor),
          wrc_replay_position = re_resume_position event\<rparr>)"


section \<open>Selector membership\<close>

type_synonym selector_key = "string option \<times> string"

type_synonym selector_membership = "selector_key \<rightharpoonup> resource"

definition selector_key_of :: "resource \<Rightarrow> selector_key"
  where "selector_key_of resource = (r_namespace resource, r_name resource)"

datatype selector_membership_mutation =
    MutationNone
  | MutationUpsert selector_key resource
  | MutationRemove selector_key

definition membership_replace :: "resource list \<Rightarrow> selector_membership"
  where "membership_replace resources = foldl (\<lambda>m r. m(selector_key_of r \<mapsto> r)) Map.empty resources"

definition event_always_deliver :: "watch_event_type \<Rightarrow> bool"
  where "event_always_deliver event_type \<longleftrightarrow> event_type \<in> {WBookmark, WError}"

definition membership_prepare ::
  "selector_membership \<Rightarrow> resource_event \<Rightarrow> bool
    \<Rightarrow> (resource_event option \<times> selector_membership_mutation, leader_watch_error) rust_result"
where
  "membership_prepare matched event matches =
    (if event_always_deliver (re_event_type event) then Ok (Some event, MutationNone)
     else
      (let key = selector_key_of (re_resource event);
           prior = matched key;
           was_member = prior \<noteq> None;
           position = re_resume_position event;
           current = re_resource event
       in if re_event_type event = WDeleted
          then Ok (if was_member \<or> matches then Some event else None,
                   if was_member then MutationRemove key else MutationNone)
          else if matches
          then (if was_member \<or> re_event_type event = WAdded
                then Ok (Some event, MutationUpsert key current)
                else result_bind (resource_event_try_new WAdded current position)
                       (\<lambda>added. Ok (Some added, MutationUpsert key current)))
          else if was_member
          then result_bind (resource_event_try_new WDeleted (the prior) position)
                 (\<lambda>deleted. Ok (Some deleted, MutationRemove key))
          else Ok (None, MutationNone)))"

fun membership_commit :: "selector_membership \<Rightarrow> selector_membership_mutation \<Rightarrow> selector_membership"
where
  "membership_commit matched MutationNone = matched"
| "membership_commit matched (MutationUpsert key resource) = matched(key \<mapsto> resource)"
| "membership_commit matched (MutationRemove key) = matched(key := None)"

definition membership_transition ::
  "selector_membership \<Rightarrow> resource_event \<Rightarrow> bool
    \<Rightarrow> (resource_event option \<times> selector_membership, leader_watch_error) rust_result"
where
  "membership_transition matched event matches =
    result_bind (membership_prepare matched event matches)
      (\<lambda>(event', mutation). Ok (event', membership_commit matched mutation))"


section \<open>The session\<close>

record session_config =
  sc_request :: watch_request
  sc_delivery_scope :: durable_watch_scope
  sc_has_selector :: bool
  sc_filter_matches :: "resource \<Rightarrow> bool"
  sc_projection :: "(resource \<Rightarrow> (resource list, leader_watch_error) rust_result) option"
  sc_history :: "watch_replay_position \<Rightarrow> (durable_watch_event history_read, history_read_error) rust_result"

record session_state =
  ss_replay_position :: watch_replay_position
  ss_pending :: "resource_event list"
  ss_replay_needed :: bool
  ss_membership :: selector_membership

definition durable_target :: "watch_request \<Rightarrow> durable_watch_target"
where
  "durable_target request =
    \<lparr>dwt_api_version = wq_api_version request, dwt_kind = wq_kind request,
     dwt_scope =
       (case wq_scope request of
          ListCluster \<Rightarrow> ClusterScope
        | ListNamespace namespace \<Rightarrow> NamespacedScope (Some namespace)
        | ListAllNamespaces \<Rightarrow> NamespacedScope None)\<rparr>"

definition replay_position_at_anchor :: "watch_request \<Rightarrow> watch_replay_position \<Rightarrow> watch_replay_position"
where
  "replay_position_at_anchor request anchor =
    (case wq_start_resource_version request of
       None \<Rightarrow> anchor
     | Some rv \<Rightarrow> from_resource_version_through_event_id rv (wrp_event_id anchor))"

definition validate_event_scope ::
  "resource_event \<Rightarrow> durable_watch_scope \<Rightarrow> (unit, leader_watch_error) rust_result"
where
  "validate_event_scope event scope =
    (if re_event_type event \<in> {WBookmark, WError} then Ok ()
     else if \<not> scope_matches_namespace scope (r_namespace (re_resource event))
     then Err (MismatchedEvent (re_resource event))
     else Ok ())"

definition project_one ::
  "session_config \<Rightarrow> resource \<Rightarrow> (resource, leader_watch_error) rust_result"
where
  "project_one cfg resource =
    result_bind
      (case sc_projection cfg of None \<Rightarrow> Ok [resource] | Some project \<Rightarrow> project resource)
      (\<lambda>projected. case projected of
         [r] \<Rightarrow> Ok r
       | _ \<Rightarrow> Err (MalformedEvent ''watch event projection must return exactly one resource''))"

fun decode_page ::
  "session_config \<Rightarrow> watch_replay_position \<Rightarrow> durable_watch_event positioned_watch_event list
    \<Rightarrow> (resource_event list, leader_watch_error) rust_result"
where
  "decode_page cfg delivered [] = Ok []"
| "decode_page cfg delivered (positioned # rest) =
    result_bind (map_err InvalidResumePosition (advance_through_event delivered (pwe_position positioned)))
      (\<lambda>delivered'.
    result_bind (project_one cfg (dwe_resource (pwe_event positioned))) (\<lambda>resource.
    result_bind (try_from_wire_type (dwe_event_type (pwe_event positioned)) resource (Some delivered'))
      (\<lambda>event.
    result_bind (event_validate_for event (sc_request cfg)) (\<lambda>_.
    result_bind (validate_event_scope event (sc_delivery_scope cfg)) (\<lambda>_.
    result_bind (decode_page cfg delivered' rest) (\<lambda>events. Ok (event # events)))))))"

definition replay_once ::
  "session_config \<Rightarrow> session_state \<Rightarrow> (session_state, leader_watch_error) rust_result"
where
  "replay_once cfg st =
    (let requested = ss_replay_position st in
     result_bind (map_err HistoryFailed (sc_history cfg requested)) (\<lambda>read.
       case read of
         HistoryExpired \<Rightarrow> Err (ReplayExpired (wrp_resource_version requested))
       | HistoryEvents page \<Rightarrow>
           result_bind (map_err HistoryCorrupt (validate_after page requested)) (\<lambda>_.
           result_bind (decode_page cfg requested (whp_events page)) (\<lambda>decoded.
             Ok (st\<lparr>ss_replay_position := whp_next_position page, ss_pending := decoded,
                    ss_replay_needed := (decoded \<noteq> [])\<rparr>)))))"

datatype session_step =
    Deliver resource_event session_state
  | Proceed session_state
  | AwaitSignal session_state
  | Failed leader_watch_error

text \<open>One turn of the loop of \<^verbatim>\<open>next_event\<close>.\<close>

definition session_turn :: "session_config \<Rightarrow> session_state \<Rightarrow> session_step"
where
  "session_turn cfg st =
    (case ss_pending st of
       event # rest \<Rightarrow>
         (let st' = st\<lparr>ss_pending := rest\<rparr> in
          if \<not> sc_has_selector cfg then Deliver event st'
          else (case membership_transition (ss_membership st) event
                       (sc_filter_matches cfg (re_resource event)) of
                  Inl e \<Rightarrow> Failed e
                | Inr (Some event', matched) \<Rightarrow> Deliver event' (st'\<lparr>ss_membership := matched\<rparr>)
                | Inr (None, matched) \<Rightarrow> Proceed (st'\<lparr>ss_membership := matched\<rparr>)))
     | [] \<Rightarrow>
         if ss_replay_needed st
         then (case replay_once cfg st of Inl e \<Rightarrow> Failed e | Inr st' \<Rightarrow> Proceed st')
         else AwaitSignal st)"

text \<open>The events a session delivers until it waits for a signal, within a number of turns.\<close>

fun run_session ::
  "nat \<Rightarrow> session_config \<Rightarrow> session_state
    \<Rightarrow> (resource_event list \<times> session_state, leader_watch_error) rust_result option"
where
  "run_session 0 cfg st = None"
| "run_session (Suc fuel) cfg st =
    (case session_turn cfg st of
       AwaitSignal st' \<Rightarrow> Some (Ok ([], st'))
     | Failed e \<Rightarrow> Some (Err e)
     | Proceed st' \<Rightarrow> run_session fuel cfg st'
     | Deliver event st' \<Rightarrow>
         map_option (\<lambda>r. result_bind r (\<lambda>(events, st''). Ok (event # events, st''))) (run_session fuel cfg st'))"


section \<open>A selector watch shows exactly the selected objects\<close>

text \<open>What a list-watch consumer does with an event, and the part of a collection a selector
  selects.\<close>

definition view_apply :: "selector_membership \<Rightarrow> resource_event \<Rightarrow> selector_membership"
where
  "view_apply view event =
    (if re_event_type event \<in> {WAdded, WModified}
     then view(selector_key_of (re_resource event) \<mapsto> re_resource event)
     else if re_event_type event = WDeleted
     then view(selector_key_of (re_resource event) := None)
     else view)"

definition selected :: "(resource \<Rightarrow> bool) \<Rightarrow> selector_membership \<Rightarrow> selector_membership"
where
  "selected matches full =
    (\<lambda>key. case full key of None \<Rightarrow> None | Some r \<Rightarrow> if matches r then Some r else None)"

fun transition_all ::
  "(resource \<Rightarrow> bool) \<Rightarrow> selector_membership \<Rightarrow> resource_event list
    \<Rightarrow> (resource_event list \<times> selector_membership, leader_watch_error) rust_result"
where
  "transition_all matches matched [] = Ok ([], matched)"
| "transition_all matches matched (event # events) =
    result_bind (membership_transition matched event (matches (re_resource event))) (\<lambda>(out, matched').
    result_bind (transition_all matches matched' events) (\<lambda>(outs, matched'').
      Ok ((case out of None \<Rightarrow> outs | Some e \<Rightarrow> e # outs), matched'')))"

lemma resource_event_try_new_Ok:
  "resource_event_try_new t r pos = Ok e \<Longrightarrow> re_event_type e = t \<and> re_resource e = r \<and> re_resume_position e = pos"
  by (auto simp: resource_event_try_new_def split: if_splits option.splits sum.splits)

definition keyed :: "selector_membership \<Rightarrow> bool"
  where "keyed m \<longleftrightarrow> (\<forall>key r. m key = Some r \<longrightarrow> selector_key_of r = key)"

lemma keyed_view_apply: "keyed m \<Longrightarrow> keyed (view_apply m event)"
  by (auto simp: keyed_def view_apply_def)

lemma selected_upd:
  "selected f (full(key \<mapsto> r)) = (selected f full)(key := (if f r then Some r else None))"
  "selected f (full(key := None)) = (selected f full)(key := None)"
  by (simp_all add: selected_def fun_eq_iff)

lemma keyed_selected: "keyed full \<Longrightarrow> keyed (selected f full)"
  by (simp add: keyed_def selected_def split: option.split)

lemma fun_upd_None_idem: "m key = None \<Longrightarrow> m(key := None) = m"
  by auto

text \<open>The new membership, and that the consumer's view follows it.\<close>

lemma membership_transition_state:
  assumes "membership_transition matched event matches = Ok (out, matched')"
  shows "matched' =
    (if event_always_deliver (re_event_type event) then matched
     else matched(selector_key_of (re_resource event) :=
       (if matches \<and> re_event_type event \<noteq> WDeleted then Some (re_resource event) else None)))"
  using assms
  by (auto simp: membership_transition_def membership_prepare_def Let_def fun_upd_None_idem
      split: if_splits)

lemma membership_transition_view:
  assumes "membership_transition matched event matches = Ok (out, matched')" and "keyed matched"
  shows "matched' = (case out of None \<Rightarrow> matched | Some e \<Rightarrow> view_apply matched e)"
proof -
  have prior: "selector_key_of r = key" if "matched key = Some r" for key r
    using assms(2) that unfolding keyed_def by blast
  show ?thesis
    using assms(1) prior [of "selector_key_of (re_resource event)"]
    by (cases "re_event_type event")
      (auto simp: membership_transition_def membership_prepare_def event_always_deliver_def Let_def
        view_apply_def fun_upd_None_idem dest!: resource_event_try_new_Ok split: if_splits)
qed

lemma membership_transition_refines:
  assumes ok: "membership_transition (selected f full) event (f (re_resource event)) = Ok (out, matched)"
    and keyed: "keyed full"
  shows "matched = selected f (view_apply full event)"
    and "matched = (case out of None \<Rightarrow> selected f full | Some e \<Rightarrow> view_apply (selected f full) e)"
proof -
  show "matched = selected f (view_apply full event)"
    unfolding membership_transition_state [OF ok]
    by (cases "re_event_type event")
      (simp_all add: event_always_deliver_def view_apply_def selected_upd)
  show "matched = (case out of None \<Rightarrow> selected f full | Some e \<Rightarrow> view_apply (selected f full) e)"
    using membership_transition_view [OF ok keyed_selected [OF keyed]] .
qed

lemma transition_all_refines:
  assumes "transition_all f (selected f full) events = Ok (outs, matched)" and "keyed full"
  shows "matched = selected f (foldl view_apply full events)
    \<and> matched = foldl view_apply (selected f full) outs"
  using assms
proof (induction events arbitrary: full outs matched)
  case (Cons event events)
  then obtain out mid outs' where out:
      "membership_transition (selected f full) event (f (re_resource event)) = Ok (out, mid)"
      "transition_all f mid events = Ok (outs', matched)"
      "outs = (case out of None \<Rightarrow> outs' | Some e \<Rightarrow> e # outs')"
    by auto
  note mid = membership_transition_refines [OF out(1) Cons.prems(2)]
  have "matched = selected f (foldl view_apply (view_apply full event) events)
      \<and> matched = foldl view_apply mid outs'"
    using Cons.IH [OF _ keyed_view_apply [OF Cons.prems(2)]] out(2) unfolding mid(1) .
  then show ?case
    using out(3) mid(2) by (cases out) auto
qed simp


section \<open>A session delivers the open events exactly once\<close>

text \<open>The rows a session can decode: the request's kind and scope, a known event type, and
  the identity fields present. There is no projection.\<close>

definition deliverable :: "session_config \<Rightarrow> durable_watch_event \<Rightarrow> bool"
where
  "deliverable cfg event \<longleftrightarrow>
    (let r = dwe_resource event; q = sc_request cfg in
     sc_projection cfg = None \<and> dwe_event_type event \<in> {''ADDED'', ''MODIFIED'', ''DELETED''}
     \<and> r_api_version r = wq_api_version q \<and> r_api_version r \<noteq> []
     \<and> r_kind r = wq_kind q \<and> r_kind r \<noteq> [] \<and> r_name r \<noteq> [] \<and> 0 \<le> r_resource_version r
     \<and> wq_namespace q \<in> {None, r_namespace r}
     \<and> scope_matches_namespace (sc_delivery_scope cfg) (r_namespace r))"

definition delivered_as :: "resource_event \<Rightarrow> string \<times> resource"
  where "delivered_as event = (watch_event_type_as_str (re_event_type event), re_resource event)"

definition stored_as :: "durable_watch_event positioned_watch_event \<Rightarrow> string \<times> resource"
  where "stored_as e = (dwe_event_type (pwe_event e), dwe_resource (pwe_event e))"

lemma try_new_valid:
  assumes "r_api_version r \<noteq> []" and "r_kind r \<noteq> []" and "r_name r \<noteq> []" and "0 \<le> r_resource_version r"
    and "valid_position p"
  shows "resource_event_try_new t r (Some p) =
    Ok \<lparr>re_event_type = t, re_resource = r, re_resume_position = Some p\<rparr>"
proof -
  have "validate_position p = Ok ()"
    using assms by (simp add: validate_position_Ok_iff)
  then show ?thesis
    using assms by (simp add: resource_event_try_new_def)
qed

lemma decode_event:
  assumes "deliverable cfg event" and "valid_position p"
  shows "\<exists>ev. project_one cfg (dwe_resource event) = Ok (dwe_resource event)
    \<and> try_from_wire_type (dwe_event_type event) (dwe_resource event) (Some p) = Ok ev
    \<and> event_validate_for ev (sc_request cfg) = Ok () \<and> validate_event_scope ev (sc_delivery_scope cfg) = Ok ()
    \<and> delivered_as ev = (dwe_event_type event, dwe_resource event) \<and> re_resume_position ev = Some p"
proof -
  let ?r = "dwe_resource event"
  note d = assms(1) [unfolded deliverable_def Let_def]
  from d obtain t where t: "t \<in> {WAdded, WModified, WDeleted}" "dwe_event_type event = watch_event_type_as_str t"
    by (metis (no_types) insert_iff singletonD watch_event_type_as_str.simps(1-3))
  let ?ev = "\<lparr>re_event_type = t, re_resource = ?r, re_resume_position = Some p\<rparr>"
  have "resource_event_try_new t ?r (Some p) = Ok ?ev"
    using d assms(2) by (intro try_new_valid) auto
  then have "try_from_wire_type (dwe_event_type event) ?r (Some p) = Ok ?ev"
    using t by (auto simp: try_from_wire_type_def)
  moreover have "project_one cfg ?r = Ok ?r"
    using d by (simp add: project_one_def)
  moreover have "event_validate_for ?ev (sc_request cfg) = Ok ()"
    using d by (auto simp: event_validate_for_def is_some_and_iff)
  moreover have "validate_event_scope ?ev (sc_delivery_scope cfg) = Ok ()"
    using d by (simp add: validate_event_scope_def)
  ultimately show ?thesis
    using t by (intro exI [of _ ?ev]) (simp add: delivered_as_def)
qed

lemma decode_page_delivers:
  assumes "advance_all p es = Ok q" and "\<forall>e \<in> set es. deliverable cfg (pwe_event e)"
  shows "\<exists>evs. decode_page cfg p es = Ok evs \<and> map delivered_as evs = map stored_as es"
  using assms
proof (induction es arbitrary: p)
  case (Cons e es)
  then obtain p' where p': "advance_through_event p (pwe_position e) = Ok p'" "advance_all p' es = Ok q"
    by auto
  then have "valid_position p'"
    using advanced_permitted permits_successor_valid by (auto simp: advance_through_event_Ok_iff)
  then obtain ev where ev: "project_one cfg (dwe_resource (pwe_event e)) = Ok (dwe_resource (pwe_event e))"
      "try_from_wire_type (dwe_event_type (pwe_event e)) (dwe_resource (pwe_event e)) (Some p') = Ok ev"
      "event_validate_for ev (sc_request cfg) = Ok ()" "validate_event_scope ev (sc_delivery_scope cfg) = Ok ()"
      "delivered_as ev = stored_as e"
    using decode_event [of cfg "pwe_event e" p'] Cons.prems(2) by (auto simp: stored_as_def)
  obtain evs where "decode_page cfg p' es = Ok evs" "map delivered_as evs = map stored_as es"
    using Cons.IH [OF p'(2)] Cons.prems(2) by auto
  then show ?case
    using p' ev by simp
qed simp

lemma run_pending:
  assumes "\<not> sc_has_selector cfg"
  shows "run_session (length evs + fuel) cfg (st\<lparr>ss_pending := evs\<rparr>) =
    map_option (\<lambda>r. result_bind r (\<lambda>(events, st'). Ok (evs @ events, st')))
      (run_session fuel cfg (st\<lparr>ss_pending := []\<rparr>))"
proof (induction evs arbitrary: st)
  case Nil
  have "result_bind r (\<lambda>(events, st'). Ok (events, st')) = r" for r
    :: "(resource_event list \<times> session_state, leader_watch_error) rust_result"
    by (cases r) simp_all
  then show ?case by (simp add: option.map_ident)
next
  case (Cons ev evs)
  have turn: "session_turn cfg (st\<lparr>ss_pending := ev # evs\<rparr>) = Deliver ev (st\<lparr>ss_pending := evs\<rparr>)"
    using assms by (simp add: session_turn_def)
  have "result_bind (result_bind r (\<lambda>(events, st'). Ok (evs @ events, st')))
        (\<lambda>(events, st''). Ok (ev # events, st''))
      = result_bind r (\<lambda>(events, st'). Ok (ev # evs @ events, st'))" for r
    :: "(resource_event list \<times> session_state, leader_watch_error) rust_result"
    by (cases r) (simp_all add: case_prod_beta)
  then show ?case
    using Cons [of st] turn by (simp add: option.map_comp comp_def)
qed

definition session_at :: "watch_replay_position \<Rightarrow> bool \<Rightarrow> session_state"
where
  "session_at p needed =
    \<lparr>ss_replay_position = p, ss_pending = [], ss_replay_needed = needed, ss_membership = Map.empty\<rparr>"

lemma run_session_idle: "run_session (Suc fuel) cfg (session_at p False) = Some (Ok ([], session_at p False))"
  by (simp add: session_turn_def session_at_def)

lemma session_at_pending:
  "session_at p needed\<lparr>ss_pending := []\<rparr> = session_at p needed"
  by (simp add: session_at_def)

lemma replay_once_page:
  assumes "sc_history cfg p = Ok (HistoryEvents page)" and "validate_after page p = Ok ()"
    and "decode_page cfg p (whp_events page) = Ok evs"
  shows "replay_once cfg (session_at p True) =
    Ok (session_at (whp_next_position page) (evs \<noteq> [])\<lparr>ss_pending := evs\<rparr>)"
  using assms by (simp add: replay_once_def session_at_def)

text \<open>One turn reads a page; its events are then delivered in order.\<close>

lemma run_session_page:
  assumes "\<not> sc_has_selector cfg" and "replay_once cfg (session_at p True) = Ok (session_at q (evs \<noteq> [])\<lparr>ss_pending := evs\<rparr>)"
  shows "run_session (Suc (length evs + fuel)) cfg (session_at p True) =
    map_option (\<lambda>r. result_bind r (\<lambda>(events, st'). Ok (evs @ events, st')))
      (run_session fuel cfg (session_at q (evs \<noteq> [])))"
proof -
  have "session_turn cfg (session_at p True) = Proceed (session_at q (evs \<noteq> [])\<lparr>ss_pending := evs\<rparr>)"
    using assms(2) by (simp add: session_turn_def session_at_def)
  then show ?thesis
    using run_pending [OF assms(1), of evs fuel "session_at q (evs \<noteq> [])"] by (simp add: session_at_pending)
qed

lemma run_session_mono: "run_session fuel cfg st = Some r \<Longrightarrow> run_session (fuel + extra) cfg st = Some r"
  by (induction fuel cfg st arbitrary: r rule: run_session.induct)
    (fastforce split: session_step.splits)+

context watch_log_backend
begin

lemma session_page:
  assumes "wf db" and "positioned_cursor p" and "\<not> expired db targets p" and "0 < limit"
    and "sc_history cfg p = read db targets p limit"
    and "\<forall>e \<in> set (log db targets). deliverable cfg (pwe_event e)"
  obtains evs q where "replay_once cfg (session_at p True) = Ok (session_at q (evs \<noteq> [])\<lparr>ss_pending := evs\<rparr>)"
    and "map delivered_as evs = map stored_as (take limit (open_events p (log db targets)))"
    and "positioned_cursor q" and "permits_successor p q" and "wrp_event_id q \<le> head db"
    and "open_events q (log db targets) = drop limit (open_events p (log db targets))"
proof -
  let ?es = "take limit (open_events p (log db targets))"
  have p: "valid_position p"
    using assms(2) by (simp add: positioned_cursor_def)
  note at_head = not_expired_head [OF assms(3)]
  obtain page where page: "read db targets p limit = Ok (HistoryEvents page)" "whp_events page = ?es"
      "after_page p ?es (head db) = Ok (whp_next_position page)" "validate_after page p = Ok ()"
    using read_open_page [OF assms(1,3) p assms(4)] by auto
  obtain r where "advance_all p ?es = Ok r"
    using advance_page [OF p open_page_of_log [OF assms(1)]] by blast
  moreover have "\<forall>e \<in> set ?es. deliverable cfg (pwe_event e)"
    using assms(6) by (auto dest!: in_set_takeD simp: open_events_def)
  ultimately obtain evs where evs: "decode_page cfg p ?es = Ok evs" "map delivered_as evs = map stored_as ?es"
    using decode_page_delivers by blast
  have "permits_successor p (whp_next_position page)" "wrp_event_id (whp_next_position page) \<le> head db"
    using after_page_open [OF p at_head open_page_of_log [OF assms(1)], of limit targets] page(3) by auto
  then show ?thesis
    using that [of evs "whp_next_position page"] evs page assms(5)
      replay_once_page [of cfg p page evs] open_after_page [OF assms(1,2) at_head page(3) assms(4)]
    by simp
qed

lemma session_delivers:
  assumes "wf db" and "0 < limit" and "\<not> sc_has_selector cfg"
    and "\<And>q. sc_history cfg q = read db targets q limit"
    and "\<forall>e \<in> set (log db targets). deliverable cfg (pwe_event e)"
    and "positioned_cursor p" and "wrp_event_id p \<le> head db"
    and "\<And>q. permits_successor p q \<Longrightarrow> wrp_event_id q \<le> head db \<Longrightarrow> \<not> expired db targets q"
  shows "\<exists>evs q. run_session (2 * length (open_events p (log db targets)) + 2) cfg (session_at p True)
      = Some (Ok (evs, session_at q False))
    \<and> map delivered_as evs = map stored_as (open_events p (log db targets))
    \<and> permits_successor p q \<and> open_events q (log db targets) = []"
  using assms(6-8)
proof (induction "length (open_events p (log db targets))" arbitrary: p rule: less_induct)
  case less
  let ?open = "open_events p (log db targets)"
  have "permits_successor p p"
    using less.prems(1) by (simp add: permits_successor_refl positioned_cursor_def)
  then obtain evs q where page:
      "replay_once cfg (session_at p True) = Ok (session_at q (evs \<noteq> [])\<lparr>ss_pending := evs\<rparr>)"
      "map delivered_as evs = map stored_as (take limit ?open)" "positioned_cursor q"
      "permits_successor p q" "open_events q (log db targets) = drop limit ?open" "wrp_event_id q \<le> head db"
    using session_page [OF assms(1) less.prems(1) _ assms(2) assms(4) assms(5)] less.prems(2,3) by blast
  note run = run_session_page [OF assms(3) page(1)]
  have len: "length evs = min (length ?open) limit"
    using arg_cong [OF page(2), of length] by simp
  show ?case
  proof (cases "?open = []")
    case True
    then have "evs = []" using len by simp
    then show ?thesis
      using run [of 1] True page(2,4,5) run_session_idle [of 0 cfg q]
      by (intro exI [of _ "[]"] exI [of _ q]) (simp add: numeral_2_eq_2)
  next
    case False
    then have "evs \<noteq> []" using len assms(2) by (cases ?open) auto
    let ?n = "length (open_events q (log db targets))"
    have n: "?n = length ?open - length evs"
      using len page(5) by auto
    moreover have "0 < length evs" "0 < length ?open"
      using \<open>evs \<noteq> []\<close> False by simp_all
    ultimately have "?n < length ?open" by linarith
    then obtain evs' q' where ih:
        "run_session (2 * ?n + 2) cfg (session_at q True) = Some (Ok (evs', session_at q' False))"
        "map delivered_as evs' = map stored_as (open_events q (log db targets))"
        "permits_successor q q'" "open_events q' (log db targets) = []"
      using less.hyps [of q] page(3,4,6) less.prems(3) permits_successor_trans by blast
    have "run_session (Suc (length evs + (2 * ?n + 2 + (length evs - 1)))) cfg (session_at p True)
        = Some (Ok (evs @ evs', session_at q' False))"
      using run [of "2 * ?n + 2 + (length evs - 1)"] run_session_mono [OF ih(1), of "length evs - 1"]
        \<open>evs \<noteq> []\<close> by simp
    moreover have "Suc (length evs + (2 * ?n + 2 + (length evs - 1))) = 2 * length ?open + 2"
      using n \<open>evs \<noteq> []\<close> len by (cases evs) auto
    moreover have "map delivered_as (evs @ evs') = map stored_as ?open"
      using page(2,5) ih(2) by (metis append_take_drop_id map_append)
    ultimately show ?thesis
      using ih(4) permits_successor_trans [OF page(4) ih(3)] by metis
  qed
qed

end


section \<open>Properties\<close>

text \<open>C3: A watch session delivers every event once and in order. On a well-formed SQLite log whose
  rows the request can decode, a session that starts at a positioned cursor and reads pages of
  any positive size delivers exactly the events its cursor does not represent, in log order,
  and then waits for a signal at a permitted cursor for which nothing is left to deliver. The
  number of loop turns is bounded by twice the number of delivered events plus two.\<close>

theorem sqlite_session_exactly_once:
  assumes "sqlite_log_wf db" and "0 < limit" and "\<not> sc_has_selector cfg"
    and "\<And>q. sc_history cfg q = sqlite_replay_watch_history db targets q limit"
    and "\<And>e. e \<in> set (sqlite_log db targets) \<Longrightarrow> deliverable cfg (pwe_event e)"
    and "positioned_cursor p" and "wrp_event_id p \<le> wrp_event_id (sws_position db)"
    and "\<And>q. permits_successor p q \<Longrightarrow> wrp_event_id q \<le> wrp_event_id (sws_position db) \<Longrightarrow>
      \<not> sqlite_expired db targets q"
  shows "\<exists>evs q. run_session (2 * length (open_events p (sqlite_log db targets)) + 2) cfg (session_at p True)
      = Some (Ok (evs, session_at q False))
    \<and> map delivered_as evs = map stored_as (open_events p (sqlite_log db targets))
    \<and> permits_successor p q \<and> open_events q (sqlite_log db targets) = []"
  using assms by (intro sqlite.session_delivers) auto

definition example_config :: session_config
where
  "example_config =
    \<lparr>sc_request = \<lparr>wq_api_version = ''v1'', wq_kind = ''ConfigMap'', wq_namespace = Some ''default'',
       wq_scope = ListNamespace ''default'', wq_start_resource_version = Some 5\<rparr>,
     sc_delivery_scope = NamespacedScope (Some ''default''), sc_has_selector = False,
     sc_filter_matches = (\<lambda>_. True), sc_projection = None,
     sc_history = (\<lambda>q. sqlite_replay_watch_history example_sqlite [example_target] q 1)\<rparr>"

theorem sqlite_session_exactly_once_witness:
  "\<exists>evs q. run_session 4 example_config (session_at (from_resource_version_through_event_id 5 2) True)
      = Some (Ok (evs, session_at q False))
    \<and> map fst (map delivered_as evs) = [''MODIFIED'']"
proof -
  let ?p = "from_resource_version_through_event_id 5 2"
  have log: "sqlite_log example_sqlite [example_target] =
      [row_event (example_row 1 5 ''ADDED''), row_event (example_row 2 6 ''MODIFIED'')]"
    by (simp add: sqlite_log_def example_sqlite_def row_matches_target_def example_target_def
        target_matches_namespace_def example_row_def)
  have not_expired: "\<not> sqlite_expired example_sqlite [example_target] q"
    if "permits_successor ?p q" "wrp_event_id q \<le> 2" for q
    using that
    by (auto simp: sqlite_expired_def sqlite_watch_position_expired_def target_replay_boundaries_def
        read_scope_def example_sqlite_def classify_all_def from_resource_version_through_event_id_def
        example_target_def permits_successor_def Let_def split: if_splits)
  have "\<exists>evs q. run_session (2 * length (open_events ?p (sqlite_log example_sqlite [example_target])) + 2)
        example_config (session_at ?p True) = Some (Ok (evs, session_at q False))
      \<and> map delivered_as evs = map stored_as (open_events ?p (sqlite_log example_sqlite [example_target]))
      \<and> permits_successor ?p q \<and> open_events q (sqlite_log example_sqlite [example_target]) = []"
  proof (rule sqlite_session_exactly_once [OF example_sqlite_wf, of 1])
    show "deliverable example_config (pwe_event e)" if "e \<in> set (sqlite_log example_sqlite [example_target])" for e
      using that unfolding log
      by (auto simp: row_event_def example_row_def deliverable_def example_config_def Let_def)
  qed (use not_expired in \<open>auto simp: example_config_def example_sqlite_def positioned_cursor_def
      valid_position_def scalar_cursor_def from_resource_version_through_event_id_def\<close>)
  moreover have "open_events ?p (sqlite_log example_sqlite [example_target]) = [row_event (example_row 2 6 ''MODIFIED'')]"
    unfolding log by (simp add: open_events_def row_event_def example_row_def represents_position_def
        represents_event_def from_resource_version_through_event_id_def)
  ultimately show ?thesis
    by (auto simp: stored_as_def row_event_def example_row_def)
qed

text \<open>C17: A selector watch shows exactly the selected objects. If a consumer starts from the
  selected part of a collection and applies the events the selector membership lets through
  (some passed on, some turned into ADDED or DELETED, some suppressed), then after any sequence of
  raw events its view is the selected part of the collection after those events, and so is the
  membership the session keeps.\<close>

theorem selector_watch_exact:
  assumes "transition_all matches (selected matches full) events = Ok (outs, matched)" and "keyed full"
  shows "foldl view_apply (selected matches full) outs = selected matches (foldl view_apply full events)
    \<and> matched = selected matches (foldl view_apply full events)"
  using transition_all_refines [OF assms] by metis

definition example_object :: "string \<Rightarrow> int \<Rightarrow> resource"
where
  "example_object name rv =
    \<lparr>r_id = 0, r_api_version = ''v1'', r_kind = ''Pod'', r_namespace = Some ''default'', r_name = name,
     r_uid = ''u'', r_resource_version = rv, r_data = JNull\<rparr>"

theorem selector_watch_exact_witness:
  "\<exists>outs matched. transition_all (\<lambda>r. r_resource_version r < 3) Map.empty
      [\<lparr>re_event_type = WAdded, re_resource = example_object ''a'' 1, re_resume_position = None\<rparr>,
       \<lparr>re_event_type = WModified, re_resource = example_object ''a'' 4, re_resume_position = None\<rparr>]
      = Ok (outs, matched)
    \<and> map re_event_type outs = [WAdded, WDeleted] \<and> foldl view_apply Map.empty outs = Map.empty"
proof -
  let ?f = "\<lambda>r. r_resource_version r < 3"
  let ?events = "[\<lparr>re_event_type = WAdded, re_resource = example_object ''a'' 1, re_resume_position = None\<rparr>,
       \<lparr>re_event_type = WModified, re_resource = example_object ''a'' 4, re_resume_position = None\<rparr>]"
  have empty: "selected ?f Map.empty = Map.empty"
    by (simp add: selected_def)
  obtain outs matched where run: "transition_all ?f Map.empty ?events = Ok (outs, matched)"
      and types: "map re_event_type outs = [WAdded, WDeleted]"
    by (simp add: membership_transition_def membership_prepare_def event_always_deliver_def Let_def
        example_object_def selector_key_of_def resource_event_try_new_def)
  have "foldl view_apply Map.empty outs = selected ?f (foldl view_apply Map.empty ?events)"
    using selector_watch_exact [of ?f Map.empty ?events outs matched] run
    by (simp only: empty) (simp add: keyed_def)
  also have "\<dots> = Map.empty"
    by (simp add: view_apply_def selected_def selector_key_of_def example_object_def fun_eq_iff)
  finally have view: "foldl view_apply Map.empty outs = Map.empty" .
  show ?thesis
    by (intro exI conjI) (rule run, rule types, rule view)
qed

end
