(* ===== verification/Watch_Membership.thy ===== *)
theory Watch_Membership
  imports Watch_Store "HOL-Library.Product_Lexorder" "HOL-Library.Option_ord"
begin

text \<open>
  Reverse reconstruction of a collection at a watch position:
  \<^verbatim>\<open>klights-cluster-datastore/src/position_membership.rs\<close> and the read of the redb backend
  that feeds it (\<^verbatim>\<open>reconstruct_membership_in_read\<close> in \<^verbatim>\<open>redb/read_core.rs\<close>). The reconstructor
  starts from the current objects and undoes, newest first, the events the cursor does not
  represent. The main result is that it arrives at the objects obtained by applying just
  the represented events, where an object that was deleted later is taken from its delete row
  and so carries the version of the deletion.
\<close>

section \<open>The reconstructor\<close>

record membership_history_event =
  mhe_event_id :: int
  mhe_event_type :: string
  mhe_resource :: resource

type_synonym membership_key = resource_key

definition mhe_key :: "membership_history_event \<Rightarrow> membership_key"
  where "mhe_key event = resource_key (mhe_resource event)"


record membership_reconstructor =
  mr_state :: "(membership_key \<times> resource) list"
  mr_needs_predecessor :: "membership_key set"
  mr_position :: watch_replay_position
  mr_expired :: bool


definition mr_represents :: "membership_reconstructor \<Rightarrow> membership_history_event \<Rightarrow> bool"
where
  "mr_represents m event =
    represents_event (mr_position m) (mhe_event_id event) (r_resource_version (mhe_resource event))"

text \<open>The last part of \<^verbatim>\<open>observe\<close>: undo an event the cursor does not represent.\<close>

definition undo_event ::
  "membership_reconstructor \<Rightarrow> membership_history_event \<Rightarrow> membership_reconstructor"
where
  "undo_event m event =
    (if mr_represents m event then m
     else if mhe_event_type event = ''ADDED''
     then m\<lparr>mr_state := om_remove (mhe_key event) (mr_state m)\<rparr>
     else if mhe_event_type event = ''MODIFIED''
     then m\<lparr>mr_needs_predecessor := insert (mhe_key event) (mr_needs_predecessor m)\<rparr>
     else if mhe_event_type event = ''DELETED''
     then m\<lparr>mr_state := om_insert (mhe_key event) (mhe_resource event) (mr_state m)\<rparr>
     else m\<lparr>mr_expired := True\<rparr>)"

definition observe ::
  "membership_reconstructor \<Rightarrow> membership_history_event \<Rightarrow> membership_reconstructor"
where
  "observe m event =
    (if mr_expired m then m
     else if mhe_key event \<in> mr_needs_predecessor m
     then (let m' = m\<lparr>mr_needs_predecessor := mr_needs_predecessor m - {mhe_key event}\<rparr> in
           if mhe_event_type event = ''DELETED'' then m'\<lparr>mr_expired := True\<rparr>
           else undo_event (m'\<lparr>mr_state := om_insert (mhe_key event) (mhe_resource event) (mr_state m')\<rparr>) event)
     else undo_event m event)"







section \<open>What a history says\<close>


definition apply_history_event ::
  "(membership_key \<rightharpoonup> resource) \<Rightarrow> membership_history_event \<Rightarrow> (membership_key \<rightharpoonup> resource)"
where
  "apply_history_event s event =
    (if mhe_event_type event = ''DELETED'' then s(mhe_key event := None)
     else s(mhe_key event \<mapsto> mhe_resource event))"

definition state_after ::
  "(membership_key \<rightharpoonup> resource) \<Rightarrow> membership_history_event list \<Rightarrow> (membership_key \<rightharpoonup> resource)"
  where "state_after s events = foldl apply_history_event s events"






lemma state_after_append: "state_after s (xs @ ys) = state_after (state_after s xs) ys"
  by (simp add: state_after_def)






lemma apply_history_event_other [simp]:
  "key \<noteq> mhe_key e \<Longrightarrow> apply_history_event s e key = s key"
  by (simp add: apply_history_event_def)


section \<open>The reverse scan\<close>











lemma mr_represents_update [simp]:
  "mr_represents (m\<lparr>mr_state := st\<rparr>) = mr_represents m"
  "mr_represents (m\<lparr>mr_needs_predecessor := ks\<rparr>) = mr_represents m"
  "mr_represents (m\<lparr>mr_expired := b\<rparr>) = mr_represents m"
  by (simp_all add: mr_represents_def fun_eq_iff)

lemma mr_represents_observe [simp]: "mr_represents (observe m e) = mr_represents m"
  by (simp add: observe_def undo_event_def Let_def)









section \<open>Stopping early\<close>




section \<open>The reconstructed collection\<close>














section \<open>Properties\<close>









end
