(* ===== verification/Cluster_Identity.thy ===== *)
theory Cluster_Identity
  imports Klights_Prelude
begin

text \<open>
  Deterministic cluster identity values: the node identity derived from a node name and the
  membership merge of a control-plane join (\<^verbatim>\<open>klights-cluster-core/src/membership.rs\<close>), and the
  comparison that decides whether local replica state may be replaced
  (\<^verbatim>\<open>klights-cluster-core/src/recovery.rs\<close>).
\<close>

section \<open>Node identities\<close>

type_synonym node_id = "64 word"

definition fnv_step :: "node_id \<Rightarrow> char \<Rightarrow> node_id"
  where "fnv_step hash byte = xor hash (of_char byte) * 0x100000001b3"

definition raft_node_id_for_node_name :: "string \<Rightarrow> node_id"
where
  "raft_node_id_for_node_name node_name =
    (let hash = foldl fnv_step 0xcbf29ce484222325 node_name in if hash = 0 then 1 else hash)"


section \<open>Membership metadata\<close>

record cluster_membership =
  cm_cluster_id :: string
  cm_voters :: "string list"
  cm_term :: int
  cm_leader_hint :: "string option"

definition merge_controlplane_join_membership_metadata ::
  "cluster_membership \<Rightarrow> cluster_membership option \<Rightarrow> string \<Rightarrow> bool \<Rightarrow> string \<Rightarrow> cluster_membership"
where
  "merge_controlplane_join_membership_metadata membership latest admitted_node_name as_learner leader_hint =
    (let m1 = (case latest of
                 Some l \<Rightarrow>
                   if cm_cluster_id l = cm_cluster_id membership
                   then membership\<lparr>cm_voters := cm_voters membership @ cm_voters l,
                                   cm_term := max (cm_term membership) (cm_term l)\<rparr>
                   else membership
               | None \<Rightarrow> membership);
         m2 = (if \<not> as_learner then m1\<lparr>cm_voters := cm_voters m1 @ [admitted_node_name]\<rparr> else m1)
     in m2\<lparr>cm_voters := remdups_adj (sort (cm_voters m2)), cm_leader_hint := Some leader_hint\<rparr>)"


section \<open>Recovery metadata\<close>

datatype metadata_comparison =
    Behind (local_cluster_id: string) (local_leader_epoch: int) (local_last_rv: int)
      (leader_cluster_id: string) (leader_leader_epoch: int) (leader_current_rv: int)
  | Ahead (ahead_cluster_id: string) (ahead_last_rv: int) (ahead_leader_current_rv: int)
  | Mismatch (mismatch_cluster_id: "string option") (mismatch_leader_epoch: "int option")
      (mismatch_leader_cluster_id: string) (mismatch_leader_leader_epoch: int) (mismatch_reason: string)
  | NoLocalData

definition compare_metadata ::
  "string option \<Rightarrow> int option \<Rightarrow> int option \<Rightarrow> string \<Rightarrow> int \<Rightarrow> int \<Rightarrow> metadata_comparison"
where
  "compare_metadata local_id local_epoch local_rv leader_id leader_epoch leader_rv =
    (case local_id of
       None \<Rightarrow> NoLocalData
     | Some cluster_id \<Rightarrow>
         (case local_epoch of
            None \<Rightarrow> Mismatch (Some cluster_id) None leader_id leader_epoch ''local leader_epoch missing''
          | Some epoch \<Rightarrow>
              (let last_rv = unwrap_or local_rv 0 in
               if cluster_id \<noteq> leader_id
               then Mismatch (Some cluster_id) (Some epoch) leader_id leader_epoch
                      (''cluster_id mismatch: local='' @ cluster_id @ '' leader='' @ leader_id)
               else if epoch \<noteq> leader_epoch
               then Mismatch (Some cluster_id) (Some epoch) leader_id leader_epoch
                      (''leader_epoch mismatch: local='' @ show_int epoch @ '' leader='' @ show_int leader_epoch)
               else if last_rv > leader_rv then Ahead cluster_id last_rv leader_rv
               else Behind cluster_id epoch last_rv leader_id leader_epoch leader_rv)))"

fun needs_confirmation :: "metadata_comparison \<Rightarrow> bool"
where
  "needs_confirmation (Ahead _ _ _) = True"
| "needs_confirmation (Mismatch _ _ _ _ _) = True"
| "needs_confirmation _ = False"


section \<open>The node-name hash\<close>

text \<open>The FNV prime is odd, so multiplication by it can be undone; hence a step is injective in
  the running hash for a given byte, and in the byte for a given hash.\<close>

lemma fnv_prime_inverse: "(0x100000001b3 :: 64 word) * 14886173955864302971 = 1"
  by simp

lemma fnv_prime_cancel: "a * (0x100000001b3 :: 64 word) = b * 0x100000001b3 \<longleftrightarrow> a = b"
proof
  assume "a * (0x100000001b3 :: 64 word) = b * 0x100000001b3"
  then have "a * 0x100000001b3 * 14886173955864302971 = b * 0x100000001b3 * 14886173955864302971"
    by simp
  then show "a = b"
    unfolding mult.assoc fnv_prime_inverse by simp
qed simp

lemma xor_cancel_right: "xor a c = xor b c \<longleftrightarrow> a = (b :: 'a :: len word)"
proof
  assume "xor a c = xor b c"
  then have "xor (xor a c) c = xor (xor b c) c" by simp
  then show "a = b" by (simp add: xor.assoc)
qed simp

lemma xor_cancel_left: "xor c a = xor c b \<longleftrightarrow> a = (b :: 'a :: len word)"
  using xor_cancel_right [of a c b] by (simp only: xor.commute)

lemma fnv_step_inject_hash: "fnv_step h c = fnv_step h' c \<longleftrightarrow> h = h'"
  by (simp add: fnv_step_def fnv_prime_cancel xor_cancel_right)

lemma of_char_64_inject: "(of_char c :: 64 word) = of_char d \<longleftrightarrow> c = d"
proof
  assume eq: "(of_char c :: 64 word) = of_char d"
  have "unat (of_char e :: 64 word) = (of_char e :: nat)" for e :: char
  proof -
    have "(of_char e :: 64 word) = of_nat (of_char e)"
      by (simp only: of_nat_of_char)
    moreover have "(of_char e :: nat) < 2 ^ LENGTH(64)"
      using nat_of_char_less_256 [of e] by (rule less_trans) simp
    ultimately show ?thesis
      by (simp only: unat_of_nat mod_less)
  qed
  with eq have "(of_char c :: nat) = of_char d"
    by metis
  then show "c = d" by simp
qed simp

lemma fnv_step_inject_byte: "fnv_step h c = fnv_step h d \<longleftrightarrow> c = d"
  by (simp add: fnv_step_def fnv_prime_cancel xor_cancel_left of_char_64_inject)

lemma foldl_fnv_inject: "foldl fnv_step h s = foldl fnv_step h' s \<longleftrightarrow> h = h'"
  by (induction s arbitrary: h h') (simp_all add: fnv_step_inject_hash)

lemma raft_node_id_one_byte:
  assumes "raft_node_id_for_node_name (s @ c # t) = raft_node_id_for_node_name (s @ d # t)"
  shows "c = d \<or> raft_node_id_for_node_name (s @ c # t) = 1"
  using assms
  by (auto simp: raft_node_id_for_node_name_def Let_def foldl_fnv_inject fnv_step_inject_byte split: if_splits)


section \<open>The merged voter list\<close>

definition merged_voters ::
  "cluster_membership \<Rightarrow> cluster_membership option \<Rightarrow> string \<Rightarrow> bool \<Rightarrow> string set"
where
  "merged_voters membership latest admitted_node_name as_learner =
    set (cm_voters membership)
    \<union> (case latest of
         Some l \<Rightarrow> if cm_cluster_id l = cm_cluster_id membership then set (cm_voters l) else {}
       | None \<Rightarrow> {})
    \<union> (if as_learner then {} else {admitted_node_name})"

lemma distinct_remdups_adj_sorted: "sorted xs \<Longrightarrow> distinct (remdups_adj xs)"
  for xs :: "'a :: linorder list"
  by (induction xs rule: remdups_adj.induct) auto

lemma remdups_adj_sort: "remdups_adj (sort xs) = sorted_list_of_set (set xs)"
  for xs :: "'a :: linorder list"
proof -
  have "sorted (remdups_adj (sort xs))" and "distinct (remdups_adj (sort xs))"
    by (simp_all add: sorted_remdups_adj distinct_remdups_adj_sorted)
  moreover have "set (remdups_adj (sort xs)) = set xs"
    by simp
  ultimately show ?thesis
    by (metis sorted_list_of_set.idem_if_sorted_distinct)
qed

lemma merge_voters:
  "cm_voters (merge_controlplane_join_membership_metadata m latest node learner hint)
    = sorted_list_of_set (merged_voters m latest node learner)"
  by (auto simp: merge_controlplane_join_membership_metadata_def merged_voters_def Let_def remdups_adj_sort
      Un_ac split: option.split intro: arg_cong [of _ _ sorted_list_of_set])

lemma merge_other_fields:
  "cm_cluster_id (merge_controlplane_join_membership_metadata m latest node learner hint) = cm_cluster_id m"
  "cm_leader_hint (merge_controlplane_join_membership_metadata m latest node learner hint) = Some hint"
  "cm_term (merge_controlplane_join_membership_metadata m latest node learner hint) =
    (case latest of
       Some l \<Rightarrow> if cm_cluster_id l = cm_cluster_id m then max (cm_term m) (cm_term l) else cm_term m
     | None \<Rightarrow> cm_term m)"
  by (simp_all add: merge_controlplane_join_membership_metadata_def Let_def split: option.split)

lemma finite_merged_voters: "finite (merged_voters m latest node learner)"
  by (simp add: merged_voters_def split: option.split)


section \<open>Properties\<close>

text \<open>C29: Node identities never collide on names of one length that differ in a single byte, except
  possibly on the identity 1 that stands in for the reserved zero; and no name has identity 0.\<close>

theorem node_ids_separate_one_byte:
  "raft_node_id_for_node_name name \<noteq> 0
    \<and> (raft_node_id_for_node_name (s @ c # t) = raft_node_id_for_node_name (s @ d # t) \<longrightarrow>
       c = d \<or> raft_node_id_for_node_name (s @ c # t) = 1)"
  using raft_node_id_one_byte [of s c t d]
  by (auto simp: raft_node_id_for_node_name_def [of name] Let_def)

theorem node_ids_separate_one_byte_witness:
  "raft_node_id_for_node_name ''node-1'' \<noteq> raft_node_id_for_node_name ''node-2''"
proof -
  have "raft_node_id_for_node_name ''node-1'' \<noteq> 1"
    by (simp add: raft_node_id_for_node_name_def fnv_step_def)
  then show ?thesis
    using node_ids_separate_one_byte [of "[]" "''node-''" "CHR ''1''" "[]" "CHR ''2''"] by auto
qed

text \<open>A control-plane join yields canonical membership. The voters are the sorted, duplicate-free
  list of the known voters, those of a same-cluster latest observation, and the admitted node
  unless it joins as a learner; and repeating the merge with the same observation changes nothing.\<close>

lemma join_membership_canonical:
  "cm_voters (merge_controlplane_join_membership_metadata m latest node learner hint)
      = sorted_list_of_set (merged_voters m latest node learner)
    \<and> merge_controlplane_join_membership_metadata
        (merge_controlplane_join_membership_metadata m latest node learner hint) latest node learner hint
      = merge_controlplane_join_membership_metadata m latest node learner hint"
proof -
  let ?merged = "merge_controlplane_join_membership_metadata m latest node learner hint"
  have "set (cm_voters ?merged) = merged_voters m latest node learner"
    by (simp add: merge_voters finite_merged_voters)
  then have "merged_voters ?merged latest node learner = merged_voters m latest node learner"
    unfolding merged_voters_def [of ?merged] merge_other_fields
    by (auto simp: merged_voters_def split: option.split)
  then show ?thesis
    by (auto intro!: cluster_membership.equality simp: merge_voters merge_other_fields split: option.split)
qed

text \<open>Local state is replaced without confirmation only when that is provably safe: there is no
  local identity, or cluster and leader epoch match the leader and the local resourceVersion
  (0 if unknown) is not ahead.\<close>

lemma silent_reseed_only_when_behind:
  "\<not> needs_confirmation (compare_metadata local_id local_epoch local_rv leader_id leader_epoch leader_rv) \<longleftrightarrow>
    local_id = None \<or> (local_id = Some leader_id \<and> local_epoch = Some leader_epoch
      \<and> unwrap_or local_rv 0 \<le> leader_rv)"
  by (auto simp: compare_metadata_def Let_def split: option.split)

end
