(* ===== verification/Storage_Command.thy ===== *)
theory Storage_Command
  imports Resource_Model "HOL-Library.Sublist"
begin

text \<open>
  Replicated storage commands (\<^verbatim>\<open>klights-cluster-core/src/command.rs\<close>) and the values of the
  outbox that carries them from a node to the leader (\<^verbatim>\<open>klights-cluster-core/src/outbox.rs\<close>):
  the operation names, the subject key that deduplicates and sequences deliveries, and the
  classification of delivery failures.  Byte payloads are lists of bytes.
\<close>

section \<open>Commands\<close>

definition command_codec_version :: nat
  where "command_codec_version = 3"

definition supports_command_codec_version :: "nat \<Rightarrow> bool"
  where "supports_command_codec_version codec_version \<longleftrightarrow> codec_version = command_codec_version"

record command_meta =
  cmd_command_id :: string
  cmd_codec_version :: nat
  cmd_resource_version :: int
  cmd_uid :: "string option"
  cmd_timestamp_ms :: int
  cmd_authoring_node :: string

text \<open>The arguments of a constructor are the fields of the variant, in the order of the source.\<close>

datatype storage_command =
    CreateResource string string "string option" string json
  | UpdateResource string string "string option" string json int resource_preconditions bool
  | DeleteResource string string "string option" string resource_preconditions
  | FinalizeBoundPod string string string string int
  | DeleteResourceWithTombstone string string "string option" string resource_preconditions int
  | PatchResource string string "string option" string patch_kind json resource_preconditions bool
  | UpdateStatus string string "string option" string json "int option" resource_preconditions "int option"
  | ApplyResourceBatch "resource_batch_operation list"
  | CreateNamespace string json
  | UpdateNamespace string json int
  | DeleteNamespace string
  | DeleteNamespaceContents string
  | AllocateNodeSubnet string string string
  | UpdateNodePeerAttributes string string "string option"
  | UpdateNodeDataplane string string string "string option" string "nat option"
  | DeleteNodeSubnet string
  | PodSlotTryAdmit string string string string
  | PodSlotMarkTerminating string string string string
  | PodSlotClearIfUid string string string string
  | MovePodToCleanupIntent string string string string string
  | DeletePodCleanupIntent string string string string string
  | DeletePodCleanupIntentsForNode string
  | WatchEventAppend "char list" int
  | GcWatchEvents int int
  | GcAppliedOutbox int
  | AdvanceResourceVersion int int
  | EnsureClusterMetadata string
  | SetKlightsMeta string string

fun variant_name :: "storage_command \<Rightarrow> string"
where
  "variant_name (CreateResource _ _ _ _ _) = ''CreateResource''"
| "variant_name (UpdateResource _ _ _ _ _ _ _ _) = ''UpdateResource''"
| "variant_name (DeleteResource _ _ _ _ _) = ''DeleteResource''"
| "variant_name (FinalizeBoundPod _ _ _ _ _) = ''FinalizeBoundPod''"
| "variant_name (DeleteResourceWithTombstone _ _ _ _ _ _) = ''DeleteResourceWithTombstone''"
| "variant_name (PatchResource _ _ _ _ _ _ _ _) = ''PatchResource''"
| "variant_name (UpdateStatus _ _ _ _ _ _ _ _) = ''UpdateStatus''"
| "variant_name (ApplyResourceBatch _) = ''ApplyResourceBatch''"
| "variant_name (CreateNamespace _ _) = ''CreateNamespace''"
| "variant_name (UpdateNamespace _ _ _) = ''UpdateNamespace''"
| "variant_name (DeleteNamespace _) = ''DeleteNamespace''"
| "variant_name (DeleteNamespaceContents _) = ''DeleteNamespaceContents''"
| "variant_name (AllocateNodeSubnet _ _ _) = ''AllocateNodeSubnet''"
| "variant_name (UpdateNodePeerAttributes _ _ _) = ''UpdateNodePeerAttributes''"
| "variant_name (UpdateNodeDataplane _ _ _ _ _ _) = ''UpdateNodeDataplane''"
| "variant_name (DeleteNodeSubnet _) = ''DeleteNodeSubnet''"
| "variant_name (PodSlotTryAdmit _ _ _ _) = ''PodSlotTryAdmit''"
| "variant_name (PodSlotMarkTerminating _ _ _ _) = ''PodSlotMarkTerminating''"
| "variant_name (PodSlotClearIfUid _ _ _ _) = ''PodSlotClearIfUid''"
| "variant_name (MovePodToCleanupIntent _ _ _ _ _) = ''MovePodToCleanupIntent''"
| "variant_name (DeletePodCleanupIntent _ _ _ _ _) = ''DeletePodCleanupIntent''"
| "variant_name (DeletePodCleanupIntentsForNode _) = ''DeletePodCleanupIntentsForNode''"
| "variant_name (WatchEventAppend _ _) = ''WatchEventAppend''"
| "variant_name (GcWatchEvents _ _) = ''GcWatchEvents''"
| "variant_name (GcAppliedOutbox _) = ''GcAppliedOutbox''"
| "variant_name (AdvanceResourceVersion _ _) = ''AdvanceResourceVersion''"
| "variant_name (EnsureClusterMetadata _) = ''EnsureClusterMetadata''"
| "variant_name (SetKlightsMeta _ _) = ''SetKlightsMeta''"

definition default_preconditions :: resource_preconditions
  where "default_preconditions = \<lparr>rp_uid = None, rp_resource_version = None\<rparr>"

definition update_resource ::
  "string \<Rightarrow> string \<Rightarrow> string option \<Rightarrow> string \<Rightarrow> json \<Rightarrow> int \<Rightarrow> storage_command"
where
  "update_resource api_version kind ns name data expected_rv =
    UpdateResource api_version kind ns name data expected_rv
      \<lparr>rp_uid = None, rp_resource_version = Some expected_rv\<rparr> False"

definition update_status ::
  "string \<Rightarrow> string \<Rightarrow> string option \<Rightarrow> string \<Rightarrow> json \<Rightarrow> int option \<Rightarrow> storage_command"
where
  "update_status api_version kind ns name status expected_rv =
    UpdateStatus api_version kind ns name status expected_rv
      \<lparr>rp_uid = None, rp_resource_version = expected_rv\<rparr> None"

definition patch_resource ::
  "string \<Rightarrow> string \<Rightarrow> string option \<Rightarrow> string \<Rightarrow> patch_kind \<Rightarrow> json \<Rightarrow> storage_command"
where
  "patch_resource api_version kind ns name patch_kind patch =
    PatchResource api_version kind ns name patch_kind patch default_preconditions False"

datatype storage_response =
    ResourceResponse int json
  | Ack int
  | NodeSubnet string string nat string string string "string option"
  | ErrorResponse string

datatype storage_command_rejection_code = AlreadyExists | RejectedNotFound | RejectedConflict | InvalidCommit

datatype storage_mutation_error =
    Rejected storage_command_rejection_code string
  | Persistence string

fun rejection_code :: "storage_mutation_error \<Rightarrow> storage_command_rejection_code option"
where
  "rejection_code (Rejected code _) = Some code"
| "rejection_code (Persistence _) = None"

datatype lease_renew_command_error =
    NotLeaseMutation
  | InvalidTarget
  | AuthoringNodeMismatch string string

fun lease_renew_target :: "storage_command \<Rightarrow> (string \<times> string \<times> string option \<times> string) option"
where
  "lease_renew_target (CreateResource api_version kind ns name _) = Some (api_version, kind, ns, name)"
| "lease_renew_target (UpdateResource api_version kind ns name _ _ _ _) = Some (api_version, kind, ns, name)"
| "lease_renew_target _ = None"

definition validate_lease_renew_command ::
  "storage_command \<Rightarrow> string \<Rightarrow> (unit, lease_renew_command_error) rust_result"
where
  "validate_lease_renew_command command authoring_node =
    (case lease_renew_target command of
       None \<Rightarrow> Err NotLeaseMutation
     | Some (api_version, kind, ns, name) \<Rightarrow>
         if api_version \<noteq> ''coordination.k8s.io/v1'' \<or> kind \<noteq> ''Lease'' \<or> ns \<noteq> Some ''kube-node-lease''
         then Err InvalidTarget
         else if name \<noteq> authoring_node then Err (AuthoringNodeMismatch authoring_node name)
         else Ok ())"


section \<open>Outbox operations\<close>

datatype outbox_operation =
    PodStatus | RuntimeReconcile | ProbeReadiness | DeadlineExceededOp | ContainerStatusSnapshot
  | EphemeralContainerStatuses | PodMetadata | NodeRegistration | NodeDataplane | NodeStatus
  | LeaseRenew | EventCreate

definition all_outbox_operations :: "outbox_operation list"
where
  "all_outbox_operations =
    [PodStatus, RuntimeReconcile, ProbeReadiness, DeadlineExceededOp, ContainerStatusSnapshot,
     EphemeralContainerStatuses, PodMetadata, NodeRegistration, NodeDataplane, NodeStatus,
     LeaseRenew, EventCreate]"

fun outbox_operation_as_str :: "outbox_operation \<Rightarrow> string"
where
  "outbox_operation_as_str PodStatus = ''PodStatus''"
| "outbox_operation_as_str RuntimeReconcile = ''RuntimeReconcile''"
| "outbox_operation_as_str ProbeReadiness = ''ProbeReadiness''"
| "outbox_operation_as_str DeadlineExceededOp = ''DeadlineExceeded''"
| "outbox_operation_as_str ContainerStatusSnapshot = ''ContainerStatusSnapshot''"
| "outbox_operation_as_str EphemeralContainerStatuses = ''EphemeralContainerStatuses''"
| "outbox_operation_as_str PodMetadata = ''PodMetadata''"
| "outbox_operation_as_str NodeRegistration = ''NodeRegistration''"
| "outbox_operation_as_str NodeDataplane = ''NodeDataplane''"
| "outbox_operation_as_str NodeStatus = ''NodeStatus''"
| "outbox_operation_as_str LeaseRenew = ''LeaseRenew''"
| "outbox_operation_as_str EventCreate = ''EventCreate''"

fun subject_api_version_kind :: "outbox_operation \<Rightarrow> string \<times> string"
where
  "subject_api_version_kind NodeRegistration = (''v1'', ''Node'')"
| "subject_api_version_kind NodeDataplane = (''v1'', ''Node'')"
| "subject_api_version_kind NodeStatus = (''v1'', ''Node'')"
| "subject_api_version_kind LeaseRenew = (''coordination.k8s.io/v1'', ''Lease'')"
| "subject_api_version_kind EventCreate = (''events.k8s.io/v1'', ''Event'')"
| "subject_api_version_kind _ = (''v1'', ''Pod'')"

datatype outbox_priority = LeasePriority | NodeHealthPriority | WorkloadPriority | DiagnosticPriority

fun outbox_operation_priority :: "outbox_operation \<Rightarrow> outbox_priority"
where
  "outbox_operation_priority LeaseRenew = LeasePriority"
| "outbox_operation_priority NodeStatus = NodeHealthPriority"
| "outbox_operation_priority EventCreate = DiagnosticPriority"
| "outbox_operation_priority _ = WorkloadPriority"

definition is_supersedable_pod_status :: "outbox_operation \<Rightarrow> bool"
where
  "is_supersedable_pod_status op \<longleftrightarrow>
    op \<in> {PodStatus, RuntimeReconcile, ProbeReadiness, DeadlineExceededOp, ContainerStatusSnapshot,
          EphemeralContainerStatuses}"

definition uses_per_subject_sequence :: "outbox_operation \<Rightarrow> bool"
  where "uses_per_subject_sequence op \<longleftrightarrow> op \<noteq> LeaseRenew"

definition outbox_operation_try_from :: "string \<Rightarrow> (outbox_operation, string) rust_result"
where
  "outbox_operation_try_from value =
    (case find (\<lambda>op. outbox_operation_as_str op = value) all_outbox_operations of
       Some op \<Rightarrow> Ok op
     | None \<Rightarrow> Err value)"


section \<open>Delivery outcomes\<close>

datatype outbox_apply_outcome =
    OutboxApplied int
  | OutboxAlreadyApplied "int option"

fun applied_resource_version :: "outbox_apply_outcome \<Rightarrow> int option"
where
  "applied_resource_version (OutboxApplied rv) = Some rv"
| "applied_resource_version (OutboxAlreadyApplied rv) = rv"

datatype outbox_apply_error =
    Retryable string
  | ConflictTerminal string
  | NotFoundTerminal string
  | UidMismatch string string

fun outbox_error_is_retryable :: "outbox_apply_error \<Rightarrow> bool"
where
  "outbox_error_is_retryable (Retryable _) = True"
| "outbox_error_is_retryable _ = False"

fun outbox_error_is_terminal :: "outbox_apply_error \<Rightarrow> bool"
where
  "outbox_error_is_terminal (ConflictTerminal _) = True"
| "outbox_error_is_terminal (NotFoundTerminal _) = True"
| "outbox_error_is_terminal (UidMismatch _ _) = True"
| "outbox_error_is_terminal (Retryable _) = False"

text \<open>\<^verbatim>\<open>str::to_ascii_lowercase\<close> and \<^verbatim>\<open>str::contains\<close>.\<close>

definition ascii_lower :: "char \<Rightarrow> char"
where
  "ascii_lower c =
    (let n = (of_char c :: nat) in if 65 \<le> n \<and> n \<le> 90 then char_of (n + 32) else c)"

definition to_ascii_lowercase :: "string \<Rightarrow> string"
  where "to_ascii_lowercase s = map ascii_lower s"

definition text_contains :: "string \<Rightarrow> string \<Rightarrow> bool"
  where "text_contains s pattern \<longleftrightarrow> sublist pattern s"

fun classify_apply_error :: "outbox_apply_error \<Rightarrow> outbox_apply_error"
where
  "classify_apply_error (Retryable message) =
    (let lower = to_ascii_lowercase message in
     if text_contains lower ''uid mismatch'' \<or> text_contains lower ''uid precondition failed''
     then UidMismatch ''<unknown>'' ''<unknown>''
     else if text_contains lower ''not found'' then NotFoundTerminal message
     else if text_contains lower ''conflict'' \<or> text_contains lower ''precondition failed''
     then ConflictTerminal message
     else Retryable message)"
| "classify_apply_error other = other"


section \<open>Subjects\<close>

definition resource_key_parts ::
  "string \<Rightarrow> string \<Rightarrow> string option \<Rightarrow> string \<Rightarrow> string option \<Rightarrow> string"
where
  "resource_key_parts api_version kind ns name uid =
    (let key = (case ns of
                  Some ns \<Rightarrow> api_version @ ''/'' @ kind @ ''/'' @ ns @ ''/'' @ name
                | None \<Rightarrow> api_version @ ''/'' @ kind @ ''/'' @ name)
     in case uid of
          Some uid \<Rightarrow> if uid \<noteq> [] then key @ ''/'' @ uid else key
        | None \<Rightarrow> key)"

definition resource_subject_key ::
  "string \<Rightarrow> string \<Rightarrow> string option \<Rightarrow> string \<Rightarrow> json \<Rightarrow> string"
where
  "resource_subject_key api_version kind ns name data =
    resource_key_parts api_version kind ns name (str_at [''metadata'', ''uid''] data)"

fun subject_key_for_command :: "storage_command \<Rightarrow> string"
where
  "subject_key_for_command (CreateResource api_version kind ns name data) =
    resource_subject_key api_version kind ns name data"
| "subject_key_for_command (UpdateResource api_version kind ns name data _ _ _) =
    resource_subject_key api_version kind ns name data"
| "subject_key_for_command (UpdateStatus api_version kind ns name _ _ preconditions _) =
    resource_key_parts api_version kind ns name (rp_uid preconditions)"
| "subject_key_for_command (DeleteResource api_version kind ns name preconditions) =
    resource_key_parts api_version kind ns name (rp_uid preconditions)"
| "subject_key_for_command (PatchResource api_version kind ns name _ _ preconditions _) =
    resource_key_parts api_version kind ns name (rp_uid preconditions)"
| "subject_key_for_command (CreateNamespace name data) =
    resource_subject_key ''v1'' ''Namespace'' None name data"
| "subject_key_for_command (UpdateNamespace name data _) =
    resource_subject_key ''v1'' ''Namespace'' None name data"
| "subject_key_for_command (DeleteNamespace name) =
    resource_key_parts ''v1'' ''Namespace'' None name None"
| "subject_key_for_command (DeleteNamespaceContents name) =
    resource_key_parts ''v1'' ''Namespace'' None name None"
| "subject_key_for_command (FinalizeBoundPod ns name pod_uid _ _) =
    resource_key_parts ''v1'' ''Pod'' (Some ns) name (Some pod_uid)"
| "subject_key_for_command (ApplyResourceBatch operations) =
    (case operations of
       op # _ \<Rightarrow>
         ''batch:'' @ batch_api_version op @ ''/'' @ batch_kind op @ ''/''
           @ unwrap_or (batch_namespace op) [] @ ''/'' @ batch_name op
     | [] \<Rightarrow> ''batch:empty'')"
| "subject_key_for_command other = variant_name other"

fun namespaced_pod_target ::
  "string \<Rightarrow> string \<Rightarrow> string option \<Rightarrow> string \<Rightarrow> resource_preconditions
    \<Rightarrow> (string \<times> string \<times> resource_preconditions) option"
where
  "namespaced_pod_target api_version kind (Some ns) name preconditions =
    (if api_version = ''v1'' \<and> kind = ''Pod'' then Some (ns, name, preconditions) else None)"
| "namespaced_pod_target _ _ None _ _ = None"

fun pod_target :: "storage_command \<Rightarrow> (string \<times> string \<times> resource_preconditions) option"
where
  "pod_target (UpdateStatus api_version kind ns name _ _ preconditions _) =
    namespaced_pod_target api_version kind ns name preconditions"
| "pod_target (UpdateResource api_version kind ns name _ _ preconditions _) =
    namespaced_pod_target api_version kind ns name preconditions"
| "pod_target (PatchResource api_version kind ns name _ _ preconditions _) =
    namespaced_pod_target api_version kind ns name preconditions"
| "pod_target (DeleteResource api_version kind ns name preconditions) =
    namespaced_pod_target api_version kind ns name preconditions"
| "pod_target (DeleteResourceWithTombstone api_version kind ns name preconditions _) =
    namespaced_pod_target api_version kind ns name preconditions"
| "pod_target _ = None"

fun classify_apply_error_for_command :: "storage_command \<Rightarrow> outbox_apply_error \<Rightarrow> outbox_apply_error"
where
  "classify_apply_error_for_command command (Retryable message) =
    (if text_contains (to_ascii_lowercase message) ''query returned no rows'' \<and> pod_target command \<noteq> None
     then ConflictTerminal message
     else classify_apply_error (Retryable message))"
| "classify_apply_error_for_command command other = other"


section \<open>What the subject key identifies\<close>

text \<open>The object a command is about: its API version, kind, namespace, name and, if the command
  is bound to one incarnation, the UID.  Commands without such an object have no subject.\<close>

definition bound_uid :: "string option \<Rightarrow> string option"
  where "bound_uid uid = (if uid = Some [] then None else uid)"

definition uid_in_body :: "json \<Rightarrow> string option"
  where "uid_in_body data = bound_uid (str_at [''metadata'', ''uid''] data)"

type_synonym command_subject = "string \<times> string \<times> string option \<times> string \<times> string option"

fun command_subject :: "storage_command \<Rightarrow> command_subject option"
where
  "command_subject (CreateResource a k ns n data) = Some (a, k, ns, n, uid_in_body data)"
| "command_subject (UpdateResource a k ns n data _ _ _) = Some (a, k, ns, n, uid_in_body data)"
| "command_subject (UpdateStatus a k ns n _ _ pre _) = Some (a, k, ns, n, bound_uid (rp_uid pre))"
| "command_subject (DeleteResource a k ns n pre) = Some (a, k, ns, n, bound_uid (rp_uid pre))"
| "command_subject (PatchResource a k ns n _ _ pre _) = Some (a, k, ns, n, bound_uid (rp_uid pre))"
| "command_subject (CreateNamespace n data) = Some (''v1'', ''Namespace'', None, n, uid_in_body data)"
| "command_subject (UpdateNamespace n data _) = Some (''v1'', ''Namespace'', None, n, uid_in_body data)"
| "command_subject (DeleteNamespace n) = Some (''v1'', ''Namespace'', None, n, None)"
| "command_subject (DeleteNamespaceContents n) = Some (''v1'', ''Namespace'', None, n, None)"
| "command_subject (FinalizeBoundPod ns n uid _ _) = Some (''v1'', ''Pod'', Some ns, n, bound_uid (Some uid))"
| "command_subject _ = None"

text \<open>Namespaces, names and UIDs of Kubernetes objects contain no slash.\<close>

definition slash_free :: "string \<Rightarrow> bool"
  where "slash_free s \<longleftrightarrow> CHR ''/'' \<notin> set s"

fun plain_subject :: "command_subject \<Rightarrow> bool"
where
  "plain_subject (a, k, ns, n, uid) \<longleftrightarrow>
    slash_free n \<and> pred_option slash_free ns \<and> pred_option slash_free uid"

fun same_resource_type :: "command_subject \<Rightarrow> command_subject \<Rightarrow> bool"
where
  "same_resource_type (a, k, ns, _) (a', k', ns', _) \<longleftrightarrow> a = a' \<and> k = k' \<and> (ns = None \<longleftrightarrow> ns' = None)"

fun subject_text :: "command_subject \<Rightarrow> string"
where
  "subject_text (a, k, ns, n, uid) =
    a @ ''/'' @ k @ ''/''
      @ (case ns of Some ns \<Rightarrow> ns @ ''/'' | None \<Rightarrow> [])
      @ n @ (case uid of Some uid \<Rightarrow> ''/'' @ uid | None \<Rightarrow> [])"

lemma resource_key_parts_text:
  "resource_key_parts a k ns n uid = subject_text (a, k, ns, n, bound_uid uid)"
  by (auto simp: resource_key_parts_def bound_uid_def Let_def split: option.split)

lemma subject_key_text: "command_subject c = Some s \<Longrightarrow> subject_key_for_command c = subject_text s"
  by (cases c)
    (auto simp: resource_subject_key_def resource_key_parts_text uid_in_body_def bound_uid_def)

lemma slash_split:
  assumes "slash_free x" "slash_free y"
  shows "x @ CHR ''/'' # xs = y @ CHR ''/'' # ys \<longleftrightarrow> x = y \<and> xs = ys"
  using assms
proof (induction x arbitrary: y)
  case Nil
  then show ?case by (cases y) (auto simp: slash_free_def)
next
  case (Cons a x)
  then show ?case by (cases y) (auto simp: slash_free_def)
qed

lemma slash_end: "slash_free x \<Longrightarrow> x \<noteq> y @ CHR ''/'' # ys" "slash_free x \<Longrightarrow> y @ CHR ''/'' # ys \<noteq> x"
  by (auto simp: slash_free_def)

lemma subject_text_inject:
  assumes "plain_subject s" "plain_subject t" "same_resource_type s t"
  shows "subject_text s = subject_text t \<longleftrightarrow> s = t"
proof -
  obtain a k ns n uid a' k' ns' n' uid' where eq: "s = (a, k, ns, n, uid)" "t = (a', k', ns', n', uid')"
    by (metis prod_cases5)
  show ?thesis
    using assms unfolding eq by (cases ns; cases ns'; cases uid; cases uid') (simp_all add: slash_split slash_end)
qed


section \<open>Properties\<close>

text \<open>Deliveries are deduplicated and sequenced per object incarnation.  For two commands about
  objects of one resource type and scope, whose namespaces, names and UIDs contain no slash, the
  subject keys are equal exactly when namespace, name and bound UID are.\<close>

lemma subject_key_exact:
  assumes "command_subject c = Some s" "command_subject d = Some t"
    and "plain_subject s" "plain_subject t" "same_resource_type s t"
  shows "subject_key_for_command c = subject_key_for_command d \<longleftrightarrow> s = t"
  using assms by (simp add: subject_key_text subject_text_inject)

definition example_status_command :: "string \<Rightarrow> storage_command"
where
  "example_status_command uid =
    UpdateStatus ''v1'' ''Pod'' (Some ''default'') ''web-0'' JNull None
      \<lparr>rp_uid = Some uid, rp_resource_version = None\<rparr> (Some 7)"

text \<open>Classification of a delivery failure is stable and only ever sharpens a retryable error: a
  terminal error is kept as it is, classifying twice changes nothing, and an error stays retryable
  exactly when its message has none of the terminal markers (a missing row is one only for commands
  about a Pod).\<close>

lemma delivery_error_classification:
  "classify_apply_error_for_command c (classify_apply_error_for_command c e) = classify_apply_error_for_command c e
    \<and> (outbox_error_is_terminal (classify_apply_error_for_command c e) \<longleftrightarrow>
        (case e of
           Retryable m \<Rightarrow>
             list_ex (text_contains (to_ascii_lowercase m))
               ([''uid mismatch'', ''precondition failed'', ''not found'', ''conflict'']
                 @ (if pod_target c = None then [] else [''query returned no rows'']))
         | _ \<Rightarrow> True))"
proof (cases e)
  case (Retryable m)
  define l where "l = to_ascii_lowercase m"
  have "sublist ''precondition failed'' (''uid '' @ ''precondition failed'')"
    by (rule sublist_append_leftI)
  then have "text_contains l ''precondition failed''" if "text_contains l ''uid precondition failed''"
    using that sublist_order.order.trans unfolding text_contains_def by force
  then show ?thesis
    using Retryable by (simp add: Let_def flip: l_def)
qed simp_all

text \<open>The persisted name of an outbox operation decodes to that operation and no other text
  decodes to it.\<close>

lemma outbox_operation_roundtrip:
  "outbox_operation_try_from name = Ok op \<longleftrightarrow> name = outbox_operation_as_str op"
proof
  assume "outbox_operation_try_from name = Ok op"
  then have "find (\<lambda>op. outbox_operation_as_str op = name) all_outbox_operations = Some op"
    by (simp add: outbox_operation_try_from_def split: option.splits)
  then show "name = outbox_operation_as_str op"
    by (auto simp: find_Some_iff)
next
  assume "name = outbox_operation_as_str op"
  then show "outbox_operation_try_from name = Ok op"
    by (cases op) (simp_all add: outbox_operation_try_from_def all_outbox_operations_def)
qed

text \<open>A node can renew its own Lease and nothing else: the command is accepted exactly when it
  creates or updates the Lease object named after the authoring node in the node-lease namespace.\<close>

lemma lease_renew_only_own_lease:
  "validate_lease_renew_command c node = Ok () \<longleftrightarrow>
    (\<exists>data. c = CreateResource ''coordination.k8s.io/v1'' ''Lease'' (Some ''kube-node-lease'') node data)
    \<or> (\<exists>data rv pre keep. c = UpdateResource ''coordination.k8s.io/v1'' ''Lease''
          (Some ''kube-node-lease'') node data rv pre keep)"
  by (cases c) (auto simp: validate_lease_renew_command_def)

end
