(* ===== verification/Log_Apply.thy ===== *)
theory Log_Apply
  imports Storage_Command Resource_Apply
begin

text \<open>
  The logical commit envelope that replication hands to committed apply
  (\<^verbatim>\<open>klights-cluster-core/src/log_apply.rs\<close>): rows and mutations, the mutation families and their
  conversions, live templates (commits that carry no public resourceVersion yet) with their
  builders, and the sequencing decision of a node's outbox stream.

  The constructors of a mutation enum carry a prefix for the enum: \<^verbatim>\<open>LA_\<close> for
  \<^verbatim>\<open>LogApplyMutation\<close>, \<^verbatim>\<open>RM_\<close>, \<^verbatim>\<open>NM_\<close>, \<^verbatim>\<open>WM_\<close>, \<^verbatim>\<open>NW_\<close>, \<^verbatim>\<open>OL_\<close>, \<^verbatim>\<open>CM_\<close>, \<^verbatim>\<open>PC_\<close> for the families.
  The text of a JSON value (\<^verbatim>\<open>Value::to_string\<close> of serde_json, used in an error message) is the
  parameter \<^verbatim>\<open>json_text\<close>.
\<close>

section \<open>Rows\<close>

record log_apply_resource_row =
  lrr_api_version :: string
  lrr_kind :: string
  lrr_namespace :: "string option"
  lrr_name :: string
  lrr_uid :: string
  lrr_resource_version :: int
  lrr_data :: json
  lrr_require_absent :: bool
  lrr_require_existing :: bool
  lrr_precondition_uid :: "string option"
  lrr_precondition_resource_version :: "int option"
  lrr_status_only :: bool

record log_apply_resource_patch =
  lrp_api_version :: string
  lrp_kind :: string
  lrp_namespace :: "string option"
  lrp_name :: string
  lrp_resource_version :: int
  lrp_patch_kind :: patch_kind
  lrp_patch :: json
  lrp_require_existing :: bool
  lrp_precondition_uid :: "string option"
  lrp_precondition_resource_version :: "int option"
  lrp_terminating_pod_unready_timestamp :: "string option"

record log_apply_resource_key =
  lrk_api_version :: string
  lrk_kind :: string
  lrk_namespace :: "string option"
  lrk_name :: string
  lrk_uid :: string
  lrk_precondition_resource_version :: "int option"

record log_apply_pod_actor_finalization =
  laf_namespace :: string
  laf_name :: string
  laf_pod_uid :: string
  laf_node_name :: string

record log_apply_node_subnet_allocation =
  lna_node_name :: string
  lna_cluster_cidr :: string
  lna_node_ip :: string

record log_apply_namespace_row =
  lnr_name :: string
  lnr_uid :: string
  lnr_resource_version :: int
  lnr_data :: json

record log_apply_node_subnet_row =
  lns_node_name :: string
  lns_subnet :: string
  lns_subnet_base_int :: nat
  lns_gateway_ip :: string
  lns_node_ip :: string
  lns_mode :: string
  lns_hostport_range :: "string option"

record log_apply_node_dataplane_row =
  lnd_node_name :: string
  lnd_mode :: string
  lnd_encryption :: string
  lnd_public_key :: "string option"
  lnd_endpoint :: string
  lnd_port :: "nat option"

record log_apply_applied_outbox_row =
  lao_idempotency_key :: string
  lao_subject_key :: string
  lao_operation :: string
  lao_first_seen_ms :: int
  lao_applied_rv :: "int option"
  lao_result_proto :: "char list"
  lao_status_stamp :: "int option"

record log_apply_watch_event_row =
  lwe_event_id :: "int option"
  lwe_api_version :: string
  lwe_kind :: string
  lwe_namespace :: "string option"
  lwe_name :: string
  lwe_resource_version :: int
  lwe_event_type :: string
  lwe_data :: json

record log_apply_pod_cleanup_intent_row =
  lpr_node_name :: string
  lpr_namespace :: string
  lpr_pod_name :: string
  lpr_pod_uid :: string
  lpr_reason :: string
  lpr_resource_version :: int
  lpr_created_at_ms :: int
  lpr_pod_data :: json

record log_apply_pod_cleanup_intent_key =
  lpk_node_name :: string
  lpk_namespace :: string
  lpk_pod_name :: string
  lpk_pod_uid :: string
  lpk_reason :: string


section \<open>Mutations and their families\<close>

datatype log_apply_mutation =
    LA_PutResource log_apply_resource_row
  | LA_PatchResourceLatest log_apply_resource_patch
  | LA_DeleteResource log_apply_resource_key
  | LA_FinalizeBoundPod log_apply_pod_actor_finalization
  | LA_PutNamespace log_apply_namespace_row
  | LA_DeleteNamespace string
  | LA_DeleteNamespaceContents string
  | LA_PutNodeSubnet log_apply_node_subnet_row
  | LA_AllocateNodeSubnet log_apply_node_subnet_allocation
  | LA_DeleteNodeSubnet string
  | LA_PutNodeDataplane log_apply_node_dataplane_row
  | LA_DeleteNodeDataplane string
  | LA_PutAppliedOutbox log_apply_applied_outbox_row
  | LA_DeleteAppliedOutbox string
  | LA_GcAppliedOutbox int "string list"
  | LA_GcWatchEvents int int
  | LA_PutWatchEvent log_apply_watch_event_row
  | LA_AdvanceResourceVersion int
  | LA_PutKlightsMeta string string
  | LA_PutPodCleanupIntent log_apply_pod_cleanup_intent_row
  | LA_DeletePodCleanupIntent log_apply_pod_cleanup_intent_key
  | LA_DeletePodCleanupIntentsForNode string

datatype resource_mutation =
    RM_PutResource log_apply_resource_row
  | RM_PatchResourceLatest log_apply_resource_patch
  | RM_DeleteResource log_apply_resource_key
  | RM_FinalizeBoundPod log_apply_pod_actor_finalization

datatype namespace_mutation =
    NM_PutNamespace log_apply_namespace_row
  | NM_DeleteNamespace string
  | NM_DeleteNamespaceContents string

datatype watch_history_mutation =
    WM_PutWatchEvent log_apply_watch_event_row
  | WM_GcWatchEvents int int

datatype network_mutation =
    NW_PutNodeSubnet log_apply_node_subnet_row
  | NW_AllocateNodeSubnet log_apply_node_subnet_allocation
  | NW_DeleteNodeSubnet string
  | NW_PutNodeDataplane log_apply_node_dataplane_row
  | NW_DeleteNodeDataplane string

datatype outbox_ledger_mutation =
    OL_PutAppliedOutbox log_apply_applied_outbox_row
  | OL_DeleteAppliedOutbox string
  | OL_GcAppliedOutbox int "string list"

datatype cluster_meta_mutation =
    CM_AdvanceResourceVersion int
  | CM_PutKlightsMeta string string

datatype pod_cleanup_mutation =
    PC_PutPodCleanupIntent log_apply_pod_cleanup_intent_row
  | PC_DeletePodCleanupIntent log_apply_pod_cleanup_intent_key
  | PC_DeletePodCleanupIntentsForNode string

datatype cluster_mutation =
    ResourceFamily resource_mutation
  | NamespaceFamily namespace_mutation
  | WatchHistoryFamily watch_history_mutation
  | NetworkFamily network_mutation
  | OutboxLedgerFamily outbox_ledger_mutation
  | ClusterMetaFamily cluster_meta_mutation
  | PodCleanupFamily pod_cleanup_mutation

fun cluster_mutation_of :: "log_apply_mutation \<Rightarrow> cluster_mutation"
where
  "cluster_mutation_of (LA_PutResource v) = ResourceFamily (RM_PutResource v)"
| "cluster_mutation_of (LA_PatchResourceLatest v) = ResourceFamily (RM_PatchResourceLatest v)"
| "cluster_mutation_of (LA_DeleteResource v) = ResourceFamily (RM_DeleteResource v)"
| "cluster_mutation_of (LA_FinalizeBoundPod v) = ResourceFamily (RM_FinalizeBoundPod v)"
| "cluster_mutation_of (LA_PutNamespace v) = NamespaceFamily (NM_PutNamespace v)"
| "cluster_mutation_of (LA_DeleteNamespace name) = NamespaceFamily (NM_DeleteNamespace name)"
| "cluster_mutation_of (LA_DeleteNamespaceContents name) = NamespaceFamily (NM_DeleteNamespaceContents name)"
| "cluster_mutation_of (LA_PutWatchEvent v) = WatchHistoryFamily (WM_PutWatchEvent v)"
| "cluster_mutation_of (LA_GcWatchEvents max_rows batch_cap) = WatchHistoryFamily (WM_GcWatchEvents max_rows batch_cap)"
| "cluster_mutation_of (LA_PutNodeSubnet v) = NetworkFamily (NW_PutNodeSubnet v)"
| "cluster_mutation_of (LA_AllocateNodeSubnet v) = NetworkFamily (NW_AllocateNodeSubnet v)"
| "cluster_mutation_of (LA_DeleteNodeSubnet node_name) = NetworkFamily (NW_DeleteNodeSubnet node_name)"
| "cluster_mutation_of (LA_PutNodeDataplane v) = NetworkFamily (NW_PutNodeDataplane v)"
| "cluster_mutation_of (LA_DeleteNodeDataplane node_name) = NetworkFamily (NW_DeleteNodeDataplane node_name)"
| "cluster_mutation_of (LA_PutAppliedOutbox v) = OutboxLedgerFamily (OL_PutAppliedOutbox v)"
| "cluster_mutation_of (LA_DeleteAppliedOutbox key) = OutboxLedgerFamily (OL_DeleteAppliedOutbox key)"
| "cluster_mutation_of (LA_GcAppliedOutbox cutoff_ms operations) = OutboxLedgerFamily (OL_GcAppliedOutbox cutoff_ms operations)"
| "cluster_mutation_of (LA_AdvanceResourceVersion rv) = ClusterMetaFamily (CM_AdvanceResourceVersion rv)"
| "cluster_mutation_of (LA_PutKlightsMeta key v) = ClusterMetaFamily (CM_PutKlightsMeta key v)"
| "cluster_mutation_of (LA_PutPodCleanupIntent v) = PodCleanupFamily (PC_PutPodCleanupIntent v)"
| "cluster_mutation_of (LA_DeletePodCleanupIntent v) = PodCleanupFamily (PC_DeletePodCleanupIntent v)"
| "cluster_mutation_of (LA_DeletePodCleanupIntentsForNode node_name) = PodCleanupFamily (PC_DeletePodCleanupIntentsForNode node_name)"

fun into_log_apply_mutation :: "cluster_mutation \<Rightarrow> log_apply_mutation"
where
  "into_log_apply_mutation (ResourceFamily m) =
    (case m of
       RM_PutResource v \<Rightarrow> LA_PutResource v
     | RM_PatchResourceLatest v \<Rightarrow> LA_PatchResourceLatest v
     | RM_DeleteResource v \<Rightarrow> LA_DeleteResource v
     | RM_FinalizeBoundPod v \<Rightarrow> LA_FinalizeBoundPod v)"
| "into_log_apply_mutation (NamespaceFamily m) =
    (case m of
       NM_PutNamespace v \<Rightarrow> LA_PutNamespace v
     | NM_DeleteNamespace name \<Rightarrow> LA_DeleteNamespace name
     | NM_DeleteNamespaceContents name \<Rightarrow> LA_DeleteNamespaceContents name)"
| "into_log_apply_mutation (WatchHistoryFamily m) =
    (case m of
       WM_PutWatchEvent v \<Rightarrow> LA_PutWatchEvent v
     | WM_GcWatchEvents max_rows batch_cap \<Rightarrow> LA_GcWatchEvents max_rows batch_cap)"
| "into_log_apply_mutation (NetworkFamily m) =
    (case m of
       NW_PutNodeSubnet v \<Rightarrow> LA_PutNodeSubnet v
     | NW_AllocateNodeSubnet v \<Rightarrow> LA_AllocateNodeSubnet v
     | NW_DeleteNodeSubnet node_name \<Rightarrow> LA_DeleteNodeSubnet node_name
     | NW_PutNodeDataplane v \<Rightarrow> LA_PutNodeDataplane v
     | NW_DeleteNodeDataplane node_name \<Rightarrow> LA_DeleteNodeDataplane node_name)"
| "into_log_apply_mutation (OutboxLedgerFamily m) =
    (case m of
       OL_PutAppliedOutbox v \<Rightarrow> LA_PutAppliedOutbox v
     | OL_DeleteAppliedOutbox key \<Rightarrow> LA_DeleteAppliedOutbox key
     | OL_GcAppliedOutbox cutoff_ms operations \<Rightarrow> LA_GcAppliedOutbox cutoff_ms operations)"
| "into_log_apply_mutation (ClusterMetaFamily m) =
    (case m of
       CM_AdvanceResourceVersion rv \<Rightarrow> LA_AdvanceResourceVersion rv
     | CM_PutKlightsMeta key v \<Rightarrow> LA_PutKlightsMeta key v)"
| "into_log_apply_mutation (PodCleanupFamily m) =
    (case m of
       PC_PutPodCleanupIntent v \<Rightarrow> LA_PutPodCleanupIntent v
     | PC_DeletePodCleanupIntent v \<Rightarrow> LA_DeletePodCleanupIntent v
     | PC_DeletePodCleanupIntentsForNode node_name \<Rightarrow> LA_DeletePodCleanupIntentsForNode node_name)"

record versioned_cluster_mutation =
  vcm_version :: nat
  vcm_mutation :: cluster_mutation

definition current_cluster_mutation_version :: nat
  where "current_cluster_mutation_version = 1"

record unsupported_cluster_mutation_version =
  ucv_version :: nat
  ucv_current :: nat

definition try_from_versioned ::
  "versioned_cluster_mutation \<Rightarrow> (log_apply_mutation, unsupported_cluster_mutation_version) rust_result"
where
  "try_from_versioned v =
    (if vcm_version v \<noteq> current_cluster_mutation_version
     then Err \<lparr>ucv_version = vcm_version v, ucv_current = current_cluster_mutation_version\<rparr>
     else Ok (into_log_apply_mutation (vcm_mutation v)))"


section \<open>Commits\<close>

record outbox_stream_watermark =
  osw_client_id :: string
  osw_stream_id :: int
  osw_stream_seq :: int

record log_apply_commit =
  lac_resource_version :: int
  lac_outbox_watermark :: "outbox_stream_watermark option"
  lac_mutations :: "log_apply_mutation list"

record snapshot_restore_operation =
  sro_resource_version :: int
  sro_outbox_watermark :: "outbox_stream_watermark option"
  sro_mutations :: "log_apply_mutation list"

record live_commit_rv_error =
  lce_field :: string
  lce_actual :: string

definition validate_zero :: "string \<Rightarrow> int \<Rightarrow> (unit, live_commit_rv_error) rust_result"
where
  "validate_zero field actual =
    (if actual = 0 then Ok () else Err \<lparr>lce_field = field, lce_actual = show_int actual\<rparr>)"

definition validate_json_resource_version ::
  "(json \<Rightarrow> string) \<Rightarrow> string \<Rightarrow> json option \<Rightarrow> (unit, live_commit_rv_error) rust_result"
where
  "validate_json_resource_version json_text field value =
    (case value of
       None \<Rightarrow> Ok ()
     | Some JNull \<Rightarrow> Ok ()
     | Some v \<Rightarrow>
         if as_i64 v = Some 0 \<or> v = JString ''0'' then Ok ()
         else (case as_str v of
                 Some s \<Rightarrow> Err \<lparr>lce_field = field, lce_actual = s\<rparr>
               | None \<Rightarrow> Err \<lparr>lce_field = field, lce_actual = json_text v\<rparr>))"

abbreviation metadata_rv :: "json \<Rightarrow> json option"
  where "metadata_rv \<equiv> pointer [''metadata'', ''resourceVersion'']"

fun validate_live_mutation ::
  "(json \<Rightarrow> string) \<Rightarrow> log_apply_mutation \<Rightarrow> (unit, live_commit_rv_error) rust_result"
where
  "validate_live_mutation json_text (LA_PutResource row) =
    result_bind (validate_json_resource_version json_text
        ''put_resource.data.metadata.resourceVersion'' (metadata_rv (lrr_data row)))
      (\<lambda>_. validate_zero ''put_resource.resource_version'' (lrr_resource_version row))"
| "validate_live_mutation json_text (LA_PatchResourceLatest row) =
    result_bind (validate_json_resource_version json_text
        ''patch_resource_latest.patch.metadata.resourceVersion'' (metadata_rv (lrp_patch row)))
      (\<lambda>_. validate_zero ''patch_resource_latest.resource_version'' (lrp_resource_version row))"
| "validate_live_mutation json_text (LA_PutNamespace row) =
    result_bind (validate_json_resource_version json_text
        ''put_namespace.data.metadata.resourceVersion'' (metadata_rv (lnr_data row)))
      (\<lambda>_. validate_zero ''put_namespace.resource_version'' (lnr_resource_version row))"
| "validate_live_mutation json_text (LA_PutWatchEvent row) =
    result_bind (validate_json_resource_version json_text
        ''put_watch_event.data.metadata.resourceVersion'' (metadata_rv (lwe_data row)))
      (\<lambda>_. result_bind (validate_json_resource_version json_text
          ''put_watch_event.data.object.metadata.resourceVersion''
          (pointer [''object'', ''metadata'', ''resourceVersion''] (lwe_data row)))
        (\<lambda>_. validate_zero ''put_watch_event.resource_version'' (lwe_resource_version row)))"
| "validate_live_mutation json_text (LA_PutPodCleanupIntent row) =
    validate_zero ''put_pod_cleanup_intent.resource_version'' (lpr_resource_version row)"
| "validate_live_mutation json_text (LA_PutAppliedOutbox row) =
    (case lao_applied_rv row of
       Some value \<Rightarrow> validate_zero ''put_applied_outbox.applied_rv'' value
     | None \<Rightarrow> Ok ())"
| "validate_live_mutation json_text (LA_AdvanceResourceVersion rv) =
    validate_zero ''advance_resource_version.resource_version'' rv"
| "validate_live_mutation json_text _ = Ok ()"

fun validate_live_mutations ::
  "(json \<Rightarrow> string) \<Rightarrow> log_apply_mutation list \<Rightarrow> (unit, live_commit_rv_error) rust_result"
where
  "validate_live_mutations json_text [] = Ok ()"
| "validate_live_mutations json_text (m # ms) =
    result_bind (validate_live_mutation json_text m) (\<lambda>_. validate_live_mutations json_text ms)"

definition validate_live_template ::
  "(json \<Rightarrow> string) \<Rightarrow> log_apply_commit \<Rightarrow> (unit, live_commit_rv_error) rust_result"
where
  "validate_live_template json_text commit =
    result_bind (validate_zero ''commit.resource_version'' (lac_resource_version commit))
      (\<lambda>_. validate_live_mutations json_text (lac_mutations commit))"

definition try_new_with_watermark ::
  "(json \<Rightarrow> string) \<Rightarrow> log_apply_mutation list \<Rightarrow> outbox_stream_watermark option
    \<Rightarrow> (log_apply_commit, live_commit_rv_error) rust_result"
where
  "try_new_with_watermark json_text mutations watermark =
    (let commit = \<lparr>lac_resource_version = 0, lac_outbox_watermark = watermark, lac_mutations = mutations\<rparr>
     in result_bind (validate_live_template json_text commit) (\<lambda>_. Ok commit))"

definition try_new ::
  "(json \<Rightarrow> string) \<Rightarrow> log_apply_mutation list \<Rightarrow> (log_apply_commit, live_commit_rv_error) rust_result"
  where "try_new json_text mutations = try_new_with_watermark json_text mutations None"

definition try_from_cluster_mutations ::
  "(json \<Rightarrow> string) \<Rightarrow> cluster_mutation list \<Rightarrow> (log_apply_commit, live_commit_rv_error) rust_result"
where
  "try_from_cluster_mutations json_text mutations = try_new json_text (map into_log_apply_mutation mutations)"

text \<open>\<^verbatim>\<open>authored\<close> panics on an invalid template; that outcome is \<^const>\<open>None\<close>.\<close>

definition authored :: "(json \<Rightarrow> string) \<Rightarrow> log_apply_mutation list \<Rightarrow> log_apply_commit option"
where
  "authored json_text mutations =
    (case try_new json_text mutations of Ok commit \<Rightarrow> Some commit | Err _ \<Rightarrow> None)"

definition clear_metadata_resource_version :: "json \<Rightarrow> json"
  where "clear_metadata_resource_version = jmodify ''metadata'' (jdel ''resourceVersion'')"


subsection \<open>Builders\<close>

definition put_resource :: "(json \<Rightarrow> string) \<Rightarrow> resource \<Rightarrow> log_apply_commit option"
where
  "put_resource json_text r =
    authored json_text [LA_PutResource
      \<lparr>lrr_api_version = r_api_version r, lrr_kind = r_kind r, lrr_namespace = r_namespace r,
       lrr_name = r_name r, lrr_uid = r_uid r, lrr_resource_version = 0,
       lrr_data = clear_metadata_resource_version (r_data r), lrr_require_absent = False,
       lrr_require_existing = False, lrr_precondition_uid = None,
       lrr_precondition_resource_version = None, lrr_status_only = False\<rparr>]"

definition delete_resource ::
  "(json \<Rightarrow> string) \<Rightarrow> string \<Rightarrow> string \<Rightarrow> string option \<Rightarrow> string \<Rightarrow> string \<Rightarrow> log_apply_commit option"
where
  "delete_resource json_text api_version kind ns name uid =
    authored json_text [LA_DeleteResource
      \<lparr>lrk_api_version = api_version, lrk_kind = kind, lrk_namespace = ns, lrk_name = name,
       lrk_uid = uid, lrk_precondition_resource_version = None\<rparr>]"

definition put_namespace :: "(json \<Rightarrow> string) \<Rightarrow> resource \<Rightarrow> log_apply_commit option"
where
  "put_namespace json_text r =
    authored json_text [LA_PutNamespace
      \<lparr>lnr_name = r_name r, lnr_uid = r_uid r, lnr_resource_version = 0,
       lnr_data = clear_metadata_resource_version (r_data r)\<rparr>]"

definition delete_namespace :: "(json \<Rightarrow> string) \<Rightarrow> string \<Rightarrow> log_apply_commit option"
  where "delete_namespace json_text name = authored json_text [LA_DeleteNamespace name]"

definition delete_namespace_contents :: "(json \<Rightarrow> string) \<Rightarrow> string \<Rightarrow> log_apply_commit option"
  where "delete_namespace_contents json_text name = authored json_text [LA_DeleteNamespaceContents name]"

definition put_node_subnet_row :: "(json \<Rightarrow> string) \<Rightarrow> log_apply_node_subnet_row \<Rightarrow> log_apply_commit option"
  where "put_node_subnet_row json_text row = authored json_text [LA_PutNodeSubnet row]"

definition delete_node_subnet :: "(json \<Rightarrow> string) \<Rightarrow> string \<Rightarrow> log_apply_commit option"
  where "delete_node_subnet json_text node_name = authored json_text [LA_DeleteNodeSubnet node_name]"

definition put_node_dataplane_row :: "(json \<Rightarrow> string) \<Rightarrow> log_apply_node_dataplane_row \<Rightarrow> log_apply_commit option"
  where "put_node_dataplane_row json_text row = authored json_text [LA_PutNodeDataplane row]"

definition delete_node_dataplane :: "(json \<Rightarrow> string) \<Rightarrow> string \<Rightarrow> log_apply_commit option"
  where "delete_node_dataplane json_text node_name = authored json_text [LA_DeleteNodeDataplane node_name]"

definition gc_applied_outbox :: "(json \<Rightarrow> string) \<Rightarrow> int \<Rightarrow> string list \<Rightarrow> log_apply_commit option"
  where "gc_applied_outbox json_text cutoff_ms operations = authored json_text [LA_GcAppliedOutbox cutoff_ms operations]"

definition advance_resource_version :: "(json \<Rightarrow> string) \<Rightarrow> log_apply_commit option"
  where "advance_resource_version json_text = authored json_text [LA_AdvanceResourceVersion 0]"

definition put_applied_outbox_row ::
  "(json \<Rightarrow> string) \<Rightarrow> log_apply_applied_outbox_row \<Rightarrow> log_apply_commit option"
where
  "put_applied_outbox_row json_text row =
    authored json_text [LA_PutAppliedOutbox (row\<lparr>lao_applied_rv := None\<rparr>)]"

definition put_watch_event ::
  "(json \<Rightarrow> string) \<Rightarrow> log_apply_watch_event_row \<Rightarrow> log_apply_commit option"
where
  "put_watch_event json_text row =
    authored json_text [LA_PutWatchEvent
      (row\<lparr>lwe_resource_version := 0,
           lwe_data := jmodify ''object'' clear_metadata_resource_version
                        (clear_metadata_resource_version (lwe_data row))\<rparr>)]"

definition put_pod_cleanup_intent_row ::
  "(json \<Rightarrow> string) \<Rightarrow> log_apply_pod_cleanup_intent_row \<Rightarrow> log_apply_commit option"
where
  "put_pod_cleanup_intent_row json_text row =
    authored json_text [LA_PutPodCleanupIntent (row\<lparr>lpr_resource_version := 0\<rparr>)]"

definition resource_snapshot_restore_operation :: "resource \<Rightarrow> snapshot_restore_operation"
where
  "resource_snapshot_restore_operation r =
    (let mutation =
       (if r_api_version r = ''v1'' \<and> r_kind r = ''Namespace'' \<and> r_namespace r = None
        then NamespaceFamily (NM_PutNamespace
               \<lparr>lnr_name = r_name r, lnr_uid = r_uid r, lnr_resource_version = r_resource_version r,
                lnr_data = r_data r\<rparr>)
        else ResourceFamily (RM_PutResource
               \<lparr>lrr_api_version = r_api_version r, lrr_kind = r_kind r, lrr_namespace = r_namespace r,
                lrr_name = r_name r, lrr_uid = r_uid r, lrr_resource_version = r_resource_version r,
                lrr_data = r_data r, lrr_require_absent = False, lrr_require_existing = False,
                lrr_precondition_uid = None, lrr_precondition_resource_version = None,
                lrr_status_only = False\<rparr>))
     in \<lparr>sro_resource_version = r_resource_version r, sro_outbox_watermark = None,
         sro_mutations = [into_log_apply_mutation mutation]\<rparr>)"


section \<open>Committed outcomes\<close>

datatype no_public_change_reason =
    DuplicateIdempotencyKey | DuplicateWatermark | StaleStatusStamp | EqualStatusStamp | LedgerOnly

datatype committed_apply_rejection =
    CR_NotFound string
  | CR_AlreadyExists string
  | CR_UidConflict string
  | CR_ResourceVersionConflict string
  | CR_InvalidCommit string

datatype committed_apply_outcome =
    Visible int "resource option"
  | NoPublicChange int no_public_change_reason
  | RejectedCommit committed_apply_rejection


section \<open>Outbox decisions\<close>

datatype outbox_watermark_decision = ApplyEntry | DuplicateEntry | GapEntry int int

datatype invalid_outbox_stream_sequence = InvalidOutboxStreamSequence

definition decide_outbox_watermark ::
  "int option \<Rightarrow> outbox_stream_watermark option
    \<Rightarrow> (outbox_watermark_decision, invalid_outbox_stream_sequence) rust_result"
where
  "decide_outbox_watermark last_seq watermark =
    (case watermark of
       None \<Rightarrow> Ok ApplyEntry
     | Some w \<Rightarrow>
         if osw_stream_seq w \<le> 0 then Err InvalidOutboxStreamSequence
         else Ok (case last_seq of
                    Some seq \<Rightarrow>
                      if osw_stream_seq w \<le> seq then DuplicateEntry
                      else if osw_stream_seq w \<noteq> saturating_add_i64 seq 1
                      then GapEntry seq (osw_stream_seq w)
                      else ApplyEntry
                  | None \<Rightarrow> if osw_stream_seq w = 1 then ApplyEntry else GapEntry 0 (osw_stream_seq w)))"

definition is_stamped_pod_status_outbox_operation :: "string \<Rightarrow> bool"
where
  "is_stamped_pod_status_outbox_operation operation \<longleftrightarrow>
    operation \<in> {''PodStatus'', ''RuntimeReconcile'', ''ProbeReadiness'', ''DeadlineExceeded'',
                 ''ContainerStatusSnapshot'', ''EphemeralContainerStatuses''}"

fun stamped_row :: "log_apply_mutation \<Rightarrow> (string \<times> int) option"
where
  "stamped_row (LA_PutAppliedOutbox row) =
    (case lao_status_stamp row of
       Some stamp \<Rightarrow>
         if stamp > 0 \<and> is_stamped_pod_status_outbox_operation (lao_operation row) \<and> lao_subject_key row \<noteq> []
         then Some (lao_subject_key row, stamp)
         else None
     | None \<Rightarrow> None)"
| "stamped_row _ = None"

fun find_map :: "('a \<Rightarrow> 'b option) \<Rightarrow> 'a list \<Rightarrow> 'b option"
where
  "find_map f [] = None"
| "find_map f (x # xs) = (case f x of Some y \<Rightarrow> Some y | None \<Rightarrow> find_map f xs)"

definition stamped_pod_status_subject_and_stamp :: "log_apply_commit \<Rightarrow> (string \<times> int) option"
  where "stamped_pod_status_subject_and_stamp commit = find_map stamped_row (lac_mutations commit)"

fun is_put_applied_outbox :: "log_apply_mutation \<Rightarrow> bool"
where
  "is_put_applied_outbox (LA_PutAppliedOutbox _) = True"
| "is_put_applied_outbox _ = False"

definition commit_with_outbox_rows_only :: "log_apply_commit \<Rightarrow> log_apply_commit"
where
  "commit_with_outbox_rows_only commit =
    commit\<lparr>lac_mutations := filter is_put_applied_outbox (lac_mutations commit)\<rparr>"


section \<open>Live templates\<close>

text \<open>What a live template must not contain: a resourceVersion anyone could mistake for an
  assigned one.  A field is free of it if it is absent, null or zero.\<close>

definition rv_free :: "json option \<Rightarrow> bool"
  where "rv_free v \<longleftrightarrow> v \<in> {None, Some JNull, Some (JString ''0''), Some (JNumber (IntNum 0))}"

fun unversioned :: "log_apply_mutation \<Rightarrow> bool"
where
  "unversioned (LA_PutResource row) \<longleftrightarrow> lrr_resource_version row = 0 \<and> rv_free (metadata_rv (lrr_data row))"
| "unversioned (LA_PatchResourceLatest row) \<longleftrightarrow>
    lrp_resource_version row = 0 \<and> rv_free (metadata_rv (lrp_patch row))"
| "unversioned (LA_PutNamespace row) \<longleftrightarrow> lnr_resource_version row = 0 \<and> rv_free (metadata_rv (lnr_data row))"
| "unversioned (LA_PutWatchEvent row) \<longleftrightarrow>
    lwe_resource_version row = 0 \<and> rv_free (metadata_rv (lwe_data row))
    \<and> rv_free (pointer [''object'', ''metadata'', ''resourceVersion''] (lwe_data row))"
| "unversioned (LA_PutPodCleanupIntent row) \<longleftrightarrow> lpr_resource_version row = 0"
| "unversioned (LA_PutAppliedOutbox row) \<longleftrightarrow> lao_applied_rv row \<in> {None, Some 0}"
| "unversioned (LA_AdvanceResourceVersion rv) \<longleftrightarrow> rv = 0"
| "unversioned _ \<longleftrightarrow> True"

lemma validate_zero_Ok: "validate_zero field n = Ok () \<longleftrightarrow> n = 0"
  by (simp add: validate_zero_def)

lemma as_i64_zero: "as_i64 v = Some 0 \<longleftrightarrow> v = JNumber (IntNum 0)"
  by (cases v rule: as_i64.cases) (auto simp: in_i64_def i64_min_def i64_max_def)

lemma validate_json_Ok: "validate_json_resource_version json_text field v = Ok () \<longleftrightarrow> rv_free v"
  by (auto simp: validate_json_resource_version_def rv_free_def as_i64_zero split: option.split json.split)

lemma result_bind_unit_Ok:
  "result_bind r (\<lambda>_. s) = Ok x \<longleftrightarrow> (\<exists>u. r = Ok u) \<and> s = Ok x"
  by (cases r) simp_all

lemmas validate_Ok = validate_zero_Ok validate_json_Ok result_bind_unit_Ok

lemma validate_live_mutation_Ok: "validate_live_mutation json_text m = Ok () \<longleftrightarrow> unversioned m"
  by (cases m) (auto simp: validate_Ok split: option.split)

lemma validate_live_mutations_Ok:
  "validate_live_mutations json_text ms = Ok () \<longleftrightarrow> list_all unversioned ms"
  by (induction ms) (auto simp: result_bind_unit_Ok validate_live_mutation_Ok)

lemma validate_live_template_Ok:
  "validate_live_template json_text c = Ok () \<longleftrightarrow>
    lac_resource_version c = 0 \<and> list_all unversioned (lac_mutations c)"
  by (auto simp: validate_live_template_def validate_Ok validate_live_mutations_Ok)

lemma authored_Some:
  "list_all unversioned ms \<Longrightarrow>
    authored json_text ms = Some \<lparr>lac_resource_version = 0, lac_outbox_watermark = None, lac_mutations = ms\<rparr>"
proof -
  let ?c = "\<lparr>lac_resource_version = 0, lac_outbox_watermark = None, lac_mutations = ms\<rparr>"
  assume "list_all unversioned ms"
  then have "validate_live_template json_text ?c = Ok ()"
    by (simp add: validate_live_template_Ok)
  then show ?thesis
    by (simp add: authored_def try_new_def try_new_with_watermark_def)
qed

lemma metadata_rv_clear [simp]: "metadata_rv (clear_metadata_resource_version d) = None"
  by (simp add: clear_metadata_resource_version_def split: option.split)

lemma rv_free_None [simp]: "rv_free None"
  by (simp add: rv_free_def)

lemma object_rv_clear [simp]:
  "pointer [''object'', ''metadata'', ''resourceVersion''] (jmodify ''object'' clear_metadata_resource_version d) = None"
  by (auto simp: clear_metadata_resource_version_def split: option.split)

lemma metadata_rv_modify_object [simp]:
  "metadata_rv (jmodify ''object'' f d) = metadata_rv d"
  by simp

lemma ledger_only_stamp:
  "stamped_pod_status_subject_and_stamp (commit_with_outbox_rows_only c) = stamped_pod_status_subject_and_stamp c"
proof -
  have "stamped_row m = None" if "\<not> is_put_applied_outbox m" for m
    using that by (cases m) simp_all
  then have "find_map stamped_row (filter is_put_applied_outbox ms) = find_map stamped_row ms" for ms
    by (induction ms) (simp_all split: option.split)
  then show ?thesis
    by (simp add: stamped_pod_status_subject_and_stamp_def commit_with_outbox_rows_only_def)
qed

lemma ledger_only_unversioned:
  "list_all unversioned (lac_mutations c) \<Longrightarrow> list_all unversioned (lac_mutations (commit_with_outbox_rows_only c))"
  by (simp add: commit_with_outbox_rows_only_def list_all_iff)


section \<open>Properties\<close>

text \<open>A commit is accepted as a live template exactly when no part of it carries a resourceVersion:
  not the envelope, no row, and no document, so that only the committed transaction can assign one.\<close>

lemma live_template_exact:
  "validate_live_template json_text c = Ok () \<longleftrightarrow>
    lac_resource_version c = 0 \<and> list_all unversioned (lac_mutations c)"
  by (rule validate_live_template_Ok)

text \<open>The builders of commits never hit their panic branch: for every resource and row, whatever
  resourceVersion it carries, the result is a valid live template with one mutation.\<close>

lemma builders_never_panic:
  "list_all (\<lambda>built. case built of
       Some c \<Rightarrow> validate_live_template json_text c = Ok () \<and> length (lac_mutations c) = 1
     | None \<Rightarrow> False)
    [put_resource json_text r, put_namespace json_text r, delete_resource json_text api_version kind ns name uid,
     advance_resource_version json_text, put_applied_outbox_row json_text outbox_row,
     put_watch_event json_text event_row, put_pod_cleanup_intent_row json_text intent_row,
     delete_namespace json_text name, delete_namespace_contents json_text name,
     put_node_subnet_row json_text subnet_row, delete_node_subnet json_text name,
     put_node_dataplane_row json_text dataplane_row, delete_node_dataplane json_text name,
     gc_applied_outbox json_text cutoff_ms operations]"
  by (simp add: put_resource_def put_namespace_def delete_resource_def advance_resource_version_def
      put_applied_outbox_row_def put_watch_event_def put_pod_cleanup_intent_row_def delete_namespace_def
      delete_namespace_contents_def put_node_subnet_row_def delete_node_subnet_def put_node_dataplane_row_def
      delete_node_dataplane_def gc_applied_outbox_def authored_Some
      validate_live_template_Ok del: pointer.simps)

text \<open>Flat mutations and tagged families are the same information: the two conversions are inverse
  to each other, and a versioned envelope decodes exactly for the current version, to the mutation
  it wraps.\<close>

lemma mutation_family_roundtrip:
  "into_log_apply_mutation (cluster_mutation_of m) = m
    \<and> cluster_mutation_of (into_log_apply_mutation f) = f
    \<and> (try_from_versioned v = Ok m \<longleftrightarrow> vcm_version v = 1 \<and> vcm_mutation v = cluster_mutation_of m)"
proof -
  have forth: "into_log_apply_mutation (cluster_mutation_of m) = m" for m
    by (cases m) simp_all
  have inverse: "cluster_mutation_of (into_log_apply_mutation f) = f" for f
    by (cases f rule: into_log_apply_mutation.cases)
      (simp_all split: resource_mutation.split namespace_mutation.split watch_history_mutation.split
        network_mutation.split outbox_ledger_mutation.split cluster_meta_mutation.split pod_cleanup_mutation.split)
  show ?thesis
    using forth inverse by (auto simp: try_from_versioned_def current_cluster_mutation_version_def)
qed

end
