(* ===== verification/Stale_Resource.thy ===== *)
theory Stale_Resource
  imports Json_Value
begin

text \<open>
  The policy that keeps actor-owned fields when a full-resource write for the same UID was authored
  against an older version (\<^verbatim>\<open>klights-cluster-core/src/stale_resource.rs\<close>).  Each helper takes the
  incoming document and returns it updated, as the source mutates it in place; the policy composes
  the helpers in the order of the source.
\<close>

section \<open>Accessors shared by the helpers\<close>

definition array_at :: "string list \<Rightarrow> json \<Rightarrow> json list option"
  where "array_at ts v = Option.bind (pointer ts v) as_array"

definition nonempty_str :: "string option \<Rightarrow> string option"
  where "nonempty_str s = (if s = Some [] then None else s)"

definition nonblank_str :: "string option \<Rightarrow> string option"
  where "nonblank_str s = (case s of Some t \<Rightarrow> if is_blank t then None else s | None \<Rightarrow> None)"

text \<open>\<^verbatim>\<open>o.entry(k).or_insert_with(d)\<close> on an object, without the reference it returns.\<close>

definition jentry :: "string \<Rightarrow> json \<Rightarrow> json \<Rightarrow> json"
  where "jentry k d v = (if jget k v = None then jput k d v else v)"

definition is_pod :: "string \<Rightarrow> string \<Rightarrow> bool"
  where "is_pod api_version kind \<longleftrightarrow> api_version = ''v1'' \<and> kind = ''Pod''"


section \<open>The helpers\<close>

definition merge_finalizers :: "json list \<Rightarrow> json list \<Rightarrow> json list"
where
  "merge_finalizers incoming existing =
    foldl (\<lambda>merged f. if f \<in> set merged then merged else merged @ [f]) incoming existing"

definition preserve_finalizers_for_stale_put :: "string \<Rightarrow> string \<Rightarrow> json \<Rightarrow> json \<Rightarrow> json"
where
  "preserve_finalizers_for_stale_put api_version kind incoming existing =
    (if is_pod api_version kind then incoming
     else (case array_at [''metadata'', ''finalizers''] existing of
             None \<Rightarrow> incoming
           | Some existing_finalizers \<Rightarrow>
               if existing_finalizers = [] then incoming
               else jmodify ''metadata'' (\<lambda>metadata.
                      jput ''finalizers''
                        (JArray (merge_finalizers (unwrap_or (array_at [''finalizers''] metadata) [])
                          existing_finalizers)) metadata) incoming))"

definition preserve_pod_node_for_stale_put :: "string \<Rightarrow> string \<Rightarrow> json \<Rightarrow> json \<Rightarrow> json"
where
  "preserve_pod_node_for_stale_put api_version kind incoming existing =
    (if \<not> is_pod api_version kind then incoming
     else (case nonempty_str (str_at [''spec'', ''nodeName''] existing) of
             None \<Rightarrow> incoming
           | Some existing_node \<Rightarrow>
               if nonempty_str (str_at [''spec'', ''nodeName''] incoming) = Some existing_node then incoming
               else jmodify ''spec'' (jput ''nodeName'' (JString existing_node))
                      (jentry ''spec'' (JObject []) incoming)))"

definition has_deletion_timestamp :: "json \<Rightarrow> bool"
where
  "has_deletion_timestamp data =
    (case pointer [''metadata'', ''deletionTimestamp''] data of
       None \<Rightarrow> False
     | Some v \<Rightarrow> \<not> is_null v \<and> (case as_str v of Some timestamp \<Rightarrow> \<not> is_blank timestamp | None \<Rightarrow> True))"

definition preserve_pod_status_for_stale_main_put :: "string \<Rightarrow> string \<Rightarrow> json \<Rightarrow> json \<Rightarrow> json"
where
  "preserve_pod_status_for_stale_main_put api_version kind incoming existing =
    (if \<not> is_pod api_version kind \<or> has_deletion_timestamp incoming then incoming
     else (case jget ''status'' existing of
             Some existing_status \<Rightarrow> jput ''status'' existing_status incoming
           | None \<Rightarrow> jdel ''status'' incoming))"

definition is_pod_scheduled :: "json \<Rightarrow> bool"
  where "is_pod_scheduled condition \<longleftrightarrow> get_str ''type'' condition = Some ''PodScheduled''"

definition default_scheduled :: json
where
  "default_scheduled =
    JObject [(''reason'', JString ''PodScheduled''), (''status'', JString ''True''),
             (''type'', JString ''PodScheduled'')]"

text \<open>The \<^verbatim>\<open>PodScheduled=True\<close> condition to keep: the live one, or a fresh one.\<close>

definition scheduled_condition :: "json \<Rightarrow> json"
where
  "scheduled_condition existing =
    (let scheduled =
       (case Option.bind (array_at [''status'', ''conditions''] existing)
               (find (\<lambda>c. is_pod_scheduled c \<and> get_str ''status'' c = Some ''True'')) of
          Some c \<Rightarrow> c
        | None \<Rightarrow> default_scheduled)
     in jentry ''reason'' (JString ''PodScheduled'')
          (jput ''status'' (JString ''True'') (jput ''type'' (JString ''PodScheduled'') scheduled)))"

definition replace_scheduled :: "json \<Rightarrow> json \<Rightarrow> json"
where
  "replace_scheduled scheduled status =
    (let status = jdel ''nominatedNodeName'' (if is_object status then status else JObject []);
         conditions = unwrap_or (array_at [''conditions''] status) []
     in jput ''conditions''
          (JArray (filter (\<lambda>c. \<not> is_pod_scheduled c) conditions @ [scheduled])) status)"

definition preserve_pod_scheduled_true_for_stale_bound_put :: "string \<Rightarrow> string \<Rightarrow> json \<Rightarrow> json \<Rightarrow> json"
where
  "preserve_pod_scheduled_true_for_stale_bound_put api_version kind incoming existing =
    (if \<not> is_pod api_version kind \<or> nonblank_str (str_at [''spec'', ''nodeName''] incoming) = None then incoming
     else jput ''status''
            (replace_scheduled (scheduled_condition existing) (unwrap_or (jget ''status'' incoming) (JObject [])))
            incoming)"

datatype owner_reference_identity = OwnerUid string | ApiKindName string string string

definition owner_reference_identity :: "json \<Rightarrow> owner_reference_identity option"
where
  "owner_reference_identity owner_ref =
    (case nonblank_str (get_str ''uid'' owner_ref) of
       Some uid \<Rightarrow> Some (OwnerUid uid)
     | None \<Rightarrow>
         Option.bind (nonblank_str (get_str ''apiVersion'' owner_ref)) (\<lambda>api_version.
         Option.bind (nonblank_str (get_str ''kind'' owner_ref)) (\<lambda>kind.
         Option.bind (nonblank_str (get_str ''name'' owner_ref)) (\<lambda>name.
         Some (ApiKindName api_version kind name)))))"

fun push_missing_owner_refs ::
  "owner_reference_identity set \<Rightarrow> json list \<Rightarrow> json list \<Rightarrow> json list"
where
  "push_missing_owner_refs identities merged [] = merged"
| "push_missing_owner_refs identities merged (owner_ref # owner_refs) =
    (case owner_reference_identity owner_ref of
       Some identity \<Rightarrow>
         if identity \<notin> identities
         then push_missing_owner_refs (insert identity identities) (merged @ [owner_ref]) owner_refs
         else push_missing_owner_refs identities merged owner_refs
     | None \<Rightarrow> push_missing_owner_refs identities merged owner_refs)"

definition merge_owner_refs :: "json list \<Rightarrow> json list \<Rightarrow> json list"
where
  "merge_owner_refs incoming existing =
    push_missing_owner_refs (set (List.map_filter owner_reference_identity incoming)) incoming existing"

definition preserve_pod_owner_refs_for_stale_put :: "string \<Rightarrow> string \<Rightarrow> json \<Rightarrow> json \<Rightarrow> json"
where
  "preserve_pod_owner_refs_for_stale_put api_version kind incoming existing =
    (if \<not> is_pod api_version kind then incoming
     else (case array_at [''metadata'', ''ownerReferences''] existing of
             None \<Rightarrow> incoming
           | Some existing_refs \<Rightarrow>
               if existing_refs = [] then incoming
               else (case array_at [''metadata'', ''ownerReferences''] incoming of
                       None \<Rightarrow> jmodify ''metadata'' (jput ''ownerReferences'' (JArray existing_refs)) incoming
                     | Some incoming_refs \<Rightarrow>
                         if incoming_refs = [] then incoming
                         else jmodify ''metadata''
                                (jput ''ownerReferences'' (JArray (merge_owner_refs incoming_refs existing_refs)))
                                incoming)))"

definition add_missing_entries :: "json_object \<Rightarrow> json \<Rightarrow> json"
  where "add_missing_entries existing entries = foldl (\<lambda>v (k, x). jentry k x v) entries existing"

definition merge_missing_metadata_map_entries :: "string \<Rightarrow> json \<Rightarrow> json \<Rightarrow> json"
where
  "merge_missing_metadata_map_entries field data existing =
    (case Option.bind (pointer [''metadata'', field] existing) as_object of
       None \<Rightarrow> data
     | Some existing_entries \<Rightarrow>
         if existing_entries = [] then data
         else jmodify ''metadata'' (\<lambda>metadata.
                jmodify field (add_missing_entries existing_entries) (jentry field (JObject []) metadata)) data)"

definition preserve_storage_user_metadata_for_stale_put :: "string \<Rightarrow> string \<Rightarrow> json \<Rightarrow> json \<Rightarrow> json"
where
  "preserve_storage_user_metadata_for_stale_put api_version kind incoming existing =
    (if api_version \<noteq> ''v1'' \<or> kind \<notin> {''PersistentVolume'', ''PersistentVolumeClaim''} then incoming
     else merge_missing_metadata_map_entries ''annotations''
            (merge_missing_metadata_map_entries ''labels'' incoming existing) existing)"

definition apply_same_uid_stale_full_resource_policy :: "string \<Rightarrow> string \<Rightarrow> json \<Rightarrow> json \<Rightarrow> json"
where
  "apply_same_uid_stale_full_resource_policy api_version kind incoming existing =
    (let d1 = preserve_pod_node_for_stale_put api_version kind incoming existing;
         d2 = preserve_pod_status_for_stale_main_put api_version kind d1 existing;
         d3 = preserve_pod_scheduled_true_for_stale_bound_put api_version kind d2 existing;
         d4 = preserve_pod_owner_refs_for_stale_put api_version kind d3 existing;
         d5 = preserve_storage_user_metadata_for_stale_put api_version kind d4 existing
     in preserve_finalizers_for_stale_put api_version kind d5 existing)"


section \<open>In-place policies\<close>

text \<open>The contract every helper keeps: it returns a well-formed object for well-formed objects, and
  of the fields of the document it changes only those its footprint names by their first two path
  components.  Policies with this contract compose.\<close>

locale json_policy =
  fixes policy :: "json \<Rightarrow> json \<Rightarrow> json"
    and touches :: "string \<Rightarrow> string \<Rightarrow> bool"
  assumes policy_object: "is_object (policy incoming existing) = is_object incoming"
    and policy_wf: "wf_json incoming \<Longrightarrow> wf_json existing \<Longrightarrow> wf_json (policy incoming existing)"
    and policy_frame: "\<not> touches k l \<Longrightarrow> pointer [k, l] (policy incoming existing) = pointer [k, l] incoming"
    and policy_frame_top: "\<forall>l. \<not> touches k l \<Longrightarrow> jget k (policy incoming existing) = jget k incoming"

locale json_policy_seq =
  one: json_policy f touches_f + two: json_policy g touches_g
  for f g :: "json \<Rightarrow> json \<Rightarrow> json" and touches_f touches_g :: "string \<Rightarrow> string \<Rightarrow> bool"
begin

lemma seq_policy: "json_policy (\<lambda>incoming existing. g (f incoming existing) existing) (\<lambda>k l. touches_f k l \<or> touches_g k l)"
  by unfold_locales
    (simp_all add: one.policy_object two.policy_object one.policy_wf two.policy_wf one.policy_frame
      two.policy_frame one.policy_frame_top two.policy_frame_top del: pointer.simps)

end


section \<open>The helpers keep the contract\<close>

lemma jget_not_object [simp]: "\<not> is_object v \<Longrightarrow> jget k v = None"
  by (cases v) simp_all

lemma jget_jentry [simp]:
  "jget k (jentry k' d v) = (if k = k' \<and> is_object v \<and> jget k v = None then Some d else jget k v)"
  by (auto simp: jentry_def)

lemma is_object_jentry [simp]: "is_object (jentry k d v) = is_object v"
  by (simp add: jentry_def)

lemma wf_json_jentry [wf_intros]: "wf_json v \<Longrightarrow> wf_json d \<Longrightarrow> wf_json (jentry k d v)"
  by (simp add: jentry_def)

lemma pointer_two: "pointer [k, l] v = Option.bind (jget k v) (jget l)"
  by (simp split: option.split)

lemma wf_json_array_at: "wf_json v \<Longrightarrow> array_at ts v = Some xs \<Longrightarrow> list_all wf_json xs"
  by (auto simp: array_at_def bind_eq_Some_conv list_all_iff dest: wf_json_pointer)

lemma wf_json_JArray: "wf_json (JArray xs) \<longleftrightarrow> list_all wf_json xs"
  by (auto simp: list_all_iff)

lemma wf_json_JString: "wf_json (JString s)"
  by simp

lemma wf_json_empty: "wf_json (JObject [])"
  by (simp add: om_wf_def)

lemma set_merge_finalizers: "set (merge_finalizers incoming existing) = set incoming \<union> set existing"
  unfolding merge_finalizers_def by (induction existing arbitrary: incoming) auto

lemma add_missing_entries_Cons:
  "add_missing_entries ((k, x) # m) v = add_missing_entries m (jentry k x v)"
  by (simp add: add_missing_entries_def)

lemma add_missing_entries_Nil: "add_missing_entries [] v = v"
  by (simp add: add_missing_entries_def)

lemma is_object_add_missing [simp]: "is_object (add_missing_entries m v) = is_object v"
  unfolding add_missing_entries_def by (induction m arbitrary: v) (simp_all add: split_beta)

lemma wf_json_add_missing:
  "wf_json v \<Longrightarrow> (\<And>k x. (k, x) \<in> set m \<Longrightarrow> wf_json x) \<Longrightarrow> wf_json (add_missing_entries m v)"
proof (induction m arbitrary: v)
  case (Cons e m)
  obtain k x where e: "e = (k, x)" by fastforce
  have "wf_json (jentry k x v)"
    using Cons.prems by (auto simp: e intro: wf_json_jentry)
  then have "wf_json (add_missing_entries m (jentry k x v))"
    by (rule Cons.IH) (auto intro: Cons.prems(2))
  then show ?case
    by (simp only: e add_missing_entries_Cons)
qed (simp add: add_missing_entries_Nil)

lemma set_push_missing:
  "set (push_missing_owner_refs ids merged refs) \<subseteq> set merged \<union> set refs"
  by (induction ids merged refs rule: push_missing_owner_refs.induct) (auto split: option.splits if_splits)

lemma set_merge_owner_refs: "set (merge_owner_refs incoming existing) \<subseteq> set incoming \<union> set existing"
  unfolding merge_owner_refs_def by (rule set_push_missing)

lemma wf_scheduled_condition:
  assumes "wf_json existing"
  shows "wf_json (scheduled_condition existing)"
proof -
  let ?found = "Option.bind (array_at [''status'', ''conditions''] existing)
    (find (\<lambda>c. is_pod_scheduled c \<and> get_str ''status'' c = Some ''True''))"
  have "wf_json default_scheduled"
    by (simp add: default_scheduled_def om_wf_def)
  moreover have "wf_json c" if found: "?found = Some c" for c
  proof -
    obtain cs where cs: "array_at [''status'', ''conditions''] existing = Some cs"
      and "find (\<lambda>c. is_pod_scheduled c \<and> get_str ''status'' c = Some ''True'') cs = Some c"
      using found by (cases "array_at [''status'', ''conditions''] existing") simp_all
    then have "c \<in> set cs"
      by (auto simp: find_Some_iff)
    then show ?thesis
      using wf_json_array_at [OF assms cs] by (auto simp: list_all_iff)
  qed
  ultimately show ?thesis
    by (auto simp: scheduled_condition_def Let_def split: option.split intro!: wf_json_jput wf_json_jentry)
qed

lemma is_object_replace_scheduled [simp]: "is_object (replace_scheduled scheduled status)"
  by (simp add: replace_scheduled_def Let_def)

lemma wf_replace_scheduled:
  assumes "wf_json scheduled" and "wf_json status"
  shows "wf_json (replace_scheduled scheduled status)"
proof -
  let ?s = "jdel ''nominatedNodeName'' (if is_object status then status else JObject [])"
  have "wf_json ?s"
    using assms(2) wf_json_empty by (auto intro: wf_json_jdel)
  moreover from this have "list_all wf_json (unwrap_or (array_at [''conditions''] ?s) [])"
    using wf_json_array_at [of ?s "[''conditions'']"] by (auto simp: unwrap_or_def split: option.split)
  ultimately show ?thesis
    using assms(1) unfolding replace_scheduled_def Let_def
    by (intro wf_json_jput) (auto simp: list_all_iff)
qed

definition spec_node :: "string \<Rightarrow> string \<Rightarrow> bool"
  where "spec_node k l \<longleftrightarrow> k = ''spec'' \<and> l = ''nodeName''"

definition whole_status :: "string \<Rightarrow> string \<Rightarrow> bool"
  where "whole_status k l \<longleftrightarrow> k = ''status''"

definition metadata_fields :: "string set \<Rightarrow> string \<Rightarrow> string \<Rightarrow> bool"
  where "metadata_fields fields k l \<longleftrightarrow> k = ''metadata'' \<and> l \<in> fields"

interpretation pod_node: json_policy "preserve_pod_node_for_stale_put api_version kind" spec_node
  for api_version kind
proof
  fix incoming existing :: json and k l :: string
  show "is_object (preserve_pod_node_for_stale_put api_version kind incoming existing) = is_object incoming"
    by (simp add: preserve_pod_node_for_stale_put_def split: option.split)
  show "wf_json (preserve_pod_node_for_stale_put api_version kind incoming existing)"
    if "wf_json incoming" "wf_json existing"
    using that by (auto simp: preserve_pod_node_for_stale_put_def split: option.split
        intro!: wf_json_jmodify wf_json_jput wf_json_jentry wf_json_empty)
  show "pointer [k, l] (preserve_pod_node_for_stale_put api_version kind incoming existing) = pointer [k, l] incoming"
    if "\<not> spec_node k l"
    using that by (auto simp: preserve_pod_node_for_stale_put_def spec_node_def pointer_two
        simp del: pointer.simps split: option.split)
  show "jget k (preserve_pod_node_for_stale_put api_version kind incoming existing) = jget k incoming"
    if "\<forall>l. \<not> spec_node k l"
    using that by (auto simp: preserve_pod_node_for_stale_put_def spec_node_def split: option.split)
qed

interpretation pod_status: json_policy "preserve_pod_status_for_stale_main_put api_version kind" whole_status
  for api_version kind
proof
  fix incoming existing :: json and k l :: string
  let ?r = "preserve_pod_status_for_stale_main_put api_version kind incoming existing"
  have r: "?r = incoming \<or> ?r = jdel ''status'' incoming \<or>
      (\<exists>s. jget ''status'' existing = Some s \<and> ?r = jput ''status'' s incoming)"
    by (simp add: preserve_pod_status_for_stale_main_put_def split: option.split)
  then show "is_object ?r = is_object incoming"
    by auto
  show "wf_json ?r" if "wf_json incoming" "wf_json existing"
    using r that wf_json_jget [OF that(2)] by (elim disjE exE conjE) simp_all
  show "pointer [k, l] ?r = pointer [k, l] incoming" if "\<not> whole_status k l"
    using r that by (elim disjE exE conjE) (simp_all add: whole_status_def)
  show "jget k ?r = jget k incoming" if "\<forall>l. \<not> whole_status k l"
    using r that by (elim disjE exE conjE) (simp_all add: whole_status_def)
qed

interpretation pod_scheduled: json_policy "preserve_pod_scheduled_true_for_stale_bound_put api_version kind" whole_status
  for api_version kind
proof
  fix incoming existing :: json and k l :: string
  let ?r = "preserve_pod_scheduled_true_for_stale_bound_put api_version kind incoming existing"
  show "is_object ?r = is_object incoming"
    by (simp add: preserve_pod_scheduled_true_for_stale_bound_put_def)
  show "wf_json ?r" if "wf_json incoming" "wf_json existing"
  proof -
    have "wf_json (unwrap_or (jget ''status'' incoming) (JObject []))"
      using that(1) wf_json_empty by (auto simp: unwrap_or_def split: option.split dest: wf_json_jget)
    then show ?thesis
      using that by (auto simp: preserve_pod_scheduled_true_for_stale_bound_put_def
          intro!: wf_json_jput wf_replace_scheduled wf_scheduled_condition)
  qed
  show "pointer [k, l] ?r = pointer [k, l] incoming" if "\<not> whole_status k l"
    using that by (auto simp: preserve_pod_scheduled_true_for_stale_bound_put_def whole_status_def pointer_two
        simp del: pointer.simps)
  show "jget k ?r = jget k incoming" if "\<forall>l. \<not> whole_status k l"
    using that by (auto simp: preserve_pod_scheduled_true_for_stale_bound_put_def whole_status_def)
qed

text \<open>A helper that rewrites one array of the metadata keeps the contract.\<close>

lemma metadata_array_policy:
  assumes step: "\<And>incoming existing. policy incoming existing = incoming \<or>
      (policy incoming existing = jmodify ''metadata'' (\<lambda>m. jput field (JArray (xs incoming existing m)) m) incoming
        \<and> applies existing)"
    and wf: "\<And>incoming existing m. wf_json incoming \<Longrightarrow> wf_json existing \<Longrightarrow> applies existing \<Longrightarrow> wf_json m \<Longrightarrow>
      list_all wf_json (xs incoming existing m)"
  shows "json_policy policy (metadata_fields {field})"
proof
  fix incoming existing :: json and k l :: string
  let ?r = "policy incoming existing"
  let ?changed = "jmodify ''metadata'' (\<lambda>m. jput field (JArray (xs incoming existing m)) m) incoming"
  note r = step [of incoming existing]
  show "is_object ?r = is_object incoming"
    using r by auto
  show "wf_json ?r" if docs: "wf_json incoming" "wf_json existing"
  proof (cases "?r = incoming")
    case False
    then have "?r = ?changed" and "applies existing"
      using r by simp_all
    moreover have "wf_json (jput field (JArray (xs incoming existing m)) m)" if "wf_json m" for m
      using wf [OF docs \<open>applies existing\<close> that] that by (intro wf_json_jput) (simp_all only: wf_json_JArray)
    ultimately show ?thesis
      using docs(1) by (auto intro: wf_json_jmodify)
  qed (use docs in simp)
  show "pointer [k, l] ?r = pointer [k, l] incoming" if "\<not> metadata_fields {field} k l"
    using r that
    by (elim disjE) (auto simp: metadata_fields_def pointer_two bind_map_option comp_def simp del: pointer.simps)
  show "jget k ?r = jget k incoming" if "\<forall>l. \<not> metadata_fields {field} k l"
    using r that by (elim disjE) (auto simp: metadata_fields_def)
qed

lemma wf_merge_owner_refs: "list_all wf_json xs \<Longrightarrow> list_all wf_json ys \<Longrightarrow> list_all wf_json (merge_owner_refs xs ys)"
  using set_merge_owner_refs [of xs ys] by (auto simp: list_all_iff)

interpretation pod_owner_refs: json_policy "preserve_pod_owner_refs_for_stale_put api_version kind"
  "metadata_fields {''ownerReferences''}"
  for api_version kind
proof (rule metadata_array_policy)
  let ?ex = "array_at [''metadata'', ''ownerReferences'']"
  show "preserve_pod_owner_refs_for_stale_put api_version kind incoming existing = incoming \<or>
      (preserve_pod_owner_refs_for_stale_put api_version kind incoming existing =
        jmodify ''metadata'' (\<lambda>m. jput ''ownerReferences''
          (JArray (case ?ex incoming of None \<Rightarrow> the (?ex existing) | Some refs \<Rightarrow> merge_owner_refs refs (the (?ex existing)))) m)
          incoming
      \<and> ?ex existing \<noteq> None)" for incoming existing
    by (simp add: preserve_pod_owner_refs_for_stale_put_def split: option.split)
  show "list_all wf_json (case ?ex incoming of None \<Rightarrow> the (?ex existing) | Some refs \<Rightarrow> merge_owner_refs refs (the (?ex existing)))"
    if "wf_json incoming" "wf_json existing" "?ex existing \<noteq> None" for incoming existing
    using that by (cases "?ex incoming") (auto intro!: wf_merge_owner_refs dest: wf_json_array_at)
qed

interpretation finalizers: json_policy "preserve_finalizers_for_stale_put api_version kind"
  "metadata_fields {''finalizers''}"
  for api_version kind
proof (rule metadata_array_policy)
  let ?ex = "array_at [''metadata'', ''finalizers'']"
  show "preserve_finalizers_for_stale_put api_version kind incoming existing = incoming \<or>
      (preserve_finalizers_for_stale_put api_version kind incoming existing =
        jmodify ''metadata'' (\<lambda>m. jput ''finalizers''
          (JArray (merge_finalizers (unwrap_or (array_at [''finalizers''] m) []) (the (?ex existing)))) m) incoming
      \<and> ?ex existing \<noteq> None)" for incoming existing
    by (simp add: preserve_finalizers_for_stale_put_def split: option.split)
  show "list_all wf_json (merge_finalizers (unwrap_or (array_at [''finalizers''] m) []) (the (?ex existing)))"
    if "wf_json existing" "?ex existing \<noteq> None" "wf_json m" for existing m
    using that
    by (cases "array_at [''finalizers''] m")
      (auto simp: list_all_iff set_merge_finalizers unwrap_or_def dest!: wf_json_array_at)
qed

lemma wf_json_object_snd: "wf_json v \<Longrightarrow> Option.bind (pointer ts v) as_object = Some m \<Longrightarrow> (k, x) \<in> set m \<Longrightarrow> wf_json x"
proof -
  assume "wf_json v" and "Option.bind (pointer ts v) as_object = Some m" and "(k, x) \<in> set m"
  then have "wf_json (JObject m)"
    by (cases "pointer ts v") (auto dest: wf_json_pointer simp del: wf_json.simps)
  with \<open>(k, x) \<in> set m\<close> show ?thesis
    by (rule wf_json_snd [rotated])
qed

interpretation storage_field: json_policy "merge_missing_metadata_map_entries field" "metadata_fields {field}"
  for field
proof
  fix incoming existing :: json and k l :: string
  let ?r = "merge_missing_metadata_map_entries field incoming existing"
  let ?step = "\<lambda>es m. jmodify field (add_missing_entries es) (jentry field (JObject []) m)"
  have r: "?r = incoming \<or> (\<exists>es. Option.bind (pointer [''metadata'', field] existing) as_object = Some es \<and>
      ?r = jmodify ''metadata'' (?step es) incoming)"
    by (simp add: merge_missing_metadata_map_entries_def del: pointer.simps split: option.split)
  then show "is_object ?r = is_object incoming"
    by auto
  show "wf_json ?r" if docs: "wf_json incoming" "wf_json existing"
  proof (cases "?r = incoming")
    case False
    then obtain es where es: "Option.bind (pointer [''metadata'', field] existing) as_object = Some es"
      and r': "?r = jmodify ''metadata'' (?step es) incoming"
      using r by blast
    have "wf_json (?step es m)" if "wf_json m" for m
      using that wf_json_object_snd [OF docs(2) es]
      by (intro wf_json_jmodify wf_json_jentry wf_json_add_missing wf_json_empty) blast+
    then show ?thesis
      unfolding r' by (rule wf_json_jmodify [OF docs(1)])
  qed (use docs in simp)
  show "pointer [k, l] ?r = pointer [k, l] incoming" if "\<not> metadata_fields {field} k l"
    using r that
    by (elim disjE exE conjE)
      (auto simp: metadata_fields_def pointer_two bind_map_option comp_def simp del: pointer.simps)
  show "jget k ?r = jget k incoming" if "\<forall>l. \<not> metadata_fields {field} k l"
    using r that by (elim disjE exE conjE) (auto simp: metadata_fields_def)
qed

interpretation storage_fields: json_policy_seq "merge_missing_metadata_map_entries ''labels''"
  "merge_missing_metadata_map_entries ''annotations''"
  "metadata_fields {''labels''}" "metadata_fields {''annotations''}"
  ..

lemma metadata_fields_Un: "metadata_fields (F \<union> G) k l \<longleftrightarrow> metadata_fields F k l \<or> metadata_fields G k l"
  by (auto simp: metadata_fields_def)

lemma json_policy_none: "json_policy (\<lambda>incoming _. incoming) touches"
  by unfold_locales simp_all

interpretation storage_user_metadata: json_policy "preserve_storage_user_metadata_for_stale_put api_version kind"
  "\<lambda>k l. metadata_fields {''labels''} k l \<or> metadata_fields {''annotations''} k l"
  for api_version kind
proof (cases "api_version \<noteq> ''v1'' \<or> kind \<notin> {''PersistentVolume'', ''PersistentVolumeClaim''}")
  case True
  then have "preserve_storage_user_metadata_for_stale_put api_version kind = (\<lambda>incoming _. incoming)"
    by (simp add: fun_eq_iff preserve_storage_user_metadata_for_stale_put_def)
  then show "json_policy (preserve_storage_user_metadata_for_stale_put api_version kind)
      (\<lambda>k l. metadata_fields {''labels''} k l \<or> metadata_fields {''annotations''} k l)"
    by (simp add: json_policy_none)
next
  case False
  then have "preserve_storage_user_metadata_for_stale_put api_version kind =
      (\<lambda>incoming existing. merge_missing_metadata_map_entries ''annotations''
        (merge_missing_metadata_map_entries ''labels'' incoming existing) existing)"
    by (auto simp: fun_eq_iff preserve_storage_user_metadata_for_stale_put_def)
  then show "json_policy (preserve_storage_user_metadata_for_stale_put api_version kind)
      (\<lambda>k l. metadata_fields {''labels''} k l \<or> metadata_fields {''annotations''} k l)"
    using storage_fields.seq_policy by simp
qed

lemma json_policy_then:
  "json_policy f F \<Longrightarrow> json_policy g G \<Longrightarrow>
    json_policy (\<lambda>incoming existing. g (f incoming existing) existing) (\<lambda>k l. F k l \<or> G k l)"
  by (rule json_policy_seq.seq_policy [OF json_policy_seq.intro])

definition actor_owned :: "string \<Rightarrow> string \<Rightarrow> bool"
where
  "actor_owned k l \<longleftrightarrow>
    k = ''status'' \<or> (k = ''spec'' \<and> l = ''nodeName'')
    \<or> (k = ''metadata'' \<and> l \<in> {''ownerReferences'', ''labels'', ''annotations'', ''finalizers''})"

interpretation stale_policy: json_policy "apply_same_uid_stale_full_resource_policy api_version kind" actor_owned
  for api_version kind
proof -
  note composed = json_policy_then [OF json_policy_then [OF json_policy_then [OF json_policy_then [OF json_policy_then
    [OF pod_node.json_policy_axioms pod_status.json_policy_axioms] pod_scheduled.json_policy_axioms]
    pod_owner_refs.json_policy_axioms] storage_user_metadata.json_policy_axioms] finalizers.json_policy_axioms,
    of api_version kind]
  have touched: "(\<lambda>k l. (((((spec_node k l \<or> whole_status k l) \<or> whole_status k l) \<or> metadata_fields {''ownerReferences''} k l)
      \<or> metadata_fields {''labels''} k l \<or> metadata_fields {''annotations''} k l) \<or> metadata_fields {''finalizers''} k l))
    = actor_owned"
    by (auto simp: fun_eq_iff actor_owned_def spec_node_def whole_status_def metadata_fields_def)
  show "json_policy (apply_same_uid_stale_full_resource_policy api_version kind) actor_owned"
    using composed [of api_version kind api_version kind api_version kind api_version kind api_version kind]
    unfolding touched by (simp add: apply_same_uid_stale_full_resource_policy_def [abs_def] Let_def)
qed


section \<open>What each helper achieves\<close>

lemma str_at_cong: "pointer ts v = pointer ts w \<Longrightarrow> str_at ts v = str_at ts w"
  by (simp add: str_at_def)

lemma array_at_cong: "pointer ts v = pointer ts w \<Longrightarrow> array_at ts v = array_at ts w"
  by (simp add: array_at_def)

lemma pod_node_bound:
  assumes "is_pod api_version kind" and "is_object incoming"
    and "\<And>spec. jget ''spec'' incoming = Some spec \<Longrightarrow> is_object spec"
    and "str_at [''spec'', ''nodeName''] existing = Some node" and "node \<noteq> []"
  shows "str_at [''spec'', ''nodeName''] (preserve_pod_node_for_stale_put api_version kind incoming existing) = Some node"
proof -
  have node: "nonempty_str (str_at [''spec'', ''nodeName''] existing) = Some node"
    using assms(4,5) by (simp add: nonempty_str_def)
  show ?thesis
  proof (cases "nonempty_str (str_at [''spec'', ''nodeName''] incoming) = Some node")
    case True
    then have "str_at [''spec'', ''nodeName''] incoming = Some node"
      by (simp add: nonempty_str_def split: if_splits)
    with True show ?thesis
      by (simp add: preserve_pod_node_for_stale_put_def node)
  next
    case False
    then have "preserve_pod_node_for_stale_put api_version kind incoming existing =
        jmodify ''spec'' (jput ''nodeName'' (JString node)) (jentry ''spec'' (JObject []) incoming)"
      using assms(1) by (simp add: preserve_pod_node_for_stale_put_def node)
    then show ?thesis
      using assms(2,3) by (cases "jget ''spec'' incoming") (auto simp: str_at_def)
  qed
qed

lemma scheduled_condition_fields:
  "is_pod_scheduled (scheduled_condition existing) \<and> get_str ''status'' (scheduled_condition existing) = Some ''True''"
proof -
  have object: "is_object c" if "is_pod_scheduled c" for c
    using that by (cases c) (simp_all add: is_pod_scheduled_def get_str_def)
  let ?found = "Option.bind (array_at [''status'', ''conditions''] existing)
    (find (\<lambda>c. is_pod_scheduled c \<and> get_str ''status'' c = Some ''True''))"
  have "is_object c" if found: "?found = Some c" for c
    using found by (cases "array_at [''status'', ''conditions''] existing") (auto simp: find_Some_iff intro: object)
  moreover have "is_object default_scheduled"
    by (simp add: default_scheduled_def)
  ultimately have "is_object (case ?found of Some c \<Rightarrow> c | None \<Rightarrow> default_scheduled)"
    by (simp split: option.split)
  moreover have "is_pod_scheduled (jentry r x (jput ''status'' s (jput ''type'' (JString ''PodScheduled'') v)))
      \<and> get_str ''status'' (jentry r x (jput ''status'' (JString t) (jput ''type'' y v))) = Some t"
    if "is_object v" for r x s t y v
    using that by (simp add: is_pod_scheduled_def get_str_def)
  ultimately show ?thesis
    unfolding scheduled_condition_def Let_def by blast
qed

lemma replace_scheduled_conditions:
  "array_at [''conditions''] (replace_scheduled c status) =
    Some (filter (\<lambda>c. \<not> is_pod_scheduled c)
      (unwrap_or (array_at [''conditions''] (if is_object status then status else JObject [])) []) @ [c])"
  "jget ''nominatedNodeName'' (replace_scheduled c status) = None"
  by (simp_all add: replace_scheduled_def array_at_def Let_def)

definition only_scheduled :: "json list \<Rightarrow> bool"
where
  "only_scheduled conditions \<longleftrightarrow>
    length (filter is_pod_scheduled conditions) = 1
    \<and> list_all (\<lambda>c. is_pod_scheduled c \<longrightarrow> get_str ''status'' c = Some ''True'') conditions"

lemma pod_scheduled_true:
  assumes "is_pod api_version kind" and "is_object incoming"
    and "str_at [''spec'', ''nodeName''] incoming = Some node" and "\<not> is_blank node"
  shows "\<exists>status conditions.
      jget ''status'' (preserve_pod_scheduled_true_for_stale_bound_put api_version kind incoming existing) = Some status
      \<and> array_at [''conditions''] status = Some conditions \<and> only_scheduled conditions
      \<and> jget ''nominatedNodeName'' status = None"
proof -
  have "\<not> is_pod_scheduled c" if "c \<in> set (filter (\<lambda>c. \<not> is_pod_scheduled c) cs)" for c cs
    using that by simp
  then have "only_scheduled (filter (\<lambda>c. \<not> is_pod_scheduled c) cs @ [scheduled_condition existing])" for cs
    using scheduled_condition_fields [of existing]
    by (simp add: only_scheduled_def list_all_iff)
  then show ?thesis
    using assms
    by (simp add: preserve_pod_scheduled_true_for_stale_bound_put_def nonblank_str_def replace_scheduled_conditions)
qed

definition owner_identities :: "json \<Rightarrow> owner_reference_identity set"
where
  "owner_identities v =
    set (List.map_filter owner_reference_identity (unwrap_or (array_at [''metadata'', ''ownerReferences''] v) []))"

definition finalizers_of :: "json \<Rightarrow> json set"
  where "finalizers_of v = set (unwrap_or (array_at [''metadata'', ''finalizers''] v) [])"

lemma map_filter_append [simp]:
  "List.map_filter f (xs @ ys) = List.map_filter f xs @ List.map_filter f ys"
  by (simp add: List.map_filter_def)

lemma push_missing_identities:
  "set (List.map_filter owner_reference_identity merged) = ids \<Longrightarrow>
    set (List.map_filter owner_reference_identity (push_missing_owner_refs ids merged refs))
      = ids \<union> set (List.map_filter owner_reference_identity refs)"
proof (induction ids merged refs rule: push_missing_owner_refs.induct)
  case (2 ids merged r refs)
  show ?case
  proof (cases "owner_reference_identity r")
    case None
    then show ?thesis using 2 by (simp add: List.map_filter_simps)
  next
    case (Some i)
    show ?thesis
      using 2 Some by (cases "i \<in> ids") (auto simp: List.map_filter_simps)
  qed
qed (simp add: List.map_filter_simps)

lemma merge_owner_refs_identities:
  "set (List.map_filter owner_reference_identity (merge_owner_refs xs ys))
    = set (List.map_filter owner_reference_identity xs) \<union> set (List.map_filter owner_reference_identity ys)"
  by (simp add: merge_owner_refs_def push_missing_identities)

lemma array_at_metadata_put:
  assumes "jget ''metadata'' v = Some m" and "is_object m"
  shows "array_at [''metadata'', field] (jmodify ''metadata'' (\<lambda>m. jput field (JArray (xs m)) m) v) = Some (xs m)"
  using assms by (simp add: array_at_def)

lemma pod_owner_refs_identities:
  assumes "is_pod api_version kind" "jget ''metadata'' incoming = Some m" "is_object m"
    and "array_at [''metadata'', ''ownerReferences''] incoming \<noteq> Some []"
  shows "owner_identities (preserve_pod_owner_refs_for_stale_put api_version kind incoming existing)
    = owner_identities incoming \<union> owner_identities existing"
proof -
  note put = array_at_metadata_put [OF assms(2,3), of "''ownerReferences''"]
  show ?thesis
    using assms(1,4)
    by (auto simp: preserve_pod_owner_refs_for_stale_put_def owner_identities_def put unwrap_or_def
        merge_owner_refs_identities List.map_filter_simps split: option.splits)
qed

lemma storage_metadata_object:
  assumes "jget ''metadata'' incoming = Some m" "is_object m"
  shows "\<exists>m'. jget ''metadata'' (preserve_storage_user_metadata_for_stale_put api_version kind incoming existing) = Some m'
    \<and> is_object m'"
proof -
  have step: "\<exists>m'. jget ''metadata'' (merge_missing_metadata_map_entries field v existing) = Some m' \<and> is_object m'"
    if "jget ''metadata'' v = Some m" "is_object m" for field v m
    using that by (simp add: merge_missing_metadata_map_entries_def split: option.split)
  obtain m' where "jget ''metadata'' (merge_missing_metadata_map_entries ''labels'' incoming existing) = Some m'"
    and "is_object m'"
    using step [OF assms] by blast
  from step [OF this] show ?thesis
    using assms by (simp add: preserve_storage_user_metadata_for_stale_put_def)
qed

lemma finalizers_merged:
  assumes "\<not> is_pod api_version kind" "jget ''metadata'' incoming = Some m" "is_object m"
  shows "finalizers_of (preserve_finalizers_for_stale_put api_version kind incoming existing)
    = finalizers_of incoming \<union> finalizers_of existing"
proof -
  note put = array_at_metadata_put [OF assms(2,3), of "''finalizers''"]
  have "array_at [''metadata'', ''finalizers''] incoming = array_at [''finalizers''] m"
    using assms(2) by (simp add: array_at_def)
  then show ?thesis
    using assms(1)
    by (auto simp: preserve_finalizers_for_stale_put_def finalizers_of_def put unwrap_or_def
        set_merge_finalizers split: option.splits)
qed


section \<open>Properties\<close>

text \<open>A stale full write never changes anything it should not: the result is a well-formed object
  whose fields, other than the status, the Pod's node name and the owner references, labels,
  annotations and finalizers in the metadata, are those of the incoming document.\<close>

lemma stale_put_footprint:
  assumes "wf_json incoming" "wf_json existing" "is_object incoming"
  shows "wf_json (apply_same_uid_stale_full_resource_policy api_version kind incoming existing)
    \<and> is_object (apply_same_uid_stale_full_resource_policy api_version kind incoming existing)
    \<and> (\<not> actor_owned k l \<longrightarrow>
        pointer [k, l] (apply_same_uid_stale_full_resource_policy api_version kind incoming existing)
          = pointer [k, l] incoming)"
  using assms stale_policy.policy_wf stale_policy.policy_object stale_policy.policy_frame by blast

definition example_live_pod :: json
where
  "example_live_pod =
    JObject [(''metadata'', JObject [(''name'', JString ''web-0''),
                (''ownerReferences'', JArray [JObject [(''uid'', JString ''rs-1'')]])]),
             (''spec'', JObject [(''nodeName'', JString ''node-a'')])]"

definition example_stale_pod :: json
where
  "example_stale_pod =
    JObject [(''metadata'', JObject [(''name'', JString ''web-0''),
                (''ownerReferences'', JArray [JObject [(''uid'', JString ''rs-2'')]])]),
             (''spec'', JObject [(''image'', JString ''v2'')])]"

text \<open>C35: A stale full write never unbinds a Pod: if the stored Pod is bound to a node, the result is
  bound to the same node, is no longer nominated for another one, and has exactly one PodScheduled
  condition, which is true.\<close>

theorem stale_put_keeps_binding:
  assumes "is_pod api_version kind" "is_object incoming"
    and "\<And>spec. jget ''spec'' incoming = Some spec \<Longrightarrow> is_object spec"
    and "str_at [''spec'', ''nodeName''] existing = Some node" "\<not> is_blank node"
  shows "str_at [''spec'', ''nodeName''] (apply_same_uid_stale_full_resource_policy api_version kind incoming existing) = Some node
    \<and> (\<exists>status conditions.
        jget ''status'' (apply_same_uid_stale_full_resource_policy api_version kind incoming existing) = Some status
        \<and> array_at [''conditions''] status = Some conditions \<and> only_scheduled conditions
        \<and> jget ''nominatedNodeName'' status = None)"
proof -
  let ?d1 = "preserve_pod_node_for_stale_put api_version kind incoming existing"
  let ?d2 = "preserve_pod_status_for_stale_main_put api_version kind ?d1 existing"
  let ?d3 = "preserve_pod_scheduled_true_for_stale_bound_put api_version kind ?d2 existing"
  let ?d4 = "preserve_pod_owner_refs_for_stale_put api_version kind ?d3 existing"
  have policy: "apply_same_uid_stale_full_resource_policy api_version kind incoming existing = ?d4"
    using assms(1)
    by (simp add: apply_same_uid_stale_full_resource_policy_def preserve_storage_user_metadata_for_stale_put_def
        preserve_finalizers_for_stale_put_def is_pod_def)
  have "node \<noteq> []" using assms(5) by auto
  then have "str_at [''spec'', ''nodeName''] ?d1 = Some node"
    using assms by (intro pod_node_bound)
  then have d2: "str_at [''spec'', ''nodeName''] ?d2 = Some node"
    using str_at_cong [OF pod_status.policy_frame [of "''spec''" "''nodeName''"]] by (simp add: whole_status_def)
  have "str_at [''spec'', ''nodeName''] ?d4 = Some node"
    using d2 str_at_cong [OF pod_scheduled.policy_frame [of "''spec''" "''nodeName''"]]
      str_at_cong [OF pod_owner_refs.policy_frame [of "''spec''" "''nodeName''"]]
    by (simp add: whole_status_def metadata_fields_def)
  moreover have "jget ''status'' ?d4 = jget ''status'' ?d3"
    by (rule pod_owner_refs.policy_frame_top) (simp add: metadata_fields_def)
  moreover have "is_object ?d2"
    using assms(2) by (simp add: pod_node.policy_object pod_status.policy_object)
  ultimately show ?thesis
    unfolding policy using pod_scheduled_true [OF assms(1) _ d2 assms(5)] by simp
qed

theorem stale_put_keeps_binding_witness:
  "str_at [''spec'', ''nodeName''] (apply_same_uid_stale_full_resource_policy ''v1'' ''Pod'' example_stale_pod example_live_pod)
    = Some ''node-a''"
proof -
  have "\<not> is_blank ''node-a''"
    by (simp add: whitespace_len_def)
  moreover have "str_at [''spec'', ''nodeName''] example_live_pod = Some ''node-a''"
    by (simp add: example_live_pod_def str_at_def)
  moreover have "is_object spec" if "jget ''spec'' example_stale_pod = Some spec" for spec
    using that by (auto simp: example_stale_pod_def)
  moreover have "is_pod ''v1'' ''Pod''" "is_object example_stale_pod"
    by (simp_all add: is_pod_def example_stale_pod_def)
  ultimately show ?thesis
    using stale_put_keeps_binding [of "''v1''" "''Pod''" example_stale_pod example_live_pod "''node-a''"] by blast
qed

text \<open>C36: What a stale full write leaves of the references of an object.  For every kind but Pod the finalizers
  are those of both documents.  A Pod has the finalizers of the write, which may drain them, and the
  owners of both documents, except that a write with an explicitly empty list of owner
  references leaves no owner.\<close>

theorem stale_put_references_exact:
  assumes "jget ''metadata'' incoming = Some m" "is_object m"
  shows "(\<not> is_pod api_version kind \<longrightarrow>
      finalizers_of (apply_same_uid_stale_full_resource_policy api_version kind incoming existing)
        = finalizers_of incoming \<union> finalizers_of existing)
    \<and> (is_pod api_version kind \<longrightarrow>
      finalizers_of (apply_same_uid_stale_full_resource_policy api_version kind incoming existing)
        = finalizers_of incoming)
    \<and> (is_pod api_version kind \<longrightarrow>
      owner_identities (apply_same_uid_stale_full_resource_policy api_version kind incoming existing)
        = (if array_at [''metadata'', ''ownerReferences''] incoming = Some [] then {}
           else owner_identities incoming \<union> owner_identities existing))"
proof (intro conjI impI)
  let ?d = "apply_same_uid_stale_full_resource_policy api_version kind incoming existing"
  assume other: "\<not> is_pod api_version kind"
  let ?d5 = "preserve_storage_user_metadata_for_stale_put api_version kind incoming existing"
  have "?d = preserve_finalizers_for_stale_put api_version kind ?d5 existing"
    using other
    by (simp add: apply_same_uid_stale_full_resource_policy_def preserve_pod_node_for_stale_put_def
        preserve_pod_status_for_stale_main_put_def preserve_pod_scheduled_true_for_stale_bound_put_def
        preserve_pod_owner_refs_for_stale_put_def)
  moreover obtain m' where "jget ''metadata'' ?d5 = Some m'" "is_object m'"
    using storage_metadata_object [OF assms] by blast
  moreover have "finalizers_of ?d5 = finalizers_of incoming"
    unfolding finalizers_of_def
    by (subst array_at_cong [OF storage_user_metadata.policy_frame]) (simp_all add: metadata_fields_def)
  ultimately show "finalizers_of ?d = finalizers_of incoming \<union> finalizers_of existing"
    using finalizers_merged [OF other] by simp
next
  let ?d = "apply_same_uid_stale_full_resource_policy api_version kind incoming existing"
  assume pod: "is_pod api_version kind"
  let ?d2 = "preserve_pod_status_for_stale_main_put api_version kind
    (preserve_pod_node_for_stale_put api_version kind incoming existing) existing"
  let ?d3 = "preserve_pod_scheduled_true_for_stale_bound_put api_version kind ?d2 existing"
  have policy: "?d = preserve_pod_owner_refs_for_stale_put api_version kind ?d3 existing"
    using pod
    by (simp add: apply_same_uid_stale_full_resource_policy_def preserve_storage_user_metadata_for_stale_put_def
        preserve_finalizers_for_stale_put_def is_pod_def)
  have "jget ''metadata'' ?d3 = jget ''metadata'' incoming"
    by (simp add: pod_scheduled.policy_frame_top pod_status.policy_frame_top pod_node.policy_frame_top
        whole_status_def spec_node_def)
  then have same: "array_at [''metadata'', k] ?d3 = array_at [''metadata'', k] incoming"
      and metadata: "jget ''metadata'' ?d3 = Some m" for k
    using assms(1) by (simp_all add: array_at_def)
  show "finalizers_of ?d = finalizers_of incoming"
    unfolding policy finalizers_of_def
    by (subst array_at_cong [OF pod_owner_refs.policy_frame])
      (simp_all add: metadata_fields_def same)
  show "owner_identities ?d = (if array_at [''metadata'', ''ownerReferences''] incoming = Some [] then {}
      else owner_identities incoming \<union> owner_identities existing)"
  proof (cases "array_at [''metadata'', ''ownerReferences''] incoming = Some []")
    case True
    then have "?d = ?d3"
      by (simp add: policy preserve_pod_owner_refs_for_stale_put_def same split: option.split)
    then show ?thesis
      using True by (simp add: owner_identities_def same List.map_filter_simps)
  next
    case False
    then show ?thesis
      using pod_owner_refs_identities [OF pod metadata assms(2), of existing]
      by (simp add: policy owner_identities_def same)
  qed
qed

theorem stale_put_references_exact_witness:
  "owner_identities (apply_same_uid_stale_full_resource_policy ''v1'' ''Pod'' example_stale_pod example_live_pod)
    = {OwnerUid ''rs-1'', OwnerUid ''rs-2''}"
proof -
  let ?m = "the (jget ''metadata'' example_stale_pod)"
  have "jget ''metadata'' example_stale_pod = Some ?m" "is_object ?m"
    by (simp_all add: example_stale_pod_def)
  moreover have "array_at [''metadata'', ''ownerReferences''] example_stale_pod \<noteq> Some []"
    by (simp add: example_stale_pod_def array_at_def)
  moreover have "owner_identities example_stale_pod = {OwnerUid ''rs-2''}"
    "owner_identities example_live_pod = {OwnerUid ''rs-1''}"
    by (simp_all add: owner_identities_def example_stale_pod_def example_live_pod_def array_at_def
        List.map_filter_simps owner_reference_identity_def get_str_def nonblank_str_def whitespace_len_def)
  ultimately show ?thesis
    using stale_put_references_exact [of example_stale_pod ?m "''v1''" "''Pod''" example_live_pod]
    by (auto simp: is_pod_def)
qed

end
