(* ===== verification/Pod_Status_Merge.thy ===== *)
theory Pod_Status_Merge
  imports Stale_Resource
begin

text \<open>
  The ownership policy for writes to a Pod's status (\<^verbatim>\<open>klights-types/src/pod_status_merge.rs\<close>): which
  writer may change which condition types and fields, and how a kubelet snapshot that arrives late
  is kept from undoing what was already observed.
\<close>

section \<open>Writers and what they own\<close>

datatype pod_status_owner = KubeletRuntime | SchedulerOwner | ApiStatusSubresource | ReplicatedApplyOwner

definition is_kubelet_lifecycle_condition :: "string \<Rightarrow> bool"
where
  "is_kubelet_lifecycle_condition t \<longleftrightarrow> t \<in> {''PodScheduled'', ''Initialized'', ''ContainersReady'', ''Ready''}"

definition is_scheduler_owned_condition :: "string \<Rightarrow> bool"
  where "is_scheduler_owned_condition t \<longleftrightarrow> t \<in> {''DisruptionTarget'', ''PodScheduled''}"

fun owns_condition_type :: "pod_status_owner \<Rightarrow> string \<Rightarrow> bool"
where
  "owns_condition_type KubeletRuntime t = is_kubelet_lifecycle_condition t"
| "owns_condition_type SchedulerOwner t = is_scheduler_owned_condition t"
| "owns_condition_type ApiStatusSubresource t = (\<not> is_scheduler_owned_condition t)"
| "owns_condition_type ReplicatedApplyOwner t = False"

definition preserves_terminal_runtime_state :: "pod_status_owner \<Rightarrow> bool"
  where "preserves_terminal_runtime_state owner \<longleftrightarrow> owner = KubeletRuntime"

definition preserves_omitted_network_status :: "pod_status_owner \<Rightarrow> bool"
  where "preserves_omitted_network_status owner \<longleftrightarrow> owner \<in> {KubeletRuntime, ReplicatedApplyOwner}"

fun rebuilds_status_field :: "pod_status_owner \<Rightarrow> string \<Rightarrow> bool"
where
  "rebuilds_status_field KubeletRuntime field = (field \<in> {''phase'', ''conditions'', ''containerStatuses''})"
| "rebuilds_status_field ApiStatusSubresource field = True"
| "rebuilds_status_field SchedulerOwner field = (field \<in> {''phase'', ''conditions''})"
| "rebuilds_status_field ReplicatedApplyOwner field = False"


section \<open>Phase and conditions\<close>

record pod_status_patch =
  psp_owner :: pod_status_owner
  psp_phase :: "string option"
  psp_conditions :: "json list"

definition patch_extract :: "pod_status_owner \<Rightarrow> json \<Rightarrow> pod_status_patch"
where
  "patch_extract owner incoming_status =
    \<lparr>psp_owner = owner, psp_phase = get_str ''phase'' incoming_status,
     psp_conditions = unwrap_or (array_at [''conditions''] incoming_status) []\<rparr>"

definition apply_phase :: "pod_status_patch \<Rightarrow> json \<Rightarrow> json"
where
  "apply_phase patch incoming_status =
    (case psp_phase patch of
       None \<Rightarrow> incoming_status
     | Some phase \<Rightarrow> jput ''phase'' (JString phase) incoming_status)"

abbreviation condition_type :: "json \<Rightarrow> string option"
  where "condition_type \<equiv> get_str ''type''"

text \<open>The loop that appends the conditions whose type is not there yet.\<close>

definition push_unmentioned :: "json list \<Rightarrow> json list \<Rightarrow> json list"
where
  "push_unmentioned =
    foldl (\<lambda>merged condition.
      case condition_type condition of
        None \<Rightarrow> merged
      | Some t \<Rightarrow>
          if list_ex (\<lambda>c. condition_type c = Some t) merged then merged else merged @ [condition])"

definition not_owned :: "pod_status_owner \<Rightarrow> json \<Rightarrow> bool"
where
  "not_owned owner condition =
    (case condition_type condition of Some t \<Rightarrow> \<not> owns_condition_type owner t | None \<Rightarrow> False)"

definition apply_conditions :: "pod_status_patch \<Rightarrow> json \<Rightarrow> json \<Rightarrow> json"
where
  "apply_conditions patch current incoming_status =
    (let preservable = filter (not_owned (psp_owner patch))
           (unwrap_or (array_at [''status'', ''conditions''] current) [])
     in if preservable = [] \<and> psp_conditions patch = [] \<and> jget ''conditions'' incoming_status = None
        then incoming_status
        else jput ''conditions'' (JArray (push_unmentioned (psp_conditions patch) preservable)) incoming_status)"

definition merge_owned_and_preserved_conditions ::
  "pod_status_owner \<Rightarrow> json list \<Rightarrow> json list \<Rightarrow> json list"
where
  "merge_owned_and_preserved_conditions owner owned_conditions existing_conditions =
    foldl (\<lambda>merged condition.
      case condition_type condition of
        None \<Rightarrow> merged
      | Some t \<Rightarrow>
          if owns_condition_type owner t then merged
          else if list_ex (\<lambda>c. condition_type c = Some t) merged then merged
          else merged @ [condition]) owned_conditions existing_conditions"


section \<open>Runtime state\<close>

definition same_container_incarnation :: "json \<Rightarrow> json \<Rightarrow> bool"
where
  "same_container_incarnation current incoming =
    (let current_id = unwrap_or (get_str ''containerID'' current) [];
         incoming_id = unwrap_or (get_str ''containerID'' incoming) []
     in if current_id = [] \<and> incoming_id = [] then True
        else current_id \<noteq> [] \<and> current_id = incoming_id)"

text \<open>The index of the current statuses by container name; the last status of a name counts.\<close>

definition statuses_by_name :: "json list \<Rightarrow> string \<rightharpoonup> json"
where
  "statuses_by_name statuses =
    map_of (rev (List.map_filter (\<lambda>s. map_option (\<lambda>n. (n, s)) (get_str ''name'' s)) statuses))"

definition has_named_status :: "json list \<Rightarrow> bool"
  where "has_named_status statuses \<longleftrightarrow> list_ex (\<lambda>s. get_str ''name'' s \<noteq> None) statuses"

definition names_known :: "json list \<Rightarrow> json \<Rightarrow> bool"
where
  "names_known current_statuses s =
    (case get_str ''name'' s of Some n \<Rightarrow> statuses_by_name current_statuses n \<noteq> None | None \<Rightarrow> False)"

definition shares_any_container :: "json list \<Rightarrow> json \<Rightarrow> bool"
where
  "shares_any_container current_statuses incoming_status =
    (case array_at [''containerStatuses''] incoming_status of
       Some statuses \<Rightarrow> list_ex (names_known current_statuses) statuses
     | None \<Rightarrow> False)"

definition is_terminal_phase :: "string option \<Rightarrow> bool"
  where "is_terminal_phase phase \<longleftrightarrow> phase \<in> {Some ''Succeeded'', Some ''Failed''}"

definition container_creating :: "json \<Rightarrow> bool"
  where "container_creating s \<longleftrightarrow> str_at [''state'', ''waiting'', ''reason''] s = Some ''ContainerCreating''"

definition restart_counts_differ :: "json \<Rightarrow> json \<Rightarrow> bool"
where
  "restart_counts_differ current incoming =
    (case (Option.bind (jget ''restartCount'' current) as_i64, Option.bind (jget ''restartCount'' incoming) as_i64) of
       (Some c, Some i) \<Rightarrow> c \<noteq> i
     | _ \<Rightarrow> False)"

definition preserve_container_state :: "json list \<Rightarrow> json \<Rightarrow> json"
where
  "preserve_container_state current_statuses incoming =
    (case Option.bind (get_str ''name'' incoming) (statuses_by_name current_statuses) of
       None \<Rightarrow> incoming
     | Some current \<Rightarrow>
         if \<not> same_container_incarnation current incoming then incoming
         else if restart_counts_differ current incoming then incoming
         else if \<not> container_creating incoming then incoming
         else if pointer [''state'', ''terminated''] current \<noteq> None \<or> pointer [''state'', ''running''] current \<noteq> None
         then (case jget ''state'' current of Some state \<Rightarrow> jput ''state'' state incoming | None \<Rightarrow> incoming)
         else incoming)"

definition preserve_terminal_or_confirmed_runtime_state :: "json \<Rightarrow> json \<Rightarrow> json"
where
  "preserve_terminal_or_confirmed_runtime_state current incoming_status =
    (let current_phase = str_at [''status'', ''phase''] current in
     case array_at [''status'', ''containerStatuses''] current of
       None \<Rightarrow> incoming_status
     | Some current_statuses \<Rightarrow>
         if \<not> has_named_status current_statuses then incoming_status
         else (case jget ''phase'' incoming_status of
                 None \<Rightarrow> incoming_status
               | Some incoming_phase \<Rightarrow>
                   if is_terminal_phase current_phase \<and> \<not> is_terminal_phase (as_str incoming_phase)
                     \<and> shares_any_container current_statuses incoming_status
                   then jput ''containerStatuses'' (JArray (filter (names_known current_statuses) current_statuses))
                          (case current_phase of
                             Some phase \<Rightarrow> jput ''phase'' (JString phase) incoming_status
                           | None \<Rightarrow> incoming_status)
                   else (case array_at [''containerStatuses''] incoming_status of
                           None \<Rightarrow> incoming_status
                         | Some incoming_statuses \<Rightarrow>
                             jput ''containerStatuses''
                               (JArray (map (preserve_container_state current_statuses) incoming_statuses))
                               incoming_status)))"


section \<open>Fields the writer did not mention\<close>

definition counts_as_omitted :: "json \<Rightarrow> bool"
  where "counts_as_omitted v \<longleftrightarrow> v = JString [] \<or> v = JArray []"

definition preserve_field :: "pod_status_owner \<Rightarrow> json \<Rightarrow> string \<times> json \<Rightarrow> json"
where
  "preserve_field owner incoming entry =
    (case entry of
       (key, value) \<Rightarrow>
         if key = ''conditions'' \<or> rebuilds_status_field owner key then incoming
         else (let incoming' =
                 (if preserves_omitted_network_status owner \<and> is_some_and (jget key incoming) counts_as_omitted
                  then jdel key incoming
                  else incoming)
               in if jget key incoming' = None then jput key value incoming' else incoming'))"

definition preserve_unmentioned_pod_status_fields :: "pod_status_owner \<Rightarrow> json \<Rightarrow> json \<Rightarrow> json"
where
  "preserve_unmentioned_pod_status_fields owner current incoming_status =
    (if \<not> is_object incoming_status then incoming_status
     else (case Option.bind (jget ''status'' current) as_object of
             None \<Rightarrow> incoming_status
           | Some current_obj \<Rightarrow> foldl (preserve_field owner) incoming_status current_obj))"

definition merge_pod_status_for_update ::
  "string \<Rightarrow> string \<Rightarrow> json \<Rightarrow> json \<Rightarrow> pod_status_owner \<Rightarrow> json"
where
  "merge_pod_status_for_update api_version kind current incoming_status owner =
    (if \<not> is_pod api_version kind then incoming_status
     else (let patch = patch_extract owner incoming_status;
               s1 = apply_phase patch incoming_status;
               s2 = apply_conditions patch current s1;
               s3 = (if preserves_terminal_runtime_state owner
                     then preserve_terminal_or_confirmed_runtime_state current s2 else s2)
           in preserve_unmentioned_pod_status_fields owner current s3))"


section \<open>Merging conditions by type\<close>

definition condition_types :: "json list \<Rightarrow> string set"
  where "condition_types cs = {t. t \<noteq> [] \<and> (\<exists>c \<in> set cs. condition_type c = Some t)}"

text \<open>The contract of a merge of a writer's conditions with the live ones: the writer may drop, by
  leaving them out, only condition types it replaces; and no condition is made up.\<close>

locale condition_merge =
  fixes merge :: "json list \<Rightarrow> json list \<Rightarrow> json list"
    and replaces :: "string \<Rightarrow> bool"
  assumes merge_types: "condition_types (merge incoming live) =
      condition_types incoming \<union> {t \<in> condition_types live. \<not> replaces t}"
    and merge_origin: "set (merge incoming live) \<subseteq> set incoming \<union> set live"
begin

lemma merge_keeps: "t \<in> condition_types live \<Longrightarrow> \<not> replaces t \<Longrightarrow> t \<in> condition_types (merge incoming live)"
  by (simp add: merge_types)

lemma merge_again: "condition_types (merge (merge incoming live) live) = condition_types (merge incoming live)"
  by (auto simp: merge_types)

lemma merge_wf: "list_all wf_json incoming \<Longrightarrow> list_all wf_json live \<Longrightarrow> list_all wf_json (merge incoming live)"
  using merge_origin [of incoming live] by (auto simp: list_all_iff)

end

lemma condition_types_append [simp]: "condition_types (xs @ ys) = condition_types xs \<union> condition_types ys"
  by (auto simp: condition_types_def)

lemma condition_types_Nil [simp]: "condition_types [] = {}"
  by (simp add: condition_types_def)

lemma condition_types_Cons:
  "condition_types (c # cs) = {t. t \<noteq> [] \<and> condition_type c = Some t} \<union> condition_types cs"
  by (auto simp: condition_types_def)

lemma push_unmentioned_simps:
  "push_unmentioned merged [] = merged"
  "push_unmentioned merged (c # cs) =
    push_unmentioned
      (case condition_type c of
         None \<Rightarrow> merged
       | Some t \<Rightarrow> if list_ex (\<lambda>c. condition_type c = Some t) merged then merged else merged @ [c]) cs"
  by (simp_all add: push_unmentioned_def)

lemma push_unmentioned_types:
  "condition_types (push_unmentioned merged cs) = condition_types merged \<union> condition_types cs"
proof (induction cs arbitrary: merged)
  case (Cons c cs)
  show ?case
  proof (cases "condition_type c")
    case None
    then show ?thesis
      using Cons by (simp add: push_unmentioned_simps condition_types_Cons)
  next
    case (Some t)
    have "t \<in> condition_types merged" if "list_ex (\<lambda>c. condition_type c = Some t) merged" "t \<noteq> []"
      using that by (auto simp: condition_types_def list_ex_iff)
    then show ?thesis
      using Cons Some by (auto simp: push_unmentioned_simps condition_types_Cons)
  qed
qed (simp add: push_unmentioned_simps)

lemma push_unmentioned_prefix: "\<exists>zs. push_unmentioned merged cs = merged @ zs \<and> set zs \<subseteq> set cs"
proof (induction cs arbitrary: merged)
  case (Cons c cs)
  show ?case
    using Cons [of merged] Cons [of "merged @ [c]"]
    by (auto simp: push_unmentioned_simps split: option.split)
qed (simp add: push_unmentioned_simps)

lemma filter_not_owned_types:
  "condition_types (filter (not_owned owner) cs) = {t \<in> condition_types cs. \<not> owns_condition_type owner t}"
  by (auto simp: condition_types_def not_owned_def split: option.splits)

definition merge_conditions :: "pod_status_owner \<Rightarrow> json list \<Rightarrow> json list \<Rightarrow> json list"
  where "merge_conditions owner incoming live = push_unmentioned incoming (filter (not_owned owner) live)"

interpretation pod_conditions: condition_merge "merge_conditions owner" "owns_condition_type owner"
  for owner
proof
  fix incoming live
  show "condition_types (merge_conditions owner incoming live) =
      condition_types incoming \<union> {t \<in> condition_types live. \<not> owns_condition_type owner t}"
    by (simp add: merge_conditions_def push_unmentioned_types filter_not_owned_types)
  show "set (merge_conditions owner incoming live) \<subseteq> set incoming \<union> set live"
    using push_unmentioned_prefix [of incoming "filter (not_owned owner) live"]
    by (auto simp: merge_conditions_def)
qed

text \<open>The entry point for writers that rebuild their conditions merges the same way.\<close>

lemma merge_owned_and_preserved_eq: "merge_owned_and_preserved_conditions owner = merge_conditions owner"
proof (intro ext)
  fix incoming live
  show "merge_owned_and_preserved_conditions owner incoming live = merge_conditions owner incoming live"
    unfolding merge_owned_and_preserved_conditions_def merge_conditions_def
    by (induction live arbitrary: incoming) (auto simp: push_unmentioned_simps not_owned_def split: option.split)
qed


section \<open>Fields of the merged status\<close>

lemma is_object_apply_phase [simp]: "is_object (apply_phase patch s) = is_object s"
  by (simp add: apply_phase_def split: option.split)

lemma jget_apply_phase: "k \<noteq> ''phase'' \<Longrightarrow> jget k (apply_phase patch s) = jget k s"
  by (simp add: apply_phase_def split: option.split)

lemma jget_apply_phase_extract: "jget k (apply_phase (patch_extract owner s) s) = jget k s"
  by (cases "get_str ''phase'' s")
    (auto simp: apply_phase_def patch_extract_def get_str_def bind_eq_Some_conv dest: jget_Some_is_object)

lemma is_object_apply_conditions [simp]: "is_object (apply_conditions patch current s) = is_object s"
  by (simp add: apply_conditions_def Let_def)

lemma jget_apply_conditions: "k \<noteq> ''conditions'' \<Longrightarrow> jget k (apply_conditions patch current s) = jget k s"
  by (simp add: apply_conditions_def Let_def)

lemma is_object_preserve_runtime [simp]:
  "is_object (preserve_terminal_or_confirmed_runtime_state current s) = is_object s"
  by (simp add: preserve_terminal_or_confirmed_runtime_state_def Let_def split: option.split)

lemma jget_preserve_runtime:
  "k \<noteq> ''phase'' \<Longrightarrow> k \<noteq> ''containerStatuses'' \<Longrightarrow>
    jget k (preserve_terminal_or_confirmed_runtime_state current s) = jget k s"
  by (simp add: preserve_terminal_or_confirmed_runtime_state_def Let_def split: option.split)

lemma is_object_preserve_field [simp]: "is_object (preserve_field owner s e) = is_object s"
  by (cases e) (simp add: preserve_field_def Let_def)

lemma is_object_preserve_fields [simp]: "is_object (foldl (preserve_field owner) s m) = is_object s"
  by (induction m arbitrary: s) simp_all

lemma is_object_preserve_unmentioned [simp]:
  "is_object (preserve_unmentioned_pod_status_fields owner current s) = is_object s"
  by (simp add: preserve_unmentioned_pod_status_fields_def split: option.split)

text \<open>What a field that the writer may not drop becomes, given the live value.\<close>

definition kept_value :: "pod_status_owner \<Rightarrow> json option \<Rightarrow> json \<Rightarrow> json"
where
  "kept_value owner incoming live =
    (case incoming of
       Some v \<Rightarrow> if preserves_omitted_network_status owner \<and> counts_as_omitted v then live else v
     | None \<Rightarrow> live)"

definition may_drop_field :: "pod_status_owner \<Rightarrow> string \<Rightarrow> bool"
  where "may_drop_field owner k \<longleftrightarrow> k = ''conditions'' \<or> rebuilds_status_field owner k"

lemma jget_preserve_field:
  "is_object s \<Longrightarrow> jget k (preserve_field owner s (k', v)) =
    (if k = k' \<and> \<not> may_drop_field owner k then Some (kept_value owner (jget k s) v) else jget k s)"
  by (auto simp: preserve_field_def may_drop_field_def kept_value_def is_some_and_def Let_def split: option.split)

lemma jget_preserve_fields:
  "is_object s \<Longrightarrow> distinct (map fst m) \<Longrightarrow>
    jget k (foldl (preserve_field owner) s m) =
      (case map_of m k of
         Some v \<Rightarrow> if may_drop_field owner k then jget k s else Some (kept_value owner (jget k s) v)
       | None \<Rightarrow> jget k s)"
proof (induction m arbitrary: s)
  case (Cons e m)
  obtain k' v where e: "e = (k', v)" by fastforce
  have "map_of m k' = None"
    using Cons.prems by (auto simp: e map_of_eq_None_iff)
  then show ?case
    using Cons by (simp add: e jget_preserve_field split: option.split)
qed simp

definition live_field :: "json \<Rightarrow> string \<Rightarrow> json option"
  where "live_field current k = pointer [''status'', k] current"

lemma jget_preserve_unmentioned:
  assumes "is_object s" "wf_json current"
  shows "jget k (preserve_unmentioned_pod_status_fields owner current s) =
    (case live_field current k of
       Some v \<Rightarrow> if may_drop_field owner k then jget k s else Some (kept_value owner (jget k s) v)
     | None \<Rightarrow> jget k s)"
proof (cases "Option.bind (jget ''status'' current) as_object")
  case None
  then have "live_field current k = None"
    by (cases "jget ''status'' current") (auto simp: live_field_def as_object_None_iff)
  then show ?thesis
    using assms None by (simp add: preserve_unmentioned_pod_status_fields_def)
next
  case (Some m)
  then have status: "jget ''status'' current = Some (JObject m)"
    by (cases "jget ''status'' current") simp_all
  then have "wf_json (JObject m)"
    using assms(2) by (rule wf_json_jget [rotated])
  then have "distinct (map fst m)"
    by (simp add: om_wf_def strict_sorted_iff)
  then show ?thesis
    using assms(1) by (simp add: preserve_unmentioned_pod_status_fields_def Some jget_preserve_fields live_field_def status split: option.split)
qed

lemma jget_preserve_unmentioned_dropped:
  assumes "may_drop_field owner k"
  shows "jget k (preserve_unmentioned_pod_status_fields owner current s) = jget k s"
proof -
  have "jget k (foldl (preserve_field owner) s m) = jget k s" if "is_object s" for m s
    using that assms
  proof (induction m arbitrary: s)
    case (Cons e m)
    then show ?case by (cases e) (simp add: jget_preserve_field)
  qed simp
  then show ?thesis
    by (simp add: preserve_unmentioned_pod_status_fields_def split: option.split)
qed

lemma may_drop_conditions [simp]: "may_drop_field owner ''conditions''"
  by (simp add: may_drop_field_def)

lemma array_at_one: "array_at [k] v = Option.bind (jget k v) as_array"
  by (simp add: array_at_def split: option.split)

lemma merged_conditions:
  assumes "is_pod api_version kind" "is_object incoming"
  shows "unwrap_or (array_at [''conditions''] (merge_pod_status_for_update api_version kind current incoming owner)) []
    = merge_conditions owner (unwrap_or (array_at [''conditions''] incoming) [])
        (unwrap_or (array_at [''status'', ''conditions''] current) [])"
proof -
  let ?patch = "patch_extract owner incoming"
  let ?s2 = "apply_conditions ?patch current (apply_phase ?patch incoming)"
  have "jget ''conditions'' (merge_pod_status_for_update api_version kind current incoming owner) = jget ''conditions'' ?s2"
    using assms by (simp add: merge_pod_status_for_update_def Let_def jget_preserve_unmentioned_dropped jget_preserve_runtime)
  moreover have "unwrap_or (array_at [''conditions''] ?s2) [] =
      merge_conditions owner (unwrap_or (array_at [''conditions''] incoming) [])
        (unwrap_or (array_at [''status'', ''conditions''] current) [])"
  proof (cases "apply_conditions ?patch current (apply_phase ?patch incoming) = apply_phase ?patch incoming
      \<and> filter (not_owned owner) (unwrap_or (array_at [''status'', ''conditions''] current) []) = []
      \<and> psp_conditions ?patch = []")
    case True
    then show ?thesis
      by (simp add: array_at_one jget_apply_phase_extract)
        (simp add: merge_conditions_def push_unmentioned_simps patch_extract_def array_at_one)
  next
    case False
    then have "?s2 = jput ''conditions'' (JArray (merge_conditions owner (psp_conditions ?patch)
        (unwrap_or (array_at [''status'', ''conditions''] current) []))) (apply_phase ?patch incoming)"
      by (auto simp: apply_conditions_def merge_conditions_def patch_extract_def Let_def)
    then show ?thesis
      using assms(2) by (simp add: array_at_one patch_extract_def unwrap_or_def)
  qed
  ultimately show ?thesis
    by (simp add: array_at_one)
qed

lemma other_fields_until_preserve:
  assumes "k \<notin> {''phase'', ''conditions'', ''containerStatuses''}"
  shows "jget k (if b then preserve_terminal_or_confirmed_runtime_state current
      (apply_conditions patch current (apply_phase patch s)) else apply_conditions patch current (apply_phase patch s))
    = jget k s"
  using assms by (simp add: jget_preserve_runtime jget_apply_conditions jget_apply_phase)


subsection \<open>Container states\<close>










section \<open>Properties\<close>

text \<open>The live Pod after a sequence of status writes, each merged into the status before it.\<close>

definition live_conditions :: "json \<Rightarrow> json list"
  where "live_conditions pod = unwrap_or (array_at [''status'', ''conditions''] pod) []"

definition write_status :: "json \<Rightarrow> pod_status_owner \<times> json \<Rightarrow> json"
where
  "write_status pod write =
    jput ''status'' (merge_pod_status_for_update ''v1'' ''Pod'' pod (snd write) (fst write)) pod"

lemma write_status_conditions:
  assumes "is_object pod" "is_object (snd write)"
  shows "live_conditions (write_status pod write)
    = merge_conditions (fst write) (unwrap_or (array_at [''conditions''] (snd write)) []) (live_conditions pod)"
  using assms merged_conditions [of "''v1''" "''Pod''" "snd write" pod "fst write"]
  by (simp add: live_conditions_def write_status_def array_at_def is_pod_def)

text \<open>C30: A condition survives every sequence of status writes by writers that do not own its type,
  whatever those writers send: if the live Pod has a condition of the type before, it has one after.\<close>

theorem foreign_conditions_survive:
  assumes "is_object pod" "t \<in> condition_types (live_conditions pod)"
    and "list_all (\<lambda>(owner, incoming). is_object incoming \<and> \<not> owns_condition_type owner t) writes"
  shows "t \<in> condition_types (live_conditions (foldl write_status pod writes))"
  using assms
proof (induction writes arbitrary: pod)
  case (Cons w writes)
  have "t \<in> condition_types (live_conditions (write_status pod w))"
    using Cons.prems by (auto simp: write_status_conditions split_beta intro: pod_conditions.merge_keeps)
  moreover have "is_object (write_status pod w)"
    using Cons.prems by (simp add: write_status_def)
  ultimately show ?case
    using Cons by simp
qed simp

definition example_pod :: json
where
  "example_pod = JObject [(''status'', JObject [(''conditions'',
      JArray [JObject [(''type'', JString ''DisruptionTarget'')]])])]"

theorem foreign_conditions_survive_witness:
  "''DisruptionTarget'' \<in> condition_types (live_conditions (foldl write_status example_pod
      [(KubeletRuntime, JObject [(''phase'', JString ''Running'')]), (ReplicatedApplyOwner, JObject [])]))"
  by (rule foreign_conditions_survive)
    (simp_all add: example_pod_def live_conditions_def array_at_def condition_types_def get_str_def unwrap_or_def
      is_kubelet_lifecycle_condition_def)

text \<open>C32: Every status field other than phase, conditions and container statuses comes out as the
  ownership policy says: a field the writer rebuilds, or that the live status does not have, is
  exactly what the writer sent; any other field keeps the value the writer sent, or the live one if
  the writer left it out (a kubelet or replicated write also by sending an empty string or array).\<close>

theorem pod_status_fields_exact:
  assumes "is_pod api_version kind" "is_object incoming" "wf_json current"
    and "k \<notin> {''phase'', ''conditions'', ''containerStatuses''}"
  shows "jget k (merge_pod_status_for_update api_version kind current incoming owner) =
    (case live_field current k of
       Some live \<Rightarrow>
         if rebuilds_status_field owner k then jget k incoming
         else Some (kept_value owner (jget k incoming) live)
     | None \<Rightarrow> jget k incoming)"
proof -
  let ?patch = "patch_extract owner incoming"
  let ?s2 = "apply_conditions ?patch current (apply_phase ?patch incoming)"
  define s3 where "s3 = (if preserves_terminal_runtime_state owner
    then preserve_terminal_or_confirmed_runtime_state current ?s2 else ?s2)"
  have "merge_pod_status_for_update api_version kind current incoming owner
      = preserve_unmentioned_pod_status_fields owner current s3"
    using assms(1) by (simp add: merge_pod_status_for_update_def Let_def s3_def)
  moreover have "is_object s3"
    using assms(2) by (simp add: s3_def)
  moreover have "jget k s3 = jget k incoming"
    unfolding s3_def using assms(4) by (rule other_fields_until_preserve)
  ultimately show ?thesis
    using assms(4) by (simp add: jget_preserve_unmentioned [OF _ assms(3)] may_drop_field_def split: option.split)
qed

theorem pod_status_fields_exact_witness:
  "jget ''podIP'' (merge_pod_status_for_update ''v1'' ''Pod''
      (JObject [(''status'', JObject [(''podIP'', JString ''10.0.0.7'')])])
      (JObject [(''podIP'', JString [])]) KubeletRuntime) = Some (JString ''10.0.0.7'')"
  using pod_status_fields_exact [of "''v1''" "''Pod''" "JObject [(''podIP'', JString [])]"
      "JObject [(''status'', JObject [(''podIP'', JString ''10.0.0.7'')])]" "''podIP''" KubeletRuntime]
  by (simp add: is_pod_def live_field_def kept_value_def preserves_omitted_network_status_def counts_as_omitted_def)









end
