(* ===== verification/Status_Merge.thy ===== *)
theory Status_Merge
  imports Pod_Status_Merge
begin

text \<open>
  The per-kind policy that merges a status write into the live object
  (\<^verbatim>\<open>klights-cluster-core/src/status.rs\<close>): the registry of profiles, the generic merges, the Node
  merge with its pair of network conditions, and the delegation to the Pod policy.

  Time stamps are compared after \<^verbatim>\<open>chrono::DateTime::parse_from_rfc3339\<close>; that function is the
  parameter \<^verbatim>\<open>rfc3339\<close>, which yields the instant a text denotes, if it denotes one.
\<close>

section \<open>Policies and their registry\<close>

datatype status_apply_freshness = Fresh | Stale

datatype status_apply_origin = FromReplicatedApply | FromKubeletOutbox | FromApiSubresource

datatype condition_merge_mode =
    ConditionsReplaceAll | PreserveUnmentionedByType | PreserveLiveByType | MergeByNewestTransitionTime

datatype field_merge_mode = FieldsReplaceAll | PreserveUnmentioned | PreserveLive

datatype generic_stale_status_mode =
    UseLiveStatus
  | MergeStatus condition_merge_mode field_merge_mode

datatype fresh_status_mode = FreshReplace | FreshMerge

record generic_status_merge_policy =
  gsp_terminal_condition_types :: "string list"
  gsp_fresh_mode :: fresh_status_mode
  gsp_stale_mode :: generic_stale_status_mode

datatype status_merge_profile_kind = PodTyped | NodeTyped | GenericProfile generic_status_merge_policy

definition status_profile :: "string \<Rightarrow> string \<Rightarrow> status_merge_profile_kind"
where
  "status_profile api_version kind =
    (if (api_version, kind) = (''v1'', ''Pod'') then PodTyped
     else if (api_version, kind) = (''v1'', ''Node'') then NodeTyped
     else if (api_version, kind) = (''batch/v1'', ''Job'')
     then GenericProfile \<lparr>gsp_terminal_condition_types = [''Complete'', ''Failed''], gsp_fresh_mode = FreshReplace,
            gsp_stale_mode = MergeStatus MergeByNewestTransitionTime PreserveUnmentioned\<rparr>
     else if (api_version, kind) = (''batch/v1'', ''CronJob'')
     then GenericProfile \<lparr>gsp_terminal_condition_types = [], gsp_fresh_mode = FreshReplace,
            gsp_stale_mode = MergeStatus PreserveUnmentionedByType PreserveUnmentioned\<rparr>
     else if (api_version, kind) = (''policy/v1'', ''PodDisruptionBudget'')
     then GenericProfile \<lparr>gsp_terminal_condition_types = [], gsp_fresh_mode = FreshReplace,
            gsp_stale_mode = MergeStatus PreserveUnmentionedByType PreserveUnmentioned\<rparr>
     else if (api_version, kind) \<in> {(''v1'', ''PersistentVolume''), (''v1'', ''PersistentVolumeClaim'')}
     then GenericProfile \<lparr>gsp_terminal_condition_types = [], gsp_fresh_mode = FreshReplace,
            gsp_stale_mode = MergeStatus PreserveLiveByType PreserveLive\<rparr>
     else if (api_version, kind) \<in> {(''apps/v1'', ''ReplicaSet''), (''apps/v1'', ''Deployment''),
                (''apps/v1'', ''StatefulSet''), (''apps/v1'', ''DaemonSet'')}
     then GenericProfile \<lparr>gsp_terminal_condition_types = [], gsp_fresh_mode = FreshReplace,
            gsp_stale_mode = MergeStatus PreserveUnmentionedByType PreserveUnmentioned\<rparr>
     else if (api_version, kind) = (''v1'', ''Service'')
     then GenericProfile \<lparr>gsp_terminal_condition_types = [], gsp_fresh_mode = FreshMerge,
            gsp_stale_mode = MergeStatus PreserveUnmentionedByType PreserveUnmentioned\<rparr>
     else GenericProfile \<lparr>gsp_terminal_condition_types = [], gsp_fresh_mode = FreshReplace,
            gsp_stale_mode = UseLiveStatus\<rparr>)"


section \<open>Generic merges\<close>

definition live_has_terminal_condition :: "json \<Rightarrow> string list \<Rightarrow> bool"
where
  "live_has_terminal_condition live_resource terminal_types =
    (case array_at [''status'', ''conditions''] live_resource of
       Some conditions \<Rightarrow>
         list_ex (\<lambda>c. is_some_and (condition_type c) (\<lambda>t. t \<in> set terminal_types)
           \<and> get_str ''status'' c = Some ''True'') conditions
     | None \<Rightarrow> False)"

abbreviation nonempty_type :: "json \<Rightarrow> string option"
  where "nonempty_type c \<equiv> nonempty_str (condition_type c)"

definition condition_last_transition_time :: "(string \<Rightarrow> int option) \<Rightarrow> json \<Rightarrow> int option"
where
  "condition_last_transition_time rfc3339 condition = Option.bind (get_str ''lastTransitionTime'' condition) rfc3339"

definition live_condition_is_newer :: "(string \<Rightarrow> int option) \<Rightarrow> json \<Rightarrow> json \<Rightarrow> bool"
where
  "live_condition_is_newer rfc3339 live incoming =
    (case (condition_last_transition_time rfc3339 live, condition_last_transition_time rfc3339 incoming) of
       (Some l, Some i) \<Rightarrow> l > i
     | (Some _, None) \<Rightarrow> True
     | _ \<Rightarrow> False)"

definition first_live_conditions_by_type :: "json list \<Rightarrow> string \<rightharpoonup> json"
where
  "first_live_conditions_by_type live =
    map_of (List.map_filter (\<lambda>c. map_option (\<lambda>t. (t, c)) (nonempty_type c)) live)"

text \<open>The last loop of the three condition merges: append the live conditions of types not seen.\<close>

fun push_unseen :: "string set \<Rightarrow> json list \<Rightarrow> json list \<Rightarrow> json list"
where
  "push_unseen seen merged [] = merged"
| "push_unseen seen merged (c # cs) =
    (case nonempty_type c of
       None \<Rightarrow> push_unseen seen merged cs
     | Some t \<Rightarrow>
         if t \<in> seen then push_unseen seen merged cs
         else push_unseen (insert t seen) (merged @ [c]) cs)"

definition types_of :: "json list \<Rightarrow> string set"
  where "types_of cs = set (List.map_filter (\<lambda>c. nonempty_type c) cs)"

text \<open>The guards the three condition merges share: they run on a non-empty array of live conditions
  and an array of incoming ones, which is created if absent.\<close>

definition with_conditions :: "(json list \<Rightarrow> json list \<Rightarrow> json list) \<Rightarrow> json \<Rightarrow> json \<Rightarrow> json"
where
  "with_conditions merge live_resource incoming_status =
    (case array_at [''status'', ''conditions''] live_resource of
       None \<Rightarrow> incoming_status
     | Some live \<Rightarrow>
         if live = [] then incoming_status
         else jmodify ''conditions''
                (\<lambda>v. case as_array v of Some incoming \<Rightarrow> JArray (merge incoming live) | None \<Rightarrow> v)
                (jentry ''conditions'' (JArray []) incoming_status))"

definition newest_conditions :: "(string \<Rightarrow> int option) \<Rightarrow> json list \<Rightarrow> json list \<Rightarrow> json list"
where
  "newest_conditions rfc3339 incoming live =
    push_unseen (types_of incoming)
      (map (\<lambda>c. case Option.bind (nonempty_type c) (first_live_conditions_by_type live) of
                  Some l \<Rightarrow> if live_condition_is_newer rfc3339 l c then l else c
                | None \<Rightarrow> c) incoming) live"

definition merge_conditions_by_newest_transition_time :: "(string \<Rightarrow> int option) \<Rightarrow> json \<Rightarrow> json \<Rightarrow> json"
where
  "merge_conditions_by_newest_transition_time rfc3339 = with_conditions (newest_conditions rfc3339)"

definition unmentioned_conditions :: "json list \<Rightarrow> json list \<Rightarrow> json list"
  where "unmentioned_conditions incoming live = push_unseen (types_of incoming) incoming live"

definition preserve_unmentioned_live_status_conditions_by_type :: "json \<Rightarrow> json \<Rightarrow> json"
where
  "preserve_unmentioned_live_status_conditions_by_type = with_conditions unmentioned_conditions"

definition live_conditions_first :: "json list \<Rightarrow> json list \<Rightarrow> json list"
where
  "live_conditions_first incoming live =
    push_unseen (types_of incoming)
      (map (\<lambda>c. case Option.bind (nonempty_type c) (first_live_conditions_by_type live) of
                  Some l \<Rightarrow> l
                | None \<Rightarrow> c) incoming) live"

definition preserve_live_status_conditions_by_type :: "json \<Rightarrow> json \<Rightarrow> json"
  where "preserve_live_status_conditions_by_type = with_conditions live_conditions_first"

definition preserve_live_status_authoritatively :: "json \<Rightarrow> json \<Rightarrow> json"
where
  "preserve_live_status_authoritatively live_resource incoming_status =
    unwrap_or (jget ''status'' live_resource) incoming_status"

definition preserve_unmentioned_live_status_fields :: "json \<Rightarrow> json \<Rightarrow> json"
where
  "preserve_unmentioned_live_status_fields live_resource incoming_status =
    (case Option.bind (jget ''status'' live_resource) as_object of
       None \<Rightarrow> incoming_status
     | Some live_status \<Rightarrow> add_missing_entries live_status incoming_status)"

definition preserve_live_status_fields :: "json \<Rightarrow> json \<Rightarrow> json"
where
  "preserve_live_status_fields live_resource incoming_status =
    (case Option.bind (jget ''status'' live_resource) as_object of
       None \<Rightarrow> incoming_status
     | Some live_status \<Rightarrow>
         foldl (\<lambda>v (key, value). if key = ''conditions'' then v else jput key value v) incoming_status live_status)"

definition merge_generic_status ::
  "(string \<Rightarrow> int option) \<Rightarrow> generic_status_merge_policy \<Rightarrow> json \<Rightarrow> json \<Rightarrow> json"
where
  "merge_generic_status rfc3339 policy live_resource incoming_status =
    (if live_has_terminal_condition live_resource (gsp_terminal_condition_types policy)
     then preserve_live_status_authoritatively live_resource incoming_status
     else (case gsp_stale_mode policy of
             UseLiveStatus \<Rightarrow> preserve_live_status_authoritatively live_resource incoming_status
           | MergeStatus conditions_mode field_merge \<Rightarrow>
               (let s1 = (case conditions_mode of
                            ConditionsReplaceAll \<Rightarrow> incoming_status
                          | PreserveUnmentionedByType \<Rightarrow>
                              preserve_unmentioned_live_status_conditions_by_type live_resource incoming_status
                          | PreserveLiveByType \<Rightarrow>
                              preserve_live_status_conditions_by_type live_resource incoming_status
                          | MergeByNewestTransitionTime \<Rightarrow>
                              merge_conditions_by_newest_transition_time rfc3339 live_resource incoming_status)
                in case field_merge of
                     FieldsReplaceAll \<Rightarrow> s1
                   | PreserveUnmentioned \<Rightarrow> preserve_unmentioned_live_status_fields live_resource s1
                   | PreserveLive \<Rightarrow> preserve_live_status_fields live_resource s1)))"


section \<open>Node status\<close>

definition condition_by_type :: "json list \<Rightarrow> string \<Rightarrow> json option"
  where "condition_by_type conditions t = find (\<lambda>c. condition_type c = Some t) conditions"

definition condition_status :: "json option \<Rightarrow> string option"
  where "condition_status condition = Option.bind condition (get_str ''status'')"

definition condition_transition_time :: "json option \<Rightarrow> string option"
  where "condition_transition_time condition = Option.bind condition (get_str ''lastTransitionTime'')"

definition condition_is_strictly_newer :: "(string \<Rightarrow> int option) \<Rightarrow> json \<Rightarrow> json \<Rightarrow> bool"
where
  "condition_is_strictly_newer rfc3339 left right =
    (case (get_str ''lastTransitionTime'' left, get_str ''lastTransitionTime'' right) of
       (Some l, Some r) \<Rightarrow>
         (case (rfc3339 l, rfc3339 r) of
            (Some l', Some r') \<Rightarrow> l' > r'
          | _ \<Rightarrow> l > r)
     | (Some _, None) \<Rightarrow> True
     | _ \<Rightarrow> False)"

definition is_network_condition_type :: "string \<Rightarrow> bool"
  where "is_network_condition_type t \<longleftrightarrow> t \<in> {''Ready'', ''NetworkUnavailable''}"

definition network_condition_pair_is_healthy :: "json option \<Rightarrow> json option \<Rightarrow> bool"
where
  "network_condition_pair_is_healthy ready network \<longleftrightarrow>
    condition_status ready = Some ''True'' \<and> condition_status network = Some ''False''"

definition network_condition_pair_is_unavailable :: "json option \<Rightarrow> json option \<Rightarrow> bool"
where
  "network_condition_pair_is_unavailable ready network \<longleftrightarrow>
    condition_status ready = Some ''False'' \<and> condition_status network = Some ''True''"

definition desired_network_pair_is_coherent :: "json option \<Rightarrow> json option \<Rightarrow> bool"
where
  "desired_network_pair_is_coherent ready network \<longleftrightarrow>
    (condition_status ready, condition_status network) \<in> {(Some ''True'', Some ''False''), (Some ''False'', Some ''True'')}"

definition network_condition_pair_timestamps_tie ::
  "json option \<Rightarrow> json option \<Rightarrow> json option \<Rightarrow> json option \<Rightarrow> bool"
where
  "network_condition_pair_timestamps_tie desired_ready desired_network existing_ready existing_network \<longleftrightarrow>
    condition_transition_time desired_ready \<noteq> None
    \<and> condition_transition_time desired_ready = condition_transition_time existing_ready
    \<and> condition_transition_time desired_network \<noteq> None
    \<and> condition_transition_time desired_network = condition_transition_time existing_network"

definition newer_option :: "(string \<Rightarrow> int option) \<Rightarrow> json option \<Rightarrow> json option \<Rightarrow> bool"
where
  "newer_option rfc3339 desired existing =
    is_some_and desired (\<lambda>d. is_some_and existing (\<lambda>e. condition_is_strictly_newer rfc3339 d e))"

definition network_condition_pair_has_newer_transition ::
  "(string \<Rightarrow> int option) \<Rightarrow> json list \<Rightarrow> json list \<Rightarrow> bool"
where
  "network_condition_pair_has_newer_transition rfc3339 desired existing =
    (let desired_ready = condition_by_type desired ''Ready'';
         desired_network = condition_by_type desired ''NetworkUnavailable'';
         existing_ready = condition_by_type existing ''Ready'';
         existing_network = condition_by_type existing ''NetworkUnavailable''
     in if \<not> desired_network_pair_is_coherent desired_ready desired_network then False
        else if newer_option rfc3339 desired_ready existing_ready then True
        else network_condition_pair_is_healthy desired_ready desired_network
          \<and> newer_option rfc3339 desired_network existing_network)"

definition network_condition_pair_should_replace ::
  "(string \<Rightarrow> int option) \<Rightarrow> json list \<Rightarrow> json list \<Rightarrow> bool"
where
  "network_condition_pair_should_replace rfc3339 desired existing =
    (if network_condition_pair_has_newer_transition rfc3339 desired existing then True
     else (let desired_ready = condition_by_type desired ''Ready'';
               desired_network = condition_by_type desired ''NetworkUnavailable'';
               existing_ready = condition_by_type existing ''Ready'';
               existing_network = condition_by_type existing ''NetworkUnavailable''
           in network_condition_pair_is_healthy desired_ready desired_network
              \<and> network_condition_pair_is_unavailable existing_ready existing_network
              \<and> network_condition_pair_timestamps_tie desired_ready desired_network existing_ready existing_network))"

definition network_condition_pair_should_preserve_existing ::
  "(string \<Rightarrow> int option) \<Rightarrow> json list \<Rightarrow> json list \<Rightarrow> bool"
where
  "network_condition_pair_should_preserve_existing rfc3339 desired existing \<longleftrightarrow>
    desired_network_pair_is_coherent (condition_by_type desired ''Ready'') (condition_by_type desired ''NetworkUnavailable'')
    \<and> desired_network_pair_is_coherent (condition_by_type existing ''Ready'') (condition_by_type existing ''NetworkUnavailable'')
    \<and> \<not> network_condition_pair_should_replace rfc3339 desired existing"

fun position :: "('a \<Rightarrow> bool) \<Rightarrow> 'a list \<Rightarrow> nat option"
where
  "position P [] = None"
| "position P (x # xs) = (if P x then Some 0 else map_option Suc (position P xs))"

text \<open>The merge of one live condition, and the loop over them; the two decisions about the network
  pair are made once, before the loop.\<close>

definition merge_node_condition ::
  "(string \<Rightarrow> int option) \<Rightarrow> bool \<Rightarrow> bool \<Rightarrow> json list \<Rightarrow> json \<Rightarrow> json list"
where
  "merge_node_condition rfc3339 replace preserve desired existing_cond =
    (case condition_type existing_cond of
       None \<Rightarrow> desired
     | Some t \<Rightarrow>
         (case position (\<lambda>c. condition_type c = Some t) desired of
            None \<Rightarrow> desired @ [existing_cond]
          | Some i \<Rightarrow>
              if replace \<and> is_network_condition_type t then desired
              else if preserve \<and> is_network_condition_type t then desired[i := existing_cond]
              else if \<not> condition_is_strictly_newer rfc3339 (desired ! i) existing_cond then desired[i := existing_cond]
              else desired))"

definition node_conditions :: "(string \<Rightarrow> int option) \<Rightarrow> json list \<Rightarrow> json list \<Rightarrow> json list"
where
  "node_conditions rfc3339 desired existing =
    foldl (merge_node_condition rfc3339 (network_condition_pair_should_replace rfc3339 desired existing)
        (network_condition_pair_should_preserve_existing rfc3339 desired existing)) desired existing"

definition merge_node_status_conditions :: "(string \<Rightarrow> int option) \<Rightarrow> json \<Rightarrow> json \<Rightarrow> json"
where
  "merge_node_status_conditions rfc3339 desired existing =
    (case array_at [''status'', ''conditions''] existing of
       None \<Rightarrow> desired
     | Some existing_conditions \<Rightarrow>
         jmodify ''status'' (jmodify ''conditions'' (\<lambda>v.
           case as_array v of
             Some desired_conditions \<Rightarrow> JArray (node_conditions rfc3339 desired_conditions existing_conditions)
           | None \<Rightarrow> v)) desired)"

definition merge_node_status_for_update :: "(string \<Rightarrow> int option) \<Rightarrow> json \<Rightarrow> json \<Rightarrow> json"
where
  "merge_node_status_for_update rfc3339 incoming_status existing =
    unwrap_or (jget ''status'' (merge_node_status_conditions rfc3339 (JObject [(''status'', incoming_status)]) existing))
      incoming_status"

definition set_external_ip_addresses :: "string \<Rightarrow> json list \<Rightarrow> json list \<times> bool"
where
  "set_external_ip_addresses external_ip addresses =
    (let external = (\<lambda>a. get_str ''type'' a = Some ''ExternalIP'');
         stale = (\<lambda>a. external a \<and> get_str ''address'' a \<noteq> Some external_ip);
         updated = map (\<lambda>a. if stale a then jput ''address'' (JString external_ip) a else a) addresses
     in if list_ex external addresses then (updated, list_ex stale addresses)
        else (updated @ [JObject [(''address'', JString external_ip), (''type'', JString ''ExternalIP'')]], True))"

definition set_node_external_ip :: "json \<Rightarrow> string \<Rightarrow> json \<times> bool"
where
  "set_node_external_ip node external_ip =
    (let external_ip = trim external_ip in
     if external_ip = [] \<or> \<not> is_object node then (node, False)
     else (let status = unwrap_or (jget ''status'' node) (JObject []);
               status = (if is_object status then status else JObject []);
               addresses = unwrap_or (Option.bind (jget ''addresses'' status) as_array) [];
               (addresses', changed) = set_external_ip_addresses external_ip addresses
           in (jput ''status'' (jput ''addresses'' (JArray addresses') status) node, changed)))"


section \<open>The entry points\<close>

definition merge_pod_status :: "json \<Rightarrow> json \<Rightarrow> status_apply_origin \<Rightarrow> json"
where
  "merge_pod_status live_resource incoming_status origin =
    merge_pod_status_for_update ''v1'' ''Pod'' live_resource incoming_status
      (case origin of
         FromKubeletOutbox \<Rightarrow> KubeletRuntime
       | FromApiSubresource \<Rightarrow> ApiStatusSubresource
       | FromReplicatedApply \<Rightarrow> ReplicatedApplyOwner)"

definition merge_status_for_apply ::
  "(string \<Rightarrow> int option) \<Rightarrow> string \<Rightarrow> string \<Rightarrow> json \<Rightarrow> json \<Rightarrow> status_apply_freshness \<Rightarrow> status_apply_origin \<Rightarrow> json"
where
  "merge_status_for_apply rfc3339 api_version kind live_resource incoming_status freshness origin =
    (case status_profile api_version kind of
       PodTyped \<Rightarrow> merge_pod_status live_resource incoming_status origin
     | NodeTyped \<Rightarrow> merge_node_status_for_update rfc3339 incoming_status live_resource
     | GenericProfile policy \<Rightarrow>
         if freshness = Fresh \<and> gsp_fresh_mode policy = FreshReplace then incoming_status
         else merge_generic_status rfc3339 policy live_resource incoming_status)"

definition apply_status_merge ::
  "(string \<Rightarrow> int option) \<Rightarrow> string \<Rightarrow> string \<Rightarrow> json \<Rightarrow> json \<Rightarrow> int option \<Rightarrow> int \<Rightarrow> bool
    \<Rightarrow> json \<times> status_apply_freshness"
where
  "apply_status_merge rfc3339 api_version kind live_resource incoming_status expected_rv current_rv kubelet_origin =
    (let freshness = (if is_some_and expected_rv (\<lambda>expected. expected < current_rv) then Stale else Fresh);
         origin = (if kubelet_origin then FromKubeletOutbox else FromReplicatedApply)
     in (merge_status_for_apply rfc3339 api_version kind live_resource incoming_status freshness origin, freshness))"


section \<open>The condition merges keep every type\<close>

lemma nonempty_type_Some: "nonempty_type c = Some t \<longleftrightarrow> condition_type c = Some t \<and> t \<noteq> []"
  by (auto simp: nonempty_str_def)

lemma in_types_of: "t \<in> types_of cs \<longleftrightarrow> (\<exists>c \<in> set cs. nonempty_type c = Some t)"
  by (auto simp: types_of_def List.map_filter_def image_iff)


lemma types_of_simps:
  "types_of [] = {}"
  "types_of (c # cs) = (case nonempty_type c of Some t \<Rightarrow> insert t (types_of cs) | None \<Rightarrow> types_of cs)"
  by (auto simp: in_types_of set_eq_iff split: option.split)

lemma types_of_append: "types_of (xs @ ys) = types_of xs \<union> types_of ys"
  by (auto simp: in_types_of)



lemma first_live_Some:
  "first_live_conditions_by_type live t = Some l \<Longrightarrow> nonempty_type l = Some t \<and> l \<in> set live"
  by (auto simp: first_live_conditions_by_type_def List.map_filter_def dest!: map_of_SomeD)

text \<open>Replacing a condition by the live one of its type changes no type.\<close>

lemma replaced_types:
  assumes "\<And>c. c \<in> set incoming \<Longrightarrow> f c = c \<or> (\<exists>t. nonempty_type c = Some t \<and> first_live_conditions_by_type live t = Some (f c))"
  shows "types_of (map f incoming) = types_of incoming" and "set (map f incoming) \<subseteq> set incoming \<union> set live"
proof -
  have "nonempty_type (f c) = nonempty_type c \<and> (f c = c \<or> f c \<in> set live)" if "c \<in> set incoming" for c
    using assms [OF that] first_live_Some by auto
  then show "types_of (map f incoming) = types_of incoming" and "set (map f incoming) \<subseteq> set incoming \<union> set live"
    by (auto simp: in_types_of set_eq_iff) metis
qed






section \<open>Conditions of one type\<close>

lemma condition_by_type_simps:
  "condition_by_type [] t = None"
  "condition_by_type (c # cs) t = (if condition_type c = Some t then Some c else condition_by_type cs t)"
  by (simp_all add: condition_by_type_def)

lemma condition_by_type_append:
  "condition_by_type (xs @ ys) t = (case condition_by_type xs t of Some c \<Rightarrow> Some c | None \<Rightarrow> condition_by_type ys t)"
  by (induction xs) (simp_all add: condition_by_type_simps)

lemma condition_by_type_None: "t \<noteq> [] \<Longrightarrow> condition_by_type cs t = None \<longleftrightarrow> t \<notin> types_of cs"
  by (auto simp: condition_by_type_def find_None_iff in_types_of nonempty_type_Some)

lemma condition_by_type_type: "condition_by_type cs t = Some c \<Longrightarrow> condition_type c = Some t"
  by (auto simp: condition_by_type_def find_Some_iff)

lemma first_live_by_type: "t \<noteq> [] \<Longrightarrow> first_live_conditions_by_type live t = condition_by_type live t"
  by (induction live)
    (auto simp: first_live_conditions_by_type_def List.map_filter_simps condition_by_type_simps nonempty_str_def
      split: option.splits)

lemma push_unseen_by_type:
  "t \<noteq> [] \<Longrightarrow> types_of merged \<subseteq> seen \<Longrightarrow>
    condition_by_type (push_unseen seen merged cs) t =
      (case condition_by_type merged t of
         Some c \<Rightarrow> Some c
       | None \<Rightarrow> if t \<in> seen then None else condition_by_type cs t)"
proof (induction seen merged cs rule: push_unseen.induct)
  case (2 seen merged c cs)
  show ?case
  proof (cases "nonempty_type c")
    case None
    then have "condition_type c \<noteq> Some t"
      using 2(4) by (auto simp: nonempty_str_def split: if_splits)
    then show ?thesis
      using 2 None by (simp add: condition_by_type_simps split: option.split)
  next
    case (Some t')
    then have t': "condition_type c = Some t'" "t' \<noteq> []"
      by (simp_all add: nonempty_type_Some)
    show ?thesis
    proof (cases "t' \<in> seen")
      case True
      then show ?thesis
        using 2 Some t' by (auto simp: condition_by_type_simps split: option.split)
    next
      case False
      have "types_of (merged @ [c]) \<subseteq> insert t' seen"
        using 2(5) by (auto simp: types_of_append types_of_simps Some)
      then show ?thesis
        using 2(3) [OF Some] False 2(4) t' Some
        by (auto simp: condition_by_type_append condition_by_type_simps split: option.split)
    qed
  qed
qed (auto simp: condition_by_type_simps condition_by_type_None split: option.split)

lemma map_by_type:
  assumes "\<And>c. condition_type (f c) = condition_type c"
  shows "condition_by_type (map f cs) t = map_option f (condition_by_type cs t)"
  using assms by (induction cs) (simp_all add: condition_by_type_simps)

definition newer_of :: "(string \<Rightarrow> int option) \<Rightarrow> json option \<Rightarrow> json option \<Rightarrow> json option"
where
  "newer_of rfc3339 incoming live =
    (case (incoming, live) of
       (Some i, Some l) \<Rightarrow> Some (if live_condition_is_newer rfc3339 l i then l else i)
     | (Some i, None) \<Rightarrow> Some i
     | (None, _) \<Rightarrow> live)"

lemma newest_by_type:
  assumes "t \<noteq> []"
  shows "condition_by_type (newest_conditions rfc3339 incoming live) t
    = newer_of rfc3339 (condition_by_type incoming t) (condition_by_type live t)"
proof -
  let ?f = "\<lambda>c. case Option.bind (nonempty_type c) (first_live_conditions_by_type live) of
    Some l \<Rightarrow> if live_condition_is_newer rfc3339 l c then l else c | None \<Rightarrow> c"
  have same: "condition_type (?f c) = condition_type c" for c
  proof (cases "Option.bind (nonempty_type c) (first_live_conditions_by_type live)")
    case (Some l)
    then obtain a where a: "nonempty_type c = Some a" and l: "first_live_conditions_by_type live a = Some l"
      by (cases "nonempty_type c") simp_all
    have "condition_type l = condition_type c"
      using a first_live_Some [OF l] unfolding nonempty_type_Some by simp
    then show ?thesis
      by (simp add: Some)
  qed simp
  have types: "types_of (map ?f incoming) = types_of incoming"
    by (rule replaced_types(1)) (auto split: option.split simp: bind_eq_Some_conv)
  have "?f c = (case condition_by_type live t of
      Some l \<Rightarrow> if live_condition_is_newer rfc3339 l c then l else c | None \<Rightarrow> c)"
    if "condition_by_type incoming t = Some c" for c
    using condition_by_type_type [OF that] assms by (simp add: nonempty_str_def first_live_by_type)
  then show ?thesis
    using assms condition_by_type_None [OF assms, of incoming]
    by (auto simp: newest_conditions_def push_unseen_by_type types map_by_type [OF same] newer_of_def
        split: option.split)
qed


section \<open>Node conditions\<close>

lemma position_None: "position P xs = None \<longleftrightarrow> find P xs = None"
  by (induction xs) simp_all

lemma position_Some:
  "position P xs = Some i \<Longrightarrow> i < length xs \<and> find P xs = Some (xs ! i) \<and> P (xs ! i)"
proof (induction xs arbitrary: i)
  case (Cons x xs)
  then show ?case by (cases i) (auto split: if_splits)
qed simp

lemma find_update_other: "i < length xs \<Longrightarrow> \<not> P (xs ! i) \<Longrightarrow> \<not> P y \<Longrightarrow> find P (xs[i := y]) = find P xs"
proof (induction xs arbitrary: i)
  case (Cons x xs)
  then show ?case by (cases i) auto
qed simp

lemma find_update_position: "position P xs = Some i \<Longrightarrow> P y \<Longrightarrow> find P (xs[i := y]) = Some y"
proof (induction xs arbitrary: i)
  case (Cons x xs)
  then show ?case by (cases i) (auto split: if_splits)
qed simp

definition choose_condition ::
  "(string \<Rightarrow> int option) \<Rightarrow> bool \<Rightarrow> bool \<Rightarrow> string \<Rightarrow> json \<Rightarrow> json \<Rightarrow> json"
where
  "choose_condition rfc3339 replace preserve t desired existing =
    (if replace \<and> is_network_condition_type t then desired
     else if preserve \<and> is_network_condition_type t then existing
     else if condition_is_strictly_newer rfc3339 desired existing then desired else existing)"

lemma merge_node_condition_by_type:
  "condition_by_type (merge_node_condition rfc3339 replace preserve desired e) t =
    (if condition_type e = Some t
     then Some (case condition_by_type desired t of
                  None \<Rightarrow> e
                | Some d \<Rightarrow> choose_condition rfc3339 replace preserve t d e)
     else condition_by_type desired t)"
proof (cases "condition_type e")
  case None
  then show ?thesis by (simp add: merge_node_condition_def)
next
  case (Some u)
  let ?P = "\<lambda>t c. condition_type c = Some t"
  show ?thesis
  proof (cases "position (?P u) desired")
    case None
    then have "find (?P u) desired = None"
      by (simp add: position_None)
    then show ?thesis
      using Some None
      by (auto simp: merge_node_condition_def condition_by_type_append condition_by_type_simps split: option.split)
        (simp_all add: condition_by_type_def)
  next
    case (Some i)
    note at = position_Some [OF Some]
    have "find (?P t) (desired[i := e]) = (if t = u then Some e else find (?P t) desired)"
      using find_update_position [OF Some] find_update_other [of i desired "?P t" e] at \<open>condition_type e = Some u\<close>
      by (auto split: if_splits)
    then show ?thesis
      using Some at \<open>condition_type e = Some u\<close>
      by (auto simp: merge_node_condition_def condition_by_type_def choose_condition_def)
  qed
qed

definition distinct_types :: "json list \<Rightarrow> bool"
  where "distinct_types cs \<longleftrightarrow> distinct (List.map_filter condition_type cs)"

lemma fold_node_conditions_by_type:
  "distinct_types es \<Longrightarrow>
    condition_by_type (foldl (merge_node_condition rfc3339 replace preserve) desired es) t =
      (case condition_by_type es t of
         None \<Rightarrow> condition_by_type desired t
       | Some e \<Rightarrow>
           Some (case condition_by_type desired t of
                   None \<Rightarrow> e
                 | Some d \<Rightarrow> choose_condition rfc3339 replace preserve t d e))"
proof (induction es arbitrary: desired)
  case (Cons e es)
  have "distinct_types es"
    using Cons.prems by (cases "condition_type e") (simp_all add: distinct_types_def List.map_filter_simps)
  moreover have "condition_by_type es t = None" if "condition_type e = Some t"
  proof -
    have "t \<notin> set (List.map_filter condition_type es)"
      using Cons.prems that by (simp add: distinct_types_def List.map_filter_simps)
    then show ?thesis
      by (auto simp: condition_by_type_def find_None_iff List.map_filter_def image_iff)
  qed
  ultimately show ?case
    using Cons.IH by (simp add: condition_by_type_simps merge_node_condition_by_type split: option.split)
qed (simp add: condition_by_type_simps)

lemma node_conditions_by_type:
  assumes "distinct_types existing"
  shows "condition_by_type (node_conditions rfc3339 desired existing) t =
    (case condition_by_type existing t of
       None \<Rightarrow> condition_by_type desired t
     | Some e \<Rightarrow>
         Some (case condition_by_type desired t of
                 None \<Rightarrow> e
               | Some d \<Rightarrow>
                   choose_condition rfc3339 (network_condition_pair_should_replace rfc3339 desired existing)
                     (network_condition_pair_should_preserve_existing rfc3339 desired existing) t d e))"
  unfolding node_conditions_def by (rule fold_node_conditions_by_type [OF assms])

lemma merge_node_update:
  "jget ''conditions'' incoming_status = Some (JArray desired) \<Longrightarrow>
    array_at [''status'', ''conditions''] existing = Some live \<Longrightarrow>
    array_at [''conditions''] (merge_node_status_for_update rfc3339 incoming_status existing)
      = Some (node_conditions rfc3339 desired live)"
  by (simp add: merge_node_status_for_update_def merge_node_status_conditions_def unwrap_or_def array_at_one)

lemma coherent_present:
  "desired_network_pair_is_coherent ready network \<Longrightarrow> ready \<noteq> None \<and> network \<noteq> None"
  by (cases ready; cases network) (auto simp: desired_network_pair_is_coherent_def condition_status_def)


section \<open>Conditions after a stale write\<close>

abbreviation conditions_of :: "json \<Rightarrow> json list"
  where "conditions_of status \<equiv> unwrap_or (array_at [''conditions''] status) []"

lemma with_conditions_of:
  assumes "is_object incoming" "jget ''conditions'' incoming \<in> {None, Some (JArray cs)}"
    and "\<And>xs. merge xs [] = xs"
  shows "conditions_of (with_conditions merge live incoming) = merge (conditions_of incoming) (live_conditions live)"
  using assms
  by (auto simp: with_conditions_def live_conditions_def array_at_one unwrap_or_def split: option.split)

lemma push_unseen_Nil: "push_unseen seen merged [] = merged"
  by simp

lemma first_live_Nil: "first_live_conditions_by_type [] = Map.empty"
  by (simp add: first_live_conditions_by_type_def List.map_filter_simps)

lemma merges_without_live:
  "newest_conditions rfc3339 xs [] = xs" "unmentioned_conditions xs [] = xs" "live_conditions_first xs [] = xs"
proof -
  have none: "Option.bind b Map.empty = None" for b :: "'a option"
    by (cases b) simp_all
  show "newest_conditions rfc3339 xs [] = xs" "unmentioned_conditions xs [] = xs" "live_conditions_first xs [] = xs"
    by (simp_all add: newest_conditions_def unmentioned_conditions_def live_conditions_first_def first_live_Nil none)
qed

lemma jget_add_missing:
  "is_object v \<Longrightarrow> jget k (add_missing_entries m v) = (case jget k v of Some x \<Rightarrow> Some x | None \<Rightarrow> map_of m k)"
proof (induction m arbitrary: v)
  case (Cons e m)
  then show ?case by (cases e) (auto simp: add_missing_entries_Cons split: option.split)
qed (auto simp: add_missing_entries_Nil split: option.split)

lemma unmentioned_fields_conditions:
  assumes "is_object s"
  shows "conditions_of (preserve_unmentioned_live_status_fields live s)
    = (if jget ''conditions'' s = None then live_conditions live else conditions_of s)"
proof (cases "Option.bind (jget ''status'' live) as_object")
  case None
  then have "live_conditions live = []"
    by (cases "jget ''status'' live") (auto simp: live_conditions_def array_at_def unwrap_or_def as_object_None_iff)
  then show ?thesis
    by (simp add: preserve_unmentioned_live_status_fields_def None array_at_one unwrap_or_def)
next
  case (Some m)
  then have "jget ''status'' live = Some (JObject m)"
    by (cases "jget ''status'' live") simp_all
  then show ?thesis
    using assms
    by (auto simp: preserve_unmentioned_live_status_fields_def Some array_at_one jget_add_missing
        live_conditions_def array_at_def split: option.split)
qed

lemma jget_conditions_live_fields:
  "jget ''conditions'' (preserve_live_status_fields live s) = jget ''conditions'' s"
proof -
  have "jget ''conditions'' (foldl (\<lambda>v (key, value). if key = ''conditions'' then v else jput key value v) s m)
      = jget ''conditions'' s" for m
    by (induction m arbitrary: s) (auto split: prod.split)
  then show ?thesis
    by (simp add: preserve_live_status_fields_def split: option.split)
qed

lemma is_object_with_conditions [simp]: "is_object (with_conditions merge live s) = is_object s"
  by (simp add: with_conditions_def split: option.split)

lemma with_conditions_absent:
  "is_object s \<Longrightarrow> jget ''conditions'' (with_conditions merge live s) = None \<Longrightarrow> live_conditions live = [] \<and> jget ''conditions'' s = None"
  by (auto simp: with_conditions_def live_conditions_def unwrap_or_def split: option.splits if_splits)

text \<open>The conditions after the generic merge, whatever the policy for the other fields.\<close>

definition merge_of_mode :: "(string \<Rightarrow> int option) \<Rightarrow> condition_merge_mode \<Rightarrow> json list \<Rightarrow> json list \<Rightarrow> json list"
where
  "merge_of_mode rfc3339 mode =
    (case mode of
       ConditionsReplaceAll \<Rightarrow> (\<lambda>incoming live. incoming)
     | PreserveUnmentionedByType \<Rightarrow> unmentioned_conditions
     | PreserveLiveByType \<Rightarrow> live_conditions_first
     | MergeByNewestTransitionTime \<Rightarrow> newest_conditions rfc3339)"


lemma generic_merge_conditions:
  assumes policy: "gsp_stale_mode policy = MergeStatus mode field_mode" "mode \<noteq> ConditionsReplaceAll"
    and running: "\<not> live_has_terminal_condition live (gsp_terminal_condition_types policy)"
    and incoming: "is_object incoming" "jget ''conditions'' incoming \<in> {None, Some (JArray cs)}"
  shows "conditions_of (merge_generic_status rfc3339 policy live incoming)
    = merge_of_mode rfc3339 mode (conditions_of incoming) (live_conditions live)"
proof -
  let ?m = "merge_of_mode rfc3339 mode"
  let ?s1 = "with_conditions ?m live incoming"
  have nil: "?m xs [] = xs" for xs
    by (cases mode) (simp_all add: merge_of_mode_def merges_without_live)
  have s1: "conditions_of ?s1 = ?m (conditions_of incoming) (live_conditions live)"
    using incoming by (intro with_conditions_of) (auto simp: nil)
  have "merge_generic_status rfc3339 policy live incoming =
      (case field_mode of FieldsReplaceAll \<Rightarrow> ?s1
       | PreserveUnmentioned \<Rightarrow> preserve_unmentioned_live_status_fields live ?s1
       | PreserveLive \<Rightarrow> preserve_live_status_fields live ?s1)"
    using policy running
    by (cases mode; cases field_mode) (simp_all add: merge_generic_status_def merge_of_mode_def Let_def
        preserve_unmentioned_live_status_conditions_by_type_def preserve_live_status_conditions_by_type_def
        merge_conditions_by_newest_transition_time_def)
  moreover have "conditions_of (preserve_unmentioned_live_status_fields live ?s1) = conditions_of ?s1"
  proof (cases "jget ''conditions'' ?s1")
    case None
    then have "conditions_of ?s1 = live_conditions live"
      using with_conditions_absent [OF incoming(1) None] by (simp add: array_at_one unwrap_or_def)
    then show ?thesis
      using None incoming(1) by (simp add: unmentioned_fields_conditions)
  qed (use incoming(1) in \<open>simp add: unmentioned_fields_conditions\<close>)
  moreover have "conditions_of (preserve_live_status_fields live ?s1) = conditions_of ?s1"
    by (simp add: array_at_one jget_conditions_live_fields)
  ultimately show ?thesis
    using s1 by (cases field_mode) simp_all
qed


section \<open>Properties\<close>


definition example_condition :: "string \<Rightarrow> string \<Rightarrow> string \<Rightarrow> json"
where
  "example_condition t status time =
    JObject [(''lastTransitionTime'', JString time), (''status'', JString status), (''type'', JString t)]"

definition example_live :: "json list \<Rightarrow> json"
  where "example_live cs = JObject [(''status'', JObject [(''conditions'', JArray cs)])]"

definition example_status :: "json list \<Rightarrow> json"
  where "example_status cs = JObject [(''conditions'', JArray cs)]"

definition example_clock :: "string \<Rightarrow> int option"
where
  "example_clock s =
    (if s = ''2024-01-01T00:00:00Z'' then Some 0
     else if s = ''2024-01-01T00:00:05Z'' then Some 5 else None)"

lemmas example_status_simps = example_condition_def example_live_def example_status_def live_conditions_def
  array_at_def get_str_def unwrap_or_def


text \<open>Transition times compare as options: a condition without a readable time is before every
  condition with one. When the times of two conditions differ, the newest merge takes the later.\<close>

fun time_before :: "int option \<Rightarrow> int option \<Rightarrow> bool"
where
  "time_before None (Some _) = True"
| "time_before (Some a) (Some b) = (a < b)"
| "time_before _ None = False"

definition later_of :: "(string \<Rightarrow> int option) \<Rightarrow> json option \<Rightarrow> json option \<Rightarrow> json option"
where
  "later_of rfc3339 c d =
    (case (c, d) of
       (Some x, Some y) \<Rightarrow>
         Some (if time_before (condition_last_transition_time rfc3339 x) (condition_last_transition_time rfc3339 y)
               then y else x)
     | (Some x, None) \<Rightarrow> Some x
     | (None, y) \<Rightarrow> y)"

definition times_differ :: "(string \<Rightarrow> int option) \<Rightarrow> json option \<Rightarrow> json option \<Rightarrow> bool"
where
  "times_differ rfc3339 c d \<longleftrightarrow>
    (case (c, d) of
       (Some x, Some y) \<Rightarrow> condition_last_transition_time rfc3339 x \<noteq> condition_last_transition_time rfc3339 y
     | _ \<Rightarrow> True)"

lemma newer_of_later: "times_differ rfc3339 c d \<Longrightarrow> newer_of rfc3339 c d = later_of rfc3339 c d"
  by (auto simp: times_differ_def newer_of_def later_of_def live_condition_is_newer_def split: option.splits)

lemma later_of_commute: "times_differ rfc3339 c d \<Longrightarrow> later_of rfc3339 c d = later_of rfc3339 d c"
  by (auto simp: times_differ_def later_of_def split: option.splits
      elim!: time_before.elims)

text \<open>C33: A finished Job stays finished: once the live Job has a true Complete or Failed condition, no
  stale status write changes its status.  While it runs, a condition type that only one side has comes out as
  that side has it, and one whose transition times differ comes out as the later of the two,
  a condition without a readable time counting as the earliest.  Equal times are not covered.\<close>

theorem stale_job_status:
  assumes "is_object incoming" "jget ''conditions'' incoming \<in> {None, Some (JArray cs)}" "t \<noteq> []"
    and "times_differ rfc3339 (condition_by_type (conditions_of incoming) t) (condition_by_type (live_conditions live) t)"
  shows "if live_has_terminal_condition live [''Complete'', ''Failed'']
    then Some (merge_status_for_apply rfc3339 ''batch/v1'' ''Job'' live incoming Stale origin) = jget ''status'' live
    else condition_by_type (conditions_of (merge_status_for_apply rfc3339 ''batch/v1'' ''Job'' live incoming Stale origin)) t
      = later_of rfc3339 (condition_by_type (conditions_of incoming) t) (condition_by_type (live_conditions live) t)"
proof -
  define policy where "policy =
    \<lparr>gsp_terminal_condition_types = [''Complete'', ''Failed''], gsp_fresh_mode = FreshReplace,
     gsp_stale_mode = MergeStatus MergeByNewestTransitionTime PreserveUnmentioned\<rparr>"
  have "status_profile ''batch/v1'' ''Job'' = GenericProfile policy"
    by (simp add: status_profile_def policy_def)
  then have merge: "merge_status_for_apply rfc3339 ''batch/v1'' ''Job'' live incoming Stale origin
      = merge_generic_status rfc3339 policy live incoming"
    by (simp add: merge_status_for_apply_def)
  show ?thesis
  proof (cases "live_has_terminal_condition live [''Complete'', ''Failed'']")
    case True
    then have "jget ''status'' live \<noteq> None"
      by (auto simp: live_has_terminal_condition_def array_at_def split: option.splits)
    then show ?thesis
      using True
      by (auto simp: merge merge_generic_status_def policy_def preserve_live_status_authoritatively_def unwrap_or_def)
  next
    case False
    then have "conditions_of (merge_generic_status rfc3339 policy live incoming)
        = newest_conditions rfc3339 (conditions_of incoming) (live_conditions live)"
      using generic_merge_conditions [of policy MergeByNewestTransitionTime PreserveUnmentioned live incoming cs rfc3339] assms
      by (simp add: policy_def merge_of_mode_def)
    then show ?thesis
      using False newer_of_later [OF assms(4)] by (simp add: merge newest_by_type [OF assms(3)])
  qed
qed

theorem stale_job_status_witness:
  "condition_by_type (conditions_of (merge_status_for_apply example_clock ''batch/v1'' ''Job''
      (example_live [example_condition ''Suspended'' ''True'' ''2024-01-01T00:00:05Z''])
      (example_status [example_condition ''Suspended'' ''False'' ''2024-01-01T00:00:00Z'']) Stale FromReplicatedApply))
      ''Suspended''
    = Some (example_condition ''Suspended'' ''True'' ''2024-01-01T00:00:05Z'')"
proof -
  let ?live = "example_live [example_condition ''Suspended'' ''True'' ''2024-01-01T00:00:05Z'']"
  let ?new = "[example_condition ''Suspended'' ''False'' ''2024-01-01T00:00:00Z'']"
  have "\<not> live_has_terminal_condition ?live [''Complete'', ''Failed'']"
    by (simp add: live_has_terminal_condition_def example_status_simps is_some_and_def)
  moreover have "later_of example_clock (condition_by_type (conditions_of (example_status ?new)) ''Suspended'')
      (condition_by_type (live_conditions ?live) ''Suspended'')
    = Some (example_condition ''Suspended'' ''True'' ''2024-01-01T00:00:05Z'')"
    and "times_differ example_clock (condition_by_type (conditions_of (example_status ?new)) ''Suspended'')
      (condition_by_type (live_conditions ?live) ''Suspended'')"
    by (simp_all add: example_status_simps condition_by_type_def later_of_def times_differ_def
        condition_last_transition_time_def example_clock_def)
  ultimately show ?thesis
    using stale_job_status [of "example_status ?new" ?new "''Suspended''" example_clock ?live FromReplicatedApply]
    by (simp add: example_status_def)
qed

text \<open>A Node heartbeat updates each condition on its own merits.  A condition other than Ready and
  NetworkUnavailable is replaced only by a strictly later one, and conditions the heartbeat leaves
  out stay.  Ready and NetworkUnavailable are not torn apart where both sides carry a coherent pair, that is one
  of the two is true and the other false: the result is the heartbeat's pair if its Ready is strictly
  later, or if it is healthy and its NetworkUnavailable is strictly later, or if it is healthy, the live
  pair is not and both time stamps are the same; otherwise it is the live pair.\<close>

lemma node_heartbeat_merge:
  assumes "jget ''conditions'' heartbeat = Some (JArray desired)"
    and "array_at [''status'', ''conditions''] node = Some live" "distinct_types live"
  shows "\<exists>merged. array_at [''conditions''] (merge_node_status_for_update rfc3339 heartbeat node) = Some merged
    \<and> (\<forall>t. \<not> is_network_condition_type t \<longrightarrow>
        condition_by_type merged t =
          (case (condition_by_type desired t, condition_by_type live t) of
             (Some d, Some l) \<Rightarrow> Some (if condition_is_strictly_newer rfc3339 d l then d else l)
           | (Some d, None) \<Rightarrow> Some d
           | (None, l) \<Rightarrow> l))
    \<and> (\<forall>dr dn lr ln. (condition_by_type desired ''Ready'', condition_by_type desired ''NetworkUnavailable'') = (Some dr, Some dn)
        \<and> (condition_by_type live ''Ready'', condition_by_type live ''NetworkUnavailable'') = (Some lr, Some ln)
        \<and> (get_str ''status'' dr, get_str ''status'' dn) \<in> {(Some ''True'', Some ''False''), (Some ''False'', Some ''True'')}
        \<and> (get_str ''status'' lr, get_str ''status'' ln) \<in> {(Some ''True'', Some ''False''), (Some ''False'', Some ''True'')} \<longrightarrow>
        (condition_by_type merged ''Ready'', condition_by_type merged ''NetworkUnavailable'') =
          (if condition_is_strictly_newer rfc3339 dr lr
              \<or> (get_str ''status'' dr = Some ''True'' \<and> condition_is_strictly_newer rfc3339 dn ln)
              \<or> (get_str ''status'' dr = Some ''True'' \<and> get_str ''status'' lr = Some ''False''
                  \<and> get_str ''lastTransitionTime'' dr = get_str ''lastTransitionTime'' lr
                  \<and> get_str ''lastTransitionTime'' dn = get_str ''lastTransitionTime'' ln
                  \<and> get_str ''lastTransitionTime'' dr \<noteq> None \<and> get_str ''lastTransitionTime'' dn \<noteq> None)
           then (Some dr, Some dn) else (Some lr, Some ln)))"
proof (intro exI conjI allI impI)
  let ?merged = "node_conditions rfc3339 desired live"
  show "array_at [''conditions''] (merge_node_status_for_update rfc3339 heartbeat node) = Some ?merged"
    using assms(1,2) by (rule merge_node_update)
  show "condition_by_type ?merged t =
      (case (condition_by_type desired t, condition_by_type live t) of
         (Some d, Some l) \<Rightarrow> Some (if condition_is_strictly_newer rfc3339 d l then d else l)
       | (Some d, None) \<Rightarrow> Some d
       | (None, l) \<Rightarrow> l)" if "\<not> is_network_condition_type t" for t
    using that by (simp add: node_conditions_by_type [OF assms(3)] choose_condition_def split: option.split)
  fix dr dn lr ln
  assume pairs: "(condition_by_type desired ''Ready'', condition_by_type desired ''NetworkUnavailable'') = (Some dr, Some dn)
    \<and> (condition_by_type live ''Ready'', condition_by_type live ''NetworkUnavailable'') = (Some lr, Some ln)
    \<and> (get_str ''status'' dr, get_str ''status'' dn) \<in> {(Some ''True'', Some ''False''), (Some ''False'', Some ''True'')}
    \<and> (get_str ''status'' lr, get_str ''status'' ln) \<in> {(Some ''True'', Some ''False''), (Some ''False'', Some ''True'')}"
  let ?replace = "condition_is_strictly_newer rfc3339 dr lr
      \<or> (get_str ''status'' dr = Some ''True'' \<and> condition_is_strictly_newer rfc3339 dn ln)
      \<or> (get_str ''status'' dr = Some ''True'' \<and> get_str ''status'' lr = Some ''False''
          \<and> get_str ''lastTransitionTime'' dr = get_str ''lastTransitionTime'' lr
          \<and> get_str ''lastTransitionTime'' dn = get_str ''lastTransitionTime'' ln
          \<and> get_str ''lastTransitionTime'' dr \<noteq> None \<and> get_str ''lastTransitionTime'' dn \<noteq> None)"
  have replace: "network_condition_pair_should_replace rfc3339 desired live \<longleftrightarrow> ?replace"
    using pairs
    by (auto simp: network_condition_pair_should_replace_def network_condition_pair_has_newer_transition_def
        newer_option_def network_condition_pair_is_healthy_def network_condition_pair_is_unavailable_def
        network_condition_pair_timestamps_tie_def desired_network_pair_is_coherent_def condition_status_def
        condition_transition_time_def Let_def)
  have "network_condition_pair_should_preserve_existing rfc3339 desired live
      \<longleftrightarrow> \<not> network_condition_pair_should_replace rfc3339 desired live"
    using pairs by (auto simp: network_condition_pair_should_preserve_existing_def
        desired_network_pair_is_coherent_def condition_status_def)
  moreover have "is_network_condition_type ''Ready''" "is_network_condition_type ''NetworkUnavailable''"
    by (simp_all add: is_network_condition_type_def)
  ultimately have "(condition_by_type ?merged ''Ready'', condition_by_type ?merged ''NetworkUnavailable'') =
      (if network_condition_pair_should_replace rfc3339 desired live then (Some dr, Some dn) else (Some lr, Some ln))"
    using pairs by (simp add: node_conditions_by_type [OF assms(3)] choose_condition_def)
  then show "(condition_by_type ?merged ''Ready'', condition_by_type ?merged ''NetworkUnavailable'') =
      (if ?replace then (Some dr, Some dn) else (Some lr, Some ln))"
    by (simp only: replace)
qed

end
