(* ===== verification/Pod_Lifecycle.thy ===== *)
theory Pod_Lifecycle
  imports Json_Value
begin

text \<open>
  The data of the kubelet's Pod lifecycle machine (\<^verbatim>\<open>klights-kubelet/src/pod_lifecycle_core\<close>): the
  messages a Pod actor receives, the actions it decides, and the per-Pod state with its operations.
  The observation set and the reconcile hint are in \<^verbatim>\<open>runtime_observations.rs\<close> and
  \<^verbatim>\<open>runtime_reconcile_hint.rs\<close>, the retry delay in \<^verbatim>\<open>runtime.rs\<close>.

  Operation ids and generations are 64-bit words. An instant (\<^verbatim>\<open>DateTime<Utc>\<close>) is an integer, a
  delay a number of seconds. An in-flight operation carries a cancellation token in the source; here
  the state lists the ids of the operations whose token was cancelled. The work permit of an action
  is always \<^verbatim>\<open>None\<close> in the actor backend and is left out.
\<close>

type_synonym u64 = "64 word"
type_synonym instant = int

section \<open>Messages\<close>

record pod_lifecycle_key =
  plk_namespace :: string
  plk_name :: string
  plk_uid :: string

record pod_slot_key =
  psk_namespace :: string
  psk_name :: string

definition pod_slot_key_of :: "pod_lifecycle_key \<Rightarrow> pod_slot_key"
  where "pod_slot_key_of k = \<lparr>psk_namespace = plk_namespace k, psk_name = plk_name k\<rparr>"

datatype kubelet_event_kind = EventCreated | EventStarted | EventStopped | EventDeleted

datatype restart_reason = StartupProbe | LivenessProbe

datatype lifecycle_command =
    ReadinessChanged string string string string bool
  | RestartRequested string string string string restart_reason
  | StartupPassed string string string string

fun command_target :: "lifecycle_command \<Rightarrow> string \<times> string \<times> string"
where
  "command_target (ReadinessChanged pod_uid namespace pod_name _ _) = (namespace, pod_name, pod_uid)"
| "command_target (RestartRequested pod_uid namespace pod_name _ _) = (namespace, pod_name, pod_uid)"
| "command_target (StartupPassed pod_uid namespace pod_name _) = (namespace, pod_name, pod_uid)"

datatype pod_lifecycle_work_kind =
    StartPodWork
  | StopPodWork
  | FinalizePodDeletionWork
  | CheckSlotAdmissionWork
  | FinalizeStartupWork
  | ReconcileRuntimeWork
  | ReconcileCriLeftoversWork
  | HandleCommandWork
  | ReconcileEphemeralWork

datatype pod_lifecycle_work_failure =
    Cancelled
  | DeadlineExceeded
  | Deleted
  | ContainerNotFound
  | FinalizersPending
  | Startup string
  | DispatchFailed string
  | NotOwned string "string option"

datatype pod_probe_kind = ProbeStartup | ProbeReadiness | ProbeLiveness

datatype pod_probe_result = ProbeSuccess | ProbeFailure string | ProbeTimeout

datatype orphan_reason =
    NodeLost
  | LeaderDeletedWhileDown
  | UidChangedWhileDown
  | ColdCriOrphan
  | StaleNetworkRow
  | StaleEndpointRow

datatype lifecycle_message =
    WatchAdded pod_lifecycle_key "int option" json
  | WatchModified pod_lifecycle_key "int option" json
  | WatchDeleted pod_lifecycle_key "int option" json
  | CriEvent pod_lifecycle_key string kubelet_event_kind
  | LifecycleCommand pod_lifecycle_key lifecycle_command
  | NetworkAssigned pod_lifecycle_key string string
  | PodWorkCompleted pod_lifecycle_key u64 pod_lifecycle_work_kind "string option"
  | PodWorkFailed pod_lifecycle_key u64 pod_lifecycle_work_kind bool pod_lifecycle_work_failure
  | SlotAdmissionGranted pod_lifecycle_key u64 json "int option" bool
  | SlotAdmissionBlocked pod_lifecycle_key u64 string string
  | SlotAdmissionWake pod_lifecycle_key
  | ProbeResult pod_lifecycle_key u64 string pod_probe_kind pod_probe_result
  | RetryDue pod_lifecycle_key
  | OrphanFinalize pod_lifecycle_key orphan_reason
  | ActiveDeadlineDue pod_lifecycle_key
  | DeletionDeadlineDue pod_lifecycle_key u64
  | ActorIdleGraceExpired pod_lifecycle_key u64

fun message_key :: "lifecycle_message \<Rightarrow> pod_lifecycle_key"
where
  "message_key (WatchAdded key _ _) = key"
| "message_key (WatchModified key _ _) = key"
| "message_key (WatchDeleted key _ _) = key"
| "message_key (CriEvent key _ _) = key"
| "message_key (LifecycleCommand key _) = key"
| "message_key (NetworkAssigned key _ _) = key"
| "message_key (PodWorkCompleted key _ _ _) = key"
| "message_key (PodWorkFailed key _ _ _ _) = key"
| "message_key (SlotAdmissionGranted key _ _ _ _) = key"
| "message_key (SlotAdmissionBlocked key _ _ _) = key"
| "message_key (SlotAdmissionWake key) = key"
| "message_key (ProbeResult key _ _ _ _) = key"
| "message_key (RetryDue key) = key"
| "message_key (OrphanFinalize key _) = key"
| "message_key (ActiveDeadlineDue key) = key"
| "message_key (DeletionDeadlineDue key _) = key"
| "message_key (ActorIdleGraceExpired key _) = key"

fun message_event_name :: "lifecycle_message \<Rightarrow> string"
where
  "message_event_name (WatchAdded _ _ _) = ''watch_added''"
| "message_event_name (WatchModified _ _ _) = ''watch_modified''"
| "message_event_name (WatchDeleted _ _ _) = ''watch_deleted''"
| "message_event_name (CriEvent _ _ _) = ''cri_event''"
| "message_event_name (LifecycleCommand _ _) = ''lifecycle_command''"
| "message_event_name (NetworkAssigned _ _ _) = ''network_assigned''"
| "message_event_name (PodWorkCompleted _ _ _ _) = ''pod_work_completed''"
| "message_event_name (PodWorkFailed _ _ _ _ _) = ''pod_work_failed''"
| "message_event_name (SlotAdmissionGranted _ _ _ _ _) = ''slot_admission_granted''"
| "message_event_name (SlotAdmissionBlocked _ _ _ _) = ''slot_admission_blocked''"
| "message_event_name (SlotAdmissionWake _) = ''slot_admission_wake''"
| "message_event_name (ProbeResult _ _ _ _ _) = ''probe_result''"
| "message_event_name (RetryDue _) = ''retry_due''"
| "message_event_name (OrphanFinalize _ _) = ''orphan_finalize''"
| "message_event_name (ActiveDeadlineDue _) = ''active_deadline_due''"
| "message_event_name (DeletionDeadlineDue _ _) = ''deletion_deadline_due''"
| "message_event_name (ActorIdleGraceExpired _ _) = ''actor_idle_grace_expired''"

fun message_resource_version :: "lifecycle_message \<Rightarrow> int option"
where
  "message_resource_version (WatchAdded _ rv _) = rv"
| "message_resource_version (WatchModified _ rv _) = rv"
| "message_resource_version (WatchDeleted _ rv _) = rv"
| "message_resource_version (SlotAdmissionGranted _ _ _ rv _) = rv"
| "message_resource_version _ = None"

fun message_sandbox_id_hint :: "lifecycle_message \<Rightarrow> string option"
where
  "message_sandbox_id_hint (NetworkAssigned _ sandbox_id _) = Some sandbox_id"
| "message_sandbox_id_hint (PodWorkCompleted _ _ _ sandbox_id) = sandbox_id"
| "message_sandbox_id_hint _ = None"

fun idle_grace_generation :: "lifecycle_message \<Rightarrow> u64 option"
where
  "idle_grace_generation (ActorIdleGraceExpired _ generation) = Some generation"
| "idle_grace_generation _ = None"


fun deletion_deadline_generation_of :: "lifecycle_message \<Rightarrow> u64 option"
where
  "deletion_deadline_generation_of (DeletionDeadlineDue _ generation) = Some generation"
| "deletion_deadline_generation_of _ = None"


section \<open>Reconcile hints and observations\<close>

type_synonym container_events = "(string \<times> kubelet_event_kind) list"

record runtime_reconcile_hint =
  hint_container_events :: container_events

definition hint_none :: runtime_reconcile_hint
  where "hint_none = \<lparr>hint_container_events = []\<rparr>"

definition hint_from_container_event :: "string \<Rightarrow> kubelet_event_kind \<Rightarrow> runtime_reconcile_hint"
where
  "hint_from_container_event container_id kind =
    (if container_id = [] then hint_none
     else \<lparr>hint_container_events = om_insert container_id kind []\<rparr>)"

definition hint_from_container_id :: "string \<Rightarrow> runtime_reconcile_hint"
where
  "hint_from_container_id container_id =
    (if container_id = [] then hint_none
     else \<lparr>hint_container_events = om_insert container_id EventCreated []\<rparr>)"

definition with_container_event ::
  "runtime_reconcile_hint \<Rightarrow> string \<Rightarrow> kubelet_event_kind \<Rightarrow> runtime_reconcile_hint"
where
  "with_container_event hint container_id kind =
    (if container_id \<noteq> []
     then hint\<lparr>hint_container_events := om_insert container_id kind (hint_container_events hint)\<rparr>
     else hint)"

definition hint_from_container_ids :: "string list \<Rightarrow> runtime_reconcile_hint"
where
  "hint_from_container_ids ids =
    \<lparr>hint_container_events = om_insert_all (map (\<lambda>i. (i, EventCreated)) (filter (\<lambda>i. i \<noteq> []) ids)) []\<rparr>"

definition hint_container_ids :: "runtime_reconcile_hint \<Rightarrow> string list"
  where "hint_container_ids hint = map fst (hint_container_events hint)"

definition hint_event_kind :: "runtime_reconcile_hint \<Rightarrow> string \<Rightarrow> kubelet_event_kind option"
  where "hint_event_kind hint container_id = map_of (hint_container_events hint) container_id"

definition single_container_id :: "runtime_reconcile_hint \<Rightarrow> string option"
where
  "single_container_id hint =
    (case hint_container_events hint of [(container_id, _)] \<Rightarrow> Some container_id | _ \<Rightarrow> None)"

record runtime_reconcile_observations =
  obs_pod_uid :: string
  obs_container_events :: container_events
  obs_generation :: u64

definition observations_new :: "string \<Rightarrow> runtime_reconcile_observations"
where
  "observations_new pod_uid =
    \<lparr>obs_pod_uid = pod_uid, obs_container_events = [], obs_generation = 0\<rparr>"

definition from_checkpoint ::
  "string \<Rightarrow> string list \<Rightarrow> u64 \<Rightarrow> runtime_reconcile_observations"
where
  "from_checkpoint pod_uid container_ids generation =
    \<lparr>obs_pod_uid = pod_uid,
     obs_container_events =
       om_insert_all (map (\<lambda>i. (i, EventCreated)) (filter (\<lambda>i. i \<noteq> []) container_ids)) [],
     obs_generation = generation\<rparr>"

definition observe_event ::
  "string \<Rightarrow> kubelet_event_kind \<Rightarrow> runtime_reconcile_observations \<Rightarrow> runtime_reconcile_observations"
where
  "observe_event container_id kind obs =
    (if container_id = [] then obs
     else
       (let obs' = obs\<lparr>obs_container_events := om_insert container_id kind (obs_container_events obs)\<rparr>
        in if map_of (obs_container_events obs) container_id \<noteq> Some kind
           then obs'\<lparr>obs_generation := obs_generation obs' + 1\<rparr> else obs'))"

definition observe_id :: "string \<Rightarrow> runtime_reconcile_observations \<Rightarrow> runtime_reconcile_observations"
  where "observe_id container_id obs = observe_event container_id EventCreated obs"

definition observe_all ::
  "string list \<Rightarrow> runtime_reconcile_observations \<Rightarrow> runtime_reconcile_observations"
  where "observe_all ids obs = foldl (\<lambda>o' i. observe_id i o') obs ids"

definition observed_container_ids :: "runtime_reconcile_observations \<Rightarrow> string list"
  where "observed_container_ids obs = map fst (obs_container_events obs)"

definition drain_observations ::
  "runtime_reconcile_observations \<Rightarrow> container_events \<times> runtime_reconcile_observations"
where
  "drain_observations obs =
    (obs_container_events obs, obs\<lparr>obs_container_events := [], obs_generation := 0\<rparr>)"


section \<open>Retry delay\<close>

definition u64_max :: nat where "u64_max = 18446744073709551615"

definition u32_max :: nat where "u32_max = 4294967295"

definition saturating_mul_u64 :: "nat \<Rightarrow> nat \<Rightarrow> nat"
  where "saturating_mul_u64 a b = min u64_max (a * b)"

text \<open>\<^verbatim>\<open>2_u64.saturating_pow(n)\<close>: from \<open>n = 64\<close> on the power exceeds the bound.\<close>

definition saturating_pow2_u64 :: "nat \<Rightarrow> nat"
  where "saturating_pow2_u64 n = (if 64 \<le> n then u64_max else min u64_max (2 ^ n))"

definition retry_backoff :: "nat \<Rightarrow> nat"
where
  "retry_backoff attempts =
    max 2 (min 60 (saturating_mul_u64 2 (saturating_pow2_u64 (attempts - 1))))"


section \<open>Actions\<close>

datatype pod_stop_mode = Graceful | Forced

datatype pod_action =
    StartPod pod_lifecycle_key "json option" u64
  | CheckSlotAdmission pod_lifecycle_key json "int option" bool u64
  | StopPod pod_lifecycle_key "json option" string "instant option" pod_stop_mode u64
  | FinalizePodDeletion pod_lifecycle_key u64
  | FinalizeStartup pod_lifecycle_key "json option" string u64
  | ReconcileRuntime pod_lifecycle_key runtime_reconcile_hint u64
  | ReconcileCriLeftovers pod_lifecycle_key u64
  | HandleCommand pod_lifecycle_key lifecycle_command u64
  | ReconcileEphemeral pod_lifecycle_key "json option" u64
  | ScheduleRetry pod_lifecycle_key nat
  | ScheduleStartPodRetry pod_lifecycle_key nat string nat
  | Noop

fun action_key :: "pod_action \<Rightarrow> pod_lifecycle_key option"
where
  "action_key (StartPod key _ _) = Some key"
| "action_key (CheckSlotAdmission key _ _ _ _) = Some key"
| "action_key (StopPod key _ _ _ _ _) = Some key"
| "action_key (FinalizePodDeletion key _) = Some key"
| "action_key (FinalizeStartup key _ _ _) = Some key"
| "action_key (ReconcileRuntime key _ _) = Some key"
| "action_key (ReconcileCriLeftovers key _) = Some key"
| "action_key (HandleCommand key _ _) = Some key"
| "action_key (ReconcileEphemeral key _ _) = Some key"
| "action_key (ScheduleRetry key _) = Some key"
| "action_key (ScheduleStartPodRetry key _ _ _) = Some key"
| "action_key Noop = None"

fun action_operation_id :: "pod_action \<Rightarrow> u64 option"
where
  "action_operation_id (StartPod _ _ n) = Some n"
| "action_operation_id (CheckSlotAdmission _ _ _ _ n) = Some n"
| "action_operation_id (StopPod _ _ _ _ _ n) = Some n"
| "action_operation_id (FinalizePodDeletion _ n) = Some n"
| "action_operation_id (FinalizeStartup _ _ _ n) = Some n"
| "action_operation_id (ReconcileRuntime _ _ n) = Some n"
| "action_operation_id (ReconcileCriLeftovers _ n) = Some n"
| "action_operation_id (HandleCommand _ _ n) = Some n"
| "action_operation_id (ReconcileEphemeral _ _ n) = Some n"
| "action_operation_id _ = None"

fun expected_completion :: "pod_action \<Rightarrow> pod_lifecycle_work_kind option"
where
  "expected_completion (StartPod _ _ _) = Some StartPodWork"
| "expected_completion (CheckSlotAdmission _ _ _ _ _) = Some CheckSlotAdmissionWork"
| "expected_completion (StopPod _ _ _ _ _ _) = Some StopPodWork"
| "expected_completion (FinalizePodDeletion _ _) = Some FinalizePodDeletionWork"
| "expected_completion (FinalizeStartup _ _ _ _) = Some FinalizeStartupWork"
| "expected_completion (ReconcileRuntime _ _ _) = Some ReconcileRuntimeWork"
| "expected_completion (ReconcileCriLeftovers _ _) = Some ReconcileCriLeftoversWork"
| "expected_completion (HandleCommand _ _ _) = Some HandleCommandWork"
| "expected_completion (ReconcileEphemeral _ _ _) = Some ReconcileEphemeralWork"
| "expected_completion _ = None"

fun task_name :: "pod_action \<Rightarrow> string"
where
  "task_name (StartPod _ _ _) = ''executor_start_pod''"
| "task_name (CheckSlotAdmission _ _ _ _ _) = ''executor_check_slot_admission''"
| "task_name (StopPod _ _ _ _ _ _) = ''executor_stop_pod''"
| "task_name (FinalizePodDeletion _ _) = ''executor_finalize_pod_deletion''"
| "task_name (FinalizeStartup _ _ _ _) = ''executor_finalize_startup''"
| "task_name (ReconcileRuntime _ _ _) = ''executor_reconcile_runtime''"
| "task_name (ReconcileCriLeftovers _ _) = ''executor_reconcile_cri_leftovers''"
| "task_name (HandleCommand _ _ _) = ''executor_handle_command''"
| "task_name (ReconcileEphemeral _ _ _) = ''executor_reconcile_ephemeral''"
| "task_name (ScheduleRetry _ _) = ''executor_schedule_retry''"
| "task_name (ScheduleStartPodRetry _ _ _ _) = ''executor_schedule_start_pod_retry''"
| "task_name Noop = ''executor_noop''"

definition is_noop :: "pod_action \<Rightarrow> bool"
  where "is_noop action \<longleftrightarrow> action = Noop"

text \<open>The failure message for an action that could not be dispatched, given the text of the error.\<close>

definition failure_synthesizer :: "pod_action \<Rightarrow> (string \<Rightarrow> lifecycle_message) option"
where
  "failure_synthesizer action =
    (case (expected_completion action, action_operation_id action, action_key action) of
       (Some kind, Some op_id, Some key) \<Rightarrow>
         Some (\<lambda>err. PodWorkFailed key op_id kind False (DispatchFailed err))
     | _ \<Rightarrow> None)"


section \<open>State\<close>

datatype pod_phase = Created | PendingStart | Starting | Running | Stopping | Terminated

record pod_deletion_deadline_state =
  dd_uid :: string
  dd_deadline :: instant
  dd_generation :: u64
  dd_fired :: bool
  dd_forced :: bool

record pending_replacement =
  pr_key :: pod_lifecycle_key
  pr_pod :: json
  pr_resource_version :: "int option"

record pending_start_pod =
  ps_key :: pod_lifecycle_key
  ps_pod :: json
  ps_resource_version :: "int option"
  ps_start_after_admit :: bool

record pending_stop_pod =
  px_key :: pod_lifecycle_key
  px_pod :: "json option"
  px_sandbox_id :: string
  px_deletion_deadline :: "instant option"
  px_mode :: pod_stop_mode

record pending_ephemeral_reconcile =
  pe_key :: pod_lifecycle_key
  pe_pod :: json
  pe_resource_version :: "int option"

record in_flight_work =
  ifw_uid :: string
  ifw_kind :: pod_lifecycle_work_kind
  ifw_operation_id :: u64

record pod_lifecycle_state =
  pl_phase :: pod_phase
  pl_sandbox_id :: "string option"
  pl_active_uid :: "string option"
  pl_admitted_slot_uid :: "string option"
  pl_active_sandbox_id :: "string option"
  pl_pending_replacement :: "pending_replacement option"
  pl_pending_start_pod :: "pending_start_pod option"
  pl_pending_stop_pod :: "pending_stop_pod option"
  pl_pending_ephemeral_reconcile :: "pending_ephemeral_reconcile option"
  pl_slot_admission_waiting :: bool
  pl_in_flight :: "in_flight_work option"
  pl_finalized :: bool
  pl_operation_id :: u64
  pl_work_in_flight :: "u64 option"
  pl_retry_attempts :: nat
  pl_last_resource_version :: "int option"
  pl_pending_runtime_reconcile :: bool
  pl_runtime_reconcile_observations :: runtime_reconcile_observations
  pl_pending_startup_finalization_retry :: bool
  pl_pending_delete_finalization_retry :: bool
  pl_deletion_deadline :: "pod_deletion_deadline_state option"
  pl_deletion_deadline_generation :: u64
  pl_cancelled_operations :: "u64 list"

definition pod_lifecycle_state_new :: pod_lifecycle_state
where
  "pod_lifecycle_state_new =
    \<lparr>pl_phase = Created, pl_sandbox_id = None, pl_active_uid = None, pl_admitted_slot_uid = None,
     pl_active_sandbox_id = None, pl_pending_replacement = None, pl_pending_start_pod = None,
     pl_pending_stop_pod = None, pl_pending_ephemeral_reconcile = None,
     pl_slot_admission_waiting = False, pl_in_flight = None, pl_finalized = False,
     pl_operation_id = 0, pl_work_in_flight = None, pl_retry_attempts = 0,
     pl_last_resource_version = None, pl_pending_runtime_reconcile = False,
     pl_runtime_reconcile_observations = observations_new [],
     pl_pending_startup_finalization_retry = False, pl_pending_delete_finalization_retry = False,
     pl_deletion_deadline = None, pl_deletion_deadline_generation = 0, pl_cancelled_operations = []\<rparr>"

definition next_operation_id :: "pod_lifecycle_state \<Rightarrow> u64 \<times> pod_lifecycle_state"
where
  "next_operation_id s =
    (let s' = s\<lparr>pl_operation_id := pl_operation_id s + 1\<rparr> in (pl_operation_id s', s'))"

definition active_uid_matches :: "string \<Rightarrow> pod_lifecycle_state \<Rightarrow> bool"
  where "active_uid_matches uid s \<longleftrightarrow> pl_active_uid s = Some uid"

definition admit_uid :: "string \<Rightarrow> pod_lifecycle_state \<Rightarrow> pod_lifecycle_state"
where
  "admit_uid uid s =
    s\<lparr>pl_active_uid := Some uid, pl_active_sandbox_id := None, pl_sandbox_id := None,
      pl_pending_replacement := None, pl_pending_start_pod := None, pl_pending_stop_pod := None,
      pl_pending_ephemeral_reconcile := None, pl_slot_admission_waiting := False,
      pl_in_flight := None, pl_work_in_flight := None, pl_finalized := False, pl_retry_attempts := 0,
      pl_pending_runtime_reconcile := False,
      pl_runtime_reconcile_observations := observations_new uid,
      pl_pending_startup_finalization_retry := False, pl_pending_delete_finalization_retry := False,
      pl_deletion_deadline := None, pl_phase := Created\<rparr>"

definition observe_deletion_deadline ::
  "string \<Rightarrow> instant \<Rightarrow> pod_lifecycle_state \<Rightarrow> u64 \<times> pod_lifecycle_state"
where
  "observe_deletion_deadline uid deadline s =
    (let fresh =
       (let generation = pl_deletion_deadline_generation s + 1 in
        (generation,
         s\<lparr>pl_deletion_deadline_generation := generation,
           pl_deletion_deadline :=
             Some \<lparr>dd_uid = uid, dd_deadline = deadline, dd_generation = generation,
                   dd_fired = False, dd_forced = False\<rparr>\<rparr>))
     in case pl_deletion_deadline s of
          Some current \<Rightarrow>
            if dd_uid current = uid \<and> deadline \<ge> dd_deadline current then (dd_generation current, s)
            else fresh
        | None \<Rightarrow> fresh)"

definition clear_deletion_deadline :: "pod_lifecycle_state \<Rightarrow> pod_lifecycle_state"
  where "clear_deletion_deadline s = s\<lparr>pl_deletion_deadline := None\<rparr>"

definition fire_deletion_deadline ::
  "string \<Rightarrow> u64 \<Rightarrow> pod_lifecycle_state \<Rightarrow> bool \<times> pod_lifecycle_state"
where
  "fire_deletion_deadline uid generation s =
    (case pl_deletion_deadline s of
       None \<Rightarrow> (False, s)
     | Some deadline \<Rightarrow>
         if dd_uid deadline \<noteq> uid \<or> dd_generation deadline \<noteq> generation \<or> dd_fired deadline
         then (False, s)
         else (True, s\<lparr>pl_deletion_deadline := Some (deadline\<lparr>dd_fired := True, dd_forced := True\<rparr>)\<rparr>))"

definition set_pending_start_pod ::
  "pod_lifecycle_key \<Rightarrow> json \<Rightarrow> int option \<Rightarrow> bool \<Rightarrow> pod_lifecycle_state \<Rightarrow> pod_lifecycle_state"
where
  "set_pending_start_pod key pod resource_version start_after_admit s =
    s\<lparr>pl_pending_start_pod :=
        Some \<lparr>ps_key = key, ps_pod = pod, ps_resource_version = resource_version,
              ps_start_after_admit = start_after_admit\<rparr>\<rparr>"

definition update_pending_start_pod_if_newer ::
  "pod_lifecycle_key \<Rightarrow> json \<Rightarrow> int option \<Rightarrow> bool \<Rightarrow> pod_lifecycle_state \<Rightarrow> pod_lifecycle_state"
where
  "update_pending_start_pod_if_newer key pod resource_version start_after_admit s =
    (let should_replace =
       (case pl_pending_start_pod s of
          Some current \<Rightarrow>
            if plk_uid (ps_key current) = plk_uid key then
              (case (ps_resource_version current, resource_version) of
                 (Some current_rv, Some new_rv) \<Rightarrow> new_rv \<ge> current_rv
               | (None, Some _) \<Rightarrow> True
               | _ \<Rightarrow> False)
            else True
        | None \<Rightarrow> True)
     in if should_replace then set_pending_start_pod key pod resource_version start_after_admit s else s)"

definition set_pending_replacement ::
  "pod_lifecycle_key \<Rightarrow> json \<Rightarrow> int option \<Rightarrow> pod_lifecycle_state \<Rightarrow> pod_lifecycle_state"
where
  "set_pending_replacement key pod resource_version s =
    s\<lparr>pl_pending_replacement :=
        Some \<lparr>pr_key = key, pr_pod = pod, pr_resource_version = resource_version\<rparr>\<rparr>"

definition drop_pending_replacement_if_uid :: "string \<Rightarrow> pod_lifecycle_state \<Rightarrow> pod_lifecycle_state"
where
  "drop_pending_replacement_if_uid uid s =
    (if is_some_and (pl_pending_replacement s) (\<lambda>pending. plk_uid (pr_key pending) = uid)
     then s\<lparr>pl_pending_replacement := None\<rparr> else s)"

definition update_pending_ephemeral_reconcile_if_newer ::
  "pod_lifecycle_key \<Rightarrow> json \<Rightarrow> int option \<Rightarrow> pod_lifecycle_state \<Rightarrow> pod_lifecycle_state"
where
  "update_pending_ephemeral_reconcile_if_newer key pod resource_version s =
    (let should_replace =
       (case pl_pending_ephemeral_reconcile s of
          Some current \<Rightarrow>
            if plk_uid (pe_key current) = plk_uid key then
              (case (pe_resource_version current, resource_version) of
                 (Some current_rv, Some new_rv) \<Rightarrow> new_rv \<ge> current_rv
               | (None, Some _) \<Rightarrow> True
               | (Some _, None) \<Rightarrow> False
               | (None, None) \<Rightarrow> True)
            else True
        | None \<Rightarrow> True)
     in if should_replace
        then s\<lparr>pl_pending_ephemeral_reconcile :=
                 Some \<lparr>pe_key = key, pe_pod = pod, pe_resource_version = resource_version\<rparr>\<rparr>
        else s)"

definition drop_pending_ephemeral_reconcile_if_uid ::
  "string \<Rightarrow> pod_lifecycle_state \<Rightarrow> pod_lifecycle_state"
where
  "drop_pending_ephemeral_reconcile_if_uid uid s =
    (if is_some_and (pl_pending_ephemeral_reconcile s) (\<lambda>pending. plk_uid (pe_key pending) = uid)
     then s\<lparr>pl_pending_ephemeral_reconcile := None\<rparr> else s)"

definition record_in_flight ::
  "string \<Rightarrow> pod_lifecycle_work_kind \<Rightarrow> u64 \<Rightarrow> pod_lifecycle_state \<Rightarrow> pod_lifecycle_state"
where
  "record_in_flight uid kind operation_id s =
    s\<lparr>pl_work_in_flight := Some operation_id,
      pl_in_flight := Some \<lparr>ifw_uid = uid, ifw_kind = kind, ifw_operation_id = operation_id\<rparr>\<rparr>"

definition in_flight_matches ::
  "string \<Rightarrow> u64 \<Rightarrow> pod_lifecycle_work_kind \<Rightarrow> pod_lifecycle_state \<Rightarrow> bool"
where
  "in_flight_matches uid operation_id kind s \<longleftrightarrow>
    is_some_and (pl_in_flight s)
      (\<lambda>work. ifw_uid work = uid \<and> ifw_operation_id work = operation_id \<and> ifw_kind work = kind)"

definition in_flight_kind_for_uid :: "string \<Rightarrow> pod_lifecycle_state \<Rightarrow> pod_lifecycle_work_kind option"
where
  "in_flight_kind_for_uid uid s =
    (case pl_in_flight s of
       Some work \<Rightarrow> if ifw_uid work = uid then Some (ifw_kind work) else None
     | None \<Rightarrow> None)"

definition clear_in_flight :: "pod_lifecycle_state \<Rightarrow> pod_lifecycle_state"
  where "clear_in_flight s = s\<lparr>pl_work_in_flight := None, pl_in_flight := None\<rparr>"

definition cancel_in_flight :: "pod_lifecycle_state \<Rightarrow> pod_lifecycle_state"
where
  "cancel_in_flight s =
    (let s' = (case pl_in_flight s of
                 Some work \<Rightarrow>
                   s\<lparr>pl_in_flight := None,
                     pl_cancelled_operations := pl_cancelled_operations s @ [ifw_operation_id work]\<rparr>
               | None \<Rightarrow> s)
     in s'\<lparr>pl_work_in_flight := None\<rparr>)"

definition complete_matching_work ::
  "string \<Rightarrow> u64 \<Rightarrow> pod_lifecycle_work_kind \<Rightarrow> pod_lifecycle_state \<Rightarrow> bool \<times> pod_lifecycle_state"
where
  "complete_matching_work uid operation_id kind s =
    (if \<not> in_flight_matches uid operation_id kind s then (False, s) else (True, clear_in_flight s))"

definition next_start_retry_delay :: "pod_lifecycle_state \<Rightarrow> nat \<times> pod_lifecycle_state"
where
  "next_start_retry_delay s =
    (let s' = s\<lparr>pl_retry_attempts := min u32_max (pl_retry_attempts s + 1)\<rparr>
     in (retry_backoff (pl_retry_attempts s'), s'))"

definition reset_start_retry_attempts :: "pod_lifecycle_state \<Rightarrow> pod_lifecycle_state"
  where "reset_start_retry_attempts s = s\<lparr>pl_retry_attempts := 0\<rparr>"

definition try_start_work :: "pod_lifecycle_state \<Rightarrow> u64 option \<times> pod_lifecycle_state"
where
  "try_start_work s =
    (if pl_work_in_flight s \<noteq> None \<or> pl_in_flight s \<noteq> None then (None, s)
     else (let (i, s') = next_operation_id s in (Some i, s'\<lparr>pl_work_in_flight := Some i\<rparr>)))"

definition complete_work :: "u64 \<Rightarrow> pod_lifecycle_state \<Rightarrow> bool \<times> pod_lifecycle_state"
where
  "complete_work operation_id s =
    (if pl_work_in_flight s = Some operation_id then (True, clear_in_flight s) else (False, s))"

definition is_terminal :: "pod_lifecycle_state \<Rightarrow> bool"
  where "is_terminal s \<longleftrightarrow> pl_phase s = Terminated"

definition update_resource_version :: "int option \<Rightarrow> pod_lifecycle_state \<Rightarrow> pod_lifecycle_state"
where
  "update_resource_version rv s =
    (case (pl_last_resource_version s, rv) of
       (Some current, Some new) \<Rightarrow>
         if new > current then s\<lparr>pl_last_resource_version := Some new\<rparr> else s
     | (None, some) \<Rightarrow> s\<lparr>pl_last_resource_version := some\<rparr>
     | _ \<Rightarrow> s)"

definition is_stale_resource_version :: "int option \<Rightarrow> pod_lifecycle_state \<Rightarrow> bool"
where
  "is_stale_resource_version rv s \<longleftrightarrow>
    (case (pl_last_resource_version s, rv) of
       (Some current, Some new) \<Rightarrow> new \<le> current
     | _ \<Rightarrow> False)"

datatype finalization_action = RunFinalizers | AlreadyFinalized

definition on_started :: "string \<Rightarrow> pod_lifecycle_state \<Rightarrow> finalization_action \<times> pod_lifecycle_state"
where
  "on_started sandbox_id s =
    (if pl_sandbox_id s = Some sandbox_id \<and> pl_finalized s then (AlreadyFinalized, s)
     else (RunFinalizers,
           s\<lparr>pl_sandbox_id := Some sandbox_id, pl_active_sandbox_id := Some sandbox_id,
             pl_finalized := False, pl_pending_startup_finalization_retry := False\<rparr>))"

definition defer_runtime_reconcile :: "string option \<Rightarrow> pod_lifecycle_state \<Rightarrow> pod_lifecycle_state"
where
  "defer_runtime_reconcile container_id s =
    (let s' = s\<lparr>pl_pending_runtime_reconcile := True\<rparr> in
     case container_id of
       Some i \<Rightarrow>
         if i \<noteq> []
         then s'\<lparr>pl_runtime_reconcile_observations :=
                   observe_id i (pl_runtime_reconcile_observations s')\<rparr>
         else s'
     | None \<Rightarrow> s')"

definition defer_runtime_reconcile_event ::
  "string \<Rightarrow> kubelet_event_kind \<Rightarrow> pod_lifecycle_state \<Rightarrow> pod_lifecycle_state"
where
  "defer_runtime_reconcile_event container_id kind s =
    s\<lparr>pl_pending_runtime_reconcile := True,
      pl_runtime_reconcile_observations :=
        observe_event container_id kind (pl_runtime_reconcile_observations s)\<rparr>"

definition restore_runtime_reconcile_observations ::
  "string \<Rightarrow> string list \<Rightarrow> u64 \<Rightarrow> pod_lifecycle_state \<Rightarrow> pod_lifecycle_state"
where
  "restore_runtime_reconcile_observations pod_uid container_ids generation s =
    (let observations =
       observe_all (observed_container_ids (pl_runtime_reconcile_observations s))
         (from_checkpoint pod_uid container_ids generation)
     in if obs_container_events observations = [] then s
        else s\<lparr>pl_pending_runtime_reconcile := True, pl_runtime_reconcile_observations := observations\<rparr>)"

definition has_pending_ephemeral_reconcile :: "pod_lifecycle_state \<Rightarrow> bool"
  where "has_pending_ephemeral_reconcile s \<longleftrightarrow> pl_pending_ephemeral_reconcile s \<noteq> None"

definition take_runtime_reconcile_hint ::
  "pod_lifecycle_state \<Rightarrow> runtime_reconcile_hint \<times> pod_lifecycle_state"
where
  "take_runtime_reconcile_hint s =
    (if \<not> pl_pending_runtime_reconcile s then (hint_none, s)
     else
       (let (events, observations) = drain_observations (pl_runtime_reconcile_observations s);
            hint = foldl (\<lambda>h e. with_container_event h (fst e) (snd e)) hint_none events
        in (hint, s\<lparr>pl_pending_runtime_reconcile := False,
                    pl_runtime_reconcile_observations := observations\<rparr>)))"


section \<open>Trace ring\<close>

record lifecycle_trace_entry =
  te_key :: pod_lifecycle_key
  te_event :: string
  te_resource_version :: "int option"
  te_sandbox_id :: "string option"
  te_detail :: string

record lifecycle_trace_ring =
  tr_capacity :: nat
  tr_entries :: "lifecycle_trace_entry list"

definition trace_ring_new :: "nat \<Rightarrow> lifecycle_trace_ring"
  where "trace_ring_new capacity = \<lparr>tr_capacity = max capacity 1, tr_entries = []\<rparr>"

text \<open>The loop drops entries from the front while the ring is full.\<close>

definition trace_record :: "lifecycle_trace_entry \<Rightarrow> lifecycle_trace_ring \<Rightarrow> lifecycle_trace_ring"
where
  "trace_record entry ring =
    ring\<lparr>tr_entries := drop (Suc (length (tr_entries ring)) - tr_capacity ring) (tr_entries ring) @ [entry]\<rparr>"

definition trace_entries_for :: "pod_lifecycle_key \<Rightarrow> lifecycle_trace_ring \<Rightarrow> lifecycle_trace_entry list"
  where "trace_entries_for key ring = filter (\<lambda>entry. te_key entry = key) (tr_entries ring)"

text \<open>The ring holds the latest entries, as many as its capacity.\<close>

lemma trace_ring_latest:
  "tr_entries (foldl (\<lambda>ring entry. trace_record entry ring) (trace_ring_new capacity) entries) =
    drop (length entries - max capacity 1) entries
   \<and> tr_capacity (foldl (\<lambda>ring entry. trace_record entry ring) (trace_ring_new capacity) entries) = max capacity 1"
proof (induction entries rule: rev_induct)
  case Nil
  then show ?case by (simp add: trace_ring_new_def)
next
  case (snoc e es)
  let ?n = "max capacity 1" and ?k = "length es - max capacity 1"
  have "drop (Suc (length (drop ?k es)) - ?n) (drop ?k es) @ [e] = drop (length (es @ [e]) - ?n) (es @ [e])"
    by (cases "length es < ?n") (simp_all add: Suc_diff_le not_less)
  then show ?case
    using snoc by (simp add: trace_record_def)
qed


section \<open>Facts about the state\<close>

lemma retry_backoff_eq: "retry_backoff n = (if n = 0 then 2 else min 60 (2 ^ n))"
proof (cases "n < 7")
  case True
  then have "n \<in> {0, 1, 2, 3, 4, 5, 6}" by auto
  then show ?thesis
    by (auto simp: retry_backoff_def saturating_mul_u64_def saturating_pow2_u64_def u64_max_def)
next
  case False
  then have "(2 :: nat) ^ 6 \<le> 2 ^ (n - 1)"
    by (intro power_increasing) auto
  moreover have "(2 :: nat) ^ 6 \<le> 2 ^ n"
    using False by (intro power_increasing) auto
  ultimately show ?thesis
    using False by (auto simp: retry_backoff_def saturating_mul_u64_def saturating_pow2_u64_def u64_max_def)
qed

text \<open>C37: Start retries back off exponentially and stay bounded. The delay before the next attempt is two
  seconds after the first failure, doubles with every further one, and is never shorter than two seconds nor
  longer than a minute, also when the 32-bit attempt counter has reached its end.\<close>

theorem start_retry_delay_bounds:
  "next_start_retry_delay s =
     (min 60 (2 ^ Suc (pl_retry_attempts s)), s\<lparr>pl_retry_attempts := min u32_max (Suc (pl_retry_attempts s))\<rparr>)
   \<and> 2 \<le> fst (next_start_retry_delay s) \<and> fst (next_start_retry_delay s) \<le> 60"
proof -
  define k where "k = min u32_max (Suc (pl_retry_attempts s))"
  have pos: "k \<noteq> 0"
    by (simp add: k_def u32_max_def)
  have same: "min 60 ((2 :: nat) ^ k) = min 60 (2 ^ Suc (pl_retry_attempts s))"
  proof (cases "Suc (pl_retry_attempts s) \<le> u32_max")
    case True
    then show ?thesis by (simp add: k_def)
  next
    case False
    have "(2 :: nat) ^ 6 \<le> 2 ^ k" and "(2 :: nat) ^ 6 \<le> 2 ^ Suc (pl_retry_attempts s)"
      using False by (intro power_increasing; simp add: k_def u32_max_def)+
    then show ?thesis by simp
  qed
  have "(2 :: nat) ^ 1 \<le> 2 ^ Suc (pl_retry_attempts s)"
    by (intro power_increasing) auto
  then show ?thesis
    using pos same by (simp add: next_start_retry_delay_def Let_def retry_backoff_eq k_def [symmetric])
qed

text \<open>The observations hold one entry per container, and none for the empty id.\<close>

definition observations_wf :: "runtime_reconcile_observations \<Rightarrow> bool"
where
  "observations_wf obs \<longleftrightarrow>
    om_wf (obs_container_events obs) \<and> map_of (obs_container_events obs) [] = None"

lemma observations_wf_new [simp, wf_intros]: "observations_wf (observations_new uid)"
  by (simp add: observations_wf_def observations_new_def)

lemma observations_wf_observe [simp, wf_intros]:
  "observations_wf obs \<Longrightarrow> observations_wf (observe_event cid kind obs)"
  by (simp add: observations_wf_def observe_event_def Let_def)

lemma observe_event_lookup:
  "map_of (obs_container_events (observe_event cid kind obs)) =
    (if cid = [] then map_of (obs_container_events obs)
     else (map_of (obs_container_events obs))(cid \<mapsto> kind))"
  by (simp add: observe_event_def Let_def)

lemma hint_of_events:
  "hint_container_events (foldl (\<lambda>h e. with_container_event h (fst e) (snd e)) h es) =
    om_insert_all (filter (\<lambda>e. fst e \<noteq> []) es) (hint_container_events h)"
  by (induction es arbitrary: h) (simp_all add: with_container_event_def om_insert_all_def)

text \<open>Draining the observations hands on exactly what was observed.\<close>

lemma take_hint_exact:
  assumes "observations_wf (pl_runtime_reconcile_observations s)" and "pl_pending_runtime_reconcile s"
  shows "hint_container_events (fst (take_runtime_reconcile_hint s)) =
    obs_container_events (pl_runtime_reconcile_observations s)"
proof (rule om_wf_ext)
  let ?es = "obs_container_events (pl_runtime_reconcile_observations s)"
  have taken: "hint_container_events (fst (take_runtime_reconcile_hint s)) =
      om_insert_all (filter (\<lambda>e. fst e \<noteq> []) ?es) []"
    using assms(2)
    by (simp add: take_runtime_reconcile_hint_def drain_observations_def hint_of_events hint_none_def Let_def)
  have "[] \<notin> fst ` set ?es"
    using assms(1) by (simp add: observations_wf_def map_of_eq_None_iff)
  then have all: "filter (\<lambda>e. fst e \<noteq> []) ?es = ?es"
    by (intro filter_True) force
  show "om_wf (hint_container_events (fst (take_runtime_reconcile_hint s)))"
    by (simp add: taken)
  show "om_wf ?es"
    using assms(1) by (simp add: observations_wf_def)
  have "distinct (map fst ?es)"
    using assms(1) by (simp add: observations_wf_def om_wf_distinct)
  then show "map_of (hint_container_events (fst (take_runtime_reconcile_hint s))) = map_of ?es"
    by (simp add: taken all map_of_rev_distinct)
qed

end
