(* ===== verification/Pod_Actor.thy ===== *)
theory Pod_Actor
  imports Pod_Lifecycle
begin

text \<open>
  The Pod actor of the kubelet (\<^verbatim>\<open>klights-kubelet/src/pod_lifecycle_actor/actor.rs\<close>): the synchronous
  state machine \<^verbatim>\<open>handle\<close> that decides one action per message, with every helper it calls. The
  mailbox loop, the tracing, the timers and the executor are outside; what reaches the machine from
  there is a message. The wall clock, the RFC 3339 parser of \<^verbatim>\<open>chrono\<close> and the JSON printer of
  \<^verbatim>\<open>serde_json\<close> are given by the environment of a step.
\<close>

section \<open>Reading Pod documents\<close>

record actor_env =
  env_now :: instant
  env_rfc3339 :: "string \<Rightarrow> instant option"
  env_json_text :: "json \<Rightarrow> string"

definition pod_has_ephemeral_containers :: "json \<Rightarrow> bool"
where
  "pod_has_ephemeral_containers pod =
    is_some_and (Option.bind (pointer [''spec'', ''ephemeralContainers''] pod) as_array)
      (\<lambda>containers. containers \<noteq> [])"

text \<open>The pointer \<^verbatim>\<open>/status/podIPs/0/ip\<close>: the token \<^verbatim>\<open>0\<close> is an index into an array and a key of an
  object.\<close>

definition first_pod_ip :: "json \<Rightarrow> json option"
where
  "first_pod_ip pod =
    (case pointer [''status'', ''podIPs''] pod of
       Some (JArray (v # _)) \<Rightarrow> jget ''ip'' v
     | Some (JObject m) \<Rightarrow> pointer [''0'', ''ip''] (JObject m)
     | _ \<Rightarrow> None)"

definition pod_has_published_startup_runtime_state :: "json \<Rightarrow> bool"
where
  "pod_has_published_startup_runtime_state pod =
    (if str_at [''status'', ''phase''] pod \<noteq> Some ''Running'' then False
     else is_some_and (str_at [''status'', ''podIP''] pod) (\<lambda>ip. \<not> is_blank ip)
       \<or> is_some_and (Option.bind (first_pod_ip pod) as_str) (\<lambda>ip. \<not> is_blank ip))"

definition pod_is_node_lost_terminal :: "json \<Rightarrow> bool"
where
  "pod_is_node_lost_terminal pod \<longleftrightarrow>
    str_at [''status'', ''phase''] pod = Some ''Failed'' \<and>
    str_at [''status'', ''reason''] pod = Some ''NodeLost''"

definition pod_running_sandbox_id_for_finalization :: "json \<Rightarrow> string option"
where
  "pod_running_sandbox_id_for_finalization pod =
    (if \<not> pod_has_published_startup_runtime_state pod then None
     else (case str_at [''metadata'', ''annotations'', ''klights.dev/sandbox-id''] pod of
             Some sandbox_id \<Rightarrow> if is_blank sandbox_id then None else Some sandbox_id
           | None \<Rightarrow> None))"

definition pod_pending_with_published_runtime_state :: "json \<Rightarrow> bool"
where
  "pod_pending_with_published_runtime_state pod =
    (if str_at [''status'', ''phase''] pod \<noteq> Some ''Pending'' then False
     else if \<not> is_some_and (str_at [''status'', ''podIP''] pod) (\<lambda>ip. \<not> is_blank ip) then False
     else is_some_and (Option.bind (pointer [''status'', ''containerStatuses''] pod) as_array)
       (\<lambda>statuses. statuses \<noteq> [] \<and>
          list_all (\<lambda>status. pointer [''state'', ''running''] status \<noteq> None \<and>
             Option.bind (jget ''started'' status) as_bool \<noteq> Some False) statuses))"

definition value_or_null :: "string list \<Rightarrow> json \<Rightarrow> json"
  where "value_or_null path pod = unwrap_or (pointer path pod) JNull"

definition pod_start_configuration :: "json \<Rightarrow> json"
where
  "pod_start_configuration pod =
    JObject
     [(''annotations'', value_or_null [''metadata'', ''annotations''] pod),
      (''containers'', value_or_null [''spec'', ''containers''] pod),
      (''initContainers'', value_or_null [''spec'', ''initContainers''] pod),
      (''labels'', value_or_null [''metadata'', ''labels''] pod),
      (''volumes'', value_or_null [''spec'', ''volumes''] pod)]"

definition pod_start_configuration_fingerprint :: "actor_env \<Rightarrow> json \<Rightarrow> string"
  where "pod_start_configuration_fingerprint env pod = env_json_text env (pod_start_configuration pod)"

definition pod_create_container_config_error_fingerprint :: "actor_env \<Rightarrow> json \<Rightarrow> string option"
where
  "pod_create_container_config_error_fingerprint env pod =
    (if str_at [''status'', ''phase''] pod \<noteq> Some ''Pending'' then None
     else if \<not> is_some_and (Option.bind (pointer [''status'', ''containerStatuses''] pod) as_array)
       (list_ex (\<lambda>status.
          str_at [''state'', ''waiting'', ''reason''] status = Some ''CreateContainerConfigError''))
     then None
     else Some (pod_start_configuration_fingerprint env pod))"


section \<open>The actor\<close>

record pod_lifecycle_actor =
  pa_slot :: "pod_slot_key option"
  pa_state :: pod_lifecycle_state
  pa_restart_reconciled :: bool
  pa_pending_restart_admission :: "lifecycle_message option"
  pa_last_config_error_retry_fingerprint :: "string option"
  pa_last_start_pod_configuration_fingerprint :: "string option"
  pa_slot_admission_gate_enabled :: bool
  pa_local_node_name :: "string option"

definition actor_new :: "pod_slot_key \<Rightarrow> string option \<Rightarrow> pod_lifecycle_actor"
where
  "actor_new slot local_node_name =
    \<lparr>pa_slot = Some slot, pa_state = pod_lifecycle_state_new, pa_restart_reconciled = False,
     pa_pending_restart_admission = None, pa_last_config_error_retry_fingerprint = None,
     pa_last_start_pod_configuration_fingerprint = None, pa_slot_admission_gate_enabled = True,
     pa_local_node_name = local_node_name\<rparr>"

text \<open>A change of the actor's Pod state.\<close>

definition on_state ::
  "(pod_lifecycle_state \<Rightarrow> pod_lifecycle_state) \<Rightarrow> pod_lifecycle_actor \<Rightarrow> pod_lifecycle_actor"
  where "on_state f a = a\<lparr>pa_state := f (pa_state a)\<rparr>"

definition set_phase :: "pod_phase \<Rightarrow> pod_lifecycle_actor \<Rightarrow> pod_lifecycle_actor"
  where "set_phase ph = on_state (\<lambda>s. s\<lparr>pl_phase := ph\<rparr>)"

abbreviation phase :: "pod_lifecycle_actor \<Rightarrow> pod_phase"
  where "phase a \<equiv> pl_phase (pa_state a)"

abbreviation active_uid :: "pod_lifecycle_actor \<Rightarrow> string option"
  where "active_uid a \<equiv> pl_active_uid (pa_state a)"

abbreviation in_flight :: "pod_lifecycle_actor \<Rightarrow> in_flight_work option"
  where "in_flight a \<equiv> pl_in_flight (pa_state a)"

type_synonym decision = "pod_lifecycle_actor \<times> pod_action"

definition active_uid_is :: "pod_lifecycle_key \<Rightarrow> pod_lifecycle_actor \<Rightarrow> bool"
  where "active_uid_is key a = active_uid_matches (plk_uid key) (pa_state a)"

definition in_flight_kind :: "pod_lifecycle_key \<Rightarrow> pod_lifecycle_actor \<Rightarrow> pod_lifecycle_work_kind option"
  where "in_flight_kind key a = in_flight_kind_for_uid (plk_uid key) (pa_state a)"

definition observe_local_deletion_deadline ::
  "actor_env \<Rightarrow> pod_lifecycle_key \<Rightarrow> json \<Rightarrow> pod_lifecycle_actor \<Rightarrow> pod_lifecycle_actor"
where
  "observe_local_deletion_deadline env key pod a =
    (let assigned_node =
       (case str_at [''spec'', ''nodeName''] pod of
          Some node \<Rightarrow> if is_blank node then None else Some node
        | None \<Rightarrow> None)
     in if assigned_node = None \<or> pa_local_node_name a = None \<or> assigned_node \<noteq> pa_local_node_name a
        then on_state clear_deletion_deadline a
        else
          (case pointer [''metadata'', ''deletionTimestamp''] pod of
             None \<Rightarrow> on_state clear_deletion_deadline a
           | Some timestamp \<Rightarrow>
               (let deadline = unwrap_or (Option.bind (as_str timestamp) (env_rfc3339 env)) (env_now env)
                in on_state (\<lambda>s. snd (observe_deletion_deadline (plk_uid key) deadline s)) a)))"

definition current_stop_context ::
  "pod_lifecycle_key \<Rightarrow> pod_lifecycle_actor \<Rightarrow> instant option \<times> pod_stop_mode"
where
  "current_stop_context key a =
    (case pl_deletion_deadline (pa_state a) of
       Some deadline \<Rightarrow>
         if dd_uid deadline = plk_uid key
         then (Some (dd_deadline deadline), if dd_forced deadline then Forced else Graceful)
         else (None, Forced)
     | None \<Rightarrow> (None, Forced))"

definition ensure_active_uid :: "pod_lifecycle_key \<Rightarrow> pod_lifecycle_actor \<Rightarrow> pod_lifecycle_actor"
where
  "ensure_active_uid key a =
    (if active_uid a = None then on_state (admit_uid (plk_uid key)) a else a)"

definition admit_replacement_uid :: "pod_lifecycle_key \<Rightarrow> pod_lifecycle_actor \<Rightarrow> pod_lifecycle_actor"
where
  "admit_replacement_uid key a =
    (on_state (\<lambda>s. admit_uid (plk_uid key) (cancel_in_flight s)) a)
      \<lparr>pa_last_config_error_retry_fingerprint := None,
       pa_last_start_pod_configuration_fingerprint := None\<rparr>"

definition next_work_operation ::
  "pod_lifecycle_key \<Rightarrow> pod_lifecycle_work_kind \<Rightarrow> pod_lifecycle_actor \<Rightarrow> u64 \<times> pod_lifecycle_actor"
where
  "next_work_operation key kind a =
    (let (operation_id, s) = next_operation_id (pa_state a)
     in (operation_id, a\<lparr>pa_state := record_in_flight (plk_uid key) kind operation_id s\<rparr>))"

definition start_pod_action ::
  "actor_env \<Rightarrow> pod_lifecycle_key \<Rightarrow> json option \<Rightarrow> pod_lifecycle_actor \<Rightarrow> decision"
where
  "start_pod_action env key pod a =
    (let a1 = a\<lparr>pa_last_start_pod_configuration_fingerprint :=
                  map_option (pod_start_configuration_fingerprint env) pod\<rparr>;
         (operation_id, a2) = next_work_operation key StartPodWork a1
     in (a2, StartPod key pod operation_id))"

definition check_slot_admission_action ::
  "pod_lifecycle_key \<Rightarrow> json \<Rightarrow> int option \<Rightarrow> bool \<Rightarrow> pod_lifecycle_actor \<Rightarrow> decision"
where
  "check_slot_admission_action key pod resource_version start_after_admit a =
    (let a1 = on_state (update_pending_start_pod_if_newer key pod resource_version start_after_admit) a;
         (operation_id, a2) = next_work_operation key CheckSlotAdmissionWork a1
     in (a2, CheckSlotAdmission key pod resource_version start_after_admit operation_id))"

definition stop_pod_action ::
  "pod_lifecycle_key \<Rightarrow> json option \<Rightarrow> string \<Rightarrow> instant option \<Rightarrow> pod_stop_mode
    \<Rightarrow> pod_lifecycle_actor \<Rightarrow> decision"
where
  "stop_pod_action key pod sandbox_id deletion_deadline mode a =
    (let a1 = on_state (\<lambda>s. snd (take_runtime_reconcile_hint s)) a;
         a2 = on_state (\<lambda>s. s\<lparr>pl_pending_stop_pod :=
                Some \<lparr>px_key = key, px_pod = pod, px_sandbox_id = sandbox_id,
                      px_deletion_deadline = deletion_deadline, px_mode = mode\<rparr>\<rparr>) a1;
         (operation_id, a3) = next_work_operation key StopPodWork a2
     in (a3, StopPod key pod sandbox_id deletion_deadline mode operation_id))"

definition finalize_pod_deletion_action :: "pod_lifecycle_key \<Rightarrow> pod_lifecycle_actor \<Rightarrow> decision"
where
  "finalize_pod_deletion_action key a =
    (let a1 = on_state (\<lambda>s. s\<lparr>pl_pending_delete_finalization_retry := False\<rparr>) a;
         (operation_id, a2) = next_work_operation key FinalizePodDeletionWork a1
     in (a2, FinalizePodDeletion key operation_id))"

definition stop_pod_completed_action :: "pod_lifecycle_key \<Rightarrow> pod_lifecycle_actor \<Rightarrow> decision"
where
  "stop_pod_completed_action key a =
    (let a1 = on_state cancel_in_flight a;
         a2 = on_state (\<lambda>s. s\<lparr>pl_pending_stop_pod := None\<rparr>) a1;
         a3 = on_state (drop_pending_ephemeral_reconcile_if_uid (plk_uid key)) a2;
         a4 = on_state (\<lambda>s. s\<lparr>pl_phase := Terminated, pl_active_uid := None,
                pl_admitted_slot_uid := None, pl_active_sandbox_id := None\<rparr>) a3;
         a5 = on_state clear_deletion_deadline a4
     in finalize_pod_deletion_action key a5)"

definition finalize_startup_action ::
  "pod_lifecycle_key \<Rightarrow> json option \<Rightarrow> string \<Rightarrow> pod_lifecycle_actor \<Rightarrow> decision"
where
  "finalize_startup_action key pod sandbox_id a =
    (let (operation_id, a1) = next_work_operation key FinalizeStartupWork a
     in (a1, FinalizeStartup key pod sandbox_id operation_id))"

definition reconcile_runtime_action ::
  "pod_lifecycle_key \<Rightarrow> runtime_reconcile_hint \<Rightarrow> pod_lifecycle_actor \<Rightarrow> decision"
where
  "reconcile_runtime_action key hint a =
    (let (operation_id, a1) = next_work_operation key ReconcileRuntimeWork a
     in (a1, ReconcileRuntime key hint operation_id))"

definition runtime_reconcile_action_or_defer ::
  "pod_lifecycle_key \<Rightarrow> string option \<Rightarrow> kubelet_event_kind option \<Rightarrow> pod_lifecycle_actor \<Rightarrow> decision"
where
  "runtime_reconcile_action_or_defer key container_id event_kind a =
    (if phase a = Stopping \<or> phase a = Terminated then (a, Noop)
     else if in_flight_kind key a \<noteq> None \<or> phase a = PendingStart \<or> phase a = Starting then
       (case (container_id, event_kind) of
          (Some cid, Some kind) \<Rightarrow> (on_state (defer_runtime_reconcile_event cid kind) a, Noop)
        | _ \<Rightarrow> (on_state (defer_runtime_reconcile container_id) a, Noop))
     else
       (let hint = (case (container_id, event_kind) of
                      (Some cid, Some kind) \<Rightarrow> hint_from_container_event cid kind
                    | _ \<Rightarrow> hint_from_container_id (unwrap_or container_id []))
        in reconcile_runtime_action key hint a))"

definition drain_pending_runtime_reconcile :: "pod_lifecycle_key \<Rightarrow> pod_lifecycle_actor \<Rightarrow> decision"
where
  "drain_pending_runtime_reconcile key a =
    (if pl_pending_runtime_reconcile (pa_state a) \<and> in_flight a = None \<and> phase a = Running then
       (let (hint, s) = take_runtime_reconcile_hint (pa_state a)
        in reconcile_runtime_action key hint (a\<lparr>pa_state := s\<rparr>))
     else (a, Noop))"

definition reconcile_deferred_runtime_after_start_failure ::
  "pod_lifecycle_key \<Rightarrow> pod_lifecycle_actor \<Rightarrow> decision"
where
  "reconcile_deferred_runtime_after_start_failure key a =
    (if pl_pending_runtime_reconcile (pa_state a) \<and> in_flight a = None then
       (let (hint, s) = take_runtime_reconcile_hint (pa_state a)
        in reconcile_runtime_action key hint (a\<lparr>pa_state := s\<rparr>))
     else (a, Noop))"

definition reconcile_cri_leftovers_action :: "pod_lifecycle_key \<Rightarrow> pod_lifecycle_actor \<Rightarrow> decision"
where
  "reconcile_cri_leftovers_action key a =
    (let (operation_id, a1) = next_work_operation key ReconcileCriLeftoversWork a
     in (a1, ReconcileCriLeftovers key operation_id))"

definition defer_for_restart_reconcile ::
  "pod_lifecycle_key \<Rightarrow> lifecycle_message \<Rightarrow> pod_lifecycle_actor \<Rightarrow> decision option"
where
  "defer_for_restart_reconcile key message a =
    (if pa_restart_reconciled a then None
     else Some (reconcile_cri_leftovers_action key
                 (a\<lparr>pa_restart_reconciled := True, pa_pending_restart_admission := Some message\<rparr>)))"

definition make_startable_or_start_pending_snapshot ::
  "actor_env \<Rightarrow> pod_lifecycle_key \<Rightarrow> pod_lifecycle_actor \<Rightarrow> decision"
where
  "make_startable_or_start_pending_snapshot env key a =
    (let a1 = set_phase Created a in
     case pl_pending_start_pod (pa_state a1) of
       Some pending \<Rightarrow>
         start_pod_action env key (Some (ps_pod pending))
           (set_phase PendingStart (on_state (\<lambda>s. s\<lparr>pl_pending_start_pod := None\<rparr>) a1))
     | None \<Rightarrow> (a1, Noop))"

definition start_or_check_slot_admission ::
  "actor_env \<Rightarrow> pod_lifecycle_key \<Rightarrow> json \<Rightarrow> int option \<Rightarrow> bool \<Rightarrow> pod_lifecycle_actor \<Rightarrow> decision"
where
  "start_or_check_slot_admission env key pod resource_version start_after_admit a =
    (if \<not> pa_slot_admission_gate_enabled a then
       (if start_after_admit then start_pod_action env key (Some pod) a else (a, Noop))
     else if pl_admitted_slot_uid (pa_state a) = Some (plk_uid key) then
       (let a1 = on_state (\<lambda>s. s\<lparr>pl_pending_start_pod := None\<rparr>) a
        in if start_after_admit then start_pod_action env key (Some pod) a1 else (a1, Noop))
     else
       (let a1 = on_state (update_pending_start_pod_if_newer key pod resource_version start_after_admit) a
        in if pl_slot_admission_waiting (pa_state a1)
              \<or> in_flight_kind key a1 = Some CheckSlotAdmissionWork
           then (a1, Noop)
           else check_slot_admission_action key pod resource_version start_after_admit a1))"

definition retry_repaired_pending_start_after_config_error ::
  "actor_env \<Rightarrow> pod_lifecycle_key \<Rightarrow> pod_lifecycle_actor \<Rightarrow> decision"
where
  "retry_repaired_pending_start_after_config_error env key a =
    (case pa_last_start_pod_configuration_fingerprint a of
       None \<Rightarrow> (a, Noop)
     | Some attempted_fingerprint \<Rightarrow>
         (let a1 = a\<lparr>pa_last_start_pod_configuration_fingerprint := None,
                     pa_last_config_error_retry_fingerprint := Some attempted_fingerprint\<rparr>
          in case pl_pending_start_pod (pa_state a1) of
               None \<Rightarrow> (a1, Noop)
             | Some pending \<Rightarrow>
                 if plk_uid (ps_key pending) \<noteq> plk_uid key then (a1, Noop)
                 else if pod_start_configuration_fingerprint env (ps_pod pending) = attempted_fingerprint
                 then (a1, Noop)
                 else
                   (let (a2, deferred) = reconcile_deferred_runtime_after_start_failure key a1
                    in if \<not> is_noop deferred then (a2, deferred)
                       else start_or_check_slot_admission env (ps_key pending) (ps_pod pending)
                              (ps_resource_version pending) (ps_start_after_admit pending)
                              (set_phase PendingStart
                                (on_state (\<lambda>s. s\<lparr>pl_pending_start_pod := None\<rparr>) a2)))))"

definition handle_command_action ::
  "pod_lifecycle_key \<Rightarrow> lifecycle_command \<Rightarrow> pod_lifecycle_actor \<Rightarrow> decision"
where
  "handle_command_action key command a =
    (let (operation_id, a1) = next_work_operation key HandleCommandWork a
     in (a1, HandleCommand key command operation_id))"

definition stale_active_uid_noop ::
  "pod_lifecycle_key \<Rightarrow> bool \<Rightarrow> pod_lifecycle_actor \<Rightarrow> decision option"
where
  "stale_active_uid_noop key drop_pending_replacement_for_incoming_uid a =
    (if active_uid a = None \<or> active_uid_is key a then None
     else Some (if drop_pending_replacement_for_incoming_uid
                then on_state (drop_pending_replacement_if_uid (plk_uid key)) a else a, Noop))"

definition reconcile_ephemeral_action ::
  "pod_lifecycle_key \<Rightarrow> json option \<Rightarrow> pod_lifecycle_actor \<Rightarrow> decision"
where
  "reconcile_ephemeral_action key pod a =
    (let (operation_id, a1) = next_work_operation key ReconcileEphemeralWork a
     in (a1, ReconcileEphemeral key pod operation_id))"

definition reconcile_ephemeral_action_or_defer ::
  "pod_lifecycle_key \<Rightarrow> json \<Rightarrow> int option \<Rightarrow> pod_lifecycle_actor \<Rightarrow> decision"
where
  "reconcile_ephemeral_action_or_defer key pod resource_version a =
    (if in_flight_kind key a \<noteq> None \<or> phase a \<noteq> Running
     then (on_state (update_pending_ephemeral_reconcile_if_newer key pod resource_version) a, Noop)
     else reconcile_ephemeral_action key (Some pod) a)"

definition drain_pending_ephemeral_reconcile :: "pod_lifecycle_key \<Rightarrow> pod_lifecycle_actor \<Rightarrow> decision"
where
  "drain_pending_ephemeral_reconcile key a =
    (if in_flight a \<noteq> None \<or> phase a \<noteq> Running then (a, Noop)
     else
       (case pl_pending_ephemeral_reconcile (pa_state a) of
          Some pending \<Rightarrow>
            if plk_uid (pe_key pending) = plk_uid key
            then reconcile_ephemeral_action (pe_key pending) (Some (pe_pod pending))
                   (on_state (\<lambda>s. s\<lparr>pl_pending_ephemeral_reconcile := None\<rparr>) a)
            else (a, Noop)
        | None \<Rightarrow> (a, Noop)))"

definition drain_pending_runtime_or_ephemeral_reconcile ::
  "pod_lifecycle_key \<Rightarrow> pod_lifecycle_actor \<Rightarrow> decision"
where
  "drain_pending_runtime_or_ephemeral_reconcile key a =
    (let (a1, runtime_action) = drain_pending_runtime_reconcile key a
     in if is_noop runtime_action then drain_pending_ephemeral_reconcile key a1
        else (a1, runtime_action))"

definition nonempty_sandbox_id :: "pod_lifecycle_actor \<Rightarrow> string option"
where
  "nonempty_sandbox_id a =
    (case pl_sandbox_id (pa_state a) of Some i \<Rightarrow> if i \<noteq> [] then Some i else None | None \<Rightarrow> None)"

definition drain_pending_startup_finalization_retry ::
  "pod_lifecycle_key \<Rightarrow> pod_lifecycle_actor \<Rightarrow> decision"
where
  "drain_pending_startup_finalization_retry key a =
    (if \<not> pl_pending_startup_finalization_retry (pa_state a) then (a, Noop)
     else if phase a \<noteq> Running \<or> pl_finalized (pa_state a) \<or> in_flight a \<noteq> None then (a, Noop)
     else
       (let a1 = on_state (\<lambda>s. s\<lparr>pl_pending_startup_finalization_retry := False\<rparr>) a
        in case nonempty_sandbox_id a of
             None \<Rightarrow> (a1, Noop)
           | Some sandbox_id \<Rightarrow> finalize_startup_action key None sandbox_id a1))"

definition retry_unconfirmed_startup_finalization_after_runtime_reconcile ::
  "pod_lifecycle_key \<Rightarrow> pod_lifecycle_actor \<Rightarrow> decision"
where
  "retry_unconfirmed_startup_finalization_after_runtime_reconcile key a =
    (if phase a \<noteq> Running \<or> pl_finalized (pa_state a) \<or> in_flight a \<noteq> None then (a, Noop)
     else
       (case nonempty_sandbox_id a of
          None \<Rightarrow> (a, Noop)
        | Some sandbox_id \<Rightarrow>
            finalize_startup_action key None sandbox_id
              (on_state (\<lambda>s. s\<lparr>pl_pending_startup_finalization_retry := False\<rparr>) a)))"

definition start_retry_action :: "pod_lifecycle_key \<Rightarrow> pod_lifecycle_actor \<Rightarrow> decision"
where
  "start_retry_action key a =
    (let (delay, s) = next_start_retry_delay (pa_state a)
     in (a\<lparr>pa_state := s\<rparr>, ScheduleRetry key delay))"

definition start_pod_retry_action :: "pod_lifecycle_key \<Rightarrow> string \<Rightarrow> pod_lifecycle_actor \<Rightarrow> decision"
where
  "start_pod_retry_action key error_message a =
    (let (delay, s) = next_start_retry_delay (pa_state a)
     in (a\<lparr>pa_state := s\<rparr>, ScheduleStartPodRetry key delay error_message (pl_retry_attempts s)))"

definition completion_matches ::
  "pod_lifecycle_key \<Rightarrow> u64 \<Rightarrow> pod_lifecycle_work_kind \<Rightarrow> pod_lifecycle_actor
    \<Rightarrow> bool \<times> pod_lifecycle_actor"
where
  "completion_matches key operation_id kind a =
    (if is_some_and (in_flight a) (\<lambda>work. ifw_uid work \<noteq> plk_uid key) then (False, a)
     else (let (matched, s) = complete_matching_work (plk_uid key) operation_id kind (pa_state a)
           in (matched, a\<lparr>pa_state := s\<rparr>)))"


section \<open>Message handlers\<close>

text \<open>The branch that both watch handlers take for a terminating Pod.\<close>

definition stop_terminating_pod :: "pod_lifecycle_key \<Rightarrow> json \<Rightarrow> pod_lifecycle_actor \<Rightarrow> decision"
where
  "stop_terminating_pod key pod a =
    (let a1 = on_state (drop_pending_ephemeral_reconcile_if_uid (plk_uid key)) a
     in if in_flight_kind key a1 = Some StopPodWork \<or> in_flight_kind key a1 = Some FinalizePodDeletionWork
        then (a1, Noop)
        else if phase a1 = Terminated then finalize_pod_deletion_action key a1
        else
          (let a2 = (if in_flight_kind key a1 = Some StartPodWork then on_state cancel_in_flight a1 else a1);
               a3 = set_phase Stopping a2;
               (deadline, mode) = current_stop_context key a3
           in stop_pod_action key (Some pod) [] deadline mode a3))"

definition is_terminating :: "json \<Rightarrow> bool"
  where "is_terminating pod \<longleftrightarrow> pointer [''metadata'', ''deletionTimestamp''] pod \<noteq> None"

definition handle_watch_added_admitted ::
  "actor_env \<Rightarrow> pod_lifecycle_key \<Rightarrow> int option \<Rightarrow> json \<Rightarrow> pod_lifecycle_actor \<Rightarrow> decision"
where
  "handle_watch_added_admitted env key resource_version pod a =
    (let a1 = observe_local_deletion_deadline env key pod a
     in if is_terminating pod \<or> pod_is_node_lost_terminal pod then stop_terminating_pod key pod a1
        else if phase a1 = Created then
          start_or_check_slot_admission env key pod resource_version True (set_phase PendingStart a1)
        else (a1, Noop))"

definition handle_watch_added ::
  "actor_env \<Rightarrow> pod_lifecycle_key \<Rightarrow> int option \<Rightarrow> json \<Rightarrow> pod_lifecycle_actor \<Rightarrow> decision"
where
  "handle_watch_added env key resource_version pod a =
    (case defer_for_restart_reconcile key (WatchAdded key resource_version pod) a of
       Some decision \<Rightarrow> decision
     | None \<Rightarrow>
         (let a1 = on_state (update_resource_version resource_version) a
          in if active_uid a1 = None then
               handle_watch_added_admitted env key resource_version pod (on_state (admit_uid (plk_uid key)) a1)
             else if \<not> active_uid_is key a1 then
               (if phase a1 = Stopping
                then (on_state (set_pending_replacement key pod resource_version) a1, Noop)
                else handle_watch_added_admitted env key resource_version pod (admit_replacement_uid key a1))
             else handle_watch_added_admitted env key resource_version pod a1))"

text \<open>A watch echo of a running Pod, with the sandbox whose startup is to be finalised.\<close>

definition watch_running ::
  "actor_env \<Rightarrow> pod_lifecycle_key \<Rightarrow> int option \<Rightarrow> json \<Rightarrow> string \<Rightarrow> pod_lifecycle_actor \<Rightarrow> decision"
where
  "watch_running env key resource_version pod sandbox_id a =
    (let has_ephemeral = pod_has_ephemeral_containers pod;
         kind = in_flight_kind key a
     in if pa_slot_admission_gate_enabled a \<and> pl_admitted_slot_uid (pa_state a) \<noteq> Some (plk_uid key)
        then start_or_check_slot_admission env key pod resource_version False a
        else
          (let a1 = on_state reset_start_retry_attempts (set_phase Running a);
               a2 = (if kind = Some StartPodWork then on_state cancel_in_flight a1 else a1);
               (finalization, s) = on_started sandbox_id (pa_state a2);
               a3 = a2\<lparr>pa_state := s\<rparr>
           in case finalization of
                RunFinalizers \<Rightarrow>
                  (let a4 = (if has_ephemeral
                             then on_state (update_pending_ephemeral_reconcile_if_newer key pod resource_version) a3
                             else a3)
                   in if kind \<noteq> None \<and> kind \<noteq> Some StartPodWork
                      then (if kind = Some FinalizeStartupWork
                            then on_state (\<lambda>s. s\<lparr>pl_pending_startup_finalization_retry := True\<rparr>) a4
                            else a4, Noop)
                      else finalize_startup_action key (Some pod) sandbox_id a4)
              | AlreadyFinalized \<Rightarrow>
                  if has_ephemeral then reconcile_ephemeral_action_or_defer key pod resource_version a3
                  else (a3, Noop)))"

text \<open>The last branch: a Pod that waits to be started and has no ephemeral containers.\<close>

definition watch_pending_start ::
  "actor_env \<Rightarrow> pod_lifecycle_key \<Rightarrow> int option \<Rightarrow> json \<Rightarrow> pod_lifecycle_actor \<Rightarrow> decision"
where
  "watch_pending_start env key resource_version pod a =
    (let buffered =
       (if is_some_and (str_at [''spec'', ''nodeName''] pod) (\<lambda>node_name. \<not> is_blank node_name)
        then on_state (update_pending_start_pod_if_newer key pod resource_version True) a else a)
     in case (if in_flight_kind key a = None
              then pod_create_container_config_error_fingerprint env pod else None) of
          None \<Rightarrow> (buffered, Noop)
        | Some fingerprint \<Rightarrow>
            (case pa_last_config_error_retry_fingerprint a of
               None \<Rightarrow> (a\<lparr>pa_last_config_error_retry_fingerprint := Some fingerprint\<rparr>, Noop)
             | Some previous \<Rightarrow>
                 if previous \<noteq> fingerprint
                 then start_or_check_slot_admission env key pod resource_version True
                        (a\<lparr>pa_last_config_error_retry_fingerprint := Some fingerprint\<rparr>)
                 else (buffered, Noop)))"

definition watch_not_running ::
  "actor_env \<Rightarrow> pod_lifecycle_key \<Rightarrow> int option \<Rightarrow> json \<Rightarrow> pod_lifecycle_actor \<Rightarrow> decision"
where
  "watch_not_running env key resource_version pod a =
    (if phase a = Running \<and> pod_pending_with_published_runtime_state pod
     then runtime_reconcile_action_or_defer key None None a
     else if phase a = Created
     then start_or_check_slot_admission env key pod resource_version True (set_phase PendingStart a)
     else if phase a \<noteq> PendingStart then
       (case pod_create_container_config_error_fingerprint env pod of
          Some fingerprint \<Rightarrow>
            if pa_last_config_error_retry_fingerprint a \<noteq> Some fingerprint
            then start_or_check_slot_admission env key pod resource_version True
                   (set_phase PendingStart
                     (a\<lparr>pa_last_config_error_retry_fingerprint := Some fingerprint\<rparr>))
            else (a, Noop)
        | None \<Rightarrow>
            if pod_has_ephemeral_containers pod
            then reconcile_ephemeral_action_or_defer key pod resource_version a
            else (a, Noop))
     else if pod_has_ephemeral_containers pod
     then reconcile_ephemeral_action_or_defer key pod resource_version a
     else watch_pending_start env key resource_version pod a)"

definition running_sandbox_id :: "json \<Rightarrow> pod_lifecycle_actor \<Rightarrow> string option"
where
  "running_sandbox_id pod a =
    (if is_terminating pod then None
     else
       (case pod_running_sandbox_id_for_finalization pod of
          Some sandbox_id \<Rightarrow> Some sandbox_id
        | None \<Rightarrow>
            if pod_has_published_startup_runtime_state pod then pl_sandbox_id (pa_state a) else None))"

text \<open>The three reasons for which a watch echo is acted on although its resourceVersion is not newer.\<close>

definition bypasses_stale_rv :: "pod_lifecycle_key \<Rightarrow> json \<Rightarrow> pod_lifecycle_actor \<Rightarrow> bool"
where
  "bypasses_stale_rv key pod a =
    (let stale_startup_finalization_retry =
       is_some_and (running_sandbox_id pod a)
         (\<lambda>sandbox_id. active_uid_is key a \<and> \<not> pl_finalized (pa_state a) \<and>
            (case pl_sandbox_id (pa_state a) of None \<Rightarrow> True | Some current \<Rightarrow> current = sandbox_id));
         terminating_bypasses_stale_rv =
           (is_terminating pod \<or> pod_is_node_lost_terminal pod) \<and> active_uid_is key a;
         ephemeral_added_bypasses_stale_rv =
           active_uid_is key a \<and> pod_has_ephemeral_containers pod \<and>
           \<not> has_pending_ephemeral_reconcile (pa_state a)
     in terminating_bypasses_stale_rv \<or> ephemeral_added_bypasses_stale_rv
        \<or> stale_startup_finalization_retry)"

definition handle_watch_modified_admitted ::
  "actor_env \<Rightarrow> pod_lifecycle_key \<Rightarrow> int option \<Rightarrow> json \<Rightarrow> string option \<Rightarrow> pod_lifecycle_actor \<Rightarrow> decision"
where
  "handle_watch_modified_admitted env key resource_version pod sandbox a =
    (let a1 = observe_local_deletion_deadline env key pod a
     in if is_terminating pod \<or> pod_is_node_lost_terminal pod then stop_terminating_pod key pod a1
        else (case sandbox of
                Some sandbox_id \<Rightarrow> watch_running env key resource_version pod sandbox_id a1
              | None \<Rightarrow> watch_not_running env key resource_version pod a1))"

definition handle_watch_modified ::
  "actor_env \<Rightarrow> pod_lifecycle_key \<Rightarrow> int option \<Rightarrow> json \<Rightarrow> pod_lifecycle_actor \<Rightarrow> decision"
where
  "handle_watch_modified env key resource_version pod a =
    (let sandbox = running_sandbox_id pod a
     in if is_stale_resource_version resource_version (pa_state a) \<and> \<not> bypasses_stale_rv key pod a
        then (a, Noop)
        else
          (case defer_for_restart_reconcile key (WatchModified key resource_version pod) a of
             Some decision \<Rightarrow> decision
           | None \<Rightarrow>
               (let a1 = on_state (update_resource_version resource_version) a;
                    finalizing_after_local_clear = is_terminating pod \<and> phase a1 = Terminated
                in if active_uid a1 = None \<and> \<not> finalizing_after_local_clear then
                     handle_watch_modified_admitted env key resource_version pod sandbox
                       (on_state (admit_uid (plk_uid key)) a1)
                   else if \<not> active_uid_is key a1 then
                     (if finalizing_after_local_clear then finalize_pod_deletion_action key a1
                      else if phase a1 = Stopping \<and>
                              (case pl_pending_replacement (pa_state a1) of
                                 Some pending \<Rightarrow> plk_uid (pr_key pending) = plk_uid key
                               | None \<Rightarrow> True)
                      then (on_state (set_pending_replacement key pod resource_version) a1, Noop)
                      else (a1, Noop))
                   else handle_watch_modified_admitted env key resource_version pod sandbox a1)))"

definition handle_watch_deleted ::
  "pod_lifecycle_key \<Rightarrow> int option \<Rightarrow> json \<Rightarrow> pod_lifecycle_actor \<Rightarrow> decision"
where
  "handle_watch_deleted key resource_version pod a =
    (let a1 = on_state (update_resource_version resource_version) a
     in if active_uid a1 = None then
          (let a2 = (if in_flight_kind key a1 = Some FinalizePodDeletionWork
                     then on_state (\<lambda>s. (cancel_in_flight s)\<lparr>pl_pending_delete_finalization_retry := False\<rparr>) a1
                     else a1)
           in (set_phase Terminated a2, Noop))
        else if \<not> active_uid_is key a1
        then (on_state (drop_pending_replacement_if_uid (plk_uid key)) a1, Noop)
        else if phase a1 = Terminated \<or> in_flight_kind key a1 = Some StopPodWork then (a1, Noop)
        else
          (let a2 = (if in_flight_kind key a1 = Some StartPodWork then on_state cancel_in_flight a1 else a1);
               a3 = set_phase Stopping a2;
               (deadline, mode) = current_stop_context key a3
           in stop_pod_action key (Some pod) [] deadline mode a3))"

definition retry_start :: "actor_env \<Rightarrow> pod_lifecycle_key \<Rightarrow> pod_lifecycle_actor \<Rightarrow> decision"
where
  "retry_start env key a =
    (let a1 = ensure_active_uid key a
     in if \<not> active_uid_is key a1 then (a1, Noop)
        else if phase a1 = Created \<or> phase a1 = PendingStart then
          (let a2 = set_phase PendingStart a1
           in case pl_pending_start_pod (pa_state a2) of
                Some pending \<Rightarrow>
                  start_or_check_slot_admission env (ps_key pending) (ps_pod pending)
                    (ps_resource_version pending) (ps_start_after_admit pending) a2
              | None \<Rightarrow>
                  if pl_admitted_slot_uid (pa_state a2) = Some (plk_uid key)
                  then start_pod_action env key None a2 else (a2, Noop))
        else (a1, Noop))"

definition handle_retry_due :: "actor_env \<Rightarrow> pod_lifecycle_key \<Rightarrow> pod_lifecycle_actor \<Rightarrow> decision"
where
  "handle_retry_due env key a =
    (if phase a = Terminated \<and> active_uid a = None then
       (if pl_pending_delete_finalization_retry (pa_state a) \<and> in_flight a = None
        then finalize_pod_deletion_action key
               (on_state (\<lambda>s. s\<lparr>pl_pending_delete_finalization_retry := False\<rparr>) a)
        else (a, Noop))
     else
       (case (if phase a = Stopping \<and> in_flight a = None then pl_pending_stop_pod (pa_state a) else None) of
          Some pending \<Rightarrow>
            if plk_uid (px_key pending) = plk_uid key
            then stop_pod_action (px_key pending) (px_pod pending) (px_sandbox_id pending)
                   (px_deletion_deadline pending) (px_mode pending) a
            else retry_start env key a
        | None \<Rightarrow> retry_start env key a))"

definition handle_orphan_finalize :: "pod_lifecycle_key \<Rightarrow> pod_lifecycle_actor \<Rightarrow> decision"
where
  "handle_orphan_finalize key a =
    (case stale_active_uid_noop key True a of
       Some decision \<Rightarrow> decision
     | None \<Rightarrow>
         if in_flight_kind key a = Some StopPodWork \<or> in_flight_kind key a = Some FinalizePodDeletionWork
         then (a, Noop)
         else
           (let a1 = (if active_uid a \<noteq> Some (plk_uid key) then on_state (admit_uid (plk_uid key)) a else a)
            in stop_pod_action key None [] None Forced (set_phase Stopping a1)))"

fun failure_message :: "pod_lifecycle_work_failure \<Rightarrow> string"
where
  "failure_message (Startup msg) = msg"
| "failure_message (DispatchFailed msg) = msg"
| "failure_message Cancelled = ''cancelled''"
| "failure_message ContainerNotFound = ''container not found''"
| "failure_message DeadlineExceeded = ''deadline exceeded''"
| "failure_message Deleted = ''pod deleted''"
| "failure_message FinalizersPending = ''finalizers pending''"
| "failure_message (NotOwned _ _) = ''pod not owned by local node''"

definition config_error_failure :: "pod_lifecycle_work_failure \<Rightarrow> bool"
where
  "config_error_failure failure =
    (case failure of Startup message \<Rightarrow> str_contains ''CreateContainerConfigError'' message | _ \<Rightarrow> False)"

definition start_pod_failed ::
  "actor_env \<Rightarrow> pod_lifecycle_key \<Rightarrow> bool \<Rightarrow> pod_lifecycle_work_failure \<Rightarrow> pod_lifecycle_actor \<Rightarrow> decision"
where
  "start_pod_failed env key retryable failure a =
    (if retryable then
       (let (a1, reconcile) = reconcile_deferred_runtime_after_start_failure key a
        in if is_noop reconcile then start_pod_retry_action key (failure_message failure) a1
           else (a1, reconcile))
     else if pl_pending_runtime_reconcile (pa_state a)
             \<and> (case failure of Startup _ \<Rightarrow> True | _ \<Rightarrow> False)
     then reconcile_deferred_runtime_after_start_failure key a
     else if (case failure of DispatchFailed _ \<Rightarrow> True | Deleted \<Rightarrow> True | DeadlineExceeded \<Rightarrow> True | _ \<Rightarrow> False)
     then make_startable_or_start_pending_snapshot env key a
     else (a, Noop))"

definition stop_pod_failed ::
  "pod_lifecycle_key \<Rightarrow> bool \<Rightarrow> pod_lifecycle_work_failure \<Rightarrow> pod_lifecycle_actor \<Rightarrow> decision"
where
  "stop_pod_failed key retryable failure a =
    (if retryable then (set_phase Stopping a, ScheduleRetry key 1)
     else if failure = ContainerNotFound then stop_pod_completed_action key a
     else if (case failure of NotOwned _ _ \<Rightarrow> True | _ \<Rightarrow> False)
     then (on_state (\<lambda>s. (cancel_in_flight s)\<lparr>pl_pending_stop_pod := None\<rparr>) a, Noop)
     else (set_phase Stopping a, Noop))"

definition finalize_pod_deletion_failed ::
  "pod_lifecycle_key \<Rightarrow> bool \<Rightarrow> pod_lifecycle_work_failure \<Rightarrow> pod_lifecycle_actor \<Rightarrow> decision"
where
  "finalize_pod_deletion_failed key retryable failure a =
    (if retryable
     then (on_state (\<lambda>s. s\<lparr>pl_pending_delete_finalization_retry := True\<rparr>) a,
           ScheduleRetry key (if failure = FinalizersPending then 5 else 1))
     else (on_state (\<lambda>s. s\<lparr>pl_pending_delete_finalization_retry := False\<rparr>) a, Noop))"

text \<open>A failure that matched the operation in flight, for every kind but \<^verbatim>\<open>ReconcileCriLeftovers\<close>.\<close>

definition handle_work_failed ::
  "actor_env \<Rightarrow> pod_lifecycle_key \<Rightarrow> pod_lifecycle_work_kind \<Rightarrow> bool \<Rightarrow> pod_lifecycle_work_failure
    \<Rightarrow> pod_lifecycle_actor \<Rightarrow> decision"
where
  "handle_work_failed env key kind retryable failure a =
    (if kind = StartPodWork \<and> config_error_failure failure
     then retry_repaired_pending_start_after_config_error env key a
     else
       (let a1 = (if kind = StartPodWork
                  then a\<lparr>pa_last_start_pod_configuration_fingerprint := None\<rparr> else a)
        in case kind of
             ReconcileRuntimeWork \<Rightarrow>
               if retryable \<and> failure = ContainerNotFound
               then (set_phase PendingStart a1, ScheduleRetry key 1) else (a1, Noop)
           | StartPodWork \<Rightarrow> start_pod_failed env key retryable failure a1
           | StopPodWork \<Rightarrow> stop_pod_failed key retryable failure a1
           | FinalizePodDeletionWork \<Rightarrow> finalize_pod_deletion_failed key retryable failure a1
           | _ \<Rightarrow> (a1, Noop)))"

definition handle_slot_admission_granted ::
  "actor_env \<Rightarrow> pod_lifecycle_key \<Rightarrow> u64 \<Rightarrow> json \<Rightarrow> int option \<Rightarrow> bool \<Rightarrow> pod_lifecycle_actor \<Rightarrow> decision"
where
  "handle_slot_admission_granted env key operation_id pod resource_version start_after_admit a =
    (let (matched, a1) = completion_matches key operation_id CheckSlotAdmissionWork a
     in if \<not> matched then (a1, Noop)
        else
          (let a2 = on_state (\<lambda>s. s\<lparr>pl_slot_admission_waiting := False,
                      pl_admitted_slot_uid := Some (plk_uid key)\<rparr>) a1;
               a3 = on_state (update_resource_version resource_version) a2;
               a4 = on_state (\<lambda>s. s\<lparr>pl_pending_start_pod := None\<rparr>) a3
           in if start_after_admit \<and> active_uid_is key a4
              then start_pod_action env key (Some pod) (set_phase PendingStart a4)
              else (a4, Noop)))"

definition handle_slot_admission_blocked ::
  "pod_lifecycle_key \<Rightarrow> u64 \<Rightarrow> pod_lifecycle_actor \<Rightarrow> decision"
where
  "handle_slot_admission_blocked key operation_id a =
    (let (matched, a1) = completion_matches key operation_id CheckSlotAdmissionWork a
     in if \<not> matched then (a1, Noop)
        else (on_state (\<lambda>s. s\<lparr>pl_slot_admission_waiting := True\<rparr>) a1, Noop))"

definition handle_slot_admission_wake :: "pod_lifecycle_key \<Rightarrow> pod_lifecycle_actor \<Rightarrow> decision"
where
  "handle_slot_admission_wake key a =
    (case pl_pending_start_pod (pa_state a) of
       None \<Rightarrow> (a, Noop)
     | Some pending \<Rightarrow>
         if plk_uid (ps_key pending) \<noteq> plk_uid key then (a, Noop)
         else if in_flight a \<noteq> None then (a, Noop)
         else check_slot_admission_action (ps_key pending) (ps_pod pending) (ps_resource_version pending)
                (ps_start_after_admit pending)
                (on_state (\<lambda>s. s\<lparr>pl_slot_admission_waiting := False\<rparr>) a))"

definition start_pod_completed ::
  "actor_env \<Rightarrow> pod_lifecycle_key \<Rightarrow> string option \<Rightarrow> pod_lifecycle_actor \<Rightarrow> decision"
where
  "start_pod_completed env key sandbox_id a =
    (let a1 = set_phase Running
                (a\<lparr>pa_last_start_pod_configuration_fingerprint := None,
                  pa_last_config_error_retry_fingerprint := None\<rparr>);
         sid = unwrap_or (case sandbox_id of Some i \<Rightarrow> Some i | None \<Rightarrow> pl_sandbox_id (pa_state a1)) []
     in if sid = [] then
          (if pl_pending_runtime_reconcile (pa_state a1) then
             (let (hint, s) = take_runtime_reconcile_hint (pa_state a1)
              in reconcile_runtime_action key hint
                   (on_state (\<lambda>s. (reset_start_retry_attempts s)\<lparr>pl_pending_start_pod := None\<rparr>)
                     (a1\<lparr>pa_state := s\<rparr>)))
           else make_startable_or_start_pending_snapshot env key a1)
        else
          (let a2 = on_state (\<lambda>s. (reset_start_retry_attempts s)\<lparr>pl_pending_start_pod := None\<rparr>) a1;
               a3 = on_state (defer_runtime_reconcile None) a2;
               (finalization, s) = on_started sid (pa_state a3);
               a4 = a3\<lparr>pa_state := s\<rparr>
           in case finalization of
                RunFinalizers \<Rightarrow> finalize_startup_action key None sid a4
              | AlreadyFinalized \<Rightarrow> drain_pending_runtime_reconcile key a4))"

definition finalize_pod_deletion_completed :: "actor_env \<Rightarrow> pod_lifecycle_actor \<Rightarrow> decision"
where
  "finalize_pod_deletion_completed env a =
    (case pl_pending_replacement (pa_state a) of
       None \<Rightarrow> (a, Noop)
     | Some pending \<Rightarrow>
         (let a1 = on_state (\<lambda>s. s\<lparr>pl_pending_replacement := None\<rparr>) a;
              a2 = on_state (admit_uid (plk_uid (pr_key pending))) a1;
              a3 = on_state (update_resource_version (pr_resource_version pending)) a2;
              a4 = (set_phase PendingStart a3)
                     \<lparr>pa_last_config_error_retry_fingerprint := None,
                      pa_last_start_pod_configuration_fingerprint := None\<rparr>
          in start_or_check_slot_admission env (pr_key pending) (pr_pod pending)
               (pr_resource_version pending) True a4))"

definition finalize_startup_completed ::
  "pod_lifecycle_key \<Rightarrow> string option \<Rightarrow> pod_lifecycle_actor \<Rightarrow> decision"
where
  "finalize_startup_completed key sandbox_id a =
    (let a1 = (if sandbox_id \<noteq> None \<and> pl_sandbox_id (pa_state a) = sandbox_id
               then on_state (\<lambda>s. s\<lparr>pl_finalized := True, pl_pending_startup_finalization_retry := False\<rparr>) a
               else a);
         (a2, deferred) = drain_pending_runtime_or_ephemeral_reconcile key a1
     in if is_noop deferred then drain_pending_startup_finalization_retry key a2 else (a2, deferred))"

definition reconcile_runtime_completed :: "pod_lifecycle_key \<Rightarrow> pod_lifecycle_actor \<Rightarrow> decision"
where
  "reconcile_runtime_completed key a =
    (if phase a = PendingStart then start_retry_action key a
     else
       (let (a1, deferred) = drain_pending_runtime_or_ephemeral_reconcile key a
        in if is_noop deferred
           then retry_unconfirmed_startup_finalization_after_runtime_reconcile key a1
           else (a1, deferred)))"

text \<open>A completion that matched the operation in flight, for every kind but \<^verbatim>\<open>ReconcileCriLeftovers\<close>.\<close>

definition handle_work_completed ::
  "actor_env \<Rightarrow> pod_lifecycle_key \<Rightarrow> pod_lifecycle_work_kind \<Rightarrow> string option \<Rightarrow> pod_lifecycle_actor \<Rightarrow> decision"
where
  "handle_work_completed env key kind sandbox_id a =
    (case kind of
       StartPodWork \<Rightarrow> start_pod_completed env key sandbox_id a
     | StopPodWork \<Rightarrow> stop_pod_completed_action key a
     | FinalizePodDeletionWork \<Rightarrow> finalize_pod_deletion_completed env a
     | FinalizeStartupWork \<Rightarrow> finalize_startup_completed key sandbox_id a
     | ReconcileRuntimeWork \<Rightarrow> reconcile_runtime_completed key a
     | ReconcileEphemeralWork \<Rightarrow> drain_pending_ephemeral_reconcile key a
     | _ \<Rightarrow> (a, Noop))"

definition handle_runtime_signal ::
  "pod_lifecycle_key \<Rightarrow> string option \<Rightarrow> kubelet_event_kind option \<Rightarrow> pod_lifecycle_actor \<Rightarrow> decision"
where
  "handle_runtime_signal key container_id kind a =
    (case stale_active_uid_noop key False a of
       Some decision \<Rightarrow> decision
     | None \<Rightarrow> runtime_reconcile_action_or_defer key container_id kind (ensure_active_uid key a))"

definition handle_deletion_deadline_due ::
  "pod_lifecycle_key \<Rightarrow> u64 \<Rightarrow> pod_lifecycle_actor \<Rightarrow> decision"
where
  "handle_deletion_deadline_due key generation a =
    (if \<not> active_uid_is key a then (a, Noop)
     else
       (let (fired, s) = fire_deletion_deadline (plk_uid key) generation (pa_state a);
            a1 = a\<lparr>pa_state := s\<rparr>
        in if \<not> fired then (a1, Noop)
           else
             (let graceful_stop_in_flight =
                is_some_and (pl_pending_stop_pod (pa_state a1))
                  (\<lambda>pending. plk_uid (px_key pending) = plk_uid key \<and> px_mode pending = Graceful)
                \<and> in_flight_kind key a1 = Some StopPodWork
              in if \<not> graceful_stop_in_flight \<and> in_flight a1 \<noteq> None then (a1, Noop)
                 else
                   (let a2 = (if graceful_stop_in_flight then on_state cancel_in_flight a1 else a1);
                        fallback = (None, unwrap_or (pl_sandbox_id (pa_state a2)) [],
                                    map_option dd_deadline (pl_deletion_deadline (pa_state a2)));
                        (pod, sandbox_id, deadline) =
                          (case pl_pending_stop_pod (pa_state a2) of
                             Some pending \<Rightarrow>
                               if plk_uid (px_key pending) = plk_uid key
                               then (px_pod pending, px_sandbox_id pending, px_deletion_deadline pending)
                               else fallback
                           | None \<Rightarrow> fallback)
                    in stop_pod_action key pod sandbox_id deadline Forced (set_phase Stopping a2)))))"

definition handle_lifecycle_command ::
  "pod_lifecycle_key \<Rightarrow> lifecycle_command \<Rightarrow> pod_lifecycle_actor \<Rightarrow> decision"
where
  "handle_lifecycle_command key command a =
    (case stale_active_uid_noop key False a of
       Some decision \<Rightarrow> decision
     | None \<Rightarrow> handle_command_action key command (ensure_active_uid key a))"

lemma completion_matches_keeps:
  assumes "completion_matches key operation_id kind a = (matched, a1)"
  shows "pa_pending_restart_admission a1 = pa_pending_restart_admission a"
    and "pa_restart_reconciled a1 = pa_restart_reconciled a"
  using assms by (auto simp: completion_matches_def split: if_splits prod.splits)

text \<open>The state machine. The admission deferred to the end of the restart reconcile is handled by a
  recursive call, which finds no further deferred admission.\<close>

function handle :: "actor_env \<Rightarrow> lifecycle_message \<Rightarrow> pod_lifecycle_actor \<Rightarrow> decision"
where
  "handle env message a =
    (case message of
       WatchAdded key resource_version pod \<Rightarrow> handle_watch_added env key resource_version pod a
     | WatchModified key resource_version pod \<Rightarrow> handle_watch_modified env key resource_version pod a
     | WatchDeleted key resource_version pod \<Rightarrow> handle_watch_deleted key resource_version pod a
     | RetryDue key \<Rightarrow> handle_retry_due env key a
     | OrphanFinalize key reason \<Rightarrow> handle_orphan_finalize key a
     | PodWorkFailed key operation_id kind retryable failure \<Rightarrow>
         (let (matched, a1) = completion_matches key operation_id kind a
          in if \<not> matched then (a1, Noop)
             else if kind = ReconcileCriLeftoversWork then
               (case pa_pending_restart_admission a1 of
                  None \<Rightarrow> (a1, Noop)
                | Some m \<Rightarrow> handle env m (a1\<lparr>pa_pending_restart_admission := None\<rparr>))
             else handle_work_failed env key kind retryable failure a1)
     | SlotAdmissionGranted key operation_id pod resource_version start_after_admit \<Rightarrow>
         handle_slot_admission_granted env key operation_id pod resource_version start_after_admit a
     | SlotAdmissionBlocked key operation_id blocking_uid blocking_node \<Rightarrow>
         handle_slot_admission_blocked key operation_id a
     | SlotAdmissionWake key \<Rightarrow> handle_slot_admission_wake key a
     | PodWorkCompleted key operation_id kind sandbox_id \<Rightarrow>
         (let (matched, a1) = completion_matches key operation_id kind a
          in if \<not> matched then (a1, Noop)
             else if kind = ReconcileCriLeftoversWork then
               (case pa_pending_restart_admission a1 of
                  None \<Rightarrow> (a1, Noop)
                | Some m \<Rightarrow> handle env m (a1\<lparr>pa_pending_restart_admission := None\<rparr>))
             else handle_work_completed env key kind sandbox_id a1)
     | CriEvent key container_id kind \<Rightarrow> handle_runtime_signal key (Some container_id) (Some kind) a
     | ActiveDeadlineDue key \<Rightarrow> handle_runtime_signal key None None a
     | DeletionDeadlineDue key generation \<Rightarrow> handle_deletion_deadline_due key generation a
     | LifecycleCommand key command \<Rightarrow> handle_lifecycle_command key command a
     | NetworkAssigned _ _ _ \<Rightarrow> (a, Noop)
     | ProbeResult _ _ _ _ _ \<Rightarrow> (a, Noop)
     | ActorIdleGraceExpired _ _ \<Rightarrow> (a, Noop))"
  by pat_completeness auto

termination
  by (relation "measure (\<lambda>(_, _, a). case pa_pending_restart_admission a of None \<Rightarrow> 0 | Some _ \<Rightarrow> 1)")
    (auto dest!: sym [of "(_, _)"] simp: completion_matches_keeps)

declare handle.simps [simp del]


section \<open>One operation at a time\<close>

text \<open>What every step does to the operation in flight. A step that dispatches nothing keeps the
  operation in flight or gives it up; a step that dispatches work allocates the next id and records
  exactly the dispatched work. The resourceVersion seen last never goes back.\<close>

named_theorems quiet_intros \<open>steps that start no operation\<close>
named_theorems decided_intros \<open>decisions record exactly the work they dispatch\<close>

fun rv_le :: "int option \<Rightarrow> int option \<Rightarrow> bool"
where
  "rv_le None _ = True"
| "rv_le (Some x) (Some y) = (x \<le> y)"
| "rv_le (Some x) None = False"

lemma rv_le_refl [simp]: "rv_le x x"
  by (cases x) simp_all

lemma rv_le_trans: "rv_le x y \<Longrightarrow> rv_le y z \<Longrightarrow> rv_le x z"
  by (cases "(x, y)" rule: rv_le.cases; cases z) simp_all

definition quiet_state :: "pod_lifecycle_state \<Rightarrow> pod_lifecycle_state \<Rightarrow> bool"
where
  "quiet_state s t \<longleftrightarrow>
    pl_operation_id t = pl_operation_id s \<and>
    (pl_in_flight t = pl_in_flight s \<and> pl_work_in_flight t = pl_work_in_flight s
     \<or> pl_in_flight t = None \<and> pl_work_in_flight t = None) \<and>
    rv_le (pl_last_resource_version s) (pl_last_resource_version t)"

abbreviation quiet :: "pod_lifecycle_actor \<Rightarrow> pod_lifecycle_actor \<Rightarrow> bool"
  where "quiet a b \<equiv> quiet_state (pa_state a) (pa_state b)"

fun decided :: "pod_lifecycle_actor \<Rightarrow> decision \<Rightarrow> bool"
where
  "decided a (b, action) =
    (case action_operation_id action of
       None \<Rightarrow> quiet a b
     | Some n \<Rightarrow>
         n = pl_operation_id (pa_state a) + 1 \<and> pl_operation_id (pa_state b) = n \<and>
         pl_work_in_flight (pa_state b) = Some n \<and>
         (\<exists>key kind. action_key action = Some key \<and> expected_completion action = Some kind \<and>
            in_flight b = Some \<lparr>ifw_uid = plk_uid key, ifw_kind = kind, ifw_operation_id = n\<rparr>) \<and>
         rv_le (pl_last_resource_version (pa_state a)) (pl_last_resource_version (pa_state b)))"

lemma quiet_state_refl [simp, quiet_intros]: "quiet_state s s"
  by (simp add: quiet_state_def)

lemma quiet_state_trans: "quiet_state s t \<Longrightarrow> quiet_state t u \<Longrightarrow> quiet_state s u"
  by (auto simp: quiet_state_def intro: rv_le_trans)

lemma quiet_decided: "quiet a b \<Longrightarrow> decided b d \<Longrightarrow> decided a d"
  by (cases d) (auto simp: quiet_state_def intro: rv_le_trans split: option.splits)

lemma decided_noop [decided_intros]: "quiet a b \<Longrightarrow> decided a (b, Noop)"
  by simp

lemma decided_retry [decided_intros]: "quiet a b \<Longrightarrow> decided a (b, ScheduleRetry key delay)"
  by simp

text \<open>Every operation on the Pod state that the handlers use without dispatching work.\<close>

lemma quiet_on_state:
  assumes "quiet a b" and "\<And>s. quiet_state s (f s)"
  shows "quiet a (on_state f b)"
  using assms by (auto simp: on_state_def intro: quiet_state_trans)

lemma quiet_ops [quiet_intros]:
  "quiet_state s (cancel_in_flight s)"
  "quiet_state s (clear_in_flight s)"
  "quiet_state s (admit_uid uid s)"
  "quiet_state s (update_resource_version rv s)"
  "quiet_state s (clear_deletion_deadline s)"
  "quiet_state s (snd (observe_deletion_deadline uid deadline s))"
  "quiet_state s (snd (take_runtime_reconcile_hint s))"
  "quiet_state s (update_pending_start_pod_if_newer key pod rv start s)"
  "quiet_state s (set_pending_replacement key pod rv s)"
  "quiet_state s (drop_pending_replacement_if_uid uid s)"
  "quiet_state s (update_pending_ephemeral_reconcile_if_newer key pod rv s)"
  "quiet_state s (drop_pending_ephemeral_reconcile_if_uid uid s)"
  "quiet_state s (reset_start_retry_attempts s)"
  "quiet_state s (defer_runtime_reconcile cid s)"
  "quiet_state s (defer_runtime_reconcile_event i kind s)"
  "quiet_state s (snd (next_start_retry_delay s))"
  "quiet_state s (snd (on_started sid s))"
  "quiet_state s (snd (fire_deletion_deadline uid generation s))"
  "quiet_state s (snd (complete_matching_work uid n work_kind s))"
  by (auto simp: quiet_state_def cancel_in_flight_def clear_in_flight_def admit_uid_def
      update_resource_version_def clear_deletion_deadline_def observe_deletion_deadline_def
      take_runtime_reconcile_hint_def update_pending_start_pod_if_newer_def set_pending_start_pod_def
      set_pending_replacement_def drop_pending_replacement_if_uid_def
      update_pending_ephemeral_reconcile_if_newer_def drop_pending_ephemeral_reconcile_if_uid_def
      reset_start_retry_attempts_def defer_runtime_reconcile_def defer_runtime_reconcile_event_def
      next_start_retry_delay_def on_started_def fire_deletion_deadline_def complete_matching_work_def
      Let_def drain_observations_def split: option.splits prod.splits)

lemma quiet_on_state_ops [quiet_intros]:
  assumes "quiet a b"
  shows "quiet a (on_state cancel_in_flight b)"
    and "quiet a (on_state (admit_uid uid) b)"
    and "quiet a (on_state (update_resource_version rv) b)"
    and "quiet a (on_state clear_deletion_deadline b)"
    and "quiet a (on_state (\<lambda>s. snd (observe_deletion_deadline uid deadline s)) b)"
    and "quiet a (on_state (\<lambda>s. snd (take_runtime_reconcile_hint s)) b)"
    and "quiet a (on_state (update_pending_start_pod_if_newer key pod rv start) b)"
    and "quiet a (on_state (set_pending_replacement key pod rv) b)"
    and "quiet a (on_state (drop_pending_replacement_if_uid uid) b)"
    and "quiet a (on_state (update_pending_ephemeral_reconcile_if_newer key pod rv) b)"
    and "quiet a (on_state (drop_pending_ephemeral_reconcile_if_uid uid) b)"
    and "quiet a (on_state reset_start_retry_attempts b)"
    and "quiet a (on_state (defer_runtime_reconcile cid) b)"
    and "quiet a (on_state (defer_runtime_reconcile_event i kind) b)"
  by (rule quiet_on_state [OF assms], rule quiet_ops)+

lemma quiet_set_phase [quiet_intros]: "quiet a b \<Longrightarrow> quiet a (set_phase ph b)"
  unfolding set_phase_def by (rule quiet_on_state) (simp_all add: quiet_state_def)

lemma quiet_pending_ops [quiet_intros]:
  assumes "quiet a b"
  shows "quiet a (on_state (\<lambda>s. s\<lparr>pl_pending_stop_pod := px\<rparr>) b)"
    and "quiet a (on_state (\<lambda>s. s\<lparr>pl_pending_start_pod := ps\<rparr>) b)"
    and "quiet a (on_state (\<lambda>s. s\<lparr>pl_pending_replacement := pr\<rparr>) b)"
    and "quiet a (on_state (\<lambda>s. s\<lparr>pl_pending_ephemeral_reconcile := pe\<rparr>) b)"
    and "quiet a (on_state (\<lambda>s. s\<lparr>pl_slot_admission_waiting := flag\<rparr>) b)"
    and "quiet a (on_state (\<lambda>s. s\<lparr>pl_pending_delete_finalization_retry := flag\<rparr>) b)"
    and "quiet a (on_state (\<lambda>s. s\<lparr>pl_pending_startup_finalization_retry := flag\<rparr>) b)"
    and "quiet a (on_state (\<lambda>s. s\<lparr>pl_finalized := flag, pl_pending_startup_finalization_retry := flag'\<rparr>) b)"
    and "quiet a (on_state (\<lambda>s. s\<lparr>pl_slot_admission_waiting := flag, pl_admitted_slot_uid := admitted\<rparr>) b)"
    and "quiet a (on_state (\<lambda>s. s\<lparr>pl_phase := ph, pl_active_uid := active,
           pl_admitted_slot_uid := admitted, pl_active_sandbox_id := sandbox\<rparr>) b)"
    and "quiet a (on_state (\<lambda>s. (reset_start_retry_attempts s)\<lparr>pl_pending_start_pod := ps\<rparr>) b)"
  by (rule quiet_on_state [OF assms], simp add: quiet_state_def reset_start_retry_attempts_def)+

lemma quiet_cancel_ops [quiet_intros]:
  assumes "quiet a b"
  shows "quiet a (on_state (\<lambda>s. (cancel_in_flight s)\<lparr>pl_pending_stop_pod := px\<rparr>) b)"
    and "quiet a (on_state (\<lambda>s. (cancel_in_flight s)\<lparr>pl_pending_delete_finalization_retry := flag\<rparr>) b)"
    and "quiet a (on_state (\<lambda>s. admit_uid uid (cancel_in_flight s)) b)"
  by (rule quiet_on_state [OF assms],
      (auto simp: quiet_state_def cancel_in_flight_def admit_uid_def Let_def split: option.split)[1])+

lemma quiet_actor_fields [quiet_intros]:
  "quiet a b \<Longrightarrow> quiet a (b\<lparr>pa_last_config_error_retry_fingerprint := x\<rparr>)"
  "quiet a b \<Longrightarrow> quiet a (b\<lparr>pa_last_start_pod_configuration_fingerprint := y\<rparr>)"
  "quiet a b \<Longrightarrow> quiet a (b\<lparr>pa_pending_restart_admission := m\<rparr>)"
  "quiet a b \<Longrightarrow> quiet a (b\<lparr>pa_restart_reconciled := r\<rparr>)"
  "quiet_state (pa_state a) s \<Longrightarrow> quiet a (b\<lparr>pa_state := s\<rparr>)"
  by simp_all

lemma quiet_snd [quiet_intros]:
  assumes "quiet a b"
  shows "quiet_state (pa_state a) (snd (on_started sid (pa_state b)))"
    and "quiet_state (pa_state a) (snd (take_runtime_reconcile_hint (pa_state b)))"
    and "quiet_state (pa_state a) (snd (next_start_retry_delay (pa_state b)))"
    and "quiet_state (pa_state a) (snd (fire_deletion_deadline uid generation (pa_state b)))"
  by (rule quiet_state_trans [OF assms], rule quiet_ops)+

lemma quiet_helpers [quiet_intros]:
  assumes "quiet a b"
  shows "quiet a (observe_local_deletion_deadline env key pod b)"
    and "quiet a (ensure_active_uid key b)"
    and "quiet a (admit_replacement_uid key b)"
  using assms
  by (auto simp: observe_local_deletion_deadline_def ensure_active_uid_def admit_replacement_uid_def Let_def
      intro!: quiet_intros split: option.split)

lemma completion_matches_quiet:
  assumes "completion_matches key n kind a = (matched, a1)"
  shows "quiet a a1"
  using assms quiet_ops(19) [of "pa_state a" "plk_uid key" n kind]
  by (auto simp: completion_matches_def split: if_splits prod.splits)

text \<open>The decisions that dispatch work.\<close>

lemma decided_actions [decided_intros]:
  assumes "quiet a b"
  shows "decided a (start_pod_action env key pod_opt b)"
    and "decided a (check_slot_admission_action key pod rv start b)"
    and "decided a (stop_pod_action key pod_opt sandbox deadline mode b)"
    and "decided a (finalize_pod_deletion_action key b)"
    and "decided a (finalize_startup_action key pod_opt sandbox b)"
    and "decided a (reconcile_runtime_action key hint b)"
    and "decided a (reconcile_cri_leftovers_action key b)"
    and "decided a (handle_command_action key command b)"
    and "decided a (reconcile_ephemeral_action key pod_opt b)"
  using assms
    quiet_on_state_ops(7) [of a b key pod rv start]
    quiet_pending_ops(6) [of a b False]
    quiet_pending_ops(1) [OF quiet_on_state_ops(6), of a b
      "Some \<lparr>px_key = key, px_pod = pod_opt, px_sandbox_id = sandbox, px_deletion_deadline = deadline, px_mode = mode\<rparr>"]
  by (auto simp: start_pod_action_def check_slot_admission_action_def stop_pod_action_def
      finalize_pod_deletion_action_def finalize_startup_action_def reconcile_runtime_action_def
      reconcile_cri_leftovers_action_def handle_command_action_def reconcile_ephemeral_action_def
      next_work_operation_def next_operation_id_def record_in_flight_def quiet_state_def Let_def)

declare decided.simps [simp del]

lemma decided_quiet: "decided a d \<Longrightarrow> is_noop (snd d) \<Longrightarrow> quiet a (fst d)"
  by (cases d) (simp add: is_noop_def decided.simps)

lemma decided_retry_actions [decided_intros]:
  assumes "quiet a b"
  shows "decided a (start_retry_action key b)"
    and "decided a (start_pod_retry_action key message b)"
  using quiet_snd(3) [OF assms]
  by (auto simp: start_retry_action_def start_pod_retry_action_def decided.simps split: prod.split)

lemma decided_reconcilers [decided_intros]:
  assumes "quiet a b"
  shows "decided a (runtime_reconcile_action_or_defer key cid kind b)"
    and "decided a (drain_pending_runtime_reconcile key b)"
    and "decided a (reconcile_deferred_runtime_after_start_failure key b)"
    and "decided a (make_startable_or_start_pending_snapshot env key b)"
    and "decided a (start_or_check_slot_admission env key pod rv start b)"
    and "decided a (reconcile_ephemeral_action_or_defer key pod rv b)"
    and "decided a (drain_pending_ephemeral_reconcile key b)"
    and "decided a (drain_pending_startup_finalization_retry key b)"
    and "decided a (retry_unconfirmed_startup_finalization_after_runtime_reconcile key b)"
  using assms
  by (auto simp: runtime_reconcile_action_or_defer_def drain_pending_runtime_reconcile_def
      reconcile_deferred_runtime_after_start_failure_def make_startable_or_start_pending_snapshot_def
      start_or_check_slot_admission_def reconcile_ephemeral_action_or_defer_def
      drain_pending_ephemeral_reconcile_def drain_pending_startup_finalization_retry_def
      retry_unconfirmed_startup_finalization_after_runtime_reconcile_def Let_def case_prod_unfold
      intro!: decided_intros quiet_intros split: option.split)

lemma decided_repaired [decided_intros]:
  "quiet a b \<Longrightarrow> decided a (retry_repaired_pending_start_after_config_error env key b)"
  by (auto simp: retry_repaired_pending_start_after_config_error_def Let_def case_prod_unfold
      intro!: decided_intros quiet_intros decided_quiet split: option.split)

lemma decided_drain_both [decided_intros]:
  "quiet a b \<Longrightarrow> decided a (drain_pending_runtime_or_ephemeral_reconcile key b)"
  by (auto simp: drain_pending_runtime_or_ephemeral_reconcile_def Let_def case_prod_unfold
      intro!: decided_intros quiet_intros decided_quiet)

lemma decided_stop_terminating [decided_intros]:
  "quiet a b \<Longrightarrow> decided a (stop_terminating_pod key pod b)"
  by (auto simp: stop_terminating_pod_def Let_def intro!: decided_intros quiet_intros split: prod.split)

lemma decided_watch_running [decided_intros]:
  "quiet a b \<Longrightarrow> decided a (watch_running env key rv pod sandbox b)"
  by (auto simp: watch_running_def Let_def case_prod_unfold
      intro!: decided_intros quiet_intros split: finalization_action.split)

lemma decided_watch_not_running [decided_intros]:
  "quiet a b \<Longrightarrow> decided a (watch_not_running env key rv pod b)"
  by (auto simp: watch_not_running_def watch_pending_start_def Let_def
      intro!: decided_intros quiet_intros split: option.split)

lemma decided_defer_restart:
  "defer_for_restart_reconcile key m b = Some d \<Longrightarrow> quiet a b \<Longrightarrow> decided a d"
  by (auto simp: defer_for_restart_reconcile_def intro!: decided_intros quiet_intros split: if_splits)

lemma decided_watch_added [decided_intros]:
  "quiet a b \<Longrightarrow> decided a (handle_watch_added env key rv pod b)"
  by (auto simp: handle_watch_added_def handle_watch_added_admitted_def Let_def
      intro!: decided_intros quiet_intros elim: decided_defer_restart split: option.split)

lemma decided_watch_modified [decided_intros]:
  "quiet a b \<Longrightarrow> decided a (handle_watch_modified env key rv pod b)"
  by (auto simp: handle_watch_modified_def handle_watch_modified_admitted_def Let_def
      intro!: decided_intros quiet_intros elim: decided_defer_restart split: option.split)

lemma decided_watch_deleted [decided_intros]:
  "quiet a b \<Longrightarrow> decided a (handle_watch_deleted key rv pod b)"
  by (auto simp: handle_watch_deleted_def Let_def intro!: decided_intros quiet_intros split: prod.split)

lemma decided_retry_due [decided_intros]:
  "quiet a b \<Longrightarrow> decided a (handle_retry_due env key b)"
  by (auto simp: handle_retry_due_def retry_start_def Let_def
      intro!: decided_intros quiet_intros split: option.split)

lemma decided_orphan [decided_intros]:
  "quiet a b \<Longrightarrow> decided a (handle_orphan_finalize key b)"
  by (auto simp: handle_orphan_finalize_def stale_active_uid_noop_def Let_def
      intro!: decided_intros quiet_intros split: option.split)

lemma decided_work_failed [decided_intros]:
  "quiet a b \<Longrightarrow> decided a (handle_work_failed env key kind retryable failure b)"
  by (auto simp: handle_work_failed_def start_pod_failed_def stop_pod_failed_def
      stop_pod_completed_action_def finalize_pod_deletion_failed_def Let_def case_prod_unfold
      intro!: decided_intros quiet_intros decided_quiet split: pod_lifecycle_work_kind.split)

lemma decided_start_completed [decided_intros]:
  "quiet a b \<Longrightarrow> decided a (start_pod_completed env key sandbox b)"
  by (auto simp: start_pod_completed_def Let_def case_prod_unfold
      intro!: decided_intros quiet_intros split: finalization_action.split)

lemma decided_work_completed [decided_intros]:
  "quiet a b \<Longrightarrow> decided a (handle_work_completed env key kind sandbox b)"
  by (auto simp: handle_work_completed_def stop_pod_completed_action_def
      finalize_pod_deletion_completed_def finalize_startup_completed_def reconcile_runtime_completed_def
      Let_def case_prod_unfold
      intro!: decided_intros quiet_intros decided_quiet split: pod_lifecycle_work_kind.split option.split)

lemma decided_slot_admission [decided_intros]:
  assumes "quiet a b"
  shows "decided a (handle_slot_admission_granted env key n pod rv start b)"
    and "decided a (handle_slot_admission_blocked key n b)"
    and "decided a (handle_slot_admission_wake key b)"
proof -
  have matched: "quiet a c" if "completion_matches key n kind b = (m, c)" for m c kind
    using quiet_state_trans [OF assms completion_matches_quiet [OF that]] .
  show "decided a (handle_slot_admission_granted env key n pod rv start b)"
    and "decided a (handle_slot_admission_blocked key n b)"
    by (auto simp: handle_slot_admission_granted_def handle_slot_admission_blocked_def Let_def
        intro!: decided_intros quiet_intros dest: matched split: prod.split)
  show "decided a (handle_slot_admission_wake key b)"
    using assms by (auto simp: handle_slot_admission_wake_def intro!: decided_intros quiet_intros split: option.split)
qed

lemma decided_signals [decided_intros]:
  assumes "quiet a b"
  shows "decided a (handle_runtime_signal key cid kind b)"
    and "decided a (handle_deletion_deadline_due key generation b)"
    and "decided a (handle_lifecycle_command key command b)"
  using assms
  by (auto simp: handle_runtime_signal_def handle_deletion_deadline_due_def handle_lifecycle_command_def
      stale_active_uid_noop_def Let_def case_prod_unfold intro!: decided_intros quiet_intros split: option.split)

text \<open>Resuming the deferred admission after a restart reconcile.\<close>

definition resume_pending_restart_admission :: "actor_env \<Rightarrow> pod_lifecycle_actor \<Rightarrow> decision"
where
  "resume_pending_restart_admission env a =
    (case pa_pending_restart_admission a of
       None \<Rightarrow> (a, Noop)
     | Some m \<Rightarrow> handle env m (a\<lparr>pa_pending_restart_admission := None\<rparr>))"

lemma handle_work_result:
  "handle env (PodWorkCompleted key n kind sandbox) a =
    (let (matched, a1) = completion_matches key n kind a
     in if \<not> matched then (a1, Noop)
        else if kind = ReconcileCriLeftoversWork then resume_pending_restart_admission env a1
        else handle_work_completed env key kind sandbox a1)"
  "handle env (PodWorkFailed key n kind retryable failure) a =
    (let (matched, a1) = completion_matches key n kind a
     in if \<not> matched then (a1, Noop)
        else if kind = ReconcileCriLeftoversWork then resume_pending_restart_admission env a1
        else handle_work_failed env key kind retryable failure a1)"
  by (simp_all add: handle.simps resume_pending_restart_admission_def cong: if_cong)

lemma handle_other:
  "handle env (WatchAdded key rv pod) a = handle_watch_added env key rv pod a"
  "handle env (WatchModified key rv pod) a = handle_watch_modified env key rv pod a"
  "handle env (WatchDeleted key rv pod) a = handle_watch_deleted key rv pod a"
  "handle env (RetryDue key) a = handle_retry_due env key a"
  "handle env (OrphanFinalize key reason) a = handle_orphan_finalize key a"
  "handle env (SlotAdmissionGranted key n pod rv start) a =
     handle_slot_admission_granted env key n pod rv start a"
  "handle env (SlotAdmissionBlocked key n uid node) a = handle_slot_admission_blocked key n a"
  "handle env (SlotAdmissionWake key) a = handle_slot_admission_wake key a"
  "handle env (CriEvent key cid event) a = handle_runtime_signal key (Some cid) (Some event) a"
  "handle env (ActiveDeadlineDue key) a = handle_runtime_signal key None None a"
  "handle env (DeletionDeadlineDue key generation) a = handle_deletion_deadline_due key generation a"
  "handle env (LifecycleCommand key command) a = handle_lifecycle_command key command a"
  "handle env (NetworkAssigned key sid ip) a = (a, Noop)"
  "handle env (ProbeResult key probe_id container probe_kind result) a = (a, Noop)"
  "handle env (ActorIdleGraceExpired key generation) a = (a, Noop)"
  by (simp_all add: handle.simps)

lemmas handle_eqs = handle_work_result handle_other

lemma handle_decided: "decided a (handle env message a)"
proof (induction env message a rule: handle.induct)
  case (1 env message a)
  have resume: "decided a (resume_pending_restart_admission env c)"
    if "completion_matches key n kind a = (True, c)" and "kind = ReconcileCriLeftoversWork"
      and "message = PodWorkCompleted key n kind sandbox \<or> message = PodWorkFailed key n kind retryable failure"
    for key n kind sandbox retryable failure c
  proof (cases "pa_pending_restart_admission c")
    case None
    then show ?thesis
      using that completion_matches_quiet
      by (auto simp: resume_pending_restart_admission_def intro!: decided_intros)
  next
    case (Some m)
    have "decided (c\<lparr>pa_pending_restart_admission := None\<rparr>)
        (handle env m (c\<lparr>pa_pending_restart_admission := None\<rparr>))"
      using that(3)
    proof
      assume "message = PodWorkCompleted key n kind sandbox"
      from 1(1) [OF this refl _ _ that(2) Some, of True] show ?thesis
        using that(1) by simp
    next
      assume "message = PodWorkFailed key n kind retryable failure"
      from 1(2) [OF this refl _ _ that(2) Some, of True] show ?thesis
        using that(1) by simp
    qed
    then show ?thesis
      using Some completion_matches_quiet [OF that(1)]
        quiet_decided [of a "c\<lparr>pa_pending_restart_admission := None\<rparr>"]
      by (simp add: resume_pending_restart_admission_def)
  qed
  show ?case
  proof (cases message)
    case (PodWorkFailed key n kind retryable failure)
    then show ?thesis
      using resume [of key n kind] completion_matches_quiet [of key n kind a]
      by (auto simp: handle_eqs Let_def intro!: decided_intros split: prod.split)
  next
    case (PodWorkCompleted key n kind sandbox)
    then show ?thesis
      using resume [of key n kind] completion_matches_quiet [of key n kind a]
      by (auto simp: handle_eqs Let_def intro!: decided_intros split: prod.split)
  qed (simp_all add: handle_eqs decided_intros)
qed


section \<open>Runs\<close>

fun run_actor ::
  "(actor_env \<times> lifecycle_message) list \<Rightarrow> pod_lifecycle_actor \<Rightarrow> pod_lifecycle_actor \<times> pod_action list"
where
  "run_actor [] a = (a, [])"
| "run_actor ((env, message) # ms) a =
    (let (a1, action) = handle env message a; (a2, actions) = run_actor ms a1 in (a2, action # actions))"

text \<open>The record of the operation in flight is one record, and its id was allocated.\<close>

definition coherent :: "pod_lifecycle_state \<Rightarrow> bool"
where
  "coherent s \<longleftrightarrow>
    pl_work_in_flight s = map_option ifw_operation_id (pl_in_flight s) \<and>
    (\<forall>work. pl_in_flight s = Some work \<longrightarrow> ifw_operation_id work \<le> pl_operation_id s)"

lemma coherent_new [simp]: "coherent pod_lifecycle_state_new"
  by (simp add: coherent_def pod_lifecycle_state_new_def)

lemma quiet_coherent: "coherent s \<Longrightarrow> quiet_state s t \<Longrightarrow> coherent t"
  by (auto simp: coherent_def quiet_state_def)

lemma decided_coherent:
  assumes "coherent (pa_state a)" and "decided a (b, action)"
  shows "coherent (pa_state b)"
  using assms by (auto simp: decided.simps coherent_def quiet_state_def split: option.splits)

definition allocated :: "pod_lifecycle_actor \<Rightarrow> nat"
  where "allocated a = unat (pl_operation_id (pa_state a))"

lemma decided_allocated:
  assumes "decided a (b, action)" and "allocated a + 1 < 2 ^ 64"
  shows "allocated a \<le> allocated b" and "allocated b \<le> allocated a + 1"
    and "action_operation_id action = Some n \<Longrightarrow> unat n = allocated b \<and> allocated b = allocated a + 1"
proof -
  have "unat (pl_operation_id (pa_state a) + 1) = unat (pl_operation_id (pa_state a)) + 1"
    using assms(2) unat_add_lem [of "pl_operation_id (pa_state a)" 1] by (simp add: allocated_def)
  then show "allocated a \<le> allocated b" and "allocated b \<le> allocated a + 1"
    and "action_operation_id action = Some n \<Longrightarrow> unat n = allocated b \<and> allocated b = allocated a + 1"
    using assms by (auto simp: decided.simps allocated_def quiet_state_def split: option.splits)
qed

end
