(* ===== verification/Pod_Actor_Runs.thy ===== *)
theory Pod_Actor_Runs
  imports Pod_Actor
begin

text \<open>
  Runs of the Pod actor of \<^verbatim>\<open>Pod_Actor\<close> over sequences of messages: the operations it dispatches, the results
  it accepts, the clean-up after a restart, the teardown of a Pod, the container events of a starting
  Pod, and the results the actor loses.
\<close>

section \<open>Dispatched operations\<close>

definition operation_ids :: "pod_action list \<Rightarrow> u64 list"
  where "operation_ids actions = List.map_filter action_operation_id actions"

text \<open>The work in flight is work that an action of the run dispatched.\<close>

definition dispatched_by :: "pod_action \<Rightarrow> in_flight_work \<Rightarrow> bool"
where
  "dispatched_by action work \<longleftrightarrow>
    action_operation_id action = Some (ifw_operation_id work) \<and>
    expected_completion action = Some (ifw_kind work) \<and>
    map_option plk_uid (action_key action) = Some (ifw_uid work)"

lemma decided_in_flight:
  assumes "decided a (b, action)" and "in_flight b = Some work"
  shows "in_flight a = Some work \<or> dispatched_by action work"
  using assms by (auto simp: decided.simps quiet_state_def dispatched_by_def split: option.splits)

lemma decided_rv:
  "decided a (b, action) \<Longrightarrow>
    rv_le (pl_last_resource_version (pa_state a)) (pl_last_resource_version (pa_state b))"
  by (auto simp: decided.simps quiet_state_def split: option.splits)

definition lawful_run :: "pod_lifecycle_actor \<Rightarrow> pod_lifecycle_actor \<Rightarrow> pod_action list \<Rightarrow> bool"
where
  "lawful_run a b actions \<longleftrightarrow>
    coherent (pa_state b) \<and> allocated a \<le> allocated b \<and> allocated b \<le> allocated a + length actions \<and>
    sorted_wrt (<) (operation_ids actions) \<and>
    (\<forall>n \<in> set (operation_ids actions). allocated a < unat n \<and> unat n \<le> allocated b) \<and>
    rv_le (pl_last_resource_version (pa_state a)) (pl_last_resource_version (pa_state b)) \<and>
    (\<forall>work. in_flight b = Some work \<longrightarrow>
       in_flight a = Some work \<or> (\<exists>action \<in> set actions. dispatched_by action work))"

lemma operation_ids_simps [simp]:
  "operation_ids [] = []"
  "operation_ids (action # actions) =
    (case action_operation_id action of None \<Rightarrow> operation_ids actions | Some n \<Rightarrow> n # operation_ids actions)"
  by (simp_all add: operation_ids_def map_filter_def split: option.split)

lemma lawful_step:
  assumes "decided a (a1, action)" and "coherent (pa_state a)" and "allocated a + 1 < 2 ^ 64"
    and "lawful_run a1 b actions"
  shows "lawful_run a b (action # actions)"
proof -
  note ids = decided_allocated [OF assms(1,3)]
  have "\<forall>work. in_flight b = Some work \<longrightarrow>
      in_flight a = Some work \<or> (\<exists>x \<in> set (action # actions). dispatched_by x work)"
    using assms(4) decided_in_flight [OF assms(1)] by (auto simp: lawful_run_def)
  moreover have "sorted_wrt (<) (operation_ids (action # actions))"
    and "\<forall>n \<in> set (operation_ids (action # actions)). allocated a < unat n \<and> unat n \<le> allocated b"
    using ids assms(4) by (auto simp: lawful_run_def word_less_nat_alt split: option.split)
  ultimately show ?thesis
    using assms(4) ids decided_rv [OF assms(1)] by (auto simp: lawful_run_def intro: rv_le_trans)
qed

lemma run_actor_lawful:
  assumes "run_actor ms a = (b, actions)" and "coherent (pa_state a)" and "allocated a + length ms < 2 ^ 64"
  shows "lawful_run a b actions"
  using assms
proof (induction ms a arbitrary: b actions rule: run_actor.induct)
  case (1 a)
  then show ?case by (simp add: lawful_run_def)
next
  case (2 env m ms a)
  obtain a1 action where step: "handle env m a = (a1, action)" by fastforce
  obtain b' actions' where rest: "run_actor ms a1 = (b', actions')" by fastforce
  have d: "decided a (a1, action)"
    using handle_decided [of a env m] step by simp
  have "lawful_run a1 b' actions'"
    using "2.IH" [OF step [symmetric] refl rest decided_coherent [OF "2.prems"(2) d]] "2.prems"(3)
      decided_allocated(2) [OF d] by simp
  then show ?case
    using lawful_step [OF d "2.prems"(2)] "2.prems"(1,3) step rest by auto
qed

lemma run_actor_length: "run_actor ms a = (b, actions) \<Longrightarrow> length actions = length ms"
  by (induction ms a arbitrary: b actions rule: run_actor.induct) (auto split: prod.splits)

lemma actor_new_start [simp]:
  "coherent (pa_state (actor_new slot node))" "allocated (actor_new slot node) = 0"
  by (simp_all add: actor_new_def allocated_def pod_lifecycle_state_new_def coherent_def)

lemma operation_ids_append [simp]: "operation_ids (xs @ ys) = operation_ids xs @ operation_ids ys"
  by (induction xs) (simp_all split: option.split)

text \<open>C20: Operation ids of a Pod actor are never reused. For every sequence of messages, in any order and with
  any contents: the ids of the dispatched operations are strictly increasing, the actor's two records
  of the operation it waits for agree, and that operation is one that was dispatched, for the
  same Pod UID and with the same kind. The resourceVersion last seen never goes back on the way. A
  dispatch replaces the record of an operation that is still running, so this does not say that operations
  do not overlap.\<close>

theorem operation_ids_never_reused:
  assumes "run_actor ms (actor_new slot node) = (a, actions)" and "run_actor ms' a = (b, actions')"
    and "length ms + length ms' < 2 ^ 64"
  shows "pl_work_in_flight (pa_state b) = map_option ifw_operation_id (in_flight b) \<and>
    sorted_wrt (<) (operation_ids (actions @ actions')) \<and>
    (\<forall>work. in_flight b = Some work \<longrightarrow> (\<exists>action \<in> set (actions @ actions'). dispatched_by action work)) \<and>
    rv_le (pl_last_resource_version (pa_state a)) (pl_last_resource_version (pa_state b))"
proof -
  have first: "lawful_run (actor_new slot node) a actions"
    using run_actor_lawful [OF assms(1)] assms(3) by simp
  have "length actions = length ms"
    using assms(1) by (rule run_actor_length)
  then have "coherent (pa_state a)" and "allocated a + length ms' < 2 ^ 64"
    using first assms(3) by (auto simp: lawful_run_def)
  then have second: "lawful_run a b actions'"
    by (rule run_actor_lawful [OF assms(2)])
  have "in_flight (actor_new slot node) = None"
    by (simp add: actor_new_def pod_lifecycle_state_new_def)
  then have "\<forall>work. in_flight b = Some work \<longrightarrow> (\<exists>action \<in> set (actions @ actions'). dispatched_by action work)"
    using first second by (fastforce simp: lawful_run_def)
  moreover have "x < y" if "x \<in> set (operation_ids actions)" and "y \<in> set (operation_ids actions')" for x y
    using first second that unfolding lawful_run_def word_less_nat_alt by (meson le_less_trans)
  ultimately show ?thesis
    using first second by (simp add: lawful_run_def coherent_def sorted_wrt_append)
qed


section \<open>Results of operations\<close>

text \<open>The messages that report the result of an operation.\<close>

fun result_operation :: "lifecycle_message \<Rightarrow> (pod_lifecycle_key \<times> u64 \<times> pod_lifecycle_work_kind) option"
where
  "result_operation (PodWorkCompleted key n kind _) = Some (key, n, kind)"
| "result_operation (PodWorkFailed key n kind _ _) = Some (key, n, kind)"
| "result_operation (SlotAdmissionGranted key n _ _ _) = Some (key, n, CheckSlotAdmissionWork)"
| "result_operation (SlotAdmissionBlocked key n _ _) = Some (key, n, CheckSlotAdmissionWork)"
| "result_operation _ = None"

lemma completion_matches_eq:
  "completion_matches key n kind a =
    (if in_flight_matches (plk_uid key) n kind (pa_state a)
     then (True, on_state clear_in_flight a) else (False, a))"
  by (auto simp: completion_matches_def in_flight_matches_def complete_matching_work_def on_state_def
      is_some_and_iff)

lemma unmatched_result_ignored:
  assumes "result_operation m = Some (key, n, kind)"
    and "\<not> in_flight_matches (plk_uid key) n kind (pa_state a)"
  shows "handle env m a = (a, Noop)"
  using assms
  by (cases m) (auto simp: handle_eqs handle_slot_admission_granted_def handle_slot_admission_blocked_def
      completion_matches_eq Let_def)

lemma matched_result_decided:
  assumes "result_operation m = Some (key, n, kind)"
    and "in_flight_matches (plk_uid key) n kind (pa_state a)"
  shows "decided (on_state clear_in_flight a) (handle env m a)"
proof -
  have resume: "decided c (resume_pending_restart_admission env c)" for c
    using quiet_decided [OF _ handle_decided, of c "c\<lparr>pa_pending_restart_admission := None\<rparr>"]
    by (auto simp: resume_pending_restart_admission_def intro!: decided_intros split: option.split)
  show ?thesis
    using assms
    by (cases m) (auto simp: handle_eqs handle_slot_admission_granted_def handle_slot_admission_blocked_def
        completion_matches_eq Let_def intro!: decided_intros quiet_intros resume)
qed

text \<open>An operation id that was allocated and is no longer in flight is never in flight again.\<close>

definition retired :: "u64 \<Rightarrow> pod_lifecycle_actor \<Rightarrow> bool"
where
  "retired n a \<longleftrightarrow> unat n \<le> allocated a \<and> (\<forall>work. in_flight a = Some work \<longrightarrow> ifw_operation_id work \<noteq> n)"

lemma decided_retired:
  assumes "decided a (b, action)" and "allocated a + 1 < 2 ^ 64" and "retired n a"
  shows "retired n b"
  using decided_allocated [OF assms(1,2)] decided_in_flight [OF assms(1)] assms(3)
  by (fastforce simp: retired_def dispatched_by_def)

lemma run_actor_retired:
  assumes "run_actor ms a = (b, actions)" and "allocated a + length ms < 2 ^ 64" and "retired n a"
  shows "retired n b"
  using assms
proof (induction ms a arbitrary: b actions rule: run_actor.induct)
  case (2 env m ms a)
  obtain a1 action where step: "handle env m a = (a1, action)" by fastforce
  obtain b' actions' where rest: "run_actor ms a1 = (b', actions')" by fastforce
  have d: "decided a (a1, action)"
    using handle_decided [of a env m] step by simp
  have "retired n b'"
    using "2.IH" [OF step [symmetric] refl rest] "2.prems"(2,3) decided_allocated(2) [OF d]
      decided_retired [OF d] by simp
  then show ?case
    using "2.prems"(1) step rest by simp
qed simp

text \<open>C21: The result of an operation takes effect at most once. When a message with the result of the operation
  in flight has been handled, every later message for the same operation id, whatever it reports and however
  many other messages came in between, is ignored: it changes nothing and causes no action.\<close>

theorem result_takes_effect_once:
  assumes "run_actor ms (actor_new slot node) = (a, actions)"
    and "result_operation m = Some (key, n, kind)" and "in_flight_matches (plk_uid key) n kind (pa_state a)"
    and "handle env m a = (a1, action)" and "run_actor ms' a1 = (b, actions')"
    and "length ms + length ms' + 1 < 2 ^ 64"
    and "result_operation m' = Some (key', n, kind')"
  shows "handle env' m' b = (b, Noop)"
proof -
  let ?c = "on_state clear_in_flight a"
  have first: "lawful_run (actor_new slot node) a actions" and "length actions = length ms"
    using run_actor_lawful [OF assms(1)] run_actor_length [OF assms(1)] assms(6) by simp_all
  then have bound: "allocated a \<le> length ms" and coherent: "coherent (pa_state a)"
    by (auto simp: lawful_run_def)
  have same: "allocated ?c = allocated a"
    by (simp add: allocated_def on_state_def clear_in_flight_def)
  have "retired n ?c"
    using coherent assms(3)
    by (auto simp: retired_def same allocated_def coherent_def in_flight_matches_def is_some_and_iff
        on_state_def clear_in_flight_def word_le_nat_alt)
  moreover have d: "decided ?c (a1, action)"
    using matched_result_decided [OF assms(2,3), of env] assms(4) by simp
  ultimately have "retired n a1"
    using decided_retired [OF d] same bound assms(6) by simp
  moreover have "allocated a1 \<le> allocated a + 1"
    using decided_allocated(2) [OF d] same bound assms(6) by simp
  ultimately have "retired n b"
    using run_actor_retired [OF assms(5)] bound assms(6) by simp
  then have "\<not> in_flight_matches (plk_uid key') n kind' (pa_state b)"
    by (auto simp: retired_def in_flight_matches_def is_some_and_iff)
  then show ?thesis
    by (rule unmatched_result_ignored [OF assms(7)])
qed


section \<open>Restart\<close>

text \<open>The reconcile of left-over containers that the first watch event of a new actor starts.\<close>

lemma first_watch_event:
  assumes "m = WatchAdded key rv pod \<or> m = WatchModified key rv pod"
  shows "handle env m (actor_new slot node) =
    reconcile_cri_leftovers_action key ((actor_new slot node)
      \<lparr>pa_restart_reconciled := True, pa_pending_restart_admission := Some m\<rparr>)"
  using assms
  by (auto simp: handle_eqs handle_watch_added_def handle_watch_modified_def
      defer_for_restart_reconcile_def actor_new_def is_stale_resource_version_def
      pod_lifecycle_state_new_def)

lemma observe_not_terminating:
  "\<not> is_terminating pod \<Longrightarrow> observe_local_deletion_deadline env key pod a = on_state clear_deletion_deadline a"
  by (simp add: observe_local_deletion_deadline_def is_terminating_def Let_def)

text \<open>C24: Cleaning up after a restart delays the first watch event, as long as no other event overtakes
  it. The first watch event a new actor sees starts one reconcile of left-over containers. When the
  result of that reconcile is the next message, whether it succeeded or failed, the actor continues exactly as
  if it had received the watch event then. But the actor does not hold back a second event: an added
  Pod that is not terminating is admitted at once, under operation 2, while the clean-up is still
  running; the result of the clean-up is then ignored, and the first event is still deferred after it.\<close>

theorem restart_reconcile_transparent:
  assumes "m = WatchAdded key rv pod \<or> m = WatchModified key rv pod"
    and "r = PodWorkCompleted key 1 ReconcileCriLeftoversWork sandbox
       \<or> r = PodWorkFailed key 1 ReconcileCriLeftoversWork retryable failure"
    and "\<not> is_terminating pod'" and "\<not> pod_is_node_lost_terminal pod'"
    and "handle env m (actor_new slot node) = (a, action)"
    and "handle env' (WatchAdded key rv' pod') a = (b, action')"
  shows "action = ReconcileCriLeftovers key 1
    \<and> handle env'' r a =
        handle env'' m ((actor_new slot node)
          \<lparr>pa_restart_reconciled := True, pa_state := pod_lifecycle_state_new\<lparr>pl_operation_id := 1\<rparr>\<rparr>)
    \<and> action' = CheckSlotAdmission key pod' rv' True 2
    \<and> handle env'' r b = (b, Noop) \<and> pa_pending_restart_admission b = Some m"
proof -
  have a: "a = fst (handle env m (actor_new slot node))" "action = snd (handle env m (actor_new slot node))"
    using assms(5) by simp_all
  have b: "b = fst (handle env' (WatchAdded key rv' pod') a)" "action' = snd (handle env' (WatchAdded key rv' pod') a)"
    using assms(6) by simp_all
  note first = first_watch_event [OF assms(1), of env slot node]
  note dispatch = reconcile_cri_leftovers_action_def next_work_operation_def next_operation_id_def
    record_in_flight_def on_state_def actor_new_def pod_lifecycle_state_new_def Let_def
  have "action = ReconcileCriLeftovers key 1"
    unfolding a first by (simp add: dispatch)
  moreover have "handle env'' r a =
      handle env'' m ((actor_new slot node)
        \<lparr>pa_restart_reconciled := True, pa_state := pod_lifecycle_state_new\<lparr>pl_operation_id := 1\<rparr>\<rparr>)"
    using assms(2) unfolding a first
    by (auto simp: handle_eqs dispatch completion_matches_eq in_flight_matches_def
        resume_pending_restart_admission_def clear_in_flight_def)
  moreover have "action' = CheckSlotAdmission key pod' rv' True 2" "pa_pending_restart_admission b = Some m"
      "in_flight b = Some \<lparr>ifw_uid = plk_uid key, ifw_kind = CheckSlotAdmissionWork, ifw_operation_id = 2\<rparr>"
    using assms(3,4) unfolding b a first
    by (simp_all add: handle_eqs dispatch handle_watch_added_def defer_for_restart_reconcile_def
        handle_watch_added_admitted_def observe_not_terminating update_resource_version_def admit_uid_def
        clear_deletion_deadline_def set_phase_def start_or_check_slot_admission_def
        update_pending_start_pod_if_newer_def set_pending_start_pod_def in_flight_kind_def in_flight_kind_for_uid_def
        check_slot_admission_action_def)
  moreover have "handle env'' r b = (b, Noop)"
  proof (rule unmatched_result_ignored)
    show "result_operation r = Some (key, 1, ReconcileCriLeftoversWork)"
      using assms(2) by auto
    show "\<not> in_flight_matches (plk_uid key) 1 ReconcileCriLeftoversWork (pa_state b)"
      by (simp add: in_flight_matches_def calculation)
  qed
  ultimately show ?thesis
    by blast
qed


section \<open>Teardown\<close>

text \<open>A stop that is in flight, with the snapshot its retries use.\<close>

definition stopping :: "pod_lifecycle_key \<Rightarrow> pending_stop_pod \<Rightarrow> u64 \<Rightarrow> pod_lifecycle_actor \<Rightarrow> bool"
where
  "stopping key pending n a \<longleftrightarrow>
    phase a = Stopping \<and> active_uid a = Some (plk_uid key) \<and>
    pl_pending_stop_pod (pa_state a) = Some pending \<and> px_key pending = key \<and>
    in_flight a = Some \<lparr>ifw_uid = plk_uid key, ifw_kind = StopPodWork, ifw_operation_id = n\<rparr> \<and>
    pl_operation_id (pa_state a) = n"

text \<open>The messages of a stop whose first attempts fail: each failure is followed by the retry timer.\<close>

fun stop_failures ::
  "pod_lifecycle_key \<Rightarrow> u64 \<Rightarrow> (actor_env \<times> pod_lifecycle_work_failure \<times> actor_env) list
    \<Rightarrow> (actor_env \<times> lifecycle_message) list"
where
  "stop_failures key n [] = []"
| "stop_failures key n ((env, failure, env') # fs) =
    (env, PodWorkFailed key n StopPodWork True failure) # (env', RetryDue key) # stop_failures key (n + 1) fs"

fun stop_actions :: "pod_lifecycle_key \<Rightarrow> pending_stop_pod \<Rightarrow> u64 \<Rightarrow> nat \<Rightarrow> pod_action list"
where
  "stop_actions key pending n 0 = []"
| "stop_actions key pending n (Suc k) =
    ScheduleRetry key 1
    # StopPod key (px_pod pending) (px_sandbox_id pending) (px_deletion_deadline pending) (px_mode pending) (n + 1)
    # stop_actions key pending (n + 1) k"

lemma stop_attempt:
  assumes "stopping key pending n a"
  shows "\<exists>b c. handle env (PodWorkFailed key n StopPodWork True failure) a = (b, ScheduleRetry key 1) \<and>
    handle env' (RetryDue key) b =
      (c, StopPod key (px_pod pending) (px_sandbox_id pending) (px_deletion_deadline pending)
            (px_mode pending) (n + 1)) \<and>
    stopping key pending (n + 1) c"
  using assms
  by (auto simp: stopping_def handle_eqs completion_matches_eq in_flight_matches_def handle_work_failed_def
      stop_pod_failed_def set_phase_def handle_retry_due_def stop_pod_action_def next_work_operation_def
      next_operation_id_def record_in_flight_def on_state_def clear_in_flight_def
      take_runtime_reconcile_hint_def Let_def case_prod_unfold)

lemma stop_attempts:
  assumes "stopping key pending n a"
  shows "\<exists>b. run_actor (stop_failures key n fs) a = (b, stop_actions key pending n (length fs)) \<and>
    stopping key pending (n + of_nat (length fs)) b"
  using assms
proof (induction fs arbitrary: n a)
  case Nil
  then show ?case by simp
next
  case (Cons f fs)
  obtain env failure env' where f: "f = (env, failure, env')" by (cases f)
  obtain b c where "handle env (PodWorkFailed key n StopPodWork True failure) a = (b, ScheduleRetry key 1)"
    and "handle env' (RetryDue key) b =
      (c, StopPod key (px_pod pending) (px_sandbox_id pending) (px_deletion_deadline pending)
            (px_mode pending) (n + 1))"
    and "stopping key pending (n + 1) c"
    using stop_attempt [OF Cons.prems] by blast
  then show ?case
    using Cons.IH [of "n + 1" c] by (auto simp: f Let_def algebra_simps)
qed

text \<open>C23: A stop is retried until it succeeds and then the Pod is finalised. However often the runtime
  cleanup fails in a way that may be retried, each failure schedules a retry in one second and each retry dispatches
  the same stop again, with the same Pod snapshot, sandbox, deadline and mode. When an attempt completes, the
  actor gives up the Pod and dispatches the removal of the API object.\<close>

theorem stop_retried_until_done:
  assumes "stopping key pending n a"
  shows "\<exists>b c k. run_actor (stop_failures key n fs) a = (b, stop_actions key pending n (length fs)) \<and>
    handle env (PodWorkCompleted key (n + of_nat (length fs)) StopPodWork sandbox) b =
      (c, FinalizePodDeletion key k) \<and>
    phase c = Terminated \<and> active_uid c = None \<and> pl_admitted_slot_uid (pa_state c) = None \<and>
    pl_pending_stop_pod (pa_state c) = None"
proof -
  obtain b where run: "run_actor (stop_failures key n fs) a = (b, stop_actions key pending n (length fs))"
    and b: "stopping key pending (n + of_nat (length fs)) b"
    using stop_attempts [OF assms] by blast
  show ?thesis
    using run b
    by (auto simp: stopping_def handle_eqs completion_matches_eq in_flight_matches_def handle_work_completed_def
        stop_pod_completed_action_def finalize_pod_deletion_action_def next_work_operation_def
        next_operation_id_def record_in_flight_def on_state_def clear_in_flight_def cancel_in_flight_def
        clear_deletion_deadline_def drop_pending_ephemeral_reconcile_if_uid_def Let_def case_prod_unfold)
qed

lemma stop_pod_action_facts:
  "\<exists>b n. stop_pod_action key pod sandbox deadline mode c = (b, StopPod key pod sandbox deadline mode n) \<and>
    phase b = phase c \<and> active_uid b = active_uid c \<and>
    pl_deletion_deadline (pa_state b) = pl_deletion_deadline (pa_state c) \<and>
    pl_cancelled_operations (pa_state b) = pl_cancelled_operations (pa_state c)"
  by (simp add: stop_pod_action_def next_work_operation_def next_operation_id_def record_in_flight_def
      on_state_def take_runtime_reconcile_hint_def Let_def case_prod_unfold)

definition graceful_stop_in_flight :: "pod_lifecycle_key \<Rightarrow> pod_lifecycle_actor \<Rightarrow> bool"
where
  "graceful_stop_in_flight key a \<longleftrightarrow>
    is_some_and (pl_pending_stop_pod (pa_state a))
      (\<lambda>pending. plk_uid (px_key pending) = plk_uid key \<and> px_mode pending = Graceful) \<and>
    in_flight_kind key a = Some StopPodWork"

lemma deadline_due_stops:
  assumes "active_uid_is key a" and "pl_deletion_deadline (pa_state a) = Some d"
    and "dd_uid d = plk_uid key" and "\<not> dd_fired d"
    and "in_flight a = None \<or> graceful_stop_in_flight key a"
  shows "\<exists>c pod sandbox deadline.
    handle_deletion_deadline_due key (dd_generation d) a = stop_pod_action key pod sandbox deadline Forced c \<and>
    phase c = Stopping \<and> active_uid c = active_uid a \<and>
    pl_deletion_deadline (pa_state c) = Some (d\<lparr>dd_fired := True, dd_forced := True\<rparr>) \<and>
    (\<forall>work. in_flight a = Some work \<longrightarrow> ifw_operation_id work \<in> set (pl_cancelled_operations (pa_state c)))"
proof -
  let ?a1 = "a\<lparr>pa_state := (pa_state a)\<lparr>pl_deletion_deadline := Some (d\<lparr>dd_fired := True, dd_forced := True\<rparr>)\<rparr>\<rparr>"
  let ?a2 = "if graceful_stop_in_flight key a then on_state cancel_in_flight ?a1 else ?a1"
  have fired: "fire_deletion_deadline (plk_uid key) (dd_generation d) (pa_state a) = (True, pa_state ?a1)"
    using assms by (simp add: fire_deletion_deadline_def)
  have kind: "in_flight_kind key ?a1 = in_flight_kind key a"
    by (simp add: in_flight_kind_def in_flight_kind_for_uid_def)
  have "\<exists>pod sandbox deadline. handle_deletion_deadline_due key (dd_generation d) a =
      stop_pod_action key pod sandbox deadline Forced (set_phase Stopping ?a2)"
    using assms fired kind
    by (auto simp: handle_deletion_deadline_due_def graceful_stop_in_flight_def Let_def case_prod_unfold)
  moreover have "phase (set_phase Stopping ?a2) = Stopping"
    "active_uid (set_phase Stopping ?a2) = active_uid a"
    "pl_deletion_deadline (pa_state (set_phase Stopping ?a2)) = Some (d\<lparr>dd_fired := True, dd_forced := True\<rparr>)"
    "\<forall>work. in_flight a = Some work \<longrightarrow>
      ifw_operation_id work \<in> set (pl_cancelled_operations (pa_state (set_phase Stopping ?a2)))"
    using assms(5) by (auto simp: set_phase_def on_state_def cancel_in_flight_def Let_def split: option.split)
  ultimately show ?thesis
    by blast
qed

text \<open>When the deletion deadline of a Pod passes, its stop is forced. If nothing is in flight, or only a
  graceful stop of the Pod, the timer message dispatches a forced stop and cancels the graceful one; every
  further stop of the Pod is forced too, and a second message for the same timer does nothing.\<close>

lemma deletion_deadline_forces_stop:
  assumes "active_uid_is key a" and "pl_deletion_deadline (pa_state a) = Some d"
    and "dd_uid d = plk_uid key" and "\<not> dd_fired d"
    and "in_flight a = None \<or> graceful_stop_in_flight key a"
  shows "\<exists>b pod sandbox deadline n.
    handle env (DeletionDeadlineDue key (dd_generation d)) a = (b, StopPod key pod sandbox deadline Forced n) \<and>
    phase b = Stopping \<and>
    (\<forall>work. in_flight a = Some work \<longrightarrow> ifw_operation_id work \<in> set (pl_cancelled_operations (pa_state b))) \<and>
    snd (current_stop_context key b) = Forced \<and>
    handle env' (DeletionDeadlineDue key (dd_generation d)) b = (b, Noop)"
proof -
  obtain c pod sandbox deadline where
    c: "handle_deletion_deadline_due key (dd_generation d) a = stop_pod_action key pod sandbox deadline Forced c"
      "phase c = Stopping" "active_uid c = active_uid a"
      "pl_deletion_deadline (pa_state c) = Some (d\<lparr>dd_fired := True, dd_forced := True\<rparr>)"
      "\<forall>work. in_flight a = Some work \<longrightarrow> ifw_operation_id work \<in> set (pl_cancelled_operations (pa_state c))"
    using deadline_due_stops [OF assms] by blast
  obtain b n where b: "stop_pod_action key pod sandbox deadline Forced c =
      (b, StopPod key pod sandbox deadline Forced n)"
    "phase b = phase c" "active_uid b = active_uid c"
    "pl_deletion_deadline (pa_state b) = pl_deletion_deadline (pa_state c)"
    "pl_cancelled_operations (pa_state b) = pl_cancelled_operations (pa_state c)"
    using stop_pod_action_facts by blast
  have "handle_deletion_deadline_due key (dd_generation d) b = (b, Noop)"
    using b(4) c(4) by (simp add: handle_deletion_deadline_due_def fire_deletion_deadline_def Let_def)
  moreover have "snd (current_stop_context key b) = Forced"
    using b(4) c(4) assms(3) by (simp add: current_stop_context_def)
  ultimately show ?thesis
    using b c by (auto simp: handle_eqs)
qed


section \<open>Runtime events during startup\<close>

definition starting :: "pod_lifecycle_key \<Rightarrow> u64 \<Rightarrow> pod_lifecycle_actor \<Rightarrow> bool"
where
  "starting key n a \<longleftrightarrow>
    active_uid a = Some (plk_uid key) \<and> (phase a = PendingStart \<or> phase a = Starting) \<and>
    in_flight a = Some \<lparr>ifw_uid = plk_uid key, ifw_kind = StartPodWork, ifw_operation_id = n\<rparr> \<and>
    observations_wf (pl_runtime_reconcile_observations (pa_state a))"

abbreviation observed :: "pod_lifecycle_actor \<Rightarrow> string \<Rightarrow> kubelet_event_kind option"
  where "observed a \<equiv> map_of (obs_container_events (pl_runtime_reconcile_observations (pa_state a)))"

definition same_startup :: "pod_lifecycle_actor \<Rightarrow> pod_lifecycle_actor \<Rightarrow> bool"
where
  "same_startup a b \<longleftrightarrow>
    pl_sandbox_id (pa_state b) = pl_sandbox_id (pa_state a) \<and> pl_finalized (pa_state b) = pl_finalized (pa_state a)"

lemma startup_event:
  assumes "starting key n a"
  shows "\<exists>b. handle env (CriEvent key cid kind) a = (b, Noop) \<and> starting key n b \<and> same_startup a b \<and>
    observed b = (if cid = [] then observed a else (observed a)(cid \<mapsto> kind))"
  using assms
  by (auto simp: starting_def same_startup_def handle_eqs handle_runtime_signal_def stale_active_uid_noop_def
      active_uid_is_def active_uid_matches_def ensure_active_uid_def runtime_reconcile_action_or_defer_def
      defer_runtime_reconcile_event_def on_state_def observe_event_lookup)

lemma startup_events:
  assumes "starting key n a"
  shows "\<exists>b. run_actor (map (\<lambda>(env, cid, kind). (env, CriEvent key cid kind)) events) a =
      (b, replicate (length events) Noop) \<and> starting key n b \<and> same_startup a b \<and>
    observed b = observed a ++ map_of (rev (filter (\<lambda>(cid, kind). cid \<noteq> []) (map snd events)))"
  using assms
proof (induction events arbitrary: a)
  case Nil
  then show ?case by (simp add: same_startup_def)
next
  case (Cons e es)
  obtain env cid kind where e: "e = (env, cid, kind)" by (cases e)
  obtain b where b: "handle env (CriEvent key cid kind) a = (b, Noop)" "starting key n b" "same_startup a b"
    "observed b = (if cid = [] then observed a else (observed a)(cid \<mapsto> kind))"
    using startup_event [OF Cons.prems] by blast
  then show ?case
    using Cons.IH [of b] by (auto simp: e Let_def same_startup_def map_add_def fun_eq_iff split: option.split)
qed

text \<open>C22: No container event that arrives during startup is lost. While a Pod is being started, container
  events cause no action. When the start and its finalisation complete, the actor dispatches one runtime
  reconcile that carries every container an event named, with the last event of each.\<close>

theorem startup_events_reach_reconcile:
  assumes "starting key n a" and "sandbox \<noteq> []"
    and "\<not> (pl_sandbox_id (pa_state a) = Some sandbox \<and> pl_finalized (pa_state a))"
  shows "\<exists>a1 a2 a3 n1 n2 hint.
    run_actor (map (\<lambda>(env, cid, kind). (env, CriEvent key cid kind)) events) a =
      (a1, replicate (length events) Noop) \<and>
    handle env (PodWorkCompleted key n StartPodWork (Some sandbox)) a1 =
      (a2, FinalizeStartup key None sandbox n1) \<and>
    handle env' (PodWorkCompleted key n1 FinalizeStartupWork (Some sandbox)) a2 =
      (a3, ReconcileRuntime key hint n2) \<and>
    hint_event_kind hint =
      observed a ++ map_of (rev (filter (\<lambda>(cid, kind). cid \<noteq> []) (map snd events)))"
proof -
  obtain b where run: "run_actor (map (\<lambda>(env, cid, kind). (env, CriEvent key cid kind)) events) a =
      (b, replicate (length events) Noop)"
    and b: "starting key n b" "same_startup a b"
    and obs: "observed b = observed a ++ map_of (rev (filter (\<lambda>(cid, kind). cid \<noteq> []) (map snd events)))"
    using startup_events [OF assms(1)] by blast
  have "\<not> (pl_sandbox_id (pa_state b) = Some sandbox \<and> pl_finalized (pa_state b))"
    using assms(3) b(2) by (simp add: same_startup_def)
  then obtain c n1 where c: "handle env (PodWorkCompleted key n StartPodWork (Some sandbox)) b =
      (c, FinalizeStartup key None sandbox n1)"
    and state: "phase c = Running" "pl_pending_runtime_reconcile (pa_state c)"
      "in_flight c = Some \<lparr>ifw_uid = plk_uid key, ifw_kind = FinalizeStartupWork, ifw_operation_id = n1\<rparr>"
      "pl_sandbox_id (pa_state c) = Some sandbox"
      "pl_runtime_reconcile_observations (pa_state c) = pl_runtime_reconcile_observations (pa_state b)"
    using b(1) assms(2)
    by (auto simp: starting_def handle_eqs completion_matches_eq in_flight_matches_def handle_work_completed_def
        start_pod_completed_def on_started_def defer_runtime_reconcile_def reset_start_retry_attempts_def
        finalize_startup_action_def next_work_operation_def next_operation_id_def record_in_flight_def
        on_state_def set_phase_def clear_in_flight_def Let_def)
  let ?c = "on_state (\<lambda>s. s\<lparr>pl_finalized := True, pl_pending_startup_finalization_retry := False\<rparr>)
    (on_state clear_in_flight c)"
  define hint where "hint = fst (take_runtime_reconcile_hint (pa_state ?c))"
  have wf: "observations_wf (pl_runtime_reconcile_observations (pa_state b))"
    using b(1) by (simp add: starting_def)
  have "hint_container_events hint = obs_container_events (pl_runtime_reconcile_observations (pa_state b))"
    unfolding hint_def using state wf
    by (subst take_hint_exact) (simp_all add: on_state_def clear_in_flight_def)
  then have kinds: "hint_event_kind hint = observed b"
    by (simp add: hint_event_kind_def fun_eq_iff)
  have "\<exists>a3 n2. handle env' (PodWorkCompleted key n1 FinalizeStartupWork (Some sandbox)) c =
      (a3, ReconcileRuntime key hint n2)"
    using state unfolding hint_def
    by (auto simp: handle_eqs completion_matches_eq in_flight_matches_def handle_work_completed_def
        finalize_startup_completed_def drain_pending_runtime_or_ephemeral_reconcile_def
        drain_pending_runtime_reconcile_def reconcile_runtime_action_def next_work_operation_def
        next_operation_id_def record_in_flight_def is_noop_def on_state_def clear_in_flight_def Let_def
        case_prod_unfold)
  then show ?thesis
    using run c kinds obs by auto
qed


section \<open>Lost results\<close>

text \<open>C25: A command from a probe makes the actor lose a running stop. While a stop is in flight, a command for
  the same Pod replaces it as the operation in flight. The completion of the stop is then ignored, and so
  is every later one: the actor stays in its stopping phase with nothing in flight and nothing scheduled.\<close>

theorem command_displaces_stop:
  assumes "stopping key pending n a"
  shows "\<exists>b c k. handle env (LifecycleCommand key command) a = (b, HandleCommand key command k) \<and>
    handle env' (PodWorkCompleted key n StopPodWork sandbox) b = (b, Noop) \<and>
    handle env' (PodWorkCompleted key k HandleCommandWork None) b = (c, Noop) \<and>
    phase c = Stopping \<and> in_flight c = None \<and> active_uid c = Some (plk_uid key)"
  using assms
  by (auto simp: stopping_def handle_eqs handle_lifecycle_command_def stale_active_uid_noop_def
      active_uid_is_def active_uid_matches_def ensure_active_uid_def handle_command_action_def
      next_work_operation_def next_operation_id_def record_in_flight_def completion_matches_eq
      in_flight_matches_def handle_work_completed_def on_state_def clear_in_flight_def Let_def)

text \<open>The branch of \<^verbatim>\<open>dispatch_action\<close> for an action whose task could not be spawned: the operation is
  completed, then the failure message is sent to the actor.\<close>

definition dispatch_rejected :: "string \<Rightarrow> decision \<Rightarrow> pod_lifecycle_actor \<times> lifecycle_message option"
where
  "dispatch_rejected err d =
    (let (a, action) = d;
         a' = (case (action_key action, action_operation_id action, expected_completion action) of
                 (Some key, Some operation_id, Some kind) \<Rightarrow>
                   on_state (\<lambda>s. snd (complete_matching_work (plk_uid key) operation_id kind s)) a
               | _ \<Rightarrow> a)
     in (a', map_option (\<lambda>synth. synth err) (failure_synthesizer action)))"

text \<open>C26: The failure of a dispatch is not acted on. When the task of an action cannot be spawned, the
  actor is sent a failure message for the operation, but it has already dropped the operation: handling the message
  changes nothing, so neither the retry nor the clean-up that a failure of this kind of work has takes place.\<close>

theorem rejected_dispatch_ignored:
  assumes "handle env m a = (b, action)" and "dispatch_rejected err (b, action) = (c, Some message)"
  shows "\<exists>n kind key. message = PodWorkFailed key n kind False (DispatchFailed err) \<and>
    action_operation_id action = Some n \<and> in_flight c = None \<and> handle env' message c = (c, Noop)"
proof -
  have d: "decided a (b, action)"
    using handle_decided [of a env m] assms(1) by simp
  obtain n kind key where action: "action_operation_id action = Some n" "expected_completion action = Some kind"
      "action_key action = Some key"
    and message: "message = PodWorkFailed key n kind False (DispatchFailed err)"
    using assms(2) by (auto simp: dispatch_rejected_def failure_synthesizer_def Let_def split: option.splits)
  have "in_flight b = Some \<lparr>ifw_uid = plk_uid key, ifw_kind = kind, ifw_operation_id = n\<rparr>"
    using d action by (auto simp: decided.simps)
  then have "in_flight c = None"
    using assms(2) action
    by (auto simp: dispatch_rejected_def complete_matching_work_def in_flight_matches_def clear_in_flight_def
        on_state_def Let_def)
  moreover from this have "handle env' message c = (c, Noop)"
    using unmatched_result_ignored [of message key n kind c]
    by (simp add: message in_flight_matches_def)
  ultimately show ?thesis
    using action message by auto
qed


section \<open>Examples\<close>

text \<open>Concrete actors at which the theorems above apply.\<close>

definition example_env :: actor_env
  where "example_env = \<lparr>env_now = 0, env_rfc3339 = (\<lambda>_. None), env_json_text = (\<lambda>_. [])\<rparr>"

definition example_key :: pod_lifecycle_key
  where "example_key = \<lparr>plk_namespace = ''default'', plk_name = ''web'', plk_uid = ''u1''\<rparr>"

definition example_actor :: pod_lifecycle_actor
  where "example_actor = actor_new (pod_slot_key_of example_key) (Some ''node-a'')"

definition example_added :: "(actor_env \<times> lifecycle_message) list"
  where "example_added = [(example_env, WatchAdded example_key (Some 7) (JObject []))]"

definition example_pending_stop :: pending_stop_pod
where
  "example_pending_stop =
    \<lparr>px_key = example_key, px_pod = None, px_sandbox_id = ''sb'', px_deletion_deadline = Some 60, px_mode = Graceful\<rparr>"

definition example_stopping :: pod_lifecycle_actor
where
  "example_stopping =
    example_actor\<lparr>pa_state := pod_lifecycle_state_new
      \<lparr>pl_phase := Stopping, pl_active_uid := Some ''u1'', pl_pending_stop_pod := Some example_pending_stop,
       pl_in_flight := Some \<lparr>ifw_uid = ''u1'', ifw_kind = StopPodWork, ifw_operation_id = 4\<rparr>,
       pl_work_in_flight := Some 4, pl_operation_id := 4,
       pl_deletion_deadline :=
         Some \<lparr>dd_uid = ''u1'', dd_deadline = 60, dd_generation = 1, dd_fired = False, dd_forced = False\<rparr>\<rparr>\<rparr>"

definition example_starting :: pod_lifecycle_actor
where
  "example_starting =
    example_actor\<lparr>pa_state := pod_lifecycle_state_new
      \<lparr>pl_phase := PendingStart, pl_active_uid := Some ''u1'',
       pl_in_flight := Some \<lparr>ifw_uid = ''u1'', ifw_kind = StartPodWork, ifw_operation_id = 2\<rparr>,
       pl_work_in_flight := Some 2, pl_operation_id := 2\<rparr>\<rparr>"

lemmas example_defs = example_env_def example_key_def example_actor_def example_added_def
  example_pending_stop_def example_stopping_def example_starting_def

theorem operation_ids_never_reused_witness:
  "sorted_wrt (<) (operation_ids
     (snd (run_actor example_added example_actor) @
      snd (run_actor example_added (fst (run_actor example_added example_actor)))))"
proof -
  have "length example_added + length example_added < 2 ^ 64"
    by (simp add: example_added_def)
  from operation_ids_never_reused [OF prod.collapse [symmetric] prod.collapse [symmetric] this]
  show ?thesis
    unfolding example_actor_def by blast
qed

theorem result_takes_effect_once_witness:
  "let a = fst (run_actor example_added example_actor);
       m = PodWorkCompleted example_key 1 ReconcileCriLeftoversWork None;
       b = fst (run_actor example_added (fst (handle example_env m a)))
   in in_flight_matches (plk_uid example_key) 1 ReconcileCriLeftoversWork (pa_state a) \<and>
      handle example_env m b = (b, Noop)"
proof -
  let ?m = "PodWorkCompleted example_key 1 ReconcileCriLeftoversWork None"
  have matched: "in_flight_matches (plk_uid example_key) 1 ReconcileCriLeftoversWork
      (pa_state (fst (run_actor example_added example_actor)))"
    by code_simp
  have few: "length example_added + length example_added + 1 < 2 ^ 64"
    by (simp add: example_added_def)
  have result: "result_operation ?m = Some (example_key, 1, ReconcileCriLeftoversWork)"
    by simp
  show ?thesis
    using matched result_takes_effect_once [OF prod.collapse [symmetric] result
        matched [unfolded example_actor_def] prod.collapse [symmetric] prod.collapse [symmetric] few result]
    by (simp add: example_actor_def Let_def)
qed

theorem restart_reconcile_transparent_witness:
  "let a = fst (handle example_env (WatchAdded example_key (Some 7) (JObject [])) example_actor);
       b = fst (handle example_env (WatchAdded example_key (Some 8) (JObject [])) a)
   in pa_pending_restart_admission b = Some (WatchAdded example_key (Some 7) (JObject []))
     \<and> handle example_env (PodWorkCompleted example_key 1 ReconcileCriLeftoversWork None) b = (b, Noop)"
proof -
  have "\<not> is_terminating (JObject [])" "\<not> pod_is_node_lost_terminal (JObject [])"
    by code_simp+
  from restart_reconcile_transparent [OF disjI1 [OF refl] disjI1 [OF refl] this prod.collapse [symmetric]
      prod.collapse [symmetric]]
  show ?thesis
    unfolding example_actor_def Let_def by blast
qed

lemma example_stopping_stopping: "stopping example_key example_pending_stop 4 example_stopping"
  by (simp add: stopping_def example_defs actor_new_def)

theorem stop_retried_until_done_witness:
  "\<exists>b c k. run_actor (stop_failures example_key 4 [(example_env, ContainerNotFound, example_env)]) example_stopping =
      (b, stop_actions example_key example_pending_stop 4 1) \<and>
    handle example_env (PodWorkCompleted example_key 5 StopPodWork None) b = (c, FinalizePodDeletion example_key k)"
  using stop_retried_until_done [OF example_stopping_stopping,
      of "[(example_env, ContainerNotFound, example_env)]" example_env None] by auto

theorem startup_events_reach_reconcile_witness:
  "starting example_key 2 example_starting \<and>
   (\<exists>a1 a2 a3 n1 n2 hint.
     run_actor [(example_env, CriEvent example_key ''c1'' EventStarted),
                (example_env, CriEvent example_key ''c1'' EventStopped)] example_starting = (a1, [Noop, Noop]) \<and>
     handle example_env (PodWorkCompleted example_key 2 StartPodWork (Some ''sb'')) a1 =
       (a2, FinalizeStartup example_key None ''sb'' n1) \<and>
     handle example_env (PodWorkCompleted example_key n1 FinalizeStartupWork (Some ''sb'')) a2 =
       (a3, ReconcileRuntime example_key hint n2) \<and>
     hint_event_kind hint ''c1'' = Some EventStopped)"
proof -
  have start: "starting example_key 2 example_starting"
    by (simp add: starting_def example_defs actor_new_def pod_lifecycle_state_new_def)
  have "\<not> (pl_sandbox_id (pa_state example_starting) = Some ''sb'' \<and> pl_finalized (pa_state example_starting))"
    by (simp add: example_starting_def pod_lifecycle_state_new_def)
  from startup_events_reach_reconcile [OF start _ this,
      of "[(example_env, ''c1'', EventStarted), (example_env, ''c1'', EventStopped)]" example_env example_env]
  show ?thesis
    using start by (fastforce simp: numeral_2_eq_2)
qed

theorem command_displaces_stop_witness:
  "\<exists>b k. handle example_env (LifecycleCommand example_key (StartupPassed ''u1'' ''default'' ''web'' ''c'')) example_stopping =
      (b, HandleCommand example_key (StartupPassed ''u1'' ''default'' ''web'' ''c'') k) \<and>
    handle example_env (PodWorkCompleted example_key 4 StopPodWork None) b = (b, Noop)"
  using command_displaces_stop [OF example_stopping_stopping,
      of example_env "StartupPassed ''u1'' ''default'' ''web'' ''c''" example_env None] by blast

theorem rejected_dispatch_ignored_witness:
  "let d = handle example_env (WatchAdded example_key (Some 7) (JObject [])) example_actor;
       c = fst (dispatch_rejected ''full'' d)
   in handle example_env (PodWorkFailed example_key 1 ReconcileCriLeftoversWork False (DispatchFailed ''full'')) c =
        (c, Noop)"
proof -
  let ?d = "handle example_env (WatchAdded example_key (Some 7) (JObject [])) example_actor"
  let ?m = "PodWorkFailed example_key 1 ReconcileCriLeftoversWork False (DispatchFailed ''full'')"
  have "snd (dispatch_rejected ''full'' ?d) = Some ?m"
    by code_simp
  then show ?thesis
    using rejected_dispatch_ignored [of example_env "WatchAdded example_key (Some 7) (JObject [])" example_actor
        "fst ?d" "snd ?d" "''full''" "fst (dispatch_rejected ''full'' ?d)" ?m example_env]
    by (metis prod.collapse)
qed

end
