(* ===== verification/Selectors.thy ===== *)
theory Selectors
  imports Json_Value
begin

text \<open>
  Label and field selectors, \<^verbatim>\<open>klights-types/src/label_selector.rs\<close> and \<^verbatim>\<open>field_selector.rs\<close>: the
  parsers of the two textual forms, the constructors from the structured forms, and matching.

  The parsers work on characters; every character they look for is ASCII, so working on UTF-8 bytes
  gives the same parts. The two error types of the sources hold a message; the model names the
  cause and its arguments instead. The text of a floating-point number is a parameter.
\<close>

section \<open>Splitting text\<close>

text \<open>\<^verbatim>\<open>s.split_once(pat)\<close>\<close>

fun split_once :: "string \<Rightarrow> string \<Rightarrow> (string \<times> string) option"
where
  "split_once pat [] = (if pat = [] then Some ([], []) else None)"
| "split_once pat (c # cs) =
    (if take (length pat) (c # cs) = pat then Some ([], drop (length pat) (c # cs))
     else map_option (apfst (Cons c)) (split_once pat cs))"

lemma split_once_shorter:
  "split_once pat s = Some (a, b) \<Longrightarrow> pat \<noteq> [] \<Longrightarrow> length b < length s"
  by (induction pat s arbitrary: a rule: split_once.induct) (fastforce split: if_splits)+

text \<open>\<^verbatim>\<open>s.split(pat).collect()\<close> for a text \<^verbatim>\<open>pat\<close> that is not empty.\<close>

function split_str :: "string \<Rightarrow> string \<Rightarrow> string list"
where
  "split_str pat s =
    (if pat = [] then [s]
     else case split_once pat s of None \<Rightarrow> [s] | Some (a, b) \<Rightarrow> a # split_str pat b)"
  by pat_completeness auto
termination
  by (relation "measure (\<lambda>(pat, s). length s)") (auto dest: split_once_shorter)

declare split_str.simps [simp del]

text \<open>\<^verbatim>\<open>s.split(c).collect()\<close>\<close>

fun split_char :: "char \<Rightarrow> string \<Rightarrow> string list"
where
  "split_char d [] = [[]]"
| "split_char d (c # cs) =
    (if c = d then [] # split_char d cs
     else case split_char d cs of p # ps \<Rightarrow> (c # p) # ps | [] \<Rightarrow> [[c]])"

fun join :: "string \<Rightarrow> string list \<Rightarrow> string"
where
  "join sep [] = []"
| "join sep [p] = p"
| "join sep (p # q # ps) = p @ sep @ join sep (q # ps)"


section \<open>Label selectors\<close>

datatype label_requirement =
    Equality string string
  | Inequality string string
  | Exists string
  | NotExists string
  | LabelIn string "string list"
  | LabelNotIn string "string list"

datatype label_selector_parse_error =
    MatchLabelNotString string
  | MatchExpressionMissingKey
  | MatchExpressionMissingOperator string
  | UnknownMatchExpressionOperator string
  | FlatSelectorNotObject
  | FlatSelectorNotString string
  | InvalidSelector string

definition label_value :: "json_object option \<Rightarrow> string \<Rightarrow> string option"
  where "label_value labels key = Option.bind (Option.bind labels (\<lambda>l. map_of l key)) as_str"

fun requirement_matches :: "label_requirement \<Rightarrow> json_object option \<Rightarrow> bool"
where
  "requirement_matches (Equality key v) labels =
    unwrap_or (map_option (\<lambda>x. x = v) (label_value labels key)) False"
| "requirement_matches (Inequality key v) labels =
    unwrap_or (map_option (\<lambda>x. x \<noteq> v) (label_value labels key)) True"
| "requirement_matches (Exists key) labels =
    unwrap_or (map_option (\<lambda>l. map_of l key \<noteq> None) labels) False"
| "requirement_matches (NotExists key) labels =
    unwrap_or (map_option (\<lambda>l. \<not> (map_of l key \<noteq> None)) labels) True"
| "requirement_matches (LabelIn key vs) labels =
    unwrap_or (map_option (\<lambda>x. list_ex (\<lambda>v. v = x) vs) (label_value labels key)) False"
| "requirement_matches (LabelNotIn key vs) labels =
    unwrap_or (map_option (\<lambda>x. list_all (\<lambda>v. v \<noteq> x) vs) (label_value labels key)) True"

definition matches_labels :: "label_requirement list \<Rightarrow> json_object option \<Rightarrow> bool"
  where "matches_labels requirements labels = list_all (\<lambda>r. requirement_matches r labels) requirements"

definition labels_of :: "json \<Rightarrow> json_object option"
where
  "labels_of data =
    Option.bind (Option.bind (jget ''metadata'' data) (jget ''labels'')) as_object"

definition label_matches_resource :: "label_requirement list \<Rightarrow> json \<Rightarrow> bool"
  where "label_matches_resource requirements resource = matches_labels requirements (labels_of resource)"

subsection \<open>The structured forms\<close>

fun match_labels_requirements ::
  "json_object \<Rightarrow> (label_requirement list, label_selector_parse_error) rust_result"
where
  "match_labels_requirements [] = Ok []"
| "match_labels_requirements ((key, val) # rest) =
    (case as_str val of
       None \<Rightarrow> Err (MatchLabelNotString key)
     | Some v \<Rightarrow> result_bind (match_labels_requirements rest) (\<lambda>rs. Ok (Equality key v # rs)))"

definition match_expression :: "json \<Rightarrow> (label_requirement, label_selector_parse_error) rust_result"
where
  "match_expression expr =
    (case get_str ''key'' expr of
       None \<Rightarrow> Err MatchExpressionMissingKey
     | Some key \<Rightarrow>
        (case get_str ''operator'' expr of
           None \<Rightarrow> Err (MatchExpressionMissingOperator key)
         | Some operator \<Rightarrow>
            (let collected =
                   (case Option.bind (jget ''values'' expr) as_array of
                      None \<Rightarrow> [] | Some arr \<Rightarrow> List.map_filter as_str arr)
             in if operator = ''In'' then Ok (LabelIn key collected)
                else if operator = ''NotIn'' then Ok (LabelNotIn key collected)
                else if operator = ''Exists'' then Ok (Exists key)
                else if operator = ''DoesNotExist'' then Ok (NotExists key)
                else Err (UnknownMatchExpressionOperator operator))))"

fun match_expressions ::
  "json list \<Rightarrow> (label_requirement list, label_selector_parse_error) rust_result"
where
  "match_expressions [] = Ok []"
| "match_expressions (expr # exprs) =
    result_bind (match_expression expr) (\<lambda>r.
      result_bind (match_expressions exprs) (\<lambda>rs. Ok (r # rs)))"

definition from_k8s_selector ::
  "json \<Rightarrow> (label_requirement list, label_selector_parse_error) rust_result"
where
  "from_k8s_selector selector =
    result_bind
      (case Option.bind (jget ''matchLabels'' selector) as_object of
         None \<Rightarrow> Ok [] | Some labels \<Rightarrow> match_labels_requirements labels) (\<lambda>rs.
    result_bind
      (case Option.bind (jget ''matchExpressions'' selector) as_array of
         None \<Rightarrow> Ok [] | Some exprs \<Rightarrow> match_expressions exprs) (\<lambda>es.
    Ok (rs @ es)))"

fun flat_requirements ::
  "json_object \<Rightarrow> (label_requirement list, label_selector_parse_error) rust_result"
where
  "flat_requirements [] = Ok []"
| "flat_requirements ((key, val) # rest) =
    (case as_str val of
       None \<Rightarrow> Err (FlatSelectorNotString key)
     | Some v \<Rightarrow> result_bind (flat_requirements rest) (\<lambda>rs. Ok (Equality key v # rs)))"

definition from_flat_match_labels ::
  "json \<Rightarrow> (label_requirement list, label_selector_parse_error) rust_result"
where
  "from_flat_match_labels v =
    (case as_object v of None \<Rightarrow> Err FlatSelectorNotObject | Some obj \<Rightarrow> flat_requirements obj)"

subsection \<open>The textual form\<close>

definition nonempty_part :: "string \<Rightarrow> string list"
  where "nonempty_part part = (let p = trim part in if p = [] then [] else [p])"

text \<open>The loop of \<^verbatim>\<open>split_selector\<close>: the parenthesis depth and the text since the last comma.\<close>

fun split_selector_from :: "nat \<Rightarrow> string \<Rightarrow> string \<Rightarrow> string list"
where
  "split_selector_from depth cur [] = nonempty_part cur"
| "split_selector_from depth cur (c # cs) =
    (if c = CHR ''('' then split_selector_from (depth + 1) (cur @ [c]) cs
     else if c = CHR '')'' then split_selector_from (depth - 1) (cur @ [c]) cs
     else if c = CHR '','' \<and> depth = 0 then nonempty_part cur @ split_selector_from depth [] cs
     else split_selector_from depth (cur @ [c]) cs)"

definition split_selector :: "string \<Rightarrow> string list"
  where "split_selector selector = split_selector_from 0 [] selector"

definition set_requirement ::
  "(string \<Rightarrow> string list \<Rightarrow> label_requirement) \<Rightarrow> string \<Rightarrow> string
    \<Rightarrow> (label_requirement, label_selector_parse_error) rust_result"
where
  "set_requirement mk operator part =
    (let parts = split_str operator part in
     if length parts \<noteq> 2 \<or> parts ! 1 = [] \<or> last (parts ! 1) \<noteq> CHR '')''
     then Err (InvalidSelector part)
     else Ok (mk (trim (parts ! 0))
       (filter (\<lambda>v. v \<noteq> []) (map trim (split_char CHR '','' (butlast (parts ! 1)))))))"

definition parse_label_requirement ::
  "string \<Rightarrow> (label_requirement, label_selector_parse_error) rust_result"
where
  "parse_label_requirement part =
    (if take 1 part = ''!'' then Ok (NotExists (trim (drop 1 part)))
     else if str_contains '' notin ('' part then set_requirement LabelNotIn '' notin ('' part
     else if str_contains '' in ('' part then set_requirement LabelIn '' in ('' part
     else case split_once ''!='' part of
            Some (key, v) \<Rightarrow> Ok (Inequality (trim key) (trim v))
          | None \<Rightarrow>
         (case split_once ''=='' part of
            Some (key, v) \<Rightarrow> Ok (Equality (trim key) (trim v))
          | None \<Rightarrow>
         (case split_once ''='' part of
            Some (key, v) \<Rightarrow> Ok (Equality (trim key) (trim v))
          | None \<Rightarrow> Ok (Exists part))))"

fun parse_label_parts ::
  "string list \<Rightarrow> (label_requirement list, label_selector_parse_error) rust_result"
where
  "parse_label_parts [] = Ok []"
| "parse_label_parts (p # ps) =
    (let part = trim p in
     if part = [] then parse_label_parts ps
     else result_bind (parse_label_requirement part) (\<lambda>r.
            result_bind (parse_label_parts ps) (\<lambda>rs. Ok (r # rs))))"

definition parse_label_selector ::
  "string \<Rightarrow> (label_requirement list, label_selector_parse_error) rust_result"
  where "parse_label_selector selector = parse_label_parts (split_selector selector)"


section \<open>Field selectors\<close>

datatype field_selector_operator = Equals | NotEquals

record field_requirement =
  fr_field :: string
  fr_operator :: field_selector_operator
  fr_value :: string

datatype field_selector_parse_error =
    CannotUnderstandRequirement string
  | InvalidEscapeSequence char
  | TrailingBackslash
  | UnescapedCharacter char

fun parse_requirement ::
  "string \<Rightarrow> (string \<times> field_selector_operator \<times> string) option"
where
  "parse_requirement [] = None"
| "parse_requirement (c # cs) =
    (if take 2 (c # cs) = ''!='' then Some ([], NotEquals, drop 2 (c # cs))
     else if take 2 (c # cs) = ''=='' then Some ([], Equals, drop 2 (c # cs))
     else if c = CHR ''='' then Some ([], Equals, cs)
     else map_option (apfst (Cons c)) (parse_requirement cs))"

text \<open>The loop of \<^verbatim>\<open>split_terms\<close>: whether the last character was an escape, and the text since the
  last comma.\<close>

fun split_terms_from :: "bool \<Rightarrow> string \<Rightarrow> string \<Rightarrow> string list"
where
  "split_terms_from escaped cur [] = [cur]"
| "split_terms_from escaped cur (c # cs) =
    (if escaped then split_terms_from False (cur @ [c]) cs
     else if c = CHR 0x5C then split_terms_from True (cur @ [c]) cs
     else if c = CHR '','' then cur # split_terms_from False [] cs
     else split_terms_from False (cur @ [c]) cs)"

definition split_terms :: "string \<Rightarrow> string list"
  where "split_terms selector = (if selector = [] then [] else split_terms_from False [] selector)"

fun unescape_value_from :: "string \<Rightarrow> (string, field_selector_parse_error) rust_result"
where
  "unescape_value_from [] = Ok []"
| "unescape_value_from (c # cs) =
    (if c = CHR 0x5C
     then (case cs of
             [] \<Rightarrow> Err TrailingBackslash
           | e # cs' \<Rightarrow>
               if e = CHR 0x5C \<or> e = CHR '','' \<or> e = CHR ''=''
               then result_bind (unescape_value_from cs') (\<lambda>r. Ok (e # r))
               else Err (InvalidEscapeSequence e))
     else if c = CHR '','' \<or> c = CHR ''='' then Err (UnescapedCharacter c)
     else result_bind (unescape_value_from cs) (\<lambda>r. Ok (c # r)))"

definition unescape_value :: "string \<Rightarrow> (string, field_selector_parse_error) rust_result"
where
  "unescape_value v =
    (if \<not> list_ex (\<lambda>c. c = CHR 0x5C \<or> c = CHR '','' \<or> c = CHR ''='') v then Ok v
     else unescape_value_from v)"

fun parse_field_terms ::
  "string list \<Rightarrow> (field_requirement list, field_selector_parse_error) rust_result"
where
  "parse_field_terms [] = Ok []"
| "parse_field_terms (raw # raws) =
    (if raw = [] then parse_field_terms raws
     else case parse_requirement raw of
            None \<Rightarrow> Err (CannotUnderstandRequirement raw)
          | Some (field, operator, v) \<Rightarrow>
              result_bind (unescape_value v) (\<lambda>v'.
                result_bind (parse_field_terms raws) (\<lambda>rs.
                  Ok (\<lparr>fr_field = field, fr_operator = operator, fr_value = v'\<rparr> # rs))))"

definition parse_field_selector ::
  "string \<Rightarrow> (field_requirement list, field_selector_parse_error) rust_result"
  where "parse_field_selector selector = parse_field_terms (sort (split_terms selector))"

definition default_field_value :: "string \<Rightarrow> string \<Rightarrow> string \<Rightarrow> string option"
where
  "default_field_value api_version kind path =
    (if api_version = ''v1'' \<and> kind = ''Node'' \<and> path = ''spec.unschedulable''
     then Some ''false'' else None)"

fun scalar_text :: "(64 word \<Rightarrow> string) \<Rightarrow> json \<Rightarrow> string option"
where
  "scalar_text float_text (JString v) = Some v"
| "scalar_text float_text (JBool b) = Some (if b then ''true'' else ''false'')"
| "scalar_text float_text (JNumber (IntNum n)) = Some (show_int n)"
| "scalar_text float_text (JNumber (FloatNum w)) = Some (float_text w)"
| "scalar_text float_text _ = None"

definition nonempty_string :: "json option \<Rightarrow> string option"
where
  "nonempty_string v =
    (case Option.bind v as_str of None \<Rightarrow> None | Some s \<Rightarrow> if s = [] then None else Some s)"

definition event_source_component :: "json \<Rightarrow> string option"
where
  "event_source_component object =
    (case filter (\<lambda>v. v \<noteq> None) (map nonempty_string
            [Option.bind (jget ''source'' object) (jget ''component''),
             Option.bind (jget ''deprecatedSource'' object) (jget ''component''),
             jget ''reportingController'' object,
             jget ''reportingComponent'' object]) of
       [] \<Rightarrow> None | v # _ \<Rightarrow> v)"

definition resolve_field_value :: "(64 word \<Rightarrow> string) \<Rightarrow> json \<Rightarrow> string \<Rightarrow> string option"
where
  "resolve_field_value float_text object path =
    (let source = (if path = ''source'' then event_source_component object else None) in
     if source \<noteq> None then source
     else if take 15 path = ''involvedObject.''
     then Option.bind
       (Option.bind
         (case jget ''involvedObject'' object of Some v \<Rightarrow> Some v | None \<Rightarrow> jget ''regarding'' object)
         (pointer (split_char CHR ''.'' (drop 15 path))))
       (scalar_text float_text)
     else Option.bind (pointer (split_char CHR ''.'' path) object) (scalar_text float_text))"

definition matches_value :: "field_requirement \<Rightarrow> string \<Rightarrow> bool"
where
  "matches_value r v =
    (case fr_operator r of Equals \<Rightarrow> v = fr_value r | NotEquals \<Rightarrow> \<not> v = fr_value r)"

definition field_matches_resource :: "(64 word \<Rightarrow> string) \<Rightarrow> field_requirement \<Rightarrow> json \<Rightarrow> bool"
where
  "field_matches_resource float_text r object =
    matches_value r (unwrap_or (resolve_field_value float_text object (fr_field r)) [])"

definition matches_resource_with_identity ::
  "(64 word \<Rightarrow> string) \<Rightarrow> string \<Rightarrow> string \<Rightarrow> json \<Rightarrow> field_requirement \<Rightarrow> bool"
where
  "matches_resource_with_identity float_text api_version kind object r =
    matches_value r (unwrap_or
      (case resolve_field_value float_text object (fr_field r) of
         Some v \<Rightarrow> Some v
       | None \<Rightarrow> default_field_value api_version kind (fr_field r)) [])"


section \<open>Facts about splitting\<close>

lemma split_char_not_Nil [simp]: "split_char d s \<noteq> []"
  by (induction d s rule: split_char.induct) (auto split: list.split)

lemma split_char_append:
  "d \<notin> set p \<Longrightarrow> split_char d (p @ d # s) = p # split_char d s"
  by (induction p) auto

lemma split_char_single: "d \<notin> set p \<Longrightarrow> split_char d p = [p]"
  by (induction p) auto

lemma split_char_join:
  "\<forall>p \<in> set ps. d \<notin> set p \<Longrightarrow> ps \<noteq> [] \<Longrightarrow> split_char d (join [d] ps) = ps"
  by (induction "[d]" ps rule: join.induct) (auto simp: split_char_append split_char_single)

lemma split_once_head:
  "h \<notin> set p \<Longrightarrow> split_once (h # pat) (p @ h # pat @ s) = Some (p, s)"
  by (induction p) auto

lemma split_once_None_iff: "split_once pat s = None \<longleftrightarrow> \<not> str_contains pat s"
  by (induction pat s rule: split_once.induct) auto

lemma str_contains_skip:
  "h \<notin> set p \<Longrightarrow> str_contains (h # pat) (p @ s) = str_contains (h # pat) s"
  by (induction p) auto

lemma str_contains_absent: "h \<notin> set s \<Longrightarrow> \<not> str_contains (h # pat) s"
  using str_contains_skip [of h s pat "[]"] by simp

lemma split_str_twice:
  assumes "h \<notin> set p" and "\<not> str_contains (h # pat) s"
  shows "split_str (h # pat) (p @ h # pat @ s) = [p, s]"
proof -
  have "split_once (h # pat) s = None"
    using assms(2) by (simp add: split_once_None_iff)
  then have "split_str (h # pat) s = [s]"
    by (subst split_str.simps) simp
  then show ?thesis
    by (subst split_str.simps) (simp add: split_once_head [OF assms(1)])
qed


section \<open>ASCII text\<close>

definition ascii_char :: "char \<Rightarrow> bool"
  where "ascii_char c \<longleftrightarrow> (of_char c :: nat) < 128"

definition ascii_space :: "char \<Rightarrow> bool"
  where "ascii_space c \<longleftrightarrow> (9 \<le> (of_char c :: nat) \<and> (of_char c :: nat) \<le> 13) \<or> (of_char c :: nat) = 32"

lemma whitespace_len_ascii:
  "ascii_char c \<Longrightarrow> whitespace_len (c # cs) = (if ascii_space c then 1 else 0)"
  by (auto simp: whitespace_len_def ascii_char_def ascii_space_def)

lemma not_blank_ascii:
  "list_all ascii_char s \<Longrightarrow> s \<noteq> [] \<Longrightarrow> \<not> ascii_space (last s) \<Longrightarrow> \<not> is_blank s"
  by (induction s) (auto simp: whitespace_len_ascii split: if_splits)

lemma trim_end_ascii:
  "list_all ascii_char s \<Longrightarrow> s \<noteq> [] \<Longrightarrow> \<not> ascii_space (last s) \<Longrightarrow> trim_end s = s"
  by (induction s) (auto simp: whitespace_len_ascii not_blank_ascii split: if_splits)

lemma trim_ascii:
  "list_all ascii_char s \<Longrightarrow> s \<noteq> [] \<Longrightarrow> \<not> ascii_space (hd s) \<Longrightarrow> \<not> ascii_space (last s) \<Longrightarrow> trim s = s"
  by (cases s) (simp_all add: trim_def whitespace_len_ascii trim_end_ascii del: trim_end.simps)

text \<open>The characters of Kubernetes label keys and values: letters, digits, dash, underscore, dot and
  slash.\<close>

definition label_char :: "char \<Rightarrow> bool"
where
  "label_char c \<longleftrightarrow>
    (let n = (of_char c :: nat) in
     (48 \<le> n \<and> n \<le> 57) \<or> (65 \<le> n \<and> n \<le> 90) \<or> (97 \<le> n \<and> n \<le> 122)
     \<or> n = 45 \<or> n = 95 \<or> n = 46 \<or> n = 47)"

abbreviation label_text :: "string \<Rightarrow> bool"
  where "label_text s \<equiv> list_all label_char s"

lemma label_char_ascii: "label_char c \<Longrightarrow> ascii_char c" and label_char_not_space: "label_char c \<Longrightarrow> \<not> ascii_space c"
  by (auto simp: label_char_def ascii_char_def ascii_space_def Let_def)

lemma label_char_special [simp]:
  "\<not> label_char CHR ''('' " "\<not> label_char CHR '')''" "\<not> label_char CHR '',''"
  "\<not> label_char CHR ''!''" "\<not> label_char CHR ''=''" "\<not> label_char CHR '' ''"
  by (simp_all add: label_char_def)

lemma label_text_notin: "label_text s \<Longrightarrow> \<not> label_char c \<Longrightarrow> c \<notin> set s"
  by (auto simp: list_all_iff)

lemma label_text_special [simp]:
  assumes "label_text s"
  shows "CHR ''('' \<notin> set s" "CHR '')'' \<notin> set s" "CHR '','' \<notin> set s"
    "CHR ''!'' \<notin> set s" "CHR ''='' \<notin> set s" "CHR '' '' \<notin> set s"
  by (simp_all add: label_text_notin [OF assms])

lemma label_text_ascii: "label_text s \<Longrightarrow> list_all ascii_char s"
  by (auto simp: list_all_iff label_char_ascii)

lemma trim_Nil [simp]: "trim [] = []"
  by (simp add: trim_def)

lemma trim_label_text: "label_text s \<Longrightarrow> trim s = s"
  by (cases "s = []") (auto simp: list_all_iff label_char_ascii label_char_not_space intro!: trim_ascii)


section \<open>Reading back a label selector\<close>

fun requirement_text :: "label_requirement \<Rightarrow> string"
where
  "requirement_text (Equality key v) = key @ ''='' @ v"
| "requirement_text (Inequality key v) = key @ ''!='' @ v"
| "requirement_text (Exists key) = key"
| "requirement_text (NotExists key) = ''!'' @ key"
| "requirement_text (LabelIn key vs) = key @ '' in ('' @ join '','' vs @ '')''"
| "requirement_text (LabelNotIn key vs) = key @ '' notin ('' @ join '','' vs @ '')''"

fun valid_requirement :: "label_requirement \<Rightarrow> bool"
where
  "valid_requirement (Equality key v) \<longleftrightarrow> key \<noteq> [] \<and> label_text key \<and> label_text v"
| "valid_requirement (Inequality key v) \<longleftrightarrow> key \<noteq> [] \<and> label_text key \<and> label_text v"
| "valid_requirement (Exists key) \<longleftrightarrow> key \<noteq> [] \<and> label_text key"
| "valid_requirement (NotExists key) \<longleftrightarrow> key \<noteq> [] \<and> label_text key"
| "valid_requirement (LabelIn key vs) \<longleftrightarrow>
    key \<noteq> [] \<and> label_text key \<and> (\<forall>v \<in> set vs. v \<noteq> [] \<and> label_text v)"
| "valid_requirement (LabelNotIn key vs) \<longleftrightarrow>
    key \<noteq> [] \<and> label_text key \<and> (\<forall>v \<in> set vs. v \<noteq> [] \<and> label_text v)"

lemma set_join: "set (join sep ps) \<subseteq> set sep \<union> (\<Union>p \<in> set ps. set p)"
  by (induction sep ps rule: join.induct) auto

lemma list_text_chars:
  assumes "\<forall>v \<in> set vs. v \<noteq> [] \<and> label_text v" and "c \<in> set (join '','' vs)"
  shows "label_char c \<or> c = CHR '',''"
  using set_join [of "'',''" vs] assms by (auto simp: list_all_iff)

lemma read_list_text:
  assumes "\<forall>v \<in> set vs. v \<noteq> [] \<and> label_text v"
  shows "filter (\<lambda>v. v \<noteq> []) (map trim (split_char CHR '','' (join '','' vs))) = vs"
proof (cases "vs = []")
  case False
  have "split_char CHR '','' (join '','' vs) = vs"
    using assms False by (intro split_char_join) auto
  moreover have "map trim vs = vs"
    using assms by (auto simp: trim_label_text intro: map_idI)
  ultimately show ?thesis
    using assms by (auto intro: filter_True)
qed simp

lemma list_text_notin:
  assumes "\<forall>v \<in> set vs. v \<noteq> [] \<and> label_text v" and "\<not> label_char c" and "c \<noteq> CHR '',''"
  shows "c \<notin> set (join '','' vs)"
  using list_text_chars [OF assms(1)] assms(2,3) by blast

lemma list_text_special [simp]:
  assumes "\<forall>v \<in> set vs. v \<noteq> [] \<and> label_text v"
  shows "CHR '')'' \<notin> set (join '','' vs)" "CHR '' '' \<notin> set (join '','' vs)"
    "CHR ''('' \<notin> set (join '','' vs)"
  by (simp_all add: list_text_notin [OF assms])

lemma set_requirement_text:
  assumes "label_text key" and "\<forall>v \<in> set vs. v \<noteq> [] \<and> label_text v"
    and "operator = CHR '' '' # op"
  shows "set_requirement mk operator (key @ operator @ join '','' vs @ '')'') = Ok (mk key vs)"
proof -
  have "CHR '' '' \<notin> set key" and "CHR '' '' \<notin> set (join '','' vs @ '')'')"
    using assms by auto
  then have "split_str operator (key @ operator @ join '','' vs @ '')'') = [key, join '','' vs @ '')'']"
    unfolding assms(3) append_Cons by (intro split_str_twice str_contains_absent)
  then show ?thesis
    using assms by (simp add: set_requirement_def read_list_text trim_label_text)
qed

lemma no_double_equals:
  assumes "label_text key" and "label_text v"
  shows "split_once ''=='' (key @ CHR ''='' # v) = None"
proof -
  have "\<not> str_contains ''=='' v"
    using assms(2) by (intro str_contains_absent) simp
  moreover have "\<not> (\<exists>v'. v = CHR ''='' # v')"
    using assms(2) by auto
  ultimately show ?thesis
    using assms(1) by (cases v) (auto simp: split_once_None_iff str_contains_skip)
qed

lemma split_once_absent: "h \<notin> set s \<Longrightarrow> split_once (h # pat) s = None"
  by (simp add: split_once_None_iff str_contains_absent)

lemma parse_comparison:
  assumes "take 1 part \<noteq> ''!''" and "CHR '' '' \<notin> set part"
  shows "parse_label_requirement part =
    (case split_once ''!='' part of
       Some (key, v) \<Rightarrow> Ok (Inequality (trim key) (trim v))
     | None \<Rightarrow>
    (case split_once ''=='' part of
       Some (key, v) \<Rightarrow> Ok (Equality (trim key) (trim v))
     | None \<Rightarrow>
    (case split_once ''='' part of
       Some (key, v) \<Rightarrow> Ok (Equality (trim key) (trim v))
     | None \<Rightarrow> Ok (Exists part))))"
  using assms(1) str_contains_absent [OF assms(2)] unfolding parse_label_requirement_def by simp

lemma not_negated: "key \<noteq> [] \<Longrightarrow> label_text key \<Longrightarrow> take 1 (key @ s) \<noteq> ''!''"
  by (cases key) auto

lemma parse_requirement_text:
  assumes "valid_requirement r"
  shows "parse_label_requirement (requirement_text r) = Ok r"
proof (cases r)
  case (Equality key v)
  have part: "take 1 (key @ ''='' @ v) \<noteq> ''!''" "CHR '' '' \<notin> set (key @ ''='' @ v)"
    using assms not_negated unfolding Equality by auto
  have "split_once ''!='' (key @ ''='' @ v) = None"
    using assms unfolding Equality by (intro split_once_absent) auto
  moreover have "split_once ''=='' (key @ ''='' @ v) = None"
    using assms no_double_equals unfolding Equality by simp
  moreover have "split_once ''='' (key @ ''='' @ v) = Some (key, v)"
    using assms split_once_head [of "CHR ''=''" key "[]" v] unfolding Equality by simp
  ultimately show ?thesis
    using assms parse_comparison [OF part] by (simp only: Equality requirement_text.simps
        option.case prod.case valid_requirement.simps trim_label_text)
next
  case (Inequality key v)
  have part: "take 1 (key @ ''!='' @ v) \<noteq> ''!''" "CHR '' '' \<notin> set (key @ ''!='' @ v)"
    using assms not_negated unfolding Inequality by auto
  have "split_once ''!='' (key @ ''!='' @ v) = Some (key, v)"
    using assms split_once_head [of "CHR ''!''" key "''=''" v] unfolding Inequality by simp
  then show ?thesis
    using assms parse_comparison [OF part] by (simp only: Inequality requirement_text.simps
        option.case prod.case valid_requirement.simps trim_label_text)
next
  case (Exists key)
  have part: "take 1 key \<noteq> ''!''" "CHR '' '' \<notin> set key"
    using assms not_negated [of key "[]"] unfolding Exists by auto
  have "split_once (h # pat) key = None" if "h = CHR ''!'' \<or> h = CHR ''=''" for h pat
    using assms that unfolding Exists by (intro split_once_absent) auto
  then show ?thesis
    using parse_comparison [OF part] by (simp add: Exists)
next
  case (NotExists key)
  then show ?thesis
    using assms by (simp add: parse_label_requirement_def trim_label_text)
next
  case (LabelIn key vs)
  have key: "CHR '' '' \<notin> set key" and first: "take 1 (requirement_text r) \<noteq> ''!''"
    using assms not_negated unfolding LabelIn by auto
  have "CHR '' '' \<notin> set (join '','' vs @ '')'')"
    using assms unfolding LabelIn by auto
  then have "\<not> str_contains '' notin ('' (requirement_text r)"
    using key str_contains_absent [of "CHR '' ''" "join '','' vs @ '')''" "''notin (''"]
    unfolding LabelIn by (simp add: str_contains_skip)
  moreover have "str_contains '' in ('' (requirement_text r)"
    using key by (simp add: LabelIn str_contains_skip)
  ultimately show ?thesis
    using assms first set_requirement_text [of key vs "'' in (''" "''in (''" LabelIn]
    unfolding LabelIn by (simp add: parse_label_requirement_def)
next
  case (LabelNotIn key vs)
  have key: "CHR '' '' \<notin> set key" and first: "take 1 (requirement_text r) \<noteq> ''!''"
    using assms not_negated unfolding LabelNotIn by auto
  have "str_contains '' notin ('' (requirement_text r)"
    using key by (simp add: LabelNotIn str_contains_skip)
  then show ?thesis
    using assms first set_requirement_text [of key vs "'' notin (''" "''notin (''" LabelNotIn]
    unfolding LabelNotIn by (simp add: parse_label_requirement_def)
qed

lemma comma_ascii: "ascii_char CHR '',''"
  by (simp add: ascii_char_def)

lemma sign_not_space: "\<not> ascii_space CHR ''=''" "\<not> ascii_space CHR ''!''" "\<not> ascii_space CHR '')''"
  by (simp_all add: ascii_space_def)

lemma trim_requirement_text:
  assumes "valid_requirement r"
  shows "trim (requirement_text r) = requirement_text r" and "requirement_text r \<noteq> []"
proof -
  let ?s = "requirement_text r"
  have "list_all ascii_char (join '','' vs)" if "\<forall>v \<in> set vs. v \<noteq> [] \<and> label_text v" for vs
    using list_text_chars [OF that] label_char_ascii comma_ascii by (auto simp: list_all_iff)
  then have "list_all ascii_char ?s"
    using assms by (cases r) (simp_all add: label_text_ascii ascii_char_def)
  moreover have "\<not> ascii_space (hd ?s)"
    using assms by (cases r) (auto simp: hd_append list_all_iff label_char_not_space sign_not_space)
  moreover have "\<not> ascii_space (last ?s)"
    using assms by (cases r) (auto simp: last_append list_all_iff label_char_not_space sign_not_space)
  moreover show "?s \<noteq> []"
    using assms by (cases r) simp_all
  ultimately show "trim ?s = ?s"
    by (intro trim_ascii)
qed

lemma split_selector_plain:
  "CHR ''('' \<notin> set p \<Longrightarrow> CHR '')'' \<notin> set p \<Longrightarrow> CHR '','' \<notin> set p \<or> 0 < depth
    \<Longrightarrow> split_selector_from depth cur (p @ s) = split_selector_from depth (cur @ p) s"
  by (induction p arbitrary: cur) auto

lemma split_selector_list:
  assumes "label_text key" and "\<forall>v \<in> set vs. v \<noteq> [] \<and> label_text v"
    and "CHR ''('' \<notin> set op" and "CHR '')'' \<notin> set op" and "CHR '','' \<notin> set op"
  shows "split_selector_from 0 cur (key @ op @ ''('' @ join '','' vs @ '')'' @ s) =
    split_selector_from 0 (cur @ key @ op @ ''('' @ join '','' vs @ '')'') s"
proof -
  have "split_selector_from 0 cur (key @ op @ ''('' @ t) = split_selector_from 1 (cur @ key @ op @ ''('') t" for t
    using assms split_selector_plain [of "key @ op" 0 cur "''('' @ t"] by simp
  moreover have "split_selector_from 1 c (join '','' vs @ '')'' @ s) = split_selector_from 0 (c @ join '','' vs @ '')'') s" for c
    using assms split_selector_plain [of "join '','' vs" 1 c "'')'' @ s"] by simp
  ultimately show ?thesis
    by simp
qed

lemma split_selector_requirement:
  assumes "valid_requirement r"
  shows "split_selector_from 0 cur (requirement_text r @ s) = split_selector_from 0 (cur @ requirement_text r) s"
proof (cases r)
  case (LabelIn key vs)
  then show ?thesis
    using assms split_selector_list [of key vs "'' in ''" cur s] by simp
next
  case (LabelNotIn key vs)
  then show ?thesis
    using assms split_selector_list [of key vs "'' notin ''" cur s] by simp
qed (use assms in \<open>simp_all add: split_selector_plain\<close>)

lemma split_selector_text:
  assumes "list_all valid_requirement rs"
  shows "split_selector (join '','' (map requirement_text rs)) = map requirement_text rs"
proof -
  have "split_selector_from 0 [] (join '','' (map requirement_text rs)) = map requirement_text rs" if "rs \<noteq> []"
    using that assms
  proof (induction rs rule: induct_list012)
    case (2 r)
    then show ?case
      using split_selector_requirement [of r "[]" "[]"]
      by (simp add: nonempty_part_def trim_requirement_text)
  next
    case (3 r q rs)
    then show ?case
      using split_selector_requirement [of r "[]" "'','' @ join '','' (map requirement_text (q # rs))"]
      by (simp add: nonempty_part_def trim_requirement_text)
  qed simp
  then show ?thesis
    by (cases "rs = []") (simp_all add: split_selector_def nonempty_part_def)
qed

lemma parse_label_selector_text:
  assumes "list_all valid_requirement rs"
  shows "parse_label_selector (join '','' (map requirement_text rs)) = Ok rs"
proof -
  have "parse_label_parts (map requirement_text rs) = Ok rs"
    using assms by (induction rs) (simp_all add: Let_def trim_requirement_text parse_requirement_text)
  then show ?thesis
    by (simp add: parse_label_selector_def split_selector_text [OF assms])
qed


section \<open>Complements\<close>

text \<open>Each negative operator accepts exactly what its positive one refuses, also for an object
  without labels.\<close>

lemma requirement_complement:
  "requirement_matches (Inequality key v) labels \<longleftrightarrow> \<not> requirement_matches (Equality key v) labels"
  "requirement_matches (NotExists key) labels \<longleftrightarrow> \<not> requirement_matches (Exists key) labels"
  "requirement_matches (LabelNotIn key vs) labels \<longleftrightarrow> \<not> requirement_matches (LabelIn key vs) labels"
proof -
  show "requirement_matches (LabelNotIn key vs) labels \<longleftrightarrow> \<not> requirement_matches (LabelIn key vs) labels"
    by (cases "label_value labels key") (auto simp: list_ex_iff list_all_iff)
qed (cases "label_value labels key"; cases labels; simp)+


section \<open>Reading back a field selector\<close>

fun escape_value :: "string \<Rightarrow> string"
where
  "escape_value [] = []"
| "escape_value (c # cs) =
    (if c = CHR 0x5C \<or> c = CHR '','' \<or> c = CHR ''='' then CHR 0x5C # c # escape_value cs
     else c # escape_value cs)"

definition field_text :: "field_requirement \<Rightarrow> string"
where
  "field_text r =
    fr_field r @ (case fr_operator r of Equals \<Rightarrow> ''='' | NotEquals \<Rightarrow> ''!='') @ escape_value (fr_value r)"

text \<open>A field path holds none of the characters of the syntax.\<close>

definition valid_field :: "field_requirement \<Rightarrow> bool"
where
  "valid_field r \<longleftrightarrow> fr_field r \<noteq> []
    \<and> list_all (\<lambda>c. c \<notin> {CHR 0x5C, CHR '','', CHR ''='', CHR ''!''}) (fr_field r)"

lemma unescape_from_escape: "unescape_value_from (escape_value v) = Ok v"
  by (induction v) simp_all

lemma unescape_escape: "unescape_value (escape_value v) = Ok v"
proof (cases "list_ex (\<lambda>c. c = CHR 0x5C \<or> c = CHR '','' \<or> c = CHR ''='') v")
  case True
  then have "list_ex (\<lambda>c. c = CHR 0x5C \<or> c = CHR '','' \<or> c = CHR ''='') (escape_value v)"
    by (induction v) auto
  then show ?thesis
    by (simp add: unescape_value_def unescape_from_escape)
next
  case False
  then have "escape_value v = v"
    by (induction v) auto
  then show ?thesis
    using False by (simp add: unescape_value_def)
qed

lemma escape_value_head: "take 1 (escape_value v) \<noteq> ''=''"
  by (cases v) auto

lemma parse_requirement_skip:
  "list_all (\<lambda>c. c \<noteq> CHR ''='' \<and> c \<noteq> CHR ''!'') p
    \<Longrightarrow> parse_requirement (p @ s) = map_option (apfst (append p)) (parse_requirement s)"
  by (induction p; cases "parse_requirement s") auto

lemma parse_requirement_field_text:
  assumes "valid_field r"
  shows "parse_requirement (field_text r) = Some (fr_field r, fr_operator r, escape_value (fr_value r))"
proof -
  have "parse_requirement (fr_field r @ s) = map_option (apfst (append (fr_field r))) (parse_requirement s)" for s
    using assms by (intro parse_requirement_skip) (auto simp: valid_field_def list_all_iff)
  then show ?thesis
    using escape_value_head [of "fr_value r"]
    by (cases "fr_operator r"; cases "escape_value (fr_value r)") (auto simp: field_text_def)
qed

lemma split_terms_plain:
  "list_all (\<lambda>c. c \<noteq> CHR 0x5C \<and> c \<noteq> CHR '','') p
    \<Longrightarrow> split_terms_from False cur (p @ s) = split_terms_from False (cur @ p) s"
  by (induction p arbitrary: cur) auto

lemma split_terms_escaped:
  "split_terms_from False cur (escape_value v @ s) = split_terms_from False (cur @ escape_value v) s"
  by (induction v arbitrary: cur) auto

lemma split_terms_field_text:
  assumes "valid_field r"
  shows "split_terms_from False cur (field_text r @ s) = split_terms_from False (cur @ field_text r) s"
proof -
  let ?p = "fr_field r @ (case fr_operator r of Equals \<Rightarrow> ''='' | NotEquals \<Rightarrow> ''!='')"
  have "list_all (\<lambda>c. c \<noteq> CHR 0x5C \<and> c \<noteq> CHR '','') ?p"
    using assms by (auto simp: valid_field_def list_all_iff split: field_selector_operator.splits)
  then show ?thesis
    using split_terms_plain [of ?p cur] split_terms_escaped by (simp add: field_text_def)
qed

lemma field_text_not_Nil: "valid_field r \<Longrightarrow> field_text r \<noteq> []"
  by (simp add: field_text_def valid_field_def)

lemma split_terms_text:
  assumes "list_all valid_field rs"
  shows "split_terms (join '','' (map field_text rs)) = map field_text rs"
proof -
  have "split_terms_from False [] (join '','' (map field_text rs)) = map field_text rs" if "rs \<noteq> []"
    using that assms
  proof (induction rs rule: induct_list012)
    case (2 r)
    then show ?case
      using split_terms_field_text [of r "[]" "[]"] by simp
  next
    case (3 r q rs)
    then show ?case
      using split_terms_field_text [of r "[]" "'','' @ join '','' (map field_text (q # rs))"] by simp
  qed simp
  moreover have "join '','' (map field_text rs) \<noteq> []" if "rs \<noteq> []"
    using that assms by (cases rs; cases "tl rs") (auto simp: field_text_not_Nil)
  ultimately show ?thesis
    by (cases "rs = []") (simp_all add: split_terms_def)
qed

lemma insort_map_key: "insort (f x) (map f xs) = map f (insort_key f x xs)"
  by (induction xs) simp_all

lemma sort_map_key: "sort (map f xs) = map f (sort_key f xs)"
  by (induction xs) (simp_all add: insort_map_key)

lemma parse_field_selector_text:
  assumes "list_all valid_field rs"
  shows "parse_field_selector (join '','' (map field_text rs)) = Ok (sort_key field_text rs)"
proof -
  have "parse_field_terms (map field_text qs) = Ok qs" if "list_all valid_field qs" for qs
    using that
    by (induction qs) (simp_all add: field_text_not_Nil parse_requirement_field_text unescape_escape)
  moreover have "list_all valid_field (sort_key field_text rs)"
    using assms by (simp add: list_all_iff)
  ultimately show ?thesis
    by (simp add: parse_field_selector_def split_terms_text [OF assms] sort_map_key)
qed

text \<open>C38: Selectors are read back from their text. A label selector whose keys and values consist of the
  characters Kubernetes allows in labels parses to exactly its requirements, in order, for all six
  operators. A field selector parses to its requirements sorted by their text, whatever characters its
  values contain, provided they are escaped.\<close>

theorem selector_text_roundtrip:
  assumes "list_all valid_requirement ls" and "list_all valid_field fs"
  shows "parse_label_selector (join '','' (map requirement_text ls)) = Ok ls \<and>
    parse_field_selector (join '','' (map field_text fs)) = Ok (sort_key field_text fs)"
  using assms by (simp add: parse_label_selector_text parse_field_selector_text)

theorem selector_text_roundtrip_witness:
  "parse_label_selector ''app=web,tier in (a,b),!legacy,zone!=z1'' =
     Ok [Equality ''app'' ''web'', LabelIn ''tier'' [''a'', ''b''], NotExists ''legacy'', Inequality ''zone'' ''z1'']
   \<and> parse_field_selector (''status.phase!=a'' @ [CHR 0x5C] @ '',b'') =
     Ok [\<lparr>fr_field = ''status.phase'', fr_operator = NotEquals, fr_value = ''a,b''\<rparr>]"
  using selector_text_roundtrip [of "[Equality ''app'' ''web'', LabelIn ''tier'' [''a'', ''b''],
      NotExists ''legacy'', Inequality ''zone'' ''z1'']"
      "[\<lparr>fr_field = ''status.phase'', fr_operator = NotEquals, fr_value = ''a,b''\<rparr>]"]
  by (simp add: label_char_def valid_field_def field_text_def)

end
