(* ===== verification/Selector_Index.thy ===== *)
theory Selector_Index
  imports Selectors
begin

text \<open>
  The selector indexes of the SQLite backend, \<^verbatim>\<open>klights-cluster-datastore/src/sqlite\<close>
  (\<^verbatim>\<open>selector_index.rs\<close>, \<^verbatim>\<open>owner_ref_index.rs\<close>, \<^verbatim>\<open>filters.rs\<close>): the tables of labels, indexed fields
  and owner references kept beside the resource tables, the plan that answers a selector from
  them, and the proof that the plan selects what matching the documents selects.

  A table is the list of its rows. A clause of the plan is not its SQL text but what the text says:
  the table it looks into, whether it is negated, how it joins the namespace, and the numbers of the
  parameters it binds, as the text counts them (from 1).
\<close>

section \<open>Index rows\<close>

record label_row =
  lb_api_version :: string
  lb_kind :: string
  lb_namespace :: string
  lb_name :: string
  lb_key :: string
  lb_value :: string

record owner_ref_row =
  or_api_version :: string
  or_kind :: string
  or_namespace :: string
  or_name :: string
  or_owner_uid :: string
  or_owner_api_version :: string
  or_owner_kind :: string
  or_owner_name :: string
  or_controller :: bool
  or_block_owner_deletion :: bool
  or_ordinal :: nat

text \<open>The tables \<^verbatim>\<open>resource_labels\<close>, \<^verbatim>\<open>resource_fields\<close> (the key is the field path) and
  \<^verbatim>\<open>resource_owner_refs\<close>.\<close>

record index_tables =
  ix_labels :: "label_row list"
  ix_fields :: "label_row list"
  ix_owner_refs :: "owner_ref_row list"

definition indexed_field_paths :: "string \<Rightarrow> string \<Rightarrow> string list"
where
  "indexed_field_paths api_version kind =
    (if api_version = ''v1'' \<and> kind = ''Pod'' then
       [''spec.nodeName'', ''status.phase'', ''spec.restartPolicy'', ''spec.schedulerName'',
        ''spec.serviceAccountName'', ''status.podIP'']
     else if api_version = ''v1'' \<and> kind = ''Node'' then [''spec.unschedulable'']
     else if api_version = ''v1'' \<and> kind = ''PersistentVolume'' then [''status.phase'']
     else if api_version = ''v1'' \<and> kind = ''PersistentVolumeClaim'' then [''status.phase'']
     else if api_version = ''v1'' \<and> kind = ''Secret'' then [''type'']
     else if (api_version = ''v1'' \<or> api_version = ''events.k8s.io/v1'') \<and> kind = ''Event'' then
       [''reason'', ''type'', ''source'', ''reportingController'', ''reportingInstance'',
        ''involvedObject.kind'', ''involvedObject.uid'', ''involvedObject.name'',
        ''involvedObject.namespace'']
     else if api_version = ''certificates.k8s.io/v1'' \<and> kind = ''CertificateSigningRequest''
     then [''spec.signerName'']
     else [])"

definition extract_labels :: "json \<Rightarrow> (string \<times> string) list"
where
  "extract_labels data =
    (case labels_of data of
       None \<Rightarrow> []
     | Some m \<Rightarrow> List.map_filter (\<lambda>(k, v). map_option (\<lambda>s. (k, s)) (as_str v)) m)"

definition extract_owner_ref :: "json \<Rightarrow> (string \<times> string \<times> string \<times> string \<times> bool \<times> bool) option"
where
  "extract_owner_ref ref =
    map_option (\<lambda>uid.
      (uid, unwrap_or (get_str ''apiVersion'' ref) [], unwrap_or (get_str ''kind'' ref) [],
       unwrap_or (get_str ''name'' ref) [],
       unwrap_or (Option.bind (jget ''controller'' ref) as_bool) False,
       unwrap_or (Option.bind (jget ''blockOwnerDeletion'' ref) as_bool) False))
     (get_str ''uid'' ref)"

definition extract_owner_refs :: "json \<Rightarrow> (string \<times> string \<times> string \<times> string \<times> bool \<times> bool) list"
where
  "extract_owner_refs data =
    (case Option.bind (Option.bind (jget ''metadata'' data) (jget ''ownerReferences'')) as_array of
       None \<Rightarrow> []
     | Some refs \<Rightarrow> List.map_filter extract_owner_ref refs)"


section \<open>Maintaining the indexes\<close>

definition row_of :: "string \<Rightarrow> string \<Rightarrow> string \<Rightarrow> string \<Rightarrow> label_row \<Rightarrow> bool"
where
  "row_of api_version kind namespace name row \<longleftrightarrow>
    lb_api_version row = api_version \<and> lb_kind row = kind \<and> lb_namespace row = namespace \<and> lb_name row = name"

definition owner_row_of :: "string \<Rightarrow> string \<Rightarrow> string \<Rightarrow> string \<Rightarrow> owner_ref_row \<Rightarrow> bool"
where
  "owner_row_of api_version kind namespace name row \<longleftrightarrow>
    or_api_version row = api_version \<and> or_kind row = kind \<and> or_namespace row = namespace \<and> or_name row = name"

definition delete_index_entries ::
  "string \<Rightarrow> string \<Rightarrow> string \<Rightarrow> string \<Rightarrow> index_tables \<Rightarrow> index_tables"
where
  "delete_index_entries api_version kind namespace name ix =
    ix\<lparr>ix_labels := filter (\<lambda>r. \<not> row_of api_version kind namespace name r) (ix_labels ix),
       ix_fields := filter (\<lambda>r. \<not> row_of api_version kind namespace name r) (ix_fields ix)\<rparr>"

definition label_rows :: "string \<Rightarrow> string \<Rightarrow> string \<Rightarrow> string \<Rightarrow> json \<Rightarrow> label_row list"
where
  "label_rows api_version kind namespace name data =
    map (\<lambda>(key, v). \<lparr>lb_api_version = api_version, lb_kind = kind, lb_namespace = namespace,
                      lb_name = name, lb_key = key, lb_value = v\<rparr>) (extract_labels data)"

definition field_rows ::
  "(64 word \<Rightarrow> string) \<Rightarrow> string \<Rightarrow> string \<Rightarrow> string \<Rightarrow> string \<Rightarrow> json \<Rightarrow> label_row list"
where
  "field_rows float_text api_version kind namespace name data =
    List.map_filter (\<lambda>path.
      map_option (\<lambda>v. \<lparr>lb_api_version = api_version, lb_kind = kind, lb_namespace = namespace,
                        lb_name = name, lb_key = path, lb_value = v\<rparr>)
       (case resolve_field_value float_text data path of
          Some v \<Rightarrow> Some v
        | None \<Rightarrow> default_field_value api_version kind path))
     (indexed_field_paths api_version kind)"

definition insert_index_entries ::
  "(64 word \<Rightarrow> string) \<Rightarrow> string \<Rightarrow> string \<Rightarrow> string \<Rightarrow> string \<Rightarrow> json \<Rightarrow> index_tables \<Rightarrow> index_tables"
where
  "insert_index_entries float_text api_version kind namespace name data ix =
    ix\<lparr>ix_labels := ix_labels ix @ label_rows api_version kind namespace name data,
       ix_fields := ix_fields ix @ field_rows float_text api_version kind namespace name data\<rparr>"

definition upsert_index_entries ::
  "(64 word \<Rightarrow> string) \<Rightarrow> string \<Rightarrow> string \<Rightarrow> string \<Rightarrow> string \<Rightarrow> json \<Rightarrow> index_tables \<Rightarrow> index_tables"
where
  "upsert_index_entries float_text api_version kind namespace name data ix =
    insert_index_entries float_text api_version kind namespace name data
      (delete_index_entries api_version kind namespace name ix)"

definition delete_owner_refs ::
  "string \<Rightarrow> string \<Rightarrow> string \<Rightarrow> string \<Rightarrow> index_tables \<Rightarrow> index_tables"
where
  "delete_owner_refs api_version kind namespace name ix =
    ix\<lparr>ix_owner_refs := filter (\<lambda>r. \<not> owner_row_of api_version kind namespace name r) (ix_owner_refs ix)\<rparr>"

definition owner_ref_rows :: "string \<Rightarrow> string \<Rightarrow> string \<Rightarrow> string \<Rightarrow> json \<Rightarrow> owner_ref_row list"
where
  "owner_ref_rows api_version kind namespace name data =
    map (\<lambda>(ordinal, uid, owner_api_version, owner_kind, owner_name, controller, block).
      \<lparr>or_api_version = api_version, or_kind = kind, or_namespace = namespace, or_name = name,
       or_owner_uid = uid, or_owner_api_version = owner_api_version, or_owner_kind = owner_kind,
       or_owner_name = owner_name, or_controller = controller, or_block_owner_deletion = block,
       or_ordinal = ordinal\<rparr>)
     (enumerate 0 (extract_owner_refs data))"

definition upsert_owner_refs ::
  "string \<Rightarrow> string \<Rightarrow> string \<Rightarrow> string \<Rightarrow> json \<Rightarrow> index_tables \<Rightarrow> index_tables"
where
  "upsert_owner_refs api_version kind namespace name data ix =
    (let ix' = delete_owner_refs api_version kind namespace name ix in
     ix'\<lparr>ix_owner_refs := ix_owner_refs ix' @ owner_ref_rows api_version kind namespace name data\<rparr>)"


section \<open>Selector plans\<close>

datatype index_table = ResourceLabels | ResourceFields

text \<open>\<^verbatim>\<open>[NOT] EXISTS (SELECT 1 FROM table WHERE <identity> AND key = ?k [AND value IN (?v, ...)])\<close>;
  a comparison of the value with one parameter is a list of one.\<close>

record sql_clause =
  sc_negated :: bool
  sc_table :: index_table
  sc_cluster_scoped :: bool
  sc_key_param :: nat
  sc_value_params :: "nat list option"

record selector_pushdown =
  sp_clauses :: "sql_clause list"
  sp_params :: "string list"
  sp_residual_labels :: "label_requirement list"
  sp_residual_fields :: "field_requirement list"

definition push_label_clause ::
  "nat \<Rightarrow> bool \<Rightarrow> selector_pushdown \<Rightarrow> label_requirement \<Rightarrow> selector_pushdown"
where
  "push_label_clause offset cluster_scoped plan req =
    (let p = offset + length (sp_params plan) + 1;
         clause = (\<lambda>negated vals. \<lparr>sc_negated = negated, sc_table = ResourceLabels,
           sc_cluster_scoped = cluster_scoped, sc_key_param = p, sc_value_params = vals\<rparr>);
         push = (\<lambda>c params. plan\<lparr>sp_clauses := sp_clauses plan @ [c],
           sp_params := sp_params plan @ params\<rparr>)
     in case req of
          Equality key v \<Rightarrow> push (clause False (Some [p + 1])) [key, v]
        | Exists key \<Rightarrow> push (clause False None) [key]
        | NotExists key \<Rightarrow> push (clause True None) [key]
        | LabelIn key vs \<Rightarrow> push (clause False (Some (map (\<lambda>i. p + 1 + i) [0..<length vs]))) (key # vs)
        | Inequality key v \<Rightarrow> push (clause True (Some [p + 1])) [key, v]
        | LabelNotIn key vs \<Rightarrow> push (clause True (Some (map (\<lambda>i. p + 1 + i) [0..<length vs]))) (key # vs))"

definition push_field_clause ::
  "string list \<Rightarrow> nat \<Rightarrow> bool \<Rightarrow> selector_pushdown \<Rightarrow> field_requirement \<Rightarrow> selector_pushdown"
where
  "push_field_clause indexed_fields offset cluster_scoped plan cond =
    (if fr_value cond \<noteq> [] \<and> fr_field cond \<in> set indexed_fields
     then (let p = offset + length (sp_params plan) + 1 in
           plan\<lparr>sp_clauses := sp_clauses plan @
                  [\<lparr>sc_negated = (fr_operator cond \<noteq> Equals), sc_table = ResourceFields,
                    sc_cluster_scoped = cluster_scoped, sc_key_param = p,
                    sc_value_params = Some [p + 1]\<rparr>],
                sp_params := sp_params plan @ [fr_field cond, fr_value cond]\<rparr>)
     else plan\<lparr>sp_residual_fields := sp_residual_fields plan @ [cond]\<rparr>)"

definition build_selector_pushdown ::
  "label_requirement list \<Rightarrow> field_requirement list \<Rightarrow> string \<Rightarrow> string \<Rightarrow> nat \<Rightarrow> bool \<Rightarrow> selector_pushdown"
where
  "build_selector_pushdown label_requirements field_conditions api_version kind offset cluster_scoped =
    foldl (push_field_clause (indexed_field_paths api_version kind) offset cluster_scoped)
      (foldl (push_label_clause offset cluster_scoped)
        \<lparr>sp_clauses = [], sp_params = [], sp_residual_labels = [], sp_residual_fields = []\<rparr>
        label_requirements)
      field_conditions"

text \<open>What a clause says of a resource row \<^verbatim>\<open>r\<close> of the table it is part of, with all parameters
  of the statement bound.\<close>

definition clause_holds ::
  "index_tables \<Rightarrow> string list \<Rightarrow> string \<Rightarrow> string \<Rightarrow> string \<Rightarrow> string \<Rightarrow> sql_clause \<Rightarrow> bool"
where
  "clause_holds ix params api_version kind namespace name c =
    (let rows = (case sc_table c of ResourceLabels \<Rightarrow> ix_labels ix | ResourceFields \<Rightarrow> ix_fields ix);
         found = list_ex (\<lambda>row.
           row_of api_version kind (if sc_cluster_scoped c then [] else namespace) name row
           \<and> lb_key row = params ! (sc_key_param c - 1)
           \<and> (case sc_value_params c of
                 None \<Rightarrow> True
               | Some ps \<Rightarrow> list_ex (\<lambda>p. lb_value row = params ! (p - 1)) ps)) rows
     in if sc_negated c then \<not> found else found)"


section \<open>What the indexes hold\<close>

text \<open>The rows the tables hold for a resource are those its document gives.\<close>

definition indexed ::
  "(64 word \<Rightarrow> string) \<Rightarrow> index_tables \<Rightarrow> string \<Rightarrow> string \<Rightarrow> string \<Rightarrow> string \<Rightarrow> json \<Rightarrow> bool"
where
  "indexed float_text ix api_version kind namespace name data \<longleftrightarrow>
    filter (row_of api_version kind namespace name) (ix_labels ix) =
      label_rows api_version kind namespace name data
    \<and> filter (row_of api_version kind namespace name) (ix_fields ix) =
      field_rows float_text api_version kind namespace name data
    \<and> filter (owner_row_of api_version kind namespace name) (ix_owner_refs ix) =
      owner_ref_rows api_version kind namespace name data"

definition unindexed :: "index_tables \<Rightarrow> string \<Rightarrow> string \<Rightarrow> string \<Rightarrow> string \<Rightarrow> bool"
where
  "unindexed ix api_version kind namespace name \<longleftrightarrow>
    filter (row_of api_version kind namespace name) (ix_labels ix) = []
    \<and> filter (row_of api_version kind namespace name) (ix_fields ix) = []
    \<and> filter (owner_row_of api_version kind namespace name) (ix_owner_refs ix) = []"

lemma label_rows_of: "row \<in> set (label_rows a k ns n data) \<Longrightarrow> row_of a k ns n row"
  by (auto simp: label_rows_def row_of_def)

lemma field_rows_of: "row \<in> set (field_rows ft a k ns n data) \<Longrightarrow> row_of a k ns n row"
  by (auto simp: field_rows_def row_of_def map_filter_def)

lemma owner_ref_rows_of: "row \<in> set (owner_ref_rows a k ns n data) \<Longrightarrow> owner_row_of a k ns n row"
  by (auto simp: owner_ref_rows_def owner_row_of_def)

lemma filter_rows_of:
  assumes "\<forall>row \<in> set rows. P row"
  shows "filter P (filter (\<lambda>r. \<not> P r) old @ rows) = rows"
  using assms by (auto simp: filter_empty_conv intro: filter_True)

lemma filter_rows_other:
  assumes "\<forall>row \<in> set rows. P row" and "\<And>row. P row \<Longrightarrow> \<not> Q row"
  shows "filter Q (filter (\<lambda>r. \<not> P r) old @ rows) = filter Q old"
  using assms by (auto simp: filter_empty_conv intro!: filter_cong)

lemma indexed_upsert:
  "indexed ft (upsert_owner_refs a k ns n data (upsert_index_entries ft a k ns n data ix)) a k ns n data"
  by (simp add: indexed_def upsert_owner_refs_def delete_owner_refs_def upsert_index_entries_def
      insert_index_entries_def delete_index_entries_def Let_def filter_empty_conv filter_True
      label_rows_of field_rows_of owner_ref_rows_of)

lemma row_of_unique:
  "row_of a k ns n row \<Longrightarrow> row_of a' k' ns' n' row \<longleftrightarrow> (a', k', ns', n') = (a, k, ns, n)"
  "owner_row_of a k ns n orow \<Longrightarrow> owner_row_of a' k' ns' n' orow \<longleftrightarrow> (a', k', ns', n') = (a, k, ns, n)"
  by (auto simp: row_of_def owner_row_of_def)

text \<open>An operation on the rows of one resource leaves those of the others alone.\<close>

lemma index_other_rows:
  assumes "(a', k', ns', n') \<noteq> (a, k, ns, n)"
  shows "filter (row_of a' k' ns' n') (ix_labels (upsert_index_entries ft a k ns n data ix)) =
      filter (row_of a' k' ns' n') (ix_labels ix)"
    and "filter (row_of a' k' ns' n') (ix_fields (upsert_index_entries ft a k ns n data ix)) =
      filter (row_of a' k' ns' n') (ix_fields ix)"
    and "filter (owner_row_of a' k' ns' n') (ix_owner_refs (upsert_owner_refs a k ns n data ix)) =
      filter (owner_row_of a' k' ns' n') (ix_owner_refs ix)"
    and "filter (row_of a' k' ns' n') (ix_labels (delete_index_entries a k ns n ix)) =
      filter (row_of a' k' ns' n') (ix_labels ix)"
    and "filter (row_of a' k' ns' n') (ix_fields (delete_index_entries a k ns n ix)) =
      filter (row_of a' k' ns' n') (ix_fields ix)"
    and "filter (owner_row_of a' k' ns' n') (ix_owner_refs (delete_owner_refs a k ns n ix)) =
      filter (owner_row_of a' k' ns' n') (ix_owner_refs ix)"
proof -
  have other: "\<not> row_of a' k' ns' n' row" if "row_of a k ns n row" for row
    using that row_of_unique assms by blast
  have other_owner: "\<not> owner_row_of a' k' ns' n' row" if "owner_row_of a k ns n row" for row
    using that row_of_unique assms by blast
  note defs = upsert_index_entries_def insert_index_entries_def delete_index_entries_def
    upsert_owner_refs_def delete_owner_refs_def
  show "filter (row_of a' k' ns' n') (ix_labels (upsert_index_entries ft a k ns n data ix)) =
      filter (row_of a' k' ns' n') (ix_labels ix)"
    using filter_rows_other [of "label_rows a k ns n data" "row_of a k ns n"] other
    by (simp add: defs label_rows_of)
  show "filter (row_of a' k' ns' n') (ix_fields (upsert_index_entries ft a k ns n data ix)) =
      filter (row_of a' k' ns' n') (ix_fields ix)"
    using filter_rows_other [of "field_rows ft a k ns n data" "row_of a k ns n"] other
    by (simp add: defs field_rows_of)
  show "filter (owner_row_of a' k' ns' n') (ix_owner_refs (upsert_owner_refs a k ns n data ix)) =
      filter (owner_row_of a' k' ns' n') (ix_owner_refs ix)"
    using filter_rows_other [of "owner_ref_rows a k ns n data" "owner_row_of a k ns n"] other_owner
    by (simp add: defs Let_def owner_ref_rows_of)
  show "filter (row_of a' k' ns' n') (ix_labels (delete_index_entries a k ns n ix)) =
      filter (row_of a' k' ns' n') (ix_labels ix)"
    and "filter (row_of a' k' ns' n') (ix_fields (delete_index_entries a k ns n ix)) =
      filter (row_of a' k' ns' n') (ix_fields ix)"
    using filter_rows_other [of "[]" "row_of a k ns n"] other by (simp_all add: defs)
  show "filter (owner_row_of a' k' ns' n') (ix_owner_refs (delete_owner_refs a k ns n ix)) =
      filter (owner_row_of a' k' ns' n') (ix_owner_refs ix)"
    using filter_rows_other [of "[]" "owner_row_of a k ns n"] other_owner by (simp add: defs)
qed

lemma index_frames [simp]:
  "ix_owner_refs (upsert_index_entries ft a k ns n data ix) = ix_owner_refs ix"
  "ix_owner_refs (delete_index_entries a k ns n ix) = ix_owner_refs ix"
  "ix_labels (upsert_owner_refs a k ns n data ix) = ix_labels ix"
  "ix_fields (upsert_owner_refs a k ns n data ix) = ix_fields ix"
  "ix_labels (delete_owner_refs a k ns n ix) = ix_labels ix"
  "ix_fields (delete_owner_refs a k ns n ix) = ix_fields ix"
  by (simp_all add: upsert_index_entries_def insert_index_entries_def delete_index_entries_def
      upsert_owner_refs_def delete_owner_refs_def Let_def)

lemma unindexed_delete: "unindexed (delete_owner_refs a k ns n (delete_index_entries a k ns n ix)) a k ns n"
  by (simp add: unindexed_def delete_owner_refs_def delete_index_entries_def filter_empty_conv)

lemma indexed_other:
  assumes "(a', k', ns', n') \<noteq> (a, k, ns, n)"
  shows "indexed ft (upsert_owner_refs a k ns n data (upsert_index_entries ft a k ns n data ix)) a' k' ns' n' d \<longleftrightarrow>
      indexed ft ix a' k' ns' n' d"
    and "indexed ft (delete_owner_refs a k ns n (delete_index_entries a k ns n ix)) a' k' ns' n' d \<longleftrightarrow>
      indexed ft ix a' k' ns' n' d"
    and "unindexed (upsert_owner_refs a k ns n data (upsert_index_entries ft a k ns n data ix)) a' k' ns' n' \<longleftrightarrow>
      unindexed ix a' k' ns' n'"
    and "unindexed (delete_owner_refs a k ns n (delete_index_entries a k ns n ix)) a' k' ns' n' \<longleftrightarrow>
      unindexed ix a' k' ns' n'"
  unfolding indexed_def unindexed_def by (simp_all add: index_other_rows [OF assms])


section \<open>A plan selects what matching selects\<close>

lemma list_ex_rows:
  "list_ex (\<lambda>row. P row \<and> Q row) rows \<longleftrightarrow> list_ex Q (filter P rows)"
  by (induction rows) auto

lemma extract_labels_iff:
  assumes "wf_json data"
  shows "(key, v) \<in> set (extract_labels data) \<longleftrightarrow> label_value (labels_of data) key = Some v"
proof (cases "labels_of data")
  case None
  then show ?thesis
    by (simp add: extract_labels_def label_value_def)
next
  case (Some m)
  have "wf_json (JObject m)"
    using assms(1) Some wf_json_jget [OF wf_json_jget]
    by (fastforce simp: labels_of_def bind_eq_Some_conv simp del: wf_json.simps)
  then have "(key, x) \<in> set m \<longleftrightarrow> map_of m key = Some x" for x
    by (simp add: om_wf_entry)
  moreover have "(key, v) \<in> set (extract_labels data) \<longleftrightarrow> (\<exists>x. (key, x) \<in> set m \<and> as_str x = Some v)"
    using Some by (force simp: extract_labels_def map_filter_def image_iff)
  ultimately show ?thesis
    using Some by (simp add: label_value_def bind_eq_Some_conv)
qed

lemma label_row_exists:
  assumes "wf_json data" and "indexed ft ix a k ns n data"
  shows "list_ex (\<lambda>row. row_of a k ns n row \<and> lb_key row = key \<and> Q (lb_value row)) (ix_labels ix) \<longleftrightarrow>
    (\<exists>v. label_value (labels_of data) key = Some v \<and> Q v)"
proof -
  have "list_ex (\<lambda>row. row_of a k ns n row \<and> lb_key row = key \<and> Q (lb_value row)) (ix_labels ix) \<longleftrightarrow>
      (\<exists>v. (key, v) \<in> set (extract_labels data) \<and> Q v)"
    using assms(2) by (force simp: list_ex_rows indexed_def label_rows_def list_ex_iff)
  then show ?thesis
    by (simp add: extract_labels_iff [OF assms(1)])
qed

definition indexed_value :: "(64 word \<Rightarrow> string) \<Rightarrow> string \<Rightarrow> string \<Rightarrow> json \<Rightarrow> string \<Rightarrow> string option"
where
  "indexed_value ft a k data path =
    (case resolve_field_value ft data path of Some v \<Rightarrow> Some v | None \<Rightarrow> default_field_value a k path)"

lemma set_map_filter: "y \<in> set (List.map_filter f xs) \<longleftrightarrow> (\<exists>x \<in> set xs. f x = Some y)"
  by (force simp: map_filter_def image_iff)

lemma field_rows_iff:
  "row \<in> set (field_rows ft a k ns n data) \<longleftrightarrow>
    (\<exists>path \<in> set (indexed_field_paths a k). \<exists>v. indexed_value ft a k data path = Some v
      \<and> row = \<lparr>lb_api_version = a, lb_kind = k, lb_namespace = ns, lb_name = n, lb_key = path, lb_value = v\<rparr>)"
  unfolding field_rows_def set_map_filter indexed_value_def [symmetric]
  by (auto simp: map_option_case split: option.splits)

lemma field_row_exists:
  assumes "indexed ft ix a k ns n data" and "path \<in> set (indexed_field_paths a k)"
  shows "list_ex (\<lambda>row. row_of a k ns n row \<and> lb_key row = path \<and> lb_value row = v) (ix_fields ix) \<longleftrightarrow>
    indexed_value ft a k data path = Some v"
proof -
  have "list_ex (\<lambda>row. row_of a k ns n row \<and> lb_key row = path \<and> lb_value row = v) (ix_fields ix) \<longleftrightarrow>
      (\<exists>row \<in> set (field_rows ft a k ns n data). lb_key row = path \<and> lb_value row = v)"
    using assms(1) unfolding list_ex_rows by (auto simp: indexed_def list_ex_iff)
  moreover have "(\<exists>row \<in> set (field_rows ft a k ns n data). lb_key row = path \<and> lb_value row = v) \<longleftrightarrow>
      indexed_value ft a k data path = Some v"
  proof
    let ?row = "\<lparr>lb_api_version = a, lb_kind = k, lb_namespace = ns, lb_name = n, lb_key = path, lb_value = v\<rparr>"
    assume "indexed_value ft a k data path = Some v"
    then have "?row \<in> set (field_rows ft a k ns n data)"
      using assms(2) by (auto simp: field_rows_iff)
    then show "\<exists>row \<in> set (field_rows ft a k ns n data). lb_key row = path \<and> lb_value row = v"
      by (rule rev_bexI) simp
  qed (auto simp: field_rows_iff)
  ultimately show ?thesis
    by simp
qed

definition clause_params :: "sql_clause \<Rightarrow> nat list"
  where "clause_params c = sc_key_param c # (case sc_value_params c of None \<Rightarrow> [] | Some ps \<Rightarrow> ps)"

definition plan_bound :: "nat \<Rightarrow> selector_pushdown \<Rightarrow> bool"
where
  "plan_bound offset plan \<longleftrightarrow>
    (\<forall>c \<in> set (sp_clauses plan). \<forall>p \<in> set (clause_params c). 0 < p \<and> p \<le> offset + length (sp_params plan))"

definition plan_holds ::
  "index_tables \<Rightarrow> string list \<Rightarrow> string \<Rightarrow> string \<Rightarrow> string \<Rightarrow> string \<Rightarrow> selector_pushdown \<Rightarrow> bool"
where
  "plan_holds ix bound a k ns n plan \<longleftrightarrow>
    list_all (clause_holds ix (bound @ sp_params plan) a k ns n) (sp_clauses plan)"

lemma clause_holds_more_params:
  assumes "\<forall>p \<in> set (clause_params c). 0 < p \<and> p \<le> length params"
  shows "clause_holds ix (params @ rest) a k ns n c = clause_holds ix params a k ns n c"
proof -
  have "(params @ rest) ! (p - 1) = params ! (p - 1)" if "p \<in> set (clause_params c)" for p
    using assms that by (auto simp: nth_append)
  then show ?thesis
    by (auto simp: clause_holds_def clause_params_def list_ex_iff Let_def split: option.splits)
qed

lemma plan_holds_push:
  assumes "plan_bound offset plan" and "length bound = offset"
    and "plan' = plan\<lparr>sp_clauses := sp_clauses plan @ [c], sp_params := sp_params plan @ params\<rparr>"
    and "\<forall>p \<in> set (clause_params c). offset + length (sp_params plan) < p
      \<and> p \<le> offset + length (sp_params plan) + length params"
  shows "plan_bound offset plan' \<and>
    (plan_holds ix bound a k ns n plan' \<longleftrightarrow>
      plan_holds ix bound a k ns n plan \<and> clause_holds ix (bound @ sp_params plan @ params) a k ns n c)"
proof -
  have "clause_holds ix ((bound @ sp_params plan) @ params) a k ns n d =
      clause_holds ix (bound @ sp_params plan) a k ns n d" if "d \<in> set (sp_clauses plan)" for d
    using that assms(1,2) by (intro clause_holds_more_params) (auto simp: plan_bound_def)
  then have "plan_holds ix bound a k ns n plan' \<longleftrightarrow>
      plan_holds ix bound a k ns n plan \<and> clause_holds ix (bound @ sp_params plan @ params) a k ns n c"
    by (auto simp: assms(3) plan_holds_def list_all_iff)
  moreover have "plan_bound offset plan'"
    using assms(1,4) by (fastforce simp: assms(3) plan_bound_def)
  ultimately show ?thesis
    by blast
qed

lemma label_found:
  assumes "wf_json data" and "indexed ft ix a k (if cluster then [] else ns) n data"
    and "sc_table c = ResourceLabels" and "sc_cluster_scoped c = cluster"
    and "params ! (sc_key_param c - 1) = key"
  shows "clause_holds ix params a k ns n c \<longleftrightarrow>
    (\<exists>v. label_value (labels_of data) key = Some v
      \<and> (case sc_value_params c of None \<Rightarrow> True | Some ps \<Rightarrow> list_ex (\<lambda>p. v = params ! (p - 1)) ps))
    \<noteq> sc_negated c"
  using label_row_exists [OF assms(1,2), where key = key and
      Q = "\<lambda>v. case sc_value_params c of None \<Rightarrow> True | Some ps \<Rightarrow> list_ex (\<lambda>p. v = params ! (p - 1)) ps"]
  unfolding clause_holds_def Let_def assms(3-5) index_table.case by presburger

lemma params_values:
  "list_ex (\<lambda>p. v = (pre @ key # vs) ! (p - 1)) (map (\<lambda>i. Suc (Suc (length pre)) + i) [0..<length vs]) \<longleftrightarrow>
    v \<in> set vs"
  by (force simp: list_ex_iff nth_append in_set_conv_nth)

definition string_labels :: "json \<Rightarrow> bool"
where
  "string_labels data \<longleftrightarrow>
    (case labels_of data of None \<Rightarrow> True | Some m \<Rightarrow> list_all (\<lambda>(k, v). as_str v \<noteq> None) m)"

lemma string_label_exists:
  assumes "string_labels data"
  shows "requirement_matches (Exists key) (labels_of data) \<longleftrightarrow> label_value (labels_of data) key \<noteq> None"
  using assms
  by (cases "labels_of data")
    (auto simp: string_labels_def label_value_def list_all_iff split: bind_splits dest!: map_of_SomeD)

text \<open>Each label requirement asks for a label, possibly with one of some values, or for none.\<close>

fun asks :: "label_requirement \<Rightarrow> bool \<times> string \<times> string list option"
where
  "asks (Equality key v) = (False, key, Some [v])"
| "asks (Inequality key v) = (True, key, Some [v])"
| "asks (Exists key) = (False, key, None)"
| "asks (NotExists key) = (True, key, None)"
| "asks (LabelIn key vs) = (False, key, Some vs)"
| "asks (LabelNotIn key vs) = (True, key, Some vs)"

lemma requirement_matches_asks:
  assumes "string_labels data" and "asks r = (negated, key, vs)"
  shows "requirement_matches r (labels_of data) \<longleftrightarrow>
    (\<exists>v. label_value (labels_of data) key = Some v
      \<and> (case vs of None \<Rightarrow> True | Some ws \<Rightarrow> v \<in> set ws)) \<noteq> negated"
  using assms(2) string_label_exists [OF assms(1), of key] requirement_complement(2) [of key "labels_of data"]
  by (cases r; cases "label_value (labels_of data) key") (auto simp: list_ex_iff list_all_iff)

lemma push_label_clause_asks:
  assumes "asks r = (negated, key, vs)"
  shows "push_label_clause offset cluster plan r =
    plan\<lparr>sp_clauses := sp_clauses plan @ [\<lparr>sc_negated = negated, sc_table = ResourceLabels,
           sc_cluster_scoped = cluster, sc_key_param = offset + length (sp_params plan) + 1,
           sc_value_params = map_option (\<lambda>ws. map (\<lambda>i. Suc (Suc (offset + length (sp_params plan))) + i)
             [0..<length ws]) vs\<rparr>],
         sp_params := sp_params plan @ key # unwrap_or vs []\<rparr>"
  using assms by (cases r) (auto simp: push_label_clause_def Let_def)

lemma push_label_exact:
  assumes "wf_json data" and "string_labels data"
    and "indexed ft ix a k (if cluster then [] else ns) n data"
    and "plan_bound offset plan" and "length bound = offset"
  shows "plan_bound offset (push_label_clause offset cluster plan r) \<and>
    (plan_holds ix bound a k ns n (push_label_clause offset cluster plan r) \<longleftrightarrow>
      plan_holds ix bound a k ns n plan \<and> requirement_matches r (labels_of data))"
proof -
  obtain negated key vs where r: "asks r = (negated, key, vs)"
    by (cases "asks r")
  let ?c = "\<lparr>sc_negated = negated, sc_table = ResourceLabels, sc_cluster_scoped = cluster,
    sc_key_param = offset + length (sp_params plan) + 1,
    sc_value_params = map_option (\<lambda>ws. map (\<lambda>i. Suc (Suc (offset + length (sp_params plan))) + i)
      [0..<length ws]) vs\<rparr>"
  let ?params = "bound @ sp_params plan @ key # unwrap_or vs []"
  have "clause_holds ix ?params a k ns n ?c \<longleftrightarrow>
      (\<exists>v. label_value (labels_of data) key = Some v
        \<and> (case sc_value_params ?c of None \<Rightarrow> True | Some ps \<Rightarrow> list_ex (\<lambda>p. v = ?params ! (p - 1)) ps))
      \<noteq> sc_negated ?c"
    using assms(5) by (intro label_found [OF assms(1,3)]) (simp_all add: nth_append)
  also have "\<dots> \<longleftrightarrow> requirement_matches r (labels_of data)"
    using params_values [of _ "bound @ sp_params plan" key] assms(5)
    unfolding requirement_matches_asks [OF assms(2) r] by (cases vs) simp_all
  finally have "clause_holds ix ?params a k ns n ?c \<longleftrightarrow> requirement_matches r (labels_of data)" .
  moreover have "\<forall>p \<in> set (clause_params ?c). offset + length (sp_params plan) < p
      \<and> p \<le> offset + length (sp_params plan) + length (key # unwrap_or vs [])"
    by (cases vs) (auto simp: clause_params_def)
  ultimately show ?thesis
    using plan_holds_push [OF assms(4,5) push_label_clause_asks [OF r], of cluster] by simp
qed

lemma push_labels_exact:
  assumes "wf_json data" and "string_labels data"
    and "indexed ft ix a k (if cluster then [] else ns) n data" and "length bound = offset"
    and "plan_bound offset plan"
  shows "plan_bound offset (foldl (push_label_clause offset cluster) plan rs) \<and>
    (plan_holds ix bound a k ns n (foldl (push_label_clause offset cluster) plan rs) \<longleftrightarrow>
      plan_holds ix bound a k ns n plan \<and> matches_labels rs (labels_of data))"
  using assms(5)
proof (induction rs arbitrary: plan)
  case (Cons r rs)
  then show ?case
    using push_label_exact [OF assms(1-3) Cons.prems assms(4), of r]
    by (auto simp: matches_labels_def)
qed (simp add: matches_labels_def)

lemma push_label_residual:
  "sp_residual_fields (foldl (push_label_clause offset cluster) plan rs) = sp_residual_fields plan"
  "sp_residual_labels (foldl (push_label_clause offset cluster) plan rs) = sp_residual_labels plan"
  by (induction rs arbitrary: plan)
    (simp_all add: push_label_clause_def Let_def split: label_requirement.split)

definition fields_match ::
  "(64 word \<Rightarrow> string) \<Rightarrow> string \<Rightarrow> string \<Rightarrow> json \<Rightarrow> field_requirement list \<Rightarrow> bool"
  where "fields_match ft a k data fs = list_all (matches_resource_with_identity ft a k data) fs"

lemma push_field_exact:
  assumes "indexed ft ix a k (if cluster then [] else ns) n data"
    and "plan_bound offset plan" and "length bound = offset"
    and "plan' = push_field_clause (indexed_field_paths a k) offset cluster plan f"
  shows "plan_bound offset plan' \<and>
    (plan_holds ix bound a k ns n plan' \<and> fields_match ft a k data (sp_residual_fields plan') \<longleftrightarrow>
      plan_holds ix bound a k ns n plan \<and> fields_match ft a k data (sp_residual_fields plan)
      \<and> matches_resource_with_identity ft a k data f)"
proof (cases "fr_value f \<noteq> [] \<and> fr_field f \<in> set (indexed_field_paths a k)")
  case True
  let ?p = "offset + length (sp_params plan) + 1"
  let ?c = "\<lparr>sc_negated = (fr_operator f \<noteq> Equals), sc_table = ResourceFields,
    sc_cluster_scoped = cluster, sc_key_param = ?p, sc_value_params = Some [?p + 1]\<rparr>"
  have plan': "plan' = plan\<lparr>sp_clauses := sp_clauses plan @ [?c],
      sp_params := sp_params plan @ [fr_field f, fr_value f]\<rparr>"
    using True by (simp add: assms(4) push_field_clause_def Let_def)
  have "clause_holds ix (bound @ sp_params plan @ [fr_field f, fr_value f]) a k ns n ?c \<longleftrightarrow>
      (indexed_value ft a k data (fr_field f) = Some (fr_value f)) \<noteq> (fr_operator f \<noteq> Equals)"
    using field_row_exists [OF assms(1) True [THEN conjunct2], of "fr_value f"] assms(3)
    by (auto simp: clause_holds_def nth_append Let_def)
  also have "\<dots> \<longleftrightarrow> matches_resource_with_identity ft a k data f"
    using True unfolding matches_resource_with_identity_def matches_value_def indexed_value_def [symmetric]
    by (cases "fr_operator f"; cases "indexed_value ft a k data (fr_field f)") auto
  finally have "clause_holds ix (bound @ sp_params plan @ [fr_field f, fr_value f]) a k ns n ?c \<longleftrightarrow>
      matches_resource_with_identity ft a k data f" .
  moreover have "\<forall>p \<in> set (clause_params ?c). offset + length (sp_params plan) < p
      \<and> p \<le> offset + length (sp_params plan) + length [fr_field f, fr_value f]"
    by (simp add: clause_params_def)
  moreover have "sp_residual_fields plan' = sp_residual_fields plan"
    by (simp add: plan')
  ultimately show ?thesis
    using plan_holds_push [OF assms(2,3) plan'] by auto
next
  case False
  then have "plan' = plan\<lparr>sp_residual_fields := sp_residual_fields plan @ [f]\<rparr>"
    by (simp add: assms(4) push_field_clause_def)
  then show ?thesis
    using assms(2) by (auto simp: plan_bound_def plan_holds_def fields_match_def)
qed

lemma push_fields_exact:
  assumes "indexed ft ix a k (if cluster then [] else ns) n data" and "length bound = offset"
    and "plan_bound offset plan"
  shows "plan_holds ix bound a k ns n
        (foldl (push_field_clause (indexed_field_paths a k) offset cluster) plan fs)
      \<and> fields_match ft a k data (sp_residual_fields
        (foldl (push_field_clause (indexed_field_paths a k) offset cluster) plan fs)) \<longleftrightarrow>
      plan_holds ix bound a k ns n plan \<and> fields_match ft a k data (sp_residual_fields plan)
      \<and> fields_match ft a k data fs"
  using assms(3)
proof (induction fs arbitrary: plan)
  case (Cons f fs)
  then show ?case
    using push_field_exact [OF assms(1) Cons.prems assms(2) refl, of f] by (auto simp: fields_match_def)
qed (simp add: fields_match_def)

lemma push_field_residual_labels:
  "sp_residual_labels (foldl (push_field_clause paths offset cluster) plan fs) = sp_residual_labels plan"
  by (induction fs arbitrary: plan) (simp_all add: push_field_clause_def Let_def)

text \<open>C39: A selector answered from the index tables selects what matching the documents selects. For a
  stored object whose labels are texts and whose rows in the index tables are up to date, the
  conditions the plan hands to the database, with its parameters bound behind those of the
  statement, together with the requirements it leaves to be checked in memory, hold exactly when
  the object matches all label and field requirements.\<close>

theorem selector_pushdown_exact:
  assumes "wf_json data" and "string_labels data"
    and "indexed float_text ix api_version kind (if cluster_scoped then [] else namespace) name data"
    and "plan = build_selector_pushdown labels conds api_version kind (length bound) cluster_scoped"
  shows "list_all (clause_holds ix (bound @ sp_params plan) api_version kind namespace name) (sp_clauses plan)
      \<and> label_matches_resource (sp_residual_labels plan) data
      \<and> list_all (matches_resource_with_identity float_text api_version kind data) (sp_residual_fields plan)
    \<longleftrightarrow> label_matches_resource labels data
      \<and> list_all (matches_resource_with_identity float_text api_version kind data) conds"
proof -
  let ?empty = "\<lparr>sp_clauses = [], sp_params = [], sp_residual_labels = [], sp_residual_fields = []\<rparr>"
  have empty: "plan_bound (length bound) ?empty" "plan_holds ix bound api_version kind namespace name ?empty"
    by (simp_all add: plan_bound_def plan_holds_def)
  have residual: "sp_residual_labels plan = []"
    by (simp add: assms(4) build_selector_pushdown_def push_field_residual_labels push_label_residual)
  define lplan where "lplan = foldl (push_label_clause (length bound) cluster_scoped) ?empty labels"
  have plan: "plan = foldl (push_field_clause (indexed_field_paths api_version kind) (length bound) cluster_scoped)
      lplan conds"
    by (simp add: assms(4) build_selector_pushdown_def lplan_def)
  have lplan: "plan_bound (length bound) lplan"
    "plan_holds ix bound api_version kind namespace name lplan \<longleftrightarrow> matches_labels labels (labels_of data)"
    using push_labels_exact [OF assms(1-3) refl empty(1), of labels] empty(2) by (simp_all add: lplan_def)
  have "sp_residual_fields lplan = []"
    by (simp add: lplan_def push_label_residual)
  then have "plan_holds ix bound api_version kind namespace name plan
      \<and> fields_match float_text api_version kind data (sp_residual_fields plan)
    \<longleftrightarrow> matches_labels labels (labels_of data) \<and> fields_match float_text api_version kind data conds"
    using push_fields_exact [OF assms(3) refl lplan(1), of conds] lplan(2)
    by (simp add: plan fields_match_def)
  then show ?thesis
    using residual by (auto simp: plan_holds_def fields_match_def label_matches_resource_def matches_labels_def)
qed

definition example_pod :: json
where
  "example_pod = JObject [(''metadata'', JObject [(''labels'', JObject [(''app'', JString ''web'')])]),
     (''spec'', JObject [(''nodeName'', JString ''n1'')])]"

theorem selector_pushdown_exact_witness:
  "let ix = upsert_owner_refs ''v1'' ''Pod'' ''d'' ''p'' example_pod
              (upsert_index_entries (\<lambda>_. []) ''v1'' ''Pod'' ''d'' ''p'' example_pod
                \<lparr>ix_labels = [], ix_fields = [], ix_owner_refs = []\<rparr>);
       plan = build_selector_pushdown [LabelIn ''app'' [''db'', ''web'']]
         [\<lparr>fr_field = ''spec.nodeName'', fr_operator = Equals, fr_value = ''n1''\<rparr>,
          \<lparr>fr_field = ''spec.x'', fr_operator = NotEquals, fr_value = ''y''\<rparr>] ''v1'' ''Pod'' 3 False
   in list_all (clause_holds ix ([''v1'', ''Pod'', ''d''] @ sp_params plan) ''v1'' ''Pod'' ''d'' ''p'') (sp_clauses plan)
      \<and> label_matches_resource (sp_residual_labels plan) example_pod
      \<and> list_all (matches_resource_with_identity (\<lambda>_. []) ''v1'' ''Pod'' example_pod) (sp_residual_fields plan)"
proof -
  have wf: "wf_json example_pod"
    by (simp add: example_pod_def less_char_def)
  have str: "string_labels example_pod"
    by (simp add: example_pod_def string_labels_def labels_of_def)
  have ix: "indexed (\<lambda>_. [])
      (upsert_owner_refs ''v1'' ''Pod'' ''d'' ''p'' example_pod
        (upsert_index_entries (\<lambda>_. []) ''v1'' ''Pod'' ''d'' ''p'' example_pod
          \<lparr>ix_labels = [], ix_fields = [], ix_owner_refs = []\<rparr>))
      ''v1'' ''Pod'' (if False then [] else ''d'') ''p'' example_pod"
    unfolding if_False by (rule indexed_upsert)
  have "label_matches_resource [LabelIn ''app'' [''db'', ''web'']] example_pod"
    by (simp add: example_pod_def label_matches_resource_def matches_labels_def labels_of_def label_value_def)
  moreover have "list_all (matches_resource_with_identity (\<lambda>_. []) ''v1'' ''Pod'' example_pod)
      [\<lparr>fr_field = ''spec.nodeName'', fr_operator = Equals, fr_value = ''n1''\<rparr>,
       \<lparr>fr_field = ''spec.x'', fr_operator = NotEquals, fr_value = ''y''\<rparr>]"
    by (simp add: example_pod_def matches_resource_with_identity_def matches_value_def
        resolve_field_value_def default_field_value_def)
  ultimately show ?thesis
    using selector_pushdown_exact [OF wf str ix refl, where bound = "[''v1'', ''Pod'', ''d'']"
        and labels = "[LabelIn ''app'' [''db'', ''web'']]"]
    by (simp add: Let_def numeral_3_eq_3)
qed

end
