(* ===== verification/Resource_Shape.thy ===== *)
theory Resource_Shape
  imports Resource_Apply Stale_Resource
begin

text \<open>
  The shape of stored documents: \<^verbatim>\<open>klights-cluster-datastore/src/sqlite/resource_shape.rs\<close> (stamping a
  document with its identity and resourceVersion, keeping server-owned metadata, the address lists of a
  Pod), \<^verbatim>\<open>scope.rs\<close> (which kinds are namespaced) and the Pod deletion marks of
  \<^verbatim>\<open>klights-types/src/resource_semantics.rs\<close>.
\<close>

section \<open>Scope of a kind\<close>

definition is_namespaced :: "string \<Rightarrow> bool"
where
  "is_namespaced kind \<longleftrightarrow> \<not> List.member
    [''APIService'', ''CSIDriver'', ''CSINode'', ''CertificateSigningRequest'', ''ClusterRole'',
     ''ClusterRoleBinding'', ''CustomResourceDefinition'', ''FlowSchema'', ''IPAddress'',
     ''IngressClass'', ''MutatingWebhookConfiguration'', ''Namespace'', ''Node'',
     ''PersistentVolume'', ''PriorityClass'', ''PriorityLevelConfiguration'', ''RuntimeClass'',
     ''ServiceCIDR'', ''StorageClass'', ''ValidatingAdmissionPolicy'',
     ''ValidatingAdmissionPolicyBinding'', ''ValidatingWebhookConfiguration'', ''VolumeAttachment''] kind"

definition is_builtin_api_version :: "string \<Rightarrow> bool"
where
  "is_builtin_api_version api_version \<longleftrightarrow> List.member
    [''v1'', ''apps/v1'', ''autoscaling/v1'', ''autoscaling/v2'', ''batch/v1'',
     ''certificates.k8s.io/v1'', ''coordination.k8s.io/v1'', ''discovery.k8s.io/v1'',
     ''events.k8s.io/v1'', ''networking.k8s.io/v1'', ''node.k8s.io/v1'', ''policy/v1'',
     ''rbac.authorization.k8s.io/v1'', ''scheduling.k8s.io/v1'', ''storage.k8s.io/v1'',
     ''authentication.k8s.io/v1'', ''authorization.k8s.io/v1'',
     ''admissionregistration.k8s.io/v1'', ''apiregistration.k8s.io/v1'',
     ''apiextensions.k8s.io/v1'', ''flowcontrol.apiserver.k8s.io/v1''] api_version"

definition is_dynamic_custom_resource :: "string \<Rightarrow> string \<Rightarrow> bool"
where
  "is_dynamic_custom_resource api_version kind \<longleftrightarrow>
    \<not> is_builtin_api_version api_version \<and> \<not> (kind = ''Namespace'' \<or> kind = ''Event'')"

definition use_namespaced_table :: "string \<Rightarrow> string \<Rightarrow> string option \<Rightarrow> bool"
where
  "use_namespaced_table api_version kind namespace =
    (if is_dynamic_custom_resource api_version kind then namespace \<noteq> None else is_namespaced kind)"


section \<open>Stamping a document\<close>

lemma size_jget: "jget k v = Some x \<Longrightarrow> size x < size v"
proof (cases v)
  case (JObject m)
  moreover assume "jget k v = Some x"
  ultimately have "(k, x) \<in> set m"
    by (simp add: map_of_SomeD)
  then have "size x \<le> size_list (size_prod (\<lambda>_. 0) size) m"
    by (intro size_list_estimation' [where f = "size_prod (\<lambda>_. 0) size"]) auto
  then show ?thesis
    using JObject by simp
qed simp_all

text \<open>A document in a watch envelope: \<^verbatim>\<open>{"type": "ADDED", "object": ...}\<close>.\<close>

definition watch_envelope :: "json \<Rightarrow> bool"
where
  "watch_envelope data \<longleftrightarrow>
    is_some_and (get_str ''type'' data)
      (\<lambda>t. t = ''ADDED'' \<or> t = ''MODIFIED'' \<or> t = ''DELETED'' \<or> t = ''ERROR'')
    \<and> jget ''object'' data \<noteq> None"

function hydrate_watch_event_data ::
  "json \<Rightarrow> string \<Rightarrow> string \<Rightarrow> string option \<Rightarrow> string \<Rightarrow> int \<Rightarrow> json"
where
  "hydrate_watch_event_data data api_version kind namespace name rv =
    (if watch_envelope data
     then (case jget ''object'' data of
             None \<Rightarrow> data
           | Some object \<Rightarrow>
               jput ''object'' (hydrate_watch_event_data object api_version kind namespace name rv) data)
     else
       (let d1 = jput ''apiVersion'' (JString api_version) data;
            d2 = jput ''kind'' (JString kind) d1;
            d3 = jentry ''metadata'' (JObject []) d2
        in jmodify ''metadata'' (\<lambda>meta.
             let m1 = jput ''name'' (JString name) meta;
                 m2 = (case namespace of None \<Rightarrow> m1 | Some ns \<Rightarrow> jput ''namespace'' (JString ns) m1)
             in jput ''resourceVersion'' (JString (show_int rv)) m2) d3))"
  by pat_completeness auto
termination
  by (relation "measure (\<lambda>(data, _). size data)") (auto dest: size_jget)

declare hydrate_watch_event_data.simps [simp del]

definition missing_or_empty :: "string \<Rightarrow> json \<Rightarrow> bool"
  where "missing_or_empty k v = unwrap_or (map_option (\<lambda>s. s = []) (get_str k v)) True"

definition ensure_resource_type_meta :: "json \<Rightarrow> string \<Rightarrow> string \<Rightarrow> json"
where
  "ensure_resource_type_meta data api_version kind =
    (let d1 = (if missing_or_empty ''apiVersion'' data then jput ''apiVersion'' (JString api_version) data else data)
     in if missing_or_empty ''kind'' d1 then jput ''kind'' (JString kind) d1 else d1)"

definition ensure_metadata_identity :: "json \<Rightarrow> string option \<Rightarrow> string \<Rightarrow> json"
where
  "ensure_metadata_identity data namespace name =
    jmodify ''metadata'' (\<lambda>meta.
      let m1 = (if missing_or_empty ''name'' meta then jput ''name'' (JString name) meta else meta)
      in case namespace of
           None \<Rightarrow> m1
         | Some ns \<Rightarrow>
             if missing_or_empty ''namespace'' m1 then jput ''namespace'' (JString ns) m1 else m1)
     (jentry ''metadata'' (JObject []) data)"

definition metadata_uid :: "json \<Rightarrow> string option"
where
  "metadata_uid data =
    (case str_at [''metadata'', ''uid''] data of
       None \<Rightarrow> None | Some s \<Rightarrow> if is_blank s then None else Some s)"

definition validate_metadata_uid_immutable :: "json \<Rightarrow> json \<Rightarrow> (unit, apply_precondition_violation) rust_result"
where
  "validate_metadata_uid_immutable incoming existing =
    (case metadata_uid incoming of
       None \<Rightarrow> Ok ()
     | Some incoming_uid \<Rightarrow>
        (case metadata_uid existing of
           None \<Rightarrow> Ok ()
         | Some existing_uid \<Rightarrow>
             validate_apply_preconditions (default_apply_preconditions\<lparr>ap_uid := Some incoming_uid\<rparr>)
               (Some \<lparr>cr_uid = Some existing_uid, cr_resource_version = 0\<rparr>)))"

definition present :: "string \<Rightarrow> json \<Rightarrow> json option"
where
  "present k v =
    (case jget k v of None \<Rightarrow> None | Some x \<Rightarrow> if is_null x then None else Some x)"

definition shorter_delete_grace :: "json \<Rightarrow> json \<Rightarrow> bool"
where
  "shorter_delete_grace meta existing_meta =
    (case (Option.bind (jget ''deletionGracePeriodSeconds'' meta) as_i64,
           Option.bind (jget ''deletionGracePeriodSeconds'' existing_meta) as_i64) of
       (Some incoming, Some existing) \<Rightarrow> incoming \<ge> 0 \<and> incoming < existing
     | _ \<Rightarrow> False)"

definition put_present :: "string \<Rightarrow> json option \<Rightarrow> json \<Rightarrow> json"
  where "put_present k x v = (case x of None \<Rightarrow> v | Some y \<Rightarrow> jput k y v)"

definition server_metadata_fields :: "json \<Rightarrow> json \<Rightarrow> json"
where
  "server_metadata_fields existing_meta meta =
    (let m1 = (if missing_or_empty ''uid'' meta then put_present ''uid'' (jget ''uid'' existing_meta) meta else meta);
         m2 = (if missing_or_empty ''creationTimestamp'' m1
               then put_present ''creationTimestamp'' (jget ''creationTimestamp'' existing_meta) m1 else m1)
     in if shorter_delete_grace m2 existing_meta then m2
        else put_present ''deletionGracePeriodSeconds'' (present ''deletionGracePeriodSeconds'' existing_meta)
              (put_present ''deletionTimestamp'' (present ''deletionTimestamp'' existing_meta) m2))"

definition preserve_server_metadata_fields_from_existing :: "json \<Rightarrow> json \<Rightarrow> json"
where
  "preserve_server_metadata_fields_from_existing data existing =
    (case jget ''metadata'' existing of
       None \<Rightarrow> data
     | Some existing_meta \<Rightarrow>
         if \<not> is_object existing_meta then data
         else jmodify ''metadata'' (server_metadata_fields existing_meta) data)"

definition ensure_ip_array :: "string \<Rightarrow> string \<Rightarrow> json \<Rightarrow> json"
where
  "ensure_ip_array scalar array status =
    (case get_str scalar status of
       None \<Rightarrow> status
     | Some ip \<Rightarrow>
         if ip = [] then status
         else (let listed = (case Option.bind (jget array status) as_array of
                               Some (entry # _) \<Rightarrow> unwrap_or (get_str ''ip'' entry) []
                             | _ \<Rightarrow> [])
               in if listed \<noteq> ip then jput array (JArray [JObject [(''ip'', JString ip)]]) status else status))"

definition ensure_pod_status_ip_arrays :: "json \<Rightarrow> string \<Rightarrow> string \<Rightarrow> json"
where
  "ensure_pod_status_ip_arrays data api_version kind =
    (if api_version \<noteq> ''v1'' \<or> kind \<noteq> ''Pod'' then data
     else jmodify ''status'' (\<lambda>status.
            ensure_ip_array ''hostIP'' ''hostIPs'' (ensure_ip_array ''podIP'' ''podIPs'' status)) data)"


section \<open>Deletion marks of a Pod\<close>

definition is_pod_delete_mark_patch :: "string \<Rightarrow> string \<Rightarrow> json \<Rightarrow> bool"
where
  "is_pod_delete_mark_patch api_version kind patch \<longleftrightarrow>
    api_version = ''v1'' \<and> kind = ''Pod''
    \<and> (case as_object patch of
         None \<Rightarrow> False
       | Some m \<Rightarrow>
           list_all (\<lambda>(key, _). key = ''metadata'' \<or> key = ''status'') m
           \<and> (case Option.bind (map_of m ''metadata'') as_object of
                None \<Rightarrow> False
              | Some metadata \<Rightarrow>
                  is_some_and (map_of metadata ''deletionTimestamp'') (\<lambda>t. \<not> is_null t)
                  \<and> list_all (\<lambda>(key, _). key = ''deletionTimestamp''
                       \<or> key = ''deletionGracePeriodSeconds'' \<or> key = ''generation'') metadata))"

definition pod_delete_mark_transition_time :: "json \<Rightarrow> string option"
where
  "pod_delete_mark_transition_time patch =
    Option.bind (Option.bind (pointer [''status'', ''conditions''] patch) as_array) (\<lambda>conditions.
      Option.bind (List.find (\<lambda>c. get_str ''type'' c = Some ''Ready'') conditions) (get_str ''lastTransitionTime''))"

definition pod_delete_mark_patch_without_status :: "json \<Rightarrow> json"
  where "pod_delete_mark_patch_without_status patch = jdel ''status'' patch"

fun upsert_terminating_readiness_condition :: "string \<Rightarrow> string \<Rightarrow> json list \<Rightarrow> json list"
where
  "upsert_terminating_readiness_condition condition_type now [] =
    [JObject [(''lastTransitionTime'', JString now), (''message'', JString ''Pod is terminating''),
       (''reason'', JString ''PodTerminating''), (''status'', JString ''False''), (''type'', JString condition_type)]]"
| "upsert_terminating_readiness_condition condition_type now (c # cs) =
    (if get_str ''type'' c = Some condition_type
     then (let status_changed = (get_str ''status'' c \<noteq> Some ''False'');
               c1 = jput ''message'' (JString ''Pod is terminating'')
                     (jput ''reason'' (JString ''PodTerminating'') (jput ''status'' (JString ''False'') c))
           in (if status_changed \<or> jget ''lastTransitionTime'' c1 = None
               then jput ''lastTransitionTime'' (JString now) c1 else c1) # cs)
     else c # upsert_terminating_readiness_condition condition_type now cs)"

fun mark_containers_unready :: "json \<Rightarrow> json"
where
  "mark_containers_unready (JArray statuses) = JArray (map (jput ''ready'' (JBool False)) statuses)"
| "mark_containers_unready v = v"

definition mark_terminating_pod_unready_at :: "json \<Rightarrow> string \<Rightarrow> json"
where
  "mark_terminating_pod_unready_at data now =
    jmodify ''status'' (\<lambda>status.
      if \<not> is_object status then status
      else
        (let s1 = jmodify ''containerStatuses'' mark_containers_unready status;
             s2 = jmodify ''initContainerStatuses'' mark_containers_unready s1;
             conditions = unwrap_or (Option.bind (jget ''conditions'' s2) as_array) []
         in jput ''conditions'' (JArray
              (upsert_terminating_readiness_condition ''ContainersReady'' now
                (upsert_terminating_readiness_condition ''Ready'' now conditions))) s2)) data"


section \<open>What stamping gives\<close>

text \<open>A document that takes the stamp: an object that is not a watch envelope, whose metadata, if
  it has any, is an object.\<close>

definition stampable :: "json \<Rightarrow> bool"
where
  "stampable data \<longleftrightarrow> is_object data \<and> \<not> watch_envelope data
    \<and> (case jget ''metadata'' data of None \<Rightarrow> True | Some meta \<Rightarrow> is_object meta)"

definition stamped_version :: "json \<Rightarrow> string option"
  where "stamped_version data = str_at [''metadata'', ''resourceVersion''] data"

lemma stampable_cong:
  assumes "is_object v" and "is_object w" and "jget ''type'' v = jget ''type'' w"
    and "(jget ''object'' v = None) = (jget ''object'' w = None)"
    and "(case jget ''metadata'' v of None \<Rightarrow> True | Some meta \<Rightarrow> is_object meta)"
    and "stampable w"
  shows "stampable v"
  using assms by (auto simp: stampable_def watch_envelope_def get_str_def)

lemma hydrate_fields:
  assumes "stampable data"
  shows "jget k (hydrate_watch_event_data data a kd ns n rv) =
    (if k = ''apiVersion'' then Some (JString a)
     else if k = ''kind'' then Some (JString kd)
     else if k = ''metadata'' then
       Some (jput ''resourceVersion'' (JString (show_int rv))
         (put_present ''namespace'' (map_option JString ns)
           (jput ''name'' (JString n) (unwrap_or (jget ''metadata'' data) (JObject [])))))
     else jget k data)"
  using assms
  by (subst hydrate_watch_event_data.simps)
    (auto simp: stampable_def put_present_def Let_def split: option.splits)

lemma is_object_hydrate [simp]: "is_object (hydrate_watch_event_data data a k ns n rv) = is_object data"
  by (induction data a k ns n rv rule: hydrate_watch_event_data.induct)
    (subst hydrate_watch_event_data.simps, auto simp: Let_def split: option.split)

lemma is_object_put_present [simp]: "is_object (put_present k x v) = is_object v"
  by (simp add: put_present_def split: option.split)

lemma wf_json_put_present [wf_intros]:
  "wf_json v \<Longrightarrow> (\<And>y. x = Some y \<Longrightarrow> wf_json y) \<Longrightarrow> wf_json (put_present k x v)"
  by (simp add: put_present_def split: option.split)

lemma hydrate_metadata_object:
  assumes "stampable data"
  shows "\<exists>meta. jget ''metadata'' (hydrate_watch_event_data data a k ns n rv) = Some meta \<and> is_object meta"
  using assms by (auto simp: hydrate_fields stampable_def split: option.splits)

lemma hydrate_stampable: "stampable data \<Longrightarrow> stampable (hydrate_watch_event_data data a k ns n rv)"
  using hydrate_metadata_object [of data a k ns n rv]
  by (rule_tac stampable_cong [of _ data]) (auto simp: hydrate_fields stampable_def)

lemma hydrate_version:
  "stampable data \<Longrightarrow> stamped_version (hydrate_watch_event_data data a k ns n rv) = Some (show_int rv)"
  by (auto simp: stamped_version_def str_at_def hydrate_fields stampable_def split: option.splits)

lemma hydrate_wf [wf_intros]: "wf_json data \<Longrightarrow> wf_json (hydrate_watch_event_data data a k ns n rv)"
proof (induction data a k ns n rv rule: hydrate_watch_event_data.induct)
  case (1 data a k ns n rv)
  show ?case
  proof (cases "watch_envelope data")
    case True
    then obtain object where object: "jget ''object'' data = Some object"
      by (auto simp: watch_envelope_def)
    then have "wf_json object"
      using 1(2) by (rule wf_json_jget [rotated])
    then have "wf_json (hydrate_watch_event_data object a k ns n rv)"
      using 1(1) True object by blast
    then show ?thesis
      using True object 1(2) by (subst hydrate_watch_event_data.simps) simp
  next
    case False
    then show ?thesis
      using 1(2) by (subst hydrate_watch_event_data.simps)
        (auto simp: Let_def split: option.split intro!: wf_json_jmodify wf_json_jentry wf_json_jput)
  qed
qed


section \<open>Documents and their resourceVersion\<close>

text \<open>A document carries the resourceVersion it is stored under, if it can carry one.\<close>

definition well_stamped :: "int \<Rightarrow> json \<Rightarrow> bool"
  where "well_stamped rv data \<longleftrightarrow> (stampable data \<longrightarrow> stamped_version data = Some (show_int rv))"

lemma watch_envelope_hydrate [simp]:
  "watch_envelope (hydrate_watch_event_data data a k ns n rv) = watch_envelope data"
proof (cases "watch_envelope data")
  case True
  then obtain object where "jget ''object'' data = Some object"
    by (auto simp: watch_envelope_def)
  then show ?thesis
    using True by (subst hydrate_watch_event_data.simps)
      (simp add: watch_envelope_def get_str_def jget_Some_is_object [of "''object''" data])
next
  case False
  then show ?thesis
    by (subst hydrate_watch_event_data.simps) (simp add: watch_envelope_def get_str_def Let_def)
qed

lemma stampable_hydrate_iff [simp]:
  "stampable (hydrate_watch_event_data data a k ns n rv) = stampable data"
proof
  assume hydrated: "stampable (hydrate_watch_event_data data a k ns n rv)"
  then have "is_object data" and "\<not> watch_envelope data"
    by (auto simp: stampable_def)
  moreover from this have "jget ''metadata'' (hydrate_watch_event_data data a k ns n rv) =
      Some (jput ''resourceVersion'' (JString (show_int rv))
         (put_present ''namespace'' (map_option JString ns)
           (jput ''name'' (JString n) (unwrap_or (jget ''metadata'' data) (JObject [])))))"
    by (subst hydrate_watch_event_data.simps)
      (auto simp: put_present_def Let_def split: option.splits)
  ultimately show "stampable data"
    using hydrated by (auto simp: stampable_def split: option.split)
qed (rule hydrate_stampable)

lemma well_stamped_hydrate: "well_stamped rv (hydrate_watch_event_data data a k ns n rv)"
  by (simp add: well_stamped_def hydrate_version)

lemma stampable_jmodify:
  assumes "k \<noteq> ''type''" and "k = ''metadata'' \<Longrightarrow> (\<And>m. is_object (f m) = is_object m)"
  shows "stampable (jmodify k f v) = stampable v"
  using assms by (auto simp: stampable_def watch_envelope_def get_str_def split: option.splits)

lemma stamped_version_jmodify:
  assumes "k = ''metadata'' \<Longrightarrow> (\<And>m. jget ''resourceVersion'' (f m) = jget ''resourceVersion'' m)"
  shows "stamped_version (jmodify k f v) = stamped_version v"
  using assms
  by (cases "k = ''metadata''"; cases "jget ''metadata'' v") (auto simp: stamped_version_def str_at_def)

lemma well_stamped_jmodify:
  assumes "k \<noteq> ''type''" and "k = ''metadata'' \<Longrightarrow> (\<And>m. is_object (f m) = is_object m)"
    and "k = ''metadata'' \<Longrightarrow> (\<And>m. jget ''resourceVersion'' (f m) = jget ''resourceVersion'' m)"
    and "well_stamped rv v"
  shows "well_stamped rv (jmodify k f v)"
  using assms(4) unfolding well_stamped_def
  by (simp add: stampable_jmodify [OF assms(1,2)] stamped_version_jmodify [OF assms(3)])

lemma jget_put_present:
  "k \<noteq> k' \<Longrightarrow> jget k (put_present k' x v) = jget k v"
  by (simp add: put_present_def split: option.split)

lemma server_metadata_fields_frame:
  "is_object (server_metadata_fields existing_meta meta) = is_object meta"
  "jget ''resourceVersion'' (server_metadata_fields existing_meta meta) = jget ''resourceVersion'' meta"
  by (simp_all add: server_metadata_fields_def Let_def jget_put_present)

lemma well_stamped_preserve_server_metadata:
  "well_stamped rv data \<Longrightarrow> well_stamped rv (preserve_server_metadata_fields_from_existing data existing)"
  unfolding preserve_server_metadata_fields_from_existing_def
  by (auto simp: server_metadata_fields_frame split: option.split intro!: well_stamped_jmodify)

lemma well_stamped_ip_arrays:
  "well_stamped rv data \<Longrightarrow> well_stamped rv (ensure_pod_status_ip_arrays data a k)"
  by (auto simp: ensure_pod_status_ip_arrays_def intro!: well_stamped_jmodify)

lemma well_stamped_mark_terminating:
  "well_stamped rv data \<Longrightarrow> well_stamped rv (mark_terminating_pod_unready_at data now)"
  by (auto simp: mark_terminating_pod_unready_at_def intro!: well_stamped_jmodify)

lemmas well_stamped_intros =
  well_stamped_hydrate well_stamped_preserve_server_metadata well_stamped_ip_arrays
  well_stamped_mark_terminating


section \<open>Well-formed results\<close>

lemma wf_json_ensure_ip_array [wf_intros]: "wf_json status \<Longrightarrow> wf_json (ensure_ip_array s a status)"
  by (auto simp: ensure_ip_array_def Let_def split: option.split intro!: wf_json_jput)

lemma wf_json_ip_arrays [wf_intros]: "wf_json data \<Longrightarrow> wf_json (ensure_pod_status_ip_arrays data a k)"
  by (auto simp: ensure_pod_status_ip_arrays_def intro!: wf_json_jmodify wf_json_ensure_ip_array)

lemma wf_json_preserve_server_metadata [wf_intros]:
  assumes "wf_json data" and "wf_json existing"
  shows "wf_json (preserve_server_metadata_fields_from_existing data existing)"
proof (cases "jget ''metadata'' existing")
  case (Some meta)
  then have "wf_json meta"
    using assms(2) by (rule wf_json_jget [rotated])
  then have got: "wf_json x" if "jget k meta = Some x" for k x
    using that by (rule wf_json_jget)
  then have present: "wf_json x" if "present k meta = Some x" for k x
    using that by (auto simp: present_def split: option.splits if_splits)
  show ?thesis
    using assms(1) Some unfolding preserve_server_metadata_fields_from_existing_def
    by (auto simp: server_metadata_fields_def Let_def intro!: wf_json_jmodify wf_json_put_present
        dest: got present)
qed (simp add: preserve_server_metadata_fields_from_existing_def assms(1))

lemma wf_json_readiness:
  "wf_json (JArray cs) \<Longrightarrow> wf_json (JArray (upsert_terminating_readiness_condition t now cs))"
  by (induction t now cs rule: upsert_terminating_readiness_condition.induct)
    (auto simp: Let_def less_char_def intro!: wf_json_jput)

lemma wf_json_mark_containers [wf_intros]: "wf_json v \<Longrightarrow> wf_json (mark_containers_unready v)"
  by (cases v) (auto intro!: wf_json_jput)

lemma wf_json_mark_terminating [wf_intros]:
  assumes "wf_json data"
  shows "wf_json (mark_terminating_pod_unready_at data now)"
proof -
  have "wf_json (let s1 = jmodify ''containerStatuses'' mark_containers_unready status;
             s2 = jmodify ''initContainerStatuses'' mark_containers_unready s1;
             conditions = unwrap_or (Option.bind (jget ''conditions'' s2) as_array) []
         in jput ''conditions'' (JArray
              (upsert_terminating_readiness_condition ''ContainersReady'' now
                (upsert_terminating_readiness_condition ''Ready'' now conditions))) s2)"
    if status: "wf_json status" for status
  proof -
    define s2 where "s2 = jmodify ''initContainerStatuses'' mark_containers_unready
      (jmodify ''containerStatuses'' mark_containers_unready status)"
    have s2: "wf_json s2"
      using status by (auto simp: s2_def intro!: wf_json_jmodify wf_json_mark_containers)
    have "wf_json (JArray (unwrap_or (Option.bind (jget ''conditions'' s2) as_array) []))"
      using wf_json_jget [OF s2, of "''conditions''"]
      by (cases "Option.bind (jget ''conditions'' s2) as_array") (auto simp: bind_eq_Some_conv)
    then have "wf_json (JArray (upsert_terminating_readiness_condition ''ContainersReady'' now
        (upsert_terminating_readiness_condition ''Ready'' now
          (unwrap_or (Option.bind (jget ''conditions'' s2) as_array) []))))"
      by (intro wf_json_readiness)
    with s2 show ?thesis
      unfolding Let_def s2_def [symmetric] by (rule wf_json_jput)
  qed
  then show ?thesis
    using assms unfolding mark_terminating_pod_unready_at_def by (intro wf_json_jmodify) simp_all
qed

end
