(* ===== verification/Network_Values.thy ===== *)
theory Network_Values
  imports Selectors
begin

text \<open>
  The network values of \<^verbatim>\<open>klights-types/src/network.rs\<close>: CIDR blocks, Pod subnets, node names, host
  port ranges and the dataplane annotations of a Node, with the parts of \<^verbatim>\<open>std::net::Ipv4Addr\<close> and of
  the integer parsers they use. Addresses are 32-bit words.
\<close>

section \<open>Integers and addresses\<close>

text \<open>\<^verbatim>\<open>s.parse::<u8>()\<close> and \<^verbatim>\<open>parse::<u16>()\<close>, given the largest value of the type.\<close>

definition parse_unsigned :: "nat \<Rightarrow> string \<Rightarrow> nat option"
where
  "parse_unsigned largest s =
    (case parse_digits (if take 1 s = ''+'' then drop 1 s else s) of
       None \<Rightarrow> None
     | Some n \<Rightarrow> if n \<le> largest then Some n else None)"

text \<open>An octet of an address: one to three digits, without a leading zero.\<close>

definition parse_octet :: "string \<Rightarrow> nat option"
where
  "parse_octet s =
    (if length s > 3 \<or> (length s > 1 \<and> take 1 s = ''0'') then None
     else case parse_digits s of
            None \<Rightarrow> None
          | Some n \<Rightarrow> if n \<le> 255 then Some n else None)"

definition ipv4_of_octets :: "nat \<Rightarrow> nat \<Rightarrow> nat \<Rightarrow> nat \<Rightarrow> 32 word"
  where "ipv4_of_octets a b c d = of_nat (((a * 256 + b) * 256 + c) * 256 + d)"

definition parse_ipv4 :: "string \<Rightarrow> 32 word option"
where
  "parse_ipv4 s =
    (case map parse_octet (split_char CHR ''.'' s) of
       [Some a, Some b, Some c, Some d] \<Rightarrow> Some (ipv4_of_octets a b c d)
     | _ \<Rightarrow> None)"

definition ipv4_octets :: "32 word \<Rightarrow> nat list"
where
  "ipv4_octets w =
    [unat w div 16777216, unat w div 65536 mod 256, unat w div 256 mod 256, unat w mod 256]"

definition show_ipv4 :: "32 word \<Rightarrow> string"
  where "show_ipv4 w = join ''.'' (map show_nat (ipv4_octets w))"


section \<open>Blocks of addresses\<close>

definition mask_for_prefix :: "nat \<Rightarrow> 32 word"
where
  "mask_for_prefix prefix =
    (if prefix = 0 then 0 else if prefix \<ge> 32 then - 1 else push_bit (32 - prefix) (- 1))"

datatype cidr_error =
    CidrForm string
  | CidrPrefixInvalid string
  | CidrPrefixRange string
  | CidrAddress string
  | SubnetPrefixRange nat string

definition parse_cidr_components :: "string \<Rightarrow> (32 word \<times> nat, cidr_error) rust_result"
where
  "parse_cidr_components cidr =
    (case split_once ''/'' cidr of
       None \<Rightarrow> Err (CidrForm cidr)
     | Some (address, prefix_text) \<Rightarrow>
        (case parse_unsigned 255 prefix_text of
           None \<Rightarrow> Err (CidrPrefixInvalid cidr)
         | Some prefix \<Rightarrow>
             if prefix > 32 then Err (CidrPrefixRange cidr)
             else (case parse_ipv4 address of
                     None \<Rightarrow> Err (CidrAddress cidr)
                   | Some base \<Rightarrow> Ok (base, prefix))))"

record cidr_block =
  cb_base :: "32 word"
  cb_prefix :: nat

definition pod_subnet_parse :: "string \<Rightarrow> (cidr_block, cidr_error) rust_result"
where
  "pod_subnet_parse cidr =
    result_bind (parse_cidr_components cidr) (\<lambda>(base, prefix).
      if \<not> (1 \<le> prefix \<and> prefix \<le> 30) then Err (SubnetPrefixRange prefix cidr)
      else Ok \<lparr>cb_base = and base (mask_for_prefix prefix), cb_prefix = prefix\<rparr>)"

definition pod_subnet_size :: "cidr_block \<Rightarrow> 32 word"
  where "pod_subnet_size s = push_bit (32 - cb_prefix s) 1"

definition bridge_ip :: "cidr_block \<Rightarrow> 32 word"
  where "bridge_ip s = cb_base s + 1"

definition pod_ip_range :: "cidr_block \<Rightarrow> 32 word \<times> 32 word"
  where "pod_ip_range s = (cb_base s + 2, cb_base s + pod_subnet_size s - 2)"

definition cidr_text :: "cidr_block \<Rightarrow> string"
  where "cidr_text s = show_ipv4 (cb_base s) @ ''/'' @ show_nat (cb_prefix s)"

definition cluster_cidr_parse :: "string \<Rightarrow> (cidr_block, cidr_error) rust_result"
where
  "cluster_cidr_parse cidr =
    result_bind (parse_cidr_components cidr) (\<lambda>(base, prefix). Ok \<lparr>cb_base = base, cb_prefix = prefix\<rparr>)"

definition cidr_network :: "cidr_block \<Rightarrow> 32 word"
  where "cidr_network c = and (cb_base c) (mask_for_prefix (cb_prefix c))"


section \<open>Names, port ranges and annotations\<close>

definition is_ascii_alphanumeric :: "char \<Rightarrow> bool"
where
  "is_ascii_alphanumeric c \<longleftrightarrow>
    (let n = (of_char c :: nat) in
     (48 \<le> n \<and> n \<le> 57) \<or> (65 \<le> n \<and> n \<le> 90) \<or> (97 \<le> n \<and> n \<le> 122))"

datatype node_name_error =
    NodeNameEmpty | NodeNameTooLong nat | NodeNameCharacters string | NodeNameHyphen

definition node_name_parse :: "string \<Rightarrow> (string, node_name_error) rust_result"
where
  "node_name_parse name =
    (let trimmed = trim name in
     if trimmed = [] then Err NodeNameEmpty
     else if length trimmed > 253 then Err (NodeNameTooLong (length trimmed))
     else if \<not> list_all (\<lambda>c. is_ascii_alphanumeric c \<or> c = CHR ''-'' \<or> c = CHR ''.'') trimmed
     then Err (NodeNameCharacters trimmed)
     else if hd trimmed = CHR ''-'' \<or> last trimmed = CHR ''-'' then Err NodeNameHyphen
     else Ok trimmed)"

datatype node_peer_mode = Root | Rootless

definition parse_node_peer_mode :: "string option \<Rightarrow> (node_peer_mode, string) rust_result"
where
  "parse_node_peer_mode v =
    (case v of
       None \<Rightarrow> Ok Root
     | Some m \<Rightarrow> if m = ''root'' then Ok Root else if m = ''rootless'' then Ok Rootless else Err m)"

record host_port_range =
  hp_start :: nat
  hp_end :: nat

datatype host_port_range_error =
    RangeForm string | RangeStart string | RangeEnd string | RangeOrder string

definition host_port_range_parse :: "string \<Rightarrow> (host_port_range, host_port_range_error) rust_result"
where
  "host_port_range_parse raw =
    (let trimmed = trim raw in
     case split_once ''-'' trimmed of
       None \<Rightarrow> Err (RangeForm trimmed)
     | Some (first, second) \<Rightarrow>
        (case parse_unsigned 65535 first of
           None \<Rightarrow> Err (RangeStart first)
         | Some start \<Rightarrow>
            (case parse_unsigned 65535 second of
               None \<Rightarrow> Err (RangeEnd second)
             | Some stop \<Rightarrow>
                 if start = 0 \<or> stop = 0 \<or> start > stop then Err (RangeOrder trimmed)
                 else Ok \<lparr>hp_start = start, hp_end = stop\<rparr>)))"

definition host_port_range_text :: "host_port_range \<Rightarrow> string"
  where "host_port_range_text r = show_nat (hp_start r) @ ''-'' @ show_nat (hp_end r)"

text \<open>\<^verbatim>\<open>set_json_string_field\<close> on an object, and the removal of an optional annotation; both report
  whether they changed it.\<close>

definition set_json_string_field :: "string \<Rightarrow> string \<Rightarrow> json \<Rightarrow> json \<times> bool"
where
  "set_json_string_field key v object =
    (if get_str key object = Some v then (object, False) else (jput key (JString v) object, True))"

definition set_optional_field :: "string \<Rightarrow> string option \<Rightarrow> json \<Rightarrow> json \<times> bool"
where
  "set_optional_field key v object =
    (case v of
       Some s \<Rightarrow> set_json_string_field key s object
     | None \<Rightarrow> (jdel key object, jget key object \<noteq> None))"

definition object_entry :: "string \<Rightarrow> json \<Rightarrow> json"
where
  "object_entry key v =
    (case jget key v of Some x \<Rightarrow> if is_object x then x else JObject [] | None \<Rightarrow> JObject [])"

definition set_node_dataplane_annotations ::
  "json \<Rightarrow> string \<Rightarrow> string \<Rightarrow> string \<Rightarrow> string option \<Rightarrow> nat option \<Rightarrow> json \<times> bool"
where
  "set_node_dataplane_annotations node endpoint mode encryption public_key port =
    (if \<not> is_object node then (node, False)
     else
      (let metadata = object_entry ''metadata'' node;
           a0 = object_entry ''annotations'' metadata;
           (a1, c1) = set_json_string_field ''klights.io/dataplane-endpoint'' endpoint a0;
           (a2, c2) = set_json_string_field ''klights.io/dataplane-mode'' mode a1;
           (a3, c3) = set_json_string_field ''klights.io/dataplane-encryption'' encryption a2;
           (a4, c4) = set_optional_field ''klights.io/dataplane-port'' (map_option show_nat port) a3;
           (a5, c5) = set_optional_field ''klights.io/dataplane-public-key'' public_key a4
       in (jput ''metadata'' (jput ''annotations'' a5 metadata) node, c1 \<or> c2 \<or> c3 \<or> c4 \<or> c5)))"


section \<open>Reading back addresses\<close>

lemma is_digit_digits: "is_digit c \<Longrightarrow> c \<noteq> CHR ''.'' \<and> c \<noteq> CHR ''/'' \<and> c \<noteq> CHR ''-'' \<and> c \<noteq> CHR ''+''"
  by (auto simp: is_digit_def)

lemma show_nat_notin: "\<not> is_digit c \<Longrightarrow> c \<notin> set (show_nat n)"
  using show_nat_digits [of n] by (auto simp: list_all_iff)

lemma show_nat_first: "n \<noteq> 0 \<Longrightarrow> take 1 (show_nat n) \<noteq> ''0''"
proof (induction n rule: show_nat.induct)
  case (1 n)
  show ?case
  proof (cases "n < 10")
    case True
    then have "digit_char n \<noteq> CHR ''0''"
      using 1(2) digit_val_digit_char [OF True] by (auto simp: digit_val_def)
    then show ?thesis
      using True by (subst show_nat.simps) simp
  next
    case False
    then have "take 1 (show_nat (n div 10)) \<noteq> ''0''"
      using 1(1) by simp
    moreover have "take 1 (show_nat n) = take 1 (show_nat (n div 10))"
      using False show_nat_not_Nil [of "n div 10"] by (subst show_nat.simps) (cases "show_nat (n div 10)", auto)
    ultimately show ?thesis
      by simp
  qed
qed

lemma length_show_nat: "n < 10 ^ k \<Longrightarrow> 0 < k \<Longrightarrow> length (show_nat n) \<le> k"
proof (induction n arbitrary: k rule: show_nat.induct)
  case (1 n)
  show ?case
  proof (cases "n < 10")
    case True
    then show ?thesis
      using 1(3) by (subst show_nat.simps) simp
  next
    case False
    then have "k \<noteq> 1"
      using 1(2) by auto
    then obtain j where k: "k = Suc j" "0 < j"
      using 1(3) by (cases k) auto
    then have "n div 10 < 10 ^ j"
      using 1(2) by (simp add: less_mult_imp_div_less)
    then have "length (show_nat (n div 10)) \<le> j"
      using 1(1) False k(2) by blast
    then show ?thesis
      using False k(1) by (subst show_nat.simps) simp
  qed
qed

lemma parse_octet_show_nat: "n \<le> 255 \<Longrightarrow> parse_octet (show_nat n) = Some n"
  using length_show_nat [of n 3] length_show_nat [of 0 1] show_nat_first [of n] by (cases "n = 0") (auto simp: parse_octet_def)

lemma octets_of_ipv4:
  "ipv4_of_octets (unat w div 16777216) (unat w div 65536 mod 256) (unat w div 256 mod 256) (unat w mod 256) = w"
proof -
  have "unat w div 65536 = unat w div 256 div 256" and "unat w div 16777216 = unat w div 256 div 256 div 256"
    by (simp_all add: div_mult2_eq [symmetric])
  then have "((unat w div 16777216 * 256 + unat w div 65536 mod 256) * 256 + unat w div 256 mod 256) * 256
      + unat w mod 256 = unat w"
    by (metis div_mult_mod_eq)
  then show ?thesis
    by (simp add: ipv4_of_octets_def)
qed

lemma parse_show_ipv4 [simp]: "parse_ipv4 (show_ipv4 w) = Some w"
proof -
  have "unat w < 2 ^ LENGTH(32)"
    by (rule unsigned_less)
  then have "unat w < 4294967296"
    by simp
  then have "unat w div 16777216 \<le> 255"
    by (simp add: less_mult_imp_div_less less_Suc_eq_le [symmetric])
  then have "map parse_octet (map show_nat (ipv4_octets w)) = map Some (ipv4_octets w)"
    by (simp add: ipv4_octets_def parse_octet_show_nat less_Suc_eq_le [symmetric])
  moreover have "split_char CHR ''.'' (show_ipv4 w) = map show_nat (ipv4_octets w)"
    unfolding show_ipv4_def
    by (intro split_char_join) (auto simp: ipv4_octets_def is_digit_def show_nat_notin)
  ultimately show ?thesis
    by (simp add: parse_ipv4_def ipv4_octets_def octets_of_ipv4)
qed

lemma show_ipv4_no_slash: "CHR ''/'' \<notin> set (show_ipv4 w)"
proof
  assume "CHR ''/'' \<in> set (show_ipv4 w)"
  then have "CHR ''/'' \<in> set ''.'' \<union> (\<Union>p \<in> set (map show_nat (ipv4_octets w)). set p)"
    using set_join unfolding show_ipv4_def by blast
  then show False
    by (auto simp: ipv4_octets_def is_digit_def show_nat_notin)
qed

lemma parse_unsigned_show_nat: "n \<le> largest \<Longrightarrow> parse_unsigned largest (show_nat n) = Some n"
proof -
  have "take 1 (show_nat n) \<noteq> ''+''"
    using show_nat_head_not_sign(2) [of n] by (cases "show_nat n") auto
  then show "n \<le> largest \<Longrightarrow> parse_unsigned largest (show_nat n) = Some n"
    by (simp add: parse_unsigned_def)
qed

lemma parse_cidr_text:
  "cb_prefix c \<le> 32 \<Longrightarrow> parse_cidr_components (cidr_text c) = Ok (cb_base c, cb_prefix c)"
  using split_once_head [OF show_ipv4_no_slash, where pat = "[]" and s = "show_nat (cb_prefix c)"]
  by (simp add: parse_cidr_components_def cidr_text_def parse_unsigned_show_nat)

lemma no_leading_space: "is_digit c \<Longrightarrow> ascii_char c \<and> \<not> ascii_space c"
  by (auto simp: is_digit_def ascii_char_def ascii_space_def)

lemma trim_port_range: "trim (host_port_range_text r) = host_port_range_text r"
proof -
  have digits: "\<forall>c \<in> set (show_nat n). is_digit c" for n
    using show_nat_digits by (simp add: list_all_iff)
  have "\<not> ascii_space (hd (show_nat n))" for n
    using no_leading_space [OF digits [rule_format, OF hd_in_set]] by simp
  moreover have "\<not> ascii_space (last (show_nat n))" for n
    using no_leading_space [OF digits [rule_format, OF last_in_set]] by simp
  ultimately show ?thesis
    unfolding host_port_range_text_def using digits no_leading_space
    by (intro trim_ascii) (auto simp: list_all_iff ascii_char_def [of "CHR ''-''"])
qed

text \<open>C40: Network values are read back from their text. For every CIDR block with a prefix of at most 32
  the text parses to the same block; a Pod subnet loses exactly its host bits; and every ordered
  range of non-zero ports parses to itself.\<close>

theorem network_text_roundtrip:
  assumes "cb_prefix c \<le> 32" and "1 \<le> cb_prefix s" and "cb_prefix s \<le> 30"
    and "0 < hp_start r" and "hp_start r \<le> hp_end r" and "hp_end r \<le> 65535"
  shows "cluster_cidr_parse (cidr_text c) = Ok c
    \<and> pod_subnet_parse (cidr_text s) = Ok (s\<lparr>cb_base := cidr_network s\<rparr>)
    \<and> host_port_range_parse (host_port_range_text r) = Ok r"
proof -
  have "CHR ''-'' \<notin> set (show_nat (hp_start r))"
    by (rule show_nat_notin) (simp add: is_digit_def)
  then have "split_once ''-'' (host_port_range_text r) = Some (show_nat (hp_start r), show_nat (hp_end r))"
    using split_once_head [of "CHR ''-''" "show_nat (hp_start r)" "[]"] by (simp add: host_port_range_text_def)
  then have "host_port_range_parse (host_port_range_text r) = Ok r"
    using assms(4-6) by (simp add: host_port_range_parse_def trim_port_range parse_unsigned_show_nat)
  then show ?thesis
    using assms(1-3) by (simp add: cluster_cidr_parse_def pod_subnet_parse_def parse_cidr_text cidr_network_def)
qed

theorem network_text_roundtrip_witness:
  "pod_subnet_parse (cidr_text \<lparr>cb_base = 0x0A2A0163, cb_prefix = 24\<rparr>) = Ok \<lparr>cb_base = 0x0A2A0100, cb_prefix = 24\<rparr>"
  using network_text_roundtrip [of "\<lparr>cb_base = 0, cb_prefix = 0\<rparr>" "\<lparr>cb_base = 0x0A2A0163, cb_prefix = 24\<rparr>"
      "\<lparr>hp_start = 1, hp_end = 2\<rparr>"]
  by (simp add: cidr_network_def mask_for_prefix_def push_bit_eq_mult)


section \<open>Annotating a Node\<close>

text \<open>What an annotation step leaves behind: the wanted text or nothing, and every other key.\<close>

definition holds_field :: "string \<Rightarrow> string option \<Rightarrow> json \<Rightarrow> bool"
where
  "holds_field key v object \<longleftrightarrow>
    (case v of None \<Rightarrow> jget key object = None | Some s \<Rightarrow> jget key object = Some (JString s))"

lemma set_optional_Some: "set_json_string_field key v = set_optional_field key (Some v)"
  by (simp add: set_optional_field_def fun_eq_iff)

lemma set_optional_holds:
  assumes "is_object o'"
  shows "holds_field k w (fst (set_optional_field key v o')) \<longleftrightarrow> (if k = key then w = v else holds_field k w o')"
  using assms
  by (cases v; cases w)
    (auto simp: holds_field_def set_optional_field_def set_json_string_field_def get_str_def bind_eq_Some_conv)

lemma set_optional_frame [simp]:
  "is_object (fst (set_optional_field key v o')) = is_object o'"
  "wf_json o' \<Longrightarrow> wf_json (fst (set_optional_field key v o'))"
  by (auto simp: set_optional_field_def set_json_string_field_def split: option.split)

lemma set_optional_again:
  assumes "wf_json o'" and "holds_field key v o'"
  shows "set_optional_field key v o' = (o', False)"
proof (cases v)
  case None
  then have "jdel key o' = o'"
    using assms by (cases o') (auto simp: holds_field_def intro: btree.del_absent)
  then show ?thesis
    using assms None by (simp add: set_optional_field_def holds_field_def)
qed (use assms in \<open>simp add: set_optional_field_def set_json_string_field_def holds_field_def get_str_def\<close>)

definition annotate :: "string \<Rightarrow> string \<Rightarrow> string \<Rightarrow> string option \<Rightarrow> nat option \<Rightarrow> json \<Rightarrow> json \<times> bool"
where
  "annotate endpoint mode encryption public_key port a0 =
    (let (a1, c1) = set_json_string_field ''klights.io/dataplane-endpoint'' endpoint a0;
         (a2, c2) = set_json_string_field ''klights.io/dataplane-mode'' mode a1;
         (a3, c3) = set_json_string_field ''klights.io/dataplane-encryption'' encryption a2;
         (a4, c4) = set_optional_field ''klights.io/dataplane-port'' (map_option show_nat port) a3;
         (a5, c5) = set_optional_field ''klights.io/dataplane-public-key'' public_key a4
     in (a5, c1 \<or> c2 \<or> c3 \<or> c4 \<or> c5))"

lemma annotate_again:
  assumes "wf_json a0" and "is_object a0"
  shows "annotate e m x k p (fst (annotate e m x k p a0)) = (fst (annotate e m x k p a0), False)"
    and "wf_json (fst (annotate e m x k p a0))" and "is_object (fst (annotate e m x k p a0))"
proof -
  define a5 where "a5 = fst (annotate e m x k p a0)"
  have a5: "a5 = fst (set_optional_field ''klights.io/dataplane-public-key'' k
      (fst (set_optional_field ''klights.io/dataplane-port'' (map_option show_nat p)
      (fst (set_optional_field ''klights.io/dataplane-encryption'' (Some x)
      (fst (set_optional_field ''klights.io/dataplane-mode'' (Some m)
      (fst (set_optional_field ''klights.io/dataplane-endpoint'' (Some e) a0)))))))))"
    by (simp add: a5_def annotate_def set_optional_Some case_prod_unfold Let_def)
  then show wf: "wf_json (fst (annotate e m x k p a0))" and "is_object (fst (annotate e m x k p a0))"
    unfolding a5_def [symmetric] using assms by simp_all
  have "holds_field ''klights.io/dataplane-endpoint'' (Some e) a5" "holds_field ''klights.io/dataplane-mode'' (Some m) a5"
    "holds_field ''klights.io/dataplane-encryption'' (Some x) a5"
    "holds_field ''klights.io/dataplane-port'' (map_option show_nat p) a5"
    "holds_field ''klights.io/dataplane-public-key'' k a5"
    using assms(2) by (simp_all add: a5 set_optional_holds)
  then have "annotate e m x k p a5 = (a5, False)"
    using wf unfolding a5_def [symmetric]
    by (simp add: annotate_def set_optional_Some set_optional_again)
  then show "annotate e m x k p (fst (annotate e m x k p a0)) = (fst (annotate e m x k p a0), False)"
    by (simp add: a5_def)
qed

lemma object_entry_frame [simp]:
  "is_object (object_entry key v)"
  "wf_json v \<Longrightarrow> wf_json (object_entry key v)"
  by (auto simp: object_entry_def split: option.split dest: wf_json_jget)

text \<open>Writing the dataplane annotations a second time changes nothing and says so.\<close>

lemma dataplane_annotations_idempotent:
  assumes "wf_json node"
  shows "set_node_dataplane_annotations (fst (set_node_dataplane_annotations node e m x k p)) e m x k p =
    (fst (set_node_dataplane_annotations node e m x k p), False)"
proof (cases "is_object node")
  case True
  define metadata where "metadata = object_entry ''metadata'' node"
  define a0 where "a0 = object_entry ''annotations'' metadata"
  define a5 where "a5 = fst (annotate e m x k p a0)"
  have obj: "is_object metadata" "is_object a0" and wf: "wf_json metadata" "wf_json a0"
    using assms by (simp_all add: metadata_def a0_def)
  have set_eq: "set_node_dataplane_annotations n e m x k p =
      (let (a, c) = annotate e m x k p (object_entry ''annotations'' (object_entry ''metadata'' n))
       in (jput ''metadata'' (jput ''annotations'' a (object_entry ''metadata'' n)) n, c))"
    if "is_object n" for n
    using that by (simp add: set_node_dataplane_annotations_def annotate_def case_prod_unfold Let_def)
  define node' where "node' = jput ''metadata'' (jput ''annotations'' a5 metadata) node"
  have node': "fst (set_node_dataplane_annotations node e m x k p) = node'"
    by (simp add: set_eq True node'_def metadata_def [symmetric] a0_def [symmetric] a5_def case_prod_unfold Let_def)
  have "object_entry ''metadata'' node' = jput ''annotations'' a5 metadata"
    and "object_entry ''annotations'' (jput ''annotations'' a5 metadata) = a5"
    using annotate_again(3) [OF wf(2) obj(2)] True obj by (simp_all add: object_entry_def node'_def a5_def)
  moreover have "jput ''annotations'' a5 (jput ''annotations'' a5 metadata) = jput ''annotations'' a5 metadata"
    using annotate_again(2) [OF wf(2) obj(2)] wf obj by (intro jput_same) (simp_all add: a5_def)
  moreover have "jput ''metadata'' (jput ''annotations'' a5 metadata) node' = node'"
    using annotate_again(2) [OF wf(2) obj(2)] wf True assms unfolding node'_def
    by (intro jput_same) (simp_all add: a5_def)
  moreover have "annotate e m x k p a5 = (a5, False)"
    unfolding a5_def by (rule annotate_again(1) [OF wf(2) obj(2)])
  moreover have "is_object node'"
    by (simp add: node'_def True)
  ultimately show ?thesis
    unfolding node' by (simp only: set_eq prod.case Let_def)
qed (simp add: set_node_dataplane_annotations_def)

end
