(* ===== verification/Cluster_Tables.thy ===== *)
theory Cluster_Tables
  imports Log_Apply Status_Merge Watch_Store Selector_Index Resource_Shape Network_Values
begin

text \<open>
  The tables of the cluster database and the operations that change them when a committed log entry is
  applied: \<^verbatim>\<open>klights-cluster-datastore/src/sqlite/live_apply/state/\<close> with the SQL statements of
  \<^verbatim>\<open>mutation_queries.rs\<close> it executes, the watch-event insertion of \<^verbatim>\<open>mutation_helpers.rs\<close> and the
  counters of \<^verbatim>\<open>transaction_primitives.rs\<close>.

  A table is the list of its rows; a statement is its effect on that list, with the unique indexes
  and checks of \<^verbatim>\<open>schema.rs\<close> written out where a statement can violate them. Documents are stored as
  values, not as bytes: two documents have the same bytes exactly if they are equal. An operation
  returns the new tables or an error; after an error the transaction is rolled back, so the tables
  at that point do not matter. The merge of a JSON merge patch, the text of floating-point numbers,
  the RFC 3339 parser and the codec of outbox results are third-party code and parameters.
\<close>

section \<open>The database\<close>

record resource_table_row =
  rt_id :: int
  rt_api_version :: string
  rt_kind :: string
  rt_namespace :: string
  rt_name :: string
  rt_uid :: string
  rt_resource_version :: int
  rt_created_rv :: int
  rt_data :: json

record cluster_db =
  cd_resource_version :: int
  cd_event_sequence :: int
  cd_watch_events :: "watch_event_row list"
  cd_floors :: "watch_replay_floor_row list"
  cd_namespaced :: "resource_table_row list"
  cd_cluster :: "resource_table_row list"
  cd_namespaces :: "log_apply_namespace_row list"
  cd_index :: index_tables
  cd_applied_outbox :: "log_apply_applied_outbox_row list"
  cd_watermarks :: "outbox_stream_watermark list"
  cd_pod_cleanup_intents :: "log_apply_pod_cleanup_intent_row list"
  cd_klights_meta :: "(string \<times> string) list"
  cd_node_subnets :: "log_apply_node_subnet_row list"
  cd_node_dataplane :: "log_apply_node_dataplane_row list"

record apply_env =
  ae_json_text :: "json \<Rightarrow> string"
  ae_float_text :: "64 word \<Rightarrow> string"
  ae_rfc3339 :: "string \<Rightarrow> int option"
  ae_merge_patch :: "json \<Rightarrow> json \<Rightarrow> json"
  ae_encode :: "storage_response \<Rightarrow> (string, string) rust_result"
  ae_decode :: "string \<Rightarrow> (storage_response, string) rust_result"

datatype apply_conflict_code =
    ConflictNotFound | ConflictAlreadyExists | ConflictUidPrecondition | ConflictResourceVersionPrecondition

text \<open>\<^verbatim>\<open>DbError\<close>: an application error that is a typed conflict, any other application error, and an
  error of the database.\<close>

datatype db_error =
    ApplyConflict apply_conflict_code string
  | OtherError string
  | SqliteError string

type_synonym 'a tx_result = "('a \<times> cluster_db, db_error) rust_result"


section \<open>Counters and watch events\<close>

definition next_resource_version_in_tx :: "cluster_db \<Rightarrow> int \<times> cluster_db"
where
  "next_resource_version_in_tx db =
    (let rv = cd_resource_version db + 1 in (rv, db\<lparr>cd_resource_version := rv\<rparr>))"

definition advance_metadata_rv_to_at_least_tx :: "int \<Rightarrow> cluster_db \<Rightarrow> cluster_db"
where
  "advance_metadata_rv_to_at_least_tx rv db =
    (if cd_resource_version db < rv then db\<lparr>cd_resource_version := rv\<rparr> else db)"

record watch_event_insert =
  wi_event_id :: "int option"
  wi_api_version :: string
  wi_kind :: string
  wi_namespace :: "string option"
  wi_name :: string
  wi_resource_version :: int
  wi_event_type :: string
  wi_data :: json
  wi_canonicalize_object :: bool

text \<open>\<^verbatim>\<open>COALESCE(namespace, '#cluster')\<close>\<close>

definition namespace_key :: "string option \<Rightarrow> string"
  where "namespace_key namespace = unwrap_or namespace cluster_namespace_key"

definition same_identity_rv :: "watch_event_insert \<Rightarrow> watch_event_row \<Rightarrow> bool"
where
  "same_identity_rv e row \<longleftrightarrow>
    wer_api_version row = wi_api_version e \<and> wer_kind row = wi_kind e
    \<and> namespace_key (wer_namespace row) = namespace_key (wi_namespace e)
    \<and> wer_name row = wi_name e \<and> wer_resource_version row = wi_resource_version e"

definition insert_watch_event_in_conn :: "watch_event_insert \<Rightarrow> cluster_db \<Rightarrow> (cluster_db, db_error) rust_result"
where
  "insert_watch_event_in_conn e db =
    (let data = (if wi_canonicalize_object e
                 then hydrate_watch_event_data (wi_data e) (wi_api_version e) (wi_kind e)
                        (wi_namespace e) (wi_name e) (wi_resource_version e)
                 else wi_data e);
         event_id = unwrap_or (wi_event_id e) (cd_event_sequence db + 1)
     in if list_ex (\<lambda>row. wer_id row = event_id) (cd_watch_events db)
        then Err (SqliteError ''UNIQUE constraint failed: watch_events.id'')
        else case List.find (same_identity_rv e) (cd_watch_events db) of
          Some row \<Rightarrow>
            if wer_event_type row = wi_event_type e \<and> wer_data row = Some data then Ok db
            else Err (SqliteError ''UNIQUE constraint failed: idx_watch_events_identity_rv'')
        | None \<Rightarrow>
            Ok (db\<lparr>cd_watch_events := insort_key wer_id
                     \<lparr>wer_id = event_id, wer_api_version = wi_api_version e, wer_kind = wi_kind e,
                      wer_namespace = wi_namespace e, wer_name = wi_name e,
                      wer_resource_version = wi_resource_version e, wer_event_type = wi_event_type e,
                      wer_data = Some data\<rparr> (cd_watch_events db),
                   cd_event_sequence := max (cd_event_sequence db) event_id\<rparr>))"

record staged_post_commit =
  sp_api_version :: string
  sp_kind :: string
  sp_namespace :: "string option"
  sp_resource_version :: int

definition create_staged_post_commit ::
  "string \<Rightarrow> string \<Rightarrow> string option \<Rightarrow> int \<Rightarrow> staged_post_commit"
where
  "create_staged_post_commit api_version kind namespace rv =
    \<lparr>sp_api_version = api_version, sp_kind = kind, sp_namespace = namespace, sp_resource_version = rv\<rparr>"


section \<open>Resource rows\<close>

datatype resource_scope = NamespacedRow string | ClusterRow

definition resource_identity :: "string \<Rightarrow> string \<Rightarrow> string option \<Rightarrow> resource_scope"
where
  "resource_identity api_version kind namespace =
    (if use_namespaced_table api_version kind namespace
     then NamespacedRow (unwrap_or namespace ''default'') else ClusterRow)"

fun scope_namespace :: "resource_scope \<Rightarrow> string option"
where
  "scope_namespace (NamespacedRow namespace) = Some namespace"
| "scope_namespace ClusterRow = None"

fun index_namespace :: "resource_scope \<Rightarrow> string"
where
  "index_namespace (NamespacedRow namespace) = namespace"
| "index_namespace ClusterRow = []"

definition row_has_key :: "string \<Rightarrow> string \<Rightarrow> string \<Rightarrow> string \<Rightarrow> resource_table_row \<Rightarrow> bool"
where
  "row_has_key api_version kind namespace name row \<longleftrightarrow>
    rt_api_version row = api_version \<and> rt_kind row = kind \<and> rt_namespace row = namespace \<and> rt_name row = name"

fun table_of :: "resource_scope \<Rightarrow> cluster_db \<Rightarrow> resource_table_row list"
where
  "table_of (NamespacedRow _) db = cd_namespaced db"
| "table_of ClusterRow db = cd_cluster db"

fun set_table :: "resource_scope \<Rightarrow> resource_table_row list \<Rightarrow> cluster_db \<Rightarrow> cluster_db"
where
  "set_table (NamespacedRow _) rows db = db\<lparr>cd_namespaced := rows\<rparr>"
| "set_table ClusterRow rows db = db\<lparr>cd_cluster := rows\<rparr>"

type_synonym existing_resource_row = "int \<times> string \<times> json"

definition get_existing_resource ::
  "resource_scope \<Rightarrow> string \<Rightarrow> string \<Rightarrow> string \<Rightarrow> cluster_db \<Rightarrow> existing_resource_row option"
where
  "get_existing_resource scope api_version kind name db =
    map_option (\<lambda>row. (rt_resource_version row, rt_uid row, rt_data row))
      (List.find (row_has_key api_version kind (index_namespace scope) name) (table_of scope db))"

definition fresh_row_id :: "resource_table_row list \<Rightarrow> int"
  where "fresh_row_id rows = foldl (\<lambda>m row. max m (rt_id row)) 0 rows + 1"

text \<open>\<^verbatim>\<open>NAMESPACED_UPSERT_EXACT\<close> and \<^verbatim>\<open>CLUSTER_UPSERT_EXACT\<close>\<close>

definition upsert_resource_from_bytes ::
  "resource_scope \<Rightarrow> string \<Rightarrow> string \<Rightarrow> string \<Rightarrow> string \<Rightarrow> int \<Rightarrow> json \<Rightarrow> cluster_db \<Rightarrow> cluster_db"
where
  "upsert_resource_from_bytes scope api_version kind name uid rv data db =
    (let rows = table_of scope db;
         has_key = row_has_key api_version kind (index_namespace scope) name
     in set_table scope
          (if list_ex has_key rows
           then map (\<lambda>row. if has_key row
                           then row\<lparr>rt_uid := uid, rt_resource_version := rv, rt_data := data\<rparr> else row) rows
           else rows @ [\<lparr>rt_id = fresh_row_id rows, rt_api_version = api_version, rt_kind = kind,
                         rt_namespace = index_namespace scope, rt_name = name, rt_uid = uid,
                         rt_resource_version = rv, rt_created_rv = rv, rt_data = data\<rparr>]) db)"

definition upsert_indexes_from_bytes ::
  "apply_env \<Rightarrow> resource_scope \<Rightarrow> string \<Rightarrow> string \<Rightarrow> string \<Rightarrow> json \<Rightarrow> cluster_db \<Rightarrow> cluster_db"
where
  "upsert_indexes_from_bytes env scope api_version kind name data db =
    db\<lparr>cd_index := upsert_owner_refs api_version kind (index_namespace scope) name data
        (upsert_index_entries (ae_float_text env) api_version kind (index_namespace scope) name data (cd_index db))\<rparr>"

definition delete_resource_from_identity ::
  "resource_scope \<Rightarrow> string \<Rightarrow> string \<Rightarrow> string \<Rightarrow> cluster_db \<Rightarrow> cluster_db"
where
  "delete_resource_from_identity scope api_version kind name db =
    set_table scope
      (filter (\<lambda>row. \<not> row_has_key api_version kind (index_namespace scope) name row) (table_of scope db)) db"

definition delete_indexes_from_identity ::
  "resource_scope \<Rightarrow> string \<Rightarrow> string \<Rightarrow> string \<Rightarrow> cluster_db \<Rightarrow> cluster_db"
where
  "delete_indexes_from_identity scope api_version kind name db =
    db\<lparr>cd_index := delete_owner_refs api_version kind (index_namespace scope) name
        (delete_index_entries api_version kind (index_namespace scope) name (cd_index db))\<rparr>"

definition emit_watch_from_bytes ::
  "bool \<Rightarrow> resource_scope \<Rightarrow> string \<Rightarrow> string \<Rightarrow> string \<Rightarrow> int \<Rightarrow> string \<Rightarrow> json \<Rightarrow> cluster_db
    \<Rightarrow> staged_post_commit option tx_result"
where
  "emit_watch_from_bytes emit_watch_events scope api_version kind name rv event_type data db =
    (if \<not> emit_watch_events then Ok (None, db)
     else result_bind
       (insert_watch_event_in_conn
         \<lparr>wi_event_id = None, wi_api_version = api_version, wi_kind = kind,
          wi_namespace = scope_namespace scope, wi_name = name, wi_resource_version = rv,
          wi_event_type = event_type, wi_data = data, wi_canonicalize_object = True\<rparr> db)
       (\<lambda>db'. Ok (Some (create_staged_post_commit api_version kind (scope_namespace scope) rv), db')))"

fun apply_precondition_error :: "apply_precondition_violation \<Rightarrow> db_error"
where
  "apply_precondition_error AlreadyExists =
    ApplyConflict ConflictAlreadyExists ''Resource already exists (409 Conflict)''"
| "apply_precondition_error NotFound =
    ApplyConflict ConflictNotFound ''Resource not found (404 Not Found)''"
| "apply_precondition_error (Uid _ _) =
    ApplyConflict ConflictUidPrecondition ''UID precondition failed (409 Conflict)''"
| "apply_precondition_error (ResourceVersion expected actual) =
    ApplyConflict ConflictResourceVersionPrecondition
      (''resourceVersion precondition failed: expected '' @ show_int expected @ '' got '' @ show_int actual
        @ '' (409 Conflict)'')"

definition validate_put_resource_apply_preconditions ::
  "log_apply_resource_row \<Rightarrow> existing_resource_row option \<Rightarrow> (unit, db_error) rust_result"
where
  "validate_put_resource_apply_preconditions row existing =
    map_err apply_precondition_error (validate_apply_preconditions
      \<lparr>ap_require_absent = lrr_require_absent row, ap_require_existing = lrr_require_existing row,
       ap_uid = lrr_precondition_uid row, ap_resource_version = lrr_precondition_resource_version row\<rparr>
      (map_option (\<lambda>(rv, uid, _). \<lparr>cr_uid = Some uid, cr_resource_version = rv\<rparr>) existing))"


subsection \<open>Normalising a row before it is written\<close>

definition merge_status_only_row_with_existing ::
  "apply_env \<Rightarrow> log_apply_resource_row \<Rightarrow> existing_resource_row option
    \<Rightarrow> (log_apply_resource_row, db_error) rust_result"
where
  "merge_status_only_row_with_existing env row existing =
    (if \<not> lrr_status_only row then Ok row
     else case existing of
       None \<Rightarrow> Ok row
     | Some (current_rv, current_uid, live) \<Rightarrow>
        (let incoming = unwrap_or (jget ''status'' (lrr_data row)) (JObject []);
             freshness = (if is_some_and (lrr_precondition_resource_version row) (\<lambda>rv. rv < current_rv)
                          then Stale else Fresh);
             status = merge_status_for_apply (ae_rfc3339 env) (lrr_api_version row) (lrr_kind row)
                        live incoming freshness FromReplicatedApply
         in if \<not> is_object live then Err (OtherError ''status-only log_apply target is not a JSON object'')
            else
             (let merged = hydrate_watch_event_data (jput ''status'' status live) (lrr_api_version row)
                    (lrr_kind row) (lrr_namespace row) (lrr_name row) (lrr_resource_version row);
                  merged' = ensure_pod_status_ip_arrays merged (lrr_api_version row) (lrr_kind row);
                  precondition = (if freshness = Stale \<and> lrr_precondition_uid row = Some current_uid
                                  then None else lrr_precondition_resource_version row)
              in Ok (row\<lparr>lrr_precondition_resource_version := precondition, lrr_uid := current_uid,
                         lrr_data := merged'\<rparr>))))"

definition metadata_generation :: "json \<Rightarrow> int option"
  where "metadata_generation data = Option.bind (pointer [''metadata'', ''generation''] data) as_i64"

definition deletion_requested :: "json \<Rightarrow> bool"
where
  "deletion_requested data =
    is_some_and (pointer [''metadata'', ''deletionTimestamp''] data) (\<lambda>v.
      \<not> is_null v \<and> (case as_str v of None \<Rightarrow> True | Some t \<Rightarrow> \<not> is_blank t))"

definition incoming_uid :: "log_apply_resource_row \<Rightarrow> string option"
where
  "incoming_uid row =
    (case metadata_uid (lrr_data row) of
       Some uid \<Rightarrow> Some uid
     | None \<Rightarrow> if lrr_uid row = [] then None else Some (lrr_uid row))"

definition preserve_newer_same_uid_row_on_stale_committed_put ::
  "log_apply_resource_row \<Rightarrow> existing_resource_row option \<Rightarrow> log_apply_resource_row"
where
  "preserve_newer_same_uid_row_on_stale_committed_put row existing =
    (if lrr_status_only row then row
     else case lrr_precondition_resource_version row of
       None \<Rightarrow> row
     | Some expected \<Rightarrow>
        (case existing of
           None \<Rightarrow> row
         | Some (current_rv, current_uid, existing_data) \<Rightarrow>
             if expected \<ge> current_rv then row
             else if incoming_uid row \<noteq> Some current_uid then row
             else if deletion_requested existing_data then row
             else if (case (metadata_generation existing_data, metadata_generation (lrr_data row)) of
                        (Some existing_generation, Some incoming_generation) \<Rightarrow>
                          incoming_generation \<ge> existing_generation
                      | _ \<Rightarrow> False) then row
             else row\<lparr>lrr_uid := current_uid,
                      lrr_data := ensure_pod_status_ip_arrays
                        (hydrate_watch_event_data existing_data (lrr_api_version row) (lrr_kind row)
                          (lrr_namespace row) (lrr_name row) (lrr_resource_version row))
                        (lrr_api_version row) (lrr_kind row)\<rparr>))"

definition pod_terminating_condition_time :: "json \<Rightarrow> string option"
where
  "pod_terminating_condition_time data =
    Option.bind (Option.bind (pointer [''status'', ''conditions''] data) as_array)
      (find_map (\<lambda>condition.
        if (get_str ''type'' condition = Some ''Ready'' \<or> get_str ''type'' condition = Some ''ContainersReady'')
           \<and> get_str ''status'' condition = Some ''False''
           \<and> get_str ''reason'' condition = Some ''PodTerminating''
        then get_str ''lastTransitionTime'' condition else None))"

definition nonblank_deletion_timestamp :: "json \<Rightarrow> string option"
where
  "nonblank_deletion_timestamp data =
    (case str_at [''metadata'', ''deletionTimestamp''] data of
       None \<Rightarrow> None | Some t \<Rightarrow> if is_blank t then None else Some t)"

definition deterministic_terminating_unready_timestamp :: "json \<Rightarrow> json option \<Rightarrow> string option"
where
  "deterministic_terminating_unready_timestamp data existing =
    find_map id
      [nonblank_deletion_timestamp data, Option.bind existing nonblank_deletion_timestamp,
       pod_terminating_condition_time data, Option.bind existing pod_terminating_condition_time]"

definition preserve_same_uid_server_metadata_from_existing ::
  "log_apply_resource_row \<Rightarrow> existing_resource_row option \<Rightarrow> log_apply_resource_row"
where
  "preserve_same_uid_server_metadata_from_existing row existing =
    (case existing of
       None \<Rightarrow> row
     | Some (current_rv, current_uid, existing_data) \<Rightarrow>
         if incoming_uid row \<noteq> Some current_uid then row
         else
          (let d1 = preserve_server_metadata_fields_from_existing (lrr_data row) existing_data;
               d2 = (if is_some_and (lrr_precondition_resource_version row) (\<lambda>rv. rv \<noteq> current_rv)
                     then apply_same_uid_stale_full_resource_policy (lrr_api_version row) (lrr_kind row)
                            d1 existing_data
                     else d1);
               d3 = (if lrr_api_version row = ''v1'' \<and> lrr_kind row = ''Pod'' \<and> deletion_requested existing_data
                     then mark_terminating_pod_unready_at d2
                       (unwrap_or (deterministic_terminating_unready_timestamp d2 (Some existing_data))
                         ''1970-01-01T00:00:00Z'')
                     else d2)
           in row\<lparr>lrr_data := d3\<rparr>))"

definition normalize_committed_resource_for_apply ::
  "apply_env \<Rightarrow> log_apply_resource_row \<Rightarrow> existing_resource_row option
    \<Rightarrow> (log_apply_resource_row, db_error) rust_result"
where
  "normalize_committed_resource_for_apply env row existing =
    result_bind (merge_status_only_row_with_existing env row existing) (\<lambda>row1.
      Ok (preserve_same_uid_server_metadata_from_existing
           (preserve_newer_same_uid_row_on_stale_committed_put row1 existing) existing))"


subsection \<open>Put, patch and delete\<close>

definition resolve_noop_put_resource_in_tx ::
  "apply_env \<Rightarrow> log_apply_resource_row \<Rightarrow> cluster_db \<Rightarrow> (log_apply_resource_row option, db_error) rust_result"
where
  "resolve_noop_put_resource_in_tx env row db =
    (let scope = resource_identity (lrr_api_version row) (lrr_kind row) (lrr_namespace row);
         existing = get_existing_resource scope (lrr_api_version row) (lrr_kind row) (lrr_name row) db
     in case existing of
          None \<Rightarrow> Ok (Some row)
        | Some (rv, uid, data) \<Rightarrow>
           (let existing_data = clear_metadata_resource_version data in
            if lrr_data row \<noteq> existing_data then Ok (Some row)
            else
              result_bind (validate_put_resource_apply_preconditions row existing) (\<lambda>_.
              result_bind (normalize_committed_resource_for_apply env row existing) (\<lambda>normalized.
                if clear_metadata_resource_version (lrr_data normalized) = existing_data then Ok None
                else Ok (Some row)))))"

definition apply_put_resource ::
  "apply_env \<Rightarrow> log_apply_resource_row \<Rightarrow> bool \<Rightarrow> cluster_db \<Rightarrow> staged_post_commit option tx_result"
where
  "apply_put_resource env row emit_watch_events db =
    (let scope = resource_identity (lrr_api_version row) (lrr_kind row) (lrr_namespace row);
         existing = get_existing_resource scope (lrr_api_version row) (lrr_kind row) (lrr_name row) db
     in result_bind (validate_put_resource_apply_preconditions row existing) (\<lambda>_.
        result_bind (normalize_committed_resource_for_apply env row existing) (\<lambda>row'.
          (let same = is_some_and existing (\<lambda>(rv, uid, data).
                 rv = lrr_resource_version row' \<and> data = lrr_data row');
               indexed_db = upsert_indexes_from_bytes env scope (lrr_api_version row') (lrr_kind row')
                 (lrr_name row') (lrr_data row')
           in case decide_resource_put (existing \<noteq> None) same of
                WriteNoOp \<Rightarrow> Ok (None, indexed_db db)
              | Write event_type \<Rightarrow>
                  emit_watch_from_bytes emit_watch_events scope (lrr_api_version row') (lrr_kind row')
                    (lrr_name row') (lrr_resource_version row') (event_type_as_str event_type) (lrr_data row')
                    (indexed_db (upsert_resource_from_bytes scope (lrr_api_version row') (lrr_kind row')
                      (lrr_name row') (lrr_uid row') (lrr_resource_version row') (lrr_data row') db))))))"

definition apply_latest_patch_to_current_resource ::
  "apply_env \<Rightarrow> log_apply_resource_patch \<Rightarrow> int \<Rightarrow> string \<Rightarrow> json \<Rightarrow> string option
    \<Rightarrow> (json, db_error) rust_result"
where
  "apply_latest_patch_to_current_resource env patch current_rv current_uid current namespace =
    result_bind
      (map_err apply_precondition_error (validate_apply_preconditions
        (default_apply_preconditions\<lparr>ap_uid := lrp_precondition_uid patch,
           ap_resource_version := lrp_precondition_resource_version patch\<rparr>)
        (Some \<lparr>cr_uid = Some current_uid, cr_resource_version = current_rv\<rparr>))) (\<lambda>_.
     (let pod_delete_mark = is_pod_delete_mark_patch (lrp_api_version patch) (lrp_kind patch) (lrp_patch patch);
          effective_patch = (if pod_delete_mark then pod_delete_mark_patch_without_status (lrp_patch patch)
                             else lrp_patch patch);
          p1 = (case lrp_patch_kind patch of Merge \<Rightarrow> ae_merge_patch env current effective_patch);
          p2 = (if pod_delete_mark
                then mark_terminating_pod_unready_at p1
                  (unwrap_or (find_map id
                    [lrp_terminating_pod_unready_timestamp patch,
                     pod_delete_mark_transition_time (lrp_patch patch),
                     deterministic_terminating_unready_timestamp p1 (Some current)]) ''1970-01-01T00:00:00Z'')
                else p1)
      in result_bind
           (map_err (\<lambda>_. SqliteError ''metadata.uid is immutable'') (validate_metadata_uid_immutable p2 current))
           (\<lambda>_.
            (let p3 = ensure_metadata_identity p2 namespace (lrp_name patch);
                 p4 = preserve_server_metadata_fields_from_existing p3 current;
                 p5 = ensure_resource_type_meta p4 (lrp_api_version patch) (lrp_kind patch);
                 p6 = (if metadata_uid p5 = None
                       then jmodify ''metadata'' (jput ''uid'' (JString current_uid)) p5 else p5);
                 p7 = hydrate_watch_event_data p6 (lrp_api_version patch) (lrp_kind patch) namespace
                        (lrp_name patch) (lrp_resource_version patch)
             in Ok (ensure_pod_status_ip_arrays p7 (lrp_api_version patch) (lrp_kind patch))))))"

definition apply_patch_resource_latest ::
  "apply_env \<Rightarrow> log_apply_resource_patch \<Rightarrow> bool \<Rightarrow> cluster_db \<Rightarrow> staged_post_commit option tx_result"
where
  "apply_patch_resource_latest env patch emit_watch_events db =
    (let scope = resource_identity (lrp_api_version patch) (lrp_kind patch) (lrp_namespace patch)
     in case get_existing_resource scope (lrp_api_version patch) (lrp_kind patch) (lrp_name patch) db of
          None \<Rightarrow>
            if lrp_require_existing patch
            then Err (ApplyConflict ConflictNotFound ''Resource not found (404 Not Found)'')
            else Ok (None, db)
        | Some (current_rv, current_uid, current) \<Rightarrow>
            result_bind (apply_latest_patch_to_current_resource env patch current_rv current_uid current
                (scope_namespace scope)) (\<lambda>patched.
              emit_watch_from_bytes emit_watch_events scope (lrp_api_version patch) (lrp_kind patch)
                (lrp_name patch) (lrp_resource_version patch) ''MODIFIED'' patched
                (upsert_indexes_from_bytes env scope (lrp_api_version patch) (lrp_kind patch) (lrp_name patch)
                  patched
                  (upsert_resource_from_bytes scope (lrp_api_version patch) (lrp_kind patch) (lrp_name patch)
                    current_uid (lrp_resource_version patch) patched db))))"

definition apply_delete_resource ::
  "int \<Rightarrow> log_apply_resource_key \<Rightarrow> bool \<Rightarrow> cluster_db \<Rightarrow> staged_post_commit option tx_result"
where
  "apply_delete_resource rv key emit_watch_events db =
    (let scope = resource_identity (lrk_api_version key) (lrk_kind key) (lrk_namespace key)
     in case get_existing_resource scope (lrk_api_version key) (lrk_kind key) (lrk_name key) db of
          None \<Rightarrow> Ok (None, db)
        | Some (current_rv, current_uid, data) \<Rightarrow>
            result_bind
              (map_err apply_precondition_error
                (decide_resource_delete (if lrk_uid key = [] then None else Some (lrk_uid key))
                  (lrk_precondition_resource_version key)
                  (Some \<lparr>cr_uid = Some current_uid, cr_resource_version = current_rv\<rparr>))) (\<lambda>decision.
              case decision of
                DeleteNoOp \<Rightarrow> Ok (None, db)
              | Delete event_type \<Rightarrow>
                  emit_watch_from_bytes emit_watch_events scope (lrk_api_version key) (lrk_kind key)
                    (lrk_name key) rv (event_type_as_str event_type) data
                    (delete_indexes_from_identity scope (lrk_api_version key) (lrk_kind key) (lrk_name key)
                      (delete_resource_from_identity scope (lrk_api_version key) (lrk_kind key) (lrk_name key)
                        db))))"


section \<open>Namespaces\<close>

definition put_namespace_in_tx ::
  "log_apply_namespace_row \<Rightarrow> bool \<Rightarrow> cluster_db \<Rightarrow> staged_post_commit option tx_result"
where
  "put_namespace_in_tx row emit_watch_events db =
    (let existing = List.find (\<lambda>r. lnr_name r = lnr_name row) (cd_namespaces db)
     in if is_some_and existing (\<lambda>r. lnr_resource_version r = lnr_resource_version row \<and> lnr_data r = lnr_data row)
        then Ok (None, db)
        else
         (let db1 = (if existing = None then db\<lparr>cd_namespaces := cd_namespaces db @ [row]\<rparr>
                     else db\<lparr>cd_namespaces :=
                       map (\<lambda>r. if lnr_name r = lnr_name row then row else r) (cd_namespaces db)\<rparr>);
              event_type = (if existing \<noteq> None then ''MODIFIED'' else ''ADDED'')
          in if \<not> emit_watch_events then Ok (None, db1)
             else result_bind
               (insert_watch_event_in_conn
                 \<lparr>wi_event_id = None, wi_api_version = ''v1'', wi_kind = ''Namespace'', wi_namespace = None,
                  wi_name = lnr_name row, wi_resource_version = lnr_resource_version row,
                  wi_event_type = event_type, wi_data = lnr_data row, wi_canonicalize_object = True\<rparr> db1)
               (\<lambda>db2. Ok (Some (create_staged_post_commit ''v1'' ''Namespace'' None
                  (lnr_resource_version row)), db2))))"

definition delete_namespace_in_tx ::
  "int \<Rightarrow> string \<Rightarrow> bool \<Rightarrow> cluster_db \<Rightarrow> staged_post_commit option tx_result"
where
  "delete_namespace_in_tx rv name emit_watch_events db =
    (case List.find (\<lambda>r. lnr_name r = name) (cd_namespaces db) of
       None \<Rightarrow> Ok (None, db)
     | Some existing \<Rightarrow>
        (let db1 = db\<lparr>cd_namespaces := filter (\<lambda>r. lnr_name r \<noteq> name) (cd_namespaces db)\<rparr>
         in if \<not> emit_watch_events then Ok (None, db1)
            else result_bind
              (insert_watch_event_in_conn
                \<lparr>wi_event_id = None, wi_api_version = ''v1'', wi_kind = ''Namespace'', wi_namespace = None,
                 wi_name = name, wi_resource_version = rv, wi_event_type = ''DELETED'',
                 wi_data = lnr_data existing, wi_canonicalize_object = True\<rparr> db1)
              (\<lambda>db2. Ok (Some (create_staged_post_commit ''v1'' ''Namespace'' None rv), db2))))"

definition delete_namespace_contents_in_tx :: "string \<Rightarrow> cluster_db \<Rightarrow> cluster_db"
where
  "delete_namespace_contents_in_tx name db =
    (let doomed = filter (\<lambda>row. rt_namespace row = name \<and> rt_kind row \<noteq> ''Pod'') (cd_namespaced db);
         db1 = db\<lparr>cd_namespaced :=
           filter (\<lambda>row. \<not> (rt_namespace row = name \<and> rt_kind row \<noteq> ''Pod'')) (cd_namespaced db)\<rparr>
     in db1\<lparr>cd_index := foldl (\<lambda>ix row.
          delete_owner_refs (rt_api_version row) (rt_kind row) (rt_namespace row) (rt_name row)
            (delete_index_entries (rt_api_version row) (rt_kind row) (rt_namespace row) (rt_name row) ix))
          (cd_index db1) doomed\<rparr>)"


section \<open>Watch history\<close>

definition apply_put_watch_event :: "log_apply_watch_event_row \<Rightarrow> cluster_db \<Rightarrow> staged_post_commit tx_result"
where
  "apply_put_watch_event row db =
    result_bind
      (insert_watch_event_in_conn
        \<lparr>wi_event_id = lwe_event_id row, wi_api_version = lwe_api_version row, wi_kind = lwe_kind row,
         wi_namespace = lwe_namespace row, wi_name = lwe_name row,
         wi_resource_version = lwe_resource_version row, wi_event_type = lwe_event_type row,
         wi_data = lwe_data row, wi_canonicalize_object = False\<rparr> db)
      (\<lambda>db'. Ok (create_staged_post_commit (lwe_api_version row) (lwe_kind row) (lwe_namespace row)
         (lwe_resource_version row), db'))"

definition watch_events_min_scope_rows :: "int \<Rightarrow> int"
  where "watch_events_min_scope_rows max_rows = max 1 (min 1024 max_rows)"

definition watch_events_min_scope_rows_for_scope_count :: "int \<Rightarrow> int \<Rightarrow> int"
where
  "watch_events_min_scope_rows_for_scope_count max_rows scope_count =
    (if max_rows \<le> 0 \<or> scope_count \<le> 0 then 0
     else
      (let fair_share = max_rows div scope_count;
           dynamic_floor = (if fair_share = 0 \<and> scope_count \<le> 16 then 1 else fair_share)
       in min (watch_events_min_scope_rows max_rows) dynamic_floor))"

definition event_scope :: "watch_event_row \<Rightarrow> string \<times> string \<times> string"
where
  "event_scope row = (wer_api_version row, wer_kind row, namespace_key (wer_namespace row))"

definition watch_events_min_scope_rows_in_conn :: "cluster_db \<Rightarrow> int \<Rightarrow> int"
where
  "watch_events_min_scope_rows_in_conn db max_rows =
    watch_events_min_scope_rows_for_scope_count max_rows
      (int (length (remdups (map event_scope (cd_watch_events db)))))"

text \<open>\<^verbatim>\<open>WATCH_EVENTS_GC_CANDIDATES\<close>: rows at least \<^verbatim>\<open>max_rows\<close> behind the newest one that are not
  among the newest of their scope, oldest first. A negative \<^verbatim>\<open>LIMIT\<close> is no limit.\<close>

definition scope_rank :: "watch_event_row list \<Rightarrow> watch_event_row \<Rightarrow> int"
where
  "scope_rank rows row =
    int (length (filter (\<lambda>r. event_scope r = event_scope row \<and> wer_id r > wer_id row) rows)) + 1"

definition newest_event_id :: "watch_event_row list \<Rightarrow> int"
where
  "newest_event_id rows = (case map wer_id rows of [] \<Rightarrow> 0 | i # is \<Rightarrow> foldl max i is)"

definition sql_limit :: "int \<Rightarrow> 'a list \<Rightarrow> 'a list"
  where "sql_limit n rows = (if n < 0 then rows else take (nat n) rows)"

definition gc_candidates :: "watch_event_row list \<Rightarrow> int \<Rightarrow> int \<Rightarrow> int \<Rightarrow> watch_event_row list"
where
  "gc_candidates rows max_rows batch_cap min_scope_rows =
    sql_limit batch_cap (filter (\<lambda>row.
      wer_id row \<le> newest_event_id rows - max_rows \<and> scope_rank rows row > min_scope_rows) rows)"

text \<open>\<^verbatim>\<open>WATCH_REPLAY_FLOOR_UPSERT\<close>, for one removed row; the code first takes the maximum over the rows
  of a scope, which gives the same floor.\<close>

definition floor_of_scope :: "watch_event_row \<Rightarrow> watch_replay_floor_row \<Rightarrow> bool"
where
  "floor_of_scope row f \<longleftrightarrow> (wfr_api_version f, wfr_kind f, wfr_namespace_key f) = event_scope row"

definition watch_replay_floor_upsert ::
  "watch_replay_floor_row list \<Rightarrow> watch_event_row \<Rightarrow> watch_replay_floor_row list"
where
  "watch_replay_floor_upsert floors row =
    (if list_ex (floor_of_scope row) floors
     then map (\<lambda>f. if floor_of_scope row f
                   then f\<lparr>wfr_floor_rv := max (wfr_floor_rv f) (wer_resource_version row),
                          wfr_floor_event_id := max (wfr_floor_event_id f) (wer_id row),
                          wfr_floor_position_exact := True\<rparr>
                   else f) floors
     else floors @ [\<lparr>wfr_api_version = wer_api_version row, wfr_kind = wer_kind row,
                      wfr_namespace_key = namespace_key (wer_namespace row),
                      wfr_floor_rv = wer_resource_version row, wfr_floor_event_id = wer_id row,
                      wfr_floor_position_exact = True\<rparr>])"

definition gc_watch_events_in_tx :: "int \<Rightarrow> int \<Rightarrow> cluster_db \<Rightarrow> cluster_db"
where
  "gc_watch_events_in_tx max_rows batch_cap db =
    (let doomed = gc_candidates (cd_watch_events db) max_rows batch_cap
                    (watch_events_min_scope_rows_in_conn db max_rows)
     in db\<lparr>cd_floors := foldl watch_replay_floor_upsert (cd_floors db) doomed,
           cd_watch_events := filter (\<lambda>row. wer_id row \<notin> set (map wer_id doomed)) (cd_watch_events db)\<rparr>)"


section \<open>Ledger, watermarks, cleanup intents and metadata\<close>

definition put_applied_outbox_in_tx :: "log_apply_applied_outbox_row \<Rightarrow> cluster_db \<Rightarrow> cluster_db"
where
  "put_applied_outbox_in_tx row db =
    (let same_key = (\<lambda>r. lao_idempotency_key r = lao_idempotency_key row)
     in db\<lparr>cd_applied_outbox :=
          (if list_ex same_key (cd_applied_outbox db)
           then map (\<lambda>r. if same_key r then row else r) (cd_applied_outbox db)
           else cd_applied_outbox db @ [row])\<rparr>)"

definition delete_applied_outbox_in_tx :: "string \<Rightarrow> cluster_db \<Rightarrow> cluster_db"
where
  "delete_applied_outbox_in_tx key db =
    db\<lparr>cd_applied_outbox := filter (\<lambda>r. lao_idempotency_key r \<noteq> key) (cd_applied_outbox db)\<rparr>"

definition gc_applied_outbox_in_tx :: "int \<Rightarrow> cluster_db \<Rightarrow> cluster_db"
where
  "gc_applied_outbox_in_tx cutoff_ms db =
    db\<lparr>cd_applied_outbox := filter (\<lambda>r. \<not> lao_first_seen_ms r < cutoff_ms) (cd_applied_outbox db)\<rparr>"

definition same_stream :: "outbox_stream_watermark \<Rightarrow> outbox_stream_watermark \<Rightarrow> bool"
where
  "same_stream w w' \<longleftrightarrow> osw_client_id w = osw_client_id w' \<and> osw_stream_id w = osw_stream_id w'"

definition upsert_outbox_watermark_in_tx :: "outbox_stream_watermark \<Rightarrow> cluster_db \<Rightarrow> cluster_db"
where
  "upsert_outbox_watermark_in_tx w db =
    db\<lparr>cd_watermarks :=
      (if list_ex (same_stream w) (cd_watermarks db)
       then map (\<lambda>w'. if same_stream w w' then w'\<lparr>osw_stream_seq := osw_stream_seq w\<rparr> else w') (cd_watermarks db)
       else cd_watermarks db @ [w])\<rparr>"

definition same_intent :: "log_apply_pod_cleanup_intent_key \<Rightarrow> log_apply_pod_cleanup_intent_row \<Rightarrow> bool"
where
  "same_intent key row \<longleftrightarrow>
    lpr_node_name row = lpk_node_name key \<and> lpr_namespace row = lpk_namespace key
    \<and> lpr_pod_name row = lpk_pod_name key \<and> lpr_pod_uid row = lpk_pod_uid key \<and> lpr_reason row = lpk_reason key"

definition put_pod_cleanup_intent_in_tx :: "log_apply_pod_cleanup_intent_row \<Rightarrow> cluster_db \<Rightarrow> cluster_db"
where
  "put_pod_cleanup_intent_in_tx row db =
    (let same = same_intent \<lparr>lpk_node_name = lpr_node_name row, lpk_namespace = lpr_namespace row,
           lpk_pod_name = lpr_pod_name row, lpk_pod_uid = lpr_pod_uid row, lpk_reason = lpr_reason row\<rparr>
     in db\<lparr>cd_pod_cleanup_intents :=
          (if list_ex same (cd_pod_cleanup_intents db)
           then map (\<lambda>r. if same r then row else r) (cd_pod_cleanup_intents db)
           else cd_pod_cleanup_intents db @ [row])\<rparr>)"

definition delete_pod_cleanup_intent_in_tx :: "log_apply_pod_cleanup_intent_key \<Rightarrow> cluster_db \<Rightarrow> cluster_db"
where
  "delete_pod_cleanup_intent_in_tx key db =
    db\<lparr>cd_pod_cleanup_intents := filter (\<lambda>r. \<not> same_intent key r) (cd_pod_cleanup_intents db)\<rparr>"

definition delete_pod_cleanup_intents_for_node_in_tx :: "string \<Rightarrow> cluster_db \<Rightarrow> cluster_db"
where
  "delete_pod_cleanup_intents_for_node_in_tx node_name db =
    db\<lparr>cd_pod_cleanup_intents := filter (\<lambda>r. lpr_node_name r \<noteq> node_name) (cd_pod_cleanup_intents db)\<rparr>"

definition put_klights_meta_in_tx :: "string \<Rightarrow> string \<Rightarrow> cluster_db \<Rightarrow> cluster_db"
where
  "put_klights_meta_in_tx key v db =
    db\<lparr>cd_klights_meta := filter (\<lambda>e. fst e \<noteq> key) (cd_klights_meta db) @ [(key, v)]\<rparr>"


section \<open>Node subnets and dataplanes\<close>

definition put_node_subnet_in_tx :: "log_apply_node_subnet_row \<Rightarrow> cluster_db \<Rightarrow> (cluster_db, db_error) rust_result"
where
  "put_node_subnet_in_tx row db =
    (let rows = cd_node_subnets db;
         same_node = (\<lambda>r. lns_node_name r = lns_node_name row)
     in if list_ex (\<lambda>r. lns_subnet r = lns_subnet row \<and> \<not> same_node r) rows
        then Err (SqliteError ''UNIQUE constraint failed: node_subnets.subnet'')
        else Ok (db\<lparr>cd_node_subnets :=
               (if list_ex same_node rows then map (\<lambda>r. if same_node r then row else r) rows
                else rows @ [row])\<rparr>))"

definition subnet_base :: "cidr_block \<Rightarrow> nat \<Rightarrow> 32 word"
  where "subnet_base cluster i = cidr_network cluster + push_bit 8 (of_nat i)"

definition allocate_node_subnet_row ::
  "log_apply_node_subnet_allocation \<Rightarrow> cluster_db \<Rightarrow> (log_apply_node_subnet_row, db_error) rust_result"
where
  "allocate_node_subnet_row allocation db =
    (case node_name_parse (lna_node_name allocation) of
       Err _ \<Rightarrow> Err (OtherError (''Invalid node name '' @ lna_node_name allocation))
     | Ok node_name \<Rightarrow>
        (case parse_ipv4 (lna_node_ip allocation) of
           None \<Rightarrow> Err (OtherError (''Invalid node IP '' @ lna_node_ip allocation))
         | Some node_ip \<Rightarrow>
            (case cluster_cidr_parse (lna_cluster_cidr allocation) of
               Err _ \<Rightarrow> Err (OtherError (''Invalid cluster CIDR '' @ lna_cluster_cidr allocation))
             | Ok cluster \<Rightarrow>
                 if cb_prefix cluster > 24
                 then Err (OtherError (''cluster CIDR prefix must be <= /24 (got /'' @ show_nat (cb_prefix cluster) @ '')''))
                 else case List.find (\<lambda>r. lns_node_name r = node_name) (cd_node_subnets db) of
                   Some existing \<Rightarrow> Ok existing
                 | None \<Rightarrow>
                    (let allocated = map (\<lambda>r. of_nat (lns_subnet_base_int r)) (cd_node_subnets db);
                         subnet_count = 2 ^ (32 - cb_prefix cluster - 8)
                     in case List.find (\<lambda>i. \<not> List.member allocated (subnet_base cluster i)) [0..<subnet_count] of
                          None \<Rightarrow> Err (SqliteError ''Query returned no rows'')
                        | Some i \<Rightarrow>
                           (let base = subnet_base cluster i
                            in Ok \<lparr>lns_node_name = node_name,
                                   lns_subnet = cidr_text \<lparr>cb_base = and base (mask_for_prefix 24), cb_prefix = 24\<rparr>,
                                   lns_subnet_base_int = unat base, lns_gateway_ip = show_ipv4 base,
                                   lns_node_ip = show_ipv4 node_ip, lns_mode = ''root'',
                                   lns_hostport_range = None\<rparr>)))))"

definition allocate_node_subnet_in_tx ::
  "log_apply_node_subnet_allocation \<Rightarrow> cluster_db \<Rightarrow> (cluster_db, db_error) rust_result"
where
  "allocate_node_subnet_in_tx allocation db =
    result_bind (allocate_node_subnet_row allocation db) (\<lambda>row. put_node_subnet_in_tx row db)"

definition delete_node_subnet_in_tx :: "string \<Rightarrow> cluster_db \<Rightarrow> cluster_db"
where
  "delete_node_subnet_in_tx node_name db =
    db\<lparr>cd_node_subnets := filter (\<lambda>r. lns_node_name r \<noteq> node_name) (cd_node_subnets db)\<rparr>"

definition put_node_dataplane_in_tx :: "log_apply_node_dataplane_row \<Rightarrow> cluster_db \<Rightarrow> (cluster_db, db_error) rust_result"
where
  "put_node_dataplane_in_tx row db =
    (let rows = cd_node_dataplane db;
         same_node = (\<lambda>r. lnd_node_name r = lnd_node_name row)
     in if \<not> (lnd_mode row = ''root'' \<or> lnd_mode row = ''rootless'')
           \<or> \<not> (lnd_encryption row = ''enabled'' \<or> lnd_encryption row = ''disabled'')
        then Err (SqliteError ''CHECK constraint failed'')
        else Ok (db\<lparr>cd_node_dataplane :=
               (if list_ex same_node rows then map (\<lambda>r. if same_node r then row else r) rows
                else rows @ [row])\<rparr>))"

definition delete_node_dataplane_in_tx :: "string \<Rightarrow> cluster_db \<Rightarrow> cluster_db"
where
  "delete_node_dataplane_in_tx node_name db =
    db\<lparr>cd_node_dataplane := filter (\<lambda>r. lnd_node_name r \<noteq> node_name) (cd_node_dataplane db)\<rparr>"


section \<open>Applying one mutation\<close>

text \<open>The effects of a commit are the staged events in order; an operation adds the one it returns.\<close>

definition staged_effect ::
  "staged_post_commit list \<Rightarrow> staged_post_commit option tx_result \<Rightarrow> staged_post_commit list tx_result"
where
  "staged_effect effects r = result_bind r (\<lambda>(e, db). Ok (case e of None \<Rightarrow> effects | Some x \<Rightarrow> effects @ [x], db))"

definition no_effect ::
  "staged_post_commit list \<Rightarrow> (cluster_db, db_error) rust_result \<Rightarrow> staged_post_commit list tx_result"
  where "no_effect effects r = result_bind r (\<lambda>db. Ok (effects, db))"

fun apply_cluster_mutation ::
  "apply_env \<Rightarrow> int \<Rightarrow> bool \<Rightarrow> cluster_mutation \<Rightarrow> staged_post_commit list \<Rightarrow> cluster_db
    \<Rightarrow> staged_post_commit list tx_result"
where
  "apply_cluster_mutation env commit_rv emit (ResourceFamily m) effects db =
    (case m of
       RM_PutResource row \<Rightarrow>
         if lrr_resource_version row \<noteq> commit_rv
         then Err (OtherError ''resource row RV does not match commit RV'')
         else staged_effect effects (apply_put_resource env row emit db)
     | RM_PatchResourceLatest patch \<Rightarrow>
         if lrp_resource_version patch \<noteq> commit_rv
         then Err (OtherError ''resource patch RV does not match commit RV'')
         else staged_effect effects (apply_patch_resource_latest env patch emit db)
     | RM_DeleteResource key \<Rightarrow> staged_effect effects (apply_delete_resource commit_rv key emit db)
     | RM_FinalizeBoundPod _ \<Rightarrow>
         Err (OtherError ''bound Pod finalization was not resolved before state-machine apply''))"
| "apply_cluster_mutation env commit_rv emit (NamespaceFamily m) effects db =
    (case m of
       NM_PutNamespace row \<Rightarrow>
         if lnr_resource_version row \<noteq> commit_rv
         then Err (OtherError ''namespace row RV does not match commit RV'')
         else staged_effect effects (put_namespace_in_tx row emit db)
     | NM_DeleteNamespace name \<Rightarrow> staged_effect effects (delete_namespace_in_tx commit_rv name emit db)
     | NM_DeleteNamespaceContents name \<Rightarrow> no_effect effects (Ok (delete_namespace_contents_in_tx name db)))"
| "apply_cluster_mutation env commit_rv emit (WatchHistoryFamily m) effects db =
    (case m of
       WM_PutWatchEvent row \<Rightarrow>
         result_bind (apply_put_watch_event row db) (\<lambda>(e, db'). Ok (effects @ [e], db'))
     | WM_GcWatchEvents max_rows batch_cap \<Rightarrow> no_effect effects (Ok (gc_watch_events_in_tx max_rows batch_cap db)))"
| "apply_cluster_mutation env commit_rv emit (NetworkFamily m) effects db =
    (case m of
       NW_PutNodeSubnet row \<Rightarrow> no_effect effects (put_node_subnet_in_tx row db)
     | NW_AllocateNodeSubnet allocation \<Rightarrow> no_effect effects (allocate_node_subnet_in_tx allocation db)
     | NW_DeleteNodeSubnet node_name \<Rightarrow> no_effect effects (Ok (delete_node_subnet_in_tx node_name db))
     | NW_PutNodeDataplane row \<Rightarrow> no_effect effects (put_node_dataplane_in_tx row db)
     | NW_DeleteNodeDataplane node_name \<Rightarrow> no_effect effects (Ok (delete_node_dataplane_in_tx node_name db)))"
| "apply_cluster_mutation env commit_rv emit (OutboxLedgerFamily m) effects db =
    (case m of
       OL_PutAppliedOutbox row \<Rightarrow> no_effect effects (Ok (put_applied_outbox_in_tx row db))
     | OL_DeleteAppliedOutbox key \<Rightarrow> no_effect effects (Ok (delete_applied_outbox_in_tx key db))
     | OL_GcAppliedOutbox cutoff_ms _ \<Rightarrow> no_effect effects (Ok (gc_applied_outbox_in_tx cutoff_ms db)))"
| "apply_cluster_mutation env commit_rv emit (ClusterMetaFamily m) effects db =
    (case m of
       CM_AdvanceResourceVersion _ \<Rightarrow> Ok (effects, db)
     | CM_PutKlightsMeta key v \<Rightarrow> no_effect effects (Ok (put_klights_meta_in_tx key v db)))"
| "apply_cluster_mutation env commit_rv emit (PodCleanupFamily m) effects db =
    (case m of
       PC_PutPodCleanupIntent row \<Rightarrow>
         if lpr_resource_version row \<noteq> commit_rv
         then Err (OtherError ''pod cleanup intent RV does not match commit RV'')
         else no_effect effects (Ok (put_pod_cleanup_intent_in_tx row db))
     | PC_DeletePodCleanupIntent key \<Rightarrow> no_effect effects (Ok (delete_pod_cleanup_intent_in_tx key db))
     | PC_DeletePodCleanupIntentsForNode node_name \<Rightarrow>
         no_effect effects (Ok (delete_pod_cleanup_intents_for_node_in_tx node_name db)))"

end
