(* ===== verification/Live_Apply.thy ===== *)
theory Live_Apply
  imports Cluster_Tables
begin

text \<open>
  Applying a committed log entry to the cluster database in one transaction,
  \<^verbatim>\<open>klights-cluster-datastore/src/sqlite/live_apply/coordinator.rs\<close>: recognising redelivered entries,
  deciding the position in an outbox stream, resolving and stamping the mutations, applying them in
  order, and turning a conflict into a durable rejection.

  A function takes the tables and returns the new tables with its result, or an error. A savepoint is
  the tables before the attempt. The outcome of an error that leaves the transaction is a rollback to
  the tables the transaction began with (\<^verbatim>\<open>apply_committed\<close>).
\<close>

section \<open>Commits and outcomes\<close>

datatype pod_endpoint_effect = EndpointNotApplicable | EndpointChanged | EndpointUnchanged

record raft_log_apply_outcome =
  ro_committed_outcome :: committed_apply_outcome
  ro_returned_resource :: "resource option"
  ro_pod_endpoint_effect :: pod_endpoint_effect
  ro_pending :: "staged_post_commit list"

definition outcome_try_new ::
  "committed_apply_outcome \<Rightarrow> staged_post_commit list \<Rightarrow> pod_endpoint_effect \<Rightarrow> raft_log_apply_outcome"
where
  "outcome_try_new outcome pending effect =
    \<lparr>ro_committed_outcome = outcome,
     ro_returned_resource = (case outcome of Visible _ resource \<Rightarrow> resource | _ \<Rightarrow> None),
     ro_pod_endpoint_effect = effect, ro_pending = pending\<rparr>"

fun pod_status_row :: "log_apply_mutation \<Rightarrow> (string option \<times> string) option"
where
  "pod_status_row (LA_PutResource row) =
    (if lrr_api_version row = ''v1'' \<and> lrr_kind row = ''Pod'' \<and> lrr_status_only row
     then Some (lrr_namespace row, lrr_name row) else None)"
| "pod_status_row _ = None"

definition pod_status_target :: "log_apply_commit \<Rightarrow> (string option \<times> string) option"
  where "pod_status_target commit = find_map pod_status_row (lac_mutations commit)"

record apply_commit =
  ac_resource_version :: int
  ac_outbox_watermark :: "outbox_stream_watermark option"
  ac_mutations :: "log_apply_mutation list"
  ac_preserve_historical_bytes :: bool

definition live_commit_error_text :: "live_commit_rv_error \<Rightarrow> string"
where
  "live_commit_error_text e =
    ''live committed-apply template field '' @ lce_field e @ '' requires resourceVersion 0, got '' @ lce_actual e"

definition validate_template_in_tx :: "apply_env \<Rightarrow> log_apply_commit \<Rightarrow> (unit, db_error) rust_result"
where
  "validate_template_in_tx env commit =
    map_err (\<lambda>e. OtherError (live_commit_error_text e)) (validate_live_template (ae_json_text env) commit)"

definition from_live :: "apply_env \<Rightarrow> log_apply_commit \<Rightarrow> (apply_commit, db_error) rust_result"
where
  "from_live env commit =
    result_bind (validate_template_in_tx env commit) (\<lambda>_.
      Ok \<lparr>ac_resource_version = lac_resource_version commit, ac_outbox_watermark = lac_outbox_watermark commit,
          ac_mutations = lac_mutations commit, ac_preserve_historical_bytes = False\<rparr>)"

definition from_snapshot_restore :: "snapshot_restore_operation \<Rightarrow> apply_commit"
where
  "from_snapshot_restore operation =
    \<lparr>ac_resource_version = sro_resource_version operation,
     ac_outbox_watermark = sro_outbox_watermark operation,
     ac_mutations = sro_mutations operation, ac_preserve_historical_bytes = True\<rparr>"

definition pod_state_in_tx :: "(string option \<times> string) option \<Rightarrow> cluster_db \<Rightarrow> json option"
where
  "pod_state_in_tx target db =
    (case target of
       None \<Rightarrow> None
     | Some (namespace, name) \<Rightarrow>
         (case namespace of
            Some ns \<Rightarrow> map_option rt_data (List.find (row_has_key ''v1'' ''Pod'' ns name) (cd_namespaced db))
          | None \<Rightarrow> map_option rt_data (List.find (row_has_key ''v1'' ''Pod'' [] name) (cd_cluster db))))"

definition pod_endpoint_effect :: "(string option \<times> string) option \<Rightarrow> json option \<Rightarrow> json option \<Rightarrow> pod_endpoint_effect"
where
  "pod_endpoint_effect target before after =
    (if target = None then EndpointNotApplicable
     else if (case (before, after) of
                (Some b, Some a) \<Rightarrow> endpoint_state_differs_from (pod_endpoint_state_of b) (pod_endpoint_state_of a)
              | _ \<Rightarrow> False)
     then EndpointChanged else EndpointUnchanged)"


section \<open>Positions in an outbox stream\<close>

definition last_seq_in_tx :: "outbox_stream_watermark \<Rightarrow> cluster_db \<Rightarrow> int option"
where
  "last_seq_in_tx w db = map_option osw_stream_seq (List.find (same_stream w) (cd_watermarks db))"

definition outbox_watermark_decision_in_tx ::
  "outbox_stream_watermark option \<Rightarrow> cluster_db \<Rightarrow> (outbox_watermark_decision, db_error) rust_result"
where
  "outbox_watermark_decision_in_tx watermark db =
    map_err (\<lambda>_. OtherError ''outbox stream seq must be positive'')
      (case watermark of
         None \<Rightarrow> decide_outbox_watermark None None
       | Some w \<Rightarrow>
           result_bind (decide_outbox_watermark None (Some w)) (\<lambda>_.
             decide_outbox_watermark (last_seq_in_tx w db) (Some w)))"


section \<open>Resolving and stamping mutations\<close>

definition bound_pod_finalizable :: "log_apply_pod_actor_finalization \<Rightarrow> json \<Rightarrow> bool"
where
  "bound_pod_finalizable f data =
    (let assigned_node = (case str_at [''spec'', ''nodeName''] data of
           None \<Rightarrow> None | Some v \<Rightarrow> if v = [] then None else Some v);
         has_finalizers = is_some_and (Option.bind (pointer [''metadata'', ''finalizers''] data) as_array)
           (\<lambda>fs. fs \<noteq> []);
         terminating = is_some_and (str_at [''metadata'', ''deletionTimestamp''] data) (\<lambda>v. v \<noteq> [])
           \<or> (str_at [''status'', ''phase''] data = Some ''Failed''
              \<and> str_at [''status'', ''reason''] data = Some ''NodeLost'')
     in \<not> (assigned_node \<noteq> Some (laf_node_name f) \<or> has_finalizers \<or> \<not> terminating))"

fun resolve_bound_pod_finalization :: "cluster_db \<Rightarrow> int \<Rightarrow> log_apply_mutation \<Rightarrow> log_apply_mutation list"
where
  "resolve_bound_pod_finalization db rv (LA_FinalizeBoundPod f) =
    (case List.find (row_has_key ''v1'' ''Pod'' (laf_namespace f) (laf_name f)) (cd_namespaced db) of
       None \<Rightarrow> []
     | Some row \<Rightarrow>
         if rt_uid row \<noteq> laf_pod_uid f then []
         else if \<not> bound_pod_finalizable f (rt_data row) then []
         else
           [LA_PutWatchEvent
              \<lparr>lwe_event_id = None, lwe_api_version = ''v1'', lwe_kind = ''Pod'',
               lwe_namespace = Some (laf_namespace f), lwe_name = laf_name f, lwe_resource_version = rv,
               lwe_event_type = ''DELETED'',
               lwe_data = hydrate_watch_event_data (rt_data row) ''v1'' ''Pod'' (Some (laf_namespace f))
                 (laf_name f) rv\<rparr>,
            LA_DeleteResource
              \<lparr>lrk_api_version = ''v1'', lrk_kind = ''Pod'', lrk_namespace = Some (laf_namespace f),
               lrk_name = laf_name f, lrk_uid = rt_uid row,
               lrk_precondition_resource_version = Some (rt_resource_version row)\<rparr>])"
| "resolve_bound_pod_finalization db rv m = [m]"

definition resolve_bound_pod_finalizations_in_tx :: "cluster_db \<Rightarrow> apply_commit \<Rightarrow> apply_commit"
where
  "resolve_bound_pod_finalizations_in_tx db commit =
    commit\<lparr>ac_mutations :=
      concat (map (resolve_bound_pod_finalization db (ac_resource_version commit)) (ac_mutations commit))\<rparr>"

fun resolve_noop_mutations ::
  "apply_env \<Rightarrow> cluster_db \<Rightarrow> log_apply_mutation list \<Rightarrow> (log_apply_mutation list \<times> bool, db_error) rust_result"
where
  "resolve_noop_mutations env db [] = Ok ([], False)"
| "resolve_noop_mutations env db (m # ms) =
    (case m of
       LA_PutResource row \<Rightarrow>
         result_bind (resolve_noop_put_resource_in_tx env row db) (\<lambda>kept.
         result_bind (resolve_noop_mutations env db ms) (\<lambda>(resolved, removed).
           case kept of
             Some row' \<Rightarrow> Ok (LA_PutResource row' # resolved, removed)
           | None \<Rightarrow> Ok (resolved, True)))
     | _ \<Rightarrow>
         result_bind (resolve_noop_mutations env db ms) (\<lambda>(resolved, removed). Ok (m # resolved, removed)))"

definition resolve_noop_put_resources_in_tx ::
  "apply_env \<Rightarrow> cluster_db \<Rightarrow> apply_commit \<Rightarrow> (apply_commit, db_error) rust_result"
where
  "resolve_noop_put_resources_in_tx env db commit =
    (if ac_preserve_historical_bytes commit then Ok commit
     else result_bind (resolve_noop_mutations env db (ac_mutations commit)) (\<lambda>(resolved, removed_noop).
       Ok (commit\<lparr>ac_mutations := resolved,
                  ac_resource_version :=
                    (if removed_noop \<and> list_all is_put_applied_outbox resolved
                     then cd_resource_version db else ac_resource_version commit)\<rparr>)))"

definition is_ack :: "apply_env \<Rightarrow> string \<Rightarrow> bool"
where
  "is_ack env proto = (case ae_decode env proto of Ok (Ack _) \<Rightarrow> True | _ \<Rightarrow> False)"

fun stamp_mutation :: "apply_env \<Rightarrow> int \<Rightarrow> bool \<Rightarrow> log_apply_mutation \<Rightarrow> log_apply_mutation"
where
  "stamp_mutation env rv preserve (LA_PutResource row) =
    (let row1 = (if lrr_resource_version row = 0 then row\<lparr>lrr_resource_version := rv\<rparr> else row)
     in LA_PutResource
          (if lrr_resource_version row1 = rv \<and> \<not> preserve
           then row1\<lparr>lrr_data := hydrate_watch_event_data (lrr_data row1) (lrr_api_version row1) (lrr_kind row1)
                       (lrr_namespace row1) (lrr_name row1) rv\<rparr>
           else row1))"
| "stamp_mutation env rv preserve (LA_PatchResourceLatest patch) =
    LA_PatchResourceLatest (if lrp_resource_version patch = 0 then patch\<lparr>lrp_resource_version := rv\<rparr> else patch)"
| "stamp_mutation env rv preserve (LA_PutNamespace row) =
    (let row1 = (if lnr_resource_version row = 0 then row\<lparr>lnr_resource_version := rv\<rparr> else row)
     in LA_PutNamespace
          (if lnr_resource_version row1 = rv \<and> \<not> preserve
           then row1\<lparr>lnr_data := hydrate_watch_event_data (lnr_data row1) ''v1'' ''Namespace'' None (lnr_name row1) rv\<rparr>
           else row1))"
| "stamp_mutation env rv preserve (LA_PutWatchEvent row) =
    (let row1 = (if lwe_resource_version row = 0 then row\<lparr>lwe_resource_version := rv\<rparr> else row)
     in LA_PutWatchEvent
          (if lwe_resource_version row1 = rv \<and> \<not> preserve
           then row1\<lparr>lwe_data := hydrate_watch_event_data (lwe_data row1) (lwe_api_version row1) (lwe_kind row1)
                       (lwe_namespace row1) (lwe_name row1) rv\<rparr>
           else row1))"
| "stamp_mutation env rv preserve (LA_PutPodCleanupIntent row) =
    LA_PutPodCleanupIntent (if lpr_resource_version row = 0 then row\<lparr>lpr_resource_version := rv\<rparr> else row)"
| "stamp_mutation env rv preserve (LA_PutAppliedOutbox row) =
    (let row1 = (if lao_applied_rv row = None then row\<lparr>lao_applied_rv := Some rv\<rparr> else row)
     in LA_PutAppliedOutbox
          (if lao_result_proto row1 = [] \<or> is_ack env (lao_result_proto row1)
           then row1\<lparr>lao_result_proto := (case ae_encode env (Ack rv) of Ok bytes \<Rightarrow> bytes | Err _ \<Rightarrow> [])\<rparr>
           else row1))"
| "stamp_mutation env rv preserve (LA_AdvanceResourceVersion resource_version) =
    LA_AdvanceResourceVersion (max resource_version rv)"
| "stamp_mutation env rv preserve m = m"

definition stamp_provisional_resource_version_in_tx ::
  "apply_env \<Rightarrow> apply_commit \<Rightarrow> cluster_db \<Rightarrow> apply_commit \<times> cluster_db"
where
  "stamp_provisional_resource_version_in_tx env commit db =
    (let does_not_advance = (ac_mutations commit = [] \<or> list_all is_put_applied_outbox (ac_mutations commit));
         (rv, db') = (if ac_resource_version commit = 0 \<and> does_not_advance then (cd_resource_version db, db)
                      else if ac_resource_version commit = 0 then next_resource_version_in_tx db
                      else (ac_resource_version commit, db))
     in (commit\<lparr>ac_resource_version := rv,
                ac_mutations := map (stamp_mutation env rv (ac_preserve_historical_bytes commit))
                  (ac_mutations commit)\<rparr>, db'))"


section \<open>The resource a commit returns\<close>

datatype returned_resource_target =
    ReturnedResource string string "string option" string
  | ReturnedNamespace string

fun mutation_target :: "log_apply_mutation \<Rightarrow> returned_resource_target option"
where
  "mutation_target (LA_PutResource row) =
    Some (ReturnedResource (lrr_api_version row) (lrr_kind row) (lrr_namespace row) (lrr_name row))"
| "mutation_target (LA_PatchResourceLatest patch) =
    Some (ReturnedResource (lrp_api_version patch) (lrp_kind patch) (lrp_namespace patch) (lrp_name patch))"
| "mutation_target (LA_PutNamespace row) = Some (ReturnedNamespace (lnr_name row))"
| "mutation_target _ = None"

definition returned_resource_target :: "apply_commit \<Rightarrow> returned_resource_target option"
  where "returned_resource_target commit = find_map mutation_target (ac_mutations commit)"

definition resource_of_row :: "string option \<Rightarrow> resource_table_row \<Rightarrow> resource"
where
  "resource_of_row namespace row =
    \<lparr>r_id = rt_id row, r_api_version = rt_api_version row, r_kind = rt_kind row, r_namespace = namespace,
     r_name = rt_name row, r_uid = rt_uid row, r_resource_version = rt_resource_version row,
     r_data = rt_data row\<rparr>"

fun read_returned_resource_in_tx :: "cluster_db \<Rightarrow> returned_resource_target \<Rightarrow> resource option"
where
  "read_returned_resource_in_tx db (ReturnedResource api_version kind (Some namespace) name) =
    map_option (resource_of_row (Some namespace))
      (List.find (row_has_key api_version kind namespace name) (cd_namespaced db))"
| "read_returned_resource_in_tx db (ReturnedResource api_version kind None name) =
    map_option (resource_of_row None) (List.find (row_has_key api_version kind [] name) (cd_cluster db))"
| "read_returned_resource_in_tx db (ReturnedNamespace name) =
    map_option (\<lambda>row. \<lparr>r_id = 0, r_api_version = ''v1'', r_kind = ''Namespace'', r_namespace = None,
        r_name = lnr_name row, r_uid = lnr_uid row, r_resource_version = lnr_resource_version row,
        r_data = lnr_data row\<rparr>)
      (List.find (\<lambda>row. lnr_name row = name) (cd_namespaces db))"

fun delete_key :: "log_apply_mutation \<Rightarrow> log_apply_resource_key option"
where
  "delete_key (LA_DeleteResource key) = Some key"
| "delete_key _ = None"

fun deleted_event :: "int \<Rightarrow> log_apply_resource_key \<Rightarrow> log_apply_mutation \<Rightarrow> log_apply_watch_event_row option"
where
  "deleted_event rv key (LA_PutWatchEvent row) =
    (if lwe_event_type row = ''DELETED'' \<and> lwe_api_version row = lrk_api_version key
        \<and> lwe_kind row = lrk_kind key \<and> lwe_namespace row = lrk_namespace key \<and> lwe_name row = lrk_name key
        \<and> lwe_resource_version row = rv
     then Some row else None)"
| "deleted_event rv key _ = None"

definition deleted_resource_from_stamped_commit :: "apply_commit \<Rightarrow> resource option"
where
  "deleted_resource_from_stamped_commit commit =
    Option.bind (find_map delete_key (ac_mutations commit)) (\<lambda>key.
    map_option (\<lambda>row.
      \<lparr>r_id = 0, r_api_version = lwe_api_version row, r_kind = lwe_kind row, r_namespace = lwe_namespace row,
       r_name = lwe_name row, r_uid = uid_from_data (lwe_data row),
       r_resource_version = unwrap_or (lrk_precondition_resource_version key) (lwe_resource_version row),
       r_data = clear_metadata_resource_version (lwe_data row)\<rparr>)
     (find_map (deleted_event (ac_resource_version commit) key) (ac_mutations commit)))"


section \<open>Applying a commit\<close>

fun apply_mutations ::
  "apply_env \<Rightarrow> int \<Rightarrow> bool \<Rightarrow> log_apply_mutation list \<Rightarrow> staged_post_commit list \<Rightarrow> cluster_db
    \<Rightarrow> staged_post_commit list tx_result"
where
  "apply_mutations env rv emit [] effects db = Ok (effects, db)"
| "apply_mutations env rv emit (m # ms) effects db =
    result_bind (apply_cluster_mutation env rv emit (cluster_mutation_of m) effects db)
      (\<lambda>(effects', db'). apply_mutations env rv emit ms effects' db')"

fun is_put_watch_event :: "log_apply_mutation \<Rightarrow> bool"
where
  "is_put_watch_event (LA_PutWatchEvent _) = True"
| "is_put_watch_event _ = False"

definition upsert_watermark_option :: "outbox_stream_watermark option \<Rightarrow> cluster_db \<Rightarrow> cluster_db"
where
  "upsert_watermark_option watermark db =
    (case watermark of None \<Rightarrow> db | Some w \<Rightarrow> upsert_outbox_watermark_in_tx w db)"

text \<open>A commit whose resourceVersion is assigned, given the decision on its stream position.\<close>

definition apply_stamped_commit ::
  "apply_env \<Rightarrow> outbox_watermark_decision \<Rightarrow> bool \<Rightarrow> apply_commit \<Rightarrow> cluster_db
    \<Rightarrow> (int \<times> staged_post_commit list \<times> resource option) tx_result"
where
  "apply_stamped_commit env decision emit commit db =
    (let applied_rv = ac_resource_version commit;
         watermark = ac_outbox_watermark commit
     in if watermark \<noteq> None \<and> ac_mutations commit = []
        then Ok ((applied_rv, [], None),
          advance_metadata_rv_to_at_least_tx applied_rv (upsert_watermark_option watermark db))
        else case decision of
          DuplicateEntry \<Rightarrow> Ok ((applied_rv, [], None), advance_metadata_rv_to_at_least_tx applied_rv db)
        | GapEntry last_seq next_seq \<Rightarrow>
            Err (OtherError (''outbox stream gap for seq '' @ show_int next_seq
              @ '': last committed seq is '' @ show_int last_seq))
        | ApplyEntry \<Rightarrow>
            result_bind (apply_mutations env applied_rv emit (ac_mutations commit) [] db)
              (\<lambda>(effects, db2).
               (let applied = (case deleted_resource_from_stamped_commit commit of
                      Some resource \<Rightarrow> Some resource
                    | None \<Rightarrow> Option.bind (returned_resource_target commit) (read_returned_resource_in_tx db2))
                in Ok ((applied_rv, effects, applied),
                     advance_metadata_rv_to_at_least_tx applied_rv (upsert_watermark_option watermark db2)))))"

definition apply_commit_in_tx_with_watch_events ::
  "apply_env \<Rightarrow> apply_commit \<Rightarrow> bool \<Rightarrow> cluster_db
    \<Rightarrow> (int \<times> staged_post_commit list \<times> resource option) tx_result"
where
  "apply_commit_in_tx_with_watch_events env commit0 emit_watch_events db =
    (if ac_resource_version commit0 < 0
     then Err (OtherError ''log_apply commit resourceVersion must be non-negative'')
     else
      (let commit1 = resolve_bound_pod_finalizations_in_tx db commit0;
           emit = (emit_watch_events \<and> \<not> list_ex is_put_watch_event (ac_mutations commit1))
       in result_bind (outbox_watermark_decision_in_tx (ac_outbox_watermark commit1) db) (\<lambda>decision.
          result_bind (if decision = ApplyEntry then resolve_noop_put_resources_in_tx env db commit1
                       else Ok commit1) (\<lambda>commit2.
            (let (commit, db1) = stamp_provisional_resource_version_in_tx env commit2 db
             in apply_stamped_commit env decision emit commit db1)))))"

definition apply_commit_in_tx_returning_rv_and_mutation ::
  "apply_env \<Rightarrow> log_apply_commit \<Rightarrow> cluster_db \<Rightarrow> (int \<times> staged_post_commit list \<times> resource option) tx_result"
where
  "apply_commit_in_tx_returning_rv_and_mutation env commit db =
    result_bind (from_live env commit) (\<lambda>live.
      apply_commit_in_tx_with_watch_events env live
        (\<not> list_ex is_put_watch_event (lac_mutations commit)) db)"

definition apply_snapshot_restore_operation_in_tx ::
  "apply_env \<Rightarrow> snapshot_restore_operation \<Rightarrow> bool \<Rightarrow> cluster_db
    \<Rightarrow> (int \<times> staged_post_commit list \<times> resource option) tx_result"
where
  "apply_snapshot_restore_operation_in_tx env operation emit_watch_events db =
    apply_commit_in_tx_with_watch_events env (from_snapshot_restore operation) emit_watch_events db"


section \<open>Redelivery and rejection\<close>

fun outbox_row :: "log_apply_mutation \<Rightarrow> log_apply_applied_outbox_row option"
where
  "outbox_row (LA_PutAppliedOutbox row) = Some row"
| "outbox_row _ = None"

definition applied_outbox_record_in_tx :: "string \<Rightarrow> cluster_db \<Rightarrow> log_apply_applied_outbox_row option"
where
  "applied_outbox_record_in_tx key db =
    List.find (\<lambda>row. lao_idempotency_key row = key) (cd_applied_outbox db)"

fun resource_identity_error_text :: "resource_identity_error \<Rightarrow> string"
where
  "resource_identity_error_text ResourceMissingApiVersion = ''resource missing apiVersion''"
| "resource_identity_error_text ResourceMissingKind = ''resource missing kind''"
| "resource_identity_error_text ResourceMissingMetadataName = ''resource missing metadata.name''"
| "resource_identity_error_text WatchEventMissingApiVersion = ''watch event missing apiVersion''"
| "resource_identity_error_text WatchEventMissingKind = ''watch event missing kind''"
| "resource_identity_error_text WatchEventMissingMetadataName = ''watch event missing metadata.name''"
| "resource_identity_error_text MetadataUidRequired = ''metadata.uid is required for UID-qualified write''"

definition receipt_from_applied_outbox ::
  "apply_env \<Rightarrow> log_apply_applied_outbox_row
    \<Rightarrow> (int option \<times> string option \<times> resource option, db_error) rust_result"
where
  "receipt_from_applied_outbox env row =
    (case ae_decode env (lao_result_proto row) of
       Ok (ErrorResponse message) \<Rightarrow> Ok (lao_applied_rv row, Some message, None)
     | Ok (ResourceResponse rv data) \<Rightarrow>
         (case try_from_data data of
            Err e \<Rightarrow> Err (OtherError (resource_identity_error_text e))
          | Ok resource \<Rightarrow> Ok (lao_applied_rv row, None, Some (resource\<lparr>r_resource_version := rv\<rparr>)))
     | Ok _ \<Rightarrow> Ok (lao_applied_rv row, None, None)
     | Err err \<Rightarrow> Err (OtherError (''failed to decode applied_outbox result: '' @ err)))"

fun conflict_code_text :: "apply_conflict_code \<Rightarrow> string"
where
  "conflict_code_text ConflictNotFound = ''NotFound''"
| "conflict_code_text ConflictAlreadyExists = ''AlreadyExists''"
| "conflict_code_text ConflictUidPrecondition = ''UidPrecondition''"
| "conflict_code_text ConflictResourceVersionPrecondition = ''ResourceVersionPrecondition''"

definition conflict_text :: "apply_conflict_code \<Rightarrow> string \<Rightarrow> string"
  where "conflict_text code message = conflict_code_text code @ '': '' @ message"

fun committed_rejection_from_conflict :: "apply_conflict_code \<Rightarrow> string \<Rightarrow> committed_apply_rejection"
where
  "committed_rejection_from_conflict ConflictNotFound message = CR_NotFound message"
| "committed_rejection_from_conflict ConflictAlreadyExists message = CR_AlreadyExists message"
| "committed_rejection_from_conflict ConflictUidPrecondition message = CR_UidConflict message"
| "committed_rejection_from_conflict ConflictResourceVersionPrecondition message = CR_ResourceVersionConflict message"

definition committed_rejection_from_message :: "string \<Rightarrow> committed_apply_rejection"
where
  "committed_rejection_from_message message =
    (if str_contains ''resourceVersion'' message then CR_ResourceVersionConflict message
     else if str_contains ''UID'' message \<or> str_contains ''uid'' message then CR_UidConflict message
     else if str_contains ''already exists'' message then CR_AlreadyExists message
     else if str_contains ''not found'' message then CR_NotFound message
     else CR_InvalidCommit message)"

text \<open>\<^verbatim>\<open>APPLIED_OUTBOX_MAX_STATUS_STAMP_FOR_SUBJECT\<close>: the greatest stamp of the rows of a subject.\<close>

definition max_status_stamp :: "string \<Rightarrow> cluster_db \<Rightarrow> int option"
where
  "max_status_stamp subject db =
    (case List.map_filter lao_status_stamp (filter (\<lambda>row. lao_subject_key row = subject) (cd_applied_outbox db)) of
       [] \<Rightarrow> None | stamp # stamps \<Rightarrow> Some (foldl max stamp stamps))"

text \<open>The receipt of a Pod metadata operation replaces the one of its ledger row.\<close>

definition update_metadata_receipt ::
  "apply_env \<Rightarrow> log_apply_applied_outbox_row option \<Rightarrow> int \<Rightarrow> resource option \<Rightarrow> cluster_db
    \<Rightarrow> (cluster_db, db_error) rust_result"
where
  "update_metadata_receipt env template rv applied db =
    (case (template, applied) of
       (Some t, Some resource) \<Rightarrow>
         if lao_operation t = ''PodMetadata'' \<and> r_api_version resource = ''v1'' \<and> r_kind resource = ''Pod''
         then (case ae_encode env (ResourceResponse (r_resource_version resource) (r_data resource)) of
                 Err e \<Rightarrow> Err (OtherError (''failed to encode durable actor-finalization receipt: '' @ e))
               | Ok proto \<Rightarrow>
                   if \<not> list_ex (\<lambda>row. lao_idempotency_key row = lao_idempotency_key t) (cd_applied_outbox db)
                   then Err (OtherError ''committed actor-finalization receipt had no applied_outbox ledger row'')
                   else Ok (db\<lparr>cd_applied_outbox := map (\<lambda>row.
                          if lao_idempotency_key row = lao_idempotency_key t
                          then row\<lparr>lao_subject_key := lao_subject_key t, lao_applied_rv := Some rv,
                                   lao_result_proto := proto, lao_status_stamp := lao_status_stamp t\<rparr>
                          else row) (cd_applied_outbox db)\<rparr>))
         else Ok db
     | _ \<Rightarrow> Ok db)"

definition reject_in_tx ::
  "apply_env \<Rightarrow> outbox_stream_watermark option \<Rightarrow> log_apply_applied_outbox_row option \<Rightarrow> string
    \<Rightarrow> cluster_db \<Rightarrow> cluster_db"
where
  "reject_in_tx env watermark template message db =
    (let db1 = upsert_watermark_option watermark db
     in case template of
          None \<Rightarrow> db1
        | Some row \<Rightarrow> put_applied_outbox_in_tx
            (row\<lparr>lao_applied_rv := None,
                 lao_result_proto := (case ae_encode env (ErrorResponse message) of Ok b \<Rightarrow> b | Err _ \<Rightarrow> [])\<rparr>) db1)"

text \<open>The attempt behind the savepoint: success, a conflict that is recorded, or an error.\<close>

definition attempt_commit ::
  "apply_env \<Rightarrow> log_apply_commit \<Rightarrow> log_apply_applied_outbox_row option \<Rightarrow> (string option \<times> string) option
    \<Rightarrow> json option \<Rightarrow> cluster_db \<Rightarrow> raft_log_apply_outcome tx_result"
where
  "attempt_commit env commit outbox_template status_target pod_before db =
    (case apply_commit_in_tx_returning_rv_and_mutation env commit db of
       Ok ((rv, pending, applied), db1) \<Rightarrow>
         result_bind (update_metadata_receipt env outbox_template rv applied db1) (\<lambda>db2.
          (let visible_change = (cd_resource_version db2 > cd_resource_version db
                 \<or> cd_event_sequence db2 > cd_event_sequence db);
               outcome = (if visible_change \<or> applied \<noteq> None then Visible rv applied
                          else NoPublicChange rv LedgerOnly)
           in Ok (outcome_try_new outcome pending
                (pod_endpoint_effect status_target pod_before (pod_state_in_tx status_target db2)), db2)))
     | Err (ApplyConflict code message) \<Rightarrow>
         Ok (outcome_try_new (RejectedCommit (committed_rejection_from_conflict code (conflict_text code message))) []
               (pod_endpoint_effect status_target pod_before pod_before),
             reject_in_tx env (lac_outbox_watermark commit) outbox_template (conflict_text code message) db)
     | Err e \<Rightarrow> Err e)"

definition ledger_only_reason :: "int option \<Rightarrow> int \<Rightarrow> (no_public_change_reason, db_error) rust_result"
where
  "ledger_only_reason last_applied_stamp incoming_stamp =
    (if is_some_and last_applied_stamp (\<lambda>last_stamp. last_stamp > incoming_stamp) then Ok StaleStatusStamp
     else if last_applied_stamp = Some incoming_stamp then Ok EqualStatusStamp
     else Err (OtherError ''status-stamp decision recorded ledger-only for a newer stamp''))"

definition apply_commit_in_tx_for_raft ::
  "apply_env \<Rightarrow> log_apply_commit \<Rightarrow> cluster_db \<Rightarrow> raft_log_apply_outcome tx_result"
where
  "apply_commit_in_tx_for_raft env commit db =
    (let status_target = pod_status_target commit;
         pod_before = pod_state_in_tx status_target db;
         unchanged = pod_endpoint_effect status_target pod_before pod_before;
         outbox_template = find_map outbox_row (lac_mutations commit)
     in result_bind (validate_template_in_tx env commit) (\<lambda>_.
        if lac_mutations commit = [] \<and> lac_outbox_watermark commit = None
        then Ok (outcome_try_new (NoPublicChange (cd_resource_version db) LedgerOnly) [] EndpointNotApplicable, db)
        else case Option.bind outbox_template (\<lambda>t. applied_outbox_record_in_tx (lao_idempotency_key t) db) of
          Some existing \<Rightarrow>
            result_bind (receipt_from_applied_outbox env existing) (\<lambda>(applied_rv, error_message, returned).
              case error_message of
                Some message \<Rightarrow>
                  Ok (outcome_try_new (RejectedCommit (committed_rejection_from_message message)) [] unchanged, db)
              | None \<Rightarrow>
                 (case applied_rv of
                    None \<Rightarrow> Err (OtherError ''duplicate applied_outbox row has no applied resourceVersion'')
                  | Some rv \<Rightarrow>
                      Ok ((outcome_try_new (NoPublicChange rv DuplicateIdempotencyKey) [] unchanged)
                            \<lparr>ro_returned_resource := returned\<rparr>, db)))
        | None \<Rightarrow>
          result_bind (outbox_watermark_decision_in_tx (lac_outbox_watermark commit) db) (\<lambda>decision.
            if decision = DuplicateEntry
            then Ok (outcome_try_new (NoPublicChange (cd_resource_version db) DuplicateWatermark) [] unchanged, db)
            else
             (case stamped_pod_status_subject_and_stamp commit of
                Some (subject_key, incoming_stamp) \<Rightarrow>
                  if decide_status_stamp (max_status_stamp subject_key db) (Some incoming_stamp) = RecordLedgerOnly
                  then
                    result_bind (from_live env (commit_with_outbox_rows_only commit)) (\<lambda>outbox_commit.
                    result_bind (apply_commit_in_tx_with_watch_events env
                        (outbox_commit\<lparr>ac_resource_version := cd_resource_version db\<rparr>) True db)
                      (\<lambda>((applied_rv, pending, _), db').
                        result_bind (ledger_only_reason (max_status_stamp subject_key db) incoming_stamp)
                          (\<lambda>reason. Ok (outcome_try_new (NoPublicChange applied_rv reason) pending unchanged, db'))))
                  else attempt_commit env commit outbox_template status_target pod_before db
              | None \<Rightarrow> attempt_commit env commit outbox_template status_target pod_before db))))"

text \<open>\<^verbatim>\<open>apply_committed_with_pending\<close>: the transaction is committed if the function returns, otherwise it
  is rolled back.\<close>

definition apply_committed ::
  "apply_env \<Rightarrow> log_apply_commit \<Rightarrow> cluster_db \<Rightarrow> (raft_log_apply_outcome, db_error) rust_result \<times> cluster_db"
where
  "apply_committed env commit db =
    (case apply_commit_in_tx_for_raft env commit db of
       Ok (outcome, db') \<Rightarrow> (Ok outcome, db')
     | Err e \<Rightarrow> (Err e, db))"

end
