(* ===== verification/Apply_Steps.thy ===== *)
theory Apply_Steps
  imports Live_Apply
begin

text \<open>
  What a mutation of a committed entry does to the tables, as a sequence of elementary table steps.
  Every operation of \<^verbatim>\<open>live_apply/state/\<close> is such a sequence
  (\<^verbatim>\<open>apply_mutations_steps\<close>), so a property that each elementary step keeps is kept by every commit.
  The theory also shows that behind an exact compare-and-swap the branches that normalise a stale
  write do not run.
\<close>

section \<open>Normalisation behind an exact compare-and-swap\<close>

text \<open>What normalisation amounts to when the preconditions of the row hold of the stored object.\<close>

definition fresh_status_row ::
  "apply_env \<Rightarrow> log_apply_resource_row \<Rightarrow> string \<Rightarrow> json \<Rightarrow> log_apply_resource_row"
where
  "fresh_status_row env row current_uid live =
    row\<lparr>lrr_uid := current_uid,
        lrr_data := ensure_pod_status_ip_arrays
          (hydrate_watch_event_data
            (jput ''status''
              (merge_status_for_apply (ae_rfc3339 env) (lrr_api_version row) (lrr_kind row) live
                (unwrap_or (jget ''status'' (lrr_data row)) (JObject [])) Fresh FromReplicatedApply) live)
            (lrr_api_version row) (lrr_kind row) (lrr_namespace row) (lrr_name row) (lrr_resource_version row))
          (lrr_api_version row) (lrr_kind row)\<rparr>"

definition keep_server_metadata :: "log_apply_resource_row \<Rightarrow> string \<Rightarrow> json \<Rightarrow> log_apply_resource_row"
where
  "keep_server_metadata row current_uid stored =
    (if incoming_uid row \<noteq> Some current_uid then row
     else
      (let data = preserve_server_metadata_fields_from_existing (lrr_data row) stored
       in row\<lparr>lrr_data :=
            (if lrr_api_version row = ''v1'' \<and> lrr_kind row = ''Pod'' \<and> deletion_requested stored
             then mark_terminating_pod_unready_at data
               (unwrap_or (deterministic_terminating_unready_timestamp data (Some stored)) ''1970-01-01T00:00:00Z'')
             else data)\<rparr>))"

definition normalize_current ::
  "apply_env \<Rightarrow> log_apply_resource_row \<Rightarrow> existing_resource_row option
    \<Rightarrow> (log_apply_resource_row, db_error) rust_result"
where
  "normalize_current env row existing =
    (case existing of
       None \<Rightarrow> Ok row
     | Some (current_rv, current_uid, stored) \<Rightarrow>
         if lrr_status_only row \<and> \<not> is_object stored
         then Err (OtherError ''status-only log_apply target is not a JSON object'')
         else Ok (keep_server_metadata
           (if lrr_status_only row then fresh_status_row env row current_uid stored else row) current_uid stored))"

lemma validated_rv:
  assumes "validate_put_resource_apply_preconditions row (Some (rv, uid, data)) = Ok u"
    and "lrr_precondition_resource_version row = Some expected"
  shows "expected = rv"
  using assms unfolding validate_put_resource_apply_preconditions_def
  by (auto simp: validate_Ok_iff map_err_Ok_iff cas_admits_def)

definition exact_cas :: "log_apply_resource_row \<Rightarrow> int \<Rightarrow> bool"
where
  "exact_cas row rv \<longleftrightarrow> lrr_precondition_resource_version row \<in> {None, Some rv}"

lemma merge_status_exact:
  assumes "exact_cas row rv"
  shows "merge_status_only_row_with_existing env row (Some (rv, uid, stored)) =
    (if lrr_status_only row \<and> \<not> is_object stored
     then Err (OtherError ''status-only log_apply target is not a JSON object'')
     else Ok (if lrr_status_only row then fresh_status_row env row uid stored else row))"
  using assms
  by (cases row) (auto simp: exact_cas_def merge_status_only_row_with_existing_def fresh_status_row_def Let_def)

lemma preserve_newer_exact:
  "exact_cas row rv \<Longrightarrow> preserve_newer_same_uid_row_on_stale_committed_put row (Some (rv, uid, stored)) = row"
  by (auto simp: exact_cas_def preserve_newer_same_uid_row_on_stale_committed_put_def)

lemma preserve_metadata_exact:
  "exact_cas row rv \<Longrightarrow>
    preserve_same_uid_server_metadata_from_existing row (Some (rv, uid, stored)) = keep_server_metadata row uid stored"
  by (auto simp: exact_cas_def preserve_same_uid_server_metadata_from_existing_def keep_server_metadata_def Let_def)

lemma exact_cas_fresh_status [simp]: "exact_cas (fresh_status_row env row uid stored) rv = exact_cas row rv"
  by (simp add: exact_cas_def fresh_status_row_def)

lemma normalize_exact:
  assumes valid: "validate_put_resource_apply_preconditions row existing = Ok u"
  shows "normalize_committed_resource_for_apply env row existing = normalize_current env row existing"
proof (cases existing)
  case None
  then show ?thesis
    by (simp add: normalize_committed_resource_for_apply_def normalize_current_def
        merge_status_only_row_with_existing_def preserve_newer_same_uid_row_on_stale_committed_put_def
        preserve_same_uid_server_metadata_from_existing_def split: option.split)
next
  case (Some current)
  obtain rv uid stored where current: "existing = Some (rv, uid, stored)"
    using Some by (cases current) auto
  have exact: "exact_cas row rv"
    using validated_rv valid unfolding current exact_cas_def
    by (cases "lrr_precondition_resource_version row") auto
  show ?thesis
    unfolding current normalize_committed_resource_for_apply_def normalize_current_def merge_status_exact [OF exact]
    by (simp add: exact preserve_newer_exact preserve_metadata_exact)
qed


section \<open>Elementary table steps\<close>

lemma result_bind_OkE:
  assumes "result_bind r f = Ok b"
  obtains a where "r = Ok a" and "f a = Ok b"
  using assms by (cases r) auto

fun named_scope :: "resource_scope \<Rightarrow> bool"
where
  "named_scope (NamespacedRow namespace) \<longleftrightarrow> namespace \<noteq> []"
| "named_scope ClusterRow \<longleftrightarrow> True"

text \<open>\<^verbatim>\<open>table_step env rv db db'\<close>: one step of an entry that is applied under resourceVersion \<^verbatim>\<open>rv\<close>.\<close>

inductive table_step :: "apply_env \<Rightarrow> int \<Rightarrow> cluster_db \<Rightarrow> cluster_db \<Rightarrow> bool"
  for env :: apply_env and rv :: int
where
  store_step: "well_stamped rv data \<Longrightarrow> named_scope scope \<Longrightarrow>
    table_step env rv db (upsert_indexes_from_bytes env scope a k n data
      (upsert_resource_from_bytes scope a k n uid rv data db))"
| reindex_step: "get_existing_resource scope a k n db = Some (rv', uid, data) \<Longrightarrow> named_scope scope \<Longrightarrow>
    table_step env rv db (upsert_indexes_from_bytes env scope a k n data db)"
| unstore_step: "named_scope scope \<Longrightarrow>
    table_step env rv db (delete_indexes_from_identity scope a k n (delete_resource_from_identity scope a k n db))"
| event_step: "insert_watch_event_in_conn e db = Ok db' \<Longrightarrow> wi_resource_version e = rv \<Longrightarrow>
    wi_event_id e = None \<Longrightarrow> table_step env rv db db'"
| namespaces_step: "(\<And>r. r \<in> set rows \<Longrightarrow>
      r \<in> set (cd_namespaces db) \<or> lnr_resource_version r = rv \<and> well_stamped rv (lnr_data r)) \<Longrightarrow>
    table_step env rv db (db\<lparr>cd_namespaces := rows\<rparr>)"
| contents_step: "table_step env rv db (delete_namespace_contents_in_tx name db)"
| gc_step: "table_step env rv db (gc_watch_events_in_tx max_rows batch_cap db)"
| ledger_step: "table_step env rv db (db\<lparr>cd_applied_outbox := ledger\<rparr>)"
| intents_step: "table_step env rv db (db\<lparr>cd_pod_cleanup_intents := intents\<rparr>)"
| meta_step: "table_step env rv db (db\<lparr>cd_klights_meta := meta\<rparr>)"
| subnets_step: "table_step env rv db (db\<lparr>cd_node_subnets := subnets\<rparr>)"
| dataplane_step: "table_step env rv db (db\<lparr>cd_node_dataplane := dataplane\<rparr>)"

abbreviation table_steps :: "apply_env \<Rightarrow> int \<Rightarrow> cluster_db \<Rightarrow> cluster_db \<Rightarrow> bool"
  where "table_steps env rv \<equiv> (table_step env rv)\<^sup>*\<^sup>*"

text \<open>What a mutation must be for its steps to be those: no empty namespace, no event id of
  its own (only snapshots carry those), and the resourceVersion of the entry in every document.\<close>

fun live_shaped :: "log_apply_mutation \<Rightarrow> bool"
where
  "live_shaped (LA_PutResource row) \<longleftrightarrow> lrr_namespace row \<noteq> Some []"
| "live_shaped (LA_PatchResourceLatest patch) \<longleftrightarrow> lrp_namespace patch \<noteq> Some []"
| "live_shaped (LA_DeleteResource key) \<longleftrightarrow> lrk_namespace key \<noteq> Some []"
| "live_shaped (LA_FinalizeBoundPod f) \<longleftrightarrow> laf_namespace f \<noteq> []"
| "live_shaped (LA_PutWatchEvent row) \<longleftrightarrow> lwe_event_id row = None"
| "live_shaped _ \<longleftrightarrow> True"

fun stamped :: "int \<Rightarrow> log_apply_mutation \<Rightarrow> bool"
where
  "stamped rv (LA_PutResource row) \<longleftrightarrow> lrr_resource_version row = rv \<and> well_stamped rv (lrr_data row)"
| "stamped rv (LA_PutNamespace row) \<longleftrightarrow> lnr_resource_version row = rv \<and> well_stamped rv (lnr_data row)"
| "stamped rv (LA_PutWatchEvent row) \<longleftrightarrow> lwe_resource_version row = rv"
| "stamped rv _ \<longleftrightarrow> True"

lemma named_resource_identity:
  "namespace \<noteq> Some [] \<Longrightarrow> named_scope (resource_identity a k namespace)"
  by (cases namespace) (simp_all add: resource_identity_def)

lemma assigned_event_step:
  assumes "insert_watch_event_in_conn
    \<lparr>wi_event_id = None, wi_api_version = a, wi_kind = k, wi_namespace = ns, wi_name = n,
     wi_resource_version = rv, wi_event_type = t, wi_data = d, wi_canonicalize_object = c\<rparr> db = Ok db'"
  shows "table_step env rv db db'"
  by (rule event_step [OF assms]) simp_all

lemma emit_watch_steps:
  assumes "emit_watch_from_bytes emit scope a k n rv event_type data db = Ok (staged, db')"
  shows "table_steps env rv db db'"
  using assms
  by (auto simp: emit_watch_from_bytes_def split: if_splits intro: assigned_event_step)

lemma normalize_current_keeps:
  assumes "normalize_current env row existing = Ok row'"
  shows "lrr_api_version row' = lrr_api_version row \<and> lrr_kind row' = lrr_kind row
    \<and> lrr_namespace row' = lrr_namespace row \<and> lrr_name row' = lrr_name row
    \<and> lrr_resource_version row' = lrr_resource_version row"
  using assms unfolding normalize_current_def
  by (auto simp: keep_server_metadata_def fresh_status_row_def Let_def split: option.splits if_splits)

lemma normalize_current_stamped:
  assumes "normalize_current env row existing = Ok row'"
    and "well_stamped (lrr_resource_version row) (lrr_data row)"
  shows "well_stamped (lrr_resource_version row) (lrr_data row')"
  using assms unfolding normalize_current_def
  by (auto simp: keep_server_metadata_def fresh_status_row_def Let_def
      split: option.splits if_splits intro!: well_stamped_intros)

lemma put_resource_cases:
  fixes row :: log_apply_resource_row
  defines "scope \<equiv> resource_identity (lrr_api_version row) (lrr_kind row) (lrr_namespace row)"
  defines "existing \<equiv> get_existing_resource scope (lrr_api_version row) (lrr_kind row) (lrr_name row)"
  assumes "apply_put_resource env row emit db = Ok (staged, db')"
  obtains
    (same) row' uid where "normalize_current env row (existing db) = Ok row'"
      "existing db = Some (lrr_resource_version row, uid, lrr_data row')"
      "db' = upsert_indexes_from_bytes env scope (lrr_api_version row) (lrr_kind row) (lrr_name row) (lrr_data row') db"
  | (written) row' event_type where "normalize_current env row (existing db) = Ok row'"
      "event_type \<in> {''ADDED'', ''MODIFIED''}"
      "emit_watch_from_bytes emit scope (lrr_api_version row) (lrr_kind row) (lrr_name row)
        (lrr_resource_version row) event_type (lrr_data row')
        (upsert_indexes_from_bytes env scope (lrr_api_version row) (lrr_kind row) (lrr_name row) (lrr_data row')
          (upsert_resource_from_bytes scope (lrr_api_version row) (lrr_kind row) (lrr_name row)
            (lrr_uid row') (lrr_resource_version row) (lrr_data row') db)) = Ok (staged, db')"
proof -
  obtain row' where valid: "validate_put_resource_apply_preconditions row (existing db) = Ok ()"
    and row': "normalize_committed_resource_for_apply env row (existing db) = Ok row'"
    using assms(3) unfolding apply_put_resource_def Let_def scope_def existing_def by auto
  have norm: "normalize_current env row (existing db) = Ok row'"
    using row' normalize_exact [OF valid] by simp
  note keeps = normalize_current_keeps [OF norm]
  show ?thesis
  proof (cases "\<exists>uid. existing db = Some (lrr_resource_version row, uid, lrr_data row')")
    case True
    then obtain uid where found: "existing db = Some (lrr_resource_version row, uid, lrr_data row')"
      by blast
    then show ?thesis
      using assms(3) keeps valid row'
      by (intro same [OF norm found])
        (simp add: apply_put_resource_def Let_def decide_resource_put_def scope_def existing_def)
  next
    case False
    then show ?thesis
      using assms(3) keeps valid row'
      by (intro written [OF norm, of "if existing db = None then ''ADDED'' else ''MODIFIED''"])
        (auto simp: apply_put_resource_def Let_def decide_resource_put_def is_some_and_iff scope_def existing_def
          split: if_splits)
  qed
qed

lemma put_resource_steps:
  assumes "apply_put_resource env row emit db = Ok (staged, db')"
    and "live_shaped (LA_PutResource row)" and "stamped rv (LA_PutResource row)"
  shows "table_steps env rv db db'"
  using assms(1)
proof (cases rule: put_resource_cases)
  case (same row' uid)
  then show ?thesis
    using reindex_step [OF same(2)] assms(2) by (auto simp: named_resource_identity)
next
  case (written row' event_type)
  have rv: "lrr_resource_version row = rv"
    using assms(3) by simp
  show ?thesis
    by (rule converse_rtranclp_into_rtranclp [OF store_step emit_watch_steps [OF written(3) [unfolded rv]]])
      (use normalize_current_stamped [OF written(1)] assms(2,3) in \<open>simp_all add: named_resource_identity\<close>)
qed

lemma patched_stamped:
  assumes "apply_latest_patch_to_current_resource env patch rv uid current namespace = Ok patched"
  shows "well_stamped (lrp_resource_version patch) patched"
  using assms unfolding apply_latest_patch_to_current_resource_def Let_def
  by (auto intro!: well_stamped_intros)

lemma patch_resource_cases:
  fixes patch :: log_apply_resource_patch
  defines "scope \<equiv> resource_identity (lrp_api_version patch) (lrp_kind patch) (lrp_namespace patch)"
  assumes "apply_patch_resource_latest env patch emit db = Ok (staged, db')"
  obtains
    (absent) "db' = db"
  | (patched) current_rv uid current data where
      "apply_latest_patch_to_current_resource env patch current_rv uid current (scope_namespace scope) = Ok data"
      "emit_watch_from_bytes emit scope (lrp_api_version patch) (lrp_kind patch) (lrp_name patch)
        (lrp_resource_version patch) ''MODIFIED'' data
        (upsert_indexes_from_bytes env scope (lrp_api_version patch) (lrp_kind patch) (lrp_name patch) data
          (upsert_resource_from_bytes scope (lrp_api_version patch) (lrp_kind patch) (lrp_name patch)
            uid (lrp_resource_version patch) data db)) = Ok (staged, db')"
proof (cases "get_existing_resource scope (lrp_api_version patch) (lrp_kind patch) (lrp_name patch) db")
  case None
  then show ?thesis
    using assms(2) by (intro absent) (simp add: apply_patch_resource_latest_def Let_def scope_def split: if_splits)
next
  case (Some current)
  then show ?thesis
    using assms(2) patched
    by (cases current) (auto simp: apply_patch_resource_latest_def Let_def scope_def elim!: result_bind_OkE)
qed

lemma patch_resource_steps:
  assumes "apply_patch_resource_latest env patch emit db = Ok (staged, db')"
    and "live_shaped (LA_PatchResourceLatest patch)"
  shows "table_steps env (lrp_resource_version patch) db db'"
  using assms(1)
proof (cases rule: patch_resource_cases)
  case (patched current_rv uid current data)
  show ?thesis
    by (rule converse_rtranclp_into_rtranclp [OF store_step emit_watch_steps [OF patched(2)]])
      (use patched_stamped [OF patched(1)] assms(2) in \<open>simp_all add: named_resource_identity\<close>)
qed simp

lemma delete_resource_cases:
  fixes key :: log_apply_resource_key
  defines "scope \<equiv> resource_identity (lrk_api_version key) (lrk_kind key) (lrk_namespace key)"
  defines "existing \<equiv> get_existing_resource scope (lrk_api_version key) (lrk_kind key) (lrk_name key)"
  assumes "apply_delete_resource rv key emit db = Ok (staged, db')"
  obtains
    (absent) "db' = db" "existing db = None"
  | (other) current_rv uid data where "db' = db" "existing db = Some (current_rv, uid, data)" "lrk_uid key \<notin> {[], uid}"
  | (deleted) current_rv uid data where "existing db = Some (current_rv, uid, data)"
      "emit_watch_from_bytes emit scope (lrk_api_version key) (lrk_kind key) (lrk_name key) rv ''DELETED'' data
        (delete_indexes_from_identity scope (lrk_api_version key) (lrk_kind key) (lrk_name key)
          (delete_resource_from_identity scope (lrk_api_version key) (lrk_kind key) (lrk_name key) db))
        = Ok (staged, db')"
      "lrk_uid key \<in> {[], uid}"
proof (cases "existing db")
  case None
  then show ?thesis
    using assms(3) absent by (auto simp: apply_delete_resource_def Let_def scope_def existing_def)
next
  case (Some current)
  obtain current_rv uid data where current: "existing db = Some (current_rv, uid, data)"
    using Some by (cases current) auto
  show ?thesis
  proof (cases "lrk_uid key \<in> {[], uid}")
    case True
    then show ?thesis
      using assms(3) current
      by (intro deleted [OF current])
        (auto simp: apply_delete_resource_def Let_def scope_def existing_def decide_resource_delete_def
          split: if_splits elim!: result_bind_OkE)
  next
    case False
    then show ?thesis
      using assms(3) current
      by (intro other [OF _ current])
        (auto simp: apply_delete_resource_def Let_def scope_def existing_def decide_resource_delete_def
          split: if_splits)
  qed
qed

lemma delete_resource_steps:
  assumes "apply_delete_resource rv key emit db = Ok (staged, db')"
    and "live_shaped (LA_DeleteResource key)"
  shows "table_steps env rv db db'"
  using assms(1)
proof (cases rule: delete_resource_cases)
  case (deleted current_rv uid data)
  show ?thesis
    by (rule converse_rtranclp_into_rtranclp [OF unstore_step emit_watch_steps [OF deleted(2)]])
      (use assms(2) in \<open>simp add: named_resource_identity\<close>)
qed simp_all

lemma put_namespace_steps:
  assumes "put_namespace_in_tx row emit db = Ok (staged, db')" and "stamped rv (LA_PutNamespace row)"
  shows "table_steps env rv db db'"
proof -
  have step: "table_step env rv db (db\<lparr>cd_namespaces := rows\<rparr>)"
    if "set rows \<subseteq> insert row (set (cd_namespaces db))" for rows
    using that assms(2) by (intro namespaces_step) auto
  have appended: "table_step env rv db (db\<lparr>cd_namespaces := cd_namespaces db @ [row]\<rparr>)"
    and replaced: "table_step env rv db (db\<lparr>cd_namespaces :=
      map (\<lambda>r. if lnr_name r = lnr_name row then row else r) (cd_namespaces db)\<rparr>)"
    by (auto intro!: step)
  show ?thesis
    using assms appended replaced
    unfolding put_namespace_in_tx_def Let_def
    by (auto split: if_splits intro: rtranclp.rtrancl_into_rtrancl assigned_event_step)
qed

lemma delete_namespace_steps:
  assumes "delete_namespace_in_tx rv name emit db = Ok (staged, db')"
  shows "table_steps env rv db db'"
proof -
  have removed: "table_step env rv db (db\<lparr>cd_namespaces := filter (\<lambda>r. lnr_name r \<noteq> name) (cd_namespaces db)\<rparr>)"
    by (intro namespaces_step) simp
  show ?thesis
    using assms removed
    unfolding delete_namespace_in_tx_def Let_def
    by (auto split: option.splits if_splits intro: rtranclp.rtrancl_into_rtrancl assigned_event_step)
qed

lemma put_watch_event_step:
  assumes "apply_put_watch_event row db = Ok (staged, db')"
    and "lwe_event_id row = None"
  shows "table_step env (lwe_resource_version row) db db'"
  using assms by (auto simp: apply_put_watch_event_def intro: assigned_event_step)

lemma table_field_steps:
  "table_step env rv db (put_applied_outbox_in_tx row db)"
  "table_step env rv db (delete_applied_outbox_in_tx key db)"
  "table_step env rv db (gc_applied_outbox_in_tx cutoff db)"
  "table_step env rv db (put_pod_cleanup_intent_in_tx intent db)"
  "table_step env rv db (delete_pod_cleanup_intent_in_tx intent_key db)"
  "table_step env rv db (delete_pod_cleanup_intents_for_node_in_tx node db)"
  "table_step env rv db (put_klights_meta_in_tx k v db)"
  "table_step env rv db (delete_node_subnet_in_tx node db)"
  "table_step env rv db (delete_node_dataplane_in_tx node db)"
  "put_node_subnet_in_tx subnet db = Ok db' \<Longrightarrow> table_step env rv db db'"
  "allocate_node_subnet_in_tx allocation db = Ok db' \<Longrightarrow> table_step env rv db db'"
  "put_node_dataplane_in_tx dataplane db = Ok db' \<Longrightarrow> table_step env rv db db'"
  by (auto simp: put_applied_outbox_in_tx_def delete_applied_outbox_in_tx_def gc_applied_outbox_in_tx_def
      put_pod_cleanup_intent_in_tx_def delete_pod_cleanup_intent_in_tx_def
      delete_pod_cleanup_intents_for_node_in_tx_def put_klights_meta_in_tx_def delete_node_subnet_in_tx_def
      delete_node_dataplane_in_tx_def put_node_subnet_in_tx_def allocate_node_subnet_in_tx_def
      put_node_dataplane_in_tx_def Let_def
      intro: table_step.intros split: if_splits)

lemma mutation_steps:
  assumes "apply_cluster_mutation env rv emit (cluster_mutation_of m) effects db = Ok (effects', db')"
    and "live_shaped m" and "stamped rv m"
  shows "table_steps env rv db db'"
  using assms
  by (cases m)
    (auto simp: staged_effect_def no_effect_def split: if_splits
      intro: put_resource_steps patch_resource_steps delete_resource_steps put_namespace_steps
        delete_namespace_steps put_watch_event_step table_field_steps contents_step gc_step)

lemma apply_mutations_steps:
  assumes "apply_mutations env rv emit ms effects db = Ok (effects', db')"
    and "list_all live_shaped ms" and "list_all (stamped rv) ms"
  shows "table_steps env rv db db'"
  using assms
proof (induction ms arbitrary: effects db)
  case (Cons m ms)
  then show ?case
    using mutation_steps by (fastforce intro: rtranclp_trans)
qed simp

end
