(* ===== verification/Apply_Invariants.thy ===== *)
theory Apply_Invariants
  imports Apply_Steps
begin

text \<open>
  The invariant of the cluster database and its preservation by every committed entry. It says that
  the resource tables have unique keys; that the selector and owner-reference indexes hold exactly the
  rows of the stored documents; that no stored version is ahead of the public resourceVersion and
  every document carries the version it is stored under; and that the watch history is a well-formed
  log in the sense of \<^verbatim>\<open>Watch_Store\<close> with exact retention floors, so that what is proved there of
  reads applies.
\<close>

section \<open>The invariant\<close>

definition row_key :: "resource_table_row \<Rightarrow> string \<times> string \<times> string \<times> string"
  where "row_key row = (rt_api_version row, rt_kind row, rt_namespace row, rt_name row)"

definition stored_rows :: "cluster_db \<Rightarrow> resource_table_row list"
  where "stored_rows db = cd_namespaced db @ cd_cluster db"

definition keys_wf :: "cluster_db \<Rightarrow> bool"
where
  "keys_wf db \<longleftrightarrow>
    distinct (map row_key (stored_rows db))
    \<and> (\<forall>row \<in> set (cd_namespaced db). rt_namespace row \<noteq> [])
    \<and> (\<forall>row \<in> set (cd_cluster db). rt_namespace row = [])"

fun key_indexed :: "apply_env \<Rightarrow> index_tables \<Rightarrow> string \<times> string \<times> string \<times> string \<Rightarrow> json \<Rightarrow> bool"
  where "key_indexed env ix (a, k, ns, n) data = indexed (ae_float_text env) ix a k ns n data"

fun key_unindexed :: "index_tables \<Rightarrow> string \<times> string \<times> string \<times> string \<Rightarrow> bool"
  where "key_unindexed ix (a, k, ns, n) = unindexed ix a k ns n"

definition index_wf :: "apply_env \<Rightarrow> cluster_db \<Rightarrow> bool"
where
  "index_wf env db \<longleftrightarrow>
    (\<forall>row \<in> set (stored_rows db). key_indexed env (cd_index db) (row_key row) (rt_data row))
    \<and> (\<forall>key. key \<notin> row_key ` set (stored_rows db) \<longrightarrow> key_unindexed (cd_index db) key)"

definition versions_wf :: "cluster_db \<Rightarrow> bool"
where
  "versions_wf db \<longleftrightarrow>
    0 \<le> cd_resource_version db
    \<and> (\<forall>row \<in> set (stored_rows db). rt_resource_version row \<le> cd_resource_version db
         \<and> well_stamped (rt_resource_version row) (rt_data row))
    \<and> (\<forall>row \<in> set (cd_namespaces db). lnr_resource_version row \<le> cd_resource_version db
         \<and> well_stamped (lnr_resource_version row) (lnr_data row))
    \<and> (\<forall>row \<in> set (cd_watch_events db). wer_resource_version row \<le> cd_resource_version db)"

definition watch_store_of :: "cluster_db \<Rightarrow> sqlite_watch_store"
where
  "watch_store_of db =
    \<lparr>sws_position = event_position (cd_event_sequence db) (cd_resource_version db),
     sws_floors = cd_floors db, sws_watch_events = cd_watch_events db\<rparr>"

definition history_wf :: "sqlite_watch_store \<Rightarrow> bool"
where
  "history_wf store \<longleftrightarrow>
    sqlite_log_wf store \<and> list_all wfr_floor_position_exact (sws_floors store)
    \<and> list_all (\<lambda>floor. wfr_floor_event_id floor \<le> wrp_event_id (sws_position store)) (sws_floors store)"

definition db_wf :: "apply_env \<Rightarrow> cluster_db \<Rightarrow> bool"
where
  "db_wf env db \<longleftrightarrow> keys_wf db \<and> index_wf env db \<and> versions_wf db \<and> history_wf (watch_store_of db)"


section \<open>One row of a table\<close>

lemma find_SomeD: "List.find P xs = Some x \<Longrightarrow> x \<in> set xs \<and> P x"
  by (induction xs) (auto split: if_splits)

lemma row_has_key_iff: "row_has_key a k ns n row \<longleftrightarrow> row_key row = (a, k, ns, n)"
  by (auto simp: row_has_key_def row_key_def)

definition upserted_rows ::
  "(string \<times> string \<times> string \<times> string) \<Rightarrow> string \<Rightarrow> int \<Rightarrow> json \<Rightarrow> resource_table_row list \<Rightarrow> resource_table_row list"
where
  "upserted_rows key uid rv data rows =
    (if key \<in> row_key ` set rows
     then map (\<lambda>row. if row_key row = key then row\<lparr>rt_uid := uid, rt_resource_version := rv, rt_data := data\<rparr>
                     else row) rows
     else rows @ [\<lparr>rt_id = fresh_row_id rows, rt_api_version = fst key, rt_kind = fst (snd key),
                    rt_namespace = fst (snd (snd key)), rt_name = snd (snd (snd key)), rt_uid = uid,
                    rt_resource_version = rv, rt_created_rv = rv, rt_data = data\<rparr>])"

lemma upsert_resource_rows:
  "upsert_resource_from_bytes scope a k n uid rv data db =
    set_table scope (upserted_rows (a, k, index_namespace scope, n) uid rv data (table_of scope db)) db"
  by (auto simp: upsert_resource_from_bytes_def upserted_rows_def row_has_key_iff list_ex_iff Let_def image_iff)

lemma map_row_key_upserted:
  "map row_key (upserted_rows key uid rv data rows) =
    (if key \<in> row_key ` set rows then map row_key rows else map row_key rows @ [key])"
  by (auto simp: upserted_rows_def row_key_def)

lemma in_upserted_rows:
  "row \<in> set (upserted_rows key uid rv data rows) \<Longrightarrow>
    row \<in> set rows \<and> row_key row \<noteq> key
    \<or> row_key row = key \<and> rt_resource_version row = rv \<and> rt_data row = data"
  by (auto simp: upserted_rows_def row_key_def split: if_splits)

lemma table_of_cases:
  "stored_rows (set_table scope rows db) =
    (case scope of NamespacedRow _ \<Rightarrow> rows @ cd_cluster db | ClusterRow \<Rightarrow> cd_namespaced db @ rows)"
  by (cases scope) (simp_all add: stored_rows_def)

lemma stored_rows_frames [simp]:
  "stored_rows (db\<lparr>cd_index := ix\<rparr>) = stored_rows db"
  "stored_rows (db\<lparr>cd_namespaces := v1\<rparr>) = stored_rows db"
  "stored_rows (db\<lparr>cd_applied_outbox := v2\<rparr>) = stored_rows db"
  "stored_rows (db\<lparr>cd_pod_cleanup_intents := v3\<rparr>) = stored_rows db"
  "stored_rows (db\<lparr>cd_klights_meta := v4\<rparr>) = stored_rows db"
  "stored_rows (db\<lparr>cd_node_subnets := v5\<rparr>) = stored_rows db"
  "stored_rows (db\<lparr>cd_node_dataplane := v6\<rparr>) = stored_rows db"
  "stored_rows (db\<lparr>cd_floors := v7\<rparr>) = stored_rows db"
  "stored_rows (db\<lparr>cd_watch_events := v8\<rparr>) = stored_rows db"
  "stored_rows (db\<lparr>cd_event_sequence := v9\<rparr>) = stored_rows db"
  "stored_rows (db\<lparr>cd_resource_version := v10\<rparr>) = stored_rows db"
  "stored_rows (db\<lparr>cd_watermarks := v11\<rparr>) = stored_rows db"
  by (simp_all add: stored_rows_def)

lemma set_table_frames [simp]:
  "cd_index (set_table scope rows db) = cd_index db"
  "cd_resource_version (set_table scope rows db) = cd_resource_version db"
  "cd_namespaces (set_table scope rows db) = cd_namespaces db"
  "cd_watch_events (set_table scope rows db) = cd_watch_events db"
  "cd_event_sequence (set_table scope rows db) = cd_event_sequence db"
  "cd_floors (set_table scope rows db) = cd_floors db"
  "cd_watermarks (set_table scope rows db) = cd_watermarks db"
  "cd_applied_outbox (set_table scope rows db) = cd_applied_outbox db"
  by (cases scope; simp)+


section \<open>Rows and their indexes\<close>

text \<open>The invariant of the rows, by itself: keys and indexes.\<close>

lemma stored_key_unique:
  assumes "keys_wf db" and "row \<in> set (stored_rows db)" and "row' \<in> set (stored_rows db)"
    and "row_key row = row_key row'"
  shows "row = row'"
  using assms unfolding keys_wf_def distinct_map by (blast dest: inj_onD)

lemma key_of_scope:
  assumes "keys_wf db" and "named_scope scope" and "row \<in> set (stored_rows db)"
    and "row_key row = (a, k, index_namespace scope, n)"
  shows "row \<in> set (table_of scope db)"
  using assms by (cases scope) (auto simp: keys_wf_def stored_rows_def row_key_def)

lemma keys_wf_upsert:
  assumes "keys_wf db" and "named_scope scope"
  shows "keys_wf (set_table scope (upserted_rows (a, k, index_namespace scope, n) uid rv data (table_of scope db)) db)"
proof (cases scope)
  case (NamespacedRow ns)
  have "rt_namespace row = fst (snd (snd (row_key row)))" for row
    by (simp add: row_key_def)
  then show ?thesis
    using assms NamespacedRow
    by (auto simp: keys_wf_def table_of_cases stored_rows_def map_row_key_upserted row_key_def
        dest!: in_upserted_rows split: if_splits)
next
  case ClusterRow
  then show ?thesis
    using assms
    by (auto simp: keys_wf_def table_of_cases stored_rows_def map_row_key_upserted row_key_def
        dest!: in_upserted_rows split: if_splits)
qed

lemma stored_keys_upsert:
  "row_key ` set (stored_rows (set_table scope (upserted_rows (a, k, index_namespace scope, n) uid rv data
      (table_of scope db)) db)) =
    insert (a, k, index_namespace scope, n) (row_key ` set (stored_rows db))"
proof -
  have *: "row_key ` set (upserted_rows key uid rv data rows) = insert key (row_key ` set rows)" for key rows
    using arg_cong [OF map_row_key_upserted, of set key uid rv data rows] by auto
  show ?thesis
    by (cases scope) (auto simp: table_of_cases stored_rows_def * image_Un)
qed

lemma stored_row_upsert:
  assumes "keys_wf db" and "named_scope scope"
    and "row \<in> set (stored_rows (set_table scope (upserted_rows (a, k, index_namespace scope, n) uid rv data
      (table_of scope db)) db))"
  shows "row \<in> set (stored_rows db) \<and> row_key row \<noteq> (a, k, index_namespace scope, n)
    \<or> row_key row = (a, k, index_namespace scope, n) \<and> rt_resource_version row = rv \<and> rt_data row = data"
  using assms
  by (cases scope) (auto simp: table_of_cases keys_wf_def stored_rows_def row_key_def dest!: in_upserted_rows)

lemma key_indexed_other:
  assumes "key \<noteq> (a, k, ns, n)"
  shows "key_indexed env (upsert_owner_refs a k ns n data (upsert_index_entries (ae_float_text env) a k ns n data ix)) key d \<longleftrightarrow>
      key_indexed env ix key d"
    and "key_indexed env (delete_owner_refs a k ns n (delete_index_entries a k ns n ix)) key d \<longleftrightarrow>
      key_indexed env ix key d"
    and "key_unindexed (upsert_owner_refs a k ns n data (upsert_index_entries ft a k ns n data ix)) key \<longleftrightarrow>
      key_unindexed ix key"
    and "key_unindexed (delete_owner_refs a k ns n (delete_index_entries a k ns n ix)) key \<longleftrightarrow>
      key_unindexed ix key"
  using assms by (cases key; simp add: indexed_other)+

lemma upsert_indexes_fields [simp]:
  "stored_rows (upsert_indexes_from_bytes env scope a k n data db) = stored_rows db"
  "cd_namespaced (upsert_indexes_from_bytes env scope a k n data db) = cd_namespaced db"
  "cd_cluster (upsert_indexes_from_bytes env scope a k n data db) = cd_cluster db"
  "cd_namespaces (upsert_indexes_from_bytes env scope a k n data db) = cd_namespaces db"
  "cd_resource_version (upsert_indexes_from_bytes env scope a k n data db) = cd_resource_version db"
  "watch_store_of (upsert_indexes_from_bytes env scope a k n data db) = watch_store_of db"
  "cd_watch_events (upsert_indexes_from_bytes env scope a k n data db) = cd_watch_events db"
  by (simp_all add: upsert_indexes_from_bytes_def watch_store_of_def)

lemma delete_indexes_fields [simp]:
  "stored_rows (delete_indexes_from_identity scope a k n db) = stored_rows db"
  "cd_namespaced (delete_indexes_from_identity scope a k n db) = cd_namespaced db"
  "cd_cluster (delete_indexes_from_identity scope a k n db) = cd_cluster db"
  "cd_namespaces (delete_indexes_from_identity scope a k n db) = cd_namespaces db"
  "cd_resource_version (delete_indexes_from_identity scope a k n db) = cd_resource_version db"
  "watch_store_of (delete_indexes_from_identity scope a k n db) = watch_store_of db"
  "cd_watch_events (delete_indexes_from_identity scope a k n db) = cd_watch_events db"
  by (simp_all add: delete_indexes_from_identity_def watch_store_of_def)

lemma watch_store_of_frames [simp]:
  "watch_store_of (set_table scope rows db) = watch_store_of db"
  "watch_store_of (db\<lparr>cd_index := ix\<rparr>) = watch_store_of db"
  "watch_store_of (db\<lparr>cd_namespaced := v0\<rparr>) = watch_store_of db"
  "watch_store_of (db\<lparr>cd_namespaces := v1\<rparr>) = watch_store_of db"
  "watch_store_of (db\<lparr>cd_applied_outbox := v2\<rparr>) = watch_store_of db"
  "watch_store_of (db\<lparr>cd_pod_cleanup_intents := v3\<rparr>) = watch_store_of db"
  "watch_store_of (db\<lparr>cd_klights_meta := v4\<rparr>) = watch_store_of db"
  "watch_store_of (db\<lparr>cd_node_subnets := v5\<rparr>) = watch_store_of db"
  "watch_store_of (db\<lparr>cd_node_dataplane := v6\<rparr>) = watch_store_of db"
  "watch_store_of (db\<lparr>cd_watermarks := v7\<rparr>) = watch_store_of db"
  by (simp_all add: watch_store_of_def)

lemma index_wf_store:
  assumes "keys_wf db" and "index_wf env db" and "named_scope scope"
  shows "index_wf env (upsert_indexes_from_bytes env scope a k n data
    (upsert_resource_from_bytes scope a k n uid rv data db))"
proof -
  let ?key = "(a, k, index_namespace scope, n)"
  let ?ix = "upsert_owner_refs a k (index_namespace scope) n data
    (upsert_index_entries (ae_float_text env) a k (index_namespace scope) n data (cd_index db))"
  have index: "cd_index (upsert_indexes_from_bytes env scope a k n data
      (upsert_resource_from_bytes scope a k n uid rv data db)) = ?ix"
    by (simp add: upsert_indexes_from_bytes_def upsert_resource_rows)
  have stored: "key_indexed env ?ix (row_key row) (rt_data row)"
    if "row \<in> set (stored_rows (upsert_resource_from_bytes scope a k n uid rv data db))" for row
    using stored_row_upsert [OF assms(1,3) that [unfolded upsert_resource_rows]] assms(2)
    by (auto simp: index_wf_def key_indexed_other indexed_upsert)
  have absent: "key_unindexed ?ix key"
    if "key \<notin> row_key ` set (stored_rows (upsert_resource_from_bytes scope a k n uid rv data db))" for key
  proof -
    have other: "key \<noteq> ?key" and "key \<notin> row_key ` set (stored_rows db)"
      using that unfolding upsert_resource_rows stored_keys_upsert by blast+
    then show ?thesis
      using assms(2) unfolding key_indexed_other(3) [OF other] index_wf_def by blast
  qed
  show ?thesis
    using stored absent by (simp add: index_wf_def index)
qed

lemma index_wf_reindex:
  assumes wf: "keys_wf db" "index_wf env db" and named: "named_scope scope"
    and found: "get_existing_resource scope a k n db = Some (rv, uid, data)"
  shows "index_wf env (upsert_indexes_from_bytes env scope a k n data db)"
proof -
  let ?key = "(a, k, index_namespace scope, n)"
  obtain stored where stored: "stored \<in> set (table_of scope db)" "row_key stored = ?key" "rt_data stored = data"
    using found
    by (auto simp: get_existing_resource_def row_has_key_iff dest: find_SomeD)
  then have in_rows: "stored \<in> set (stored_rows db)"
    by (cases scope) (auto simp: stored_rows_def)
  have unique: "rt_data row = data" if "row \<in> set (stored_rows db)" "row_key row = ?key" for row
    using stored_key_unique [OF wf(1) that(1) in_rows] that(2) stored(2,3) by simp
  let ?ix = "upsert_owner_refs a k (index_namespace scope) n data
    (upsert_index_entries (ae_float_text env) a k (index_namespace scope) n data (cd_index db))"
  have "key_indexed env ?ix (row_key row) (rt_data row)" if row: "row \<in> set (stored_rows db)" for row
  proof (cases "row_key row = ?key")
    case True
    then show ?thesis
      using unique [OF row True] by (simp add: indexed_upsert)
  next
    case False
    then show ?thesis
      using wf(2) row by (simp add: key_indexed_other index_wf_def)
  qed
  moreover have "key_unindexed ?ix key" if absent: "key \<notin> row_key ` set (stored_rows db)" for key
  proof -
    have other: "key \<noteq> ?key"
      using absent in_rows stored(2) by force
    show ?thesis
      using wf(2) absent unfolding key_indexed_other(3) [OF other] index_wf_def by blast
  qed
  ultimately show ?thesis
    by (simp add: index_wf_def upsert_indexes_from_bytes_def del: split_paired_All)
qed


text \<open>Removing the rows and index entries of a set of keys.\<close>

lemma index_wf_remove:
  assumes "index_wf env db"
    and rows: "set (stored_rows db') = {row \<in> set (stored_rows db). row_key row \<notin> keys}"
    and removed: "\<And>key. key \<in> keys \<Longrightarrow> key_unindexed (cd_index db') key"
    and kept: "\<And>key d. key \<notin> keys \<Longrightarrow>
      key_indexed env (cd_index db') key d = key_indexed env (cd_index db) key d"
      "\<And>key. key \<notin> keys \<Longrightarrow> key_unindexed (cd_index db') key = key_unindexed (cd_index db) key"
  shows "index_wf env db'"
proof -
  have "key_unindexed (cd_index db') key" if "key \<notin> row_key ` set (stored_rows db')" for key
  proof (cases "key \<in> keys")
    case False
    then have "key \<notin> row_key ` set (stored_rows db)"
      using that unfolding rows by blast
    then show ?thesis
      using assms(1) unfolding index_wf_def kept(2) [OF False] by blast
  qed (rule removed)
  moreover have "key_indexed env (cd_index db') (row_key row) (rt_data row)"
    if "row \<in> set (stored_rows db')" for row
    using that assms(1) kept(1) unfolding rows index_wf_def by blast
  ultimately show ?thesis
    unfolding index_wf_def by blast
qed

lemma index_wf_unstore:
  assumes "keys_wf db" and "index_wf env db" and "named_scope scope"
  shows "index_wf env (delete_indexes_from_identity scope a k n (delete_resource_from_identity scope a k n db))"
proof (rule index_wf_remove [OF assms(2), where keys = "{(a, k, index_namespace scope, n)}"])
  show "set (stored_rows (delete_indexes_from_identity scope a k n (delete_resource_from_identity scope a k n db))) =
      {row \<in> set (stored_rows db). row_key row \<notin> {(a, k, index_namespace scope, n)}}"
    using assms(1,3)
    by (cases scope) (auto simp: delete_resource_from_identity_def table_of_cases stored_rows_def
        row_has_key_iff keys_wf_def row_key_def)
qed (auto simp: delete_indexes_from_identity_def delete_resource_from_identity_def unindexed_delete
    key_indexed_other simp del: key_indexed.simps key_unindexed.simps
    intro: unindexed_delete [unfolded key_unindexed.simps [symmetric]])

definition remove_index_rows :: "index_tables \<Rightarrow> resource_table_row list \<Rightarrow> index_tables"
where
  "remove_index_rows ix rows = foldl (\<lambda>ix row.
     delete_owner_refs (rt_api_version row) (rt_kind row) (rt_namespace row) (rt_name row)
       (delete_index_entries (rt_api_version row) (rt_kind row) (rt_namespace row) (rt_name row) ix)) ix rows"

lemma remove_index_rows_kept:
  assumes "key \<notin> row_key ` set rows"
  shows "key_indexed env (remove_index_rows ix rows) key d = key_indexed env ix key d"
    and "key_unindexed (remove_index_rows ix rows) key = key_unindexed ix key"
  using assms
  by (induction rows arbitrary: ix)
    (auto simp: remove_index_rows_def row_key_def key_indexed_other simp del: key_indexed.simps key_unindexed.simps)

lemma remove_index_rows_removed:
  "key \<in> row_key ` set rows \<Longrightarrow> key_unindexed (remove_index_rows ix rows) key"
proof (induction rows arbitrary: ix)
  case (Cons row rows)
  let ?ix = "delete_owner_refs (rt_api_version row) (rt_kind row) (rt_namespace row) (rt_name row)
    (delete_index_entries (rt_api_version row) (rt_kind row) (rt_namespace row) (rt_name row) ix)"
  have step: "remove_index_rows ix (row # rows) = remove_index_rows ?ix rows"
    by (simp add: remove_index_rows_def)
  show ?case
  proof (cases "key \<in> row_key ` set rows")
    case True
    then show ?thesis
      unfolding step by (rule Cons.IH)
  next
    case False
    then have "key = row_key row"
      using Cons.prems by auto
    then show ?thesis
      unfolding step remove_index_rows_kept(2) [OF False] by (simp add: row_key_def unindexed_delete)
  qed
qed simp

lemma contents_rows:
  "cd_namespaced (delete_namespace_contents_in_tx name db) =
    filter (\<lambda>row. \<not> (rt_namespace row = name \<and> rt_kind row \<noteq> ''Pod'')) (cd_namespaced db)"
  "cd_cluster (delete_namespace_contents_in_tx name db) = cd_cluster db"
  "cd_index (delete_namespace_contents_in_tx name db) = remove_index_rows (cd_index db)
    (filter (\<lambda>row. rt_namespace row = name \<and> rt_kind row \<noteq> ''Pod'') (cd_namespaced db))"
  by (simp_all add: delete_namespace_contents_in_tx_def remove_index_rows_def Let_def)

lemma index_wf_contents:
  assumes "keys_wf db" and "index_wf env db"
  shows "index_wf env (delete_namespace_contents_in_tx name db)"
proof -
  let ?doomed = "filter (\<lambda>row. rt_namespace row = name \<and> rt_kind row \<noteq> ''Pod'') (cd_namespaced db)"
  show ?thesis
  proof (rule index_wf_remove [OF assms(2), where keys = "row_key ` set ?doomed"])
    have in_rows: "set ?doomed \<subseteq> set (stored_rows db)"
      by (auto simp: stored_rows_def)
    have doomed: "row_key row \<in> row_key ` set ?doomed \<longleftrightarrow> row \<in> set ?doomed" if "row \<in> set (stored_rows db)" for row
      using stored_key_unique [OF assms(1) that] in_rows by blast
    have "set (stored_rows (delete_namespace_contents_in_tx name db)) = set (stored_rows db) - set ?doomed"
    proof -
      have "set (cd_cluster db) \<inter> set ?doomed = {}"
        using assms(1) by (auto simp: keys_wf_def)
      then show ?thesis
        by (auto simp: stored_rows_def contents_rows)
    qed
    then show "set (stored_rows (delete_namespace_contents_in_tx name db)) =
        {row \<in> set (stored_rows db). row_key row \<notin> row_key ` set ?doomed}"
      using doomed by blast
  qed (simp_all add: contents_rows remove_index_rows_kept remove_index_rows_removed
      del: key_indexed.simps key_unindexed.simps)
qed


section \<open>The watch history\<close>

text \<open>No namespace is named like the key of cluster-scoped events.\<close>

definition plain_namespace :: "watch_event_row \<Rightarrow> bool"
  where "plain_namespace row \<longleftrightarrow> wer_namespace row \<noteq> Some cluster_namespace_key"

lemma insert_watch_event_cases:
  assumes "insert_watch_event_in_conn e db = Ok db'"
  obtains (same) "db' = db"
  | (new) row where "db' = db\<lparr>cd_watch_events := insort_key wer_id row (cd_watch_events db),
        cd_event_sequence := max (cd_event_sequence db) (wer_id row)\<rparr>"
      and "wer_id row = unwrap_or (wi_event_id e) (cd_event_sequence db + 1)"
      and "wer_id row \<notin> wer_id ` set (cd_watch_events db)"
      and "wer_resource_version row = wi_resource_version e" and "wer_data row \<noteq> None"
proof (cases "List.find (same_identity_rv e) (cd_watch_events db)")
  case None
  let ?row = "\<lparr>wer_id = unwrap_or (wi_event_id e) (cd_event_sequence db + 1),
    wer_api_version = wi_api_version e, wer_kind = wi_kind e,
    wer_namespace = wi_namespace e, wer_name = wi_name e,
    wer_resource_version = wi_resource_version e, wer_event_type = wi_event_type e,
    wer_data = Some (if wi_canonicalize_object e
                 then hydrate_watch_event_data (wi_data e) (wi_api_version e) (wi_kind e)
                        (wi_namespace e) (wi_name e) (wi_resource_version e)
                 else wi_data e)\<rparr>"
  have free: "unwrap_or (wi_event_id e) (cd_event_sequence db + 1) \<notin> wer_id ` set (cd_watch_events db)"
    using assms by (auto simp: insert_watch_event_in_conn_def Let_def list_ex_iff split: if_splits)
  then have "db' = db\<lparr>cd_watch_events := insort_key wer_id ?row (cd_watch_events db),
      cd_event_sequence := max (cd_event_sequence db) (wer_id ?row)\<rparr>"
    using assms None by (auto simp: insert_watch_event_in_conn_def Let_def list_ex_iff split: if_splits)
  then show ?thesis
    using free by (intro new [of ?row]) simp_all
next
  case (Some row)
  then show ?thesis
    using assms by (intro same) (auto simp: insert_watch_event_in_conn_def Let_def split: if_splits)
qed

lemma sorted_wrt_less_insort:
  assumes "sorted_wrt (<) (map wer_id rows)" and "wer_id row \<notin> wer_id ` set rows"
  shows "sorted_wrt (<) (map wer_id (insort_key wer_id row rows))"
  using assms
  by (simp add: insort_map_key [symmetric] strict_sorted_iff sorted_insort distinct_insort del: sorted_wrt_map)

lemma log_wf_iff:
  "history_wf (watch_store_of db) \<longleftrightarrow>
    0 \<le> cd_event_sequence db
    \<and> sorted_wrt (<) (map wer_id (cd_watch_events db))
    \<and> (\<forall>row \<in> set (cd_watch_events db). 0 < wer_id row \<and> wer_id row \<le> cd_event_sequence db
         \<and> wer_data row \<noteq> None \<and> 0 \<le> wer_resource_version row)
    \<and> list_all wfr_floor_position_exact (cd_floors db)
    \<and> list_all (\<lambda>floor. wfr_floor_event_id floor \<le> cd_event_sequence db) (cd_floors db)"
  by (simp add: history_wf_def sqlite_log_wf_def watch_store_of_def list_all_iff [where xs = "cd_watch_events db"])

lemma log_wf_event:
  assumes inserted: "insert_watch_event_in_conn e db = Ok db'"
    and wf: "history_wf (watch_store_of db)"
    and rv: "0 \<le> wi_resource_version e" and id: "wi_event_id e = None"
  shows "history_wf (watch_store_of db')"
  using inserted
proof (cases rule: insert_watch_event_cases)
  case same
  then show ?thesis
    using wf by simp
next
  case (new row)
  have "0 < wer_id row"
    using new(2) id wf by (simp add: log_wf_iff)
  then show ?thesis
    using new wf rv unfolding log_wf_iff
    by (auto simp: sorted_wrt_less_insort set_insort_key list_all_iff)
qed

lemma sorted_wrt_map_filter: "sorted_wrt R (map f xs) \<Longrightarrow> sorted_wrt R (map f (filter P xs))"
  by (induction xs) auto

lemma floor_upsert_exact:
  "list_all wfr_floor_position_exact floors \<Longrightarrow>
    list_all wfr_floor_position_exact (foldl watch_replay_floor_upsert floors rows)"
proof (induction rows arbitrary: floors)
  case (Cons row rows)
  have "list_all wfr_floor_position_exact (watch_replay_floor_upsert floors row)"
    using Cons.prems by (auto simp: watch_replay_floor_upsert_def list_all_iff)
  then show ?case
    using Cons.IH by simp
qed simp

lemma floor_upsert_bounded:
  "list_all (\<lambda>floor. wfr_floor_event_id floor \<le> head) floors \<Longrightarrow> list_all (\<lambda>row. wer_id row \<le> head) rows \<Longrightarrow>
    list_all (\<lambda>floor. wfr_floor_event_id floor \<le> head) (foldl watch_replay_floor_upsert floors rows)"
proof (induction rows arbitrary: floors)
  case (Cons row rows)
  have "list_all (\<lambda>floor. wfr_floor_event_id floor \<le> head) (watch_replay_floor_upsert floors row)"
    using Cons.prems by (auto simp: watch_replay_floor_upsert_def list_all_iff)
  then show ?case
    using Cons.IH Cons.prems(2) by simp
qed simp

lemma log_wf_gc:
  assumes "history_wf (watch_store_of db)"
  shows "history_wf (watch_store_of (gc_watch_events_in_tx max_rows batch_cap db))"
proof -
  have "list_all (\<lambda>row. wer_id row \<le> cd_event_sequence db)
      (gc_candidates (cd_watch_events db) max_rows batch_cap (watch_events_min_scope_rows_in_conn db max_rows))"
    using assms by (auto simp: log_wf_iff gc_candidates_def sql_limit_def list_all_iff dest: in_set_takeD)
  then show ?thesis
    using assms
    by (simp add: log_wf_iff gc_watch_events_in_tx_def Let_def sorted_wrt_map_filter floor_upsert_exact
        floor_upsert_bounded)
qed


section \<open>Every step keeps the invariant\<close>

lemma versions_wf_cong:
  assumes "cd_resource_version db' = cd_resource_version db"
    and "set (stored_rows db') \<subseteq> set (stored_rows db)" and "set (cd_namespaces db') \<subseteq> set (cd_namespaces db)"
    and "set (cd_watch_events db') \<subseteq> set (cd_watch_events db)" and "versions_wf db"
  shows "versions_wf db'"
  using assms unfolding versions_wf_def by auto

lemma keys_wf_cong:
  "cd_namespaced db' = cd_namespaced db \<Longrightarrow> cd_cluster db' = cd_cluster db \<Longrightarrow> keys_wf db' = keys_wf db"
  by (simp add: keys_wf_def stored_rows_def)

lemma keys_wf_filter:
  assumes "keys_wf db" and "cd_namespaced db' = filter P (cd_namespaced db)" and "cd_cluster db' = filter Q (cd_cluster db)"
  shows "keys_wf db'"
  using assms by (auto simp: keys_wf_def stored_rows_def distinct_map_filter)

lemma index_wf_cong:
  "stored_rows db' = stored_rows db \<Longrightarrow> cd_index db' = cd_index db \<Longrightarrow> index_wf env db' = index_wf env db"
  by (simp add: index_wf_def)

lemma wf_store:
  assumes "db_wf env db" and "well_stamped rv data" and "named_scope scope" and "rv \<le> cd_resource_version db"
  shows "db_wf env (upsert_indexes_from_bytes env scope a k n data
    (upsert_resource_from_bytes scope a k n uid rv data db))"
proof -
  let ?db = "upsert_resource_from_bytes scope a k n uid rv data db"
  have keys: "keys_wf db" and index: "index_wf env db"
    using assms(1) by (simp_all add: db_wf_def)
  have "keys_wf (upsert_indexes_from_bytes env scope a k n data ?db)"
    unfolding keys_wf_cong [OF upsert_indexes_fields(2,3)] upsert_resource_rows
    by (rule keys_wf_upsert [OF keys assms(3)])
  moreover have "versions_wf (upsert_indexes_from_bytes env scope a k n data ?db)"
    using assms stored_row_upsert [OF keys assms(3)]
    unfolding versions_wf_def db_wf_def upsert_resource_rows by fastforce
  ultimately show ?thesis
    using assms(1) index_wf_store [OF keys index assms(3)]
    by (simp add: db_wf_def upsert_resource_rows)
qed

lemma wf_unstore:
  assumes "db_wf env db" and "named_scope scope"
  shows "db_wf env (delete_indexes_from_identity scope a k n (delete_resource_from_identity scope a k n db))"
proof -
  let ?db = "delete_indexes_from_identity scope a k n (delete_resource_from_identity scope a k n db)"
  let ?keep = "\<lambda>row. \<not> row_has_key a k (index_namespace scope) n row"
  have keys: "keys_wf db" and index: "index_wf env db"
    using assms(1) by (simp_all add: db_wf_def)
  have "keys_wf ?db"
  proof (cases scope)
    case (NamespacedRow ns)
    then show ?thesis
      by (intro keys_wf_filter [OF keys, of _ ?keep "\<lambda>_. True"]) (simp_all add: delete_resource_from_identity_def)
  next
    case ClusterRow
    then show ?thesis
      by (intro keys_wf_filter [OF keys, of _ "\<lambda>_. True" ?keep]) (simp_all add: delete_resource_from_identity_def)
  qed
  moreover have "versions_wf ?db"
    by (rule versions_wf_cong [of _ db]; cases scope)
      (use assms(1) in \<open>auto simp: db_wf_def delete_resource_from_identity_def stored_rows_def\<close>)
  ultimately show ?thesis
    using assms(1) index_wf_unstore [OF keys index assms(2)]
    by (simp add: db_wf_def delete_resource_from_identity_def)
qed

lemma table_step_version: "table_step env rv db db' \<Longrightarrow> cd_resource_version db' = cd_resource_version db"
proof (induction rule: table_step.induct)
  case (event_step e db db')
  from event_step(1) show ?case
    by (cases rule: insert_watch_event_cases) simp_all
qed (simp_all add: upsert_resource_rows delete_resource_from_identity_def delete_namespace_contents_in_tx_def
    gc_watch_events_in_tx_def Let_def)

lemma table_step_wf:
  assumes "table_step env rv db db'" and "db_wf env db" and "0 \<le> rv" and "rv \<le> cd_resource_version db"
  shows "db_wf env db'"
  using assms
proof (induction rule: table_step.induct)
  case (store_step data scope db a k n uid)
  then show ?case
    by (intro wf_store)
next
  case (reindex_step scope a k n db rv' uid data)
  then show ?case
    using index_wf_reindex by (simp add: db_wf_def versions_wf_def keys_wf_def)
next
  case (unstore_step scope db a k n)
  then show ?case
    by (intro wf_unstore)
next
  case (event_step e db db')
  have "history_wf (watch_store_of db')"
    using event_step by (intro log_wf_event [OF event_step(1)]) (auto simp: db_wf_def)
  moreover from event_step(1) have "keys_wf db' \<and> index_wf env db' \<and> versions_wf db'"
    by (cases rule: insert_watch_event_cases)
      (use event_step in \<open>auto simp: db_wf_def keys_wf_def index_wf_def versions_wf_def set_insort_key\<close>)
  ultimately show ?case
    by (simp add: db_wf_def)
next
  case (namespaces_step rows db)
  have "lnr_resource_version row \<le> cd_resource_version db \<and> well_stamped (lnr_resource_version row) (lnr_data row)"
    if "row \<in> set rows" for row
    using namespaces_step.hyps [OF that] namespaces_step.prems by (auto simp: db_wf_def versions_wf_def)
  then show ?case
    using namespaces_step.prems by (simp add: db_wf_def keys_wf_def index_wf_def versions_wf_def)
next
  case (contents_step db name)
  have frames: "cd_resource_version (delete_namespace_contents_in_tx name db) = cd_resource_version db"
    "cd_namespaces (delete_namespace_contents_in_tx name db) = cd_namespaces db"
    "cd_watch_events (delete_namespace_contents_in_tx name db) = cd_watch_events db"
    "watch_store_of (delete_namespace_contents_in_tx name db) = watch_store_of db"
    by (simp_all add: delete_namespace_contents_in_tx_def Let_def)
  have "keys_wf (delete_namespace_contents_in_tx name db)"
    by (rule keys_wf_filter [of db _ _ "\<lambda>_. True"]) (use contents_step in \<open>simp_all add: db_wf_def contents_rows\<close>)
  moreover have "versions_wf (delete_namespace_contents_in_tx name db)"
    by (rule versions_wf_cong [of _ db]) (use contents_step in \<open>auto simp: db_wf_def frames stored_rows_def contents_rows\<close>)
  ultimately show ?case
    using contents_step index_wf_contents by (simp add: db_wf_def frames)
next
  case (gc_step db max_rows batch_cap)
  have "versions_wf (gc_watch_events_in_tx max_rows batch_cap db)"
    by (rule versions_wf_cong [of _ db]) (use gc_step in \<open>auto simp: db_wf_def gc_watch_events_in_tx_def Let_def\<close>)
  then show ?case
    using gc_step log_wf_gc by (simp add: db_wf_def keys_wf_def index_wf_def gc_watch_events_in_tx_def Let_def)
qed (simp_all add: db_wf_def keys_wf_def index_wf_def versions_wf_def)

lemma table_steps_wf:
  assumes "table_steps env rv db db'" and "db_wf env db" and "0 \<le> rv" and "rv \<le> cd_resource_version db"
  shows "db_wf env db' \<and> cd_resource_version db' = cd_resource_version db"
  using assms
proof (induction rule: rtranclp_induct)
  case (step db1 db2)
  then show ?case
    using table_step_wf [OF step.hyps(2)] table_step_version [OF step.hyps(2)] by simp
qed simp


section \<open>What a step adds\<close>

text \<open>Relative to the tables an entry started from, every row that is new carries the version of the
  entry, and every new event has an id beyond those handed out before.\<close>

definition only_new :: "int \<Rightarrow> cluster_db \<Rightarrow> cluster_db \<Rightarrow> bool"
where
  "only_new rv db0 db \<longleftrightarrow>
    cd_event_sequence db0 \<le> cd_event_sequence db
    \<and> (\<forall>row \<in> set (stored_rows db). row \<in> set (stored_rows db0) \<or> rt_resource_version row = rv)
    \<and> (\<forall>row \<in> set (cd_namespaces db). row \<in> set (cd_namespaces db0) \<or> lnr_resource_version row = rv)
    \<and> (\<forall>row \<in> set (cd_watch_events db). row \<in> set (cd_watch_events db0)
         \<or> wer_resource_version row = rv \<and> cd_event_sequence db0 < wer_id row)"

lemma only_new_refl: "only_new rv db db"
  by (simp add: only_new_def)

lemma upserted_row_origin:
  "row \<in> set (stored_rows (upsert_resource_from_bytes scope a k n uid rv data db)) \<Longrightarrow>
    row \<in> set (stored_rows db) \<or> rt_resource_version row = rv"
  unfolding upsert_resource_rows by (cases scope) (auto simp: table_of_cases stored_rows_def dest!: in_upserted_rows)

lemma unstored_row_origin:
  "row \<in> set (stored_rows (delete_resource_from_identity scope a k n db)) \<Longrightarrow> row \<in> set (stored_rows db)"
  by (cases scope) (auto simp: delete_resource_from_identity_def stored_rows_def)

lemma table_step_only_new:
  assumes "table_step env rv db db'" and "only_new rv db0 db"
  shows "only_new rv db0 db'"
  using assms
proof (induction rule: table_step.induct)
  case (store_step data scope db a k n uid)
  have frames: "cd_event_sequence (upsert_resource_from_bytes scope a k n uid rv data db) = cd_event_sequence db"
    "cd_namespaces (upsert_resource_from_bytes scope a k n uid rv data db) = cd_namespaces db"
    "cd_watch_events (upsert_resource_from_bytes scope a k n uid rv data db) = cd_watch_events db"
    by (simp_all add: upsert_resource_rows)
  show ?case
    using store_step.prems unfolding only_new_def
    by (auto simp: upsert_indexes_from_bytes_def frames dest!: upserted_row_origin)
next
  case (reindex_step scope a k n db rv' uid data)
  then show ?case
    by (auto simp: only_new_def upsert_indexes_from_bytes_def)
next
  case (unstore_step scope db a k n)
  have frames: "cd_event_sequence (delete_resource_from_identity scope a k n db) = cd_event_sequence db"
    "cd_namespaces (delete_resource_from_identity scope a k n db) = cd_namespaces db"
    "cd_watch_events (delete_resource_from_identity scope a k n db) = cd_watch_events db"
    by (simp_all add: delete_resource_from_identity_def)
  show ?case
    using unstore_step.prems unfolding only_new_def
    by (auto simp: delete_indexes_from_identity_def frames dest!: unstored_row_origin)
next
  case (event_step e db db')
  from event_step(1) show ?case
    by (cases rule: insert_watch_event_cases) (use event_step in \<open>auto simp: only_new_def set_insort_key\<close>)
next
  case (namespaces_step rows db)
  then show ?case
    unfolding only_new_def by auto
next
  case (contents_step db name)
  then show ?case
    by (auto simp: only_new_def stored_rows_def delete_namespace_contents_in_tx_def Let_def)
next
  case (gc_step db max_rows batch_cap)
  then show ?case
    by (auto simp: only_new_def gc_watch_events_in_tx_def Let_def)
qed (simp_all add: only_new_def)

lemma table_steps_only_new:
  assumes "table_steps env rv db db'"
  shows "only_new rv db db'"
  using assms by (induction rule: rtranclp_induct) (blast intro: only_new_refl table_step_only_new)+

end
