(* ===== verification/Committed_Log.thy ===== *)
theory Committed_Log
  imports Apply_Invariants
begin

text \<open>
  Applying a log of committed entries. An entry that is applied is a sequence of table steps under one
  resourceVersion, so the invariant of the tables holds after every log, versions never decrease, and
  what an entry adds carries its version. Entries that are delivered again, rejected entries and the
  positions of outbox streams are the subject of \<^verbatim>\<open>Redelivery\<close>.
\<close>

section \<open>An applied entry is a sequence of table steps\<close>

fun unassigned :: "log_apply_mutation \<Rightarrow> bool"
where
  "unassigned (LA_PutResource row) \<longleftrightarrow> lrr_resource_version row = 0"
| "unassigned (LA_PutNamespace row) \<longleftrightarrow> lnr_resource_version row = 0"
| "unassigned (LA_PutWatchEvent row) \<longleftrightarrow> lwe_resource_version row = 0"
| "unassigned _ \<longleftrightarrow> True"

definition live_commit :: "log_apply_commit \<Rightarrow> bool"
  where "live_commit commit \<longleftrightarrow> list_all live_shaped (lac_mutations commit)"

definition ready :: "cluster_db \<Rightarrow> apply_commit \<Rightarrow> bool"
where
  "ready db commit \<longleftrightarrow>
    \<not> ac_preserve_historical_bytes commit \<and> ac_resource_version commit \<in> {0, cd_resource_version db}
    \<and> list_all live_shaped (ac_mutations commit) \<and> list_all unassigned (ac_mutations commit)"

lemma unversioned_unassigned: "unversioned m \<Longrightarrow> unassigned m"
  by (cases m) simp_all

lemma stamp_mutation_stamped:
  "unassigned m \<Longrightarrow> stamped rv (stamp_mutation env rv False m)"
  by (cases m) (auto simp: Let_def well_stamped_hydrate)

lemma stamp_mutation_shape [simp]: "live_shaped (stamp_mutation env rv preserve m) = live_shaped m"
  by (cases m) (auto simp: Let_def)

lemma ready_bound:
  assumes "ready db commit" and "ac_resource_version commit = 0 \<or> list_all is_put_applied_outbox (ac_mutations commit)"
  shows "ready db (resolve_bound_pod_finalizations_in_tx db commit)"
proof -
  have shape: "live_shaped x" if "x \<in> set (resolve_bound_pod_finalization db rv m)" "live_shaped m" for rv m x
    using that by (cases m) (auto split: option.splits if_splits)
  have assigned: "unassigned x"
    if "x \<in> set (resolve_bound_pod_finalization db rv m)" "unassigned m" "rv = 0 \<or> is_put_applied_outbox m" for rv m x
    using that by (cases m) (auto split: option.splits if_splits)
  show ?thesis
    using assms unfolding ready_def resolve_bound_pod_finalizations_in_tx_def
    by (auto simp: list_all_iff intro: shape assigned)
qed

lemma resolve_noop_put_same:
  "resolve_noop_put_resource_in_tx env row db = Ok (Some row') \<Longrightarrow> row' = row"
  by (auto simp: resolve_noop_put_resource_in_tx_def Let_def split: option.splits if_splits)

lemma resolve_noop_subset:
  "resolve_noop_mutations env db ms = Ok (ms', removed) \<Longrightarrow> set ms' \<subseteq> set ms"
proof (induction ms arbitrary: ms' removed)
  case (Cons m ms)
  show ?case
  proof (cases "\<exists>row. m = LA_PutResource row")
    case True
    then show ?thesis
      using Cons by (fastforce dest: resolve_noop_put_same split: option.splits)
  next
    case False
    then have "resolve_noop_mutations env db (m # ms) =
        result_bind (resolve_noop_mutations env db ms) (\<lambda>(resolved, removed). Ok (m # resolved, removed))"
      by (cases m) simp_all
    then show ?thesis
      using Cons by fastforce
  qed
qed simp

lemma ready_noop:
  assumes "ready db commit" and "resolve_noop_put_resources_in_tx env db commit = Ok commit'"
  shows "ready db commit' \<and> ac_outbox_watermark commit' = ac_outbox_watermark commit"
  using assms
  by (auto simp: ready_def resolve_noop_put_resources_in_tx_def list_all_iff dest!: resolve_noop_subset
      split: if_splits)

lemma stamp_ready:
  assumes "ready db commit" and "stamp_provisional_resource_version_in_tx env commit db = (commit', db1)"
  shows "db1 = db\<lparr>cd_resource_version := ac_resource_version commit'\<rparr>
    \<and> ac_resource_version commit' \<in> {cd_resource_version db, cd_resource_version db + 1}
    \<and> list_all live_shaped (ac_mutations commit')
    \<and> list_all (stamped (ac_resource_version commit')) (ac_mutations commit')
    \<and> ac_outbox_watermark commit' = ac_outbox_watermark commit"
  using assms
  by (auto simp: ready_def stamp_provisional_resource_version_in_tx_def next_resource_version_in_tx_def Let_def
      list_all_iff stamp_mutation_stamped split: if_splits)

definition committed_tables :: "apply_env \<Rightarrow> int \<Rightarrow> cluster_db \<Rightarrow> cluster_db \<Rightarrow> bool"
where
  "committed_tables env rv db db' \<longleftrightarrow>
    rv \<in> {cd_resource_version db, cd_resource_version db + 1}
    \<and> (\<exists>steps watermarks. table_steps env rv (db\<lparr>cd_resource_version := rv\<rparr>) steps
         \<and> cd_resource_version steps = rv \<and> db' = steps\<lparr>cd_watermarks := watermarks\<rparr>)"

lemma table_steps_version: "table_steps env rv db db' \<Longrightarrow> cd_resource_version db' = cd_resource_version db"
  by (induction rule: rtranclp_induct) (simp_all add: table_step_version)

lemma committed_tables_refl: "committed_tables env (cd_resource_version db) db db"
  unfolding committed_tables_def by (auto intro!: exI [of _ db] exI [of _ "cd_watermarks db"])

lemma committed_tables_steps:
  assumes "rv \<in> {cd_resource_version db, cd_resource_version db + 1}"
    and "table_steps env rv (db\<lparr>cd_resource_version := rv\<rparr>) db'"
  shows "committed_tables env rv db (advance_metadata_rv_to_at_least_tx rv (upsert_watermark_option w db'))"
proof -
  have version: "cd_resource_version db' = rv"
    using table_steps_version [OF assms(2)] by simp
  obtain watermarks where "upsert_watermark_option w db' = db'\<lparr>cd_watermarks := watermarks\<rparr>"
    by (cases w) (auto simp: upsert_watermark_option_def upsert_outbox_watermark_in_tx_def
        intro: that [of "cd_watermarks db'"])
  then have "advance_metadata_rv_to_at_least_tx rv (upsert_watermark_option w db') = db'\<lparr>cd_watermarks := watermarks\<rparr>"
    using version by (simp add: advance_metadata_rv_to_at_least_tx_def)
  then show ?thesis
    using assms version unfolding committed_tables_def by blast
qed

lemma committed_tables_ledger:
  assumes "committed_tables env rv db db'"
  shows "committed_tables env rv db (db'\<lparr>cd_applied_outbox := ledger\<rparr>)"
proof -
  obtain steps watermarks where rv: "rv \<in> {cd_resource_version db, cd_resource_version db + 1}"
    and steps: "table_steps env rv (db\<lparr>cd_resource_version := rv\<rparr>) steps" "cd_resource_version steps = rv"
    and db': "db' = steps\<lparr>cd_watermarks := watermarks\<rparr>"
    using assms unfolding committed_tables_def by blast
  have "table_steps env rv (db\<lparr>cd_resource_version := rv\<rparr>) (steps\<lparr>cd_applied_outbox := ledger\<rparr>)"
    using steps(1) ledger_step by (rule rtranclp.rtrancl_into_rtrancl)
  then show ?thesis
    using rv steps(2) unfolding committed_tables_def db'
    by (auto intro!: exI [of _ "steps\<lparr>cd_applied_outbox := ledger\<rparr>"] exI [of _ watermarks])
qed

lemma apply_stamped_tables:
  assumes applied: "apply_stamped_commit env decision emit commit (db\<lparr>cd_resource_version := ac_resource_version commit\<rparr>) =
      Ok ((rv, effects, resource), db')"
    and version: "ac_resource_version commit \<in> {cd_resource_version db, cd_resource_version db + 1}"
    and shape: "list_all live_shaped (ac_mutations commit)"
      "list_all (stamped (ac_resource_version commit)) (ac_mutations commit)"
  shows "committed_tables env rv db db'"
proof (cases "ac_outbox_watermark commit \<noteq> None \<and> ac_mutations commit = []")
  case True
  then show ?thesis
    using applied committed_tables_steps [OF version] by (auto simp: apply_stamped_commit_def Let_def)
next
  case False
  show ?thesis
  proof (cases decision)
    case ApplyEntry
    then show ?thesis
      using applied False apply_mutations_steps [OF _ shape]
      by (auto simp: apply_stamped_commit_def Let_def intro!: committed_tables_steps [OF version])
  next
    case DuplicateEntry
    then show ?thesis
      using applied False committed_tables_steps [OF version, of _ _ None]
      by (auto simp: apply_stamped_commit_def Let_def upsert_watermark_option_def)
  next
    case (GapEntry last_seq next_seq)
    then show ?thesis
      using applied False by (auto simp: apply_stamped_commit_def Let_def)
  qed
qed

lemma apply_commit_stages:
  assumes "apply_commit_in_tx_with_watch_events env commit0 emit db = Ok result"
  obtains decision commit2 commit db1 emit' where
    "outbox_watermark_decision_in_tx (ac_outbox_watermark commit0) db = Ok decision"
    "(if decision = ApplyEntry
      then resolve_noop_put_resources_in_tx env db (resolve_bound_pod_finalizations_in_tx db commit0)
      else Ok (resolve_bound_pod_finalizations_in_tx db commit0)) = Ok commit2"
    "stamp_provisional_resource_version_in_tx env commit2 db = (commit, db1)"
    "apply_stamped_commit env decision emit' commit db1 = Ok result"
    "emit' \<longleftrightarrow> emit \<and> \<not> list_ex is_put_watch_event (ac_mutations (resolve_bound_pod_finalizations_in_tx db commit0))"
proof -
  have watermark: "ac_outbox_watermark (resolve_bound_pod_finalizations_in_tx db commit0) = ac_outbox_watermark commit0"
    by (simp add: resolve_bound_pod_finalizations_in_tx_def)
  have "\<not> ac_resource_version commit0 < 0"
    using assms by (auto simp: apply_commit_in_tx_with_watch_events_def)
  then show ?thesis
    using assms unfolding apply_commit_in_tx_with_watch_events_def Let_def watermark
    by (simp only: if_False, elim result_bind_OkE, split prod.split_asm) (rule that, assumption+, rule refl)
qed

lemma apply_commit_tables:
  assumes applied: "apply_commit_in_tx_with_watch_events env commit0 emit db = Ok ((rv, effects, resource), db')"
    and ready0: "ready db commit0"
    and live: "ac_resource_version commit0 = 0 \<or> list_all is_put_applied_outbox (ac_mutations commit0)"
  shows "committed_tables env rv db db'"
  using applied
proof (rule apply_commit_stages)
  fix decision commit2 commit db1 emit'
  assume commit2: "(if decision = ApplyEntry
      then resolve_noop_put_resources_in_tx env db (resolve_bound_pod_finalizations_in_tx db commit0)
      else Ok (resolve_bound_pod_finalizations_in_tx db commit0)) = Ok commit2"
    and stamp: "stamp_provisional_resource_version_in_tx env commit2 db = (commit, db1)"
    and result: "apply_stamped_commit env decision emit' commit db1 = Ok ((rv, effects, resource), db')"
  have "ready db commit2"
    using commit2 ready_bound [OF ready0 live] ready_noop by (auto split: if_splits)
  then show ?thesis
    using apply_stamped_tables result stamp_ready [OF _ stamp] by blast
qed



section \<open>The outcomes of an entry\<close>

definition existing_record :: "log_apply_commit \<Rightarrow> cluster_db \<Rightarrow> log_apply_applied_outbox_row option"
where
  "existing_record commit db =
    Option.bind (find_map outbox_row (lac_mutations commit))
      (\<lambda>t. applied_outbox_record_in_tx (lao_idempotency_key t) db)"

definition silent :: "raft_log_apply_outcome \<Rightarrow> bool"
where
  "silent outcome \<longleftrightarrow> ro_pending outcome = [] \<and> (\<forall>rv r. ro_committed_outcome outcome \<noteq> Visible rv r)"

abbreviation attempt :: "apply_env \<Rightarrow> log_apply_commit \<Rightarrow> cluster_db \<Rightarrow> raft_log_apply_outcome tx_result"
where
  "attempt env commit db \<equiv>
    attempt_commit env commit (find_map outbox_row (lac_mutations commit)) (pod_status_target commit)
      (pod_state_in_tx (pod_status_target commit) db) db"

lemma outcome_try_new_committed [simp]: "ro_committed_outcome (outcome_try_new outcome pending effect) = outcome"
  by (simp add: outcome_try_new_def)

lemma silent_outcomes [simp]:
  "silent (outcome_try_new (NoPublicChange rv reason) [] effect)"
  "silent (outcome_try_new (RejectedCommit rejection) [] effect)"
  "silent (outcome_try_new (NoPublicChange rv reason) [] effect\<lparr>ro_returned_resource := r\<rparr>)"
  by (simp_all add: silent_def outcome_try_new_def)

text \<open>An entry that returns is silent and changes nothing, or it is recorded in the ledger because
  its status stamp is not new, or it is attempted. The last two happen only to an entry with a new
  idempotency key and a position that is not behind its stream.\<close>

definition fresh_entry :: "apply_env \<Rightarrow> log_apply_commit \<Rightarrow> cluster_db \<Rightarrow> bool"
where
  "fresh_entry env commit db \<longleftrightarrow>
    validate_template_in_tx env commit = Ok ()
    \<and> \<not> (lac_mutations commit = [] \<and> lac_outbox_watermark commit = None)
    \<and> existing_record commit db = None
    \<and> (\<exists>decision. outbox_watermark_decision_in_tx (lac_outbox_watermark commit) db = Ok decision
         \<and> decision \<noteq> DuplicateEntry)"

lemma raft_valid:
  "apply_commit_in_tx_for_raft env commit db = Ok r \<Longrightarrow> validate_template_in_tx env commit = Ok ()"
  unfolding apply_commit_in_tx_for_raft_def Let_def by (auto elim: result_bind_OkE)

lemma raft_decision:
  assumes "apply_commit_in_tx_for_raft env commit db = Ok r"
    and "\<not> (lac_mutations commit = [] \<and> lac_outbox_watermark commit = None)"
    and "existing_record commit db = None"
  obtains decision where "outbox_watermark_decision_in_tx (lac_outbox_watermark commit) db = Ok decision"
  using assms(1) [unfolded apply_commit_in_tx_for_raft_def Let_def raft_valid [OF assms(1)] result_bind.simps
      if_not_P [OF assms(2)] assms(3) [unfolded existing_record_def] option.case]
  by (rule result_bind_OkE) (rule that)

lemma redelivered_silent:
  assumes "(case Option.bind template (\<lambda>t. applied_outbox_record_in_tx (lao_idempotency_key t) db) of
      Some existing \<Rightarrow>
        result_bind (receipt_from_applied_outbox env existing) (\<lambda>(applied_rv, error_message, returned).
          case error_message of
            Some message \<Rightarrow>
              Ok (outcome_try_new (RejectedCommit (committed_rejection_from_message message)) [] unchanged, db)
          | None \<Rightarrow>
             (case applied_rv of
                None \<Rightarrow> Err (OtherError ''duplicate applied_outbox row has no applied resourceVersion'')
              | Some rv \<Rightarrow>
                  Ok ((outcome_try_new (NoPublicChange rv DuplicateIdempotencyKey) [] unchanged)
                        \<lparr>ro_returned_resource := returned\<rparr>, db)))
    | None \<Rightarrow> rest) = Ok (outcome, db')"
  shows "(db' = db \<and> silent outcome)
    \<or> Option.bind template (\<lambda>t. applied_outbox_record_in_tx (lao_idempotency_key t) db) = None
      \<and> rest = Ok (outcome, db')"
  using assms by (auto split: option.splits)

lemma raft_stages:
  assumes "apply_commit_in_tx_for_raft env commit db = Ok (outcome, db')"
  obtains
    (unchanged) "\<not> fresh_entry env commit db" "db' = db" "silent outcome"
      "existing_record commit db \<noteq> None \<or> (\<exists>rv reason. ro_committed_outcome outcome = NoPublicChange rv reason)"
  | (ledger) live rv pending resource reason effect where
      "fresh_entry env commit db"
      "from_live env (commit_with_outbox_rows_only commit) = Ok live"
      "apply_commit_in_tx_with_watch_events env (live\<lparr>ac_resource_version := cd_resource_version db\<rparr>) True db =
        Ok ((rv, pending, resource), db')"
      "outcome = outcome_try_new (NoPublicChange rv reason) pending effect"
  | (attempted) "fresh_entry env commit db" "attempt env commit db = Ok (outcome, db')"
proof -
  have valid: "validate_template_in_tx env commit = Ok ()"
    using assms by (rule raft_valid)
  show ?thesis
  proof (cases "lac_mutations commit = [] \<and> lac_outbox_watermark commit = None")
    case True
    then show ?thesis
      using assms valid by (intro unchanged) (auto simp: apply_commit_in_tx_for_raft_def Let_def fresh_entry_def)
  next
    case False
    note result = assms [unfolded apply_commit_in_tx_for_raft_def Let_def valid result_bind.simps if_not_P [OF False],
        THEN redelivered_silent]
    show ?thesis
    proof (cases "fresh_entry env commit db")
      case stale: False
      show ?thesis
      proof (cases "existing_record commit db")
        case None
        note rest = assms [unfolded apply_commit_in_tx_for_raft_def Let_def valid result_bind.simps if_not_P [OF False]
            None [unfolded existing_record_def] option.case]
        from rest obtain decision where
          decision: "outbox_watermark_decision_in_tx (lac_outbox_watermark commit) db = Ok decision"
          by (rule result_bind_OkE)
        then have "decision = DuplicateEntry"
          using stale valid False None by (auto simp: fresh_entry_def)
        then show ?thesis
          using rest decision stale by (intro unchanged) auto
      next
        case (Some row)
        then show ?thesis
          using result stale by (intro unchanged) (auto simp: existing_record_def)
      qed
    next
      case fresh: True
      then obtain decision where new: "existing_record commit db = None"
        and decision: "outbox_watermark_decision_in_tx (lac_outbox_watermark commit) db = Ok decision"
          "decision \<noteq> DuplicateEntry"
        by (auto simp: fresh_entry_def)
      note rest = assms [unfolded apply_commit_in_tx_for_raft_def Let_def valid result_bind.simps if_not_P [OF False]
          new [unfolded existing_record_def] option.case decision(1) if_not_P [OF decision(2)]]
      show ?thesis
      proof (cases "case stamped_pod_status_subject_and_stamp commit of
          Some (subject, stamp) \<Rightarrow> decide_status_stamp (max_status_stamp subject db) (Some stamp) = RecordLedgerOnly
        | None \<Rightarrow> False")
        case True
        then show ?thesis
          using rest by (auto split: option.splits elim!: result_bind_OkE intro: ledger [OF fresh])
      next
        case False
        then show ?thesis
          using rest by (intro attempted [OF fresh]) (auto split: option.splits)
      qed
    qed
  qed
qed

lemma attempt_stages:
  assumes "attempt env commit db = Ok (outcome, db')"
  obtains
    (applied) live emit rv pending resource db1 where
      "from_live env commit = Ok live"
      "apply_commit_in_tx_with_watch_events env live emit db = Ok ((rv, pending, resource), db1)"
      "update_metadata_receipt env (find_map outbox_row (lac_mutations commit)) rv resource db1 = Ok db'"
      "ro_pending outcome = pending"
      "ro_committed_outcome outcome \<in> {Visible rv resource, NoPublicChange rv LedgerOnly}"
      "emit \<longleftrightarrow> \<not> list_ex is_put_watch_event (lac_mutations commit)"
  | (rejected) code message where
      "apply_commit_in_tx_returning_rv_and_mutation env commit db = Err (ApplyConflict code message)"
      "ro_committed_outcome outcome =
        RejectedCommit (committed_rejection_from_conflict code (conflict_text code message))"
      "ro_pending outcome = []"
      "db' = reject_in_tx env (lac_outbox_watermark commit) (find_map outbox_row (lac_mutations commit))
        (conflict_text code message) db"
proof (cases "apply_commit_in_tx_returning_rv_and_mutation env commit db")
  case (Inl e)
  then show ?thesis
    using assms rejected by (cases e) (auto simp: attempt_commit_def outcome_try_new_def)
next
  case (Inr r)
  obtain rv pending resource db1 where r: "r = ((rv, pending, resource), db1)"
    by (metis prod.collapse)
  obtain live where "from_live env commit = Ok live"
    and "apply_commit_in_tx_with_watch_events env live (\<not> list_ex is_put_watch_event (lac_mutations commit)) db =
      Ok ((rv, pending, resource), db1)"
    using Inr unfolding r apply_commit_in_tx_returning_rv_and_mutation_def by (rule result_bind_OkE)
  then show ?thesis
    using assms Inr unfolding r
    by (intro applied) (auto simp: attempt_commit_def outcome_try_new_def Let_def elim!: result_bind_OkE split: if_splits)
qed


section \<open>The invariant of the log\<close>

lemma from_live_ready:
  assumes "from_live env commit = Ok live" and "live_commit commit"
  shows "ready db live" and "ac_resource_version live = 0"
    and "ac_mutations live = lac_mutations commit" and "ac_outbox_watermark live = lac_outbox_watermark commit"
  using assms
  by (auto simp: from_live_def validate_template_in_tx_def validate_live_template_Ok map_err_Ok_iff
      ready_def live_commit_def list_all_iff intro: unversioned_unassigned)

lemma live_commit_ledger [simp]: "live_commit commit \<Longrightarrow> live_commit (commit_with_outbox_rows_only commit)"
  by (auto simp: live_commit_def commit_with_outbox_rows_only_def list_all_iff)

lemma update_receipt_ledger:
  assumes "update_metadata_receipt env template rv resource db = Ok db'"
  shows "\<exists>ledger. db' = db\<lparr>cd_applied_outbox := ledger\<rparr>
    \<and> map lao_idempotency_key ledger = map lao_idempotency_key (cd_applied_outbox db)"
proof -
  have same: "\<exists>ledger. db = db\<lparr>cd_applied_outbox := ledger\<rparr>
      \<and> map lao_idempotency_key ledger = map lao_idempotency_key (cd_applied_outbox db)"
    by (rule exI [of _ "cd_applied_outbox db"]) simp
  show ?thesis
    using assms same unfolding update_metadata_receipt_def
    by (auto split: option.splits if_splits sum.splits)
qed


lemma reject_in_tx_tables:
  obtains watermarks ledger where
    "reject_in_tx env w template message db = db\<lparr>cd_watermarks := watermarks, cd_applied_outbox := ledger\<rparr>"
proof -
  have ledger: "\<exists>ledger. put_applied_outbox_in_tx row db' = db'\<lparr>cd_applied_outbox := ledger\<rparr>" for row db'
    by (auto simp: put_applied_outbox_in_tx_def Let_def)
  obtain watermarks where w: "upsert_watermark_option w db = db\<lparr>cd_watermarks := watermarks\<rparr>"
    by (cases w) (auto simp: upsert_watermark_option_def upsert_outbox_watermark_in_tx_def
        intro: that [of "cd_watermarks db"])
  show ?thesis
  proof (cases template)
    case None
    then show ?thesis
      using that [of "cd_applied_outbox db" watermarks] by (simp add: reject_in_tx_def w)
  next
    case (Some row)
    then show ?thesis
      using that ledger unfolding reject_in_tx_def w Let_def by fastforce
  qed
qed

lemma committed_tables_watermarks:
  assumes "committed_tables env rv db db'"
  shows "committed_tables env rv db (db'\<lparr>cd_watermarks := watermarks\<rparr>)"
proof -
  have again: "steps\<lparr>cd_watermarks := v, cd_watermarks := watermarks\<rparr> = steps\<lparr>cd_watermarks := watermarks\<rparr>"
    for steps :: cluster_db and v
    by simp
  show ?thesis
    using assms again unfolding committed_tables_def by blast
qed

lemma attempt_tables:
  assumes "attempt env commit db = Ok (outcome, db')" and "live_commit commit"
  shows "\<exists>rv. committed_tables env rv db db' \<and> (\<forall>v r. ro_committed_outcome outcome = Visible v r \<longrightarrow> v = rv)"
  using assms(1)
proof (cases rule: attempt_stages)
  case (applied live emit rv pending resource db1)
  have "committed_tables env rv db db1"
    by (rule apply_commit_tables [OF applied(2)]) (simp_all add: from_live_ready [OF applied(1) assms(2)])
  then have "committed_tables env rv db db'"
    using update_receipt_ledger [OF applied(3)] committed_tables_ledger by blast
  then show ?thesis
    using applied(5) by auto
next
  case (rejected code message)
  obtain watermarks ledger where "db' = db\<lparr>cd_watermarks := watermarks, cd_applied_outbox := ledger\<rparr>"
    unfolding rejected(4) by (rule reject_in_tx_tables)
  then have "committed_tables env (cd_resource_version db) db db'"
    using committed_tables_ledger committed_tables_watermarks committed_tables_refl by blast
  then show ?thesis
    using rejected(2) by auto
qed

lemma raft_tables:
  assumes "apply_commit_in_tx_for_raft env commit db = Ok (outcome, db')" and "live_commit commit"
  shows "\<exists>rv. committed_tables env rv db db' \<and> (\<forall>v r. ro_committed_outcome outcome = Visible v r \<longrightarrow> v = rv)"
  using assms(1)
proof (cases rule: raft_stages)
  case unchanged
  then show ?thesis
    using committed_tables_refl by (auto simp: silent_def)
next
  case (ledger live rv pending resource reason effect)
  note live = from_live_ready [OF ledger(2) live_commit_ledger [OF assms(2)]]
  have "committed_tables env rv db db'"
  proof (rule apply_commit_tables [OF ledger(3)])
    show "ready db (live\<lparr>ac_resource_version := cd_resource_version db\<rparr>)"
      using live(1) [of db] by (simp add: ready_def)
  qed (simp add: live(3) commit_with_outbox_rows_only_def list_all_iff)
  then show ?thesis
    using ledger(4) by (auto simp: outcome_try_new_def)
next
  case attempted
  show ?thesis
    by (rule attempt_tables [OF attempted(2) assms(2)])
qed

lemma committed_tables_wf:
  assumes "committed_tables env rv db db'" and "db_wf env db"
  shows "db_wf env db' \<and> cd_resource_version db' = rv"
proof -
  obtain steps watermarks where rv: "rv \<in> {cd_resource_version db, cd_resource_version db + 1}"
    and steps: "table_steps env rv (db\<lparr>cd_resource_version := rv\<rparr>) steps" "cd_resource_version steps = rv"
    and db': "db' = steps\<lparr>cd_watermarks := watermarks\<rparr>"
    using assms(1) unfolding committed_tables_def by blast
  have "db_wf env (db\<lparr>cd_resource_version := rv\<rparr>)"
    using assms(2) rv by (fastforce simp: db_wf_def keys_wf_def index_wf_def versions_wf_def log_wf_iff)
  moreover have "0 \<le> rv"
    using assms(2) rv by (auto simp: db_wf_def versions_wf_def)
  ultimately have "db_wf env steps"
    using table_steps_wf [OF steps(1)] by simp
  then show ?thesis
    using steps(2) by (simp add: db' db_wf_def keys_wf_def index_wf_def versions_wf_def)
qed

lemma committed_tables_only_new:
  assumes "committed_tables env rv db db'"
  shows "only_new rv db db' \<and> cd_resource_version db' = rv"
proof -
  obtain steps watermarks where
    steps: "table_steps env rv (db\<lparr>cd_resource_version := rv\<rparr>) steps" "cd_resource_version steps = rv"
    and db': "db' = steps\<lparr>cd_watermarks := watermarks\<rparr>"
    using assms unfolding committed_tables_def by blast
  show ?thesis
    using table_steps_only_new [OF steps(1)] steps(2) by (simp add: db' only_new_def)
qed

lemma apply_committed_cases:
  obtains (failed) e where "apply_committed env commit db = (Err e, db)"
  | (applied) outcome db' where "apply_committed env commit db = (Ok outcome, db')"
      and "apply_commit_in_tx_for_raft env commit db = Ok (outcome, db')"
proof (cases "apply_commit_in_tx_for_raft env commit db")
  case (Inl e)
  then show ?thesis
    by (intro failed [of e]) (simp add: apply_committed_def)
next
  case (Inr r)
  then show ?thesis
    by (cases r) (auto simp: apply_committed_def intro: applied)
qed

fun apply_log :: "apply_env \<Rightarrow> log_apply_commit list \<Rightarrow> cluster_db \<Rightarrow> cluster_db"
where
  "apply_log env [] db = db"
| "apply_log env (commit # log) db = apply_log env log (snd (apply_committed env commit db))"

definition empty_db :: cluster_db
where
  "empty_db =
    \<lparr>cd_resource_version = 0, cd_event_sequence = 0, cd_watch_events = [], cd_floors = [], cd_namespaced = [],
     cd_cluster = [], cd_namespaces = [], cd_index = \<lparr>ix_labels = [], ix_fields = [], ix_owner_refs = []\<rparr>,
     cd_applied_outbox = [], cd_watermarks = [], cd_pod_cleanup_intents = [], cd_klights_meta = [],
     cd_node_subnets = [], cd_node_dataplane = []\<rparr>"

lemma empty_db_wf: "db_wf env empty_db"
  by (simp add: db_wf_def keys_wf_def index_wf_def versions_wf_def log_wf_iff stored_rows_def empty_db_def
      unindexed_def)

lemma apply_committed_wf:
  assumes "live_commit commit" and "db_wf env db"
  shows "db_wf env (snd (apply_committed env commit db))"
proof (cases rule: apply_committed_cases [of env commit db])
  case (failed e)
  then show ?thesis
    using assms(2) by simp
next
  case (applied outcome db')
  then show ?thesis
    using raft_tables [OF applied(2) assms(1)] committed_tables_wf assms(2) by auto
qed

lemma apply_log_wf:
  assumes "list_all live_commit log" and "db_wf env db"
  shows "db_wf env (apply_log env log db)"
  using assms by (induction log arbitrary: db) (simp_all add: apply_committed_wf)


section \<open>Properties\<close>

text \<open>C4: The cluster database stays consistent under every log of committed entries. Starting from the
  empty database, after any entries have been applied, accepted or not, resource keys are unique, the
  indexes hold exactly the labels, fields and owners of the stored documents, no stored version is ahead
  of the public one, every document carries the version it is stored under, and the watch history is a
  well-formed log.\<close>

theorem committed_state_consistent:
  assumes "list_all live_commit log"
  shows "db_wf env (apply_log env log empty_db)"
  using assms empty_db_wf by (rule apply_log_wf)

text \<open>C6: An entry moves the public resourceVersion by at most one, never back, and everything it writes
  carries the version it ends with: a stored row, namespace or event that was not there before has that
  version, a new event has an id beyond all ids handed out before, and a visible outcome reports it.\<close>

theorem entry_advances_one_version:
  fixes db :: cluster_db
  assumes "live_commit commit" and "apply_committed env commit db = (result, db')"
  shows "cd_resource_version db' \<in> {cd_resource_version db, cd_resource_version db + 1}
    \<and> only_new (cd_resource_version db') db db'
    \<and> (\<forall>outcome rv resource. result = Ok outcome \<longrightarrow> ro_committed_outcome outcome = Visible rv resource
         \<longrightarrow> rv = cd_resource_version db')"
proof (cases rule: apply_committed_cases [of env commit db])
  case (failed e)
  then show ?thesis
    using assms(2) by (auto simp: only_new_refl)
next
  case (applied outcome' db1)
  obtain v where v: "committed_tables env v db db1"
    and visible: "\<And>u r. ro_committed_outcome outcome' = Visible u r \<Longrightarrow> u = v"
    using raft_tables [OF applied(2) assms(1)] by blast
  have "v \<in> {cd_resource_version db, cd_resource_version db + 1}"
    using v by (simp add: committed_tables_def)
  then show ?thesis
    using applied(1) assms(2) committed_tables_only_new [OF v] visible by auto
qed


section \<open>Examples\<close>

definition example_env :: apply_env
where
  "example_env =
    \<lparr>ae_json_text = (\<lambda>_. []), ae_float_text = (\<lambda>_. []), ae_rfc3339 = (\<lambda>_. None),
     ae_merge_patch = (\<lambda>_ patch. patch),
     ae_encode = (\<lambda>response. case response of
        Ack _ \<Rightarrow> Ok ''A'' | ErrorResponse message \<Rightarrow> Ok (CHR ''E'' # message) | _ \<Rightarrow> Err ''unsupported''),
     ae_decode = (\<lambda>bytes. case bytes of
        [] \<Rightarrow> Err ''empty'' | c # message \<Rightarrow> if c = CHR ''E'' then Ok (ErrorResponse message) else Ok (Ack 0))\<rparr>"

definition example_config :: "int option \<Rightarrow> log_apply_resource_row"
where
  "example_config expected_version =
    \<lparr>lrr_api_version = ''v1'', lrr_kind = ''ConfigMap'', lrr_namespace = Some ''apps'', lrr_name = ''settings'',
     lrr_uid = ''u1'', lrr_resource_version = 0,
     lrr_data = JObject [(''metadata'', JObject [(''labels'', JObject [(''tier'', JString ''web'')])])],
     lrr_require_absent = False, lrr_require_existing = (expected_version \<noteq> None), lrr_precondition_uid = None,
     lrr_precondition_resource_version = expected_version, lrr_status_only = False\<rparr>"

definition example_receipt :: "string \<Rightarrow> log_apply_applied_outbox_row"
where
  "example_receipt key =
    \<lparr>lao_idempotency_key = key, lao_subject_key = ''configmap'', lao_operation = ''Put'', lao_first_seen_ms = 0,
     lao_applied_rv = None, lao_result_proto = [], lao_status_stamp = None\<rparr>"

definition example_entry :: "int \<Rightarrow> string \<Rightarrow> int option \<Rightarrow> log_apply_commit"
where
  "example_entry seq key expected_version =
    \<lparr>lac_resource_version = 0,
     lac_outbox_watermark = Some \<lparr>osw_client_id = ''node-a'', osw_stream_id = 1, osw_stream_seq = seq\<rparr>,
     lac_mutations = [LA_PutResource (example_config expected_version), LA_PutAppliedOutbox (example_receipt key)]\<rparr>"

lemma example_entry_live: "live_commit (example_entry seq key expected_version)"
  by (simp add: live_commit_def example_entry_def example_config_def)

theorem committed_state_consistent_witness:
  "db_wf example_env (apply_log example_env [example_entry 1 ''k1'' None, example_entry 2 ''k2'' (Some 7)] empty_db)
    \<and> map rt_resource_version (cd_namespaced (apply_log example_env
        [example_entry 1 ''k1'' None, example_entry 2 ''k2'' (Some 7)] empty_db)) = [1]"
proof
  show "db_wf example_env (apply_log example_env
      [example_entry 1 ''k1'' None, example_entry 2 ''k2'' (Some 7)] empty_db)"
    by (rule committed_state_consistent) (simp add: example_entry_live)
  show "map rt_resource_version (cd_namespaced (apply_log example_env
      [example_entry 1 ''k1'' None, example_entry 2 ''k2'' (Some 7)] empty_db)) = [1]"
    by code_simp
qed

theorem entry_advances_one_version_witness:
  "cd_resource_version (snd (apply_committed example_env (example_entry 1 ''k1'' None) empty_db)) \<in> {0, 1}"
  using entry_advances_one_version [OF example_entry_live [of 1 "''k1''" None],
      OF prod.collapse [symmetric], of example_env empty_db]
  by (simp add: empty_db_def)

end
