(* ===== verification/Redelivery.thy ===== *)
theory Redelivery
  imports Committed_Log
begin

text \<open>
  Delivery of committed entries more than once: an entry of an outbox stream takes effect at most once,
  whatever is applied in between; positions of a stream are applied in order; a rejected entry leaves
  only its watermark and its ledger row, and is answered by the same rejection when it comes again.
\<close>

section \<open>What mutations leave alone\<close>

lemma insert_event_frame:
  assumes "insert_watch_event_in_conn e db = Ok db'"
  shows "cd_watermarks db' = cd_watermarks db \<and> cd_applied_outbox db' = cd_applied_outbox db"
  using assms by (cases rule: insert_watch_event_cases) simp_all

lemma emit_watch_frame:
  assumes "emit_watch_from_bytes emit scope a k n rv event_type data db = Ok (staged, db')"
  shows "cd_watermarks db' = cd_watermarks db \<and> cd_applied_outbox db' = cd_applied_outbox db"
  using assms insert_event_frame by (auto simp: emit_watch_from_bytes_def split: if_splits)

lemma row_ops_frame [simp]:
  "cd_watermarks (upsert_resource_from_bytes scope a k n uid rv data db) = cd_watermarks db"
  "cd_applied_outbox (upsert_resource_from_bytes scope a k n uid rv data db) = cd_applied_outbox db"
  "cd_watermarks (upsert_indexes_from_bytes env scope a k n data db) = cd_watermarks db"
  "cd_applied_outbox (upsert_indexes_from_bytes env scope a k n data db) = cd_applied_outbox db"
  "cd_watermarks (delete_resource_from_identity scope a k n db) = cd_watermarks db"
  "cd_applied_outbox (delete_resource_from_identity scope a k n db) = cd_applied_outbox db"
  "cd_watermarks (delete_indexes_from_identity scope a k n db) = cd_watermarks db"
  "cd_applied_outbox (delete_indexes_from_identity scope a k n db) = cd_applied_outbox db"
  by (simp_all add: upsert_resource_rows upsert_indexes_from_bytes_def delete_resource_from_identity_def
      delete_indexes_from_identity_def)

lemma put_resource_frame:
  assumes "apply_put_resource env row emit db = Ok (staged, db')"
  shows "cd_watermarks db' = cd_watermarks db \<and> cd_applied_outbox db' = cd_applied_outbox db"
  using assms unfolding apply_put_resource_def Let_def
  by (elim result_bind_OkE) (auto split: resource_write_decision.splits dest!: emit_watch_frame)

lemma patch_resource_frame:
  assumes "apply_patch_resource_latest env patch emit db = Ok (staged, db')"
  shows "cd_watermarks db' = cd_watermarks db \<and> cd_applied_outbox db' = cd_applied_outbox db"
  using assms unfolding apply_patch_resource_latest_def Let_def
  by (auto split: option.splits if_splits dest!: emit_watch_frame)

lemma delete_resource_frame:
  assumes "apply_delete_resource rv key emit db = Ok (staged, db')"
  shows "cd_watermarks db' = cd_watermarks db \<and> cd_applied_outbox db' = cd_applied_outbox db"
  using assms unfolding apply_delete_resource_def Let_def
  by (auto split: option.splits elim!: result_bind_OkE)
    (auto split: resource_delete_decision.splits dest!: emit_watch_frame)

lemma namespace_frame:
  "put_namespace_in_tx row emit db = Ok (staged, db') \<Longrightarrow>
    cd_watermarks db' = cd_watermarks db \<and> cd_applied_outbox db' = cd_applied_outbox db"
  "delete_namespace_in_tx rv name emit db = Ok (staged, db') \<Longrightarrow>
    cd_watermarks db' = cd_watermarks db \<and> cd_applied_outbox db' = cd_applied_outbox db"
  "apply_put_watch_event event db = Ok (effect, db') \<Longrightarrow>
    cd_watermarks db' = cd_watermarks db \<and> cd_applied_outbox db' = cd_applied_outbox db"
  unfolding put_namespace_in_tx_def delete_namespace_in_tx_def apply_put_watch_event_def Let_def
  by (auto split: option.splits if_splits dest!: insert_event_frame)

lemma table_field_frame:
  "cd_watermarks (delete_namespace_contents_in_tx name db) = cd_watermarks db"
  "cd_applied_outbox (delete_namespace_contents_in_tx name db) = cd_applied_outbox db"
  "cd_watermarks (gc_watch_events_in_tx max_rows cap db) = cd_watermarks db"
  "cd_applied_outbox (gc_watch_events_in_tx max_rows cap db) = cd_applied_outbox db"
  "put_node_subnet_in_tx subnet db = Ok db' \<Longrightarrow>
    cd_watermarks db' = cd_watermarks db \<and> cd_applied_outbox db' = cd_applied_outbox db"
  "allocate_node_subnet_in_tx allocation db = Ok db' \<Longrightarrow>
    cd_watermarks db' = cd_watermarks db \<and> cd_applied_outbox db' = cd_applied_outbox db"
  "put_node_dataplane_in_tx dataplane db = Ok db' \<Longrightarrow>
    cd_watermarks db' = cd_watermarks db \<and> cd_applied_outbox db' = cd_applied_outbox db"
  by (auto simp: delete_namespace_contents_in_tx_def gc_watch_events_in_tx_def put_node_subnet_in_tx_def
      allocate_node_subnet_in_tx_def put_node_dataplane_in_tx_def Let_def split: if_splits)

lemmas mutation_frames = put_resource_frame patch_resource_frame delete_resource_frame namespace_frame
  table_field_frame(5-7)

text \<open>Mutations never move a watermark, and only the ledger mutations change the ledger.\<close>

fun removes_ledger_rows :: "log_apply_mutation \<Rightarrow> bool"
where
  "removes_ledger_rows (LA_DeleteAppliedOutbox _) = True"
| "removes_ledger_rows (LA_GcAppliedOutbox _ _) = True"
| "removes_ledger_rows _ = False"

definition ledger_keys :: "cluster_db \<Rightarrow> string set"
  where "ledger_keys db = lao_idempotency_key ` set (cd_applied_outbox db)"

lemma mutation_watermarks:
  assumes "apply_cluster_mutation env rv emit (cluster_mutation_of m) effects db = Ok (effects', db')"
  shows "cd_watermarks db' = cd_watermarks db"
  using assms
  by (cases m)
    (auto simp: staged_effect_def no_effect_def table_field_frame(1-4) put_applied_outbox_in_tx_def
      delete_applied_outbox_in_tx_def gc_applied_outbox_in_tx_def put_pod_cleanup_intent_in_tx_def
      delete_pod_cleanup_intent_in_tx_def delete_pod_cleanup_intents_for_node_in_tx_def
      put_klights_meta_in_tx_def delete_node_subnet_in_tx_def delete_node_dataplane_in_tx_def Let_def
      split: if_splits dest: mutation_frames)

lemma put_ledger_keys [simp]:
  "ledger_keys (put_applied_outbox_in_tx row db) = insert (lao_idempotency_key row) (ledger_keys db)"
  by (auto simp: ledger_keys_def put_applied_outbox_in_tx_def Let_def list_ex_iff image_iff)

lemma mutation_ledger_keys:
  assumes "apply_cluster_mutation env rv emit (cluster_mutation_of m) effects db = Ok (effects', db')"
    and "\<not> removes_ledger_rows m"
  shows "ledger_keys db' = ledger_keys db \<union> lao_idempotency_key ` set_option (outbox_row m)"
proof (cases "\<exists>row. m = LA_PutAppliedOutbox row")
  case True
  then show ?thesis
    using assms by (auto simp: no_effect_def)
next
  case False
  then have "cd_applied_outbox db' = cd_applied_outbox db \<and> outbox_row m = None"
    using assms
    by (cases m)
      (auto simp: staged_effect_def no_effect_def table_field_frame(1-4) put_pod_cleanup_intent_in_tx_def
        delete_pod_cleanup_intent_in_tx_def delete_pod_cleanup_intents_for_node_in_tx_def
        put_klights_meta_in_tx_def delete_node_subnet_in_tx_def delete_node_dataplane_in_tx_def Let_def
        split: if_splits dest: mutation_frames)
  then show ?thesis
    by (simp add: ledger_keys_def)
qed

lemma apply_mutations_watermarks:
  "apply_mutations env rv emit ms effects db = Ok (effects', db') \<Longrightarrow> cd_watermarks db' = cd_watermarks db"
  by (induction ms arbitrary: effects db) (auto dest: mutation_watermarks)

lemma apply_mutations_ledger_keys:
  "apply_mutations env rv emit ms effects db = Ok (effects', db') \<Longrightarrow> \<not> list_ex removes_ledger_rows ms \<Longrightarrow>
    ledger_keys db' = ledger_keys db \<union> lao_idempotency_key ` set (List.map_filter outbox_row ms)"
  by (induction ms arbitrary: effects db)
    (auto simp: map_filter_simps dest!: mutation_ledger_keys split: option.splits)


section \<open>Positions of a stream\<close>

lemma same_stream_trans:
  "same_stream w v \<Longrightarrow> same_stream w v' \<longleftrightarrow> same_stream v v'"
  by (auto simp: same_stream_def)

lemma last_seq_upsert:
  "last_seq_in_tx w (upsert_outbox_watermark_in_tx v db) =
    (if same_stream w v then Some (osw_stream_seq v) else last_seq_in_tx w db)"
proof -
  let ?set = "\<lambda>x. if same_stream v x then x\<lparr>osw_stream_seq := osw_stream_seq v\<rparr> else x"
  have other: "map_option osw_stream_seq (List.find (same_stream w) (map ?set ws)) =
      map_option osw_stream_seq (List.find (same_stream w) ws)"
    if "\<not> same_stream w v" for ws
    using that by (induction ws) (auto simp: same_stream_def)
  have same: "map_option osw_stream_seq (List.find (same_stream w) (map ?set ws)) = Some (osw_stream_seq v)"
    if "same_stream w v" "list_ex (same_stream v) ws" for ws
    using that by (induction ws) (auto simp: same_stream_def)
  have appended: "map_option osw_stream_seq (List.find (same_stream w) (ws @ [v])) =
      (if same_stream w v then Some (osw_stream_seq v) else map_option osw_stream_seq (List.find (same_stream w) ws))"
    if "\<not> list_ex (same_stream v) ws" for ws
    using that by (induction ws) (auto simp: same_stream_def)
  have rows: "cd_watermarks (upsert_outbox_watermark_in_tx v db) =
      (if list_ex (same_stream v) (cd_watermarks db) then map ?set (cd_watermarks db) else cd_watermarks db @ [v])"
    by (simp add: upsert_outbox_watermark_in_tx_def)
  show ?thesis
    unfolding last_seq_in_tx_def rows
    by (cases "list_ex (same_stream v) (cd_watermarks db)"; cases "same_stream w v")
      (simp_all only: other same appended if_True if_False simp_thms)
qed

lemma last_seq_frame: "cd_watermarks db' = cd_watermarks db \<Longrightarrow> last_seq_in_tx w db' = last_seq_in_tx w db"
  by (simp add: last_seq_in_tx_def)

lemma decision_duplicate:
  "last_seq_in_tx w db = Some seq \<Longrightarrow> osw_stream_seq w \<le> seq \<Longrightarrow>
    outbox_watermark_decision_in_tx (Some w) db = Ok decision \<Longrightarrow> decision = DuplicateEntry"
  by (auto simp: outbox_watermark_decision_in_tx_def map_err_Ok_iff decide_outbox_watermark_def split: if_splits)

lemma decision_ahead:
  "outbox_watermark_decision_in_tx (Some w) db = Ok decision \<Longrightarrow> decision \<noteq> DuplicateEntry \<Longrightarrow>
    last_seq_in_tx w db = Some seq \<Longrightarrow> seq < osw_stream_seq w"
  by (auto simp: outbox_watermark_decision_in_tx_def map_err_Ok_iff decide_outbox_watermark_def split: if_splits)

text \<open>Where a fresh entry leaves the streams: its own position is recorded, no other stream moves.\<close>

definition advances :: "outbox_stream_watermark option \<Rightarrow> cluster_db \<Rightarrow> cluster_db \<Rightarrow> bool"
where
  "advances watermark db db' \<longleftrightarrow>
    (\<forall>w. last_seq_in_tx w db' =
      (case watermark of
         Some v \<Rightarrow> if same_stream w v then Some (osw_stream_seq v) else last_seq_in_tx w db
       | None \<Rightarrow> last_seq_in_tx w db))"

lemma advances_upsert: "advances watermark db (upsert_watermark_option watermark db)"
  by (auto simp: advances_def upsert_watermark_option_def last_seq_upsert split: option.split)

lemma advances_frame:
  "advances watermark db db1 \<Longrightarrow> cd_watermarks db' = cd_watermarks db1 \<Longrightarrow> advances watermark db db'"
  by (simp add: advances_def last_seq_in_tx_def)

lemma advances_start:
  "advances watermark db1 db' \<Longrightarrow> cd_watermarks db1 = cd_watermarks db \<Longrightarrow> advances watermark db db'"
  by (auto simp: advances_def last_seq_frame [of db1 db] split: option.split)

lemma cd_watermarks_advance [simp]:
  "cd_watermarks (advance_metadata_rv_to_at_least_tx rv db) = cd_watermarks db"
  "cd_applied_outbox (advance_metadata_rv_to_at_least_tx rv db) = cd_applied_outbox db"
  by (simp_all add: advance_metadata_rv_to_at_least_tx_def)

lemma stamp_frame:
  assumes "stamp_provisional_resource_version_in_tx env commit db = (commit', db1)"
  shows "cd_watermarks db1 = cd_watermarks db" and "cd_applied_outbox db1 = cd_applied_outbox db"
    and "ac_outbox_watermark commit' = ac_outbox_watermark commit"
  using assms
  by (auto simp: stamp_provisional_resource_version_in_tx_def next_resource_version_in_tx_def Let_def split: if_splits)

lemma apply_stamped_advances:
  assumes "apply_stamped_commit env decision emit commit db = Ok (result, db')" and "decision \<noteq> DuplicateEntry"
  shows "advances (ac_outbox_watermark commit) db db'"
proof (cases "ac_outbox_watermark commit \<noteq> None \<and> ac_mutations commit = []")
  case True
  then show ?thesis
    using assms(1) by (auto simp: apply_stamped_commit_def Let_def intro: advances_frame [OF advances_upsert])
next
  case False
  then obtain effects db2 where "decision = ApplyEntry"
    and mutations: "apply_mutations env (ac_resource_version commit) emit (ac_mutations commit) [] db = Ok (effects, db2)"
    and db': "db' = advance_metadata_rv_to_at_least_tx (ac_resource_version commit)
      (upsert_watermark_option (ac_outbox_watermark commit) db2)"
    using assms by (cases decision) (auto simp: apply_stamped_commit_def Let_def)
  have "advances (ac_outbox_watermark commit) db2 db'"
    unfolding db' by (rule advances_frame [OF advances_upsert]) simp
  then show ?thesis
    using apply_mutations_watermarks [OF mutations] by (rule advances_start)
qed

lemma resolved_watermark:
  "resolve_noop_put_resources_in_tx env db commit = Ok commit' \<Longrightarrow> ac_outbox_watermark commit' = ac_outbox_watermark commit"
  "ac_outbox_watermark (resolve_bound_pod_finalizations_in_tx db commit) = ac_outbox_watermark commit"
  by (auto simp: resolve_noop_put_resources_in_tx_def resolve_bound_pod_finalizations_in_tx_def split: if_splits)

lemma apply_commit_advances:
  assumes applied: "apply_commit_in_tx_with_watch_events env commit emit db = Ok (result, db')"
    and decision: "outbox_watermark_decision_in_tx (ac_outbox_watermark commit) db = Ok decision"
      "decision \<noteq> DuplicateEntry"
  shows "advances (ac_outbox_watermark commit) db db'"
  using applied
proof (rule apply_commit_stages)
  fix decision' commit2 commit' db1 emit'
  assume "outbox_watermark_decision_in_tx (ac_outbox_watermark commit) db = Ok decision'"
    and commit2: "(if decision' = ApplyEntry
      then resolve_noop_put_resources_in_tx env db (resolve_bound_pod_finalizations_in_tx db commit)
      else Ok (resolve_bound_pod_finalizations_in_tx db commit)) = Ok commit2"
    and stamp: "stamp_provisional_resource_version_in_tx env commit2 db = (commit', db1)"
    and result: "apply_stamped_commit env decision' emit' commit' db1 = Ok (result, db')"
  then have "decision' = decision"
    using decision by simp
  moreover have "ac_outbox_watermark commit2 = ac_outbox_watermark commit"
    using commit2 by (auto simp: resolved_watermark split: if_splits)
  ultimately show ?thesis
    using apply_stamped_advances [OF result] decision(2) stamp_frame [OF stamp] advances_start by metis
qed

lemma from_live_watermark:
  "from_live env commit = Ok live \<Longrightarrow>
    ac_outbox_watermark live = lac_outbox_watermark commit \<and> ac_mutations live = lac_mutations commit"
  by (auto simp: from_live_def)

lemma reject_advances: "advances w db (reject_in_tx env w template message db)"
  by (rule advances_frame [OF advances_upsert])
    (auto simp: reject_in_tx_def put_applied_outbox_in_tx_def Let_def split: option.split)

text \<open>Every entry that returns either changes nothing or was fresh and advances its stream.\<close>

lemma raft_advances:
  assumes "apply_commit_in_tx_for_raft env commit db = Ok (outcome, db')"
  shows "if fresh_entry env commit db then advances (lac_outbox_watermark commit) db db'
    else db' = db \<and> silent outcome"
  using assms
proof (cases rule: raft_stages)
  case unchanged
  then show ?thesis
    by simp
next
  case (ledger live rv pending resource reason effect)
  obtain decision where "outbox_watermark_decision_in_tx (lac_outbox_watermark commit) db = Ok decision"
    and "decision \<noteq> DuplicateEntry"
    using ledger(1) by (auto simp: fresh_entry_def)
  moreover have "ac_outbox_watermark live = lac_outbox_watermark commit"
    using from_live_watermark [OF ledger(2)] by (simp add: commit_with_outbox_rows_only_def)
  ultimately show ?thesis
    using apply_commit_advances [OF ledger(3)] ledger(1) by simp
next
  case attempted
  obtain decision where decision: "outbox_watermark_decision_in_tx (lac_outbox_watermark commit) db = Ok decision"
      "decision \<noteq> DuplicateEntry"
    using attempted(1) by (auto simp: fresh_entry_def)
  from attempted(2) have "advances (lac_outbox_watermark commit) db db'"
  proof (cases rule: attempt_stages)
    case (applied live emit rv pending resource db1)
    have "advances (lac_outbox_watermark commit) db db1"
      using apply_commit_advances [OF applied(2)] decision from_live_watermark [OF applied(1)] by simp
    then show ?thesis
      using update_receipt_ledger [OF applied(3)] by (auto intro: advances_frame)
  next
    case (rejected code message)
    then show ?thesis
      by (simp add: reject_advances)
  qed
  then show ?thesis
    using attempted(1) by simp
qed

lemma apply_committed_advances:
  "snd (apply_committed env commit db) = db
    \<or> fresh_entry env commit db \<and> advances (lac_outbox_watermark commit) db (snd (apply_committed env commit db))"
proof (cases rule: apply_committed_cases [of env commit db])
  case (applied outcome db')
  then show ?thesis
    using raft_advances [OF applied(2)] by (auto split: if_splits)
qed simp

text \<open>A position that has been passed stays passed.\<close>

definition passed :: "outbox_stream_watermark \<Rightarrow> cluster_db \<Rightarrow> bool"
  where "passed w db \<longleftrightarrow> is_some_and (last_seq_in_tx w db) (\<lambda>seq. osw_stream_seq w \<le> seq)"

lemma passed_apply_committed:
  assumes "passed w db"
  shows "passed w (snd (apply_committed env commit db))"
proof (cases "snd (apply_committed env commit db) = db")
  case False
  then have fresh: "fresh_entry env commit db"
    and advanced: "advances (lac_outbox_watermark commit) db (snd (apply_committed env commit db))"
    using apply_committed_advances by blast+
  obtain seq where seq: "last_seq_in_tx w db = Some seq" "osw_stream_seq w \<le> seq"
    using assms by (auto simp: passed_def is_some_and_iff)
  show ?thesis
  proof (cases "lac_outbox_watermark commit")
    case None
    then show ?thesis
      using advanced assms by (simp add: passed_def advances_def)
  next
    case (Some v)
    have "seq < osw_stream_seq v" if "same_stream w v"
    proof -
      have "last_seq_in_tx v db = Some seq"
        using seq(1) that by (simp add: last_seq_in_tx_def same_stream_def cong: find_cong)
      then show ?thesis
        using fresh decision_ahead unfolding fresh_entry_def Some by blast
    qed
    then show ?thesis
      using advanced seq Some by (auto simp: passed_def advances_def)
  qed
qed (use assms in simp)

lemma passed_apply_log: "passed w db \<Longrightarrow> passed w (apply_log env log db)"
  by (induction log arbitrary: db) (simp_all add: passed_apply_committed)

lemma passed_silent:
  assumes "passed w db" and "lac_outbox_watermark commit = Some w"
  shows "snd (apply_committed env commit db) = db
    \<and> (\<forall>outcome. fst (apply_committed env commit db) = Ok outcome \<longrightarrow> silent outcome)"
proof (cases rule: apply_committed_cases [of env commit db])
  case (applied outcome db')
  have "\<not> fresh_entry env commit db"
    using assms decision_duplicate unfolding fresh_entry_def passed_def by (auto simp: is_some_and_iff)
  then show ?thesis
    using raft_advances [OF applied(2)] applied(1) by simp
qed simp


section \<open>Typed conflicts\<close>

text \<open>Every conflict that an attempt reports is a violated precondition, so its text determines it.\<close>

definition typed :: "db_error \<Rightarrow> bool"
where
  "typed e \<longleftrightarrow> (\<forall>code message. e = ApplyConflict code message \<longrightarrow> (\<exists>v. e = apply_precondition_error v))"

lemma typed_simps [simp]:
  "typed (OtherError m)" "typed (SqliteError m)" "typed (apply_precondition_error v)"
  unfolding typed_def by blast+

lemma map_err_Err_iff: "map_err f r = Err e \<longleftrightarrow> (\<exists>e'. r = Err e' \<and> e = f e')"
  by (cases r) auto

lemma typed_map_err: "map_err apply_precondition_error r = Err e \<Longrightarrow> typed e"
  by (auto simp: map_err_Err_iff)

lemma typed_insert_event: "insert_watch_event_in_conn event db = Err e \<Longrightarrow> typed e"
  by (auto simp: insert_watch_event_in_conn_def Let_def split: option.splits if_splits)

lemma typed_emit: "emit_watch_from_bytes emit scope a k n rv t data db = Err e \<Longrightarrow> typed e"
  by (auto simp: emit_watch_from_bytes_def dest: typed_insert_event split: if_splits)

lemma typed_validate: "validate_put_resource_apply_preconditions row existing = Err e \<Longrightarrow> typed e"
  unfolding validate_put_resource_apply_preconditions_def by (rule typed_map_err)

lemma typed_normalize: "normalize_committed_resource_for_apply env row existing = Err e \<Longrightarrow> typed e"
  by (auto simp: normalize_committed_resource_for_apply_def merge_status_only_row_with_existing_def Let_def
      split: option.splits if_splits)

lemma result_bind_ErrE:
  assumes "result_bind r f = Err e"
  obtains (first) "r = Err e" | (second) a where "r = Ok a" and "f a = Err e"
  using assms by (cases r) auto

lemma typed_put: "apply_put_resource env row emit db = Err e \<Longrightarrow> typed e"
  unfolding apply_put_resource_def Let_def
  by (elim result_bind_ErrE)
    (auto dest: typed_validate typed_normalize typed_emit split: resource_write_decision.splits)

lemma typed_patch: "apply_patch_resource_latest env patch emit db = Err e \<Longrightarrow> typed e"
proof -
  have not_found: "ApplyConflict ConflictNotFound ''Resource not found (404 Not Found)'' = apply_precondition_error NotFound"
    by simp
  have patched: "typed e" if "apply_latest_patch_to_current_resource env patch rv uid data ns = Err e" for rv uid data ns
    using that unfolding apply_latest_patch_to_current_resource_def Let_def
    by (auto simp: map_err_Err_iff)
  show "typed e" if "apply_patch_resource_latest env patch emit db = Err e"
    using that unfolding apply_patch_resource_latest_def Let_def not_found
    by (auto split: option.splits if_splits dest: patched typed_emit simp del: apply_precondition_error.simps)
qed

lemma typed_delete: "apply_delete_resource rv key emit db = Err e \<Longrightarrow> typed e"
  unfolding apply_delete_resource_def Let_def
  by (auto split: option.splits elim!: result_bind_ErrE)
    (auto dest: typed_map_err typed_emit split: resource_delete_decision.splits)

lemma typed_namespaces:
  "put_namespace_in_tx row emit db = Err e \<Longrightarrow> typed e"
  "delete_namespace_in_tx rv name emit db = Err e \<Longrightarrow> typed e"
  "apply_put_watch_event event db = Err e \<Longrightarrow> typed e"
  by (auto simp: put_namespace_in_tx_def delete_namespace_in_tx_def apply_put_watch_event_def Let_def
      dest: typed_insert_event split: option.splits if_splits)

lemma typed_network:
  "put_node_subnet_in_tx subnet db = Err e \<Longrightarrow> typed e"
  "allocate_node_subnet_in_tx allocation db = Err e \<Longrightarrow> typed e"
  "put_node_dataplane_in_tx dataplane db = Err e \<Longrightarrow> typed e"
proof -
  show put: "typed e" if "put_node_subnet_in_tx subnet db = Err e" for subnet
    using that by (auto simp: put_node_subnet_in_tx_def Let_def split: if_splits)
  have "typed e" if "allocate_node_subnet_row allocation db = Err e"
    using that unfolding allocate_node_subnet_row_def Let_def by (auto split: sum.splits option.splits if_splits)
  then show "typed e" if "allocate_node_subnet_in_tx allocation db = Err e"
    using that put by (auto simp: allocate_node_subnet_in_tx_def)
  show "typed e" if "put_node_dataplane_in_tx dataplane db = Err e"
    using that by (auto simp: put_node_dataplane_in_tx_def Let_def split: if_splits)
qed

lemma typed_mutation:
  assumes "apply_cluster_mutation env rv emit (cluster_mutation_of m) effects db = Err e"
  shows "typed e"
  using assms
  by (cases m)
    (auto simp: staged_effect_def no_effect_def split: if_splits
      dest: typed_put typed_patch typed_delete typed_namespaces typed_network)

lemma typed_mutations: "apply_mutations env rv emit ms effects db = Err e \<Longrightarrow> typed e"
  by (induction ms arbitrary: effects db) (auto dest: typed_mutation)

lemma typed_noop: "resolve_noop_mutations env db ms = Err e \<Longrightarrow> typed e"
proof (induction ms)
  case (Cons m ms)
  have put: "typed e" if "resolve_noop_put_resource_in_tx env row db = Err e" for row
    using that
    by (auto simp: resolve_noop_put_resource_in_tx_def Let_def dest: typed_validate typed_normalize
        split: option.splits if_splits)
  show ?case
    using Cons by (cases m) (auto dest: put split: option.splits)
qed simp

lemma typed_apply_commit:
  assumes "apply_commit_in_tx_with_watch_events env commit emit db = Err e"
  shows "typed e"
proof -
  have decision: "typed e" if "outbox_watermark_decision_in_tx w db = Err e" for w
    using that unfolding outbox_watermark_decision_in_tx_def map_err_Err_iff by auto
  have noop: "typed e" if "resolve_noop_put_resources_in_tx env db c = Err e" for c
    using that by (auto simp: resolve_noop_put_resources_in_tx_def dest: typed_noop split: if_splits)
  have stamped: "typed e" if "apply_stamped_commit env d emit' c db1 = Err e" for d emit' c db1
    using that
    by (auto simp: apply_stamped_commit_def Let_def dest: typed_mutations
        split: outbox_watermark_decision.splits if_splits)
  show ?thesis
    using assms unfolding apply_commit_in_tx_with_watch_events_def Let_def
    by (auto elim!: result_bind_ErrE dest: decision noop stamped split: if_split_asm)
      (auto dest: stamped split: prod.splits)
qed

lemma str_contains_prefix: "str_contains needle (needle @ rest)"
  by (cases needle; cases rest) auto

lemma str_contains_append: "str_contains needle text \<Longrightarrow> str_contains needle (pre @ text)"
  by (induction pre) auto

lemma conflict_text_determines:
  assumes "typed (ApplyConflict code message)"
  shows "committed_rejection_from_message (conflict_text code message) =
    committed_rejection_from_conflict code (conflict_text code message)"
proof -
  obtain v where v: "ApplyConflict code message = apply_precondition_error v"
    using assms by (auto simp: typed_def)
  show ?thesis
  proof (cases v)
    case (ResourceVersion expected actual)
    then have "str_contains ''resourceVersion'' message" and code: "code = ConflictResourceVersionPrecondition"
      using v str_contains_prefix [of "''resourceVersion''"] by simp_all
    then have "str_contains ''resourceVersion'' (conflict_text code message)"
      unfolding conflict_text_def by (intro str_contains_append)
    then show ?thesis
      by (simp add: committed_rejection_from_message_def code)
  qed (use v in \<open>simp_all add: conflict_text_def committed_rejection_from_message_def\<close>)
qed


section \<open>Delivered again\<close>

lemma first_delivery_passed:
  assumes applied: "apply_commit_in_tx_for_raft env commit db = Ok (outcome, db')"
    and new: "existing_record commit db = None" and w: "lac_outbox_watermark commit = Some w"
  shows "passed w db'"
proof (cases "fresh_entry env commit db")
  case True
  then show ?thesis
    using raft_advances [OF applied] w by (simp add: passed_def advances_def same_stream_def)
next
  case False
  obtain decision where "outbox_watermark_decision_in_tx (Some w) db = Ok decision"
    using raft_decision [OF applied _ new] w by auto
  then have duplicate: "outbox_watermark_decision_in_tx (Some w) db = Ok DuplicateEntry"
    using False raft_valid [OF applied] new w by (auto simp: fresh_entry_def)
  have "db' = db"
    using applied False by (auto elim: raft_stages)
  then show ?thesis
    using duplicate
    by (auto simp: passed_def outbox_watermark_decision_in_tx_def decide_outbox_watermark_def
        split: if_splits option.splits)
qed


lemma find_record:
  "applied_outbox_record_in_tx (lao_idempotency_key row) (put_applied_outbox_in_tx row db) = Some row"
proof -
  have replaced: "List.find (\<lambda>r. lao_idempotency_key r = lao_idempotency_key row)
      (map (\<lambda>r. if lao_idempotency_key r = lao_idempotency_key row then row else r) rows) = Some row"
    if "list_ex (\<lambda>r. lao_idempotency_key r = lao_idempotency_key row) rows" for rows
    using that by (induction rows) auto
  have appended: "List.find (\<lambda>r. lao_idempotency_key r = lao_idempotency_key row) (rows @ [row]) = Some row"
    if "\<not> list_ex (\<lambda>r. lao_idempotency_key r = lao_idempotency_key row) rows" for rows
    using that by (induction rows) auto
  show ?thesis
    using replaced appended by (simp add: applied_outbox_record_in_tx_def put_applied_outbox_in_tx_def Let_def)
qed

definition codec_keeps_errors :: "apply_env \<Rightarrow> bool"
where
  "codec_keeps_errors env \<longleftrightarrow>
    (\<forall>message. \<exists>bytes. ae_encode env (ErrorResponse message) = Ok bytes \<and> ae_decode env bytes = Ok (ErrorResponse message))"

lemma rejected_again:
  assumes codec: "codec_keeps_errors env"
    and valid: "validate_template_in_tx env commit = Ok ()"
    and template: "find_map outbox_row (lac_mutations commit) = Some t"
  shows "\<exists>outcome. apply_committed env commit (reject_in_tx env w (Some t) message db) =
      (Ok outcome, reject_in_tx env w (Some t) message db)
    \<and> ro_committed_outcome outcome = RejectedCommit (committed_rejection_from_message message)
    \<and> silent outcome"
proof -
  let ?db = "reject_in_tx env w (Some t) message db"
  obtain bytes where bytes: "ae_encode env (ErrorResponse message) = Ok bytes"
    "ae_decode env bytes = Ok (ErrorResponse message)"
    using codec by (auto simp: codec_keeps_errors_def)
  let ?row = "t\<lparr>lao_applied_rv := None, lao_result_proto := bytes\<rparr>"
  have "?db = put_applied_outbox_in_tx ?row (upsert_watermark_option w db)"
    by (simp add: reject_in_tx_def bytes)
  then have existing: "applied_outbox_record_in_tx (lao_idempotency_key t) ?db = Some ?row"
    using find_record [of ?row "upsert_watermark_option w db"] by simp
  have "lac_mutations commit \<noteq> []"
    using template by auto
  then show ?thesis
    using existing
    by (simp add: apply_committed_def apply_commit_in_tx_for_raft_def Let_def valid template
        receipt_from_applied_outbox_def bytes)
qed

lemma rejected_first_delivery:
  assumes "apply_commit_in_tx_for_raft env commit db = Ok (outcome, db')"
    and "existing_record commit db = None" and "ro_committed_outcome outcome = RejectedCommit rejection"
    and "find_map outbox_row (lac_mutations commit) = Some t"
  shows "\<exists>message. validate_template_in_tx env commit = Ok () \<and> silent outcome
    \<and> rejection = committed_rejection_from_message message
    \<and> db' = reject_in_tx env (lac_outbox_watermark commit) (Some t) message db"
proof (cases "fresh_entry env commit db")
  case True
  from assms(1) show ?thesis
  proof (cases rule: raft_stages)
    case unchanged
    then show ?thesis
      using True by simp
  next
    case (ledger live rv pending resource reason effect)
    then show ?thesis
      using assms(3) by (simp add: outcome_try_new_def)
  next
    case attempted
    from attempted(2) show ?thesis
    proof (cases rule: attempt_stages)
      case (applied live emit rv pending resource db1)
      then show ?thesis
        using assms(3) by auto
    next
      case (rejected code message)
      have "typed (ApplyConflict code message)"
        using rejected(1) typed_apply_commit
        by (auto simp: apply_commit_in_tx_returning_rv_and_mutation_def from_live_def validate_template_in_tx_def
            map_err_Err_iff)
      then have "rejection = committed_rejection_from_message (conflict_text code message)"
        using conflict_text_determines rejected(2) assms(3) by simp
      then show ?thesis
        using True rejected(2-4) assms(4) by (auto simp: fresh_entry_def silent_def)
    qed
  qed
next
  case False
  from assms(1) show ?thesis
    by (cases rule: raft_stages) (use False assms(2,3) in auto)
qed


text \<open>A gap is an error of the attempt, not a conflict, if the entry carries a ledger row.\<close>

lemma outbox_row_Some: "outbox_row m = Some t \<longleftrightarrow> m = LA_PutAppliedOutbox t"
  by (cases m) auto

lemma find_map_Some_in: "find_map f xs = Some y \<Longrightarrow> \<exists>x \<in> set xs. f x = Some y"
  by (induction xs) (auto split: option.splits)

lemma gap_refused:
  assumes "outbox_watermark_decision_in_tx (ac_outbox_watermark commit) db = Ok (GapEntry last_seq next_seq)"
    and "LA_PutAppliedOutbox t \<in> set (ac_mutations commit)"
  shows "\<exists>message. apply_commit_in_tx_with_watch_events env commit emit db = Err (OtherError message)"
proof -
  have "LA_PutAppliedOutbox t \<in> set (ac_mutations (resolve_bound_pod_finalizations_in_tx db commit))"
    using assms(2) by (force simp: resolve_bound_pod_finalizations_in_tx_def)
  then have "ac_mutations commit' \<noteq> []"
    if "stamp_provisional_resource_version_in_tx env (resolve_bound_pod_finalizations_in_tx db commit) db = (commit', db1)"
    for commit' db1
    using that by (auto simp: stamp_provisional_resource_version_in_tx_def Let_def split: prod.splits)
  then show ?thesis
    using assms(1)
    by (auto simp: apply_commit_in_tx_with_watch_events_def Let_def resolved_watermark apply_stamped_commit_def
        split: prod.split)
qed

lemma new_entry_decision:
  assumes applied: "apply_commit_in_tx_for_raft env commit db = Ok (outcome, db')"
    and new: "existing_record commit db = None"
    and template: "find_map outbox_row (lac_mutations commit) = Some t"
  shows "outbox_watermark_decision_in_tx (lac_outbox_watermark commit) db \<in> {Ok DuplicateEntry, Ok ApplyEntry}"
proof -
  have row: "LA_PutAppliedOutbox t \<in> set (lac_mutations commit)"
    using find_map_Some_in [OF template] by (auto simp: outbox_row_Some)
  obtain decision where
    decision: "outbox_watermark_decision_in_tx (lac_outbox_watermark commit) db = Ok decision"
    by (rule raft_decision [OF applied _ new]) (use row in auto)
  have "decision \<noteq> GapEntry last_seq next_seq" for last_seq next_seq
  proof
    assume gap: "decision = GapEntry last_seq next_seq"
    from applied show False
    proof (cases rule: raft_stages)
      case unchanged
      then show ?thesis
        using gap decision raft_valid [OF applied] new row by (auto simp: fresh_entry_def)
    next
      case (ledger live rv pending resource reason effect)
      have "LA_PutAppliedOutbox t \<in> set (ac_mutations live)" "ac_outbox_watermark live = lac_outbox_watermark commit"
        using from_live_watermark [OF ledger(2)] row by (auto simp: commit_with_outbox_rows_only_def)
      then have "\<exists>message. apply_commit_in_tx_with_watch_events env
          (live\<lparr>ac_resource_version := cd_resource_version db\<rparr>) True db = Err (OtherError message)"
        using decision gap by (intro gap_refused) simp_all
      then show ?thesis
        using ledger(3) by auto
    next
      case attempted
      have refused: "\<exists>message. apply_commit_in_tx_with_watch_events env live emit db = Err (OtherError message)"
        if "from_live env commit = Ok live" for live emit
        using gap_refused from_live_watermark [OF that] row decision gap by simp
      from attempted(2) show ?thesis
      proof (cases rule: attempt_stages)
        case (applied live emit rv pending resource db1)
        then show ?thesis
          using refused [OF applied(1), of emit] by auto
      next
        case (rejected code message)
        obtain live where "from_live env commit = Ok live"
          using attempted(1) by (auto simp: fresh_entry_def from_live_def)
        then show ?thesis
          using refused [of live "\<not> list_ex is_put_watch_event (lac_mutations commit)"] rejected(1)
          by (auto simp: apply_commit_in_tx_returning_rv_and_mutation_def)
      qed
    qed
  qed
  then show ?thesis
    using decision by (cases decision) auto
qed


section \<open>Properties\<close>

text \<open>C5: An entry of an outbox stream takes effect at most once. After its first delivery has returned,
  whatever entries are applied in between, delivering it again changes no table, wakes no watcher and is
  never reported as visible, also when its ledger row has been collected in the meantime.\<close>

theorem stream_entry_applied_once:
  assumes "lac_outbox_watermark commit = Some w" and "existing_record commit db = None"
    and "apply_committed env commit db = (Ok outcome, db')" and "later = apply_log env log db'"
  shows "snd (apply_committed env commit later) = later
    \<and> (\<forall>again. fst (apply_committed env commit later) = Ok again \<longrightarrow> silent again)"
proof -
  have "apply_commit_in_tx_for_raft env commit db = Ok (outcome, db')"
    using assms(3) by (auto simp: apply_committed_def split: sum.splits)
  then have "passed w later"
    unfolding assms(4) by (intro passed_apply_log first_delivery_passed [OF _ assms(2,1)])
  then show ?thesis
    using assms(1) by (rule passed_silent)
qed

text \<open>C7: A rejected entry is rejected for good. Its attempt is rolled back: only its watermark and its
  ledger row are left, no watcher is woken, and when the entry is delivered again it is answered by the
  same rejection, with the same code and text, without touching the database. The result codec is only
  required to decode the error responses it encodes.\<close>

theorem rejection_is_durable:
  assumes "codec_keeps_errors env"
    and "apply_committed env commit db = (Ok outcome, db')" and "existing_record commit db = None"
    and "ro_committed_outcome outcome = RejectedCommit rejection"
    and "find_map outbox_row (lac_mutations commit) = Some t"
  shows "db' = db\<lparr>cd_watermarks := cd_watermarks db', cd_applied_outbox := cd_applied_outbox db'\<rparr>
    \<and> ro_pending outcome = []
    \<and> (\<exists>again. apply_committed env commit db' = (Ok again, db')
         \<and> ro_committed_outcome again = RejectedCommit rejection)"
proof -
  have applied: "apply_commit_in_tx_for_raft env commit db = Ok (outcome, db')"
    using assms(2) by (auto simp: apply_committed_def split: sum.splits)
  obtain message where valid: "validate_template_in_tx env commit = Ok ()" and quiet: "silent outcome"
    and rejection: "rejection = committed_rejection_from_message message"
    and db': "db' = reject_in_tx env (lac_outbox_watermark commit) (Some t) message db"
    using rejected_first_delivery [OF applied assms(3-5)] by blast
  obtain watermarks ledger where "db' = db\<lparr>cd_watermarks := watermarks, cd_applied_outbox := ledger\<rparr>"
    unfolding db' by (rule reject_in_tx_tables)
  then have "db' = db\<lparr>cd_watermarks := cd_watermarks db', cd_applied_outbox := cd_applied_outbox db'\<rparr>"
    by simp
  then show ?thesis
    using rejected_again [OF assms(1) valid assms(5)] quiet unfolding rejection db' silent_def by blast
qed

text \<open>C8: The positions of an outbox stream are applied in order and without gaps. If an entry that carries
  a ledger row is new to the ledger, it is accepted only as the successor of the last position of its
  stream, or as a repetition; a position further ahead is an error and changes nothing.\<close>

theorem stream_positions_in_order:
  assumes "lac_outbox_watermark commit = Some w" and "existing_record commit db = None"
    and "find_map outbox_row (lac_mutations commit) = Some t"
    and "apply_committed env commit db = (Ok outcome, db')"
  shows "0 < osw_stream_seq w \<and> osw_stream_seq w \<le> unwrap_or (last_seq_in_tx w db) 0 + 1"
proof -
  have "apply_commit_in_tx_for_raft env commit db = Ok (outcome, db')"
    using assms(4) by (auto simp: apply_committed_def split: sum.splits)
  from new_entry_decision [OF this assms(2,3)] assms(1) show ?thesis
    by (auto simp: outbox_watermark_decision_in_tx_def decide_outbox_watermark_def saturating_add_i64_def
        i64_min_def i64_max_def split: if_splits option.splits)
qed

text \<open>Without a mutation the position is recorded even across a gap: the branch for restored snapshots
  comes before the decision and does not ask where the entry comes from.\<close>

lemma empty_entry_skips_gap:
  "cd_watermarks (snd (apply_committed example_env
      \<lparr>lac_resource_version = 0,
       lac_outbox_watermark = Some \<lparr>osw_client_id = ''node-a'', osw_stream_id = 1, osw_stream_seq = 9\<rparr>,
       lac_mutations = []\<rparr> empty_db)) =
    [\<lparr>osw_client_id = ''node-a'', osw_stream_id = 1, osw_stream_seq = 9\<rparr>]"
  by code_simp


section \<open>Witnesses\<close>

lemma example_entry_parts:
  "lac_outbox_watermark (example_entry seq key expected) =
    Some \<lparr>osw_client_id = ''node-a'', osw_stream_id = 1, osw_stream_seq = seq\<rparr>"
  "find_map outbox_row (lac_mutations (example_entry seq key expected)) = Some (example_receipt key)"
  "existing_record (example_entry seq key expected) empty_db = None"
  by (simp_all add: example_entry_def existing_record_def applied_outbox_record_in_tx_def empty_db_def)

definition example_run :: "int option \<Rightarrow> (raft_log_apply_outcome, db_error) rust_result \<times> cluster_db"
  where "example_run expected = apply_committed example_env (example_entry 1 ''k1'' expected) empty_db"

lemma example_accepted:
  "apply_committed example_env (example_entry 1 ''k1'' None) empty_db =
    (Ok (projr (fst (example_run None))), snd (example_run None))"
proof -
  have "case fst (example_run None) of Ok _ \<Rightarrow> True | Err _ \<Rightarrow> False"
    by code_simp
  then show ?thesis
    by (auto simp: example_run_def prod_eq_iff split: sum.splits)
qed

lemma example_rejected:
  "apply_committed example_env (example_entry 1 ''k1'' (Some 7)) empty_db =
    (Ok (projr (fst (example_run (Some 7)))), snd (example_run (Some 7)))
  \<and> ro_committed_outcome (projr (fst (example_run (Some 7)))) =
    RejectedCommit (CR_NotFound ''NotFound: Resource not found (404 Not Found)'')"
proof -
  have "case fst (example_run (Some 7)) of
      Ok outcome \<Rightarrow> ro_committed_outcome outcome =
        RejectedCommit (CR_NotFound ''NotFound: Resource not found (404 Not Found)'')
    | Err _ \<Rightarrow> False"
    by code_simp
  then show ?thesis
    by (auto simp: example_run_def prod_eq_iff split: sum.splits)
qed

theorem stream_entry_applied_once_witness:
  "snd (apply_committed example_env (example_entry 1 ''k1'' None)
      (apply_log example_env [example_entry 2 ''k2'' (Some 7)] (snd (example_run None)))) =
    apply_log example_env [example_entry 2 ''k2'' (Some 7)] (snd (example_run None))"
  using stream_entry_applied_once [OF example_entry_parts(1,3) example_accepted refl,
      of "[example_entry 2 ''k2'' (Some 7)]"]
  by blast

theorem stream_positions_in_order_witness:
  "(1::int) \<le> unwrap_or (last_seq_in_tx \<lparr>osw_client_id = ''node-a'', osw_stream_id = 1, osw_stream_seq = 1\<rparr> empty_db) 0 + 1"
  using stream_positions_in_order [OF example_entry_parts(1,3,2) example_accepted] by simp

theorem rejection_is_durable_witness:
  "\<exists>again. apply_committed example_env (example_entry 1 ''k1'' (Some 7)) (snd (example_run (Some 7))) =
      (Ok again, snd (example_run (Some 7)))
    \<and> ro_committed_outcome again = RejectedCommit (CR_NotFound ''NotFound: Resource not found (404 Not Found)'')"
proof -
  have "codec_keeps_errors example_env"
    by (simp add: codec_keeps_errors_def example_env_def)
  then show ?thesis
    using rejection_is_durable [OF _ conjunct1 [OF example_rejected] example_entry_parts(3)
        conjunct2 [OF example_rejected] example_entry_parts(2)]
    by blast
qed

end
