(* ===== verification/Watch_Retention.thy ===== *)
theory Watch_Retention
  imports Committed_Log
begin

text \<open>
  Garbage collection of the watch history (\<^verbatim>\<open>gc_watch_events_in_tx\<close>) against the reads of
  \<^verbatim>\<open>Watch_Store\<close>: a reader whose next events were collected is told that its position has expired; every
  other reader sees the page it would have seen without the collection.
\<close>

section \<open>Floors\<close>

definition serves :: "durable_watch_target \<Rightarrow> string \<times> string \<times> string \<Rightarrow> bool"
where
  "serves target scope \<longleftrightarrow>
    (case scope of (api_version, kind, key) \<Rightarrow>
       api_version = dwt_api_version target \<and> kind = dwt_kind target
       \<and> (case dwt_scope target of
            ClusterScope \<Rightarrow> key = cluster_namespace_key
          | NamespacedScope (Some namespace) \<Rightarrow> key = namespace
          | NamespacedScope None \<Rightarrow> key \<noteq> cluster_namespace_key))
    \<or> scope = (''*'', ''*'', ''*'')"

abbreviation floor_scope :: "watch_replay_floor_row \<Rightarrow> string \<times> string \<times> string"
  where "floor_scope floor \<equiv> (wfr_api_version floor, wfr_kind floor, wfr_namespace_key floor)"

definition expired_at :: "watch_replay_floor_row list \<Rightarrow> durable_watch_target \<Rightarrow> watch_replay_position \<Rightarrow> bool"
where
  "expired_at floors target p \<longleftrightarrow>
    (\<exists>floor \<in> set floors. serves target (floor_scope floor) \<and> classify (row_to_boundary floor) p = Expired)"

lemma target_expired_at:
  "classify_all (target_replay_boundaries db target) p = Expired \<longleftrightarrow> expired_at (sws_floors db) target p"
proof (cases "dwt_scope target" rule: durable_watch_scope.exhaust)
  case (NamespacedScope namespace)
  then show ?thesis
    by (cases namespace; unfold classify_all_Expired_iff target_replay_boundaries_def expired_at_def)
      (auto simp: serves_def read_scope_def read_namespaced_all_def)
qed (unfold classify_all_Expired_iff target_replay_boundaries_def expired_at_def,
    auto simp: serves_def read_scope_def)

lemma sqlite_expired_at:
  "sqlite_watch_position_expired db targets p \<longleftrightarrow> (\<exists>target \<in> set targets. expired_at (sws_floors db) target p)"
  by (simp add: sqlite_watch_position_expired_def list_ex_iff target_expired_at)

text \<open>A floor that is raised expires every position it expired before, and those behind the removed row.\<close>

definition at_least :: "watch_replay_floor_row \<Rightarrow> watch_replay_floor_row \<Rightarrow> bool"
where
  "at_least floor old \<longleftrightarrow>
    floor_scope floor = floor_scope old
    \<and> wfr_floor_rv old \<le> wfr_floor_rv floor \<and> wfr_floor_event_id old \<le> wfr_floor_event_id floor
    \<and> wfr_floor_position_exact floor"

definition covers :: "watch_event_row \<Rightarrow> watch_replay_floor_row \<Rightarrow> bool"
where
  "covers row floor \<longleftrightarrow>
    floor_of_scope row floor \<and> wer_resource_version row \<le> wfr_floor_rv floor
    \<and> wer_id row \<le> wfr_floor_event_id floor \<and> wfr_floor_position_exact floor"

lemma at_least_refl: "wfr_floor_position_exact floor \<Longrightarrow> at_least floor floor"
  by (simp add: at_least_def)

lemma at_least_trans: "at_least a b \<Longrightarrow> at_least b c \<Longrightarrow> at_least a c"
  by (auto simp: at_least_def)

lemma covers_at_least: "covers row old \<Longrightarrow> at_least floor old \<Longrightarrow> covers row floor"
  by (auto simp: covers_def at_least_def floor_of_scope_def)

lemma expired_at_least:
  assumes "at_least floor old" and "wfr_floor_position_exact old"
    and "classify (row_to_boundary old) p = Expired"
  shows "classify (row_to_boundary floor) p = Expired"
  using assms by (auto simp: at_least_def row_to_boundary_def split: if_splits)

lemma upsert_at_least:
  assumes "list_all wfr_floor_position_exact floors" and "old \<in> set floors"
  shows "\<exists>floor \<in> set (watch_replay_floor_upsert floors row). at_least floor old"
proof -
  let ?raised = "if floor_of_scope row old
      then old\<lparr>wfr_floor_rv := max (wfr_floor_rv old) (wer_resource_version row),
               wfr_floor_event_id := max (wfr_floor_event_id old) (wer_id row),
               wfr_floor_position_exact := True\<rparr>
      else old"
  have "at_least ?raised old"
    using assms by (simp add: at_least_def list_all_iff)
  moreover have "?raised \<in> set (watch_replay_floor_upsert floors row)"
  proof (cases "list_ex (floor_of_scope row) floors")
    case True
    show ?thesis
      unfolding watch_replay_floor_upsert_def if_P [OF True] set_map by (rule image_eqI [OF refl assms(2)])
  next
    case False
    then have "\<not> floor_of_scope row old"
      using assms(2) by (auto simp: list_ex_iff)
    then show ?thesis
      using False assms(2) by (simp add: watch_replay_floor_upsert_def)
  qed
  ultimately show ?thesis
    by blast
qed

lemma upsert_covers: "\<exists>floor \<in> set (watch_replay_floor_upsert floors row). covers row floor"
proof (cases "list_ex (floor_of_scope row) floors")
  case True
  then obtain old where old: "old \<in> set floors" "floor_of_scope row old"
    by (auto simp: list_ex_iff)
  let ?raised = "old\<lparr>wfr_floor_rv := max (wfr_floor_rv old) (wer_resource_version row),
      wfr_floor_event_id := max (wfr_floor_event_id old) (wer_id row), wfr_floor_position_exact := True\<rparr>"
  have "?raised \<in> set (watch_replay_floor_upsert floors row)"
    unfolding watch_replay_floor_upsert_def if_P [OF True] set_map
    by (rule image_eqI [OF _ old(1)]) (simp add: old(2))
  moreover have "covers row ?raised"
    using old(2) by (simp add: covers_def floor_of_scope_def)
  ultimately show ?thesis
    by blast
next
  case False
  then show ?thesis
    by (simp add: watch_replay_floor_upsert_def covers_def floor_of_scope_def event_scope_def)
qed

lemma foldl_floors:
  assumes "list_all wfr_floor_position_exact floors"
  shows "old \<in> set floors \<Longrightarrow> \<exists>floor \<in> set (foldl watch_replay_floor_upsert floors rows). at_least floor old"
    and "row \<in> set rows \<Longrightarrow> \<exists>floor \<in> set (foldl watch_replay_floor_upsert floors rows). covers row floor"
proof -
  have "(\<forall>old \<in> set floors. \<exists>floor \<in> set (foldl watch_replay_floor_upsert floors rows). at_least floor old)
    \<and> (\<forall>row \<in> set rows. \<exists>floor \<in> set (foldl watch_replay_floor_upsert floors rows). covers row floor)"
    using assms
  proof (induction rows arbitrary: floors)
    case Nil
    then show ?case
      by (auto simp: list_all_iff intro: at_least_refl)
  next
    case (Cons row rows)
    let ?floors = "watch_replay_floor_upsert floors row"
    have exact: "list_all wfr_floor_position_exact ?floors"
      using floor_upsert_exact [OF Cons.prems, of "[row]"] by simp
    note IH = Cons.IH [OF exact]
    have "\<exists>floor \<in> set (foldl watch_replay_floor_upsert ?floors rows). at_least floor old" if "old \<in> set floors" for old
      using upsert_at_least [OF Cons.prems that] IH at_least_trans by blast
    moreover have "\<exists>floor \<in> set (foldl watch_replay_floor_upsert ?floors rows). covers row floor"
      using upsert_covers IH covers_at_least by blast
    ultimately show ?case
      using IH by simp
  qed
  then show "old \<in> set floors \<Longrightarrow> \<exists>floor \<in> set (foldl watch_replay_floor_upsert floors rows). at_least floor old"
    and "row \<in> set rows \<Longrightarrow> \<exists>floor \<in> set (foldl watch_replay_floor_upsert floors rows). covers row floor"
    by blast+
qed


section \<open>Collected rows and expired positions\<close>

lemma covered_expired:
  assumes "covers row floor" and "floor \<in> set floors" and "plain_namespace row"
    and "row_matches_target row target"
    and "sqlite_positioned_watch_predicate p high row" and "0 \<le> wrp_event_id p" and "0 \<le> wrp_filter_through p"
  shows "expired_at floors target p"
proof -
  have scope: "floor_scope floor = event_scope row"
    using assms(1) by (simp add: covers_def floor_of_scope_def)
  have "serves target (event_scope row)"
    using assms(3,4)
    by (cases "dwt_scope target"; cases "wer_namespace row")
      (auto simp: serves_def row_matches_target_def target_matches_namespace_def event_scope_def namespace_key_def
        plain_namespace_def split: option.split elim: scope_matches_namespace.elims)
  moreover have "classify (row_to_boundary floor) p = Expired"
    using assms(1,5-7)
    by (auto simp: covers_def row_to_boundary_def sqlite_positioned_watch_predicate_def split: if_splits)
  ultimately show ?thesis
    using assms(2) scope unfolding expired_at_def by metis
qed

lemma expired_at_mono:
  assumes "\<And>old. old \<in> set floors \<Longrightarrow> \<exists>floor \<in> set floors'. at_least floor old"
    and "list_all wfr_floor_position_exact floors" and "expired_at floors target p"
  shows "expired_at floors' target p"
proof -
  obtain old where old: "old \<in> set floors" "serves target (floor_scope old)"
    "classify (row_to_boundary old) p = Expired"
    using assms(3) unfolding expired_at_def by blast
  obtain floor where floor: "floor \<in> set floors'" "at_least floor old"
    using assms(1) old(1) by blast
  have "classify (row_to_boundary floor) p = Expired"
    using expired_at_least [OF floor(2) _ old(3)] assms(2) old(1) by (simp add: list_all_iff)
  moreover have "floor_scope floor = floor_scope old"
    using floor(2) by (simp only: at_least_def)
  ultimately show ?thesis
    using old(2) floor(1) unfolding expired_at_def by metis
qed

text \<open>A raised floor expires nothing but what the old floors and the removed rows expire.\<close>

definition row_boundary :: "watch_event_row \<Rightarrow> replay_retention_boundary"
  where "row_boundary row = ExactBoundary (event_position (wer_id row) (wer_resource_version row))"

lemma upsert_expires:
  assumes "list_all wfr_floor_position_exact floors" and "classify (row_boundary row) p = Available"
    and "expired_at (watch_replay_floor_upsert floors row) target p"
  shows "expired_at floors target p"
proof -
  have raised: "classify (row_to_boundary (old\<lparr>wfr_floor_rv := max (wfr_floor_rv old) (wer_resource_version row),
      wfr_floor_event_id := max (wfr_floor_event_id old) (wer_id row), wfr_floor_position_exact := True\<rparr>)) p
      = classify (row_to_boundary old) p" if "old \<in> set floors" for old
    using assms(1,2) that by (auto simp: row_boundary_def row_to_boundary_def list_all_iff split: if_splits)
  show ?thesis
  proof (cases "list_ex (floor_of_scope row) floors")
    case True
    then show ?thesis
      using assms(3) raised unfolding expired_at_def watch_replay_floor_upsert_def if_P [OF True]
      by (fastforce split: if_splits)
  next
    case False
    then show ?thesis
      using assms(2,3) unfolding expired_at_def watch_replay_floor_upsert_def if_not_P [OF False]
      by (auto simp: row_boundary_def row_to_boundary_def)
  qed
qed

lemma foldl_expires:
  assumes "list_all wfr_floor_position_exact floors"
    and "\<forall>row \<in> set rows. classify (row_boundary row) p = Available"
    and "expired_at (foldl watch_replay_floor_upsert floors rows) target p"
  shows "expired_at floors target p"
  using assms
proof (induction rows arbitrary: floors)
  case (Cons row rows)
  have exact: "list_all wfr_floor_position_exact (watch_replay_floor_upsert floors row)"
    using floor_upsert_exact [OF Cons.prems(1), of "[row]"] by simp
  have "expired_at (watch_replay_floor_upsert floors row) target p"
    by (rule Cons.IH [OF exact]) (use Cons.prems(2,3) in simp_all)
  then show ?case
    by (rule upsert_expires [OF Cons.prems(1), rotated]) (use Cons.prems(2) in simp)
qed simp


section \<open>Reads after a collection\<close>

definition collected :: "int \<Rightarrow> int \<Rightarrow> cluster_db \<Rightarrow> watch_event_row list"
where
  "collected max_rows batch_cap db =
    gc_candidates (cd_watch_events db) max_rows batch_cap (watch_events_min_scope_rows_in_conn db max_rows)"

definition row_selected ::
  "durable_watch_target list \<Rightarrow> watch_replay_position \<Rightarrow> cluster_db \<Rightarrow> watch_event_row \<Rightarrow> bool"
where
  "row_selected targets p db row \<longleftrightarrow>
    sqlite_positioned_watch_predicate p (cd_event_sequence db) row \<and> list_ex (row_matches_target row) targets"

lemma collected_subset: "set (collected max_rows batch_cap db) \<subseteq> set (cd_watch_events db)"
  by (auto simp: collected_def gc_candidates_def sql_limit_def dest: in_set_takeD)

lemma watch_store_fields:
  "sws_position (watch_store_of db) = event_position (cd_event_sequence db) (cd_resource_version db)"
  "sws_floors (watch_store_of db) = cd_floors db"
  "sws_watch_events (watch_store_of db) = cd_watch_events db"
  by (simp_all add: watch_store_of_def)

lemma gc_keeps_position:
  "cd_event_sequence (gc_watch_events_in_tx max_rows batch_cap db) = cd_event_sequence db"
  "cd_resource_version (gc_watch_events_in_tx max_rows batch_cap db) = cd_resource_version db"
  by (simp_all add: gc_watch_events_in_tx_def Let_def)

lemma watch_store_of_gc:
  "watch_store_of (gc_watch_events_in_tx max_rows batch_cap db) =
    \<lparr>sws_position = sws_position (watch_store_of db),
     sws_floors = foldl watch_replay_floor_upsert (cd_floors db) (collected max_rows batch_cap db),
     sws_watch_events =
       filter (\<lambda>row. wer_id row \<notin> set (map wer_id (collected max_rows batch_cap db))) (cd_watch_events db)\<rparr>"
  by (simp add: watch_store_of_def gc_watch_events_in_tx_def collected_def Let_def)

lemma covering_selects_nothing:
  assumes "db_wf env db" and "valid_position p"
    and "wrp_event_id p \<ge> cd_event_sequence db
      \<or> wrp_filter_through p \<ge> cd_event_sequence db \<and> wrp_resource_version p \<ge> cd_resource_version db"
    and "row \<in> set (cd_watch_events db)"
  shows "\<not> row_selected targets p db row"
proof -
  have "0 < wer_id row" "wer_id row \<le> cd_event_sequence db" "wer_resource_version row \<le> cd_resource_version db"
    using assms(1,4) by (auto simp: db_wf_def log_wf_iff versions_wf_def)
  then show ?thesis
    using assms(2,3)
    by (auto simp: row_selected_def sqlite_positioned_watch_predicate_def valid_position_def)
qed

lemma gc_expires_selected:
  assumes "db_wf env db" and "list_all plain_namespace (cd_watch_events db)" and "valid_position p"
    and "row \<in> set (collected max_rows batch_cap db)" and "row_selected targets p db row"
  shows "sqlite_watch_position_expired (watch_store_of (gc_watch_events_in_tx max_rows batch_cap db)) targets p"
proof -
  have exact: "list_all wfr_floor_position_exact (cd_floors db)"
    using assms(1) by (simp add: db_wf_def log_wf_iff)
  obtain target where target: "target \<in> set targets" "row_matches_target row target"
    using assms(5) by (auto simp: row_selected_def list_ex_iff)
  obtain floor where "floor \<in> set (foldl watch_replay_floor_upsert (cd_floors db) (collected max_rows batch_cap db))"
    "covers row floor"
    using foldl_floors(2) [OF exact assms(4)] by blast
  moreover have "plain_namespace row"
    using assms(2,4) collected_subset by (force simp: list_all_iff)
  ultimately have "expired_at (foldl watch_replay_floor_upsert (cd_floors db) (collected max_rows batch_cap db)) target p"
    using covered_expired target(2) assms(3,5) unfolding row_selected_def valid_position_def by blast
  then show ?thesis
    using target(1) by (auto simp: sqlite_expired_at watch_store_of_gc)
qed

lemma gc_keeps_expired:
  assumes "db_wf env db" and "sqlite_watch_position_expired (watch_store_of db) targets p"
  shows "sqlite_watch_position_expired (watch_store_of (gc_watch_events_in_tx max_rows batch_cap db)) targets p"
proof -
  have exact: "list_all wfr_floor_position_exact (cd_floors db)"
    using assms(1) by (simp add: db_wf_def log_wf_iff)
  have "expired_at (foldl watch_replay_floor_upsert (cd_floors db) (collected max_rows batch_cap db)) target p"
    if "expired_at (cd_floors db) target p" for target
    by (rule expired_at_mono [OF foldl_floors(1) [OF exact] exact that])
  then show ?thesis
    using assms(2) by (auto simp: sqlite_expired_at watch_store_of_gc watch_store_fields)
qed

lemma gc_expires_only_collected:
  assumes "db_wf env db" and "\<forall>row \<in> set (collected max_rows batch_cap db). classify (row_boundary row) p = Available"
    and "sqlite_watch_position_expired (watch_store_of (gc_watch_events_in_tx max_rows batch_cap db)) targets p"
  shows "sqlite_watch_position_expired (watch_store_of db) targets p"
proof -
  have "list_all wfr_floor_position_exact (cd_floors db)"
    using assms(1) by (simp add: db_wf_def log_wf_iff)
  note foldl_expires [OF this assms(2)]
  then show ?thesis
    using assms(3) by (auto simp: sqlite_expired_at watch_store_of_gc watch_store_fields)
qed

lemma gc_keeps_selected:
  assumes "db_wf env db" and "\<forall>row \<in> set (collected max_rows batch_cap db). \<not> row_selected targets p db row"
  shows "filter (row_selected targets p db) (sws_watch_events (watch_store_of (gc_watch_events_in_tx max_rows batch_cap db)))
    = filter (row_selected targets p db) (cd_watch_events db)"
proof -
  have "sorted_wrt (<) (map wer_id (cd_watch_events db))"
    using assms(1) by (simp add: db_wf_def log_wf_iff)
  then have distinct: "inj_on wer_id (set (cd_watch_events db))"
    by (simp add: strict_sorted_iff distinct_map)
  have "row_selected targets p db row \<Longrightarrow> wer_id row \<notin> set (map wer_id (collected max_rows batch_cap db))"
    if "row \<in> set (cd_watch_events db)" for row
    using that assms(2) collected_subset inj_onD [OF distinct] by (fastforce simp: image_iff)
  then show ?thesis
    by (auto simp: watch_store_of_gc intro: filter_cong)
qed

lemma read_unfold:
  "sqlite_replay_watch_history db targets p limit =
    (if wrp_event_id p > wrp_event_id (sws_position db)
        \<or> wrp_event_id p = 0 \<and> wrp_resource_version p > wrp_resource_version (sws_position db)
     then Ok HistoryExpired
     else if \<not> (wrp_event_id p \<ge> wrp_event_id (sws_position db)
             \<or> wrp_filter_through p \<ge> wrp_event_id (sws_position db)
               \<and> wrp_resource_version p \<ge> wrp_resource_version (sws_position db))
           \<and> sqlite_watch_position_expired db targets p
     then Ok HistoryExpired
     else
       result_bind
         (decode_rows (take limit (filter (\<lambda>row.
            sqlite_positioned_watch_predicate p (wrp_event_id (sws_position db)) row
            \<and> list_ex (row_matches_target row) targets) (sws_watch_events db)))) (\<lambda>events.
       result_bind (map_err PageTransitionPanic (after_page p events (wrp_event_id (sws_position db)))) (\<lambda>next.
       result_bind (map_err InvalidPage (watch_history_page_try_new events next)) (\<lambda>page.
       Ok (HistoryEvents page)))))"
  by (simp add: sqlite_replay_watch_history_def Let_def)

text \<open>C12: Collecting old watch events never opens a silent gap. A reader asking for events after a position
  gets, after the collection, either exactly the page it would have got before it or the answer that its
  position has expired; and the answer changes only if some collected event lies behind that position.
\<close>

theorem gc_never_hides_events:
  assumes "db_wf env db" and "list_all plain_namespace (cd_watch_events db)" and "valid_position p"
  shows "(sqlite_replay_watch_history (watch_store_of (gc_watch_events_in_tx max_rows batch_cap db)) targets p limit
        = Ok HistoryExpired
      \<or> sqlite_replay_watch_history (watch_store_of (gc_watch_events_in_tx max_rows batch_cap db)) targets p limit
        = sqlite_replay_watch_history (watch_store_of db) targets p limit)
    \<and> (sqlite_replay_watch_history (watch_store_of (gc_watch_events_in_tx max_rows batch_cap db)) targets p limit
        \<noteq> sqlite_replay_watch_history (watch_store_of db) targets p limit
      \<longrightarrow> (\<exists>row \<in> set (collected max_rows batch_cap db). classify (row_boundary row) p = Expired))"
  (is "(?read' = _ \<or> _ = ?read) \<and> _")
proof (cases "sqlite_watch_position_expired (watch_store_of (gc_watch_events_in_tx max_rows batch_cap db)) targets p
    \<and> \<not> (wrp_event_id p \<ge> cd_event_sequence db
         \<or> wrp_filter_through p \<ge> cd_event_sequence db \<and> wrp_resource_version p \<ge> cd_resource_version db)")
  case True
  then have expired: "?read' = Ok HistoryExpired"
    by (simp add: read_unfold [of "watch_store_of (gc_watch_events_in_tx max_rows batch_cap db)"]
        watch_store_fields gc_keeps_position)
  moreover have "\<exists>row \<in> set (collected max_rows batch_cap db). classify (row_boundary row) p = Expired"
    if "?read' \<noteq> ?read"
  proof (rule ccontr)
    assume "\<not> ?thesis"
    then have "\<forall>row \<in> set (collected max_rows batch_cap db). classify (row_boundary row) p = Available"
      using replay_availability.exhaust by blast
    then have "sqlite_watch_position_expired (watch_store_of db) targets p"
      using gc_expires_only_collected [OF assms(1)] True by blast
    then have "?read = Ok HistoryExpired"
      using True by (simp add: read_unfold [of "watch_store_of db"] watch_store_fields)
    then show False
      using that expired by simp
  qed
  ultimately show ?thesis
    by blast
next
  case False
  have "\<not> row_selected targets p db row" if "row \<in> set (collected max_rows batch_cap db)" for row
    using False that gc_expires_selected [OF assms that] covering_selects_nothing [OF assms(1,3)]
      collected_subset by blast
  then have "filter (row_selected targets p db)
      (sws_watch_events (watch_store_of (gc_watch_events_in_tx max_rows batch_cap db)))
    = filter (row_selected targets p db) (cd_watch_events db)"
    by (intro gc_keeps_selected [OF assms(1)]) blast
  then have "?read' = ?read"
    using False gc_keeps_expired [OF assms(1)] unfolding read_unfold row_selected_def
    by (auto simp: watch_store_fields gc_keeps_position)
  then show ?thesis
    by simp
qed

definition example_event :: "int \<Rightarrow> watch_event_row"
where
  "example_event n =
    \<lparr>wer_id = n, wer_api_version = ''v1'', wer_kind = ''ConfigMap'', wer_namespace = Some ''default'',
     wer_name = ''c'', wer_resource_version = n, wer_event_type = ''MODIFIED'', wer_data = Some (JObject [])\<rparr>"

definition example_history :: cluster_db
where
  "example_history =
    empty_db\<lparr>cd_watch_events := map example_event [1, 2, 3], cd_event_sequence := 3, cd_resource_version := 3\<rparr>"

lemma example_history_wf:
  "db_wf env example_history" "list_all plain_namespace (cd_watch_events example_history)"
  by (simp_all add: db_wf_def keys_wf_def index_wf_def versions_wf_def log_wf_iff stored_rows_def empty_db_def
      unindexed_def example_history_def example_event_def plain_namespace_def cluster_namespace_key_def)

lemma example_collected: "collected 1 10 example_history = map example_event [1, 2]"
  by code_simp

theorem gc_never_hides_events_witness:
  "map wer_id (collected 1 10 example_history) = [1, 2]
    \<and> sqlite_replay_watch_history (watch_store_of (gc_watch_events_in_tx 1 10 example_history)) [example_target]
        (event_position 2 2) 5
      = sqlite_replay_watch_history (watch_store_of example_history) [example_target] (event_position 2 2) 5"
proof -
  have "valid_position (event_position 2 2)"
    by (simp add: valid_position_def)
  then show ?thesis
    using gc_never_hides_events [OF example_history_wf, of "event_position 2 2" 1 10 "[example_target]" 5]
    by (auto simp: example_collected example_event_def row_boundary_def)
qed

end
