(* ===== verification/Watch_Consistency.thy ===== *)
theory Watch_Consistency
  imports Committed_Log
begin

text \<open>
  The watch history explains the tables. A client that starts from the stored objects and applies the
  events an entry appends has the stored objects after the entry; so a watcher that misses no event
  converges to the state of the cluster database.
\<close>

section \<open>The objects a client can see\<close>

type_synonym object_key = "string \<times> string \<times> string option \<times> string"

fun scope_of :: "string option \<Rightarrow> resource_scope"
where
  "scope_of (Some namespace) = NamespacedRow namespace"
| "scope_of None = ClusterRow"

lemma scope_of_namespace [simp]: "scope_of (scope_namespace scope) = scope"
  by (cases scope) simp_all

lemma scope_of_eq: "scope_of namespace = scope \<longleftrightarrow> namespace = scope_namespace scope"
  by (cases namespace; cases scope) auto

text \<open>Objects appear under their identity and version, as reads and events show them.\<close>

definition stored_object :: "cluster_db \<Rightarrow> object_key \<Rightarrow> json option"
where
  "stored_object db key =
    (case key of (a, k, ns, n) \<Rightarrow>
       if (a, k, ns) = (''v1'', ''Namespace'', None)
       then map_option (\<lambda>row. hydrate_watch_event_data (lnr_data row) a k ns n (lnr_resource_version row))
              (List.find (\<lambda>row. lnr_name row = n) (cd_namespaces db))
       else map_option (\<lambda>(rv, uid, data). hydrate_watch_event_data data a k ns n rv)
              (get_existing_resource (scope_of ns) a k n db))"

definition event_key :: "watch_event_row \<Rightarrow> object_key"
  where "event_key e = (wer_api_version e, wer_kind e, wer_namespace e, wer_name e)"

definition replay_event :: "(object_key \<rightharpoonup> json) \<Rightarrow> watch_event_row \<Rightarrow> (object_key \<rightharpoonup> json)"
where
  "replay_event view e = view(event_key e := if wer_event_type e = ''DELETED'' then None else wer_data e)"


section \<open>Stored objects after a table operation\<close>

lemma find_upsert:
  assumes "\<And>r. P r \<Longrightarrow> P (f r)" and "P new"
  shows "List.find P (if list_ex P rows then map (\<lambda>r. if P r then f r else r) rows else rows @ [new]) =
    Some (case List.find P rows of Some r \<Rightarrow> f r | None \<Rightarrow> new)"
proof -
  have "List.find P (map (\<lambda>r. if P r then f r else r) rows) = map_option f (List.find P rows)"
    using assms(1) by (induction rows) auto
  moreover have "\<not> list_ex P rows \<Longrightarrow> List.find P (rows @ [new]) = Some new"
    using assms(2) by (induction rows) auto
  moreover have "List.find P rows = None \<longleftrightarrow> \<not> list_ex P rows"
    by (auto simp: find_None_iff list_ex_iff)
  ultimately show ?thesis
    by (auto split: option.split)
qed

lemma find_upsert_other:
  assumes "\<And>r. P r \<Longrightarrow> \<not> Q r \<and> \<not> Q (f r)" and "\<not> Q new"
  shows "List.find Q (if list_ex P rows then map (\<lambda>r. if P r then f r else r) rows else rows @ [new]) =
    List.find Q rows"
proof -
  have "List.find Q (map (\<lambda>r. if P r then f r else r) rows) = List.find Q rows"
    using assms(1) by (induction rows) auto
  moreover have "List.find Q (rows @ [new]) = List.find Q rows"
    using assms(2) by (induction rows) auto
  ultimately show ?thesis
    by simp
qed

lemma find_removed: "List.find P (filter (\<lambda>r. \<not> P r) rows) = None"
  by (induction rows) auto

lemma find_removed_other:
  "(\<And>r. P r \<Longrightarrow> \<not> Q r) \<Longrightarrow> List.find Q (filter (\<lambda>r. \<not> P r) rows) = List.find Q rows"
  by (induction rows) auto

lemma table_of_set_table:
  "table_of scope' (set_table scope rows db) =
    (if (scope' = ClusterRow) = (scope = ClusterRow) then rows else table_of scope' db)"
  by (cases scope; cases scope') simp_all

lemma same_row_key:
  "row_has_key a k (index_namespace scope) n row \<Longrightarrow> (scope' = ClusterRow) = (scope = ClusterRow) \<Longrightarrow>
    row_has_key a' k' (index_namespace scope') n' row \<longleftrightarrow> (scope', a', k', n') = (scope, a, k, n)"
  by (cases scope; cases scope') (auto simp: row_has_key_def)

lemma get_existing_upsert:
  "get_existing_resource scope' a' k' n' (upsert_resource_from_bytes scope a k n uid rv data db) =
    (if (scope', a', k', n') = (scope, a, k, n) then Some (rv, uid, data)
     else get_existing_resource scope' a' k' n' db)"
proof (cases "(scope' = ClusterRow) = (scope = ClusterRow)")
  case same: True
  let ?P = "row_has_key a k (index_namespace scope) n" and ?Q = "row_has_key a' k' (index_namespace scope') n'"
  let ?f = "\<lambda>row. row\<lparr>rt_uid := uid, rt_resource_version := rv, rt_data := data\<rparr>"
  let ?new = "\<lparr>rt_id = fresh_row_id (table_of scope db), rt_api_version = a, rt_kind = k,
      rt_namespace = index_namespace scope, rt_name = n, rt_uid = uid,
      rt_resource_version = rv, rt_created_rv = rv, rt_data = data\<rparr>"
  have keeps: "?P row \<Longrightarrow> ?P (?f row)" and new: "?P ?new" for row
    by (simp_all add: row_has_key_def)
  have tables: "table_of scope' db = table_of scope db"
    using same by (cases scope; cases scope') simp_all
  have table: "table_of scope' (upsert_resource_from_bytes scope a k n uid rv data db) =
      (if list_ex ?P (table_of scope db) then map (\<lambda>row. if ?P row then ?f row else row) (table_of scope db)
       else table_of scope db @ [?new])"
    using same by (simp add: upsert_resource_from_bytes_def Let_def table_of_set_table)
  show ?thesis
  proof (cases "(scope', a', k', n') = (scope, a, k, n)")
    case True
    then show ?thesis
      unfolding get_existing_resource_def table using find_upsert [of ?P ?f, OF keeps new, of "table_of scope db"]
      by (simp split: option.split)
  next
    case False
    have "\<not> ?Q row" if "?P row" for row
      using same_row_key [OF that same] False by blast
    then have "List.find ?Q (if list_ex ?P (table_of scope db)
        then map (\<lambda>row. if ?P row then ?f row else row) (table_of scope db) else table_of scope db @ [?new]) =
      List.find ?Q (table_of scope db)"
      using keeps new by (intro find_upsert_other) blast+
    then show ?thesis
      unfolding get_existing_resource_def table tables if_not_P [OF False] by (rule arg_cong)
  qed
next
  case False
  then show ?thesis
    by (auto simp: get_existing_resource_def upsert_resource_from_bytes_def Let_def table_of_set_table)
qed

lemma get_existing_delete:
  "get_existing_resource scope' a' k' n' (delete_resource_from_identity scope a k n db) =
    (if (scope', a', k', n') = (scope, a, k, n) then None else get_existing_resource scope' a' k' n' db)"
proof (cases "(scope' = ClusterRow) = (scope = ClusterRow)")
  case same: True
  let ?P = "row_has_key a k (index_namespace scope) n" and ?Q = "row_has_key a' k' (index_namespace scope') n'"
  have tables: "table_of scope' db = table_of scope db"
    using same by (cases scope; cases scope') simp_all
  have table: "table_of scope' (delete_resource_from_identity scope a k n db) =
      filter (\<lambda>row. \<not> ?P row) (table_of scope db)"
    using same by (simp add: delete_resource_from_identity_def table_of_set_table)
  show ?thesis
  proof (cases "(scope', a', k', n') = (scope, a, k, n)")
    case True
    then show ?thesis
      unfolding get_existing_resource_def table by (simp add: find_removed)
  next
    case False
    have "\<not> ?Q row" if "?P row" for row
      using same_row_key [OF that same] False by blast
    then have "List.find ?Q (filter (\<lambda>row. \<not> ?P row) (table_of scope db)) = List.find ?Q (table_of scope db)"
      by (rule find_removed_other)
    then show ?thesis
      unfolding get_existing_resource_def table tables if_not_P [OF False] by (rule arg_cong)
  qed
next
  case False
  then show ?thesis
    by (auto simp: get_existing_resource_def delete_resource_from_identity_def table_of_set_table)
qed

text \<open>Fields of the database that no client sees.\<close>

definition same_objects :: "cluster_db \<Rightarrow> cluster_db \<Rightarrow> bool"
where
  "same_objects db db' \<longleftrightarrow>
    cd_namespaced db' = cd_namespaced db \<and> cd_cluster db' = cd_cluster db \<and> cd_namespaces db' = cd_namespaces db"

lemma table_of_same: "same_objects db db' \<Longrightarrow> table_of scope db' = table_of scope db"
  by (cases scope) (simp_all add: same_objects_def)

lemma namespaces_same: "same_objects db db' \<Longrightarrow> cd_namespaces db' = cd_namespaces db"
  by (simp add: same_objects_def)

lemma stored_object_same: "same_objects db db' \<Longrightarrow> stored_object db' = stored_object db"
  by (rule ext) (auto simp: stored_object_def get_existing_resource_def table_of_same namespaces_same)

lemma same_objects_index [simp]:
  "same_objects db (upsert_indexes_from_bytes env scope a k n data db)"
  "same_objects db (delete_indexes_from_identity scope a k n db)"
  by (simp_all add: same_objects_def upsert_indexes_from_bytes_def delete_indexes_from_identity_def)

lemma namespaces_table [simp]:
  "cd_namespaces (upsert_resource_from_bytes scope a k n uid rv data db) = cd_namespaces db"
  "cd_namespaces (delete_resource_from_identity scope a k n db) = cd_namespaces db"
  by (cases scope; simp add: upsert_resource_from_bytes_def delete_resource_from_identity_def Let_def)+

lemma stored_object_store:
  assumes "(a, k, scope) \<noteq> (''v1'', ''Namespace'', ClusterRow)"
  shows "stored_object (upsert_indexes_from_bytes env scope a k n data
      (upsert_resource_from_bytes scope a k n uid rv data db)) =
    (stored_object db)((a, k, scope_namespace scope, n) \<mapsto>
      hydrate_watch_event_data data a k (scope_namespace scope) n rv)"
  using assms
  by (intro ext) (auto simp: stored_object_same [OF same_objects_index(1)] stored_object_def get_existing_upsert
      scope_of_eq split: if_splits, (cases scope; simp)+)

lemma stored_object_unstore:
  assumes "(a, k, scope) \<noteq> (''v1'', ''Namespace'', ClusterRow)"
  shows "stored_object (delete_indexes_from_identity scope a k n (delete_resource_from_identity scope a k n db)) =
    (stored_object db)((a, k, scope_namespace scope, n) := None)"
  using assms
  by (intro ext) (auto simp: stored_object_same [OF same_objects_index(2)] stored_object_def get_existing_delete
      scope_of_eq split: if_splits, (cases scope; simp)+)



section \<open>Appended events\<close>

definition event_data :: "watch_event_insert \<Rightarrow> json"
where
  "event_data e =
    (if wi_canonicalize_object e
     then hydrate_watch_event_data (wi_data e) (wi_api_version e) (wi_kind e) (wi_namespace e) (wi_name e)
            (wi_resource_version e)
     else wi_data e)"

lemma insort_key_last: "(\<And>x. x \<in> set xs \<Longrightarrow> f x < f a) \<Longrightarrow> insort_key f a xs = xs @ [a]"
  by (induction xs) (force simp: not_le)+

lemma insert_event_cases:
  assumes "insert_watch_event_in_conn e db = Ok db'" and "wi_event_id e = None"
    and "list_all (\<lambda>row. wer_id row \<le> cd_event_sequence db) (cd_watch_events db)"
  obtains
    (repeated) row where "db' = db" "row \<in> set (cd_watch_events db)" "same_identity_rv e row"
      "wer_event_type row = wi_event_type e" "wer_data row = Some (event_data e)"
  | (appended) row where
      "db' = db\<lparr>cd_watch_events := cd_watch_events db @ [row], cd_event_sequence := cd_event_sequence db + 1\<rparr>"
      "event_key row = (wi_api_version e, wi_kind e, wi_namespace e, wi_name e)"
      "wer_resource_version row = wi_resource_version e" "wer_event_type row = wi_event_type e"
      "wer_data row = Some (event_data e)" "wer_id row = cd_event_sequence db + 1"
      "\<And>r. r \<in> set (cd_watch_events db) \<Longrightarrow> \<not> same_identity_rv e r"
proof -
  let ?row = "\<lparr>wer_id = cd_event_sequence db + 1, wer_api_version = wi_api_version e, wer_kind = wi_kind e,
    wer_namespace = wi_namespace e, wer_name = wi_name e, wer_resource_version = wi_resource_version e,
    wer_event_type = wi_event_type e, wer_data = Some (event_data e)\<rparr>"
  have free: "\<not> list_ex (\<lambda>row. wer_id row = cd_event_sequence db + 1) (cd_watch_events db)"
    using assms(3) by (force simp: list_ex_iff list_all_iff)
  have last: "insort_key wer_id ?row (cd_watch_events db) = cd_watch_events db @ [?row]"
    using assms(3) by (intro insort_key_last) (force simp: list_all_iff)
  show ?thesis
  proof (cases "List.find (same_identity_rv e) (cd_watch_events db)")
    case None
    then have "db' = db\<lparr>cd_watch_events := cd_watch_events db @ [?row], cd_event_sequence := cd_event_sequence db + 1\<rparr>"
      using assms(1) free unfolding insert_watch_event_in_conn_def assms(2)
      by (simp add: Let_def event_data_def [symmetric] last)
    then show ?thesis
      using None by (intro appended [of ?row]) (auto simp: event_key_def find_None_iff)
  next
    case (Some row)
    then show ?thesis
      using assms(1) free find_SomeD [OF Some] unfolding insert_watch_event_in_conn_def assms(2)
      by (intro repeated [of row]) (auto simp: Let_def event_data_def split: if_splits)
  qed
qed

lemma foldl_replay_other:
  "key \<notin> event_key ` set events \<Longrightarrow> foldl replay_event view events key = view key"
  by (induction events arbitrary: view) (auto simp: replay_event_def)

lemma foldl_replay_member:
  assumes "distinct (map event_key events)" and "e \<in> set events"
  shows "foldl replay_event view events (event_key e) = (if wer_event_type e = ''DELETED'' then None else wer_data e)"
proof -
  obtain before after where events: "events = before @ e # after"
    using assms(2) by (meson split_list)
  then have "event_key e \<notin> event_key ` set after"
    using assms(1) by (auto simp: image_iff)
  then show ?thesis
    by (simp add: events foldl_replay_other) (simp add: replay_event_def)
qed

text \<open>The state of an entry while it is applied: \<^verbatim>\<open>new\<close> are the events it has appended.\<close>

definition explained :: "int \<Rightarrow> cluster_db \<Rightarrow> cluster_db \<Rightarrow> bool"
where
  "explained rv db0 db \<longleftrightarrow>
    (\<exists>new. cd_watch_events db = cd_watch_events db0 @ new
      \<and> stored_object db = foldl replay_event (stored_object db0) new
      \<and> distinct (map event_key new)
      \<and> list_all (\<lambda>e. wer_resource_version e = rv \<and> plain_namespace e \<and> cd_event_sequence db0 < wer_id e) new)
    \<and> cd_floors db = cd_floors db0 \<and> cd_event_sequence db0 \<le> cd_event_sequence db
    \<and> list_all (\<lambda>e. wer_resource_version e \<noteq> rv) (cd_watch_events db0)
    \<and> list_all (\<lambda>e. wer_id e \<le> cd_event_sequence db) (cd_watch_events db)"

lemma explained_same:
  assumes "explained rv db0 db" and "stored_object db' = stored_object db"
    and "cd_watch_events db' = cd_watch_events db" and "cd_event_sequence db' = cd_event_sequence db"
    and "cd_floors db' = cd_floors db"
  shows "explained rv db0 db'"
  using assms by (simp add: explained_def)

lemma same_identity_key:
  assumes "same_identity_rv e row" and "plain_namespace row" and "wi_namespace e \<noteq> Some cluster_namespace_key"
  shows "event_key row = (wi_api_version e, wi_kind e, wi_namespace e, wi_name e)"
  using assms
  by (cases "wer_namespace row"; cases "wi_namespace e")
    (auto simp: same_identity_rv_def event_key_def plain_namespace_def namespace_key_def)

lemma explained_event:
  assumes state: "explained rv db0 db"
    and same: "cd_watch_events db1 = cd_watch_events db" "cd_event_sequence db1 = cd_event_sequence db"
      "cd_floors db1 = cd_floors db"
    and objects: "stored_object db1 = (stored_object db)((wi_api_version e, wi_kind e, wi_namespace e, wi_name e) :=
      if wi_event_type e = ''DELETED'' then None else Some (event_data e))"
    and event: "wi_event_id e = None" "wi_resource_version e = rv" "wi_namespace e \<noteq> Some cluster_namespace_key"
    and inserted: "insert_watch_event_in_conn e db1 = Ok db2"
  shows "explained rv db0 db2"
proof -
  obtain new where events: "cd_watch_events db = cd_watch_events db0 @ new"
    and view: "stored_object db = foldl replay_event (stored_object db0) new"
    and new: "distinct (map event_key new)"
      "list_all (\<lambda>e. wer_resource_version e = rv \<and> plain_namespace e \<and> cd_event_sequence db0 < wer_id e) new"
    and frame: "cd_floors db = cd_floors db0" "cd_event_sequence db0 \<le> cd_event_sequence db"
    and old: "list_all (\<lambda>e. wer_resource_version e \<noteq> rv) (cd_watch_events db0)"
    and ids: "list_all (\<lambda>e. wer_id e \<le> cd_event_sequence db) (cd_watch_events db)"
    using state unfolding explained_def by blast
  have "list_all (\<lambda>row. wer_id row \<le> cd_event_sequence db1) (cd_watch_events db1)"
    using ids by (simp add: same)
  with inserted event(1) show ?thesis
  proof (cases rule: insert_event_cases)
    case (repeated row)
    have "row \<in> set new"
      using repeated(2,3) old event(2) by (auto simp: same events list_all_iff same_identity_rv_def)
    then have key: "event_key row = (wi_api_version e, wi_kind e, wi_namespace e, wi_name e)"
      using same_identity_key [OF repeated(3) _ event(3)] new(2) by (simp add: list_all_iff)
    have "stored_object db (event_key row) = (if wi_event_type e = ''DELETED'' then None else Some (event_data e))"
      using foldl_replay_member [OF new(1) \<open>row \<in> set new\<close>] repeated(4,5) by (simp add: view)
    then have "stored_object db1 = stored_object db"
      unfolding objects key by (rule fun_upd_idem)
    then show ?thesis
      using state same repeated(1) by (auto intro: explained_same)
  next
    case (appended row)
    have "event_key row \<notin> set (map event_key new)"
      using appended(2,7) event(2) new(2)
      by (fastforce simp: same events list_all_iff same_identity_rv_def event_key_def)
    moreover have "plain_namespace row"
      using appended(2) event(3) by (simp add: plain_namespace_def event_key_def)
    moreover have "stored_object db2 = stored_object db1"
      by (rule stored_object_same) (simp add: appended(1) same_objects_def)
    moreover have "stored_object db1 = replay_event (stored_object db) row"
      by (simp add: objects replay_event_def appended(2,4,5))
    moreover have "list_all (\<lambda>e. wer_id e \<le> cd_event_sequence db2) (cd_watch_events db2)"
      using ids appended(6) by (force simp: appended(1) same list_all_iff)
    ultimately show ?thesis
      using new old frame appended(3,6) event(2) unfolding explained_def
      by (intro conjI exI [of _ "new @ [row]"]) (simp_all add: appended(1) same events view)
  qed
qed



section \<open>Mutations that announce themselves\<close>

text \<open>The targets whose events and rows have the same identity. Namespaces have a table of their own.\<close>

definition watched_target :: "string \<Rightarrow> string \<Rightarrow> string option \<Rightarrow> bool"
where
  "watched_target a k ns \<longleftrightarrow>
    (a, k, resource_identity a k ns) \<noteq> (''v1'', ''Namespace'', ClusterRow)
    \<and> scope_namespace (resource_identity a k ns) \<noteq> Some cluster_namespace_key"

fun self_announced :: "log_apply_mutation \<Rightarrow> bool"
where
  "self_announced (LA_PutResource row) \<longleftrightarrow> watched_target (lrr_api_version row) (lrr_kind row) (lrr_namespace row)"
| "self_announced (LA_PatchResourceLatest patch) \<longleftrightarrow>
    watched_target (lrp_api_version patch) (lrp_kind patch) (lrp_namespace patch)"
| "self_announced (LA_DeleteResource key) \<longleftrightarrow> watched_target (lrk_api_version key) (lrk_kind key) (lrk_namespace key)"
| "self_announced (LA_FinalizeBoundPod _) \<longleftrightarrow> False"
| "self_announced (LA_PutWatchEvent _) \<longleftrightarrow> False"
| "self_announced (LA_GcWatchEvents _ _) \<longleftrightarrow> False"
| "self_announced (LA_DeleteNamespaceContents _) \<longleftrightarrow> False"
| "self_announced _ \<longleftrightarrow> True"

lemma history_frames [simp]:
  "cd_watch_events (upsert_indexes_from_bytes env scope a k n data db) = cd_watch_events db"
  "cd_event_sequence (upsert_indexes_from_bytes env scope a k n data db) = cd_event_sequence db"
  "cd_floors (upsert_indexes_from_bytes env scope a k n data db) = cd_floors db"
  "cd_floors (delete_indexes_from_identity scope a k n db) = cd_floors db"
  "cd_watch_events (delete_indexes_from_identity scope a k n db) = cd_watch_events db"
  "cd_event_sequence (delete_indexes_from_identity scope a k n db) = cd_event_sequence db"
  by (simp_all add: upsert_indexes_from_bytes_def delete_indexes_from_identity_def)

lemma history_frames_table [simp]:
  "cd_watch_events (set_table scope rows db) = cd_watch_events db"
  "cd_event_sequence (set_table scope rows db) = cd_event_sequence db"
  "cd_floors (set_table scope rows db) = cd_floors db"
  "cd_floors (upsert_resource_from_bytes scope a k n uid rv data db) = cd_floors db"
  "cd_floors (delete_resource_from_identity scope a k n db) = cd_floors db"
  "cd_watch_events (upsert_resource_from_bytes scope a k n uid rv data db) = cd_watch_events db"
  "cd_event_sequence (upsert_resource_from_bytes scope a k n uid rv data db) = cd_event_sequence db"
  "cd_watch_events (delete_resource_from_identity scope a k n db) = cd_watch_events db"
  "cd_event_sequence (delete_resource_from_identity scope a k n db) = cd_event_sequence db"
  by (cases scope; simp add: upsert_resource_from_bytes_def delete_resource_from_identity_def Let_def)+

lemma emitted_explained:
  assumes "explained rv db0 db" and "cd_watch_events db1 = cd_watch_events db"
    and "cd_event_sequence db1 = cd_event_sequence db" and "cd_floors db1 = cd_floors db"
    and "stored_object db1 = (stored_object db)((a, k, scope_namespace scope, n) :=
      if event_type = ''DELETED'' then None
      else Some (hydrate_watch_event_data data a k (scope_namespace scope) n rv))"
    and "scope_namespace scope \<noteq> Some cluster_namespace_key"
    and "emit_watch_from_bytes True scope a k n rv event_type data db1 = Ok (staged, db2)"
  shows "explained rv db0 db2"
proof -
  let ?e = "\<lparr>wi_event_id = None, wi_api_version = a, wi_kind = k, wi_namespace = scope_namespace scope,
    wi_name = n, wi_resource_version = rv, wi_event_type = event_type, wi_data = data,
    wi_canonicalize_object = True\<rparr>"
  have "insert_watch_event_in_conn ?e db1 = Ok db2"
    using assms(7) by (auto simp: emit_watch_from_bytes_def)
  then show ?thesis
    by (rule explained_event [OF assms(1-4), rotated 4]) (use assms(5,6) in \<open>simp_all add: event_data_def\<close>)
qed

lemma put_resource_explained:
  assumes "apply_put_resource env row True db = Ok (staged, db')" and "explained rv db0 db"
    and "lrr_resource_version row = rv" and "self_announced (LA_PutResource row)"
  shows "explained rv db0 db'"
  using assms(1)
proof (cases rule: put_resource_cases)
  case (same row' uid)
  then show ?thesis
    using assms(2) by (auto intro!: explained_same [OF assms(2)] stored_object_same)
next
  case (written row' event_type)
  then show ?thesis
    using assms(3,4)
    by (intro emitted_explained [OF assms(2) _ _ _ _ _ written(3) [unfolded assms(3)]])
      (auto simp: watched_target_def stored_object_store)
qed

lemma patch_resource_explained:
  assumes "apply_patch_resource_latest env patch True db = Ok (staged, db')" and "explained rv db0 db"
    and "lrp_resource_version patch = rv" and "self_announced (LA_PatchResourceLatest patch)"
  shows "explained rv db0 db'"
  using assms(1)
proof (cases rule: patch_resource_cases)
  case absent
  then show ?thesis
    using assms(2) by simp
next
  case (patched current_rv uid current data)
  then show ?thesis
    using assms(3,4)
    by (intro emitted_explained [OF assms(2) _ _ _ _ _ patched(2) [unfolded assms(3)]])
      (auto simp: watched_target_def stored_object_store)
qed

lemma delete_resource_explained:
  assumes "apply_delete_resource rv key True db = Ok (staged, db')" and "explained rv db0 db"
    and "self_announced (LA_DeleteResource key)"
  shows "explained rv db0 db'"
  using assms(1)
proof (cases rule: delete_resource_cases)
  case (deleted current_rv uid data)
  then show ?thesis
    using assms(3)
    by (intro emitted_explained [OF assms(2) _ _ _ _ _ deleted(2)])
      (auto simp: watched_target_def stored_object_unstore)
qed (use assms(2) in simp_all)

lemma stored_object_namespaces:
  assumes "\<And>n. n \<noteq> name \<Longrightarrow> List.find (\<lambda>r. lnr_name r = n) rows = List.find (\<lambda>r. lnr_name r = n) (cd_namespaces db)"
  shows "stored_object (db\<lparr>cd_namespaces := rows\<rparr>) =
    (stored_object db)((''v1'', ''Namespace'', None, name) :=
      map_option (\<lambda>row. hydrate_watch_event_data (lnr_data row) ''v1'' ''Namespace'' None name (lnr_resource_version row))
        (List.find (\<lambda>r. lnr_name r = name) rows))"
proof -
  have existing: "get_existing_resource scope a k n (db\<lparr>cd_namespaces := rows\<rparr>) = get_existing_resource scope a k n db"
    for scope a k n
    by (cases scope) (simp_all add: get_existing_resource_def)
  show ?thesis
  proof (rule ext)
    fix key
    show "stored_object (db\<lparr>cd_namespaces := rows\<rparr>) key =
      ((stored_object db)((''v1'', ''Namespace'', None, name) :=
        map_option (\<lambda>row. hydrate_watch_event_data (lnr_data row) ''v1'' ''Namespace'' None name
            (lnr_resource_version row)) (List.find (\<lambda>r. lnr_name r = name) rows))) key"
      by (cases key; cases "\<exists>n. key = (''v1'', ''Namespace'', None, n)")
        (auto simp: stored_object_def existing assms split: if_splits)
  qed
qed

lemma put_namespace_explained:
  assumes "put_namespace_in_tx row True db = Ok (staged, db')" and "explained rv db0 db"
    and "lnr_resource_version row = rv"
  shows "explained rv db0 db'"
proof (cases "is_some_and (List.find (\<lambda>r. lnr_name r = lnr_name row) (cd_namespaces db))
    (\<lambda>r. lnr_resource_version r = lnr_resource_version row \<and> lnr_data r = lnr_data row)")
  case True
  then show ?thesis
    using assms(1,2) by (simp add: put_namespace_in_tx_def Let_def)
next
  case False
  let ?same = "\<lambda>r. lnr_name r = lnr_name row"
  let ?rows = "if list_ex ?same (cd_namespaces db)
    then map (\<lambda>r. if ?same r then row else r) (cd_namespaces db) else cd_namespaces db @ [row]"
  let ?e = "\<lparr>wi_event_id = None, wi_api_version = ''v1'', wi_kind = ''Namespace'', wi_namespace = None,
    wi_name = lnr_name row, wi_resource_version = rv,
    wi_event_type = (if List.find ?same (cd_namespaces db) \<noteq> None then ''MODIFIED'' else ''ADDED''),
    wi_data = lnr_data row, wi_canonicalize_object = True\<rparr>"
  have absent: "List.find ?same (cd_namespaces db) = None \<longleftrightarrow> \<not> list_ex ?same (cd_namespaces db)"
    by (auto simp: find_None_iff list_ex_iff)
  have inserted: "insert_watch_event_in_conn ?e (db\<lparr>cd_namespaces := ?rows\<rparr>) = Ok db'"
    using assms(1,3) False unfolding put_namespace_in_tx_def Let_def absent
    by (auto split: if_splits)
  have found: "List.find ?same ?rows = Some row"
    using find_upsert [of ?same "\<lambda>_. row" row "cd_namespaces db"] by (simp split: option.splits)
  have other: "List.find (\<lambda>r. lnr_name r = n) ?rows = List.find (\<lambda>r. lnr_name r = n) (cd_namespaces db)"
    if "n \<noteq> lnr_name row" for n
    using that by (intro find_upsert_other) auto
  show ?thesis
    by (rule explained_event [OF assms(2) _ _ _ _ _ _ _ inserted])
      (simp_all only: stored_object_namespaces [OF other] found, simp_all add: event_data_def assms(3))
qed

lemma delete_namespace_explained:
  assumes "delete_namespace_in_tx rv name True db = Ok (staged, db')" and "explained rv db0 db"
  shows "explained rv db0 db'"
proof (cases "List.find (\<lambda>r. lnr_name r = name) (cd_namespaces db)")
  case None
  then show ?thesis
    using assms by (simp add: delete_namespace_in_tx_def)
next
  case (Some existing)
  let ?rows = "filter (\<lambda>r. lnr_name r \<noteq> name) (cd_namespaces db)"
  have inserted: "insert_watch_event_in_conn
      \<lparr>wi_event_id = None, wi_api_version = ''v1'', wi_kind = ''Namespace'', wi_namespace = None,
       wi_name = name, wi_resource_version = rv, wi_event_type = ''DELETED'',
       wi_data = lnr_data existing, wi_canonicalize_object = True\<rparr> (db\<lparr>cd_namespaces := ?rows\<rparr>) = Ok db'"
    using assms(1) Some by (auto simp: delete_namespace_in_tx_def Let_def)
  have other: "List.find (\<lambda>r. lnr_name r = n) ?rows = List.find (\<lambda>r. lnr_name r = n) (cd_namespaces db)"
    if "n \<noteq> name" for n
    using that by (intro find_removed_other) auto
  show ?thesis
    by (rule explained_event [OF assms(2) _ _ _ _ _ _ _ inserted])
      (simp_all add: stored_object_namespaces [OF other] find_removed)
qed


text \<open>Operations on tables that no watcher sees.\<close>

definition unseen :: "cluster_db \<Rightarrow> cluster_db \<Rightarrow> bool"
where
  "unseen db db' \<longleftrightarrow>
    same_objects db db' \<and> cd_watch_events db' = cd_watch_events db
    \<and> cd_event_sequence db' = cd_event_sequence db \<and> cd_floors db' = cd_floors db"

lemma unseen_trans: "unseen a b \<Longrightarrow> unseen b c \<Longrightarrow> unseen a c"
  by (simp add: unseen_def same_objects_def)

lemma explained_unseen: "explained rv db0 db \<Longrightarrow> unseen db db' \<Longrightarrow> explained rv db0 db'"
  by (rule explained_same) (auto simp: unseen_def intro: stored_object_same)

lemma unseen_operations [simp]:
  "unseen db db"
  "unseen db (put_applied_outbox_in_tx row db)"
  "unseen db (delete_applied_outbox_in_tx key db)"
  "unseen db (gc_applied_outbox_in_tx cutoff db)"
  "unseen db (put_pod_cleanup_intent_in_tx intent db)"
  "unseen db (delete_pod_cleanup_intent_in_tx intent_key db)"
  "unseen db (delete_pod_cleanup_intents_for_node_in_tx node db)"
  "unseen db (put_klights_meta_in_tx k v db)"
  "unseen db (delete_node_subnet_in_tx node db)"
  "unseen db (delete_node_dataplane_in_tx node db)"
  "unseen db (advance_metadata_rv_to_at_least_tx rv db)"
  "unseen db (upsert_watermark_option w db)"
  "put_node_subnet_in_tx subnet db = Ok db' \<Longrightarrow> unseen db db'"
  "allocate_node_subnet_in_tx allocation db = Ok db' \<Longrightarrow> unseen db db'"
  "put_node_dataplane_in_tx dataplane db = Ok db' \<Longrightarrow> unseen db db'"
  by (auto simp: unseen_def same_objects_def put_applied_outbox_in_tx_def delete_applied_outbox_in_tx_def
      gc_applied_outbox_in_tx_def put_pod_cleanup_intent_in_tx_def delete_pod_cleanup_intent_in_tx_def
      delete_pod_cleanup_intents_for_node_in_tx_def put_klights_meta_in_tx_def delete_node_subnet_in_tx_def
      delete_node_dataplane_in_tx_def put_node_subnet_in_tx_def allocate_node_subnet_in_tx_def
      put_node_dataplane_in_tx_def advance_metadata_rv_to_at_least_tx_def upsert_watermark_option_def
      upsert_outbox_watermark_in_tx_def Let_def
      split: if_splits option.split elim!: result_bind_OkE)

lemma mutation_explained:
  assumes "apply_cluster_mutation env rv True (cluster_mutation_of m) effects db = Ok (effects', db')"
    and "self_announced m" and "explained rv db0 db"
  shows "explained rv db0 db'"
  using assms
  by (cases m)
    (auto simp: staged_effect_def no_effect_def split: if_splits elim!: result_bind_OkE
      intro: put_resource_explained patch_resource_explained delete_resource_explained put_namespace_explained
        delete_namespace_explained explained_unseen)

lemma apply_mutations_explained:
  assumes "apply_mutations env rv True ms effects db = Ok (effects', db')"
    and "list_all self_announced ms" and "explained rv db0 db"
  shows "explained rv db0 db'"
  using assms
proof (induction ms arbitrary: effects db)
  case (Cons m ms)
  obtain effects1 db1 where
    "apply_cluster_mutation env rv True (cluster_mutation_of m) effects db = Ok (effects1, db1)"
    and "apply_mutations env rv True ms effects1 db1 = Ok (effects', db')"
    using Cons.prems(1) by (auto elim!: result_bind_OkE)
  then show ?case
    using Cons.IH Cons.prems(2,3) mutation_explained by simp
qed simp

lemma ledger_mutations_unseen:
  assumes "apply_mutations env rv emit ms effects db = Ok (effects', db')"
    and "list_all is_put_applied_outbox ms"
  shows "unseen db db'"
  using assms
proof (induction ms arbitrary: effects db)
  case (Cons m ms)
  obtain row where "m = LA_PutAppliedOutbox row"
    using Cons.prems(2) by (cases m) auto
  then have "apply_mutations env rv emit ms effects (put_applied_outbox_in_tx row db) = Ok (effects', db')"
    using Cons.prems(1) by (simp add: no_effect_def)
  then show ?case
    using Cons.IH Cons.prems(2) unseen_trans [OF unseen_operations(2)] by simp blast
qed simp


section \<open>Entries\<close>

definition explains :: "cluster_db \<Rightarrow> cluster_db \<Rightarrow> bool"
where
  "explains db db' \<longleftrightarrow>
    (\<exists>new. cd_watch_events db' = cd_watch_events db @ new
      \<and> stored_object db' = foldl replay_event (stored_object db) new
      \<and> list_all (\<lambda>e. cd_event_sequence db < wer_id e) new)
    \<and> cd_event_sequence db \<le> cd_event_sequence db' \<and> cd_floors db' = cd_floors db"

lemma explains_unseen: "unseen db db' \<Longrightarrow> explains db db'"
  by (auto simp: explains_def unseen_def intro!: exI [of _ "[]"] stored_object_same)

lemma explains_trans:
  assumes "explains a b" and "explains b c"
  shows "explains a c"
proof -
  obtain new where new: "cd_watch_events b = cd_watch_events a @ new"
    "stored_object b = foldl replay_event (stored_object a) new" "list_all (\<lambda>e. cd_event_sequence a < wer_id e) new"
    using assms(1) unfolding explains_def by blast
  obtain new' where new': "cd_watch_events c = cd_watch_events b @ new'"
    "stored_object c = foldl replay_event (stored_object b) new'" "list_all (\<lambda>e. cd_event_sequence b < wer_id e) new'"
    using assms(2) unfolding explains_def by blast
  have order: "cd_event_sequence a \<le> cd_event_sequence b" "cd_event_sequence b \<le> cd_event_sequence c"
    "cd_floors b = cd_floors a" "cd_floors c = cd_floors b"
    using assms by (simp_all add: explains_def)
  then have "list_all (\<lambda>e. cd_event_sequence a < wer_id e) (new @ new')"
    using new(3) new'(3) by (fastforce simp: list_all_iff)
  then show ?thesis
    unfolding explains_def using new(1,2) new'(1,2) order by (intro conjI exI [of _ "new @ new'"]) simp_all
qed

lemma explained_explains: "explained rv db0 db \<Longrightarrow> explains db0 db"
  by (auto simp: explained_def explains_def list_all_iff)

lemma explained_start:
  assumes "db_wf env db" and "cd_resource_version db < rv"
  shows "explained rv (db\<lparr>cd_resource_version := rv\<rparr>) (db\<lparr>cd_resource_version := rv\<rparr>)"
  using assms by (force simp: explained_def db_wf_def versions_wf_def log_wf_iff list_all_iff)

text \<open>A commit whose version is not to be assigned holds ledger rows only.\<close>

definition quiet_if_versioned :: "apply_commit \<Rightarrow> bool"
where
  "quiet_if_versioned commit \<longleftrightarrow>
    ac_resource_version commit = 0 \<or> list_all is_put_applied_outbox (ac_mutations commit)"

lemma quiet_noop:
  assumes "resolve_noop_put_resources_in_tx env db commit = Ok commit'" and "quiet_if_versioned commit"
  shows "quiet_if_versioned commit'"
  using assms
  by (auto simp: quiet_if_versioned_def resolve_noop_put_resources_in_tx_def list_all_iff dest!: resolve_noop_subset
      split: if_splits)

lemma stamp_fresh_or_quiet:
  assumes "stamp_provisional_resource_version_in_tx env commit db = (commit', db1)"
    and "ready db commit" and "quiet_if_versioned commit"
  shows "ac_resource_version commit' = cd_resource_version db + 1
    \<or> list_all is_put_applied_outbox (ac_mutations commit')"
proof -
  have "is_put_applied_outbox (stamp_mutation env rv preserve m) = is_put_applied_outbox m" for rv preserve m
    by (cases m) (auto simp: Let_def)
  then show ?thesis
    using assms
    by (auto simp: stamp_provisional_resource_version_in_tx_def next_resource_version_in_tx_def Let_def
        quiet_if_versioned_def list_all_iff split: if_splits)
qed

lemma stamped_announced [simp]: "self_announced (stamp_mutation env rv preserve m) = self_announced m"
  by (cases m) (auto simp: Let_def)


subsection \<open>Deletions that come with their event\<close>

text \<open>A deletion is authored as a pair: the event, then the removal of the row. It is consistent if the
  row that is stored, if any, is the incarnation the removal names.\<close>

definition deletion_pair :: "cluster_db \<Rightarrow> log_apply_watch_event_row \<Rightarrow> log_apply_resource_key \<Rightarrow> bool"
where
  "deletion_pair db e key \<longleftrightarrow>
    (let scope = resource_identity (lrk_api_version key) (lrk_kind key) (lrk_namespace key)
     in lwe_event_type e = ''DELETED''
        \<and> (lwe_api_version e, lwe_kind e, lwe_namespace e, lwe_name e) =
            (lrk_api_version key, lrk_kind key, scope_namespace scope, lrk_name key)
        \<and> watched_target (lrk_api_version key) (lrk_kind key) (lrk_namespace key)
        \<and> (case get_existing_resource scope (lrk_api_version key) (lrk_kind key) (lrk_name key) db of
              None \<Rightarrow> True
            | Some (_, uid, _) \<Rightarrow> lrk_uid key \<in> {[], uid}))"

fun announced_deletion :: "cluster_db \<Rightarrow> log_apply_mutation list \<Rightarrow> bool"
where
  "announced_deletion db (LA_PutWatchEvent e # LA_DeleteResource key # rest) \<longleftrightarrow>
    deletion_pair db e key \<and> list_all is_put_applied_outbox rest"
| "announced_deletion db _ \<longleftrightarrow> False"

lemma put_watch_event_cases:
  assumes "apply_put_watch_event e db = Ok (staged, db')" and "lwe_event_id e = None"
    and "lwe_resource_version e = rv" and "explained rv db db"
  obtains row where
    "db' = db\<lparr>cd_watch_events := cd_watch_events db @ [row], cd_event_sequence := cd_event_sequence db + 1\<rparr>"
    "event_key row = (lwe_api_version e, lwe_kind e, lwe_namespace e, lwe_name e)"
    "wer_event_type row = lwe_event_type e" "wer_id row = cd_event_sequence db + 1" "wer_resource_version row = rv"
proof -
  have fresh: "list_all (\<lambda>row. wer_id row \<le> cd_event_sequence db) (cd_watch_events db)"
    "list_all (\<lambda>row. wer_resource_version row \<noteq> rv) (cd_watch_events db)"
    using assms(4) by (auto simp: explained_def)
  obtain i where inserted: "insert_watch_event_in_conn i db = Ok db'" and id: "wi_event_id i = None"
    and i: "wi_resource_version i = rv" "wi_event_type i = lwe_event_type e"
      "(wi_api_version i, wi_kind i, wi_namespace i, wi_name i) =
        (lwe_api_version e, lwe_kind e, lwe_namespace e, lwe_name e)"
    using assms(1-3) by (auto simp: apply_put_watch_event_def elim!: result_bind_OkE intro: that)
  from inserted id fresh(1) show ?thesis
  proof (cases rule: insert_event_cases)
    case (repeated row)
    then show ?thesis
      using fresh(2) i(1) by (auto simp: list_all_iff same_identity_rv_def)
  next
    case (appended row)
    then show ?thesis
      using i by (intro that [of row]) simp_all
  qed
qed

lemma absent_object:
  assumes "get_existing_resource scope a k n db = None" and "(a, k, scope) \<noteq> (''v1'', ''Namespace'', ClusterRow)"
  shows "stored_object db (a, k, scope_namespace scope, n) = None"
  using assms by (cases scope) (auto simp: stored_object_def)

lemma silent_delete:
  assumes "apply_delete_resource rv key False db = Ok (staged, db')"
    and "watched_target (lrk_api_version key) (lrk_kind key) (lrk_namespace key)"
    and "case get_existing_resource (resource_identity (lrk_api_version key) (lrk_kind key) (lrk_namespace key))
        (lrk_api_version key) (lrk_kind key) (lrk_name key) db of
      None \<Rightarrow> True | Some (_, uid, _) \<Rightarrow> lrk_uid key \<in> {[], uid}"
  shows "cd_watch_events db' = cd_watch_events db \<and> cd_event_sequence db' = cd_event_sequence db
    \<and> cd_floors db' = cd_floors db
    \<and> stored_object db' = (stored_object db)((lrk_api_version key, lrk_kind key,
        scope_namespace (resource_identity (lrk_api_version key) (lrk_kind key) (lrk_namespace key)),
        lrk_name key) := None)"
  using assms(1)
proof (cases rule: delete_resource_cases)
  case absent
  then show ?thesis
    using assms(2) by (simp add: absent_object watched_target_def fun_upd_idem)
next
  case (other current_rv uid data)
  then show ?thesis
    using assms(3) by simp
next
  case (deleted current_rv uid data)
  then show ?thesis
    using assms(2) by (auto simp: emit_watch_from_bytes_def watched_target_def stored_object_unstore)
qed

lemma pair_run:
  assumes "apply_mutations env rv False (LA_PutWatchEvent e # LA_DeleteResource key # rest) effects db = Ok (effects', db')"
    and "live_shaped (LA_PutWatchEvent e)" and "stamped rv (LA_PutWatchEvent e)" and "explained rv db db"
  obtains row staged db2 effects2 where
    "event_key row = (lwe_api_version e, lwe_kind e, lwe_namespace e, lwe_name e)"
    "wer_event_type row = lwe_event_type e" "wer_id row = cd_event_sequence db + 1" "wer_resource_version row = rv"
    "apply_delete_resource rv key False
      (db\<lparr>cd_watch_events := cd_watch_events db @ [row], cd_event_sequence := cd_event_sequence db + 1\<rparr>) = Ok (staged, db2)"
    "apply_mutations env rv False rest effects2 db2 = Ok (effects', db')"
proof -
  obtain staged db1 effects2 db2 staged2 where event: "apply_put_watch_event e db = Ok (staged, db1)"
    and deletion: "apply_delete_resource rv key False db1 = Ok (staged2, db2)"
    and tail: "apply_mutations env rv False rest effects2 db2 = Ok (effects', db')"
    using assms(1) by (auto simp: staged_effect_def elim!: result_bind_OkE)
  from put_watch_event_cases [OF event _ _ assms(4)] show ?thesis
    using assms(2,3) deletion tail that by (metis live_shaped.simps(5) stamped.simps(3))
qed

lemma existing_history [simp]:
  "get_existing_resource scope a k n (db\<lparr>cd_watch_events := events, cd_event_sequence := seq\<rparr>) =
    get_existing_resource scope a k n db"
  "get_existing_resource scope a k n (db\<lparr>cd_resource_version := rv\<rparr>) = get_existing_resource scope a k n db"
  by (cases scope; simp add: get_existing_resource_def)+

lemma stored_object_history [simp]:
  "stored_object (db\<lparr>cd_watch_events := events, cd_event_sequence := seq\<rparr>) = stored_object db"
  "stored_object (db\<lparr>cd_resource_version := rv\<rparr>) = stored_object db"
  by (rule stored_object_same, simp add: same_objects_def)+

lemma announced_deletion_explains:
  assumes "apply_mutations env rv False ms effects db = Ok (effects', db')"
    and "announced_deletion db ms" and "list_all live_shaped ms" and "list_all (stamped rv) ms"
    and "explained rv db db"
  shows "explains db db'"
proof -
  obtain e key rest where ms: "ms = LA_PutWatchEvent e # LA_DeleteResource key # rest"
    and pair: "deletion_pair db e key" and rest: "list_all is_put_applied_outbox rest"
    using assms(2) by (cases "(db, ms)" rule: announced_deletion.cases) auto
  from assms(1) [unfolded ms] show ?thesis
  proof (rule pair_run)
    fix row staged db2 effects2
    assume row: "event_key row = (lwe_api_version e, lwe_kind e, lwe_namespace e, lwe_name e)"
        "wer_event_type row = lwe_event_type e" "wer_id row = cd_event_sequence db + 1"
      and deletion: "apply_delete_resource rv key False
        (db\<lparr>cd_watch_events := cd_watch_events db @ [row], cd_event_sequence := cd_event_sequence db + 1\<rparr>) = Ok (staged, db2)"
      and tail: "apply_mutations env rv False rest effects2 db2 = Ok (effects', db')"
    have deleted: "cd_watch_events db2 = cd_watch_events db @ [row]" "cd_event_sequence db2 = cd_event_sequence db + 1"
      "cd_floors db2 = cd_floors db" "stored_object db2 = (stored_object db)(event_key row := None)"
      using silent_delete [OF deletion] pair by (auto simp: deletion_pair_def Let_def row)
    have "replay_event (stored_object db) row = (stored_object db)(event_key row := None)"
      using pair row(2) by (simp add: replay_event_def deletion_pair_def Let_def)
    then have "explains db db2"
      unfolding explains_def using deleted row(3) by (intro conjI exI [of _ "[row]"]) simp_all
    then show ?thesis
      using explains_trans explains_unseen ledger_mutations_unseen [OF tail rest] by blast
  qed (use assms(3-5) ms in simp_all)
qed

lemma explains_version [simp]: "explains (db\<lparr>cd_resource_version := rv\<rparr>) db' = explains db db'"
  by (simp add: explains_def)

subsection \<open>Observable entries\<close>

fun finalization :: "log_apply_mutation list \<Rightarrow> bool"
where
  "finalization (LA_FinalizeBoundPod f # rest) \<longleftrightarrow>
    laf_namespace f \<noteq> cluster_namespace_key \<and> list_all is_put_applied_outbox rest"
| "finalization _ \<longleftrightarrow> False"

definition observable :: "cluster_db \<Rightarrow> log_apply_mutation list \<Rightarrow> bool"
where
  "observable db ms \<longleftrightarrow> list_all self_announced ms \<or> announced_deletion db ms \<or> finalization ms"

abbreviation resolved :: "cluster_db \<Rightarrow> int \<Rightarrow> log_apply_mutation list \<Rightarrow> log_apply_mutation list"
  where "resolved db rv ms \<equiv> concat (map (resolve_bound_pod_finalization db rv) ms)"

lemma resolved_same: "list_all (\<lambda>m. \<forall>f. m \<noteq> LA_FinalizeBoundPod f) ms \<Longrightarrow> resolved db rv ms = ms"
proof (induction ms)
  case (Cons m ms)
  then show ?case
    by (cases m) simp_all
qed simp

lemma ledger_not_finalization: "is_put_applied_outbox m \<Longrightarrow> m \<noteq> LA_FinalizeBoundPod f"
  by (cases m) simp_all

lemma resolved_ledger: "list_all is_put_applied_outbox ms \<Longrightarrow> resolved db rv ms = ms"
  by (intro resolved_same) (auto simp: list_all_iff dest: ledger_not_finalization)

lemma ledger_self_announced: "list_all is_put_applied_outbox ms \<Longrightarrow> list_all self_announced ms"
proof (induction ms)
  case (Cons m ms)
  then show ?case
    by (cases m) simp_all
qed simp

lemma self_announced_no_event: "list_all self_announced ms \<Longrightarrow> \<not> list_ex is_put_watch_event ms"
proof (induction ms)
  case (Cons m ms)
  then show ?case
    by (cases m) simp_all
qed simp

lemma pod_scope: "resource_identity ''v1'' ''Pod'' (Some namespace) = NamespacedRow namespace"
  by (simp add: resource_identity_def use_namespaced_table_def is_namespaced_def is_dynamic_custom_resource_def
      is_builtin_api_version_def)

lemma resolved_observable:
  assumes "observable db ms"
  shows "list_all self_announced (resolved db rv ms) \<or> announced_deletion db (resolved db rv ms)"
proof -
  consider "list_all self_announced ms" | "announced_deletion db ms" | "finalization ms"
    using assms by (auto simp: observable_def)
  then show ?thesis
  proof cases
    case 1
    then have "resolved db rv ms = ms"
      by (intro resolved_same) (auto simp: list_all_iff)
    then show ?thesis
      using 1 by simp
  next
    case 2
    then show ?thesis
      by (cases "(db, ms)" rule: announced_deletion.cases) (simp_all add: resolved_ledger)
  next
    case 3
    then obtain f rest where ms: "ms = LA_FinalizeBoundPod f # rest"
      and namespace: "laf_namespace f \<noteq> cluster_namespace_key" and rest: "list_all is_put_applied_outbox rest"
      by (cases ms rule: finalization.cases) auto
    show ?thesis
    proof (cases "resolve_bound_pod_finalization db rv (LA_FinalizeBoundPod f)")
      case Nil
      then show ?thesis
        using rest by (simp add: ms resolved_ledger ledger_self_announced)
    next
      case (Cons m ms')
      then show ?thesis
        using rest namespace
        by (auto simp: ms resolved_ledger deletion_pair_def pod_scope watched_target_def get_existing_resource_def
            split: option.splits if_splits)
    qed
  qed
qed

lemma resolve_noop_kept:
  assumes "list_all (\<lambda>m. \<forall>row. m \<noteq> LA_PutResource row) ms"
  shows "resolve_noop_mutations env db ms = Ok (ms, False)"
  using assms
proof (induction ms)
  case (Cons m ms)
  then show ?case
    by (cases m) simp_all
qed simp

lemma announced_deletion_no_put:
  "announced_deletion db ms \<Longrightarrow> list_all (\<lambda>m. \<forall>row. m \<noteq> LA_PutResource row) ms"
  by (cases "(db, ms)" rule: announced_deletion.cases) (auto simp: list_all_iff)

lemma announced_deletion_event: "announced_deletion db ms \<Longrightarrow> list_ex is_put_watch_event ms"
  by (cases "(db, ms)" rule: announced_deletion.cases) auto

lemma stamped_ledger [simp]: "is_put_applied_outbox (stamp_mutation env rv preserve m) = is_put_applied_outbox m"
  by (cases m) (auto simp: Let_def)

lemma stamped_deletion:
  assumes "announced_deletion db ms"
  shows "announced_deletion (db\<lparr>cd_resource_version := rv\<rparr>) (map (stamp_mutation env rv' preserve) ms)"
proof -
  show ?thesis
    using assms
    by (cases "(db, ms)" rule: announced_deletion.cases)
      (simp_all add: deletion_pair_def Let_def list_all_iff)
qed

lemma stamped_run:
  assumes "apply_stamped_commit env decision emit commit db = Ok (result, db')"
  obtains (unseen) "unseen db db'" "ac_mutations commit = [] \<or> decision = DuplicateEntry"
  | (run) effects db2 where
      "apply_mutations env (ac_resource_version commit) emit (ac_mutations commit) [] db = Ok (effects, db2)"
      "unseen db2 db'"
proof -
  have finished: "unseen db2 (advance_metadata_rv_to_at_least_tx rv (upsert_watermark_option w db2))" for rv w db2
    using unseen_trans unseen_operations(11,12) by blast
  show ?thesis
    using assms finished
    by (auto simp: apply_stamped_commit_def Let_def elim!: result_bind_OkE
        split: if_splits outbox_watermark_decision.splits intro: unseen run)
qed

text \<open>A commit is invisible, or its mutations run under a fresh version.\<close>

lemma commit_run:
  assumes applied: "apply_commit_in_tx_with_watch_events env commit0 emit db = Ok ((rv, effects, resource), db')"
    and ready0: "ready db commit0" and quiet0: "quiet_if_versioned commit0"
  defines "ms1 \<equiv> resolved db (ac_resource_version commit0) (ac_mutations commit0)"
    and "fresh \<equiv> cd_resource_version db + 1"
  obtains
    (unseen) ms2 removed where "unseen db db'"
      "resolve_noop_mutations env db ms1 = Ok (ms2, removed) \<or> ms2 = ms1"
      "list_all is_put_applied_outbox ms2
        \<or> outbox_watermark_decision_in_tx (ac_outbox_watermark commit0) db = Ok DuplicateEntry"
  | (run) ms2 removed effects2 db2 where
      "resolve_noop_mutations env db ms1 = Ok (ms2, removed) \<or> ms2 = ms1"
      "apply_mutations env fresh (emit \<and> \<not> list_ex is_put_watch_event ms1) (map (stamp_mutation env fresh False) ms2) []
        (db\<lparr>cd_resource_version := fresh\<rparr>) = Ok (effects2, db2)"
      "unseen db2 db'"
      "list_all live_shaped (map (stamp_mutation env fresh False) ms2)"
      "list_all (stamped fresh) (map (stamp_mutation env fresh False) ms2)"
  using applied
proof (rule apply_commit_stages)
  fix decision commit2 commit db1 emit'
  let ?commit1 = "resolve_bound_pod_finalizations_in_tx db commit0"
  assume decision: "outbox_watermark_decision_in_tx (ac_outbox_watermark commit0) db = Ok decision"
    and commit2: "(if decision = ApplyEntry then resolve_noop_put_resources_in_tx env db ?commit1
      else Ok ?commit1) = Ok commit2"
    and stamp: "stamp_provisional_resource_version_in_tx env commit2 db = (commit, db1)"
    and result: "apply_stamped_commit env decision emit' commit db1 = Ok ((rv, effects, resource), db')"
    and emit': "emit' \<longleftrightarrow> emit \<and> \<not> list_ex is_put_watch_event (ac_mutations ?commit1)"
  have commit1: "ac_mutations ?commit1 = ms1"
    by (simp add: resolve_bound_pod_finalizations_in_tx_def ms1_def)
  have ready1: "ready db ?commit1"
    using ready_bound [OF ready0] quiet0 by (simp add: quiet_if_versioned_def)
  have quiet1: "quiet_if_versioned ?commit1"
    using quiet0 by (auto simp: quiet_if_versioned_def resolve_bound_pod_finalizations_in_tx_def resolved_ledger)
  have ready2: "ready db commit2" and quiet2: "quiet_if_versioned commit2"
    using commit2 ready_noop [OF ready1] ready1 quiet_noop [OF _ quiet1] quiet1 by (auto split: if_splits)
  note stamped = stamp_ready [OF ready2 stamp]
  have mutations: "ac_mutations commit = map (stamp_mutation env (ac_resource_version commit) False) (ac_mutations commit2)"
    using stamp ready2
    by (auto simp: stamp_provisional_resource_version_in_tx_def ready_def Let_def split: prod.splits if_splits)
  have "(\<exists>removed. resolve_noop_mutations env db ms1 = Ok (ac_mutations commit2, removed)) \<or> ac_mutations commit2 = ms1"
    using commit2 commit1
    by (auto simp: resolve_noop_put_resources_in_tx_def split: if_splits elim!: result_bind_OkE)
  then obtain removed where
    noop: "resolve_noop_mutations env db ms1 = Ok (ac_mutations commit2, removed) \<or> ac_mutations commit2 = ms1"
    by blast
  have db1: "db1 = db\<lparr>cd_resource_version := ac_resource_version commit\<rparr>"
    using stamped by blast
  then have start: "unseen db db1"
    by (simp add: unseen_def same_objects_def)
  from result show ?thesis
  proof (cases rule: stamped_run)
    case unseen
    then show ?thesis
      using that(1) [OF unseen_trans [OF start unseen(1)] noop] decision by (auto simp: mutations)
  next
    case (run effects2 db2)
    show ?thesis
    proof (cases "list_all is_put_applied_outbox (ac_mutations commit)")
      case True
      have "unseen db db'"
        using unseen_trans [OF start] unseen_trans [OF ledger_mutations_unseen [OF run(1) True] run(2)] by blast
      then show ?thesis
        using that(1) [OF _ noop] True by (simp add: mutations list_all_iff)
    next
      case False
      then have version: "ac_resource_version commit = fresh"
        using stamp_fresh_or_quiet [OF stamp ready2 quiet2] by (simp add: fresh_def)
      have "list_all live_shaped (ac_mutations commit)" "list_all (stamped fresh) (ac_mutations commit)"
        using stamped version by simp_all
      then show ?thesis
        using that(2) [OF noop run(1) [unfolded db1 mutations version emit' commit1] run(2)]
        by (simp only: mutations version)
    qed
  qed
qed

lemma commit_explains:
  assumes applied: "apply_commit_in_tx_with_watch_events env commit0 emit db = Ok ((rv, effects, resource), db')"
    and ready0: "ready db commit0" and quiet0: "quiet_if_versioned commit0" and wf: "db_wf env db"
    and observable: "observable db (ac_mutations commit0)"
    and emit: "list_all self_announced (resolved db (ac_resource_version commit0) (ac_mutations commit0)) \<longrightarrow> emit"
  shows "explains db db'"
  using applied ready0 quiet0
proof (cases rule: commit_run)
  case (unseen ms2 removed)
  show ?thesis
    by (rule explains_unseen [OF unseen(1)])
next
  case (run ms2 removed effects2 db2)
  let ?ms1 = "resolved db (ac_resource_version commit0) (ac_mutations commit0)"
  let ?fresh = "cd_resource_version db + 1"
  let ?db1 = "db\<lparr>cd_resource_version := ?fresh\<rparr>"
  have start: "explained ?fresh ?db1 ?db1"
    by (rule explained_start [OF wf]) simp
  consider "list_all self_announced ?ms1" | "announced_deletion db ?ms1"
    using resolved_observable [OF observable] by blast
  then have "explains ?db1 db2"
  proof cases
    case 1
    have "\<not> list_ex is_put_watch_event ?ms1"
      using 1 by (rule self_announced_no_event)
    then have emitting: "(emit \<and> \<not> list_ex is_put_watch_event ?ms1) = True"
      using emit 1 by simp
    have "list_all self_announced (map (stamp_mutation env ?fresh False) ms2)"
      using run(1) 1 resolve_noop_subset by (fastforce simp: list_all_iff)
    then show ?thesis
      by (rule explained_explains [OF apply_mutations_explained [OF run(2) [unfolded emitting] _ start]])
  next
    case 2
    have "ms2 = ?ms1"
      using run(1) by (auto simp: resolve_noop_kept [OF announced_deletion_no_put [OF 2]])
    then have "announced_deletion ?db1 (map (stamp_mutation env ?fresh False) ms2)"
      using stamped_deletion [OF 2] by simp
    moreover have silent: "(emit \<and> \<not> list_ex is_put_watch_event ?ms1) = False"
      using announced_deletion_event [OF 2] by simp
    ultimately show ?thesis
      using run(4,5) by (intro announced_deletion_explains [OF run(2) [unfolded silent] _ _ _ start])
  qed
  then show ?thesis
    using explains_trans explains_unseen [OF run(3)] unfolding explains_version by blast
qed


lemma ledger_unseen: "unseen db (db\<lparr>cd_applied_outbox := ledger\<rparr>)"
  by (simp add: unseen_def same_objects_def)

lemma resolved_event: "list_ex is_put_watch_event ms \<Longrightarrow> list_ex is_put_watch_event (resolved db rv ms)"
proof (induction ms)
  case (Cons m ms)
  then show ?case
    by (cases m) auto
qed simp

lemma attempt_explains:
  assumes "attempt env commit db = Ok (outcome, db')"
    and "live_commit commit" and "db_wf env db" and "observable db (lac_mutations commit)"
  shows "explains db db'"
  using assms(1)
proof (cases rule: attempt_stages)
  case (applied live emit rv pending resource db1)
  note live = from_live_ready [OF applied(1) assms(2)]
  have "list_all self_announced (resolved db 0 (lac_mutations commit)) \<Longrightarrow> emit"
    using applied(6) resolved_event self_announced_no_event by blast
  then have "explains db db1"
    using live assms(3,4)
    by (intro commit_explains [OF applied(2)]) (simp_all add: quiet_if_versioned_def)
  moreover have "unseen db1 db'"
    using update_receipt_ledger [OF applied(3)] ledger_unseen by auto
  ultimately show ?thesis
    using explains_trans explains_unseen by blast
next
  case (rejected code message)
  obtain watermarks ledger where "db' = db\<lparr>cd_watermarks := watermarks, cd_applied_outbox := ledger\<rparr>"
    unfolding rejected(4) by (rule reject_in_tx_tables)
  then show ?thesis
    by (intro explains_unseen) (simp add: unseen_def same_objects_def)
qed

lemma raft_explains:
  assumes "apply_commit_in_tx_for_raft env commit db = Ok (outcome, db')"
    and "live_commit commit" and "db_wf env db" and "observable db (lac_mutations commit)"
  shows "explains db db'"
  using assms(1)
proof (cases rule: raft_stages)
  case unchanged
  then show ?thesis
    by (simp add: explains_unseen)
next
  case (ledger live rv pending resource reason effect)
  note live = from_live_ready [OF ledger(2) live_commit_ledger [OF assms(2)]]
  have rows: "list_all is_put_applied_outbox (ac_mutations live)"
    by (simp add: live(3) commit_with_outbox_rows_only_def list_all_iff)
  show ?thesis
  proof (rule commit_explains [OF ledger(3) _ _ assms(3)])
    show "ready db (live\<lparr>ac_resource_version := cd_resource_version db\<rparr>)"
      using live(1) [of db] by (simp add: ready_def)
  qed (use rows in \<open>simp_all add: quiet_if_versioned_def observable_def ledger_self_announced\<close>)
next
  case attempted
  show ?thesis
    by (rule attempt_explains [OF attempted(2) assms(2-4)])
qed

lemma committed_explains:
  assumes "live_commit commit" and "db_wf env db" and "observable db (lac_mutations commit)"
  shows "explains db (snd (apply_committed env commit db))"
proof (cases rule: apply_committed_cases [of env commit db])
  case (failed e)
  then show ?thesis
    by (simp add: explains_unseen)
next
  case (applied outcome db')
  then show ?thesis
    using raft_explains [OF applied(2) assms] by simp
qed

fun observable_log :: "apply_env \<Rightarrow> log_apply_commit list \<Rightarrow> cluster_db \<Rightarrow> bool"
where
  "observable_log env [] db \<longleftrightarrow> True"
| "observable_log env (commit # log) db \<longleftrightarrow>
    observable db (lac_mutations commit) \<and> observable_log env log (snd (apply_committed env commit db))"

lemma log_explains:
  assumes "list_all live_commit log" and "db_wf env db" and "observable_log env log db"
  shows "explains db (apply_log env log db)"
  using assms
proof (induction log arbitrary: db)
  case (Cons commit log)
  have "explains db (snd (apply_committed env commit db))"
    using Cons.prems by (intro committed_explains) simp_all
  moreover have "explains (snd (apply_committed env commit db)) (apply_log env (commit # log) db)"
    using Cons.IH Cons.prems apply_committed_wf by simp
  ultimately show ?case
    by (rule explains_trans)
qed (simp add: explains_unseen)


subsection \<open>Superseded deletions\<close>

lemma superseded_commit:
  assumes live: "from_live env commit = Ok live"
    and applied: "apply_commit_in_tx_with_watch_events env live emit db = Ok ((rv, pending, resource), db')"
    and fresh: "fresh_entry env commit db" and commit: "live_commit commit" "db_wf env db"
      "lac_mutations commit = [LA_PutWatchEvent e, LA_DeleteResource key]"
    and existing: "get_existing_resource (resource_identity (lrk_api_version key) (lrk_kind key) (lrk_namespace key))
      (lrk_api_version key) (lrk_kind key) (lrk_name key) db = Some (current_rv, uid, data)"
    and uid: "lrk_uid key \<notin> {[], uid}"
  shows "\<exists>row. cd_watch_events db' = cd_watch_events db @ [row]
    \<and> event_key row = (lwe_api_version e, lwe_kind e, lwe_namespace e, lwe_name e)
    \<and> wer_event_type row = lwe_event_type e \<and> wer_resource_version row = cd_resource_version db + 1
    \<and> stored_object db' = stored_object db"
proof -
  note ready = from_live_ready [OF live commit(1)]
  let ?fresh = "cd_resource_version db + 1"
  let ?db1 = "db\<lparr>cd_resource_version := ?fresh\<rparr>"
  have kept: "resolved db 0 (lac_mutations commit) = lac_mutations commit"
    "resolve_noop_mutations env db (lac_mutations commit) = Ok (lac_mutations commit, False)"
    by (simp_all add: commit(3))
  have quiet: "quiet_if_versioned live"
    by (simp add: quiet_if_versioned_def ready(2))
  from applied ready(1) quiet show ?thesis
  proof (cases rule: commit_run)
    case (unseen ms2 removed)
    then show ?thesis
      using fresh kept by (auto simp: ready commit(3) fresh_entry_def)
  next
    case (run ms2 removed effects2 db2)
    have ms2: "ms2 = [LA_PutWatchEvent e, LA_DeleteResource key]"
      using run(1) kept by (auto simp: ready commit(3))
    obtain e' where e': "stamp_mutation env ?fresh False (LA_PutWatchEvent e) = LA_PutWatchEvent e'"
        "(lwe_api_version e', lwe_kind e', lwe_namespace e', lwe_name e') =
          (lwe_api_version e, lwe_kind e, lwe_namespace e, lwe_name e)" "lwe_event_type e' = lwe_event_type e"
      by (simp add: Let_def)
    have start: "explained ?fresh ?db1 ?db1"
      by (rule explained_start [OF commit(2)]) simp
    have "apply_mutations env ?fresh False [LA_PutWatchEvent e', LA_DeleteResource key] [] ?db1 = Ok (effects2, db2)"
      using run(2) e'(1) by (simp add: ms2 ready kept commit(3))
    then show ?thesis
    proof (rule pair_run [OF _ _ _ start])
      fix row staged db3 effects3
      assume row: "event_key row = (lwe_api_version e', lwe_kind e', lwe_namespace e', lwe_name e')"
          "wer_event_type row = lwe_event_type e'" "wer_resource_version row = ?fresh"
        and deletion: "apply_delete_resource ?fresh key False
          (?db1\<lparr>cd_watch_events := cd_watch_events ?db1 @ [row], cd_event_sequence := cd_event_sequence ?db1 + 1\<rparr>)
          = Ok (staged, db3)"
        and tail: "apply_mutations env ?fresh False [] effects3 db3 = Ok (effects2, db2)"
      have "db3 = ?db1\<lparr>cd_watch_events := cd_watch_events ?db1 @ [row], cd_event_sequence := cd_event_sequence ?db1 + 1\<rparr>"
        using deletion by (cases rule: delete_resource_cases) (use existing uid in auto)
      then show ?thesis
        using tail run(3) row e' stored_object_same [of db2 db'] by (auto simp: unseen_def)
    qed (use run(4,5) e'(1) ms2 in simp_all)
  qed
qed


section \<open>Properties\<close>

text \<open>C2: The watch history explains the state. Whatever entries of an observable log are accepted,
  rejected or repeated, the events they append turn the objects stored before into the objects stored
  after: folding the events in order over the old objects gives exactly the new ones, so a client that
  applies every event holds the state of the database. An entry is observable if its mutations announce
  themselves, or if it is a deletion that comes with its event and meets the incarnation it names, or the
  finalisation of a bound Pod.\<close>

theorem watch_history_explains_state:
  assumes "list_all live_commit log" and "db_wf env db" and "observable_log env log db"
  shows "\<exists>new. cd_watch_events (apply_log env log db) = cd_watch_events db @ new
    \<and> stored_object (apply_log env log db) = foldl replay_event (stored_object db) new"
  using log_explains [OF assms] unfolding explains_def by blast

text \<open>C14: A deletion that lost a race hides a live object. Its event is recorded before the row is looked
  at, and a row of another incarnation is left alone without an error. So if the object was deleted and
  created again between the authoring of the entry and its commit, the last event of the history is the
  authored deletion while the object is still stored.\<close>

theorem superseded_deletion_announced:
  assumes "live_commit commit" and "db_wf env db"
    and "lac_mutations commit = [LA_PutWatchEvent e, LA_DeleteResource key]"
    and "get_existing_resource (resource_identity (lrk_api_version key) (lrk_kind key) (lrk_namespace key))
      (lrk_api_version key) (lrk_kind key) (lrk_name key) db = Some (current_rv, uid, data)"
    and "lrk_uid key \<notin> {[], uid}"
    and "apply_committed env commit db = (Ok outcome, db')" and "ro_committed_outcome outcome = Visible rv resource"
  shows "\<exists>row. cd_watch_events db' = cd_watch_events db @ [row]
    \<and> event_key row = (lwe_api_version e, lwe_kind e, lwe_namespace e, lwe_name e)
    \<and> wer_event_type row = lwe_event_type e \<and> wer_resource_version row = cd_resource_version db + 1
    \<and> stored_object db' = stored_object db"
proof -
  have "apply_commit_in_tx_for_raft env commit db = Ok (outcome, db')"
    using assms(6) by (auto simp: apply_committed_def split: sum.splits)
  then show ?thesis
  proof (cases rule: raft_stages)
    case attempted
    from attempted(2) show ?thesis
    proof (cases rule: attempt_stages)
      case (applied live emit rv' pending resource' db1)
      have "unseen db1 db'"
        using update_receipt_ledger [OF applied(3)] ledger_unseen by auto
      then show ?thesis
        using superseded_commit [OF applied(1,2) attempted(1) assms(1-5)]
        by (auto simp: unseen_def dest: stored_object_same)
    qed (use assms(7) in auto)
  qed (use assms(7) in \<open>auto simp: silent_def\<close>)
qed


section \<open>Examples\<close>

abbreviation example_log :: "log_apply_commit list"
  where "example_log \<equiv> [example_entry 1 ''k1'' None]"

theorem watch_history_explains_state_witness:
  "map wer_event_type (cd_watch_events (apply_log example_env example_log empty_db)) = [''ADDED'']
    \<and> stored_object (apply_log example_env example_log empty_db) =
      foldl replay_event (stored_object empty_db) (cd_watch_events (apply_log example_env example_log empty_db))"
proof
  show "map wer_event_type (cd_watch_events (apply_log example_env example_log empty_db)) = [''ADDED'']"
    by code_simp
  have "observable_log example_env example_log empty_db"
    by (simp add: observable_def example_entry_def example_config_def watched_target_def resource_identity_def
        use_namespaced_table_def is_namespaced_def is_dynamic_custom_resource_def is_builtin_api_version_def
        cluster_namespace_key_def)
  then show "stored_object (apply_log example_env example_log empty_db) =
      foldl replay_event (stored_object empty_db) (cd_watch_events (apply_log example_env example_log empty_db))"
    using watch_history_explains_state [OF _ empty_db_wf, of example_log example_env]
    by (simp add: example_entry_live empty_db_def)
qed

definition example_event_row :: log_apply_watch_event_row
where
  "example_event_row =
    \<lparr>lwe_event_id = None, lwe_api_version = ''v1'', lwe_kind = ''ConfigMap'', lwe_namespace = Some ''apps'',
     lwe_name = ''settings'', lwe_resource_version = 0, lwe_event_type = ''DELETED'', lwe_data = JObject []\<rparr>"

definition example_key :: log_apply_resource_key
where
  "example_key =
    \<lparr>lrk_api_version = ''v1'', lrk_kind = ''ConfigMap'', lrk_namespace = Some ''apps'', lrk_name = ''settings'',
     lrk_uid = ''u0'', lrk_precondition_resource_version = Some 1\<rparr>"

definition example_deletion :: log_apply_commit
where
  "example_deletion =
    \<lparr>lac_resource_version = 0, lac_outbox_watermark = None,
     lac_mutations = [LA_PutWatchEvent example_event_row, LA_DeleteResource example_key]\<rparr>"

definition example_state :: cluster_db
  where "example_state = apply_log example_env example_log empty_db"

lemma example_deletion_run:
  obtains outcome db' rv resource where
    "apply_committed example_env example_deletion example_state = (Ok outcome, db')"
    "ro_committed_outcome outcome = Visible rv resource"
proof -
  have "case apply_committed example_env example_deletion example_state of
      (Ok outcome, _) \<Rightarrow> (case ro_committed_outcome outcome of Visible _ _ \<Rightarrow> True | _ \<Rightarrow> False) | _ \<Rightarrow> False"
    by code_simp
  then show ?thesis
    using that by (auto split: prod.splits sum.splits committed_apply_outcome.splits)
qed

lemma example_existing:
  obtains current_rv data where
    "get_existing_resource (resource_identity (lrk_api_version example_key) (lrk_kind example_key) (lrk_namespace example_key))
      (lrk_api_version example_key) (lrk_kind example_key) (lrk_name example_key) example_state = Some (current_rv, ''u1'', data)"
proof -
  have "map_option (\<lambda>(_, uid, _). uid)
      (get_existing_resource (resource_identity (lrk_api_version example_key) (lrk_kind example_key) (lrk_namespace example_key))
        (lrk_api_version example_key) (lrk_kind example_key) (lrk_name example_key) example_state) = Some ''u1''"
    by code_simp
  then show ?thesis
    using that by auto
qed

theorem superseded_deletion_announced_witness:
  "\<exists>row. cd_watch_events (snd (apply_committed example_env example_deletion example_state)) =
      cd_watch_events example_state @ [row]
    \<and> wer_event_type row = ''DELETED''
    \<and> stored_object (snd (apply_committed example_env example_deletion example_state)) (event_key row) \<noteq> None"
proof -
  obtain outcome db' rv resource where
    run: "apply_committed example_env example_deletion example_state = (Ok outcome, db')"
      "ro_committed_outcome outcome = Visible rv resource"
    by (rule example_deletion_run)
  obtain current_rv data where existing: "get_existing_resource
      (resource_identity (lrk_api_version example_key) (lrk_kind example_key) (lrk_namespace example_key))
      (lrk_api_version example_key) (lrk_kind example_key) (lrk_name example_key) example_state = Some (current_rv, ''u1'', data)"
    by (rule example_existing)
  have commit: "live_commit example_deletion"
    "lac_mutations example_deletion = [LA_PutWatchEvent example_event_row, LA_DeleteResource example_key]"
    by (simp_all add: live_commit_def example_deletion_def example_event_row_def example_key_def)
  have wf: "db_wf example_env example_state"
    unfolding example_state_def by (intro apply_log_wf empty_db_wf) (simp add: example_entry_live)
  have uid: "lrk_uid example_key \<notin> {[], ''u1''}"
    by (simp add: example_key_def)
  have "stored_object example_state (lwe_api_version example_event_row, lwe_kind example_event_row,
      lwe_namespace example_event_row, lwe_name example_event_row) \<noteq> None"
    using existing
    by (simp add: stored_object_def example_event_row_def example_key_def resource_identity_def
        use_namespaced_table_def is_namespaced_def is_dynamic_custom_resource_def is_builtin_api_version_def)
  moreover have "lwe_event_type example_event_row = ''DELETED''"
    by (simp add: example_event_row_def)
  ultimately show ?thesis
    using superseded_deletion_announced [OF commit(1) wf commit(2) existing uid run] unfolding run(1) snd_conv by metis
qed

end
