(* ===== verification/Node_Outbox.thy ===== *)
theory Node_Outbox
  imports Storage_Command "HOL-Library.Product_Lexorder"
begin

text \<open>
  The delivery store of a worker node (\<^verbatim>\<open>klights-node-store/src/delivery.rs\<close>,
  \<^verbatim>\<open>klights-node-datastore/src/delivery.rs\<close> with its queries and schema): the outbox of commands a node
  owes to the leader, the dead letters, the sequence numbers of its streams and the checkpoints of Pod
  status.

  Each operation is one transaction on \<^verbatim>\<open>node_db\<close>; an error leaves the database as it was. A query is
  its meaning over the rows. The SHA-256 digest that names a stream and the UUID that names the node are
  parameters (\<^verbatim>\<open>digest\<close> gives the first eight bytes as a big-endian number). The text of a corrupt stamp
  leaves out what the standard library adds to it. SQL arithmetic on
  \<^verbatim>\<open>attempt\<close> is unbounded; the callers stop at 720 attempts.
\<close>


section \<open>Classification\<close>

datatype node_delivery_error =
    InvalidInput string string
  | PersistenceFailed string
  | CorruptData string

datatype outbox_supersedability = NeverSuperseded | SupersededPodStatus

datatype terminal_delete_classification = NotTerminalDelete | ActorOwnedPodDelete

datatype outbox_sequence_policy = Unsequenced | PerSubject

fun priority_persisted_value :: "outbox_priority \<Rightarrow> int"
where
  "priority_persisted_value LeasePriority = 0"
| "priority_persisted_value NodeHealthPriority = 1"
| "priority_persisted_value WorkloadPriority = 2"
| "priority_persisted_value DiagnosticPriority = 3"

definition priority_try_from :: "int \<Rightarrow> (outbox_priority, node_delivery_error) rust_result"
where
  "priority_try_from value =
    (if value = 0 then Ok LeasePriority
     else if value = 1 then Ok NodeHealthPriority
     else if value = 2 then Ok WorkloadPriority
     else if value = 3 then Ok DiagnosticPriority
     else Err (InvalidInput ''outbox.priority'' ''must be one of the persisted values 0 through 3''))"

fun supersedability_persisted_value :: "outbox_supersedability \<Rightarrow> int"
where
  "supersedability_persisted_value NeverSuperseded = 0"
| "supersedability_persisted_value SupersededPodStatus = 1"

definition supersedability_try_from :: "int \<Rightarrow> (outbox_supersedability, node_delivery_error) rust_result"
where
  "supersedability_try_from value =
    (if value = 0 then Ok NeverSuperseded
     else if value = 1 then Ok SupersededPodStatus
     else Err (InvalidInput ''outbox.supersedability'' ''must be persisted as 0 or 1''))"

fun terminal_delete_persisted_value :: "terminal_delete_classification \<Rightarrow> int"
where
  "terminal_delete_persisted_value NotTerminalDelete = 0"
| "terminal_delete_persisted_value ActorOwnedPodDelete = 1"

definition terminal_delete_try_from ::
  "int \<Rightarrow> (terminal_delete_classification, node_delivery_error) rust_result"
where
  "terminal_delete_try_from value =
    (if value = 0 then Ok NotTerminalDelete
     else if value = 1 then Ok ActorOwnedPodDelete
     else Err (InvalidInput ''outbox.terminal_delete'' ''must be persisted as 0 or 1''))"

fun sequence_policy_persisted_value :: "outbox_sequence_policy \<Rightarrow> int"
where
  "sequence_policy_persisted_value Unsequenced = 0"
| "sequence_policy_persisted_value PerSubject = 1"

definition sequence_policy_try_from :: "int \<Rightarrow> (outbox_sequence_policy, node_delivery_error) rust_result"
where
  "sequence_policy_try_from value =
    (if value = 0 then Ok Unsequenced
     else if value = 1 then Ok PerSubject
     else Err (InvalidInput ''outbox.sequence_policy'' ''must be persisted as 0 or 1''))"

record outbox_classification =
  oc_priority :: outbox_priority
  oc_supersedability :: outbox_supersedability
  oc_terminal_delete :: terminal_delete_classification
  oc_sequence_policy :: outbox_sequence_policy

definition classification_try_new ::
  "outbox_priority \<Rightarrow> outbox_supersedability \<Rightarrow> terminal_delete_classification \<Rightarrow> outbox_sequence_policy
    \<Rightarrow> (outbox_classification, node_delivery_error) rust_result"
where
  "classification_try_new priority supersedability terminal_delete sequence_policy =
    (if terminal_delete = ActorOwnedPodDelete \<and> supersedability \<noteq> NeverSuperseded
     then Err (InvalidInput ''outbox.classification''
       ''an actor-owned terminal Pod delete must not be supersedable'')
     else if (terminal_delete = ActorOwnedPodDelete \<or> supersedability = SupersededPodStatus)
       \<and> sequence_policy \<noteq> PerSubject
     then Err (InvalidInput ''outbox.classification''
       ''Pod status and terminal Pod-delete delivery must be per-subject sequenced'')
     else Ok \<lparr>oc_priority = priority, oc_supersedability = supersedability,
       oc_terminal_delete = terminal_delete, oc_sequence_policy = sequence_policy\<rparr>)"

definition try_from_persisted ::
  "int \<Rightarrow> int \<Rightarrow> int \<Rightarrow> int \<Rightarrow> (outbox_classification, node_delivery_error) rust_result"
where
  "try_from_persisted priority supersedability terminal_delete sequence_policy =
    result_bind (priority_try_from priority) (\<lambda>p.
    result_bind (supersedability_try_from supersedability) (\<lambda>s.
    result_bind (terminal_delete_try_from terminal_delete) (\<lambda>t.
    result_bind (sequence_policy_try_from sequence_policy) (\<lambda>q.
      classification_try_new p s t q))))"

definition persisted_values :: "outbox_classification \<Rightarrow> int \<times> int \<times> int \<times> int"
where
  "persisted_values c =
    (priority_persisted_value (oc_priority c), supersedability_persisted_value (oc_supersedability c),
     terminal_delete_persisted_value (oc_terminal_delete c),
     sequence_policy_persisted_value (oc_sequence_policy c))"

text \<open>A value of the type comes from \<^const>\<open>classification_try_new\<close>, so it keeps its rules.\<close>

definition valid_classification :: "outbox_classification \<Rightarrow> bool"
where
  "valid_classification c \<longleftrightarrow>
    classification_try_new (oc_priority c) (oc_supersedability c) (oc_terminal_delete c)
      (oc_sequence_policy c) = Ok c"

definition is_finalize_bound_pod :: "storage_command \<Rightarrow> bool"
  where "is_finalize_bound_pod command = (case command of FinalizeBoundPod _ _ _ _ _ \<Rightarrow> True | _ \<Rightarrow> False)"

definition outbox_operation_classification ::
  "outbox_operation \<Rightarrow> storage_command \<Rightarrow> (outbox_classification, node_delivery_error) rust_result"
where
  "outbox_operation_classification operation command =
    (let terminal_delete =
       (if is_finalize_bound_pod command then ActorOwnedPodDelete else NotTerminalDelete);
         supersedability =
       (if is_supersedable_pod_status operation \<and> terminal_delete = NotTerminalDelete
        then SupersededPodStatus else NeverSuperseded);
         sequence_policy = (if uses_per_subject_sequence operation then PerSubject else Unsequenced)
     in classification_try_new (outbox_operation_priority operation) supersedability terminal_delete
          sequence_policy)"


section \<open>Rows\<close>

record outbox_insert =
  oi_idempotency_key :: string
  oi_enqueued_ms :: int
  oi_subject_key :: string
  oi_subject_api_version :: string
  oi_subject_kind :: string
  oi_subject_namespace :: "string option"
  oi_subject_name :: string
  oi_subject_uid :: "string option"
  oi_pod_uid :: string
  oi_operation :: string
  oi_classification :: outbox_classification
  oi_payload_proto :: string
  oi_next_due_ms :: int

record node_outbox_row =
  ob_id :: int
  ob_client_id :: string
  ob_idempotency_key :: string
  ob_enqueued_ms :: int
  ob_subject_key :: string
  ob_subject_api_version :: string
  ob_subject_kind :: string
  ob_subject_namespace :: "string option"
  ob_subject_name :: string
  ob_subject_uid :: "string option"
  ob_pod_uid :: string
  ob_operation :: string
  ob_priority_class :: int
  ob_supersedable_pod_status :: bool
  ob_is_terminal_pod_delete :: bool
  ob_stream_id :: int
  ob_stream_seq :: int
  ob_payload_proto :: string
  ob_attempt :: int
  ob_next_due_ms :: int
  ob_leased_until_ms :: int
  ob_lease_token :: "string option"
  ob_last_error :: "string option"

record dead_letter_row =
  dl_id :: int
  dl_original_id :: int
  dl_client_id :: string
  dl_idempotency_key :: string
  dl_enqueued_ms :: int
  dl_subject_key :: string
  dl_subject_api_version :: string
  dl_subject_kind :: string
  dl_subject_namespace :: "string option"
  dl_subject_name :: string
  dl_subject_uid :: "string option"
  dl_pod_uid :: string
  dl_operation :: string
  dl_stream_id :: int
  dl_stream_seq :: int
  dl_payload_proto :: string
  dl_attempts :: int
  dl_last_error :: string
  dl_moved_at_ms :: int

record pod_status_checkpoint =
  pc_pod_uid :: string
  pc_namespace :: string
  pc_pod_name :: string
  pc_base_rv :: int
  pc_applied_rv :: "int option"
  pc_status :: json
  pc_updated_ms :: int

text \<open>
  The tables, with the row ids that \<^verbatim>\<open>AUTOINCREMENT\<close> has handed out. Rows are kept in the order of
  their ids.
\<close>

record node_db =
  nd_meta :: "string \<Rightarrow> string option"
  nd_stream_sequences :: "int \<Rightarrow> int option"
  nd_outbox :: "node_outbox_row list"
  nd_last_outbox_id :: int
  nd_dead_letter :: "dead_letter_row list"
  nd_last_dead_letter_id :: int
  nd_checkpoints :: "pod_status_checkpoint list"

datatype node_db_error = UniqueViolation | CheckViolation | RowidExhausted | LeaseChanged

definition empty_node_db :: node_db
where
  "empty_node_db =
    \<lparr>nd_meta = \<lambda>_. None, nd_stream_sequences = \<lambda>_. None, nd_outbox = [], nd_last_outbox_id = 0,
     nd_dead_letter = [], nd_last_dead_letter_id = 0, nd_checkpoints = []\<rparr>"


section \<open>Identities and sequence numbers\<close>

definition ensure_outbox_client_id_in_tx :: "string \<Rightarrow> node_db \<Rightarrow> string \<times> node_db"
where
  "ensure_outbox_client_id_in_tx uuid db =
    (case nd_meta db ''outbox_client_id'' of
       Some client_id \<Rightarrow> (client_id, db)
     | None \<Rightarrow>
         let client_id = ''outbox-'' @ uuid
         in (client_id, db\<lparr>nd_meta := (nd_meta db)(''outbox_client_id'' \<mapsto> client_id)\<rparr>))"

definition outbox_stream_id :: "(string \<Rightarrow> 64 word) \<Rightarrow> string \<Rightarrow> int"
where
  "outbox_stream_id digest subject_key =
    (let stream_id = uint (and (digest subject_key) 0x7FFFFFFFFFFFFFFF)
     in if stream_id = 0 then 1 else stream_id)"

definition allocate_next_outbox_stream_seq :: "int \<Rightarrow> node_db \<Rightarrow> int \<times> node_db"
where
  "allocate_next_outbox_stream_seq stream_id db =
    (let next_seq = saturating_add_i64 (unwrap_or (nd_stream_sequences db stream_id) 0) 1
     in (next_seq, db\<lparr>nd_stream_sequences := (nd_stream_sequences db)(stream_id \<mapsto> next_seq)\<rparr>))"

text \<open>The insertion with the constraints of the table.\<close>

definition outbox_insert_row ::
  "node_outbox_row \<Rightarrow> node_db \<Rightarrow> (node_db, node_db_error) rust_result"
where
  "outbox_insert_row row db =
    (if list_ex (\<lambda>r. ob_idempotency_key r = ob_idempotency_key row) (nd_outbox db) then Err UniqueViolation
     else if ob_operation row = [] \<or> \<not> (0 \<le> ob_priority_class row \<and> ob_priority_class row \<le> 3)
       \<or> (ob_subject_kind row = ''Pod'' \<and> ob_pod_uid row = [])
     then Err CheckViolation
     else if nd_last_outbox_id db = i64_max then Err RowidExhausted
     else
       let row_id = nd_last_outbox_id db + 1
       in Ok (db\<lparr>nd_outbox := nd_outbox db @ [row\<lparr>ob_id := row_id\<rparr>], nd_last_outbox_id := row_id\<rparr>))"

definition enqueue_outbox ::
  "(string \<Rightarrow> 64 word) \<Rightarrow> string \<Rightarrow> outbox_insert \<Rightarrow> node_db \<Rightarrow> (node_db, node_db_error) rust_result"
where
  "enqueue_outbox digest uuid row db =
    (let (priority_class, supersedable, terminal, sequence_policy) = persisted_values (oi_classification row);
         (client_id, db1) = ensure_outbox_client_id_in_tx uuid db;
         sequenced = (sequence_policy = sequence_policy_persisted_value PerSubject);
         stream_id = (if sequenced then outbox_stream_id digest (oi_subject_key row) else 0);
         (stream_seq, db2) = (if sequenced then allocate_next_outbox_stream_seq stream_id db1 else (0, db1))
     in outbox_insert_row
          \<lparr>ob_id = 0, ob_client_id = client_id, ob_idempotency_key = oi_idempotency_key row,
           ob_enqueued_ms = oi_enqueued_ms row, ob_subject_key = oi_subject_key row,
           ob_subject_api_version = oi_subject_api_version row, ob_subject_kind = oi_subject_kind row,
           ob_subject_namespace = oi_subject_namespace row, ob_subject_name = oi_subject_name row,
           ob_subject_uid = oi_subject_uid row, ob_pod_uid = oi_pod_uid row,
           ob_operation = oi_operation row, ob_priority_class = priority_class,
           ob_supersedable_pod_status = (supersedable \<noteq> 0), ob_is_terminal_pod_delete = (terminal \<noteq> 0),
           ob_stream_id = stream_id, ob_stream_seq = stream_seq, ob_payload_proto = oi_payload_proto row,
           ob_attempt = 0, ob_next_due_ms = oi_next_due_ms row, ob_leased_until_ms = 0,
           ob_lease_token = None, ob_last_error = None\<rparr> db2)"


section \<open>Claims\<close>

definition outbox_diagnostic_aging_ms :: int where "outbox_diagnostic_aging_ms = 30000"

text \<open>
  The rows that may be sent: the lowest position of a stream that neither the outbox nor the dead letters
  precede, and the oldest row of a subject outside the streams.
\<close>

definition head_of_line :: "node_db \<Rightarrow> node_outbox_row \<Rightarrow> bool"
where
  "head_of_line db candidate \<longleftrightarrow>
    (ob_stream_id candidate > 0 \<and> ob_stream_seq candidate > 0
     \<and> \<not> list_ex (\<lambda>older. ob_stream_id older = ob_stream_id candidate
           \<and> (ob_stream_seq older > 0 \<and> ob_stream_seq older < ob_stream_seq candidate
              \<or> ob_stream_seq older = 0 \<and> ob_id older < ob_id candidate)) (nd_outbox db)
     \<and> \<not> list_ex (\<lambda>dead. dl_stream_id dead = ob_stream_id candidate \<and> dl_stream_seq dead > 0
           \<and> dl_stream_seq dead < ob_stream_seq candidate) (nd_dead_letter db))
    \<or> ((ob_stream_id candidate \<le> 0 \<or> ob_stream_seq candidate \<le> 0)
     \<and> \<not> list_ex (\<lambda>older. ob_subject_key older = ob_subject_key candidate \<and> ob_id older < ob_id candidate)
           (nd_outbox db))"

definition claimable :: "int \<Rightarrow> node_db \<Rightarrow> node_outbox_row \<Rightarrow> bool"
where
  "claimable now_ms db candidate \<longleftrightarrow>
    ob_next_due_ms candidate \<le> now_ms
    \<and> (ob_leased_until_ms candidate = 0 \<or> ob_leased_until_ms candidate \<le> now_ms)
    \<and> head_of_line db candidate"

definition eligible :: "int \<Rightarrow> node_db \<Rightarrow> node_outbox_row list"
  where "eligible now_ms db = filter (claimable now_ms db) (nd_outbox db)"

definition claim_rank :: "int \<Rightarrow> node_outbox_row list \<Rightarrow> node_outbox_row \<Rightarrow> int"
where
  "claim_rank now_ms candidates row =
    (if ob_priority_class row = priority_persisted_value DiagnosticPriority
     then if ob_enqueued_ms row \<le> now_ms - outbox_diagnostic_aging_ms
          then priority_persisted_value WorkloadPriority
          else if list_ex (\<lambda>c. \<not> ob_is_terminal_pod_delete c \<and> ob_supersedable_pod_status c) candidates
          then priority_persisted_value DiagnosticPriority
          else priority_persisted_value WorkloadPriority
     else ob_priority_class row)"

definition outbox_claim_due :: "int \<Rightarrow> nat \<Rightarrow> node_db \<Rightarrow> int list"
where
  "outbox_claim_due now_ms limit db =
    (let candidates = eligible now_ms db
     in map ob_id (take limit
          (sort_key (\<lambda>c. (claim_rank now_ms candidates c, ob_enqueued_ms c, ob_id c)) candidates)))"

definition outbox_row_select :: "int \<Rightarrow> node_db \<Rightarrow> node_outbox_row option"
  where "outbox_row_select row_id db = List.find (\<lambda>r. ob_id r = row_id) (nd_outbox db)"

definition outbox_update ::
  "(node_outbox_row \<Rightarrow> bool) \<Rightarrow> (node_outbox_row \<Rightarrow> node_outbox_row) \<Rightarrow> node_db \<Rightarrow> nat \<times> node_db"
where
  "outbox_update P f db =
    (length (filter P (nd_outbox db)),
     db\<lparr>nd_outbox := map (\<lambda>r. if P r then f r else r) (nd_outbox db)\<rparr>)"

definition outbox_delete :: "(node_outbox_row \<Rightarrow> bool) \<Rightarrow> node_db \<Rightarrow> nat \<times> node_db"
where
  "outbox_delete P db =
    (length (filter P (nd_outbox db)), db\<lparr>nd_outbox := filter (\<lambda>r. \<not> P r) (nd_outbox db)\<rparr>)"

definition outbox_set_lease :: "int \<Rightarrow> int \<Rightarrow> string \<Rightarrow> int \<Rightarrow> node_db \<Rightarrow> nat \<times> node_db"
where
  "outbox_set_lease row_id leased_until_ms lease_token now_ms =
    outbox_update
      (\<lambda>r. ob_id r = row_id \<and> ob_next_due_ms r \<le> now_ms \<and> ob_leased_until_ms r \<le> now_ms)
      (\<lambda>r. r\<lparr>ob_leased_until_ms := leased_until_ms, ob_lease_token := Some lease_token\<rparr>)"

definition claim_next_due_outbox ::
  "int \<Rightarrow> int \<Rightarrow> string \<Rightarrow> node_db \<Rightarrow> node_outbox_row option \<times> node_db"
where
  "claim_next_due_outbox now_ms lease_ms lease_token db =
    (case outbox_claim_due now_ms 1 db of
       [] \<Rightarrow> (None, db)
     | row_id # _ \<Rightarrow>
         let leased_until_ms = saturating_add_i64 now_ms (max lease_ms 1);
             (_, db') = outbox_set_lease row_id leased_until_ms lease_token now_ms db
         in (outbox_row_select row_id db', db'))"

fun lease_all :: "int \<Rightarrow> string \<Rightarrow> int \<Rightarrow> int list \<Rightarrow> node_db \<Rightarrow> int list \<times> node_db"
where
  "lease_all leased_until_ms lease_token now_ms [] db = ([], db)"
| "lease_all leased_until_ms lease_token now_ms (row_id # ids) db =
    (let (changed, db1) = outbox_set_lease row_id leased_until_ms lease_token now_ms db;
         (leased_ids, db2) = lease_all leased_until_ms lease_token now_ms ids db1
     in (if changed > 0 then row_id # leased_ids else leased_ids, db2))"

definition claim_due_outbox_batch ::
  "int \<Rightarrow> nat \<Rightarrow> int \<Rightarrow> string \<Rightarrow> node_db \<Rightarrow> node_outbox_row list \<times> node_db"
where
  "claim_due_outbox_batch now_ms limit lease_ms lease_token db =
    (let ids = outbox_claim_due now_ms (min limit 256) db
     in if ids = [] then ([], db)
        else
          let leased_until_ms = saturating_add_i64 now_ms (max lease_ms 1);
              (leased_ids, db') = lease_all leased_until_ms lease_token now_ms ids db
          in (List.map_filter (\<lambda>row_id. outbox_row_select row_id db') leased_ids, db'))"

definition renew_outbox_lease :: "int \<Rightarrow> string \<Rightarrow> int \<Rightarrow> node_db \<Rightarrow> bool \<times> node_db"
where
  "renew_outbox_lease row_id lease_token leased_until_ms db =
    (let (changed, db') = outbox_update (\<lambda>r. ob_id r = row_id \<and> ob_lease_token r = Some lease_token)
           (\<lambda>r. r\<lparr>ob_leased_until_ms := leased_until_ms\<rparr>) db
     in (changed > 0, db'))"

definition requeue_expired_outbox_leases :: "int \<Rightarrow> node_db \<Rightarrow> nat \<times> node_db"
where
  "requeue_expired_outbox_leases now_ms =
    outbox_update (\<lambda>r. ob_leased_until_ms r > 0 \<and> ob_leased_until_ms r \<le> now_ms)
      (\<lambda>r. r\<lparr>ob_leased_until_ms := 0, ob_lease_token := None\<rparr>)"

definition outbox_wake_ms :: "int \<Rightarrow> node_outbox_row \<Rightarrow> int"
where
  "outbox_wake_ms now_ms r =
    max (ob_next_due_ms r)
      (if ob_leased_until_ms r > now_ms then ob_leased_until_ms r else ob_next_due_ms r)"

definition next_outbox_wake_ms :: "int \<Rightarrow> node_db \<Rightarrow> int option"
where
  "next_outbox_wake_ms now_ms db =
    (case map (outbox_wake_ms now_ms) (filter (head_of_line db) (nd_outbox db)) of
       [] \<Rightarrow> None
     | w # ws \<Rightarrow> Some (fold min ws w))"


section \<open>Completion and failure\<close>

definition outbox_mark_failed :: "int \<Rightarrow> string \<Rightarrow> int \<Rightarrow> string \<Rightarrow> node_db \<Rightarrow> nat \<times> node_db"
where
  "outbox_mark_failed row_id lease_token backoff_until_ms error =
    outbox_update (\<lambda>r. ob_id r = row_id \<and> ob_lease_token r = Some lease_token)
      (\<lambda>r. r\<lparr>ob_attempt := ob_attempt r + 1, ob_next_due_ms := backoff_until_ms, ob_leased_until_ms := 0,
             ob_lease_token := None, ob_last_error := Some error\<rparr>)"

definition mark_outbox_attempt_failed ::
  "int \<Rightarrow> string \<Rightarrow> int \<Rightarrow> string \<Rightarrow> node_db \<Rightarrow> bool \<times> node_db"
where
  "mark_outbox_attempt_failed row_id lease_token backoff_until_ms error db =
    (let (changed, db') = outbox_mark_failed row_id lease_token backoff_until_ms error db in (changed > 0, db'))"

datatype outbox_failure_disposition = RetryScheduled | DeadLettered | LeaseLost

definition dead_letter_insert ::
  "node_outbox_row \<Rightarrow> int \<Rightarrow> string \<Rightarrow> int \<Rightarrow> node_db \<Rightarrow> (node_db, node_db_error) rust_result"
where
  "dead_letter_insert row attempts last_error moved_at_ms db =
    (if nd_last_dead_letter_id db = i64_max then Err RowidExhausted
     else
       let row_id = nd_last_dead_letter_id db + 1
       in Ok (db\<lparr>nd_dead_letter := nd_dead_letter db @
            [\<lparr>dl_id = row_id, dl_original_id = ob_id row, dl_client_id = ob_client_id row,
              dl_idempotency_key = ob_idempotency_key row, dl_enqueued_ms = ob_enqueued_ms row,
              dl_subject_key = ob_subject_key row, dl_subject_api_version = ob_subject_api_version row,
              dl_subject_kind = ob_subject_kind row, dl_subject_namespace = ob_subject_namespace row,
              dl_subject_name = ob_subject_name row, dl_subject_uid = ob_subject_uid row,
              dl_pod_uid = ob_pod_uid row, dl_operation = ob_operation row,
              dl_stream_id = ob_stream_id row, dl_stream_seq = ob_stream_seq row,
              dl_payload_proto = ob_payload_proto row, dl_attempts = attempts,
              dl_last_error = last_error, dl_moved_at_ms = moved_at_ms\<rparr>],
            nd_last_dead_letter_id := row_id\<rparr>))"

definition record_outbox_failure ::
  "int \<Rightarrow> int \<Rightarrow> string \<Rightarrow> int \<Rightarrow> string \<Rightarrow> int \<Rightarrow> node_db
    \<Rightarrow> (outbox_failure_disposition \<times> node_db, node_db_error) rust_result"
where
  "record_outbox_failure now row_id lease_token backoff_until_ms error max_attempts db =
    (case outbox_row_select row_id db of
       None \<Rightarrow> Ok (LeaseLost, db)
     | Some row \<Rightarrow>
         if ob_lease_token row \<noteq> Some lease_token then Ok (LeaseLost, db)
         else
           let attempt = saturating_add_i64 (ob_attempt row) 1
           in if attempt \<ge> max max_attempts 1
              then result_bind (dead_letter_insert row attempt error now db) (\<lambda>db1.
                     let (changed, db2) =
                       outbox_delete (\<lambda>r. ob_id r = row_id \<and> ob_lease_token r = Some lease_token) db1
                     in if changed \<noteq> 1 then Err LeaseChanged else Ok (DeadLettered, db2))
              else
                let (changed, db1) = outbox_mark_failed row_id lease_token backoff_until_ms error db
                in if changed \<noteq> 1 then Ok (LeaseLost, db1) else Ok (RetryScheduled, db1))"

definition complete_outbox :: "int \<Rightarrow> string \<Rightarrow> node_db \<Rightarrow> bool \<times> node_db"
where
  "complete_outbox row_id lease_token db =
    (let (changed, db') = outbox_delete (\<lambda>r. ob_id r = row_id \<and> ob_lease_token r = Some lease_token) db
     in (changed > 0, db'))"

definition complete_superseded_status_outbox_for_terminal_pod_delete ::
  "string \<Rightarrow> int \<Rightarrow> node_db \<Rightarrow> nat \<times> node_db"
where
  "complete_superseded_status_outbox_for_terminal_pod_delete subject_key terminal_delete_id =
    outbox_delete (\<lambda>r. ob_subject_key r = subject_key \<and> ob_id r < terminal_delete_id
      \<and> \<not> ob_is_terminal_pod_delete r \<and> ob_supersedable_pod_status r)"


section \<open>Dead letters\<close>

definition move_outbox_to_dead_letter_if_max_attempts ::
  "int \<Rightarrow> string \<Rightarrow> int \<Rightarrow> node_db \<Rightarrow> (bool \<times> node_db, node_db_error) rust_result"
where
  "move_outbox_to_dead_letter_if_max_attempts now idempotency_key max_attempts db =
    (case List.find (\<lambda>r. ob_idempotency_key r = idempotency_key) (nd_outbox db) of
       None \<Rightarrow> Ok (False, db)
     | Some row \<Rightarrow>
         if ob_attempt row < max_attempts then Ok (False, db)
         else
           (case outbox_row_select (ob_id row) db of
              None \<Rightarrow> Ok (False, db)
            | Some dead_row \<Rightarrow>
                result_bind
                  (dead_letter_insert dead_row (ob_attempt dead_row) (unwrap_or (ob_last_error dead_row) []) now db)
                  (\<lambda>db1. Ok (True, snd (outbox_delete (\<lambda>r. ob_id r = ob_id dead_row) db1)))))"

definition get_dead_letter :: "int \<Rightarrow> node_db \<Rightarrow> dead_letter_row option"
  where "get_dead_letter row_id db = List.find (\<lambda>d. dl_id d = row_id) (nd_dead_letter db)"

definition delete_dead_letter :: "int \<Rightarrow> node_db \<Rightarrow> bool \<times> node_db"
where
  "delete_dead_letter row_id db =
    (let P = (\<lambda>d. dl_id d = row_id \<and> (dl_stream_id d = 0 \<or> dl_stream_seq d = 0))
     in (list_ex P (nd_dead_letter db),
         db\<lparr>nd_dead_letter := filter (\<lambda>d. \<not> P d) (nd_dead_letter db)\<rparr>))"

definition replay_dead_letter_in_tx ::
  "(string \<Rightarrow> 64 word) \<Rightarrow> string \<Rightarrow> int \<Rightarrow> dead_letter_row \<Rightarrow> outbox_classification \<Rightarrow> node_db
    \<Rightarrow> (node_db, node_db_error) rust_result"
where
  "replay_dead_letter_in_tx digest uuid now row classification db =
    (let (priority_class, supersedable, terminal, sequence_policy) = persisted_values classification;
         (client_id, db1) = (if dl_client_id row = [] then ensure_outbox_client_id_in_tx uuid db
                             else (dl_client_id row, db));
         sequenced = (sequence_policy = sequence_policy_persisted_value PerSubject);
         stream_id = (if dl_stream_id row > 0 then dl_stream_id row
                      else if sequenced then outbox_stream_id digest (dl_subject_key row) else 0);
         (stream_seq, db2) = (if dl_stream_seq row > 0 then (dl_stream_seq row, db1)
                              else if sequenced then allocate_next_outbox_stream_seq stream_id db1
                              else (0, db1))
     in result_bind (outbox_insert_row
          \<lparr>ob_id = 0, ob_client_id = client_id, ob_idempotency_key = dl_idempotency_key row,
           ob_enqueued_ms = dl_enqueued_ms row, ob_subject_key = dl_subject_key row,
           ob_subject_api_version = dl_subject_api_version row, ob_subject_kind = dl_subject_kind row,
           ob_subject_namespace = dl_subject_namespace row, ob_subject_name = dl_subject_name row,
           ob_subject_uid = dl_subject_uid row, ob_pod_uid = dl_pod_uid row,
           ob_operation = dl_operation row, ob_priority_class = priority_class,
           ob_supersedable_pod_status = (supersedable \<noteq> 0), ob_is_terminal_pod_delete = (terminal \<noteq> 0),
           ob_stream_id = stream_id, ob_stream_seq = stream_seq, ob_payload_proto = dl_payload_proto row,
           ob_attempt = 0, ob_next_due_ms = now, ob_leased_until_ms = 0,
           ob_lease_token = None, ob_last_error = None\<rparr> db2)
        (\<lambda>db3. Ok (db3\<lparr>nd_dead_letter := filter (\<lambda>d. dl_id d \<noteq> dl_id row) (nd_dead_letter db3)\<rparr>)))"

definition replay_dead_letter ::
  "(string \<Rightarrow> 64 word) \<Rightarrow> string \<Rightarrow> int \<Rightarrow> int \<Rightarrow> outbox_classification \<Rightarrow> node_db
    \<Rightarrow> (bool \<times> node_db, node_db_error) rust_result"
where
  "replay_dead_letter digest uuid now row_id classification db =
    (case get_dead_letter row_id db of
       None \<Rightarrow> Ok (False, db)
     | Some row \<Rightarrow>
         result_bind (replay_dead_letter_in_tx digest uuid now row classification db) (\<lambda>db'. Ok (True, db')))"


section \<open>Checkpoints and stamps\<close>

definition upsert_pod_status_checkpoint ::
  "string \<Rightarrow> string \<Rightarrow> string \<Rightarrow> int \<Rightarrow> json \<Rightarrow> int \<Rightarrow> node_db \<Rightarrow> node_db"
where
  "upsert_pod_status_checkpoint pod_uid namespace pod_name base_rv status updated_ms db =
    (let row = \<lparr>pc_pod_uid = pod_uid, pc_namespace = namespace, pc_pod_name = pod_name,
           pc_base_rv = base_rv, pc_applied_rv = None, pc_status = status, pc_updated_ms = updated_ms\<rparr>
     in db\<lparr>nd_checkpoints :=
          (if list_ex (\<lambda>c. pc_pod_uid c = pod_uid) (nd_checkpoints db)
           then map (\<lambda>c. if pc_pod_uid c = pod_uid then row else c) (nd_checkpoints db)
           else nd_checkpoints db @ [row])\<rparr>)"

definition get_pod_status_checkpoint :: "string \<Rightarrow> node_db \<Rightarrow> pod_status_checkpoint option"
  where "get_pod_status_checkpoint pod_uid db = List.find (\<lambda>c. pc_pod_uid c = pod_uid) (nd_checkpoints db)"

definition mark_pod_status_checkpoint_applied :: "string \<Rightarrow> int \<Rightarrow> int \<Rightarrow> node_db \<Rightarrow> node_db"
where
  "mark_pod_status_checkpoint_applied pod_uid applied_rv updated_ms db =
    db\<lparr>nd_checkpoints := map (\<lambda>c. if pc_pod_uid c = pod_uid
         then c\<lparr>pc_applied_rv := Some applied_rv, pc_updated_ms := updated_ms\<rparr> else c) (nd_checkpoints db)\<rparr>"

definition delete_pod_status_checkpoint :: "string \<Rightarrow> node_db \<Rightarrow> node_db"
where
  "delete_pod_status_checkpoint pod_uid db =
    db\<lparr>nd_checkpoints := filter (\<lambda>c. pc_pod_uid c \<noteq> pod_uid) (nd_checkpoints db)\<rparr>"

definition set_node_meta :: "string \<Rightarrow> string \<Rightarrow> node_db \<Rightarrow> node_db"
  where "set_node_meta key value db = db\<lparr>nd_meta := (nd_meta db)(key \<mapsto> value)\<rparr>"

definition read_status_stamp_high_water :: "node_db \<Rightarrow> (int, node_delivery_error) rust_result"
where
  "read_status_stamp_high_water db =
    (case nd_meta db ''pod_status_stamp_high_water'' of
       None \<Rightarrow> Ok 0
     | Some value \<Rightarrow>
         (case parse_i64 value of
            Some high_water \<Rightarrow> Ok high_water
          | None \<Rightarrow> Err (CorruptData (''invalid status-stamp high-water '' @ value))))"

definition write_status_stamp_high_water ::
  "int \<Rightarrow> node_db \<Rightarrow> (node_db, node_delivery_error) rust_result"
where
  "write_status_stamp_high_water high_water db =
    (if high_water < 0 then Err (CorruptData ''status-stamp high-water must be non-negative'')
     else Ok (set_node_meta ''pod_status_stamp_high_water'' (show_int high_water) db))"


section \<open>Requests and records\<close>

definition require_nonempty :: "string \<Rightarrow> string \<Rightarrow> (unit, node_delivery_error) rust_result"
where
  "require_nonempty value field =
    (if value = [] then Err (InvalidInput field ''must not be empty'') else Ok ())"

definition require_nonnegative :: "int \<Rightarrow> string \<Rightarrow> (unit, node_delivery_error) rust_result"
where
  "require_nonnegative value field =
    (if value < 0 then Err (InvalidInput field ''must be non-negative'') else Ok ())"

definition require_positive :: "int \<Rightarrow> string \<Rightarrow> (unit, node_delivery_error) rust_result"
where
  "require_positive value field =
    (if value \<le> 0 then Err (InvalidInput field ''must be positive'') else Ok ())"

text \<open>The entry a producer hands over; its subject and payload are not examined.\<close>

definition outbox_enqueue_try_new :: "outbox_insert \<Rightarrow> (outbox_insert, node_delivery_error) rust_result"
where
  "outbox_enqueue_try_new entry =
    result_bind (require_nonempty (oi_idempotency_key entry) ''idempotency_key'') (\<lambda>_.
    result_bind (require_nonempty (oi_operation entry) ''operation'') (\<lambda>_.
    result_bind (require_nonnegative (oi_enqueued_ms entry) ''enqueued_ms'') (\<lambda>_.
    result_bind (require_nonnegative (oi_next_due_ms entry) ''next_due_ms'') (\<lambda>_. Ok entry))))"

record outbox_claim_request =
  cr_now_ms :: int
  cr_lease_ms :: int
  cr_lease_token :: string

definition outbox_claim_request_try_new ::
  "int \<Rightarrow> int \<Rightarrow> string \<Rightarrow> (outbox_claim_request, node_delivery_error) rust_result"
where
  "outbox_claim_request_try_new now_ms lease_ms lease_token =
    result_bind (require_nonnegative now_ms ''now_ms'') (\<lambda>_.
    result_bind (require_positive lease_ms ''lease_ms'') (\<lambda>_.
    result_bind (require_nonempty lease_token ''lease_token'') (\<lambda>_.
      Ok \<lparr>cr_now_ms = now_ms, cr_lease_ms = lease_ms, cr_lease_token = lease_token\<rparr>)))"

record outbox_sequence =
  os_stream_id :: int
  os_stream_seq :: int

definition outbox_sequence_unassigned :: outbox_sequence
  where "outbox_sequence_unassigned = \<lparr>os_stream_id = 0, os_stream_seq = 0\<rparr>"

definition outbox_sequence_try_new :: "int \<Rightarrow> int \<Rightarrow> (outbox_sequence, node_delivery_error) rust_result"
where
  "outbox_sequence_try_new stream_id stream_seq =
    result_bind (require_nonnegative stream_id ''outbox.stream_id'') (\<lambda>_.
    result_bind (require_nonnegative stream_seq ''outbox.stream_seq'') (\<lambda>_.
      if stream_id = 0 \<and> stream_seq \<noteq> 0
      then Err (InvalidInput ''outbox.sequence'' ''a positive stream sequence requires a positive stream ID'')
      else Ok \<lparr>os_stream_id = stream_id, os_stream_seq = stream_seq\<rparr>))"

definition sequence_is_assigned :: "outbox_sequence \<Rightarrow> bool"
  where "sequence_is_assigned s \<longleftrightarrow> os_stream_id s > 0 \<and> os_stream_seq s > 0"

definition validate_sequence ::
  "outbox_classification \<Rightarrow> outbox_sequence \<Rightarrow> bool \<Rightarrow> (unit, node_delivery_error) rust_result"
where
  "validate_sequence classification sequence assigned_required =
    (if oc_sequence_policy classification = Unsequenced \<and> sequence \<noteq> outbox_sequence_unassigned
     then Err (InvalidInput ''outbox.sequence'' ''an unsequenced delivery cannot carry a stream assignment'')
     else if oc_sequence_policy classification = PerSubject \<and> assigned_required
       \<and> \<not> sequence_is_assigned sequence
     then Err (InvalidInput ''outbox.sequence''
       ''a claimed per-subject delivery must carry an assigned stream sequence'')
     else Ok ())"

record outbox_subject =
  sj_subject_key :: string
  sj_api_version :: string
  sj_kind :: string
  sj_namespace :: "string option"
  sj_name :: string
  sj_subject_uid :: "string option"
  sj_pod_uid :: string

record outbox_record =
  rc_id :: int
  rc_client_id :: string
  rc_idempotency_key :: string
  rc_enqueued_ms :: int
  rc_subject :: outbox_subject
  rc_operation :: string
  rc_classification :: outbox_classification
  rc_sequence :: outbox_sequence
  rc_payload :: string
  rc_attempt :: int
  rc_next_due_ms :: int
  rc_leased_until_ms :: int
  rc_lease_token :: "string option"
  rc_last_error :: "string option"

definition outbox_record_try_new :: "outbox_record \<Rightarrow> (outbox_record, node_delivery_error) rust_result"
where
  "outbox_record_try_new r =
    result_bind (require_positive (rc_id r) ''outbox.id'') (\<lambda>_.
    result_bind (require_nonempty (rc_client_id r) ''outbox.client_id'') (\<lambda>_.
    result_bind (require_nonempty (rc_idempotency_key r) ''outbox.idempotency_key'') (\<lambda>_.
    result_bind (require_nonempty (rc_operation r) ''outbox.operation'') (\<lambda>_.
    result_bind (require_nonnegative (rc_enqueued_ms r) ''outbox.enqueued_ms'') (\<lambda>_.
    result_bind (validate_sequence (rc_classification r) (rc_sequence r) True) (\<lambda>_.
    result_bind (require_nonnegative (rc_attempt r) ''outbox.attempt'') (\<lambda>_.
    result_bind (require_nonnegative (rc_next_due_ms r) ''outbox.next_due_ms'') (\<lambda>_.
    result_bind (require_nonnegative (rc_leased_until_ms r) ''outbox.leased_until_ms'') (\<lambda>_.
    result_bind
      (case rc_lease_token r of
         Some token \<Rightarrow>
           result_bind (require_nonempty token ''outbox.lease_token'') (\<lambda>_.
             require_positive (rc_leased_until_ms r) ''outbox.leased_until_ms'')
       | None \<Rightarrow>
           if rc_leased_until_ms r \<noteq> 0
           then Err (InvalidInput ''outbox.lease_token'' ''must be present when leased_until_ms is positive'')
           else Ok ())
      (\<lambda>_. Ok r))))))))))"

definition classification_for_row ::
  "node_outbox_row \<Rightarrow> (outbox_classification, node_delivery_error) rust_result"
where
  "classification_for_row row =
    (let supersedability =
           (if ob_supersedable_pod_status row then SupersededPodStatus else NeverSuperseded);
         terminal_delete =
           (if ob_is_terminal_pod_delete row then ActorOwnedPodDelete else NotTerminalDelete);
         sequence_policy = (if ob_stream_id row > 0 \<or> ob_stream_seq row > 0 then PerSubject else Unsequenced)
     in try_from_persisted (ob_priority_class row) (supersedability_persisted_value supersedability)
          (terminal_delete_persisted_value terminal_delete) (sequence_policy_persisted_value sequence_policy))"

definition outbox_record_of :: "node_outbox_row \<Rightarrow> (outbox_record, node_delivery_error) rust_result"
where
  "outbox_record_of row =
    result_bind (classification_for_row row) (\<lambda>classification.
    result_bind (outbox_sequence_try_new (ob_stream_id row) (ob_stream_seq row)) (\<lambda>sequence.
      outbox_record_try_new
        \<lparr>rc_id = ob_id row, rc_client_id = ob_client_id row,
         rc_idempotency_key = ob_idempotency_key row, rc_enqueued_ms = ob_enqueued_ms row,
         rc_subject = \<lparr>sj_subject_key = ob_subject_key row, sj_api_version = ob_subject_api_version row,
           sj_kind = ob_subject_kind row, sj_namespace = ob_subject_namespace row,
           sj_name = ob_subject_name row, sj_subject_uid = ob_subject_uid row,
           sj_pod_uid = ob_pod_uid row\<rparr>,
         rc_operation = ob_operation row, rc_classification = classification, rc_sequence = sequence,
         rc_payload = ob_payload_proto row, rc_attempt = ob_attempt row,
         rc_next_due_ms = ob_next_due_ms row, rc_leased_until_ms = ob_leased_until_ms row,
         rc_lease_token = ob_lease_token row, rc_last_error = ob_last_error row\<rparr>))"

end
