(* ===== verification/Node_Dispatch.thy ===== *)
theory Node_Dispatch
  imports Node_Outbox Log_Apply
begin

text \<open>
  The dispatcher of the node outbox (\<^verbatim>\<open>klights-kubelet/src/node_outbox/mod.rs\<close>): what it sends for a
  claimed row, what it does with the answer of the leader, the retry backoff and the status stamps.

  \<^verbatim>\<open>process_claimed_row\<close> awaits several calls of the store one after the other; between two of them any
  other task may call the store. It is therefore a plan (a request to send, or calls to make at once) and
  the list of store calls that follows an answer, one transaction each. The payload codec is a parameter
  (\<^verbatim>\<open>encode\<close>), as are the estimate of the round-trip time and the answer of the leader. Dispatch counters
  and log lines have no effect on delivery and are left out.
\<close>


section \<open>Requests and answers\<close>

datatype outbox_delivery_error =
    OD_InvalidRequest string string
  | OD_NotLeader
  | OD_CodecIncompatible nat nat
  | OD_Retryable string
  | OD_Timeout
  | OD_Cancelled
  | OD_NotFound string
  | OD_UidMismatch string string
  | OD_ConflictTerminal string
  | OD_CorruptResponse string

fun delivery_is_retryable :: "outbox_delivery_error \<Rightarrow> bool"
where
  "delivery_is_retryable OD_NotLeader = True"
| "delivery_is_retryable (OD_CodecIncompatible _ _) = True"
| "delivery_is_retryable (OD_Retryable _) = True"
| "delivery_is_retryable OD_Timeout = True"
| "delivery_is_retryable OD_Cancelled = True"
| "delivery_is_retryable (OD_CorruptResponse _) = True"
| "delivery_is_retryable _ = False"

fun delivery_is_terminal :: "outbox_delivery_error \<Rightarrow> bool"
where
  "delivery_is_terminal (OD_InvalidRequest _ _) = True"
| "delivery_is_terminal (OD_NotFound _) = True"
| "delivery_is_terminal (OD_UidMismatch _ _) = True"
| "delivery_is_terminal (OD_ConflictTerminal _) = True"
| "delivery_is_terminal _ = False"

fun delivery_error_display :: "outbox_delivery_error \<Rightarrow> string"
where
  "delivery_error_display (OD_InvalidRequest field message) = ''invalid '' @ field @ '': '' @ message"
| "delivery_error_display OD_NotLeader = ''durable delivery requires the current leader''"
| "delivery_error_display (OD_CodecIncompatible sender required) =
    ''worker command codec '' @ show_int (int sender) @ '' is incompatible with required codec ''
      @ show_int (int required)"
| "delivery_error_display (OD_Retryable message) = message"
| "delivery_error_display (OD_NotFound message) = message"
| "delivery_error_display (OD_ConflictTerminal message) = message"
| "delivery_error_display (OD_CorruptResponse message) = message"
| "delivery_error_display OD_Timeout = ''durable delivery timed out''"
| "delivery_error_display OD_Cancelled = ''durable delivery was cancelled''"
| "delivery_error_display (OD_UidMismatch expected actual) =
    ''delivery UID mismatch: expected '' @ expected @ '', actual '' @ actual"

text \<open>A delivery operation is an outbox operation other than a lease renewal.\<close>

definition try_delivery_operation ::
  "outbox_operation \<Rightarrow> (outbox_operation, outbox_delivery_error) rust_result"
where
  "try_delivery_operation operation =
    (if operation = LeaseRenew
     then Err (OD_InvalidRequest ''delivery.operation''
       ''LeaseRenew uses LeaderNodeLeaseRenewal and is forbidden on durable delivery'')
     else Ok operation)"

record outbox_delivery_request =
  rq_codec_version :: nat
  rq_idempotency_key :: string
  rq_operation :: outbox_operation
  rq_payload :: string
  rq_client_id :: string
  rq_stream_id :: int
  rq_stream_sequence :: int

definition delivery_request_try_new ::
  "string \<Rightarrow> outbox_operation \<Rightarrow> string \<Rightarrow> string \<Rightarrow> int \<Rightarrow> int
    \<Rightarrow> (outbox_delivery_request, outbox_delivery_error) rust_result"
where
  "delivery_request_try_new idempotency_key operation payload client_id stream_id stream_sequence =
    (if idempotency_key = [] then Err (OD_InvalidRequest ''delivery.idempotency_key'' ''must not be empty'')
     else if payload = [] then Err (OD_InvalidRequest ''delivery.payload'' ''must not be empty'')
     else if client_id = [] then Err (OD_InvalidRequest ''delivery.client_id'' ''must not be empty'')
     else if stream_id \<le> 0 then Err (OD_InvalidRequest ''delivery.stream_id'' ''must be positive'')
     else if stream_sequence \<le> 0
     then Err (OD_InvalidRequest ''delivery.stream_sequence'' ''must be positive'')
     else Ok \<lparr>rq_codec_version = command_codec_version, rq_idempotency_key = idempotency_key,
       rq_operation = operation, rq_payload = payload, rq_client_id = client_id,
       rq_stream_id = stream_id, rq_stream_sequence = stream_sequence\<rparr>)"

record dispatch_row =
  dr_id :: int
  dr_client_id :: string
  dr_idempotency_key :: string
  dr_subject_key :: string
  dr_pod_uid :: string
  dr_operation :: string
  dr_is_terminal_pod_delete :: bool
  dr_stream_id :: int
  dr_stream_seq :: int
  dr_payload_proto :: string
  dr_attempt :: int
  dr_next_due_ms :: int
  dr_lease_token :: "string option"

definition try_from_record :: "outbox_record \<Rightarrow> dispatch_row"
where
  "try_from_record record =
    \<lparr>dr_id = rc_id record, dr_client_id = rc_client_id record,
     dr_idempotency_key = rc_idempotency_key record,
     dr_subject_key = sj_subject_key (rc_subject record), dr_pod_uid = sj_pod_uid (rc_subject record),
     dr_operation = rc_operation record,
     dr_is_terminal_pod_delete = (oc_terminal_delete (rc_classification record) = ActorOwnedPodDelete),
     dr_stream_id = os_stream_id (rc_sequence record), dr_stream_seq = os_stream_seq (rc_sequence record),
     dr_payload_proto = rc_payload record, dr_attempt = rc_attempt record,
     dr_next_due_ms = rc_next_due_ms record, dr_lease_token = rc_lease_token record\<rparr>"

definition terminal_decision_command :: "string \<Rightarrow> storage_command"
where
  "terminal_decision_command idempotency_key =
    UpdateStatus ''v1'' ''Pod'' (Some ''__klights-terminal-outbox__'') ''decision'' (JObject []) None
      \<lparr>rp_uid = Some idempotency_key, rp_resource_version = None\<rparr> None"


section \<open>Backoff\<close>

definition max_outbox_attempts :: int where "max_outbox_attempts = 720"

definition clamp :: "int \<Rightarrow> int \<Rightarrow> int \<Rightarrow> int"
  where "clamp value lower upper = (if value < lower then lower else if value > upper then upper else value)"

definition saturating_mul_i64 :: "int \<Rightarrow> int \<Rightarrow> int"
  where "saturating_mul_i64 a b = max i64_min (min i64_max (a * b))"

definition adaptive_backoff_bounds :: "int \<Rightarrow> int \<Rightarrow> int \<times> int"
where
  "adaptive_backoff_bounds attempt rtt_est_ms =
    (let rtt = clamp rtt_est_ms 200 3000;
         base = clamp (2 * rtt) 500 3000;
         exponent = max (clamp attempt 0 6) 0;
         upper = min (saturating_mul_i64 base (2 ^ nat exponent)) 60000;
         lower = min upper (max 250 (base div 2))
     in (lower, upper))"

text \<open>The little-endian bytes of a 64-bit number and a text, and the FNV-1a hash of both.\<close>

definition le_bytes :: "int \<Rightarrow> 64 word list"
  where "le_bytes n = map (\<lambda>i. and (drop_bit (8 * i) (word_of_int n)) 0xFF) [0..<8]"

definition text_bytes :: "string \<Rightarrow> 64 word list"
  where "text_bytes s = map of_char s"

definition jitter_step :: "64 word \<Rightarrow> 64 word \<Rightarrow> 64 word"
  where "jitter_step byte hash = xor hash byte * 0x100000001b3"

definition deterministic_jitter_ms :: "string \<Rightarrow> int \<Rightarrow> int \<Rightarrow> int"
where
  "deterministic_jitter_ms idempotency_key attempt window_ms =
    (let hash = fold jitter_step (text_bytes idempotency_key @ le_bytes attempt) 0xcbf29ce484222325
     in uint hash mod (max window_ms 0 + 1))"

definition adaptive_jittered_backoff_ms :: "int \<Rightarrow> string \<Rightarrow> int \<Rightarrow> int"
where
  "adaptive_jittered_backoff_ms attempt idempotency_key rtt_est_ms =
    (let (lower, upper) = adaptive_backoff_bounds attempt rtt_est_ms;
         window = saturating_add_i64 upper (- lower)
     in saturating_add_i64 lower (deterministic_jitter_ms idempotency_key attempt window))"


section \<open>One claimed row\<close>

text \<open>The calls of the store, with the checkpoint to delete when a failure moves the row to the dead letters.\<close>

datatype store_call =
    MarkCheckpointApplied string int int
  | CompleteRow int string
  | CompleteSuperseded string int
  | DeleteCheckpoint string
  | MarkAttemptFailed int string int string
  | RecordFailure int string int string int "string option"

datatype dispatch_plan =
    SkipRow
  | Resolve "store_call list"
  | Send outbox_delivery_request bool

definition retry_at :: "int \<Rightarrow> int \<Rightarrow> dispatch_row \<Rightarrow> int"
where
  "retry_at now_ms rtt row =
    saturating_add_i64 now_ms (adaptive_jittered_backoff_ms (dr_attempt row) (dr_idempotency_key row) rtt)"

definition terminal_sentinel_request ::
  "(storage_command \<Rightarrow> (string, string) rust_result) \<Rightarrow> dispatch_row \<Rightarrow> outbox_delivery_request option"
where
  "terminal_sentinel_request encode row =
    (case encode (terminal_decision_command (dr_idempotency_key row)) of
       Err _ \<Rightarrow> None
     | Ok payload \<Rightarrow>
         (case delivery_request_try_new (dr_idempotency_key row) PodStatus payload (dr_client_id row)
                 (dr_stream_id row) (dr_stream_seq row) of
            Ok request \<Rightarrow> Some request
          | Err _ \<Rightarrow> None))"

definition request_or_sentinel ::
  "(storage_command \<Rightarrow> (string, string) rust_result) \<Rightarrow> dispatch_row \<Rightarrow> string
    \<Rightarrow> outbox_operation \<Rightarrow> string \<Rightarrow> bool \<Rightarrow> dispatch_plan"
where
  "request_or_sentinel encode row lease_token operation payload records_checkpoint =
    (case delivery_request_try_new (dr_idempotency_key row) operation payload (dr_client_id row)
            (dr_stream_id row) (dr_stream_seq row) of
       Ok request \<Rightarrow> Send request records_checkpoint
     | Err err \<Rightarrow>
         let dead_letter = (\<lambda>kind. Resolve [RecordFailure (dr_id row) lease_token (dr_next_due_ms row)
               (''invalid '' @ kind @ '' outbox request: '' @ delivery_error_display err) 1 None])
         in if dr_idempotency_key row \<noteq> [] \<and> dr_client_id row \<noteq> [] \<and> dr_stream_id row > 0
               \<and> dr_stream_seq row > 0
            then (case terminal_sentinel_request encode row of
                    Some request \<Rightarrow> Send request False
                  | None \<Rightarrow> dead_letter ''assigned'')
            else dead_letter ''unaddressable'')"

definition plan_claimed_row ::
  "(storage_command \<Rightarrow> (string, string) rust_result) \<Rightarrow> int \<Rightarrow> int \<Rightarrow> dispatch_row \<Rightarrow> dispatch_plan"
where
  "plan_claimed_row encode rtt now_ms row =
    (case dr_lease_token row of
       None \<Rightarrow> SkipRow
     | Some lease_token \<Rightarrow>
         let assigned = (dr_stream_id row > 0 \<and> dr_stream_seq row > 0);
             complete = Resolve [CompleteRow (dr_id row) lease_token];
             sentinel =
               (case encode (terminal_decision_command (dr_idempotency_key row)) of
                  Ok payload \<Rightarrow> request_or_sentinel encode row lease_token PodStatus payload False
                | Err err \<Rightarrow>
                    Resolve [MarkAttemptFailed (dr_id row) lease_token (retry_at now_ms rtt row) err])
         in (case outbox_operation_try_from (dr_operation row) of
               Err _ \<Rightarrow> if assigned then sentinel else complete
             | Ok operation \<Rightarrow>
                 (case try_delivery_operation operation of
                    Err _ \<Rightarrow> if assigned then sentinel else complete
                  | Ok delivery_operation \<Rightarrow>
                      request_or_sentinel encode row lease_token delivery_operation (dr_payload_proto row)
                        (is_supersedable_pod_status operation \<and> dr_pod_uid row \<noteq> []))))"

definition actor_owned_pod_delete_needs_dead_letter :: "dispatch_row \<Rightarrow> outbox_delivery_error \<Rightarrow> bool"
where
  "actor_owned_pod_delete_needs_dead_letter row err =
    (case err of
       OD_UidMismatch _ _ \<Rightarrow> dr_is_terminal_pod_delete row
     | OD_ConflictTerminal _ \<Rightarrow> dr_is_terminal_pod_delete row
     | _ \<Rightarrow> False)"

definition mark_checkpoint_applied_result ::
  "string \<Rightarrow> outbox_apply_outcome \<Rightarrow> int \<Rightarrow> store_call list"
where
  "mark_checkpoint_applied_result pod_uid result updated_ms =
    (case applied_resource_version result of
       Some applied_rv \<Rightarrow> [MarkCheckpointApplied pod_uid applied_rv updated_ms]
     | None \<Rightarrow> [])"

definition settle_claimed_row ::
  "int \<Rightarrow> int \<Rightarrow> dispatch_row \<Rightarrow> string \<Rightarrow> bool
    \<Rightarrow> (outbox_apply_outcome, outbox_delivery_error) rust_result \<Rightarrow> store_call list"
where
  "settle_claimed_row rtt now_ms row lease_token records_checkpoint applied =
    (case applied of
       Ok result \<Rightarrow>
         (if records_checkpoint then mark_checkpoint_applied_result (dr_pod_uid row) result now_ms else [])
         @ [CompleteRow (dr_id row) lease_token]
         @ (if dr_is_terminal_pod_delete row
            then [CompleteSuperseded (dr_subject_key row) (dr_id row), DeleteCheckpoint (dr_pod_uid row)]
            else [])
     | Err err \<Rightarrow>
         if delivery_is_retryable err \<or> \<not> delivery_is_terminal err
         then (case err of
                 OD_CodecIncompatible _ _ \<Rightarrow>
                   [MarkAttemptFailed (dr_id row) lease_token (retry_at now_ms rtt row)
                      (delivery_error_display err)]
               | _ \<Rightarrow>
                   [RecordFailure (dr_id row) lease_token (retry_at now_ms rtt row)
                      (delivery_error_display err) max_outbox_attempts
                      (if records_checkpoint then Some (dr_pod_uid row) else None)])
         else
           let checkpoint = records_checkpoint \<or> dr_is_terminal_pod_delete row
           in if actor_owned_pod_delete_needs_dead_letter row err
              then [RecordFailure (dr_id row) lease_token now_ms (delivery_error_display err) 1
                      (if checkpoint then Some (dr_pod_uid row) else None)]
              else (if checkpoint then [DeleteCheckpoint (dr_pod_uid row)] else [])
                   @ [CompleteRow (dr_id row) lease_token])"

text \<open>
  One call of the store. A store error is logged and the row goes on with its next call, except that
  nothing follows a failure that could not be recorded.
\<close>

definition run_call :: "int \<Rightarrow> store_call \<Rightarrow> node_db \<Rightarrow> store_call list \<times> node_db"
where
  "run_call now call db =
    (case call of
       MarkCheckpointApplied pod_uid applied_rv updated_ms \<Rightarrow>
         ([], mark_pod_status_checkpoint_applied pod_uid applied_rv updated_ms db)
     | CompleteRow row_id lease_token \<Rightarrow> ([], snd (complete_outbox row_id lease_token db))
     | CompleteSuperseded subject_key row_id \<Rightarrow>
         ([], snd (complete_superseded_status_outbox_for_terminal_pod_delete subject_key row_id db))
     | DeleteCheckpoint pod_uid \<Rightarrow> ([], delete_pod_status_checkpoint pod_uid db)
     | MarkAttemptFailed row_id lease_token backoff_until_ms error \<Rightarrow>
         ([], snd (mark_outbox_attempt_failed row_id lease_token backoff_until_ms error db))
     | RecordFailure row_id lease_token backoff_until_ms error max_attempts checkpoint \<Rightarrow>
         (case record_outbox_failure now row_id lease_token backoff_until_ms error max_attempts db of
            Err _ \<Rightarrow> ([], db)
          | Ok (disposition, db') \<Rightarrow>
              (if disposition = DeadLettered
               then (case checkpoint of Some pod_uid \<Rightarrow> [DeleteCheckpoint pod_uid] | None \<Rightarrow> [])
               else [], db')))"

fun run_calls :: "int \<Rightarrow> store_call list \<Rightarrow> node_db \<Rightarrow> node_db"
where
  "run_calls now [] db = db"
| "run_calls now (call # calls) db =
    (let (more, db1) = run_call now call db;
         db2 = fold (\<lambda>c d. snd (run_call now c d)) more db1
     in run_calls now calls db2)"

text \<open>One row from claim to settlement without other tasks in between.\<close>

definition process_claimed_row ::
  "(storage_command \<Rightarrow> (string, string) rust_result)
    \<Rightarrow> (outbox_delivery_request \<Rightarrow> (outbox_apply_outcome, outbox_delivery_error) rust_result)
    \<Rightarrow> int \<Rightarrow> int \<Rightarrow> dispatch_row \<Rightarrow> node_db \<Rightarrow> node_db"
where
  "process_claimed_row encode deliver rtt now_ms row db =
    (case plan_claimed_row encode rtt now_ms row of
       SkipRow \<Rightarrow> db
     | Resolve calls \<Rightarrow> run_calls now_ms calls db
     | Send request records_checkpoint \<Rightarrow>
         run_calls now_ms
           (settle_claimed_row rtt now_ms row (unwrap_or (dr_lease_token row) []) records_checkpoint
              (deliver request)) db)"

fun collect_results :: "('a, 'e) rust_result list \<Rightarrow> ('a list, 'e) rust_result"
where
  "collect_results [] = Ok []"
| "collect_results (r # rs) = result_bind r (\<lambda>a. result_bind (collect_results rs) (\<lambda>as. Ok (a # as)))"

datatype dispatch_outcome = Dispatched | Idle "int option"

text \<open>A round of the dispatcher in batch mode, its rows processed one after the other.\<close>

definition dispatch_due_once ::
  "(storage_command \<Rightarrow> (string, string) rust_result)
    \<Rightarrow> (outbox_delivery_request \<Rightarrow> (outbox_apply_outcome, outbox_delivery_error) rust_result)
    \<Rightarrow> int \<Rightarrow> nat \<Rightarrow> int \<Rightarrow> string \<Rightarrow> int \<Rightarrow> node_db
    \<Rightarrow> (dispatch_outcome, node_delivery_error) rust_result \<times> node_db"
where
  "dispatch_due_once encode deliver rtt batch_size lease_ms lease_token now_ms db =
    (case require_nonnegative now_ms ''now_ms'' of
       Err e \<Rightarrow> (Err e, db)
     | Ok _ \<Rightarrow>
         let db1 = snd (requeue_expired_outbox_leases now_ms db)
         in (case outbox_claim_request_try_new now_ms lease_ms lease_token of
               Err e \<Rightarrow> (Err e, db1)
             | Ok _ \<Rightarrow>
                 let (rows, db2) = claim_due_outbox_batch now_ms batch_size lease_ms lease_token db1
                 in (case collect_results (map outbox_record_of rows) of
                       Err e \<Rightarrow> (Err e, db2)
                     | Ok records \<Rightarrow>
                         if records = [] then (Ok (Idle (next_outbox_wake_ms now_ms db2)), db2)
                         else
                           (Ok Dispatched,
                            fold (\<lambda>r. process_claimed_row encode deliver rtt now_ms (try_from_record r))
                              records db2))))"


section \<open>Status stamps\<close>

record stamp_state =
  st_seeded :: bool
  st_next :: int
  st_reserved :: int

definition status_stamp_reserve_block :: int where "status_stamp_reserve_block = 5000000"

definition next_status_stamp_with_clock ::
  "int \<Rightarrow> stamp_state \<Rightarrow> node_db \<Rightarrow> (int, node_delivery_error) rust_result \<times> stamp_state \<times> node_db"
where
  "next_status_stamp_with_clock now_us st db =
    (case (if st_seeded st then Ok st
           else result_bind (read_status_stamp_high_water db) (\<lambda>persisted.
                  Ok \<lparr>st_seeded = True, st_next = persisted, st_reserved = persisted\<rparr>)) of
       Err e \<Rightarrow> (Err e, st, db)
     | Ok st1 \<Rightarrow>
         let candidate = max now_us (saturating_add_i64 (st_next st1) 1)
         in if candidate \<ge> st_reserved st1
            then
              let new_reserved = saturating_add_i64 candidate status_stamp_reserve_block
              in (case write_status_stamp_high_water new_reserved db of
                    Err e \<Rightarrow> (Err e, st1, db)
                  | Ok db' \<Rightarrow> (Ok candidate, st1\<lparr>st_next := candidate, st_reserved := new_reserved\<rparr>, db'))
            else (Ok candidate, st1\<lparr>st_next := candidate\<rparr>, db))"

end
