(* ===== verification/Node_Streams.thy ===== *)
theory Node_Streams
  imports Node_Dispatch "HOL-Library.Multiset"
begin

text \<open>
  The invariant of the delivery store: which stream positions a node still owes, that only the lowest of a
  stream is leased, and that every row it hands out is a record of its contract. Every operation of the
  store keeps it.
\<close>


section \<open>Positions\<close>

definition sequenced :: "node_outbox_row \<Rightarrow> bool"
  where "sequenced r \<longleftrightarrow> ob_stream_id r > 0 \<and> ob_stream_seq r > 0"

definition dead_sequenced :: "dead_letter_row \<Rightarrow> bool"
  where "dead_sequenced d \<longleftrightarrow> dl_stream_id d > 0 \<and> dl_stream_seq d > 0"

definition row_position :: "node_outbox_row \<Rightarrow> int \<times> int"
  where "row_position r = (ob_stream_id r, ob_stream_seq r)"

definition dead_position :: "dead_letter_row \<Rightarrow> int \<times> int"
  where "dead_position d = (dl_stream_id d, dl_stream_seq d)"

text \<open>The positions a node still has to settle.\<close>

definition outbox_positions :: "node_outbox_row list \<Rightarrow> (int \<times> int) list"
  where "outbox_positions rows = map row_position (filter sequenced rows)"

definition dead_positions :: "dead_letter_row list \<Rightarrow> (int \<times> int) list"
  where "dead_positions ds = map dead_position (filter dead_sequenced ds)"

definition open_positions :: "node_db \<Rightarrow> (int \<times> int) list"
  where "open_positions db = outbox_positions (nd_outbox db) @ dead_positions (nd_dead_letter db)"

definition last_seq :: "node_db \<Rightarrow> int \<Rightarrow> int"
  where "last_seq db s = unwrap_or (nd_stream_sequences db s) 0"


section \<open>The invariant of the store\<close>

text \<open>
  With \<^verbatim>\<open>m s\<close> positions of stream \<^verbatim>\<open>s\<close> settled, exactly the positions above are open, each once, and a
  leased row holds the lowest of its stream.
\<close>

definition stream_inv :: "(int \<Rightarrow> int) \<Rightarrow> node_db \<Rightarrow> bool"
where
  "stream_inv m db \<longleftrightarrow>
    distinct (open_positions db)
    \<and> set (open_positions db) = {(s, q). m s < q \<and> q \<le> last_seq db s}
    \<and> (\<forall>s. 0 \<le> m s \<and> m s \<le> last_seq db s)
    \<and> (\<forall>r \<in> set (nd_outbox db). ob_lease_token r \<noteq> None \<longrightarrow> sequenced r \<longrightarrow>
         ob_stream_seq r = m (ob_stream_id r) + 1)"

definition id_inv :: "node_db \<Rightarrow> bool"
where
  "id_inv db \<longleftrightarrow>
    distinct (map ob_id (nd_outbox db))
    \<and> (\<forall>r \<in> set (nd_outbox db). 0 < ob_id r \<and> ob_id r \<le> nd_last_outbox_id db)
    \<and> 0 \<le> nd_last_outbox_id db
    \<and> distinct (map dl_id (nd_dead_letter db))
    \<and> (\<forall>d \<in> set (nd_dead_letter db). dl_id d \<le> nd_last_dead_letter_id db)"

text \<open>A row the store hands out is a record of its contract.\<close>

definition well_typed :: "node_outbox_row \<Rightarrow> bool"
  where "well_typed r \<longleftrightarrow> (\<exists>record. outbox_record_of r = Ok record)"

definition row_inv :: "(string \<Rightarrow> 64 word) \<Rightarrow> string option \<Rightarrow> node_outbox_row \<Rightarrow> bool"
where
  "row_inv digest client r \<longleftrightarrow>
    well_typed r \<and> client = Some (ob_client_id r)
    \<and> (sequenced r \<longrightarrow> ob_stream_id r = outbox_stream_id digest (ob_subject_key r))"

definition dead_inv :: "(string \<Rightarrow> 64 word) \<Rightarrow> string option \<Rightarrow> dead_letter_row \<Rightarrow> bool"
where
  "dead_inv digest client d \<longleftrightarrow>
    client = Some (dl_client_id d) \<and> dl_client_id d \<noteq> [] \<and> dl_idempotency_key d \<noteq> []
    \<and> dl_operation d \<noteq> [] \<and> 0 \<le> dl_enqueued_ms d
    \<and> (dead_sequenced d \<or> dl_stream_id d = 0 \<and> dl_stream_seq d = 0)
    \<and> (dead_sequenced d \<longrightarrow> dl_stream_id d = outbox_stream_id digest (dl_subject_key d))"

text \<open>Rows of a stream that were inserted before a terminal delete precede it in the stream.\<close>

definition order_inv :: "node_db \<Rightarrow> bool"
where
  "order_inv db \<longleftrightarrow>
    (\<forall>t \<in> set (nd_outbox db). \<forall>r \<in> set (nd_outbox db).
      ob_is_terminal_pod_delete t \<longrightarrow> sequenced t \<longrightarrow> sequenced r \<longrightarrow> ob_stream_id r = ob_stream_id t \<longrightarrow>
      ob_id r < ob_id t \<longrightarrow> ob_stream_seq r < ob_stream_seq t)"

abbreviation node_client :: "node_db \<Rightarrow> string option"
  where "node_client db \<equiv> nd_meta db ''outbox_client_id''"

definition node_inv :: "(string \<Rightarrow> 64 word) \<Rightarrow> (int \<Rightarrow> int) \<Rightarrow> node_db \<Rightarrow> bool"
where
  "node_inv digest m db \<longleftrightarrow>
    stream_inv m db \<and> id_inv db \<and> order_inv db
    \<and> (\<forall>r \<in> set (nd_outbox db). row_inv digest (node_client db) r)
    \<and> (\<forall>d \<in> set (nd_dead_letter db). dead_inv digest (node_client db) d)
    \<and> node_client db \<noteq> Some []
    \<and> (node_client db = None \<longrightarrow> (\<forall>s. last_seq db s = 0))"

lemma sequenced_update [simp]:
  "sequenced (r\<lparr>ob_id := i\<rparr>) = sequenced r"
  "sequenced (r\<lparr>ob_attempt := n\<rparr>) = sequenced r"
  "sequenced (r\<lparr>ob_next_due_ms := n\<rparr>) = sequenced r"
  "sequenced (r\<lparr>ob_leased_until_ms := n\<rparr>) = sequenced r"
  "sequenced (r\<lparr>ob_lease_token := t\<rparr>) = sequenced r"
  "sequenced (r\<lparr>ob_last_error := e\<rparr>) = sequenced r"
  by (simp_all add: sequenced_def)

lemma require_Ok_iff [simp]:
  "require_positive v f = Ok u \<longleftrightarrow> 0 < v"
  "require_nonnegative v f = Ok u \<longleftrightarrow> 0 \<le> v"
  "require_nonempty t f = Ok u \<longleftrightarrow> t \<noteq> []"
  by (auto simp: require_positive_def require_nonnegative_def require_nonempty_def)

lemma priority_try_from_Ok: "(\<exists>p. priority_try_from v = Ok p) \<longleftrightarrow> 0 \<le> v \<and> v \<le> 3"
  by (auto simp: priority_try_from_def)

lemma classification_try_new_Ok_iff:
  "classification_try_new p s t q = Ok c \<longleftrightarrow>
    c = \<lparr>oc_priority = p, oc_supersedability = s, oc_terminal_delete = t, oc_sequence_policy = q\<rparr>
    \<and> (t = ActorOwnedPodDelete \<longrightarrow> s = NeverSuperseded)
    \<and> (t = ActorOwnedPodDelete \<or> s = SupersededPodStatus \<longrightarrow> q = PerSubject)"
  by (auto simp: classification_try_new_def)

lemma sequence_try_new_Ok_iff:
  "outbox_sequence_try_new s q = Ok x \<longleftrightarrow>
    x = \<lparr>os_stream_id = s, os_stream_seq = q\<rparr> \<and> 0 \<le> s \<and> 0 \<le> q \<and> (s = 0 \<longrightarrow> q = 0)"
  by (auto simp: outbox_sequence_try_new_def)

lemma validate_sequence_Ok_iff:
  "validate_sequence c x True = Ok u \<longleftrightarrow>
    (oc_sequence_policy c = Unsequenced \<longrightarrow> os_stream_id x = 0 \<and> os_stream_seq x = 0)
    \<and> (oc_sequence_policy c = PerSubject \<longrightarrow> 0 < os_stream_id x \<and> 0 < os_stream_seq x)"
  by (cases x) (auto simp: validate_sequence_def sequence_is_assigned_def outbox_sequence_unassigned_def)

lemma record_try_new_Ok_iff:
  "(\<exists>r'. outbox_record_try_new r = Ok r') \<longleftrightarrow>
    0 < rc_id r \<and> rc_client_id r \<noteq> [] \<and> rc_idempotency_key r \<noteq> [] \<and> rc_operation r \<noteq> []
    \<and> 0 \<le> rc_enqueued_ms r \<and> validate_sequence (rc_classification r) (rc_sequence r) True = Ok ()
    \<and> 0 \<le> rc_attempt r \<and> 0 \<le> rc_next_due_ms r
    \<and> (case rc_lease_token r of Some token \<Rightarrow> token \<noteq> [] \<and> 0 < rc_leased_until_ms r
       | None \<Rightarrow> rc_leased_until_ms r = 0)"
  unfolding outbox_record_try_new_def by (cases "rc_lease_token r") auto

lemma outbox_record_of_Ok_iff:
  "(\<exists>record. outbox_record_of r = Ok record) \<longleftrightarrow>
    (\<exists>c x. classification_for_row r = Ok c \<and> outbox_sequence_try_new (ob_stream_id r) (ob_stream_seq r) = Ok x
      \<and> validate_sequence c x True = Ok ())
    \<and> 0 < ob_id r \<and> ob_client_id r \<noteq> [] \<and> ob_idempotency_key r \<noteq> [] \<and> ob_operation r \<noteq> []
    \<and> 0 \<le> ob_enqueued_ms r \<and> 0 \<le> ob_attempt r \<and> 0 \<le> ob_next_due_ms r
    \<and> (case ob_lease_token r of Some token \<Rightarrow> token \<noteq> [] \<and> 0 < ob_leased_until_ms r
       | None \<Rightarrow> ob_leased_until_ms r = 0)"
proof -
  have "(\<exists>record. outbox_record_of r = Ok record) \<longleftrightarrow>
    (\<exists>c x. classification_for_row r = Ok c \<and> outbox_sequence_try_new (ob_stream_id r) (ob_stream_seq r) = Ok x
      \<and> (\<exists>r'. outbox_record_try_new
        \<lparr>rc_id = ob_id r, rc_client_id = ob_client_id r,
         rc_idempotency_key = ob_idempotency_key r, rc_enqueued_ms = ob_enqueued_ms r,
         rc_subject = \<lparr>sj_subject_key = ob_subject_key r, sj_api_version = ob_subject_api_version r,
           sj_kind = ob_subject_kind r, sj_namespace = ob_subject_namespace r,
           sj_name = ob_subject_name r, sj_subject_uid = ob_subject_uid r,
           sj_pod_uid = ob_pod_uid r\<rparr>,
         rc_operation = ob_operation r, rc_classification = c, rc_sequence = x,
         rc_payload = ob_payload_proto r, rc_attempt = ob_attempt r,
         rc_next_due_ms = ob_next_due_ms r, rc_leased_until_ms = ob_leased_until_ms r,
         rc_lease_token = ob_lease_token r, rc_last_error = ob_last_error r\<rparr> = Ok r'))"
    unfolding outbox_record_of_def result_bind_Ok_iff by blast
  then show ?thesis
    unfolding record_try_new_Ok_iff outbox_record.select_convs by blast
qed

lemma well_typed_iff:
  "well_typed r \<longleftrightarrow>
    0 < ob_id r \<and> ob_client_id r \<noteq> [] \<and> ob_idempotency_key r \<noteq> [] \<and> ob_operation r \<noteq> []
    \<and> 0 \<le> ob_enqueued_ms r \<and> 0 \<le> ob_attempt r \<and> 0 \<le> ob_next_due_ms r
    \<and> 0 \<le> ob_priority_class r \<and> ob_priority_class r \<le> 3
    \<and> (ob_is_terminal_pod_delete r \<longrightarrow> \<not> ob_supersedable_pod_status r)
    \<and> (ob_is_terminal_pod_delete r \<or> ob_supersedable_pod_status r \<longrightarrow> sequenced r)
    \<and> (sequenced r \<or> ob_stream_id r = 0 \<and> ob_stream_seq r = 0)
    \<and> (case ob_lease_token r of Some token \<Rightarrow> token \<noteq> [] \<and> 0 < ob_leased_until_ms r
       | None \<Rightarrow> ob_leased_until_ms r = 0)"
proof (cases "0 \<le> ob_priority_class r \<and> ob_priority_class r \<le> 3")
  case False
  then have "classification_for_row r \<noteq> Ok c" for c
    using priority_try_from_Ok [of "ob_priority_class r"]
    unfolding classification_for_row_def try_from_persisted_def Let_def result_bind_Ok_iff by blast
  then show ?thesis
    using False unfolding well_typed_def outbox_record_of_Ok_iff by blast
next
  case True
  then obtain p where "priority_try_from (ob_priority_class r) = Ok p"
    using priority_try_from_Ok by blast
  then have classification: "classification_for_row r =
      classification_try_new p (if ob_supersedable_pod_status r then SupersededPodStatus else NeverSuperseded)
        (if ob_is_terminal_pod_delete r then ActorOwnedPodDelete else NotTerminalDelete)
        (if ob_stream_id r > 0 \<or> ob_stream_seq r > 0 then PerSubject else Unsequenced)"
    unfolding classification_for_row_def try_from_persisted_def Let_def
    by (cases "ob_supersedable_pod_status r"; cases "ob_is_terminal_pod_delete r")
      (simp_all add: supersedability_try_from_def terminal_delete_try_from_def sequence_policy_try_from_def)
  have "(\<exists>c x. classification_for_row r = Ok c \<and> outbox_sequence_try_new (ob_stream_id r) (ob_stream_seq r) = Ok x
      \<and> validate_sequence c x True = Ok ()) \<longleftrightarrow>
    (ob_is_terminal_pod_delete r \<longrightarrow> \<not> ob_supersedable_pod_status r)
    \<and> (ob_is_terminal_pod_delete r \<or> ob_supersedable_pod_status r \<longrightarrow> sequenced r)
    \<and> (sequenced r \<or> ob_stream_id r = 0 \<and> ob_stream_seq r = 0)"
    unfolding classification classification_try_new_Ok_iff sequence_try_new_Ok_iff validate_sequence_Ok_iff
      sequenced_def
    by (cases "ob_is_terminal_pod_delete r"; cases "ob_supersedable_pod_status r"; cases "0 < ob_stream_id r";
        cases "0 < ob_stream_seq r") auto
  then show ?thesis
    using True unfolding well_typed_def outbox_record_of_Ok_iff by blast
qed


lemma node_invD:
  assumes "node_inv digest m db"
  shows "stream_inv m db" and "id_inv db" and "order_inv db"
    and "r \<in> set (nd_outbox db) \<Longrightarrow> row_inv digest (node_client db) r"
    and "d \<in> set (nd_dead_letter db) \<Longrightarrow> dead_inv digest (node_client db) d"
    and "node_client db \<noteq> Some []" and "node_client db = None \<Longrightarrow> last_seq db s = 0"
  using assms by (simp_all add: node_inv_def)


section \<open>Changes of the rows\<close>

lemma mset_outbox_positions:
  "mset (outbox_positions rows) = image_mset row_position (filter_mset sequenced (mset rows))"
  by (simp add: outbox_positions_def)

lemma mset_dead_positions:
  "mset (dead_positions ds) = image_mset dead_position (filter_mset dead_sequenced (mset ds))"
  by (simp add: dead_positions_def)

lemma mset_open_positions:
  "mset (open_positions db) = image_mset row_position (filter_mset sequenced (mset (nd_outbox db)))
    + image_mset dead_position (filter_mset dead_sequenced (mset (nd_dead_letter db)))"
  by (simp add: open_positions_def mset_outbox_positions mset_dead_positions)

lemma open_outbox_position: "r \<in> set (nd_outbox db) \<Longrightarrow> sequenced r \<Longrightarrow> row_position r \<in> set (open_positions db)"
  by (simp add: open_positions_def outbox_positions_def)

lemma open_positionE:
  assumes "(s, q) \<in> set (open_positions db)"
  obtains r where "r \<in> set (nd_outbox db)" "sequenced r" "ob_stream_id r = s" "ob_stream_seq r = q"
  | d where "d \<in> set (nd_dead_letter db)" "dead_sequenced d" "dl_stream_id d = s" "dl_stream_seq d = q"
  using assms
  by (auto simp: open_positions_def outbox_positions_def dead_positions_def row_position_def dead_position_def)

lemma stream_inv_range:
  assumes "stream_inv m db" and "r \<in> set (nd_outbox db)" and "sequenced r"
  shows "m (ob_stream_id r) < ob_stream_seq r" and "ob_stream_seq r \<le> last_seq db (ob_stream_id r)"
proof -
  have "(ob_stream_id r, ob_stream_seq r) \<in> {(s, q). m s < q \<and> q \<le> last_seq db s}"
    using open_outbox_position [OF assms(2,3)] assms(1) by (simp add: stream_inv_def row_position_def)
  then show "m (ob_stream_id r) < ob_stream_seq r" and "ob_stream_seq r \<le> last_seq db (ob_stream_id r)"
    by auto
qed

text \<open>The row at the head of a stream holds its next position.\<close>

lemma head_is_next:
  assumes inv: "stream_inv m db" and row: "r \<in> set (nd_outbox db)" "sequenced r"
    and head: "head_of_line db r"
  shows "ob_stream_seq r = m (ob_stream_id r) + 1"
proof (rule ccontr)
  let ?s = "ob_stream_id r"
  assume "\<not> ?thesis"
  then have "(?s, m ?s + 1) \<in> {(s, q). m s < q \<and> q \<le> last_seq db s}" and less: "m ?s + 1 < ob_stream_seq r"
    using stream_inv_range [OF inv row] by auto
  then have "(?s, m ?s + 1) \<in> set (open_positions db)"
    using inv by (simp add: stream_inv_def)
  then show False
  proof (rule open_positionE)
    fix r' assume "r' \<in> set (nd_outbox db)" "sequenced r'" "ob_stream_id r' = ?s" "ob_stream_seq r' = m ?s + 1"
    then show False
      using head row(2) less by (auto simp: head_of_line_def sequenced_def list_ex_iff)
  next
    fix d assume "d \<in> set (nd_dead_letter db)" "dead_sequenced d" "dl_stream_id d = ?s" "dl_stream_seq d = m ?s + 1"
    then show False
      using head row(2) less by (auto simp: head_of_line_def sequenced_def dead_sequenced_def list_ex_iff)
  qed
qed

lemma stream_inv_same:
  assumes "stream_inv m db" and "mset (open_positions db') = mset (open_positions db)"
    and "\<And>s. last_seq db' s = last_seq db s"
    and "\<And>r. r \<in> set (nd_outbox db') \<Longrightarrow> ob_lease_token r \<noteq> None \<Longrightarrow> sequenced r \<Longrightarrow>
      ob_stream_seq r = m (ob_stream_id r) + 1"
  shows "stream_inv m db'"
  using assms mset_eq_setD [OF assms(2)] mset_eq_imp_distinct_iff [OF assms(2)]
  by (auto simp: stream_inv_def)

lemma stream_inv_settle:
  assumes inv: "stream_inv m db"
    and drop: "mset (open_positions db) = add_mset (s, m s + 1) (mset (open_positions db'))"
    and last: "\<And>s. last_seq db' s = last_seq db s"
    and rows: "set (nd_outbox db') \<subseteq> set (nd_outbox db)"
  shows "stream_inv (m(s := m s + 1)) db'"
proof -
  have "mset (open_positions db) = mset ((s, m s + 1) # open_positions db')"
    using drop by simp
  note this [THEN mset_eq_imp_distinct_iff] this [THEN mset_eq_setD]
  then have dist: "distinct ((s, m s + 1) # open_positions db')"
    and set: "insert (s, m s + 1) (set (open_positions db')) = set (open_positions db)"
    using inv unfolding stream_inv_def by simp_all
  have range: "set (open_positions db') = {(t, q). (m(s := m s + 1)) t < q \<and> q \<le> last_seq db' t}"
  proof -
    have "set (open_positions db') = set (open_positions db) - {(s, m s + 1)}"
      using dist set by auto
    also have "\<dots> = {(t, q). m t < q \<and> q \<le> last_seq db t} - {(s, m s + 1)}"
      using inv unfolding stream_inv_def by simp
    also have "\<dots> = {(t, q). (m(s := m s + 1)) t < q \<and> q \<le> last_seq db' t}"
      unfolding last by (auto split: if_splits)
    finally show ?thesis .
  qed
  have "(s, m s + 1) \<in> {(s, q). m s < q \<and> q \<le> last_seq db s}"
    using set inv unfolding stream_inv_def by blast
  then have "m s + 1 \<le> last_seq db s"
    by simp
  moreover have "ob_stream_seq r = (m(s := m s + 1)) (ob_stream_id r) + 1"
    if "r \<in> set (nd_outbox db')" "ob_lease_token r \<noteq> None" "sequenced r" for r
  proof -
    have "ob_stream_seq r = m (ob_stream_id r) + 1"
      using that rows inv by (auto simp: stream_inv_def)
    moreover have "row_position r \<noteq> (s, m s + 1)"
      using open_outbox_position [OF that(1,3)] dist by auto
    ultimately show ?thesis
      by (auto simp: row_position_def)
  qed
  ultimately show ?thesis
    using inv dist unfolding stream_inv_def range last by auto
qed

lemma stream_inv_add:
  assumes inv: "stream_inv m db"
    and add: "mset (open_positions db') = add_mset (s, last_seq db s + 1) (mset (open_positions db))"
    and last: "\<And>t. last_seq db' t = (if t = s then last_seq db s + 1 else last_seq db t)"
    and rows: "\<And>r. r \<in> set (nd_outbox db') \<Longrightarrow> ob_lease_token r \<noteq> None \<Longrightarrow> r \<in> set (nd_outbox db)"
  shows "stream_inv m db'"
proof -
  have "mset (open_positions db') = mset ((s, last_seq db s + 1) # open_positions db)"
    using add by simp
  note this [THEN mset_eq_imp_distinct_iff] this [THEN mset_eq_setD]
  moreover have fresh: "(s, last_seq db s + 1) \<notin> set (open_positions db)"
    using inv unfolding stream_inv_def by simp
  ultimately have dist: "distinct (open_positions db')"
    and set: "set (open_positions db') = insert (s, last_seq db s + 1) {(s, q). m s < q \<and> q \<le> last_seq db s}"
    using inv unfolding stream_inv_def by simp_all
  have le: "m s \<le> last_seq db s" for s
    using inv unfolding stream_inv_def by simp
  have "set (open_positions db') = {(s, q). m s < q \<and> q \<le> last_seq db' s}"
    unfolding set last using le [of s] by (auto split: if_splits)
  moreover have "0 \<le> m t \<and> m t \<le> last_seq db' t" for t
    using inv le [of t] unfolding stream_inv_def last by (simp add: add_increasing2)
  ultimately show ?thesis
    using inv dist rows unfolding stream_inv_def by blast
qed


text \<open>What every update of the outbox keeps of a row.\<close>

definition touched :: "node_outbox_row \<Rightarrow> node_outbox_row \<Rightarrow> bool"
where
  "touched r r' \<longleftrightarrow>
    ob_id r' = ob_id r \<and> ob_client_id r' = ob_client_id r \<and> ob_subject_key r' = ob_subject_key r
    \<and> ob_is_terminal_pod_delete r' = ob_is_terminal_pod_delete r
    \<and> ob_supersedable_pod_status r' = ob_supersedable_pod_status r
    \<and> ob_stream_id r' = ob_stream_id r \<and> ob_stream_seq r' = ob_stream_seq r"

lemma touched_refl [simp]: "touched r r"
  by (simp add: touched_def)

lemma touched_sequenced: "touched r r' \<Longrightarrow> sequenced r' = sequenced r \<and> row_position r' = row_position r"
  by (simp add: touched_def sequenced_def row_position_def)

lemma touched_positions:
  "(\<And>r. r \<in> set rows \<Longrightarrow> touched r (f r)) \<Longrightarrow> outbox_positions (map f rows) = outbox_positions rows"
  by (induction rows) (auto simp: outbox_positions_def dest: touched_sequenced)

text \<open>Updates that keep rows well typed and lease only the next position of a stream.\<close>

lemma node_inv_update:
  assumes inv: "node_inv digest m db"
    and touched: "\<And>r. r \<in> set (nd_outbox db) \<Longrightarrow> touched r (f r)"
    and typed: "\<And>r. r \<in> set (nd_outbox db) \<Longrightarrow> well_typed r \<Longrightarrow> well_typed (f r)"
    and lease: "\<And>r. r \<in> set (nd_outbox db) \<Longrightarrow> sequenced r \<Longrightarrow> ob_lease_token (f r) \<noteq> None \<Longrightarrow>
      ob_stream_seq r = m (ob_stream_id r) + 1"
  shows "node_inv digest m (db\<lparr>nd_outbox := map f (nd_outbox db)\<rparr>)"
proof -
  let ?db = "db\<lparr>nd_outbox := map f (nd_outbox db)\<rparr>"
  have "map (ob_id \<circ> f) (nd_outbox db) = map ob_id (nd_outbox db)"
    using touched by (simp add: touched_def)
  then have ids: "distinct (map (ob_id \<circ> f) (nd_outbox db))"
    using node_invD(2) [OF inv] unfolding id_inv_def by metis
  have "stream_inv m ?db"
  proof (rule stream_inv_same)
    show "stream_inv m db"
      using inv by (simp add: node_inv_def)
    show "mset (open_positions ?db) = mset (open_positions db)"
      using touched_positions [of "nd_outbox db" f] touched by (simp add: open_positions_def)
    show "ob_stream_seq r = m (ob_stream_id r) + 1"
      if leased: "r \<in> set (nd_outbox ?db)" "ob_lease_token r \<noteq> None" "sequenced r" for r
    proof -
      obtain r0 where r0: "r0 \<in> set (nd_outbox db)" "r = f r0"
        using leased(1) by auto
      show ?thesis
        using lease [OF r0(1)] touched [OF r0(1)] touched_sequenced [OF touched [OF r0(1)]] leased(2,3) r0(2)
        by (simp add: touched_def)
    qed
  qed (simp add: last_seq_def)
  moreover have "id_inv ?db"
    using node_invD(2) [OF inv] ids touched by (auto simp: id_inv_def touched_def)
  moreover have "order_inv ?db"
    using node_invD(3) [OF inv] touched by (auto simp: order_inv_def touched_def sequenced_def)
  moreover have "row_inv digest (node_client db) (f r)" if "r \<in> set (nd_outbox db)" for r
    using inv that typed [OF that] touched [OF that] touched_sequenced [OF touched [OF that]]
    by (auto simp: node_inv_def row_inv_def touched_def)
  ultimately show ?thesis
    using inv by (auto simp: node_inv_def last_seq_def)
qed

text \<open>Checkpoints and counters are not part of the invariant.\<close>

lemma node_inv_frame:
  assumes "node_inv digest m db" and "nd_outbox db' = nd_outbox db" and "nd_dead_letter db' = nd_dead_letter db"
    and "nd_stream_sequences db' = nd_stream_sequences db" and "node_client db' = node_client db"
    and "nd_last_outbox_id db' = nd_last_outbox_id db" and "nd_last_dead_letter_id db' = nd_last_dead_letter_id db"
  shows "node_inv digest m db'"
  using assms
  by (simp add: node_inv_def stream_inv_def id_inv_def order_inv_def open_positions_def last_seq_def)

text \<open>Rows that leave.\<close>

lemma mset_split_row:
  assumes "distinct (map ob_id rows)" and "r \<in> set rows"
  shows "mset rows = add_mset r (mset (filter (\<lambda>x. ob_id x \<noteq> ob_id r) rows))"
  using assms
proof (induction rows)
  case (Cons x rows)
  then show ?case
  proof (cases "x = r")
    case True
    then have "filter (\<lambda>y. ob_id y \<noteq> ob_id r) rows = rows"
      using Cons.prems(1) by (intro filter_True) (auto simp: image_iff dest!: bspec)
    then show ?thesis
      using True by simp
  qed (auto simp: image_iff)
qed simp

lemma rows_leave:
  assumes "node_inv digest m db" and "set rows \<subseteq> set (nd_outbox db)" and "distinct (map ob_id rows)"
  shows "id_inv (db\<lparr>nd_outbox := rows\<rparr>) \<and> order_inv (db\<lparr>nd_outbox := rows\<rparr>)
    \<and> (\<forall>r \<in> set rows. row_inv digest (node_client db) r)"
  using assms by (auto simp: node_inv_def id_inv_def order_inv_def subset_iff)

lemma node_inv_complete:
  assumes inv: "node_inv digest m db" and row: "r \<in> set (nd_outbox db)"
    and next_position: "sequenced r \<Longrightarrow> ob_stream_seq r = m (ob_stream_id r) + 1"
  shows "node_inv digest (if sequenced r then m(ob_stream_id r := m (ob_stream_id r) + 1) else m)
    (db\<lparr>nd_outbox := filter (\<lambda>x. ob_id x \<noteq> ob_id r) (nd_outbox db)\<rparr>)"
proof -
  let ?db = "db\<lparr>nd_outbox := filter (\<lambda>x. ob_id x \<noteq> ob_id r) (nd_outbox db)\<rparr>"
  have streams: "stream_inv m db" and ids: "distinct (map ob_id (nd_outbox db))"
    using inv by (simp_all add: node_inv_def id_inv_def)
  note split = mset_split_row [OF ids row]
  have "stream_inv (if sequenced r then m(ob_stream_id r := m (ob_stream_id r) + 1) else m) ?db"
  proof (cases "sequenced r")
    case True
    then have "mset (open_positions db) =
        add_mset (ob_stream_id r, m (ob_stream_id r) + 1) (mset (open_positions ?db))"
      using next_position unfolding mset_open_positions split by (simp add: row_position_def)
    then have "stream_inv (m(ob_stream_id r := m (ob_stream_id r) + 1)) ?db"
      by (rule stream_inv_settle [OF streams]) (auto simp: last_seq_def)
    then show ?thesis
      using True by simp
  next
    case False
    have "stream_inv m ?db"
    proof (rule stream_inv_same [OF streams])
      show "mset (open_positions ?db) = mset (open_positions db)"
        using False unfolding mset_open_positions split by simp
    qed (use streams in \<open>auto simp: last_seq_def stream_inv_def\<close>)
    then show ?thesis
      using False by simp
  qed
  moreover have "distinct (map ob_id (filter (\<lambda>x. ob_id x \<noteq> ob_id r) (nd_outbox db)))"
    using ids by (rule distinct_map_filter)
  ultimately show ?thesis
    using inv rows_leave [OF inv, of "filter (\<lambda>x. ob_id x \<noteq> ob_id r) (nd_outbox db)"]
    by (auto simp: node_inv_def last_seq_def)
qed


text \<open>How a database may differ from an earlier one: rows are touched, leave, or are new.\<close>

definition extends :: "node_db \<Rightarrow> node_db \<Rightarrow> bool"
where
  "extends db db' \<longleftrightarrow>
    (\<forall>r' \<in> set (nd_outbox db'). (\<exists>r \<in> set (nd_outbox db). touched r r') \<or> nd_last_outbox_id db < ob_id r')
    \<and> nd_last_outbox_id db \<le> nd_last_outbox_id db'
    \<and> (\<forall>s. last_seq db s \<le> last_seq db' s \<and> last_seq db' s \<le> last_seq db s + 1)
    \<and> (node_client db = None \<or> node_client db' = node_client db)"

text \<open>The same without a new position.\<close>

definition evolves :: "node_db \<Rightarrow> node_db \<Rightarrow> bool"
  where "evolves db db' \<longleftrightarrow> extends db db' \<and> (\<forall>s. last_seq db' s = last_seq db s)"

lemma extends_refl [simp]: "extends db db"
  by (auto simp: extends_def intro: touched_refl)

lemma evolves_extends: "evolves db db' \<Longrightarrow> extends db db'"
  by (simp add: evolves_def)

lemma evolves_frame:
  assumes "set (nd_outbox db') \<subseteq> set (nd_outbox db)" and "nd_last_outbox_id db' = nd_last_outbox_id db"
    and "nd_stream_sequences db' = nd_stream_sequences db" and "node_client db' = node_client db"
  shows "evolves db db'"
  using assms by (force simp: evolves_def extends_def last_seq_def)

lemma evolves_update:
  "(\<And>r. r \<in> set (nd_outbox db) \<Longrightarrow> touched r (f r)) \<Longrightarrow> evolves db (db\<lparr>nd_outbox := map f (nd_outbox db)\<rparr>)"
  by (auto simp: evolves_def extends_def last_seq_def)

lemma outbox_update_inv:
  assumes inv: "node_inv digest m db"
    and touched: "\<And>r. touched r (f r)"
    and typed: "\<And>r. r \<in> set (nd_outbox db) \<Longrightarrow> P r \<Longrightarrow> well_typed r \<Longrightarrow> well_typed (f r)"
    and lease: "\<And>r. r \<in> set (nd_outbox db) \<Longrightarrow> P r \<Longrightarrow> sequenced r \<Longrightarrow> ob_lease_token (f r) \<noteq> None \<Longrightarrow>
      ob_stream_seq r = m (ob_stream_id r) + 1"
  shows "node_inv digest m (snd (outbox_update P f db)) \<and> evolves db (snd (outbox_update P f db))"
proof -
  let ?f = "\<lambda>r. if P r then f r else r"
  have "node_inv digest m (db\<lparr>nd_outbox := map ?f (nd_outbox db)\<rparr>)"
  proof (rule node_inv_update [OF inv])
    fix r assume r: "r \<in> set (nd_outbox db)"
    show "touched r (?f r)"
      using touched by simp
    show "well_typed (?f r)" if "well_typed r"
      using typed [OF r] that by simp
    show "ob_stream_seq r = m (ob_stream_id r) + 1" if "sequenced r" "ob_lease_token (?f r) \<noteq> None"
      using lease [OF r] that r node_invD(1) [OF inv] by (auto simp: stream_inv_def split: if_splits)
  qed
  then show ?thesis
    using evolves_update [of db ?f] touched by (simp add: outbox_update_def)
qed

lemma requeue_inv:
  "node_inv digest m db \<Longrightarrow>
    node_inv digest m (snd (requeue_expired_outbox_leases now db)) \<and> evolves db (snd (requeue_expired_outbox_leases now db))"
  unfolding requeue_expired_outbox_leases_def
  by (rule outbox_update_inv) (auto simp: touched_def well_typed_iff)

lemma renew_inv:
  assumes inv: "node_inv digest m db" and "0 < leased_until"
  shows "node_inv digest m (snd (renew_outbox_lease row_id token leased_until db))
    \<and> evolves db (snd (renew_outbox_lease row_id token leased_until db))"
proof -
  have eq: "snd (renew_outbox_lease row_id token leased_until db) =
      snd (outbox_update (\<lambda>r. ob_id r = row_id \<and> ob_lease_token r = Some token)
        (\<lambda>r. r\<lparr>ob_leased_until_ms := leased_until\<rparr>) db)"
    by (simp add: renew_outbox_lease_def split: prod.split)
  have leased: "ob_stream_seq r = m (ob_stream_id r) + 1"
    if "r \<in> set (nd_outbox db)" "ob_lease_token r = Some token" "sequenced r" for r
    using that node_invD(1) [OF inv] by (auto simp: stream_inv_def)
  show ?thesis
    unfolding eq
    by (rule outbox_update_inv [OF inv]) (use leased assms(2) in \<open>auto simp: touched_def well_typed_iff\<close>)
qed

lemma mark_failed_inv:
  "node_inv digest m db \<Longrightarrow> 0 \<le> backoff_until \<Longrightarrow>
    node_inv digest m (snd (outbox_mark_failed row_id token backoff_until error db))
    \<and> evolves db (snd (outbox_mark_failed row_id token backoff_until error db))"
  unfolding outbox_mark_failed_def
  by (rule outbox_update_inv) (auto simp: touched_def well_typed_iff)

lemma node_inv_dead_letter:
  assumes inv: "node_inv digest m db" and row: "r \<in> set (nd_outbox db)"
    and inserted: "dead_letter_insert r attempts error now db = Ok db1"
  shows "node_inv digest m (db1\<lparr>nd_outbox := filter (\<lambda>x. ob_id x \<noteq> ob_id r) (nd_outbox db)\<rparr>)"
proof -
  let ?rows = "filter (\<lambda>x. ob_id x \<noteq> ob_id r) (nd_outbox db)"
  let ?db = "db1\<lparr>nd_outbox := ?rows\<rparr>"
  obtain d where db1: "nd_dead_letter db1 = nd_dead_letter db @ [d]" "nd_last_dead_letter_id db1 = dl_id d"
      "dl_id d = nd_last_dead_letter_id db + 1" "nd_stream_sequences db1 = nd_stream_sequences db"
      "nd_meta db1 = nd_meta db" "nd_last_outbox_id db1 = nd_last_outbox_id db"
    and d: "dl_client_id d = ob_client_id r" "dl_idempotency_key d = ob_idempotency_key r"
      "dl_operation d = ob_operation r" "dl_enqueued_ms d = ob_enqueued_ms r" "dl_stream_id d = ob_stream_id r"
      "dl_stream_seq d = ob_stream_seq r" "dl_subject_key d = ob_subject_key r"
    using inserted by (auto simp: dead_letter_insert_def Let_def split: if_splits)
  have dead: "dead_sequenced d = sequenced r" "dead_position d = row_position r"
    using d by (simp_all add: dead_sequenced_def sequenced_def dead_position_def row_position_def)
  have ids: "distinct (map ob_id (nd_outbox db))"
    using node_invD(2) [OF inv] by (simp add: id_inv_def)
  have "stream_inv m ?db"
  proof (rule stream_inv_same [OF node_invD(1) [OF inv]])
    show "mset (open_positions ?db) = mset (open_positions db)"
      unfolding mset_open_positions mset_split_row [OF ids row] using db1 dead by simp
  qed (use db1 node_invD(1) [OF inv] in \<open>auto simp: last_seq_def stream_inv_def\<close>)
  moreover have "dead_inv digest (node_client db) d"
    using node_invD(4) [OF inv row] d dead by (auto simp: row_inv_def dead_inv_def well_typed_iff)
  moreover have "id_inv ?db"
    using node_invD(2) [OF inv] db1 by (fastforce simp: id_inv_def intro: distinct_map_filter)
  moreover have "order_inv ?db"
    using node_invD(3) [OF inv] by (auto simp: order_inv_def)
  ultimately show ?thesis
    using inv db1 by (auto simp: node_inv_def last_seq_def)
qed


lemma same_id:
  "node_inv digest m db \<Longrightarrow> r \<in> set (nd_outbox db) \<Longrightarrow> r' \<in> set (nd_outbox db) \<Longrightarrow> ob_id r' = ob_id r \<Longrightarrow> r' = r"
  using node_invD(2) [of digest m db] by (auto simp: id_inv_def dest: inj_onD simp: distinct_map)

lemma row_select_Some:
  "outbox_row_select row_id db = Some r \<Longrightarrow> r \<in> set (nd_outbox db) \<and> ob_id r = row_id"
  by (auto simp: outbox_row_select_def find_Some_iff)

lemma drop_leased:
  assumes "node_inv digest m db" and "r \<in> set (nd_outbox db)" and "ob_lease_token r = Some token"
  shows "filter (\<lambda>x. \<not> (ob_id x = ob_id r \<and> ob_lease_token x = Some token)) (nd_outbox db) =
    filter (\<lambda>x. ob_id x \<noteq> ob_id r) (nd_outbox db)"
  using assms same_id [OF assms(1,2)] by (auto intro: filter_cong)

lemma record_failure_inv:
  assumes inv: "node_inv digest m db" and backoff: "0 \<le> backoff_until"
    and recorded: "record_outbox_failure now row_id token backoff_until error max_attempts db = Ok (disposition, db')"
  shows "node_inv digest m db' \<and> evolves db db'"
proof (cases "\<exists>r. outbox_row_select row_id db = Some r \<and> ob_lease_token r = Some token")
  case False
  then have "db' = db"
    using recorded by (auto simp: record_outbox_failure_def split: option.splits if_splits)
  then show ?thesis
    using inv by (simp add: evolves_frame)
next
  case True
  then obtain r where select: "outbox_row_select row_id db = Some r" and token: "ob_lease_token r = Some token"
    by blast
  note row = row_select_Some [OF select]
  show ?thesis
  proof (cases "saturating_add_i64 (ob_attempt r) 1 \<ge> max max_attempts 1")
    case True
    obtain db1 where insert: "dead_letter_insert r (saturating_add_i64 (ob_attempt r) 1) error now db = Ok db1"
      and db': "db' = snd (outbox_delete (\<lambda>r. ob_id r = row_id \<and> ob_lease_token r = Some token) db1)"
      using recorded select token True
      by (auto simp: record_outbox_failure_def Let_def outbox_delete_def split: if_splits)
    have db1: "nd_outbox db1 = nd_outbox db" "nd_last_outbox_id db1 = nd_last_outbox_id db"
        "nd_stream_sequences db1 = nd_stream_sequences db" "node_client db1 = node_client db"
      using insert by (auto simp: dead_letter_insert_def Let_def split: if_splits)
    have "db' = db1\<lparr>nd_outbox := filter (\<lambda>x. ob_id x \<noteq> ob_id r) (nd_outbox db)\<rparr>"
      unfolding db' using drop_leased [OF inv _ token] row db1 by (simp add: outbox_delete_def)
    then show ?thesis
      using node_inv_dead_letter [OF inv _ insert] row db1 by (auto intro: evolves_frame)
  next
    case False
    then have "db' = snd (outbox_mark_failed row_id token backoff_until error db)"
      using recorded select token
      by (auto simp: record_outbox_failure_def Let_def outbox_mark_failed_def outbox_update_def split: if_splits)
    then show ?thesis
      using mark_failed_inv [OF inv backoff] by simp
  qed
qed

lemma move_dead_letter_inv:
  assumes inv: "node_inv digest m db"
    and moved: "move_outbox_to_dead_letter_if_max_attempts now key max_attempts db = Ok (answer, db')"
  shows "node_inv digest m db' \<and> evolves db db'"
proof (cases "db' = db")
  case True
  then show ?thesis
    using inv by (simp add: evolves_frame)
next
  case False
  then obtain r db1 row_id where select: "outbox_row_select row_id db = Some r"
    and insert: "dead_letter_insert r (ob_attempt r) (unwrap_or (ob_last_error r) []) now db = Ok db1"
    and db': "db' = snd (outbox_delete (\<lambda>x. ob_id x = ob_id r) db1)"
    using moved
    by (auto simp: move_outbox_to_dead_letter_if_max_attempts_def split: option.splits if_splits)
  note row = row_select_Some [OF select]
  have db1: "nd_outbox db1 = nd_outbox db" "nd_last_outbox_id db1 = nd_last_outbox_id db"
      "nd_stream_sequences db1 = nd_stream_sequences db" "node_client db1 = node_client db"
    using insert by (auto simp: dead_letter_insert_def Let_def split: if_splits)
  have "db' = db1\<lparr>nd_outbox := filter (\<lambda>x. ob_id x \<noteq> ob_id r) (nd_outbox db)\<rparr>"
    unfolding db' using db1 by (simp add: outbox_delete_def)
  then show ?thesis
    using node_inv_dead_letter [OF inv _ insert] row db1 by (auto intro: evolves_frame)
qed

text \<open>A completion settles the next position of a stream, or nothing.\<close>

definition completed_positions :: "int \<Rightarrow> string \<Rightarrow> node_db \<Rightarrow> (int \<times> int) list"
where
  "completed_positions row_id token db =
    outbox_positions (filter (\<lambda>r. ob_id r = row_id \<and> ob_lease_token r = Some token) (nd_outbox db))"

definition settle_positions :: "(int \<Rightarrow> int) \<Rightarrow> (int \<times> int) list \<Rightarrow> int \<Rightarrow> int"
  where "settle_positions m ps s = m s + int (length (filter (\<lambda>p. fst p = s) ps))"

lemma settle_none [simp]: "settle_positions m [] = m"
  by (simp add: settle_positions_def fun_eq_iff)

lemma filter_leased:
  assumes "node_inv digest m db" and "r \<in> set (nd_outbox db)" and "ob_lease_token r = Some token"
  shows "filter (\<lambda>x. ob_id x = ob_id r \<and> ob_lease_token x = Some token) (nd_outbox db) = [r]"
proof -
  have ids: "distinct (map ob_id (nd_outbox db))"
    using node_invD(2) [OF assms(1)] by (simp add: id_inv_def)
  have "filter (\<lambda>x. ob_id x = ob_id r \<and> ob_lease_token x = Some token) (nd_outbox db) = filter (\<lambda>x. x = r) (nd_outbox db)"
    using assms(2,3) same_id [OF assms(1,2)] by (auto intro: filter_cong)
  moreover have "filter (\<lambda>x. x = r) rows = [r]" if "distinct rows" "r \<in> set rows" for rows
    using that by (induction rows) (auto simp: filter_empty_conv)
  ultimately show ?thesis
    using assms(2) ids by (simp add: distinct_map)
qed

lemma complete_inv:
  assumes inv: "node_inv digest m db"
  shows "node_inv digest (settle_positions m (completed_positions row_id token db)) (snd (complete_outbox row_id token db))"
    and "evolves db (snd (complete_outbox row_id token db))"
    and "p \<in> set (completed_positions row_id token db) \<Longrightarrow> snd p = m (fst p) + 1"
    and "length (completed_positions row_id token db) \<le> 1"
proof -
  have db': "snd (complete_outbox row_id token db) =
      db\<lparr>nd_outbox := filter (\<lambda>r. \<not> (ob_id r = row_id \<and> ob_lease_token r = Some token)) (nd_outbox db)\<rparr>"
    by (simp add: complete_outbox_def outbox_delete_def)
  show "evolves db (snd (complete_outbox row_id token db))"
    unfolding db' by (rule evolves_frame) auto
  have "node_inv digest (settle_positions m (completed_positions row_id token db)) (snd (complete_outbox row_id token db))
    \<and> (p \<in> set (completed_positions row_id token db) \<longrightarrow> snd p = m (fst p) + 1)
    \<and> length (completed_positions row_id token db) \<le> 1"
  proof (cases "\<exists>r \<in> set (nd_outbox db). ob_id r = row_id \<and> ob_lease_token r = Some token")
    case False
    then have "filter (\<lambda>r. ob_id r = row_id \<and> ob_lease_token r = Some token) (nd_outbox db) = []"
      and "filter (\<lambda>r. \<not> (ob_id r = row_id \<and> ob_lease_token r = Some token)) (nd_outbox db) = nd_outbox db"
      by (auto simp: filter_empty_conv filter_id_conv)
    then show ?thesis
      using inv unfolding db' by (simp add: completed_positions_def outbox_positions_def)
  next
    case True
    then obtain r where r: "r \<in> set (nd_outbox db)" "ob_id r = row_id" "ob_lease_token r = Some token"
      by blast
    have next_position: "ob_stream_seq r = m (ob_stream_id r) + 1" if "sequenced r"
      using that r node_invD(1) [OF inv] by (auto simp: stream_inv_def)
    have completed: "completed_positions row_id token db = (if sequenced r then [row_position r] else [])"
      using filter_leased [OF inv r(1,3)] r(2) by (simp add: completed_positions_def outbox_positions_def)
    then have "settle_positions m (completed_positions row_id token db) =
        (if sequenced r then m(ob_stream_id r := m (ob_stream_id r) + 1) else m)"
      by (auto simp: settle_positions_def row_position_def)
    then show ?thesis
      using node_inv_complete [OF inv r(1) next_position] drop_leased [OF inv r(1,3)] r(2) completed next_position
      unfolding db' by (auto simp: row_position_def)
  qed
  then show "node_inv digest (settle_positions m (completed_positions row_id token db)) (snd (complete_outbox row_id token db))"
    and "p \<in> set (completed_positions row_id token db) \<Longrightarrow> snd p = m (fst p) + 1"
    and "length (completed_positions row_id token db) \<le> 1"
    by simp_all
qed


section \<open>New rows\<close>

lemma insert_row_cases:
  assumes "outbox_insert_row row db = Ok db'"
  shows "db' = db\<lparr>nd_outbox := nd_outbox db @ [row\<lparr>ob_id := nd_last_outbox_id db + 1\<rparr>],
      nd_last_outbox_id := nd_last_outbox_id db + 1\<rparr>"
    and "ob_operation row \<noteq> []" and "0 \<le> ob_priority_class row" and "ob_priority_class row \<le> 3"
  using assms by (auto simp: outbox_insert_row_def Let_def split: if_splits)

lemma ensure_client_inv:
  assumes inv: "node_inv digest m db" and ensure: "ensure_outbox_client_id_in_tx uuid db = (client, db')"
  shows "node_inv digest m db'" and "node_client db' = Some client" and "client \<noteq> []" and "evolves db db'"
    and "nd_outbox db' = nd_outbox db" and "nd_dead_letter db' = nd_dead_letter db"
    and "nd_stream_sequences db' = nd_stream_sequences db" and "nd_last_outbox_id db' = nd_last_outbox_id db"
proof -
  have none: "nd_outbox db = []" "nd_dead_letter db = []" if "node_client db = None"
    using that node_invD(4,5) [OF inv] by (force simp: row_inv_def dead_inv_def)+
  show "node_client db' = Some client" and "client \<noteq> []" and "nd_outbox db' = nd_outbox db"
    and "nd_dead_letter db' = nd_dead_letter db" and "nd_stream_sequences db' = nd_stream_sequences db"
    and "nd_last_outbox_id db' = nd_last_outbox_id db"
    using ensure node_invD(6) [OF inv]
    by (auto simp: ensure_outbox_client_id_in_tx_def Let_def split: option.splits)
  then show "evolves db db'"
    using ensure by (force simp: evolves_def extends_def last_seq_def ensure_outbox_client_id_in_tx_def split: option.splits)
  show "node_inv digest m db'"
  proof (cases "node_client db")
    case None
    then have "db' = db\<lparr>nd_meta := (nd_meta db)(''outbox_client_id'' \<mapsto> client)\<rparr>" "client \<noteq> []"
      using ensure by (auto simp: ensure_outbox_client_id_in_tx_def Let_def)
    then show ?thesis
      using inv none [OF None]
      by (simp add: node_inv_def stream_inv_def id_inv_def order_inv_def open_positions_def last_seq_def)
  next
    case (Some c)
    then show ?thesis
      using ensure inv by (simp add: ensure_outbox_client_id_in_tx_def)
  qed
qed

text \<open>A row added to the outbox, while some dead letters leave.\<close>

lemma node_inv_insert:
  assumes inv: "node_inv digest m db" and client: "node_client db \<noteq> None"
    and outbox: "nd_outbox db' = nd_outbox db @ [row]" and row_id: "ob_id row = nd_last_outbox_id db + 1"
      "nd_last_outbox_id db' = nd_last_outbox_id db + 1"
    and dead: "nd_dead_letter db' = filter Q (nd_dead_letter db)"
      "nd_last_dead_letter_id db' = nd_last_dead_letter_id db" "node_client db' = node_client db"
    and streams: "stream_inv m db'"
    and row: "row_inv digest (node_client db) row"
    and last: "ob_is_terminal_pod_delete row \<Longrightarrow> sequenced row \<Longrightarrow> ob_stream_seq row = last_seq db (ob_stream_id row) + 1"
  shows "node_inv digest m db'"
proof -
  have below: "ob_id r \<le> nd_last_outbox_id db" if "r \<in> set (nd_outbox db)" for r
    using node_invD(2) [OF inv] that by (simp add: id_inv_def)
  then have "id_inv db'"
    using node_invD(2) [OF inv] outbox row_id dead
    by (fastforce simp: id_inv_def intro: distinct_map_filter)
  moreover have "order_inv db'"
    unfolding order_inv_def
  proof (intro ballI impI)
    fix t r assume t: "t \<in> set (nd_outbox db')" "ob_is_terminal_pod_delete t" "sequenced t"
      and r: "r \<in> set (nd_outbox db')" "sequenced r" "ob_stream_id r = ob_stream_id t" "ob_id r < ob_id t"
    have "r \<in> set (nd_outbox db)"
      using r t outbox row_id below by fastforce
    show "ob_stream_seq r < ob_stream_seq t"
    proof (cases "t = row")
      case True
      then show ?thesis
        using stream_inv_range [OF node_invD(1) [OF inv] \<open>r \<in> set (nd_outbox db)\<close> r(2)] last t r by simp
    next
      case False
      then have "t \<in> set (nd_outbox db)"
        using t outbox by auto
      then show ?thesis
        using node_invD(3) [OF inv] \<open>r \<in> set (nd_outbox db)\<close> t r by (simp add: order_inv_def)
    qed
  qed
  ultimately show ?thesis
    using inv client streams outbox dead row by (auto simp: node_inv_def)
qed

lemma stream_inv_frame:
  assumes "stream_inv m db" and "mset (open_positions db') = mset (open_positions db)"
    and "nd_stream_sequences db' = nd_stream_sequences db"
    and "\<And>r. r \<in> set (nd_outbox db') \<Longrightarrow> ob_lease_token r \<noteq> None \<Longrightarrow> r \<in> set (nd_outbox db)"
  shows "stream_inv m db'"
  using assms(1) by (rule stream_inv_same) (use assms in \<open>auto simp: last_seq_def stream_inv_def\<close>)

lemma allocate_seq:
  assumes "allocate_next_outbox_stream_seq s db = (q, db')" and "0 \<le> last_seq db s" and "last_seq db s < i64_max"
  shows "q = last_seq db s + 1" and "db' = db\<lparr>nd_stream_sequences := (nd_stream_sequences db)(s \<mapsto> last_seq db s + 1)\<rparr>"
  using assms
  by (auto simp: allocate_next_outbox_stream_seq_def last_seq_def saturating_succ_gt i64_min_def Let_def)

lemma stream_id_positive: "0 < outbox_stream_id digest subject_key"
  by (simp add: outbox_stream_id_def Let_def order.strict_iff_order)


lemma valid_classification_iff:
  "valid_classification c \<longleftrightarrow>
    (oc_terminal_delete c = ActorOwnedPodDelete \<longrightarrow> oc_supersedability c = NeverSuperseded)
    \<and> (oc_terminal_delete c = ActorOwnedPodDelete \<or> oc_supersedability c = SupersededPodStatus \<longrightarrow>
       oc_sequence_policy c = PerSubject)"
  by (cases c) (simp add: valid_classification_def classification_try_new_Ok_iff)

lemma persisted_flags:
  "(supersedability_persisted_value v \<noteq> 0) = (v = SupersededPodStatus)"
  "(terminal_delete_persisted_value t \<noteq> 0) = (t = ActorOwnedPodDelete)"
  "(sequence_policy_persisted_value q = sequence_policy_persisted_value PerSubject) = (q = PerSubject)"
  by (cases v; cases t; cases q; simp)+

lemma seq_nonneg: "node_inv digest m db \<Longrightarrow> 0 \<le> last_seq db s"
  using node_invD(1) [of digest m db] unfolding stream_inv_def by (meson order_trans)

text \<open>The insertion of a row at a fresh position of its stream, or outside the streams.\<close>

lemma insert_fresh_inv:
  assumes inv: "node_inv digest m db" and client: "node_client db = Some (ob_client_id row)"
    and inserted: "outbox_insert_row row db2 = Ok db3"
    and db2: "if sequenced row then allocate_next_outbox_stream_seq (ob_stream_id row) db = (ob_stream_seq row, db2)
      else db2 = db"
    and room: "last_seq db (ob_stream_id row) < i64_max"
    and db': "db' = db3\<lparr>nd_dead_letter := filter Q (nd_dead_letter db)\<rparr>"
    and dead: "\<And>d. d \<in> set (nd_dead_letter db) \<Longrightarrow> \<not> Q d \<Longrightarrow> \<not> dead_sequenced d"
    and row: "row_inv digest (node_client db) (row\<lparr>ob_id := nd_last_outbox_id db + 1\<rparr>)"
      "ob_lease_token row = None"
  shows "node_inv digest m db' \<and> extends db db'"
proof -
  let ?row = "row\<lparr>ob_id := nd_last_outbox_id db + 1\<rparr>"
  have seq: "sequenced row \<Longrightarrow> ob_stream_seq row = last_seq db (ob_stream_id row) + 1"
    and db2: "db2 = (if sequenced row
      then db\<lparr>nd_stream_sequences := (nd_stream_sequences db)(ob_stream_id row \<mapsto> last_seq db (ob_stream_id row) + 1)\<rparr>
      else db)"
    using db2 allocate_seq [OF _ seq_nonneg [OF inv] room] by (auto split: if_splits)
  have db': "nd_outbox db' = nd_outbox db @ [?row]" "nd_last_outbox_id db' = nd_last_outbox_id db + 1"
      "nd_dead_letter db' = filter Q (nd_dead_letter db)" "nd_last_dead_letter_id db' = nd_last_dead_letter_id db"
      "nd_meta db' = nd_meta db"
      "last_seq db' s = (if sequenced row \<and> s = ob_stream_id row then last_seq db s + 1 else last_seq db s)" for s
    unfolding db' insert_row_cases(1) [OF inserted] db2 by (simp_all add: last_seq_def)
  have keep: "filter dead_sequenced (filter Q (nd_dead_letter db)) = filter dead_sequenced (nd_dead_letter db)"
    using dead by (auto simp: filter_filter intro: filter_cong)
  have leased: "r \<in> set (nd_outbox db)" if "r \<in> set (nd_outbox db')" "ob_lease_token r \<noteq> None" for r
    using that row(2) db' by auto
  have "stream_inv m db'"
  proof (cases "sequenced row")
    case True
    have "mset (open_positions db') =
        add_mset (ob_stream_id row, last_seq db (ob_stream_id row) + 1) (mset (open_positions db))"
      using True seq db' keep
      by (simp add: open_positions_def outbox_positions_def dead_positions_def row_position_def)
    from node_invD(1) [OF inv] this show ?thesis
      by (rule stream_inv_add) (use True db' leased in auto)
  next
    case False
    have "mset (open_positions db') = mset (open_positions db)"
      using False db' keep by (simp add: open_positions_def outbox_positions_def dead_positions_def)
    from node_invD(1) [OF inv] this show ?thesis
    proof (rule stream_inv_same)
      show "ob_stream_seq r = m (ob_stream_id r) + 1"
        if "r \<in> set (nd_outbox db')" "ob_lease_token r \<noteq> None" "sequenced r" for r
        using leased [OF that(1,2)] that node_invD(1) [OF inv] by (auto simp: stream_inv_def)
    qed (simp add: db'(6) False)
  qed
  then have "node_inv digest m db'"
    by (intro node_inv_insert [OF inv, where row = ?row and Q = Q]) (use client db' row seq in auto)
  moreover have "extends db db'"
    using db' by (auto simp: evolves_def extends_def intro: touched_refl)
  ultimately show ?thesis
    by simp
qed

lemma enqueue_inv:
  assumes inv: "node_inv digest m db" and entry: "outbox_enqueue_try_new entry = Ok entry"
      "valid_classification (oi_classification entry)"
    and room: "\<And>s. last_seq db s < i64_max"
    and enqueued: "enqueue_outbox digest uuid entry db = Ok db'"
  shows "node_inv digest m db' \<and> extends db db'"
proof -
  obtain client db1 where ensure: "ensure_outbox_client_id_in_tx uuid db = (client, db1)"
    by fastforce
  note db1 = ensure_client_inv [OF inv ensure]
  let ?sequenced = "oc_sequence_policy (oi_classification entry) = PerSubject"
  let ?stream = "if ?sequenced then outbox_stream_id digest (oi_subject_key entry) else 0"
  obtain seq db2 where db2: "(if ?sequenced then allocate_next_outbox_stream_seq ?stream db1 else (0, db1)) = (seq, db2)"
    by fastforce
  have last: "last_seq db1 s = last_seq db s" for s
    using db1(7) by (simp add: last_seq_def)
  obtain row where inserted: "outbox_insert_row row db2 = Ok db'"
    and row: "ob_client_id row = client" "ob_idempotency_key row = oi_idempotency_key entry"
      "ob_enqueued_ms row = oi_enqueued_ms entry" "ob_subject_key row = oi_subject_key entry"
      "ob_stream_id row = ?stream"
      "ob_stream_seq row = seq" "ob_attempt row = 0" "ob_next_due_ms row = oi_next_due_ms entry"
      "ob_leased_until_ms row = 0" "ob_lease_token row = None"
      "ob_supersedable_pod_status row = (oc_supersedability (oi_classification entry) = SupersededPodStatus)"
      "ob_is_terminal_pod_delete row = (oc_terminal_delete (oi_classification entry) = ActorOwnedPodDelete)"
    using enqueued unfolding enqueue_outbox_def persisted_values_def persisted_flags Let_def ensure
    by (simp only: prod.case persisted_flags db2) (force simp: persisted_flags)
  have "0 < seq \<longleftrightarrow> ?sequenced" "\<not> ?sequenced \<Longrightarrow> seq = 0"
    using db2 allocate_seq(1) [of _ db1 seq db2] seq_nonneg [OF db1(1)] room last
    by (auto split: if_splits) (metis add_strict_increasing zero_less_one add.commute)
  then have sequenced: "sequenced row = ?sequenced"
    using row stream_id_positive by (auto simp: sequenced_def)
  have "well_typed (row\<lparr>ob_id := nd_last_outbox_id db1 + 1\<rparr>)"
    using entry insert_row_cases [OF inserted] row db1(3) node_invD(2) [OF db1(1)] sequenced \<open>\<not> ?sequenced \<Longrightarrow> seq = 0\<close>
    by (auto simp: well_typed_iff outbox_enqueue_try_new_def valid_classification_iff id_inv_def)
  then have "row_inv digest (node_client db1) (row\<lparr>ob_id := nd_last_outbox_id db1 + 1\<rparr>)"
    using row db1(2) sequenced by (simp add: row_inv_def)
  note row_inv = this
  have "nd_dead_letter db' = nd_dead_letter db1"
    using insert_row_cases(1) [OF inserted] db2
    by (auto simp: allocate_next_outbox_stream_seq_def Let_def split: if_splits)
  then have db': "db' = db'\<lparr>nd_dead_letter := filter (\<lambda>_. True) (nd_dead_letter db1)\<rparr>"
    by simp
  have "node_inv digest m db' \<and> extends db1 db'"
    by (rule insert_fresh_inv [OF db1(1) _ inserted _ _ db' _ row_inv])
      (use sequenced db2 row db1(2) room last in \<open>auto split: if_splits\<close>)
  then show ?thesis
    using db1 last by (auto simp: evolves_def extends_def)
qed


lemma mset_split_dead:
  assumes "distinct (map dl_id ds)" and "d \<in> set ds"
  shows "mset ds = add_mset d (mset (filter (\<lambda>x. dl_id x \<noteq> dl_id d) ds))"
  using assms
proof (induction ds)
  case (Cons x ds)
  then show ?case
  proof (cases "x = d")
    case True
    then have "filter (\<lambda>y. dl_id y \<noteq> dl_id d) ds = ds"
      using Cons.prems(1) by (intro filter_True) (auto simp: image_iff dest!: bspec)
    then show ?thesis
      using True by simp
  qed (auto simp: image_iff)
qed simp

lemma replay_row:
  assumes replayed: "replay_dead_letter_in_tx digest uuid now d classification db = Ok db'"
    and client: "dl_client_id d \<noteq> []"
  obtains row db2 db3 where "outbox_insert_row row db2 = Ok db3"
    and "db' = db3\<lparr>nd_dead_letter := filter (\<lambda>x. dl_id x \<noteq> dl_id d) (nd_dead_letter db3)\<rparr>"
    and "(ob_stream_seq row, db2) = (if dl_stream_seq d > 0 then (dl_stream_seq d, db)
      else if oc_sequence_policy classification = PerSubject then allocate_next_outbox_stream_seq (ob_stream_id row) db
      else (0, db))"
    and "ob_stream_id row = (if dl_stream_id d > 0 then dl_stream_id d
      else if oc_sequence_policy classification = PerSubject then outbox_stream_id digest (dl_subject_key d) else 0)"
    and "ob_client_id row = dl_client_id d" "ob_idempotency_key row = dl_idempotency_key d"
      "ob_enqueued_ms row = dl_enqueued_ms d" "ob_subject_key row = dl_subject_key d" "ob_attempt row = 0"
      "ob_next_due_ms row = now" "ob_leased_until_ms row = 0" "ob_lease_token row = None"
      "ob_supersedable_pod_status row = (oc_supersedability classification = SupersededPodStatus)"
      "ob_is_terminal_pod_delete row = (oc_terminal_delete classification = ActorOwnedPodDelete)"
proof -
  let ?sequenced = "oc_sequence_policy classification = PerSubject"
  let ?stream = "if dl_stream_id d > 0 then dl_stream_id d
      else if ?sequenced then outbox_stream_id digest (dl_subject_key d) else 0"
  obtain seq db2 where db2: "(if dl_stream_seq d > 0 then (dl_stream_seq d, db)
      else if ?sequenced then allocate_next_outbox_stream_seq ?stream db else (0, db)) = (seq, db2)"
    by fastforce
  show thesis
    using replayed client unfolding replay_dead_letter_in_tx_def persisted_values_def Let_def
    by (simp only: prod.case persisted_flags db2 if_False result_bind_Ok_iff)
      (elim exE conjE, rule that, assumption, unfold node_outbox_row.select_convs db2, simp_all)
qed

lemma replay_inv:
  assumes inv: "node_inv digest m db" and valid: "valid_classification classification"
      "oc_terminal_delete classification = NotTerminalDelete" "0 \<le> now"
    and room: "\<And>s. last_seq db s < i64_max"
    and replayed: "replay_dead_letter digest uuid now row_id classification db = Ok (answer, db')"
  shows "node_inv digest m db' \<and> extends db db'"
proof (cases "get_dead_letter row_id db")
  case None
  then show ?thesis
    using replayed inv by (simp add: replay_dead_letter_def)
next
  case (Some d)
  then have d: "d \<in> set (nd_dead_letter db)"
    by (auto simp: get_dead_letter_def find_Some_iff)
  have in_tx: "replay_dead_letter_in_tx digest uuid now d classification db = Ok db'"
    using replayed Some by (simp add: replay_dead_letter_def)
  note dead = node_invD(5) [OF inv d]
  then have "dl_client_id d \<noteq> []"
    by (simp add: dead_inv_def)
  from in_tx this obtain row db2 db3 where inserted: "outbox_insert_row row db2 = Ok db3"
    and db': "db' = db3\<lparr>nd_dead_letter := filter (\<lambda>x. dl_id x \<noteq> dl_id d) (nd_dead_letter db3)\<rparr>"
    and seq: "(ob_stream_seq row, db2) = (if dl_stream_seq d > 0 then (dl_stream_seq d, db)
      else if oc_sequence_policy classification = PerSubject then allocate_next_outbox_stream_seq (ob_stream_id row) db
      else (0, db))"
    and stream: "ob_stream_id row = (if dl_stream_id d > 0 then dl_stream_id d
      else if oc_sequence_policy classification = PerSubject then outbox_stream_id digest (dl_subject_key d) else 0)"
    and row: "ob_client_id row = dl_client_id d" "ob_idempotency_key row = dl_idempotency_key d"
      "ob_enqueued_ms row = dl_enqueued_ms d" "ob_subject_key row = dl_subject_key d" "ob_attempt row = 0"
      "ob_next_due_ms row = now" "ob_leased_until_ms row = 0" "ob_lease_token row = None"
      "ob_supersedable_pod_status row = (oc_supersedability classification = SupersededPodStatus)"
      "ob_is_terminal_pod_delete row = (oc_terminal_delete classification = ActorOwnedPodDelete)"
    by (rule replay_row)
  have client: "node_client db = Some (ob_client_id row)"
    using dead row by (simp add: dead_inv_def)
  have sequenced: "sequenced row = (dead_sequenced d \<or> oc_sequence_policy classification = PerSubject)"
    and unassigned: "\<not> sequenced row \<Longrightarrow> ob_stream_id row = 0 \<and> ob_stream_seq row = 0"
    and stream_id: "sequenced row \<Longrightarrow> ob_stream_id row = outbox_stream_id digest (ob_subject_key row)"
    using dead seq stream row(4) stream_id_positive [of digest "dl_subject_key d"]
      allocate_seq(1) [of "ob_stream_id row" db "ob_stream_seq row" db2] seq_nonneg [OF inv, of "ob_stream_id row"] room
    by (auto simp: sequenced_def dead_sequenced_def dead_inv_def split: if_splits)
  have "well_typed (row\<lparr>ob_id := nd_last_outbox_id db + 1\<rparr>)"
    using valid dead insert_row_cases(2-4) [OF inserted] row node_invD(2) [OF inv] sequenced unassigned
    by (auto simp: well_typed_iff valid_classification_iff id_inv_def dead_inv_def)
  then have row_inv: "row_inv digest (node_client db) (row\<lparr>ob_id := nd_last_outbox_id db + 1\<rparr>)"
    using client stream_id by (simp add: row_inv_def)
  have dead3: "nd_dead_letter db3 = nd_dead_letter db"
    using insert_row_cases(1) [OF inserted] seq
    by (auto simp: allocate_next_outbox_stream_seq_def Let_def split: if_splits)
  show ?thesis
  proof (cases "dead_sequenced d")
    case False
    then have "dl_stream_id d = 0" "dl_stream_seq d = 0"
      using dead by (auto simp: dead_inv_def)
    then have "if sequenced row then allocate_next_outbox_stream_seq (ob_stream_id row) db = (ob_stream_seq row, db2)
        else db2 = db"
      using seq sequenced False by (auto split: if_splits)
    moreover have "d' = d" if "d' \<in> set (nd_dead_letter db)" "dl_id d' = dl_id d" for d'
      using that d node_invD(2) [OF inv] by (auto simp: id_inv_def distinct_map dest: inj_onD)
    ultimately show ?thesis
      using db' dead3 client False room row(8)
      by (intro insert_fresh_inv [OF inv _ inserted _ _ _ _ row_inv, where Q = "\<lambda>x. dl_id x \<noteq> dl_id d"]) auto
  next
    case True
    then have position: "ob_stream_id row = dl_stream_id d" "ob_stream_seq row = dl_stream_seq d" and db2: "db2 = db"
      using seq stream by (auto simp: dead_sequenced_def)
    have fields: "nd_outbox db' = nd_outbox db @ [row\<lparr>ob_id := nd_last_outbox_id db + 1\<rparr>]"
        "nd_last_outbox_id db' = nd_last_outbox_id db + 1" "nd_stream_sequences db' = nd_stream_sequences db"
        "nd_dead_letter db' = filter (\<lambda>x. dl_id x \<noteq> dl_id d) (nd_dead_letter db)"
        "nd_last_dead_letter_id db' = nd_last_dead_letter_id db" "node_client db' = node_client db"
      unfolding db' dead3 insert_row_cases(1) [OF inserted] db2 by simp_all
    have ids: "distinct (map dl_id (nd_dead_letter db))"
      using node_invD(2) [OF inv] by (simp add: id_inv_def)
    have "mset (open_positions db') = mset (open_positions db)"
      unfolding mset_open_positions mset_split_dead [OF ids d] fields
      using True sequenced position by (simp add: row_position_def dead_position_def)
    then have "stream_inv m db'"
      by (rule stream_inv_frame [OF node_invD(1) [OF inv]]) (use fields row(8) in auto)
    then have "node_inv digest m db'"
      by (rule node_inv_insert [OF inv, rotated 7, where row = "row\<lparr>ob_id := nd_last_outbox_id db + 1\<rparr>"])
        (use client fields row_inv row(10) valid(2) in auto)
    moreover have "extends db db'"
      using fields by (auto simp: evolves_def extends_def last_seq_def intro: touched_refl)
    ultimately show ?thesis
      by simp
  qed
qed

lemma delete_dead_letter_inv:
  assumes inv: "node_inv digest m db"
  shows "node_inv digest m (snd (delete_dead_letter row_id db)) \<and> evolves db (snd (delete_dead_letter row_id db))"
proof -
  let ?P = "\<lambda>d. dl_id d = row_id \<and> (dl_stream_id d = 0 \<or> dl_stream_seq d = 0)"
  let ?db = "db\<lparr>nd_dead_letter := filter (\<lambda>d. \<not> ?P d) (nd_dead_letter db)\<rparr>"
  have db': "snd (delete_dead_letter row_id db) = ?db"
    by (simp add: delete_dead_letter_def)
  have "filter dead_sequenced (filter (\<lambda>d. \<not> ?P d) (nd_dead_letter db)) = filter dead_sequenced (nd_dead_letter db)"
    by (auto simp: filter_filter dead_sequenced_def intro: filter_cong)
  then have "mset (open_positions ?db) = mset (open_positions db)"
    by (simp add: open_positions_def dead_positions_def)
  then have "stream_inv m ?db"
    by (rule stream_inv_frame [OF node_invD(1) [OF inv]]) auto
  moreover have "id_inv ?db"
    using node_invD(2) [OF inv] by (auto simp: id_inv_def intro: distinct_map_filter)
  ultimately have "node_inv digest m ?db"
    using inv by (simp add: node_inv_def order_inv_def last_seq_def)
  then show ?thesis
    unfolding db' by (auto intro: evolves_frame)
qed


section \<open>Claims\<close>

lemma claim_due_rows:
  assumes "row_id \<in> set (outbox_claim_due now limit db)"
  obtains r where "r \<in> set (nd_outbox db)" and "ob_id r = row_id" and "claimable now db r"
  using assms by (force simp: outbox_claim_due_def eligible_def Let_def dest: in_set_takeD)

lemma lease_all_rows:
  assumes "lease_all until token now ids db = (leased, db')"
  shows "\<exists>f. db' = db\<lparr>nd_outbox := map f (nd_outbox db)\<rparr>
    \<and> (\<forall>r. f r = r \<or> ob_id r \<in> set ids \<and> f r = r\<lparr>ob_leased_until_ms := until, ob_lease_token := Some token\<rparr>)
    \<and> set leased \<subseteq> set ids"
  using assms
proof (induction ids arbitrary: db leased)
  case Nil
  then show ?case
    by (auto intro: exI [of _ "\<lambda>r. r"])
next
  case (Cons i ids)
  let ?P = "\<lambda>r. ob_id r = i \<and> ob_next_due_ms r \<le> now \<and> ob_leased_until_ms r \<le> now"
  let ?lease = "\<lambda>r. r\<lparr>ob_leased_until_ms := until, ob_lease_token := Some token\<rparr>"
  let ?db1 = "db\<lparr>nd_outbox := map (\<lambda>r. if ?P r then ?lease r else r) (nd_outbox db)\<rparr>"
  obtain leased1 where rest: "lease_all until token now ids ?db1 = (leased1, db')"
    and leased: "set leased \<subseteq> insert i (set leased1)"
    using Cons.prems by (auto simp: outbox_set_lease_def outbox_update_def Let_def split: prod.splits if_splits)
  from Cons.IH [OF rest] obtain f where f: "db' = ?db1\<lparr>nd_outbox := map f (nd_outbox ?db1)\<rparr>"
      "\<forall>r. f r = r \<or> ob_id r \<in> set ids \<and> f r = ?lease r" "set leased1 \<subseteq> set ids"
    by blast
  have "(f \<circ> (\<lambda>r. if ?P r then ?lease r else r)) r = r
      \<or> ob_id r \<in> set (i # ids) \<and> (f \<circ> (\<lambda>r. if ?P r then ?lease r else r)) r = ?lease r" for r
    using f(2) [rule_format, of r] f(2) [rule_format, of "?lease r"] by auto
  then show ?case
    using f(1,3) leased
    by (intro exI [of _ "f \<circ> (\<lambda>r. if ?P r then ?lease r else r)"]) auto
qed

lemma claimed_next_position:
  assumes inv: "node_inv digest m db" and claimed: "set ids \<subseteq> set (outbox_claim_due now limit db)"
    and r: "r \<in> set (nd_outbox db)" "sequenced r" "ob_id r \<in> set ids"
  shows "ob_stream_seq r = m (ob_stream_id r) + 1"
proof -
  obtain r' where "r' \<in> set (nd_outbox db)" "ob_id r' = ob_id r" "claimable now db r'"
    using claimed r(3) claim_due_rows by blast
  then show ?thesis
    using same_id [OF inv r(1)] head_is_next [OF node_invD(1) [OF inv] r(1,2)] by (auto simp: claimable_def)
qed

text \<open>A claim leases rows at the head of their streams and hands out nothing else.\<close>

lemma lease_claimed_inv:
  assumes inv: "node_inv digest m db" and claimed: "set ids \<subseteq> set (outbox_claim_due now limit db)"
    and lease: "0 < until" "token \<noteq> []" and leased: "lease_all until token now ids db = (leased, db')"
  shows "node_inv digest m db' \<and> evolves db db'
    \<and> (\<forall>row_id \<in> set leased. \<forall>r. outbox_row_select row_id db' = Some r \<longrightarrow> sequenced r \<longrightarrow>
        ob_stream_seq r = m (ob_stream_id r) + 1)"
proof -
  let ?lease = "\<lambda>r. r\<lparr>ob_leased_until_ms := until, ob_lease_token := Some token\<rparr>"
  obtain f where db': "db' = db\<lparr>nd_outbox := map f (nd_outbox db)\<rparr>"
    and f: "\<And>r. f r = r \<or> ob_id r \<in> set ids \<and> f r = ?lease r" and ids: "set leased \<subseteq> set ids"
    using lease_all_rows [OF leased] by blast
  have touched: "touched r (f r)" for r
    using f [of r] by (elim disjE conjE) (simp_all add: touched_def)
  have "node_inv digest m db'"
    unfolding db'
  proof (rule node_inv_update [OF inv touched])
    fix r assume r: "r \<in> set (nd_outbox db)"
    show "well_typed (f r)" if "well_typed r"
      using f [of r]
    proof (elim disjE conjE)
      assume "f r = ?lease r"
      then show ?thesis
        using that lease unfolding well_typed_iff by simp
    qed (use that in simp)
    show "ob_stream_seq r = m (ob_stream_id r) + 1" if "sequenced r" "ob_lease_token (f r) \<noteq> None"
      using f [of r]
    proof (elim disjE conjE)
      assume "f r = r"
      then show ?thesis
        using that r node_invD(1) [OF inv] by (simp add: stream_inv_def)
    qed (use that in \<open>simp add: claimed_next_position [OF inv claimed r]\<close>)
  qed
  moreover have "evolves db db'"
    unfolding db' by (rule evolves_update) (rule touched)
  moreover have "ob_stream_seq r = m (ob_stream_id r) + 1"
    if "row_id \<in> set leased" "outbox_row_select row_id db' = Some r" "sequenced r" for row_id r
  proof -
    have "r \<in> set (nd_outbox db')" "ob_id r = row_id"
      using row_select_Some [OF that(2)] by auto
    then obtain r0 where "r0 \<in> set (nd_outbox db)" "r = f r0"
      unfolding db' by auto
    then show ?thesis
      using claimed_next_position [OF inv claimed, of r0] touched [of r0] touched_sequenced [OF touched [of r0]]
        that ids \<open>ob_id r = row_id\<close> by (auto simp: touched_def)
  qed
  ultimately show ?thesis
    by blast
qed

lemma lease_until_positive: "0 \<le> now \<Longrightarrow> 0 < saturating_add_i64 now (max lease_ms 1)"
  by (auto simp: saturating_add_i64_def i64_max_def)

lemma claim_batch_inv:
  assumes inv: "node_inv digest m db" and "0 \<le> now" and "token \<noteq> []"
    and claim: "claim_due_outbox_batch now limit lease_ms token db = (rows, db')"
  shows "node_inv digest m db' \<and> evolves db db'
    \<and> (\<forall>r \<in> set rows. r \<in> set (nd_outbox db') \<and> (sequenced r \<longrightarrow> ob_stream_seq r = m (ob_stream_id r) + 1))"
proof (cases "outbox_claim_due now (min limit 256) db = []")
  case True
  then show ?thesis
    using claim inv by (simp add: claim_due_outbox_batch_def Let_def evolves_frame)
next
  case False
  then obtain leased where leased: "lease_all (saturating_add_i64 now (max lease_ms 1)) token now
      (outbox_claim_due now (min limit 256) db) db = (leased, db')"
    and rows: "rows = List.map_filter (\<lambda>row_id. outbox_row_select row_id db') leased"
    using claim by (auto simp: claim_due_outbox_batch_def Let_def split: prod.splits)
  show ?thesis
    using lease_claimed_inv [OF inv order.refl lease_until_positive [OF assms(2)] assms(3) leased]
      row_select_Some [of _ db']
    unfolding rows by (auto simp: List.map_filter_def)
qed

lemma claim_next_inv:
  assumes inv: "node_inv digest m db" and "0 \<le> now" and "token \<noteq> []"
    and claim: "claim_next_due_outbox now lease_ms token db = (claimed, db')"
  shows "node_inv digest m db' \<and> evolves db db'
    \<and> (\<forall>r. claimed = Some r \<longrightarrow> r \<in> set (nd_outbox db') \<and> (sequenced r \<longrightarrow> ob_stream_seq r = m (ob_stream_id r) + 1))"
proof (cases "outbox_claim_due now 1 db")
  case Nil
  then show ?thesis
    using claim inv by (simp add: claim_next_due_outbox_def evolves_frame)
next
  case (Cons i rest)
  let ?until = "saturating_add_i64 now (max lease_ms 1)"
  have leased: "lease_all ?until token now [i] db = (if fst (outbox_set_lease i ?until token now db) > 0 then [i] else [], db')"
    and row: "claimed = outbox_row_select i db'"
    using claim Cons by (auto simp: claim_next_due_outbox_def Let_def split: prod.splits)
  obtain r0 where "r0 \<in> set (nd_outbox db)" "ob_id r0 = i" "claimable now db r0"
    using Cons claim_due_rows [of i now 1 db] by auto
  moreover have "ob_leased_until_ms r0 \<le> now"
    using \<open>claimable now db r0\<close> assms(2) by (auto simp: claimable_def)
  ultimately have "fst (outbox_set_lease i ?until token now db) > 0"
    by (auto simp: outbox_set_lease_def outbox_update_def claimable_def filter_empty_conv)
  then show ?thesis
    using lease_claimed_inv [OF inv _ lease_until_positive [OF assms(2)] assms(3) leased, of 1] Cons
      row_select_Some [of i db'] row by auto
qed

end
