(* ===== verification/Node_Delivery.thy ===== *)
theory Node_Delivery
  imports Node_Streams
begin

text \<open>
  Runs of a node that delivers its outbox to the leader: any interleaving of producers, dispatcher tasks,
  lease expiry, crashes and the administration of dead letters, together with the stream positions the
  leader has consumed. A replay of a dead letter is one step, so two administrators never replay the same
  letter at once, and it is of an entry that is not a terminal delete: what the replay of a terminal delete does to
  its stream is a property of its own.
\<close>


section \<open>Backoff\<close>

lemma backoff_window:
  assumes "adaptive_backoff_bounds attempt rtt = (lower, upper)"
  shows "250 \<le> lower" and "lower \<le> upper" and "upper \<le> 60000"
proof -
  define base where "base = clamp (2 * clamp rtt 200 3000) 500 3000"
  define growth :: int where "growth = 2 ^ nat (max (clamp attempt 0 6) 0)"
  have base: "500 \<le> base" "base \<le> 3000"
    by (auto simp: base_def clamp_def)
  have "nat (max (clamp attempt 0 6) 0) \<le> 6"
    by (auto simp: clamp_def)
  then have "growth \<le> 2 ^ 6"
    unfolding growth_def by (rule power_increasing) simp
  moreover have "1 \<le> growth"
    by (simp add: growth_def)
  ultimately have "500 \<le> base * growth" "base * growth \<le> 192000"
    using mult_mono [of 500 base 1 growth] mult_mono [of base 3000 growth 64] base by simp_all
  then have "500 \<le> saturating_mul_i64 base growth"
    using base by (simp add: saturating_mul_i64_def i64_min_def i64_max_def)
  then show "250 \<le> lower" and "lower \<le> upper" and "upper \<le> 60000"
    using assms base unfolding adaptive_backoff_bounds_def Let_def base_def [symmetric] growth_def [symmetric] by auto
qed

lemma backoff_in_window:
  assumes "adaptive_backoff_bounds attempt rtt = (lower, upper)"
  shows "lower \<le> adaptive_jittered_backoff_ms attempt key rtt" and "adaptive_jittered_backoff_ms attempt key rtt \<le> upper"
proof -
  note window = backoff_window [OF assms]
  have "saturating_add_i64 upper (- lower) = upper - lower"
    using window by (simp add: saturating_add_i64_def i64_min_def i64_max_def)
  moreover have "0 \<le> h mod (upper - lower + 1)" "h mod (upper - lower + 1) \<le> upper - lower" for h
    using window pos_mod_bound [of "upper - lower + 1" h] by simp_all
  then have "0 \<le> deterministic_jitter_ms key attempt (upper - lower)"
    and "deterministic_jitter_ms key attempt (upper - lower) \<le> upper - lower"
    using window by (simp_all add: deterministic_jitter_ms_def Let_def max_def)
  ultimately show "lower \<le> adaptive_jittered_backoff_ms attempt key rtt"
    and "adaptive_jittered_backoff_ms attempt key rtt \<le> upper"
    using window assms
    by (simp_all add: adaptive_jittered_backoff_ms_def saturating_add_i64_def i64_min_def i64_max_def)
qed

lemma retry_at_nonneg: "0 \<le> now \<Longrightarrow> 0 \<le> retry_at now rtt row"
proof -
  assume "0 \<le> now"
  obtain lower upper where window: "adaptive_backoff_bounds (dr_attempt row) rtt = (lower, upper)"
    by fastforce
  show ?thesis
    using backoff_window [OF window] backoff_in_window(1) [OF window, of "dr_idempotency_key row"] \<open>0 \<le> now\<close>
    by (simp add: retry_at_def saturating_add_i64_def i64_max_def)
qed


section \<open>Runs\<close>

text \<open>
  The state of a run: the database, the claimed rows whose request may be under way, the calls that tasks
  still have to make, the positions consumed by the leader per client and stream, and the positions that
  completions have settled, in order.
\<close>

record delivery_system =
  sy_db :: node_db
  sy_in_flight :: "dispatch_row list"
  sy_calls :: "store_call list list"
  sy_leader :: "string \<times> int \<Rightarrow> int option"
  sy_settled :: "(int \<times> int) list"

definition request_watermark :: "outbox_delivery_request \<Rightarrow> outbox_stream_watermark"
where
  "request_watermark rq =
    \<lparr>osw_client_id = rq_client_id rq, osw_stream_id = rq_stream_id rq, osw_stream_seq = rq_stream_sequence rq\<rparr>"

definition leader_decision ::
  "(string \<times> int \<Rightarrow> int option) \<Rightarrow> outbox_delivery_request
    \<Rightarrow> (outbox_watermark_decision, invalid_outbox_stream_sequence) rust_result"
where
  "leader_decision leader rq =
    decide_outbox_watermark (leader (rq_client_id rq, rq_stream_id rq)) (Some (request_watermark rq))"

definition leader_receives ::
  "outbox_delivery_request \<Rightarrow> (string \<times> int \<Rightarrow> int option) \<Rightarrow> string \<times> int \<Rightarrow> int option"
where
  "leader_receives rq leader =
    (if leader_decision leader rq = Ok ApplyEntry
     then leader((rq_client_id rq, rq_stream_id rq) \<mapsto> rq_stream_sequence rq) else leader)"

text \<open>An answer that ends the delivery, and what the leader has done before it gives one.\<close>

definition final_answer :: "(outbox_apply_outcome, outbox_delivery_error) rust_result \<Rightarrow> bool"
where
  "final_answer answer =
    (case answer of Ok _ \<Rightarrow> True | Err err \<Rightarrow> \<not> (delivery_is_retryable err \<or> \<not> delivery_is_terminal err))"

definition consumed :: "outbox_delivery_request \<Rightarrow> (string \<times> int \<Rightarrow> int option) \<Rightarrow> bool"
where
  "consumed rq leader \<longleftrightarrow>
    is_some_and (leader (rq_client_id rq, rq_stream_id rq)) (\<lambda>seq. rq_stream_sequence rq \<le> seq)"

definition claimed_rows :: "node_outbox_row list \<Rightarrow> dispatch_row list"
where
  "claimed_rows rows =
    (case collect_results (map outbox_record_of rows) of Ok records \<Rightarrow> map try_from_record records | Err _ \<Rightarrow> [])"

definition call_settles :: "store_call \<Rightarrow> node_db \<Rightarrow> (int \<times> int) list"
where
  "call_settles call db =
    (case call of CompleteRow row_id token \<Rightarrow> completed_positions row_id token db | _ \<Rightarrow> [])"

definition initial_system :: delivery_system
where
  "initial_system =
    \<lparr>sy_db = empty_node_db, sy_in_flight = [], sy_calls = [], sy_leader = \<lambda>_. None, sy_settled = []\<rparr>"

text \<open>The steps of a run. The number counts the entries put into the outbox.\<close>

inductive delivery_run ::
  "(string \<Rightarrow> 64 word) \<Rightarrow> (storage_command \<Rightarrow> (string, string) rust_result) \<Rightarrow> nat \<Rightarrow> delivery_system \<Rightarrow> bool"
  for digest encode
where
  start: "delivery_run digest encode 0 initial_system"
| enqueue: "delivery_run digest encode n S \<Longrightarrow> outbox_enqueue_try_new entry = Ok entry \<Longrightarrow>
    valid_classification (oi_classification entry) \<Longrightarrow> enqueue_outbox digest uuid entry (sy_db S) = Ok db' \<Longrightarrow>
    delivery_run digest encode (Suc n) (S\<lparr>sy_db := db'\<rparr>)"
| requeue: "delivery_run digest encode n S \<Longrightarrow>
    delivery_run digest encode n (S\<lparr>sy_db := snd (requeue_expired_outbox_leases now (sy_db S))\<rparr>)"
| claim_next: "delivery_run digest encode n S \<Longrightarrow> outbox_claim_request_try_new now lease_ms token = Ok request \<Longrightarrow>
    claim_next_due_outbox now lease_ms token (sy_db S) = (claimed, db') \<Longrightarrow>
    delivery_run digest encode n
      (S\<lparr>sy_db := db',
         sy_in_flight := claimed_rows (case claimed of Some r \<Rightarrow> [r] | None \<Rightarrow> []) @ sy_in_flight S\<rparr>)"
| claim_batch: "delivery_run digest encode n S \<Longrightarrow> outbox_claim_request_try_new now lease_ms token = Ok request \<Longrightarrow>
    claim_due_outbox_batch now limit lease_ms token (sy_db S) = (rows, db') \<Longrightarrow>
    delivery_run digest encode n (S\<lparr>sy_db := db', sy_in_flight := claimed_rows rows @ sy_in_flight S\<rparr>)"
| renew: "delivery_run digest encode n S \<Longrightarrow> 0 < until \<Longrightarrow>
    delivery_run digest encode n (S\<lparr>sy_db := snd (renew_outbox_lease row_id token until (sy_db S))\<rparr>)"
| deliver: "delivery_run digest encode n S \<Longrightarrow> row \<in> set (sy_in_flight S) \<Longrightarrow>
    plan_claimed_row encode rtt now row = Send rq records_checkpoint \<Longrightarrow>
    delivery_run digest encode n (S\<lparr>sy_leader := leader_receives rq (sy_leader S)\<rparr>)"
| answered: "delivery_run digest encode n S \<Longrightarrow> row \<in> set (sy_in_flight S) \<Longrightarrow> 0 \<le> now \<Longrightarrow>
    plan_claimed_row encode rtt now row = Send rq records_checkpoint \<Longrightarrow> dr_lease_token row = Some token \<Longrightarrow>
    (final_answer answer \<Longrightarrow> consumed rq (sy_leader S)) \<Longrightarrow>
    delivery_run digest encode n
      (S\<lparr>sy_in_flight := remove1 row (sy_in_flight S),
         sy_calls := settle_claimed_row rtt now row token records_checkpoint answer # sy_calls S\<rparr>)"
| resolved_at_once: "delivery_run digest encode n S \<Longrightarrow> row \<in> set (sy_in_flight S) \<Longrightarrow> 0 \<le> now \<Longrightarrow>
    plan_claimed_row encode rtt now row = Resolve calls \<Longrightarrow>
    delivery_run digest encode n
      (S\<lparr>sy_in_flight := remove1 row (sy_in_flight S), sy_calls := calls # sy_calls S\<rparr>)"
| call: "delivery_run digest encode n S \<Longrightarrow> sy_calls S = before @ (call # calls) # behind \<Longrightarrow>
    run_call now call (sy_db S) = (follow_up, db') \<Longrightarrow>
    delivery_run digest encode n
      (S\<lparr>sy_db := db', sy_calls := before @ (follow_up @ calls) # behind,
         sy_settled := sy_settled S @ call_settles call (sy_db S)\<rparr>)"
| move_dead_letter: "delivery_run digest encode n S \<Longrightarrow>
    move_outbox_to_dead_letter_if_max_attempts now key max_attempts (sy_db S) = Ok (answer, db') \<Longrightarrow>
    delivery_run digest encode n (S\<lparr>sy_db := db'\<rparr>)"
| delete_dead_letter: "delivery_run digest encode n S \<Longrightarrow>
    delivery_run digest encode n (S\<lparr>sy_db := snd (delete_dead_letter row_id (sy_db S))\<rparr>)"
| replay: "delivery_run digest encode n S \<Longrightarrow> valid_classification classification \<Longrightarrow>
    oc_terminal_delete classification = NotTerminalDelete \<Longrightarrow> 0 \<le> now \<Longrightarrow>
    replay_dead_letter digest uuid now row_id classification (sy_db S) = Ok (answer, db') \<Longrightarrow>
    delivery_run digest encode (Suc n) (S\<lparr>sy_db := db'\<rparr>)"
| crash: "delivery_run digest encode n S \<Longrightarrow>
    delivery_run digest encode n (S\<lparr>sy_in_flight := [], sy_calls := []\<rparr>)"


section \<open>Invariants of a run\<close>

definition leader_position :: "(string \<times> int \<Rightarrow> int option) \<Rightarrow> string option \<Rightarrow> int \<Rightarrow> int"
where
  "leader_position leader client s =
    (case client of Some c \<Rightarrow> unwrap_or (leader (c, s)) 0 | None \<Rightarrow> 0)"

definition in_flight_inv :: "(string \<Rightarrow> 64 word) \<Rightarrow> (int \<Rightarrow> int) \<Rightarrow> node_db \<Rightarrow> dispatch_row \<Rightarrow> bool"
where
  "in_flight_inv digest m db c \<longleftrightarrow>
    dr_id c \<le> nd_last_outbox_id db \<and> node_client db = Some (dr_client_id c) \<and> 0 \<le> dr_next_due_ms c
    \<and> (dr_stream_id c > 0 \<and> dr_stream_seq c > 0 \<or> dr_stream_id c = 0 \<and> dr_stream_seq c = 0)
    \<and> (dr_stream_seq c > 0 \<longrightarrow>
         dr_stream_seq c \<le> m (dr_stream_id c) + 1 \<and> dr_stream_seq c \<le> last_seq db (dr_stream_id c))
    \<and> (\<forall>r \<in> set (nd_outbox db). ob_id r = dr_id c \<longrightarrow> row_position r = (dr_stream_id c, dr_stream_seq c))
    \<and> (dr_is_terminal_pod_delete c \<longrightarrow>
         dr_stream_seq c > 0 \<and> dr_stream_id c = outbox_stream_id digest (dr_subject_key c)
         \<and> (\<forall>r \<in> set (nd_outbox db). sequenced r \<longrightarrow> ob_stream_id r = dr_stream_id c \<longrightarrow> ob_id r < dr_id c \<longrightarrow>
              ob_stream_seq r < dr_stream_seq c))"

fun call_inv :: "(string \<times> int \<Rightarrow> int option) \<Rightarrow> node_db \<Rightarrow> store_call \<Rightarrow> bool"
where
  "call_inv leader db (CompleteRow row_id token) \<longleftrightarrow>
    row_id \<le> nd_last_outbox_id db
    \<and> (\<forall>r \<in> set (nd_outbox db). ob_id r = row_id \<longrightarrow> sequenced r \<longrightarrow>
         ob_stream_seq r \<le> leader_position leader (node_client db) (ob_stream_id r))"
| "call_inv leader db (CompleteSuperseded subject_key row_id) \<longleftrightarrow>
    row_id \<le> nd_last_outbox_id db
    \<and> (\<forall>r \<in> set (nd_outbox db). ob_subject_key r = subject_key \<longrightarrow> ob_id r < row_id \<longrightarrow>
         \<not> ob_supersedable_pod_status r)"
| "call_inv leader db (MarkAttemptFailed _ _ backoff_until _) \<longleftrightarrow> 0 \<le> backoff_until"
| "call_inv leader db (RecordFailure _ _ backoff_until _ _ _) \<longleftrightarrow> 0 \<le> backoff_until"
| "call_inv leader db _ \<longleftrightarrow> True"

definition settled_count :: "delivery_system \<Rightarrow> int \<Rightarrow> int"
  where "settled_count S = settle_positions (\<lambda>_. 0) (sy_settled S)"

definition leader_inv :: "(int \<Rightarrow> int) \<Rightarrow> (string \<times> int \<Rightarrow> int option) \<Rightarrow> node_db \<Rightarrow> bool"
where
  "leader_inv m leader db \<longleftrightarrow>
    (\<forall>s. m s \<le> leader_position leader (node_client db) s \<and> leader_position leader (node_client db) s \<le> last_seq db s)
    \<and> (node_client db = None \<longrightarrow> leader = (\<lambda>_. None))"

definition settled_in_order :: "delivery_system \<Rightarrow> bool"
where
  "settled_in_order S \<longleftrightarrow>
    (\<forall>s. map snd (filter (\<lambda>p. fst p = s) (sy_settled S)) = [1..settled_count S s])"

definition system_inv :: "(string \<Rightarrow> 64 word) \<Rightarrow> delivery_system \<Rightarrow> bool"
where
  "system_inv digest S \<longleftrightarrow>
    node_inv digest (settled_count S) (sy_db S)
    \<and> (\<forall>c \<in> set (sy_in_flight S). in_flight_inv digest (settled_count S) (sy_db S) c)
    \<and> (\<forall>calls \<in> set (sy_calls S). \<forall>call \<in> set calls. call_inv (sy_leader S) (sy_db S) call)
    \<and> leader_inv (settled_count S) (sy_leader S) (sy_db S) \<and> settled_in_order S"

lemma leader_position_evolves:
  assumes "leader_inv m leader db" and "extends db db'"
  shows "leader_position leader (node_client db') s = leader_position leader (node_client db) s"
  using assms by (cases "node_client db") (auto simp: leader_inv_def extends_def leader_position_def split: option.split)

lemma in_flight_mono:
  assumes c: "in_flight_inv digest m db c" and db: "extends db db'" and m: "\<And>s. m s \<le> m' s"
  shows "in_flight_inv digest m' db' c"
proof -
  have old: "\<exists>r \<in> set (nd_outbox db). touched r r'"
    if "r' \<in> set (nd_outbox db')" "ob_id r' \<le> dr_id c" for r'
    using that c db by (force simp: in_flight_inv_def extends_def)
  have "row_position r' = (dr_stream_id c, dr_stream_seq c)"
    if "r' \<in> set (nd_outbox db')" "ob_id r' = dr_id c" for r'
    using old [OF that(1)] that c by (auto simp: in_flight_inv_def touched_def row_position_def)
  moreover have "ob_stream_seq r' < dr_stream_seq c"
    if "dr_is_terminal_pod_delete c" "r' \<in> set (nd_outbox db')" "sequenced r'" "ob_stream_id r' = dr_stream_id c"
      "ob_id r' < dr_id c" for r'
    using old [OF that(2)] that c by (auto simp: in_flight_inv_def touched_def sequenced_def)
  moreover have "last_seq db s \<le> last_seq db' s" "nd_last_outbox_id db \<le> nd_last_outbox_id db'" for s
    using db by (auto simp: extends_def)
  moreover have "node_client db' = Some (dr_client_id c)"
    using c db by (auto simp: in_flight_inv_def extends_def)
  ultimately show ?thesis
    using c m [of "dr_stream_id c"] unfolding in_flight_inv_def by (meson add_right_mono order_trans)
qed

lemma call_mono:
  assumes call: "call_inv leader db call" and db: "extends db db'"
    and leader: "\<And>s. leader_position leader (node_client db) s \<le> leader_position leader' (node_client db') s"
  shows "call_inv leader' db' call"
proof -
  have old: "\<exists>r \<in> set (nd_outbox db). touched r r'"
    if "r' \<in> set (nd_outbox db')" "ob_id r' \<le> row_id" "row_id \<le> nd_last_outbox_id db" for r' row_id
    using that db by (force simp: extends_def)
  have last: "nd_last_outbox_id db \<le> nd_last_outbox_id db'"
    using db by (simp add: extends_def)
  show ?thesis
  proof (cases call)
    case (CompleteRow row_id token)
    have "ob_stream_seq r' \<le> leader_position leader' (node_client db') (ob_stream_id r')"
      if row: "r' \<in> set (nd_outbox db')" "ob_id r' = row_id" "sequenced r'" for r'
    proof -
      obtain r where r: "r \<in> set (nd_outbox db)" "touched r r'"
        using old [of r' row_id] row call CompleteRow by auto
      then have "ob_id r = row_id" "sequenced r"
        using row(2,3) touched_sequenced [OF r(2)] by (simp_all add: touched_def)
      then have "ob_stream_seq r \<le> leader_position leader (node_client db) (ob_stream_id r)"
        using call CompleteRow r(1) by simp
      also have "\<dots> \<le> leader_position leader' (node_client db') (ob_stream_id r)"
        by (rule leader)
      finally show ?thesis
        using r(2) by (simp add: touched_def)
    qed
    then show ?thesis
      using CompleteRow call last by auto
  next
    case (CompleteSuperseded subject_key row_id)
    have "\<not> ob_supersedable_pod_status r'"
      if "r' \<in> set (nd_outbox db')" "ob_subject_key r' = subject_key" "ob_id r' < row_id" for r'
      using old [of r' row_id] that call CompleteSuperseded by (auto simp: touched_def)
    then show ?thesis
      using CompleteSuperseded call last by auto
  qed (use call in auto)
qed


lemma settled_count_grows: "settled_count S s \<le> settled_count (S\<lparr>sy_settled := sy_settled S @ ps\<rparr>) s"
  by (simp add: settled_count_def settle_positions_def)

text \<open>A change of the database that settles nothing.\<close>

lemma system_inv_db:
  assumes inv: "system_inv digest S"
    and db': "node_inv digest (settled_count S) db' \<and> extends (sy_db S) db'"
  shows "system_inv digest (S\<lparr>sy_db := db'\<rparr>)"
proof -
  have leader: "leader_inv (settled_count S) (sy_leader S) (sy_db S)"
    using inv by (simp add: system_inv_def)
  note position = leader_position_evolves [OF leader conjunct2 [OF db']]
  have "last_seq (sy_db S) s \<le> last_seq db' s" for s
    using db' by (simp add: extends_def)
  moreover have "node_client (sy_db S) = None" if "node_client db' = None"
    using db' that by (auto simp: extends_def)
  ultimately have "leader_inv (settled_count S) (sy_leader S) db'"
    using leader unfolding leader_inv_def position by (meson order_trans)
  moreover have "call_inv (sy_leader S) db' call" if "calls \<in> set (sy_calls S)" "call \<in> set calls" for calls call
  proof (rule call_mono [OF _ conjunct2 [OF db']])
    show "call_inv (sy_leader S) (sy_db S) call"
      using inv that by (simp add: system_inv_def)
  qed (simp only: position order.refl)
  moreover have "in_flight_inv digest (settled_count S) db' c" if "c \<in> set (sy_in_flight S)" for c
  proof (rule in_flight_mono [OF _ conjunct2 [OF db']])
    show "in_flight_inv digest (settled_count S) (sy_db S) c"
      using inv that by (simp add: system_inv_def)
  qed simp
  ultimately show ?thesis
    using inv db' by (simp add: system_inv_def settled_count_def settled_in_order_def)
qed

text \<open>Rows that a claim has handed out.\<close>

lemma record_of_row:
  assumes "outbox_record_of r = Ok record"
  shows "dr_id (try_from_record record) = ob_id r" "dr_client_id (try_from_record record) = ob_client_id r"
    "dr_subject_key (try_from_record record) = ob_subject_key r"
    "dr_is_terminal_pod_delete (try_from_record record) = ob_is_terminal_pod_delete r"
    "dr_stream_id (try_from_record record) = ob_stream_id r" "dr_stream_seq (try_from_record record) = ob_stream_seq r"
    "dr_next_due_ms (try_from_record record) = ob_next_due_ms r"
    "dr_lease_token (try_from_record record) = ob_lease_token r"
proof -
  obtain c x where c: "classification_for_row r = Ok c"
    and x: "outbox_sequence_try_new (ob_stream_id r) (ob_stream_seq r) = Ok x"
    and new: "outbox_record_try_new
        \<lparr>rc_id = ob_id r, rc_client_id = ob_client_id r,
         rc_idempotency_key = ob_idempotency_key r, rc_enqueued_ms = ob_enqueued_ms r,
         rc_subject = \<lparr>sj_subject_key = ob_subject_key r, sj_api_version = ob_subject_api_version r,
           sj_kind = ob_subject_kind r, sj_namespace = ob_subject_namespace r,
           sj_name = ob_subject_name r, sj_subject_uid = ob_subject_uid r,
           sj_pod_uid = ob_pod_uid r\<rparr>,
         rc_operation = ob_operation r, rc_classification = c, rc_sequence = x,
         rc_payload = ob_payload_proto r, rc_attempt = ob_attempt r,
         rc_next_due_ms = ob_next_due_ms r, rc_leased_until_ms = ob_leased_until_ms r,
         rc_lease_token = ob_lease_token r, rc_last_error = ob_last_error r\<rparr> = Ok record"
    using assms unfolding outbox_record_of_def result_bind_Ok_iff by blast
  have "(oc_terminal_delete c = ActorOwnedPodDelete) = ob_is_terminal_pod_delete r"
    using c unfolding classification_for_row_def try_from_persisted_def Let_def result_bind_Ok_iff
    by (cases "ob_is_terminal_pod_delete r") (auto simp: classification_try_new_Ok_iff terminal_delete_try_from_def)
  moreover have same: "r' = r0" if "outbox_record_try_new r0 = Ok r'" for r0 r'
    using that unfolding outbox_record_try_new_def result_bind_Ok_iff by blast
  note same [OF new]
  ultimately show "dr_id (try_from_record record) = ob_id r" "dr_client_id (try_from_record record) = ob_client_id r"
    "dr_subject_key (try_from_record record) = ob_subject_key r"
    "dr_is_terminal_pod_delete (try_from_record record) = ob_is_terminal_pod_delete r"
    "dr_stream_id (try_from_record record) = ob_stream_id r" "dr_stream_seq (try_from_record record) = ob_stream_seq r"
    "dr_next_due_ms (try_from_record record) = ob_next_due_ms r"
    "dr_lease_token (try_from_record record) = ob_lease_token r"
    using x by (simp_all add: try_from_record_def sequence_try_new_Ok_iff)
qed

lemma collect_results_Ok: "collect_results rs = Ok as \<longleftrightarrow> rs = map Ok as"
  by (induction rs arbitrary: as) auto

lemma claimed_row:
  assumes "c \<in> set (claimed_rows rows)"
  obtains r rc where "r \<in> set rows" and "outbox_record_of r = Ok rc" and "c = try_from_record rc"
proof -
  obtain records where "collect_results (map outbox_record_of rows) = Ok records" "c \<in> try_from_record ` set records"
    using assms by (cases "collect_results (map outbox_record_of rows)") (auto simp: claimed_rows_def)
  then show thesis
    using that unfolding collect_results_Ok by (metis (no_types, lifting) image_iff imageE list.set_map)
qed

lemma claimed_in_flight:
  assumes inv: "node_inv digest m db" and r: "r \<in> set (nd_outbox db)"
    and next_position: "sequenced r \<Longrightarrow> ob_stream_seq r = m (ob_stream_id r) + 1"
    and rc: "outbox_record_of r = Ok record"
  shows "in_flight_inv digest m db (try_from_record record)"
proof -
  have row: "well_typed r" "node_client db = Some (ob_client_id r)"
      "sequenced r \<Longrightarrow> ob_stream_id r = outbox_stream_id digest (ob_subject_key r)"
    using node_invD(4) [OF inv r] by (auto simp: row_inv_def)
  have "ob_stream_seq r \<le> last_seq db (ob_stream_id r)" if "sequenced r"
    by (rule stream_inv_range(2) [OF node_invD(1) [OF inv] r that])
  moreover have "row_position r' = (ob_stream_id r, ob_stream_seq r)"
    if "r' \<in> set (nd_outbox db)" "ob_id r' = ob_id r" for r'
    using same_id [OF inv r that] by (simp add: row_position_def)
  moreover have "ob_stream_seq r' < ob_stream_seq r"
    if "ob_is_terminal_pod_delete r" "r' \<in> set (nd_outbox db)" "sequenced r'" "ob_stream_id r' = ob_stream_id r"
      "ob_id r' < ob_id r" for r'
    using node_invD(3) [OF inv] r that row(1) by (auto simp: order_inv_def well_typed_iff)
  moreover have "ob_id r \<le> nd_last_outbox_id db"
    using node_invD(2) [OF inv] r by (simp add: id_inv_def)
  moreover have "0 \<le> ob_next_due_ms r" "ob_is_terminal_pod_delete r \<Longrightarrow> sequenced r"
      "0 < ob_stream_id r \<and> 0 < ob_stream_seq r \<or> ob_stream_id r = 0 \<and> ob_stream_seq r = 0"
      "sequenced r \<Longrightarrow> ob_stream_seq r \<le> m (ob_stream_id r) + 1" "0 < ob_stream_seq r \<Longrightarrow> sequenced r"
      "sequenced r \<Longrightarrow> 0 < ob_stream_seq r"
    using row(1) next_position unfolding well_typed_iff sequenced_def by auto
  ultimately show ?thesis
    using row(2,3) unfolding in_flight_inv_def record_of_row [OF rc] by blast
qed


lemma request_fields:
  assumes "delivery_request_try_new key operation payload client stream_id seq = Ok rq"
  shows "rq_client_id rq = client" "rq_stream_id rq = stream_id" "rq_stream_sequence rq = seq"
    "0 < stream_id" "0 < seq"
  using assms by (auto simp: delivery_request_try_new_def split: if_splits)

lemma request_or_sentinel_Send:
  assumes "request_or_sentinel encode row token operation payload flag = Send rq flag'"
  shows "rq_client_id rq = dr_client_id row \<and> rq_stream_id rq = dr_stream_id row
    \<and> rq_stream_sequence rq = dr_stream_seq row \<and> 0 < dr_stream_id row \<and> 0 < dr_stream_seq row"
  using assms
  by (auto simp: request_or_sentinel_def terminal_sentinel_request_def Let_def dest: request_fields
      split: sum.splits if_splits option.splits)

lemma plan_Send:
  assumes "plan_claimed_row encode rtt now row = Send rq flag"
  shows "rq_client_id rq = dr_client_id row" "rq_stream_id rq = dr_stream_id row"
    "rq_stream_sequence rq = dr_stream_seq row" "0 < dr_stream_id row" "0 < dr_stream_seq row"
proof -
  obtain token operation payload flag0
    where "request_or_sentinel encode row token operation payload flag0 = Send rq flag"
    using assms by (auto simp: plan_claimed_row_def Let_def split: option.splits sum.splits if_splits)
  then show "rq_client_id rq = dr_client_id row" "rq_stream_id rq = dr_stream_id row"
    "rq_stream_sequence rq = dr_stream_seq row" "0 < dr_stream_id row" "0 < dr_stream_seq row"
    using request_or_sentinel_Send by blast+
qed

text \<open>Calls made without an answer complete only rows outside the streams.\<close>

lemma plan_Resolve:
  assumes plan: "plan_claimed_row encode rtt now row = Resolve calls" and "0 \<le> now"
    and row: "in_flight_inv digest m db row" and call: "call \<in> set calls"
  shows "call_inv leader db call"
proof -
  have sentinel: "\<exists>error. calls = [RecordFailure (dr_id row) token (dr_next_due_ms row) error 1 None]"
    if "request_or_sentinel encode row token operation payload flag = Resolve calls" for token operation payload flag
    using that by (auto simp: request_or_sentinel_def Let_def split: sum.splits if_splits option.splits)
  consider (complete) token where "calls = [CompleteRow (dr_id row) token]"
      "\<not> (0 < dr_stream_id row \<and> 0 < dr_stream_seq row)"
    | (mark) token error where "calls = [MarkAttemptFailed (dr_id row) token (retry_at now rtt row) error]"
    | (failure) token error where "calls = [RecordFailure (dr_id row) token (dr_next_due_ms row) error 1 None]"
    using plan
    by (auto simp: plan_claimed_row_def Let_def dest!: sentinel split: option.splits sum.splits if_splits)
  then show ?thesis
  proof cases
    case complete
    have "row_position r = (dr_stream_id row, dr_stream_seq row)"
      if "r \<in> set (nd_outbox db)" "ob_id r = dr_id row" for r
      using row that by (simp add: in_flight_inv_def)
    then show ?thesis
      using complete call row by (auto simp: in_flight_inv_def sequenced_def row_position_def)
  next
    case mark
    then show ?thesis
      using call retry_at_nonneg [OF assms(2)] by simp
  next
    case failure
    then show ?thesis
      using call row by (simp add: in_flight_inv_def)
  qed
qed

text \<open>Calls that follow an answer complete only consumed positions and supersede nothing.\<close>

lemma settle_calls_inv:
  assumes inv: "node_inv digest m db" and row: "in_flight_inv digest m db row" and "0 \<le> now"
    and seq: "0 < dr_stream_seq row"
    and consumed: "final_answer answer \<Longrightarrow>
      dr_stream_seq row \<le> leader_position leader (node_client db) (dr_stream_id row)"
    and call: "call \<in> set (settle_claimed_row rtt now row token flag answer)"
  shows "call_inv leader db call"
proof -
  have complete: "call_inv leader db (CompleteRow (dr_id row) token)" if "final_answer answer"
  proof -
    have "ob_stream_seq r \<le> leader_position leader (node_client db) (ob_stream_id r)"
      if "r \<in> set (nd_outbox db)" "ob_id r = dr_id row" for r
      using row that consumed [OF \<open>final_answer answer\<close>] by (auto simp: in_flight_inv_def row_position_def)
    then show ?thesis
      using row by (simp add: in_flight_inv_def)
  qed
  have superseded: "call_inv leader db (CompleteSuperseded (dr_subject_key row) (dr_id row))"
    if terminal: "dr_is_terminal_pod_delete row"
  proof -
    have "\<not> ob_supersedable_pod_status r"
      if r: "r \<in> set (nd_outbox db)" "ob_subject_key r = dr_subject_key row" "ob_id r < dr_id row" for r
    proof
      assume "ob_supersedable_pod_status r"
      then have "sequenced r" "ob_stream_id r = dr_stream_id row"
        using node_invD(4) [OF inv r(1)] row terminal r(2)
        by (auto simp: row_inv_def well_typed_iff in_flight_inv_def)
      then have "ob_stream_seq r < dr_stream_seq row" "m (dr_stream_id row) < ob_stream_seq r"
        using row terminal r stream_inv_range(1) [OF node_invD(1) [OF inv] r(1)] by (auto simp: in_flight_inv_def)
      then show False
        using row seq by (auto simp: in_flight_inv_def)
    qed
    then show ?thesis
      using row by (simp add: in_flight_inv_def)
  qed
  show ?thesis
  proof (cases answer)
    case (Inr result)
    then have "final_answer answer"
      by (simp add: final_answer_def)
    then show ?thesis
      using call Inr complete superseded
      by (auto simp: settle_claimed_row_def mark_checkpoint_applied_result_def split: option.splits if_splits)
  next
    case (Inl err)
    show ?thesis
    proof (cases "delivery_is_retryable err \<or> \<not> delivery_is_terminal err")
      case True
      then show ?thesis
        using call Inl retry_at_nonneg [OF assms(3), of rtt row]
        by (auto simp: settle_claimed_row_def split: outbox_delivery_error.splits)
    next
      case False
      then have "final_answer answer"
        using Inl by (simp add: final_answer_def)
      then show ?thesis
        using call Inl False complete assms(3) by (auto simp: settle_claimed_row_def Let_def split: if_splits)
    qed
  qed
qed


text \<open>The leader never meets a gap.\<close>

lemma leader_accepts:
  assumes leader: "leader_inv m leader db" and row: "in_flight_inv digest m db row"
    and rq: "rq_client_id rq = dr_client_id row" "rq_stream_id rq = dr_stream_id row"
      "rq_stream_sequence rq = dr_stream_seq row" "0 < dr_stream_seq row"
    and bound: "last_seq db (dr_stream_id row) \<le> i64_max"
  shows "leader_decision leader rq \<in> {Ok ApplyEntry, Ok DuplicateEntry}"
    and "leader_inv m (leader_receives rq leader) db"
    and "leader_position leader (node_client db) s \<le> leader_position (leader_receives rq leader) (node_client db) s"
proof -
  let ?s = "dr_stream_id row" and ?q = "dr_stream_seq row"
  let ?lp = "leader_position leader (node_client db)"
  have client: "node_client db = Some (dr_client_id row)"
    and low: "?q \<le> m ?s + 1" and high: "?q \<le> last_seq db ?s"
    using row rq(4) by (auto simp: in_flight_inv_def)
  have lp: "?lp ?s = unwrap_or (leader (dr_client_id row, ?s)) 0"
    using client by (simp add: leader_position_def)
  have "m ?s \<le> ?lp ?s"
    using leader by (simp add: leader_inv_def)
  then have next_or_old: "?q \<le> ?lp ?s + 1"
    using low by simp
  show decision: "leader_decision leader rq \<in> {Ok ApplyEntry, Ok DuplicateEntry}"
  proof (cases "leader (dr_client_id row, ?s)")
    case None
    then show ?thesis
      using next_or_old lp rq by (simp add: leader_decision_def decide_outbox_watermark_def request_watermark_def)
  next
    case (Some q)
    then have "saturating_add_i64 q 1 = q + 1" if "q < ?q"
      using that next_or_old lp rq(4) high bound by (intro saturating_succ_gt) (auto simp: i64_min_def)
    then show ?thesis
      using Some next_or_old lp rq by (auto simp: leader_decision_def decide_outbox_watermark_def request_watermark_def)
  qed
  have ahead: "?lp ?s < ?q" if "leader_decision leader rq = Ok ApplyEntry"
  proof (cases "leader (dr_client_id row, ?s)")
    case None
    then show ?thesis
      using lp rq(4) by simp
  next
    case (Some q)
    then show ?thesis
      using that lp rq by (auto simp: leader_decision_def decide_outbox_watermark_def request_watermark_def split: if_splits)
  qed
  have position: "leader_position (leader_receives rq leader) (node_client db) t =
      (if leader_decision leader rq = Ok ApplyEntry \<and> t = ?s then ?q else ?lp t)" for t
    using client rq by (simp add: leader_position_def leader_receives_def)
  show "?lp s \<le> leader_position (leader_receives rq leader) (node_client db) s"
    using ahead unfolding position by auto
  show "leader_inv m (leader_receives rq leader) db"
  proof -
    have "m t \<le> ?lp t" "?lp t \<le> last_seq db t" for t
      using leader by (simp_all add: leader_inv_def)
    moreover have "m ?s \<le> ?q" if "leader_decision leader rq = Ok ApplyEntry"
      using ahead [OF that] \<open>m ?s \<le> ?lp ?s\<close> by linarith
    ultimately show ?thesis
      using high client unfolding leader_inv_def position by auto
  qed
qed

lemma system_inv_tasks:
  assumes "system_inv digest S"
    and "\<And>c. c \<in> set rows \<Longrightarrow> in_flight_inv digest (settled_count S) (sy_db S) c"
    and "\<And>calls call. calls \<in> set css \<Longrightarrow> call \<in> set calls \<Longrightarrow> call_inv (sy_leader S) (sy_db S) call"
  shows "system_inv digest (S\<lparr>sy_in_flight := rows, sy_calls := css\<rparr>)"
  using assms by (auto simp: system_inv_def settled_count_def settled_in_order_def)

lemma system_invD:
  assumes "system_inv digest S"
  shows "node_inv digest (settled_count S) (sy_db S)"
    and "c \<in> set (sy_in_flight S) \<Longrightarrow> in_flight_inv digest (settled_count S) (sy_db S) c"
    and "calls \<in> set (sy_calls S) \<Longrightarrow> call \<in> set calls \<Longrightarrow> call_inv (sy_leader S) (sy_db S) call"
    and "leader_inv (settled_count S) (sy_leader S) (sy_db S)" and "settled_in_order S"
  using assms by (auto simp: system_inv_def)

lemma run_call_inv:
  assumes inv: "node_inv digest m db" and call: "call_inv leader db call" "\<And>i t. call \<noteq> CompleteRow i t"
    and run: "run_call now call db = (follow_up, db')"
  shows "node_inv digest m db' \<and> evolves db db' \<and> (\<forall>c \<in> set follow_up. call_inv leader' db'' c)"
proof (cases call)
  case (MarkCheckpointApplied u rv t)
  then show ?thesis
    using run node_inv_frame [OF inv, of db'] evolves_frame [of db' db]
    by (auto simp: run_call_def mark_pod_status_checkpoint_applied_def)
next
  case (CompleteSuperseded key row_id)
  have "filter (\<lambda>r. \<not> (ob_subject_key r = key \<and> ob_id r < row_id \<and> \<not> ob_is_terminal_pod_delete r
      \<and> ob_supersedable_pod_status r)) (nd_outbox db) = nd_outbox db"
    using call(1) CompleteSuperseded by (auto simp: filter_id_conv)
  then have "db' = db" "follow_up = []"
    using run CompleteSuperseded
    by (simp_all add: run_call_def complete_superseded_status_outbox_for_terminal_pod_delete_def outbox_delete_def)
  then show ?thesis
    using inv by (simp add: evolves_frame)
next
  case (DeleteCheckpoint u)
  then show ?thesis
    using run node_inv_frame [OF inv, of db'] evolves_frame [of db' db]
    by (auto simp: run_call_def delete_pod_status_checkpoint_def)
next
  case (MarkAttemptFailed i t b e)
  then show ?thesis
    using run call(1) mark_failed_inv [OF inv, of b i t e]
    by (auto simp: run_call_def mark_outbox_attempt_failed_def split: prod.splits)
next
  case (RecordFailure i t b e a u)
  show ?thesis
  proof (cases "record_outbox_failure now i t b e a db")
    case (Inl err)
    then show ?thesis
      using run inv RecordFailure by (simp add: run_call_def evolves_frame)
  next
    case (Inr result)
    then obtain disposition where "record_outbox_failure now i t b e a db = Ok (disposition, db')"
      and "\<forall>c \<in> set follow_up. call_inv leader' db'' c"
      using run RecordFailure by (auto simp: run_call_def split: prod.splits option.splits if_splits)
    then show ?thesis
      using record_failure_inv [OF inv] call(1) RecordFailure by auto
  qed
qed (use call(2) in simp)


lemma run_call_evolves:
  assumes inv: "node_inv digest m db" and call: "call_inv leader db call"
    and run: "run_call now call db = (follow_up, db')"
  shows "evolves db db'"
proof (cases "\<exists>i t. call = CompleteRow i t")
  case True
  then show ?thesis
    using run complete_inv(2) [OF inv] by (auto simp: run_call_def)
next
  case False
  then show ?thesis
    using run_call_inv [OF inv call _ run] by blast
qed

lemma settled_append:
  "settled_count (S\<lparr>sy_settled := sy_settled S @ ps\<rparr>) = settle_positions (settled_count S) ps"
  by (simp add: settled_count_def settle_positions_def fun_eq_iff)

lemma complete_call_inv:
  assumes inv: "system_inv digest S" and call: "call_inv (sy_leader S) (sy_db S) (CompleteRow row_id token)"
  defines "S' \<equiv> S\<lparr>sy_db := snd (complete_outbox row_id token (sy_db S)),
      sy_settled := sy_settled S @ completed_positions row_id token (sy_db S)\<rparr>"
  shows "system_inv digest S'"
proof -
  let ?m = "settled_count S" and ?ps = "completed_positions row_id token (sy_db S)"
  let ?db' = "snd (complete_outbox row_id token (sy_db S))"
  note node = system_invD(1) [OF inv]
  note complete = complete_inv [OF node, where row_id = row_id and token = token]
  have count: "settled_count S' = settle_positions ?m ?ps"
    using settled_append [of S ?ps] by (simp add: S'_def settled_count_def)
  have grows: "?m s \<le> settle_positions ?m ?ps s" for s
    by (simp add: settle_positions_def)
  note position = leader_position_evolves [OF system_invD(4) [OF inv] evolves_extends [OF complete(2)]]
  have same: "last_seq ?db' s = last_seq (sy_db S) s" "node_client ?db' = node_client (sy_db S)" for s
    by (simp_all add: complete_outbox_def outbox_delete_def last_seq_def)
  consider (none) "?ps = []" | (one) s where "?ps = [(s, ?m s + 1)]"
  proof (cases ?ps)
    case (Cons p qs)
    then have "snd p = ?m (fst p) + 1" "qs = []"
      using complete(3) [of p] complete(4) by auto
    then show thesis
      using Cons one [of "fst p"] by (cases p) auto
  qed
  then have "leader_inv (settle_positions ?m ?ps) (sy_leader S) ?db'
    \<and> settled_in_order (S\<lparr>sy_settled := sy_settled S @ ?ps\<rparr>)"
  proof cases
    case none
    then show ?thesis
      using system_invD(4,5) [OF inv] by (simp add: leader_inv_def position same settled_in_order_def settled_append)
  next
    case one
    then have "(s, ?m s + 1) \<in> set ?ps"
      by simp
    then obtain r where r: "r \<in> set (nd_outbox (sy_db S))" "sequenced r" "ob_id r = row_id" "row_position r = (s, ?m s + 1)"
      unfolding completed_positions_def outbox_positions_def by force
    then have reached: "?m s + 1 \<le> leader_position (sy_leader S) (node_client (sy_db S)) s"
      using call by (auto simp: row_position_def)
    have settle: "settle_positions ?m [(s, ?m s + 1)] t = (if t = s then ?m s + 1 else ?m t)" for t
      by (simp add: settle_positions_def)
    have "0 \<le> ?m s"
      by (simp add: settled_count_def settle_positions_def)
    then have "[1..?m s + 1] = [1..?m s] @ [?m s + 1]"
      by (simp add: upto_rec2)
    then have "settled_in_order (S\<lparr>sy_settled := sy_settled S @ ?ps\<rparr>)"
      using system_invD(5) [OF inv] one by (simp add: settled_in_order_def settled_append settle)
    moreover have "leader_inv (settle_positions ?m ?ps) (sy_leader S) ?db'"
      using reached system_invD(4) [OF inv] one by (simp add: leader_inv_def position same settle)
    ultimately show ?thesis
      by simp
  qed
  moreover have "in_flight_inv digest (settle_positions ?m ?ps) ?db' c" if "c \<in> set (sy_in_flight S)" for c
    by (rule in_flight_mono [OF system_invD(2) [OF inv that] evolves_extends [OF complete(2)] grows])
  moreover have "call_inv (sy_leader S) ?db' c" if "calls \<in> set (sy_calls S)" "c \<in> set calls" for calls c
    by (rule call_mono [OF system_invD(3) [OF inv that] evolves_extends [OF complete(2)]]) (simp only: position order.refl)
  ultimately show ?thesis
    using complete(1) count by (auto simp: system_inv_def S'_def settled_in_order_def settled_count_def)
qed

lemma call_step_inv:
  assumes inv: "system_inv digest S" and tasks: "sy_calls S = before @ (call # calls) # behind"
    and run: "run_call now call (sy_db S) = (follow_up, db')"
  shows "system_inv digest (S\<lparr>sy_db := db', sy_calls := before @ (follow_up @ calls) # behind,
    sy_settled := sy_settled S @ call_settles call (sy_db S)\<rparr>)"
proof -
  let ?S = "S\<lparr>sy_db := db', sy_settled := sy_settled S @ call_settles call (sy_db S)\<rparr>"
  have call: "call_inv (sy_leader S) (sy_db S) call"
    using system_invD(3) [OF inv, of "call # calls"] tasks by simp
  have "system_inv digest ?S \<and> (\<forall>c \<in> set follow_up. call_inv (sy_leader S) db' c)"
  proof (cases "\<exists>i t. call = CompleteRow i t")
    case True
    then show ?thesis
      using complete_call_inv [OF inv] call run by (auto simp: run_call_def call_settles_def)
  next
    case False
    then have "call_settles call (sy_db S) = []"
      by (simp add: call_settles_def split: store_call.split)
    then show ?thesis
      using run_call_inv [OF system_invD(1) [OF inv] call _ run, of "sy_leader S" db'] False
        system_inv_db [OF inv, of db'] by (auto dest: evolves_extends)
  qed
  then have inv': "system_inv digest ?S" and follow_up: "\<And>c. c \<in> set follow_up \<Longrightarrow> call_inv (sy_leader S) db' c"
    by simp_all
  have "system_inv digest (?S\<lparr>sy_in_flight := sy_in_flight S, sy_calls := before @ (follow_up @ calls) # behind\<rparr>)"
  proof (rule system_inv_tasks [OF inv'])
    show "in_flight_inv digest (settled_count ?S) (sy_db ?S) c" if "c \<in> set (sy_in_flight S)" for c
      using system_invD(2) [OF inv', of c] that by simp
    fix cs c
    assume "cs \<in> set (before @ (follow_up @ calls) # behind)" "c \<in> set cs"
    then consider "c \<in> set follow_up" | cs' where "cs' \<in> set (sy_calls ?S)" "c \<in> set cs'"
      using tasks by fastforce
    then show "call_inv (sy_leader ?S) (sy_db ?S) c"
      using follow_up system_invD(3) [OF inv'] by cases simp_all
  qed
  then show ?thesis
    by (cases S) simp
qed

lemma initial_inv: "system_inv digest initial_system"
  by (auto simp: initial_system_def system_inv_def node_inv_def stream_inv_def id_inv_def order_inv_def
      empty_node_db_def open_positions_def outbox_positions_def dead_positions_def last_seq_def settled_count_def
      settle_positions_def leader_inv_def leader_position_def settled_in_order_def)

text \<open>Every run keeps the invariant, with at most one new position of a stream per entry.\<close>

definition run_inv :: "(string \<Rightarrow> 64 word) \<Rightarrow> nat \<Rightarrow> delivery_system \<Rightarrow> bool"
  where "run_inv digest n S \<longleftrightarrow> system_inv digest S \<and> (\<forall>s. last_seq (sy_db S) s \<le> int n)"

lemma run_invD: "run_inv digest n S \<Longrightarrow> system_inv digest S" "run_inv digest n S \<Longrightarrow> last_seq (sy_db S) s \<le> int n"
  by (simp_all add: run_inv_def)

lemma run_inv_db:
  assumes inv: "run_inv digest n S" and db': "node_inv digest (settled_count S) db' \<and> evolves (sy_db S) db'"
  shows "run_inv digest n (S\<lparr>sy_db := db'\<rparr>)"
  using system_inv_db [OF run_invD(1) [OF inv]] run_invD(2) [OF inv] db' by (simp add: run_inv_def evolves_def)

lemma run_inv_entry:
  assumes inv: "run_inv digest n S" and db': "node_inv digest (settled_count S) db' \<and> extends (sy_db S) db'"
  shows "run_inv digest (Suc n) (S\<lparr>sy_db := db'\<rparr>)"
proof -
  have "last_seq db' s \<le> last_seq (sy_db S) s + 1" for s
    using db' by (simp add: extends_def)
  then have "last_seq db' s \<le> int (Suc n)" for s
    using run_invD(2) [OF inv, of s] by (metis add.commute add_left_mono of_nat_Suc order_trans)
  then show ?thesis
    using system_inv_db [OF run_invD(1) [OF inv] db'] by (simp add: run_inv_def)
qed

lemma run_inv_claim:
  assumes inv: "run_inv digest n S"
    and claim: "node_inv digest (settled_count S) db' \<and> evolves (sy_db S) db'
      \<and> (\<forall>r \<in> set rows. r \<in> set (nd_outbox db')
        \<and> (sequenced r \<longrightarrow> ob_stream_seq r = settled_count S (ob_stream_id r) + 1))"
  shows "run_inv digest n (S\<lparr>sy_db := db', sy_in_flight := claimed_rows rows @ sy_in_flight S\<rparr>)"
proof -
  let ?S = "S\<lparr>sy_db := db'\<rparr>"
  have inv': "run_inv digest n ?S"
    using run_inv_db [OF inv] claim by blast
  note sys = run_invD(1) [OF inv']
  have count: "settled_count ?S = settled_count S"
    by (simp add: settled_count_def)
  have "system_inv digest (?S\<lparr>sy_in_flight := claimed_rows rows @ sy_in_flight S, sy_calls := sy_calls S\<rparr>)"
  proof (rule system_inv_tasks [OF sys])
    fix c assume "c \<in> set (claimed_rows rows @ sy_in_flight S)"
    then consider "c \<in> set (claimed_rows rows)" | "c \<in> set (sy_in_flight ?S)"
      by auto
    then show "in_flight_inv digest (settled_count ?S) (sy_db ?S) c"
    proof cases
      case 1
      then obtain r rc where r: "r \<in> set rows" "outbox_record_of r = Ok rc" "c = try_from_record rc"
        by (rule claimed_row)
      have "in_flight_inv digest (settled_count S) db' (try_from_record rc)"
        by (rule claimed_in_flight [OF _ _ _ r(2)]) (use claim r(1) in blast)+
      then show ?thesis
        using r(3) count by simp
    next
      case 2
      then show ?thesis
        by (rule system_invD(2) [OF sys])
    qed
  next
    show "call_inv (sy_leader ?S) (sy_db ?S) call" if "calls \<in> set (sy_calls S)" "call \<in> set calls" for calls call
      using system_invD(3) [OF sys, of calls call] that by simp
  qed
  then show ?thesis
    using run_invD(2) [OF inv'] by (simp add: run_inv_def)
qed

lemma run_inv_tasks:
  assumes inv: "run_inv digest n S" and rows: "set rows \<subseteq> set (sy_in_flight S)"
    and calls: "\<And>calls call. calls \<in> set css \<Longrightarrow> call \<in> set calls \<Longrightarrow> call_inv (sy_leader S) (sy_db S) call"
  shows "run_inv digest n (S\<lparr>sy_in_flight := rows, sy_calls := css\<rparr>)"
proof -
  have "system_inv digest (S\<lparr>sy_in_flight := rows, sy_calls := css\<rparr>)"
    by (rule system_inv_tasks [OF run_invD(1) [OF inv]])
      (use rows calls system_invD(2) [OF run_invD(1) [OF inv]] in auto)
  then show ?thesis
    using run_invD(2) [OF inv] by (simp add: run_inv_def)
qed

lemma claim_request_valid:
  "outbox_claim_request_try_new now lease_ms token = Ok request \<Longrightarrow> 0 \<le> now \<and> token \<noteq> []"
  by (simp add: outbox_claim_request_try_new_def)

lemma consumed_position:
  assumes "consumed rq leader" and "node_client db = Some (rq_client_id rq)"
  shows "rq_stream_sequence rq \<le> leader_position leader (node_client db) (rq_stream_id rq)"
  using assms by (auto simp: consumed_def leader_position_def is_some_and_iff)

lemma deliver_inv:
  assumes inv: "run_inv digest n S" and bound: "int n \<le> i64_max" and row: "row \<in> set (sy_in_flight S)"
    and plan: "plan_claimed_row encode rtt now row = Send rq flag"
  shows "run_inv digest n (S\<lparr>sy_leader := leader_receives rq (sy_leader S)\<rparr>)"
    and "leader_decision (sy_leader S) rq \<in> {Ok ApplyEntry, Ok DuplicateEntry}"
proof -
  note sys = run_invD(1) [OF inv]
  have "last_seq (sy_db S) (dr_stream_id row) \<le> i64_max"
    using run_invD(2) [OF inv] bound order_trans by blast
  note accepts = leader_accepts [OF system_invD(4) [OF sys] system_invD(2) [OF sys row]
      plan_Send(1-3,5) [OF plan] this]
  show "leader_decision (sy_leader S) rq \<in> {Ok ApplyEntry, Ok DuplicateEntry}"
    by (rule accepts(1))
  have "call_inv (leader_receives rq (sy_leader S)) (sy_db S) call"
    if "calls \<in> set (sy_calls S)" "call \<in> set calls" for calls call
    by (rule call_mono [OF system_invD(3) [OF sys that] extends_refl accepts(3)])
  then have "system_inv digest (S\<lparr>sy_leader := leader_receives rq (sy_leader S)\<rparr>)"
    using sys accepts(2) by (simp add: system_inv_def settled_count_def settled_in_order_def)
  then show "run_inv digest n (S\<lparr>sy_leader := leader_receives rq (sy_leader S)\<rparr>)"
    using run_invD(2) [OF inv] by (simp add: run_inv_def)
qed

lemma answered_inv:
  assumes inv: "run_inv digest n S" and row: "row \<in> set (sy_in_flight S)" and "0 \<le> now"
    and plan: "plan_claimed_row encode rtt now row = Send rq flag"
    and final: "final_answer answer \<Longrightarrow> consumed rq (sy_leader S)"
  shows "run_inv digest n (S\<lparr>sy_in_flight := remove1 row (sy_in_flight S),
    sy_calls := settle_claimed_row rtt now row token flag answer # sy_calls S\<rparr>)"
proof (rule run_inv_tasks [OF inv])
  note sys = run_invD(1) [OF inv]
  note flight = system_invD(2) [OF sys row]
  have client: "node_client (sy_db S) = Some (rq_client_id rq)"
    using flight plan_Send(1) [OF plan] by (simp add: in_flight_inv_def)
  have reached: "dr_stream_seq row \<le> leader_position (sy_leader S) (node_client (sy_db S)) (dr_stream_id row)"
    if "final_answer answer"
    using consumed_position [OF final [OF that] client] plan_Send(2,3) [OF plan] by simp
  fix calls call
  assume "calls \<in> set (settle_claimed_row rtt now row token flag answer # sy_calls S)" "call \<in> set calls"
  then consider "call \<in> set (settle_claimed_row rtt now row token flag answer)" | "calls \<in> set (sy_calls S)"
    by auto
  then show "call_inv (sy_leader S) (sy_db S) call"
  proof cases
    case 1
    show ?thesis
      by (rule settle_calls_inv [OF system_invD(1) [OF sys] flight assms(3) plan_Send(5) [OF plan] reached 1])
  next
    case 2
    then show ?thesis
      using system_invD(3) [OF sys] \<open>call \<in> set calls\<close> by simp
  qed
qed (use set_remove1_subset in fastforce)

lemma resolved_inv:
  assumes inv: "run_inv digest n S" and row: "row \<in> set (sy_in_flight S)" and "0 \<le> now"
    and plan: "plan_claimed_row encode rtt now row = Resolve calls"
  shows "run_inv digest n (S\<lparr>sy_in_flight := remove1 row (sy_in_flight S), sy_calls := calls # sy_calls S\<rparr>)"
proof (rule run_inv_tasks [OF inv])
  note sys = run_invD(1) [OF inv]
  show "call_inv (sy_leader S) (sy_db S) call" if "cs \<in> set (calls # sy_calls S)" "call \<in> set cs" for cs call
    using that plan_Resolve [OF plan assms(3) system_invD(2) [OF sys row]] system_invD(3) [OF sys] by auto
qed (use set_remove1_subset in fastforce)

lemma delivery_run_inv:
  assumes "delivery_run digest encode n S" and "int n \<le> i64_max"
  shows "run_inv digest n S"
  using assms
proof (induction rule: delivery_run.induct)
  case start
  then show ?case
    using initial_inv by (simp add: run_inv_def initial_system_def empty_node_db_def last_seq_def)
next
  case (enqueue n S entry uuid db')
  then have inv: "run_inv digest n S" and room: "int n < i64_max"
    by auto
  have "last_seq (sy_db S) s < i64_max" for s
    using run_invD(2) [OF inv] room order_le_less_trans by blast
  then show ?case
    using enqueue_inv [OF system_invD(1) [OF run_invD(1) [OF inv]] enqueue.hyps(2,3) _ enqueue.hyps(4)]
    by (intro run_inv_entry [OF inv]) simp
next
  case (requeue n S now)
  then show ?case
    by (intro run_inv_db requeue_inv system_invD(1) run_invD(1)) auto
next
  case (claim_next n S now lease_ms token request claimed db')
  then have inv: "run_inv digest n S"
    by simp
  show ?case
    using claim_next_inv [OF system_invD(1) [OF run_invD(1) [OF inv]] _ _ claim_next.hyps(3)]
      claim_request_valid [OF claim_next.hyps(2)]
    by (intro run_inv_claim [OF inv]) (auto split: option.split)
next
  case (claim_batch n S now lease_ms token request limit rows db')
  then have inv: "run_inv digest n S"
    by simp
  show ?case
    using claim_batch_inv [OF system_invD(1) [OF run_invD(1) [OF inv]] _ _ claim_batch.hyps(3)]
      claim_request_valid [OF claim_batch.hyps(2)]
    by (intro run_inv_claim [OF inv]) blast
next
  case (renew n S until row_id token)
  then show ?case
    by (intro run_inv_db renew_inv system_invD(1) run_invD(1)) auto
next
  case (deliver n S row rtt now rq flag)
  then show ?case
    by (intro deliver_inv(1)) auto
next
  case (answered n S row now rtt rq flag token answer)
  then show ?case
    by (intro answered_inv) auto
next
  case (resolved_at_once n S row now rtt calls)
  then show ?case
    by (intro resolved_inv) auto
next
  case (call n S before call calls behind now follow_up db')
  then have inv: "run_inv digest n S"
    by simp
  note sys = run_invD(1) [OF inv]
  have "call_inv (sy_leader S) (sy_db S) call"
    using system_invD(3) [OF sys, of "call # calls"] call.hyps(2) by simp
  then have "evolves (sy_db S) db'"
    using call.hyps(3) by (rule run_call_evolves [OF system_invD(1) [OF sys]])
  then show ?case
    using call_step_inv [OF sys call.hyps(2,3)] run_invD(2) [OF inv] by (simp add: run_inv_def evolves_def)
next
  case (move_dead_letter n S now key max_attempts answer db')
  then show ?case
    by (intro run_inv_db move_dead_letter_inv [OF system_invD(1) [OF run_invD(1)]]) auto
next
  case (delete_dead_letter n S row_id)
  then show ?case
    by (intro run_inv_db delete_dead_letter_inv system_invD(1) run_invD(1)) auto
next
  case (replay n S classification now uuid row_id answer db')
  then have inv: "run_inv digest n S" and room: "int n < i64_max"
    by auto
  have "last_seq (sy_db S) s < i64_max" for s
    using run_invD(2) [OF inv] room order_le_less_trans by blast
  then show ?case
    using replay_inv [OF system_invD(1) [OF run_invD(1) [OF inv]] replay.hyps(2-4) _ replay.hyps(5)]
    by (intro run_inv_entry [OF inv]) simp
next
  case (crash n S)
  then show ?case
    by (intro run_inv_tasks) auto
qed


section \<open>The dispatcher as a run\<close>

lemma follow_up_cases:
  assumes "run_call now call db = (follow_up, db')"
  obtains "follow_up = []" | u where "follow_up = [DeleteCheckpoint u]"
  using assms by (auto simp: run_call_def split: store_call.splits sum.splits prod.splits if_splits option.splits)

lemma run_calls_run:
  assumes "delivery_run digest encode n S" and "sy_calls S = calls # behind"
  shows "\<exists>S'. delivery_run digest encode n S' \<and> sy_db S' = run_calls now calls (sy_db S)
    \<and> sy_in_flight S' = sy_in_flight S"
  using assms
proof (induction calls arbitrary: S)
  case Nil
  then show ?case
    by auto
next
  case (Cons call calls)
  obtain follow_up db1 where step: "run_call now call (sy_db S) = (follow_up, db1)"
    by fastforce
  let ?S1 = "S\<lparr>sy_db := db1, sy_calls := (follow_up @ calls) # behind,
      sy_settled := sy_settled S @ call_settles call (sy_db S)\<rparr>"
  have run1: "delivery_run digest encode n ?S1"
    using delivery_run.call [OF Cons.prems(1), of "[]" call calls behind now follow_up db1] Cons.prems(2) step by simp
  from step show ?case
  proof (cases rule: follow_up_cases)
    case 1
    then show ?thesis
      using Cons.IH [OF run1] step by (simp add: Let_def)
  next
    case (2 u)
    let ?db2 = "delete_pod_status_checkpoint u db1"
    let ?S2 = "?S1\<lparr>sy_db := ?db2, sy_calls := calls # behind, sy_settled := sy_settled ?S1 @ []\<rparr>"
    have "delivery_run digest encode n ?S2"
      using delivery_run.call [OF run1, of "[]" "DeleteCheckpoint u" calls behind now "[]" ?db2] 2
      by (simp add: run_call_def call_settles_def)
    then show ?thesis
      using Cons.IH [of ?S2] step 2 by (simp add: Let_def run_call_def)
  qed
qed

lemma process_row_run:
  assumes run: "delivery_run digest encode n S" and bound: "int n \<le> i64_max"
    and row: "row \<in> set (sy_in_flight S)" and now: "0 \<le> now"
  shows "\<exists>S'. delivery_run digest encode n S' \<and> sy_db S' = process_claimed_row encode deliver rtt now row (sy_db S)
    \<and> mset (sy_in_flight S) - {#row#} \<subseteq># mset (sy_in_flight S')"
proof (cases "plan_claimed_row encode rtt now row")
  case SkipRow
  then show ?thesis
    using run by (auto simp: process_claimed_row_def)
next
  case (Resolve calls)
  let ?S = "S\<lparr>sy_in_flight := remove1 row (sy_in_flight S), sy_calls := calls # sy_calls S\<rparr>"
  have "delivery_run digest encode n ?S"
    by (rule delivery_run.resolved_at_once [OF run row now Resolve])
  from run_calls_run [OF this, of calls "sy_calls S" now] show ?thesis
    using Resolve by (auto simp: process_claimed_row_def)
next
  case (Send rq flag)
  then obtain token where token: "dr_lease_token row = Some token"
    by (auto simp: plan_claimed_row_def split: option.splits)
  let ?S1 = "S\<lparr>sy_leader := leader_receives rq (sy_leader S)\<rparr>"
  have run1: "delivery_run digest encode n ?S1"
    by (rule delivery_run.deliver [OF run row Send])
  have seen: "leader_decision (sy_leader S) rq \<in> {Ok ApplyEntry, Ok DuplicateEntry}"
    by (rule deliver_inv(2) [OF delivery_run_inv [OF run bound] bound row Send])
  have received: "consumed rq (sy_leader ?S1)"
  proof (cases "leader_decision (sy_leader S) rq = Ok ApplyEntry")
    case True
    then show ?thesis
      by (simp add: consumed_def leader_receives_def)
  next
    case False
    then show ?thesis
      using seen
      by (auto simp: consumed_def leader_receives_def leader_decision_def decide_outbox_watermark_def
          request_watermark_def split: option.splits if_splits)
  qed
  let ?calls = "settle_claimed_row rtt now row token flag (deliver rq)"
  let ?S2 = "?S1\<lparr>sy_in_flight := remove1 row (sy_in_flight ?S1), sy_calls := ?calls # sy_calls ?S1\<rparr>"
  have "delivery_run digest encode n ?S2"
    by (rule delivery_run.answered [OF run1 _ now Send token]) (use row received in simp_all)
  from run_calls_run [OF this, of ?calls "sy_calls S" now] show ?thesis
    using Send token by (auto simp: process_claimed_row_def)
qed

lemma process_rows_run:
  assumes "delivery_run digest encode n S" and "int n \<le> i64_max" and "0 \<le> now"
    and "mset (map try_from_record records) \<subseteq># mset (sy_in_flight S)"
  shows "\<exists>S'. delivery_run digest encode n S' \<and> sy_db S' =
    fold (\<lambda>r. process_claimed_row encode deliver rtt now (try_from_record r)) records (sy_db S)"
  using assms
proof (induction records arbitrary: S)
  case (Cons r records)
  have "try_from_record r \<in> set (sy_in_flight S)"
    using Cons.prems(4) by (metis list.simps(9) list.set_intros(1) mset_subset_eqD set_mset_mset)
  from process_row_run [OF Cons.prems(1,2) this Cons.prems(3)] obtain S1
    where S1: "delivery_run digest encode n S1"
      "sy_db S1 = process_claimed_row encode deliver rtt now (try_from_record r) (sy_db S)"
      "mset (sy_in_flight S) - {#try_from_record r#} \<subseteq># mset (sy_in_flight S1)"
    by blast
  have "mset (map try_from_record records) \<subseteq># mset (sy_in_flight S) - {#try_from_record r#}"
    using Cons.prems(4) by (simp add: insert_subset_eq_iff)
  then have "mset (map try_from_record records) \<subseteq># mset (sy_in_flight S1)"
    using S1(3) by (rule subset_mset.order_trans)
  then show ?case
    using Cons.IH [OF S1(1) Cons.prems(2,3)] S1(2) by simp
qed auto


section \<open>Properties\<close>

text \<open>C9: Whatever the node does, the leader never meets a gap in one of its streams. In every run, that is any
  interleaving of producers, claims, lease expiry, deliveries that are repeated or lost, answers, failures,
  dead-lettering, replays of entries other than terminal deletes, and crashes, with at most
  \<^verbatim>\<open>i64::MAX\<close> entries: the request of a claimed row is the successor of the last position the leader has
  consumed in its stream, or a repetition of a position it has consumed.\<close>

theorem leader_never_meets_gap:
  assumes "delivery_run digest encode n S" and "int n \<le> i64_max"
    and "row \<in> set (sy_in_flight S)" and "plan_claimed_row encode rtt now row = Send rq records_checkpoint"
  shows "leader_decision (sy_leader S) rq = Ok ApplyEntry \<or> leader_decision (sy_leader S) rq = Ok DuplicateEntry"
  using deliver_inv(2) [OF delivery_run_inv [OF assms(1,2)] assms(2-4)] by blast

text \<open>C10: No stream position is lost or settled twice, and positions are settled in their order. In every run,
  replays of terminal deletes again excepted and with at most \<^verbatim>\<open>i64::MAX\<close> entries, the
  positions that completions have settled in a stream are 1, 2, \<dots>, k, in this order; the leader has consumed
  each of them; and the rows of the outbox and the dead letters hold exactly the positions from k + 1 to the last
  one handed out, each once.\<close>

theorem stream_positions_accounted:
  assumes "delivery_run digest encode n S" and "int n \<le> i64_max"
  shows "\<exists>k. (\<forall>s. map snd (filter (\<lambda>p. fst p = s) (sy_settled S)) = [1..k s]
      \<and> k s \<le> leader_position (sy_leader S) (node_client (sy_db S)) s)
    \<and> distinct (open_positions (sy_db S))
    \<and> set (open_positions (sy_db S)) = {(s, q). k s < q \<and> q \<le> last_seq (sy_db S) s}"
proof (intro exI [of _ "settled_count S"] conjI allI)
  have inv: "system_inv digest S"
    using delivery_run_inv [OF assms] by (rule run_invD)
  show "map snd (filter (\<lambda>p. fst p = s) (sy_settled S)) = [1..settled_count S s]" for s
    using system_invD(5) [OF inv] by (simp add: settled_in_order_def)
  show "settled_count S s \<le> leader_position (sy_leader S) (node_client (sy_db S)) s" for s
    using system_invD(4) [OF inv] by (simp add: leader_inv_def)
  have "stream_inv (settled_count S) (sy_db S)"
    using system_invD(1) [OF inv] by (rule node_invD)
  then show "distinct (open_positions (sy_db S))"
    and "set (open_positions (sy_db S)) = {(s, q). settled_count S s < q \<and> q \<le> last_seq (sy_db S) s}"
    by (simp_all add: stream_inv_def)
qed


text \<open>C11: The dispatcher is a run. A round of the dispatcher in batch mode, with its requeue of expired leases, its claim,
  and the delivery and settlement of every claimed row against a leader that answers as it likes, takes the
  database of a run to the database of a run; so whatever holds in every run holds between the rounds of the
  dispatcher, other tasks and crashes included.\<close>

theorem dispatcher_round_is_run:
  assumes run: "delivery_run digest encode n S" and bound: "int n \<le> i64_max"
  shows "\<exists>S'. delivery_run digest encode n S'
    \<and> sy_db S' = snd (dispatch_due_once encode deliver rtt batch_size lease_ms token now (sy_db S))"
proof (cases "0 \<le> now")
  case False
  then show ?thesis
    using run by (auto simp: dispatch_due_once_def require_nonnegative_def)
next
  case True
  note now = this
  let ?S1 = "S\<lparr>sy_db := snd (requeue_expired_outbox_leases now (sy_db S))\<rparr>"
  have run1: "delivery_run digest encode n ?S1"
    by (rule delivery_run.requeue [OF run])
  show ?thesis
  proof (cases "outbox_claim_request_try_new now lease_ms token")
    case (Inl e)
    then show ?thesis
      using run1 now by (intro exI [of _ ?S1]) (simp add: dispatch_due_once_def require_nonnegative_def Let_def)
  next
    case (Inr request)
    obtain rows db2 where claim: "claim_due_outbox_batch now batch_size lease_ms token (sy_db ?S1) = (rows, db2)"
      by fastforce
    let ?S2 = "?S1\<lparr>sy_db := db2, sy_in_flight := claimed_rows rows @ sy_in_flight ?S1\<rparr>"
    have run2: "delivery_run digest encode n ?S2"
      by (rule delivery_run.claim_batch [OF run1 Inr claim])
    show ?thesis
    proof (cases "collect_results (map outbox_record_of rows)")
      case (Inl e)
      then show ?thesis
        using run2 now Inr claim by (intro exI [of _ ?S2]) (simp add: dispatch_due_once_def require_nonnegative_def Let_def)
    next
      case (Inr records)
      then have "mset (map try_from_record records) \<subseteq># mset (sy_in_flight ?S2)"
        by (simp add: claimed_rows_def)
      from process_rows_run [OF run2 bound True this] obtain S' where "delivery_run digest encode n S'"
        "sy_db S' = fold (\<lambda>r. process_claimed_row encode deliver rtt now (try_from_record r)) records db2"
        by auto
      then show ?thesis
        using now \<open>outbox_claim_request_try_new now lease_ms token = Ok request\<close> claim Inr
        by (intro exI [of _ S']) (simp add: dispatch_due_once_def require_nonnegative_def Let_def)
    qed
  qed
qed


subsection \<open>A replayed terminal delete\<close>

lemma insert_row_Ok:
  assumes "outbox_insert_row row db = Ok db'"
  shows "nd_outbox db' = nd_outbox db @ [row\<lparr>ob_id := nd_last_outbox_id db + 1\<rparr>]"
    and "nd_dead_letter db' = nd_dead_letter db"
  using assms by (auto simp: outbox_insert_row_def Let_def split: if_splits)

lemma open_row_unique:
  assumes "distinct (open_positions db)" and "r \<in> set (nd_outbox db)" and "sequenced r"
  shows "r' \<in> set (nd_outbox db) \<Longrightarrow> sequenced r' \<Longrightarrow> row_position r' = row_position r \<Longrightarrow> r' = r"
    and "d \<in> set (nd_dead_letter db) \<Longrightarrow> dead_sequenced d \<Longrightarrow> dead_position d \<noteq> row_position r"
  using assms by (auto simp: open_positions_def outbox_positions_def dead_positions_def distinct_map dest: inj_onD)

text \<open>A replayed dead letter becomes the last row, under its old position.\<close>

lemma replayed_row:
  assumes inv: "node_inv digest m db" and d: "get_dead_letter row_id db = Some d" "dead_sequenced d"
    and replayed: "replay_dead_letter digest uuid now row_id classification db = Ok (answer, db')"
  obtains x where "nd_outbox db' = nd_outbox db @ [x]"
    and "nd_dead_letter db' = filter (\<lambda>x. dl_id x \<noteq> dl_id d) (nd_dead_letter db)"
    and "ob_id x = nd_last_outbox_id db + 1" "row_position x = dead_position d" "ob_subject_key x = dl_subject_key d"
proof -
  have "d \<in> set (nd_dead_letter db)"
    using d(1) by (auto simp: get_dead_letter_def find_Some_iff)
  then have "dl_client_id d \<noteq> []"
    using node_invD(5) [OF inv] by (simp add: dead_inv_def)
  moreover have "replay_dead_letter_in_tx digest uuid now d classification db = Ok db'"
    using replayed d(1) by (simp add: replay_dead_letter_def)
  ultimately obtain row db2 db3 where inserted: "outbox_insert_row row db2 = Ok db3"
    and db': "db' = db3\<lparr>nd_dead_letter := filter (\<lambda>x. dl_id x \<noteq> dl_id d) (nd_dead_letter db3)\<rparr>"
    and seq: "(ob_stream_seq row, db2) = (dl_stream_seq d, db)" and stream: "ob_stream_id row = dl_stream_id d"
    and subject: "ob_subject_key row = dl_subject_key d"
    using d(2) by (elim replay_row) (auto simp: dead_sequenced_def)
  show thesis
    using that [of "row\<lparr>ob_id := nd_last_outbox_id db + 1\<rparr>"] insert_row_Ok [OF inserted] seq stream subject db'
    by (simp add: row_position_def dead_position_def)
qed

text \<open>The completion of a terminal delete, followed by the clean-up of the statuses it supersedes.\<close>

definition complete_delete :: "string \<Rightarrow> int \<Rightarrow> string \<Rightarrow> node_db \<Rightarrow> node_db"
where
  "complete_delete subject_key row_id lease_token db =
    run_calls 0 [CompleteRow row_id lease_token, CompleteSuperseded subject_key row_id] db"

lemma complete_delete_keeps:
  "r \<in> set (nd_outbox (complete_delete subject_key row_id token db)) \<Longrightarrow>
    \<not> (ob_subject_key r = subject_key \<and> ob_id r < row_id \<and> \<not> ob_is_terminal_pod_delete r
       \<and> ob_supersedable_pod_status r)"
  "set (nd_outbox (complete_delete subject_key row_id token db)) \<subseteq> set (nd_outbox db)"
  "nd_dead_letter (complete_delete subject_key row_id token db) = nd_dead_letter db"
  by (auto simp: complete_delete_def run_call_def complete_outbox_def
      complete_superseded_status_outbox_for_terminal_pod_delete_def outbox_delete_def Let_def)

text \<open>C15: Replaying the dead letter of a terminal Pod delete loses a stream position. Take a run in which the
  delete of a Pod is a dead letter and a status of the same Pod waits behind it. A replay keeps the position of the
  delete but gives it a new row id, above that of the status. When the delete is then completed, the clean-up of
  superseded statuses, which goes by row id, removes the status: its position, although handed out after that of
  the delete, is in neither table any more. A leader that has not consumed that position rejects every later entry
  of the stream as a gap.\<close>

theorem replayed_delete_loses_position:
  assumes "delivery_run digest encode n S" and "int n \<le> i64_max"
    and "get_dead_letter row_id (sy_db S) = Some d" and "dead_sequenced d"
    and "r \<in> set (nd_outbox (sy_db S))" and "sequenced r" and "ob_supersedable_pod_status r"
    and "\<not> ob_is_terminal_pod_delete r" and "ob_subject_key r = dl_subject_key d"
    and "replay_dead_letter digest uuid now row_id classification (sy_db S) = Ok (answer, db1)"
    and "leader_position leader (Some (rq_client_id rq)) (ob_stream_id r) < ob_stream_seq r"
    and "rq_stream_id rq = ob_stream_id r" and "ob_stream_seq r < rq_stream_sequence rq"
  shows "\<exists>x. x \<in> set (nd_outbox db1) \<and> row_position x = dead_position d \<and> ob_subject_key x = dl_subject_key d
    \<and> row_position r \<in> set (open_positions db1)
    \<and> row_position r \<notin> set (open_positions (complete_delete (ob_subject_key x) (ob_id x) token db1))
    \<and> leader_decision leader rq =
        Ok (GapEntry (leader_position leader (Some (rq_client_id rq)) (ob_stream_id r)) (rq_stream_sequence rq))"
proof -
  have inv: "node_inv digest (settled_count S) (sy_db S)"
    using delivery_run_inv [OF assms(1,2)] run_invD(1) system_invD(1) by blast
  let ?db = "sy_db S"
  have d: "d \<in> set (nd_dead_letter ?db)"
    using assms(3) by (auto simp: get_dead_letter_def find_Some_iff)
  from replayed_row [OF inv assms(3,4,10)] obtain x where outbox: "nd_outbox db1 = nd_outbox ?db @ [x]"
    and dead: "nd_dead_letter db1 = filter (\<lambda>x. dl_id x \<noteq> dl_id d) (nd_dead_letter ?db)"
    and x: "ob_id x = nd_last_outbox_id ?db + 1" "row_position x = dead_position d"
      "ob_subject_key x = dl_subject_key d"
    by metis
  let ?db4 = "complete_delete (ob_subject_key x) (ob_id x) token db1"
  note kept = complete_delete_keeps
  have "ob_id r < ob_id x"
    using node_invD(2) [OF inv] assms(5) x(1) by (auto simp: id_inv_def)
  then have removed: "r \<notin> set (nd_outbox ?db4)"
    using assms(7-9) x(3) kept(1) by metis
  have old: "set (nd_outbox ?db4) \<subseteq> insert x (set (nd_outbox ?db))"
    using kept(2) [of "ob_subject_key x" "ob_id x" token db1] outbox by auto
  have "distinct (open_positions ?db)"
    using node_invD(1) [OF inv] by (simp add: stream_inv_def)
  note unique = open_row_unique [OF this assms(5,6)]
  have "row_position r \<in> set (open_positions db1)"
    using assms(5,6) outbox by (auto simp: open_positions_def outbox_positions_def)
  moreover have "row_position r \<notin> set (open_positions ?db4)"
  proof
    assume "row_position r \<in> set (open_positions ?db4)"
    then consider r' where "r' \<in> set (nd_outbox ?db4)" "sequenced r'" "row_position r' = row_position r"
      | d' where "d' \<in> set (nd_dead_letter ?db)" "dead_sequenced d'" "dead_position d' = row_position r"
      using kept(3) dead by (auto simp: open_positions_def outbox_positions_def dead_positions_def)
    then show False
      using unique removed old x(2) d assms(4) by cases (metis insert_iff subset_iff, metis)
  qed
  moreover have "leader_decision leader rq =
      Ok (GapEntry (leader_position leader (Some (rq_client_id rq)) (ob_stream_id r)) (rq_stream_sequence rq))"
    using assms(6,11-13)
    by (auto simp: leader_decision_def decide_outbox_watermark_def request_watermark_def leader_position_def
        sequenced_def saturating_add_i64_def i64_min_def i64_max_def split: option.splits)
  ultimately show ?thesis
    using x outbox by (intro exI [of _ x]) simp
qed


subsection \<open>An example run\<close>

definition example_digest :: "string \<Rightarrow> 64 word"
  where "example_digest _ = 0"

definition example_encode :: "storage_command \<Rightarrow> (string, string) rust_result"
  where "example_encode _ = Ok ''tombstone''"

definition example_outbox_entry :: "string \<Rightarrow> outbox_classification \<Rightarrow> outbox_insert"
where
  "example_outbox_entry key classification =
    \<lparr>oi_idempotency_key = key, oi_enqueued_ms = 0, oi_subject_key = ''v1/Pod/default/web-0/u1'',
     oi_subject_api_version = ''v1'', oi_subject_kind = ''Pod'', oi_subject_namespace = Some ''default'',
     oi_subject_name = ''web-0'', oi_subject_uid = Some ''u1'', oi_pod_uid = ''u1'', oi_operation = ''PodStatus'',
     oi_classification = classification, oi_payload_proto = ''p'', oi_next_due_ms = 0\<rparr>"

definition example_status_class :: outbox_classification
where
  "example_status_class = \<lparr>oc_priority = WorkloadPriority, oc_supersedability = SupersededPodStatus,
     oc_terminal_delete = NotTerminalDelete, oc_sequence_policy = PerSubject\<rparr>"

definition example_delete_class :: outbox_classification
where
  "example_delete_class = \<lparr>oc_priority = WorkloadPriority, oc_supersedability = NeverSuperseded,
     oc_terminal_delete = ActorOwnedPodDelete, oc_sequence_policy = PerSubject\<rparr>"

definition ok_or :: "'a \<Rightarrow> ('a, 'e) rust_result \<Rightarrow> 'a"
  where "ok_or x r = (case r of Ok y \<Rightarrow> y | Err _ \<Rightarrow> x)"

lemma ok_or_Ok: "\<not> isl r \<Longrightarrow> r = Ok (ok_or x r)"
  by (cases r) (simp_all add: ok_or_def)

text \<open>A terminal delete, a status behind it, and the delete claimed or moved to the dead letters.\<close>

definition example_db1 :: node_db
where
  "example_db1 = ok_or empty_node_db
     (enqueue_outbox example_digest ''n1'' (example_outbox_entry ''k1'' example_delete_class) empty_node_db)"

definition example_db2 :: node_db
where
  "example_db2 = ok_or empty_node_db
     (enqueue_outbox example_digest ''n1'' (example_outbox_entry ''k2'' example_status_class) example_db1)"

lemma example_enqueued:
  "enqueue_outbox example_digest ''n1'' (example_outbox_entry ''k1'' example_delete_class) empty_node_db = Ok example_db1"
  "enqueue_outbox example_digest ''n1'' (example_outbox_entry ''k2'' example_status_class) example_db1 = Ok example_db2"
  unfolding example_db1_def example_db2_def by (rule ok_or_Ok, code_simp)+

lemma example_entries_valid:
  "outbox_enqueue_try_new (example_outbox_entry ''k1'' example_delete_class) = Ok (example_outbox_entry ''k1'' example_delete_class)"
  "outbox_enqueue_try_new (example_outbox_entry ''k2'' example_status_class) = Ok (example_outbox_entry ''k2'' example_status_class)"
  "valid_classification (oi_classification (example_outbox_entry ''k1'' example_delete_class))"
  "valid_classification (oi_classification (example_outbox_entry ''k2'' example_status_class))"
  by (simp_all add: outbox_enqueue_try_new_def require_nonempty_def require_nonnegative_def example_outbox_entry_def
      valid_classification_def classification_try_new_def example_delete_class_def example_status_class_def)

definition example_system :: delivery_system
  where "example_system = initial_system\<lparr>sy_db := example_db2\<rparr>"

lemma example_run: "delivery_run example_digest example_encode 2 example_system"
proof -
  have "delivery_run example_digest example_encode 1 (initial_system\<lparr>sy_db := example_db1\<rparr>)"
    using delivery_run.enqueue [OF delivery_run.start example_entries_valid(1,3), of example_digest "''n1''" example_db1]
      example_enqueued(1) by (simp add: initial_system_def)
  from delivery_run.enqueue [OF this example_entries_valid(2,4)] example_enqueued(2)
  show ?thesis
    by (simp add: example_system_def numeral_2_eq_2)
qed

definition example_claim :: "node_outbox_row option \<times> node_db"
  where "example_claim = claim_next_due_outbox 0 10 ''t'' example_db2"

definition example_claimed :: delivery_system
where
  "example_claimed = example_system\<lparr>sy_db := snd example_claim,
     sy_in_flight := claimed_rows (case fst example_claim of Some r \<Rightarrow> [r] | None \<Rightarrow> [])\<rparr>"

lemma example_claimed_run: "delivery_run example_digest example_encode 2 example_claimed"
proof -
  have "outbox_claim_request_try_new 0 10 ''t'' = Ok \<lparr>cr_now_ms = 0, cr_lease_ms = 10, cr_lease_token = ''t''\<rparr>"
    by (simp add: outbox_claim_request_try_new_def require_nonempty_def require_nonnegative_def require_positive_def)
  moreover have "claim_next_due_outbox 0 10 ''t'' (sy_db example_system) = (fst example_claim, snd example_claim)"
    by (simp add: example_system_def example_claim_def)
  ultimately have "delivery_run example_digest example_encode 2
      (example_system\<lparr>sy_db := snd example_claim,
         sy_in_flight := claimed_rows (case fst example_claim of Some r \<Rightarrow> [r] | None \<Rightarrow> [])
           @ sy_in_flight example_system\<rparr>)"
    by (rule delivery_run.claim_next [OF example_run])
  then show ?thesis
    by (simp add: example_claimed_def example_system_def initial_system_def)
qed

definition sends :: "dispatch_plan \<Rightarrow> bool"
  where "sends plan = (case plan of Send _ _ \<Rightarrow> True | _ \<Rightarrow> False)"

lemma example_row_in_flight:
  "\<exists>row rq flag. row \<in> set (sy_in_flight example_claimed) \<and> plan_claimed_row example_encode 200 0 row = Send rq flag"
proof -
  have "list_ex (\<lambda>row. sends (plan_claimed_row example_encode 200 0 row)) (sy_in_flight example_claimed)"
    by code_simp
  then obtain row where "row \<in> set (sy_in_flight example_claimed)" "sends (plan_claimed_row example_encode 200 0 row)"
    by (auto simp: list_ex_iff)
  then show ?thesis
    by (cases "plan_claimed_row example_encode 200 0 row") (auto simp: sends_def)
qed

theorem leader_never_meets_gap_witness:
  "\<exists>row rq flag. row \<in> set (sy_in_flight example_claimed)
    \<and> plan_claimed_row example_encode 200 0 row = Send rq flag
    \<and> (leader_decision (sy_leader example_claimed) rq = Ok ApplyEntry
      \<or> leader_decision (sy_leader example_claimed) rq = Ok DuplicateEntry)"
proof -
  obtain row rq flag where row: "row \<in> set (sy_in_flight example_claimed)"
    and plan: "plan_claimed_row example_encode 200 0 row = Send rq flag"
    using example_row_in_flight by blast
  then show ?thesis
    using leader_never_meets_gap [OF example_claimed_run _ row plan] by (auto simp: i64_max_def)
qed

theorem stream_positions_accounted_witness:
  "\<exists>k. set (open_positions example_db2) = {(s, q). k s < q \<and> q \<le> last_seq example_db2 s}"
  using stream_positions_accounted [OF example_run] by (auto simp: i64_max_def example_system_def)

text \<open>The delete as a dead letter, with the status behind it.\<close>

definition example_db3 :: node_db
where
  "example_db3 = snd (ok_or (False, empty_node_db) (move_outbox_to_dead_letter_if_max_attempts 5 ''k1'' 0 example_db2))"

lemma example_dead_run: "delivery_run example_digest example_encode 2 (example_system\<lparr>sy_db := example_db3\<rparr>)"
proof (rule delivery_run.move_dead_letter [OF example_run])
  let ?moved = "move_outbox_to_dead_letter_if_max_attempts 5 ''k1'' 0 (sy_db example_system)"
  have "\<not> isl ?moved"
    by code_simp
  from ok_or_Ok [OF this] show "?moved = Ok (fst (ok_or (False, empty_node_db) ?moved), example_db3)"
    by (metis example_db3_def example_system_def delivery_system.select_convs(1) delivery_system.update_convs(1)
        initial_system_def prod.collapse)
qed

definition example_dead :: dead_letter_row
  where "example_dead = hd (nd_dead_letter example_db3)"

definition example_waiting :: node_outbox_row
  where "example_waiting = hd (nd_outbox example_db3)"

lemma example_dead_facts:
  "get_dead_letter 1 example_db3 = Some example_dead" "dead_sequenced example_dead"
  "example_waiting \<in> set (nd_outbox example_db3)" "sequenced example_waiting"
  "ob_supersedable_pod_status example_waiting" "\<not> ob_is_terminal_pod_delete example_waiting"
  "ob_subject_key example_waiting = dl_subject_key example_dead"
  "ob_stream_seq example_waiting = 2" "ob_stream_id example_waiting = 1"
  by code_simp+

definition example_db4 :: node_db
where
  "example_db4 = snd (ok_or (False, empty_node_db)
     (replay_dead_letter example_digest ''n1'' 6 1 example_delete_class example_db3))"

definition example_request :: outbox_delivery_request
where
  "example_request =
    \<lparr>rq_codec_version = 1, rq_idempotency_key = ''k3'', rq_operation = PodStatus, rq_payload = ''p'',
     rq_client_id = ''outbox-n1'', rq_stream_id = 1, rq_stream_sequence = 3\<rparr>"

theorem replayed_delete_loses_position_witness:
  "\<exists>x. x \<in> set (nd_outbox example_db4) \<and> row_position x = (1, 1)
    \<and> (1, 2) \<in> set (open_positions example_db4)
    \<and> (1, 2) \<notin> set (open_positions (complete_delete (ob_subject_key x) (ob_id x) ''t'' example_db4))
    \<and> leader_decision [(''outbox-n1'', 1) \<mapsto> 1] example_request = Ok (GapEntry 1 3)"
proof -
  let ?S = "example_system\<lparr>sy_db := example_db3\<rparr>"
  let ?replayed = "replay_dead_letter example_digest ''n1'' 6 1 example_delete_class example_db3"
  have db: "sy_db ?S = example_db3"
    by simp
  have "\<not> isl ?replayed"
    by code_simp
  from ok_or_Ok [OF this, of "(False, empty_node_db)"]
  have replayed: "?replayed = Ok (fst (ok_or (False, empty_node_db) ?replayed), example_db4)"
    by (simp add: example_db4_def)
  have position: "row_position example_waiting = (1, 2)"
    using example_dead_facts(8,9) by (simp add: row_position_def)
  have dead: "dead_position example_dead = (1, 1)"
    by code_simp
  have behind: "leader_position [(''outbox-n1'', 1) \<mapsto> 1] (Some (rq_client_id example_request))
      (ob_stream_id example_waiting) < ob_stream_seq example_waiting"
    and at: "leader_position [(''outbox-n1'', 1) \<mapsto> 1] (Some (rq_client_id example_request)) 1 = 1"
    and request: "rq_stream_id example_request = ob_stream_id example_waiting"
      "ob_stream_seq example_waiting < rq_stream_sequence example_request" "rq_stream_sequence example_request = 3"
    by (simp_all add: example_dead_facts(8,9) leader_position_def example_request_def)
  have few: "int 2 \<le> i64_max"
    by (simp add: i64_max_def)
  note lost = replayed_delete_loses_position [OF example_dead_run few, unfolded db,
      OF example_dead_facts(1-7) replayed behind request(1,2), unfolded position dead example_dead_facts(9) at request(3)]
  show ?thesis
    using lost [of "''t''"] by blast
qed

theorem dispatcher_round_is_run_witness:
  "\<exists>S. delivery_run example_digest example_encode 2 S
    \<and> sy_db S = snd (dispatch_due_once example_encode (\<lambda>_. Ok (OutboxApplied 9)) 200 4 10 ''t'' 0 example_db2)"
  using dispatcher_round_is_run [OF example_run, of "\<lambda>_. Ok (OutboxApplied 9)" 200 4 10 "''t''" 0]
  by (simp add: i64_max_def example_system_def)

end
