(* ===== verification/Spec2Isabelle.thy ===== *)
theory Spec2Isabelle
  imports Klights_Prelude Json_Value Resource_Model Resource_Apply Watch_Replay Watch_Store
    Watch_Session Watch_Membership Cluster_Identity Storage_Command Log_Apply Stale_Resource
    Pod_Status_Merge Status_Merge Pod_Lifecycle Pod_Actor Pod_Actor_Runs Selectors Selector_Index
    Resource_Shape Network_Values Cluster_Tables Live_Apply Apply_Steps Apply_Invariants
    Committed_Log Redelivery Watch_Retention Watch_Consistency Node_Outbox Node_Dispatch Node_Streams Node_Delivery
begin

text \<open>
  A verification library for the deterministic core of klights, a Kubernetes-compatible control
  plane and kubelet written in Rust. Paths below are relative to \<^verbatim>\<open>src/crates/\<close>.

  \<^bold>\<open>The program.\<close> The API server turns a request into a storage command; replication orders commands
  into a log of logical commits; every node applies the committed entries to its cluster database in one
  transaction per entry; each entry appends events to a durable watch history, which watch sessions
  replay to clients; the kubelet runs one actor per Pod, which reacts to those events, to the container
  runtime and to timers, and reports status back through an outbox stream whose entries are log entries
  again. The library follows that path.

  \<^bold>\<open>Values.\<close>
  \<^item> \<^verbatim>\<open>Klights_Prelude\<close>: the Rust vocabulary (\<^verbatim>\<open>Result\<close>, \<^verbatim>\<open>Option\<close>, byte strings, saturating \<^verbatim>\<open>i64\<close> and
    \<^verbatim>\<open>u64\<close> arithmetic, decimal text) and the locale of an ordered map, interpreted on the association lists
    that model \<^verbatim>\<open>BTreeMap\<close>. \<^verbatim>\<open>Json_Value\<close>: \<^verbatim>\<open>serde_json::Value\<close> with its accessors and well-formedness.
  \<^item> \<^verbatim>\<open>Resource_Model\<close> (\<^verbatim>\<open>klights-cluster-core/src/resource.rs\<close>), \<^verbatim>\<open>Resource_Shape\<close>
    (\<^verbatim>\<open>klights-cluster-datastore/src/sqlite/resource_shape.rs\<close>, \<^verbatim>\<open>scope.rs\<close>), \<^verbatim>\<open>Cluster_Identity\<close>
    (\<^verbatim>\<open>membership.rs\<close>, \<^verbatim>\<open>recovery.rs\<close>), \<^verbatim>\<open>Network_Values\<close> (\<^verbatim>\<open>klights-types/src/network.rs\<close>: parsed values print
    and parse back), \<^verbatim>\<open>Selectors\<close> (\<^verbatim>\<open>label_selector.rs\<close>, \<^verbatim>\<open>field_selector.rs\<close>: valid selectors are parsed back
    from their text).

  \<^bold>\<open>Policies.\<close>
  \<^item> \<^verbatim>\<open>Resource_Apply\<close> (\<^verbatim>\<open>apply.rs\<close>): preconditions are accepted exactly when the object meets them, and a
    delete hits only the object it names.
  \<^item> \<^verbatim>\<open>Stale_Resource\<close> (\<^verbatim>\<open>stale_resource.rs\<close>), \<^verbatim>\<open>Pod_Status_Merge\<close>
    (\<^verbatim>\<open>klights-types/src/pod_status_merge.rs\<close>) and \<^verbatim>\<open>Status_Merge\<close> (\<^verbatim>\<open>status.rs\<close>): what a write may and may not
    change. The locales \<^verbatim>\<open>json_policy\<close> (a step that touches a named set of fields and keeps documents
    well formed) and \<^verbatim>\<open>condition_merge\<close> (a merge of condition lists that loses no foreign type) are
    interpreted on every policy step and every condition merge of the code.

  \<^bold>\<open>Commands, commits and committed apply.\<close>
  \<^item> \<^verbatim>\<open>Storage_Command\<close> (\<^verbatim>\<open>command.rs\<close>, \<^verbatim>\<open>outbox.rs\<close>) and \<^verbatim>\<open>Log_Apply\<close> (\<^verbatim>\<open>log_apply.rs\<close>): commands, subjects,
    rows, mutations, templates and the decision on an outbox position.
  \<^item> \<^verbatim>\<open>Selector_Index\<close> (\<^verbatim>\<open>selector_index.rs\<close>, \<^verbatim>\<open>owner_ref_index.rs\<close>): the SQL plan selects what the in-memory
    matcher selects. \<^verbatim>\<open>Cluster_Tables\<close> (\<^verbatim>\<open>klights-cluster-datastore/src/sqlite/live_apply/state/\<close>): the tables
    as a record \<^typ>\<open>cluster_db\<close>, one definition per statement and per applier method. \<^verbatim>\<open>Live_Apply\<close>
    (\<^verbatim>\<open>live_apply/coordinator.rs\<close>, \<^verbatim>\<open>mod.rs\<close>): the transaction, with errors of type \<^typ>\<open>db_error\<close>; an error
    leaves the database as it was.
  \<^item> \<^verbatim>\<open>Apply_Steps\<close>: every mutation is a sequence of elementary table steps (an inductive relation).
    \<^verbatim>\<open>Apply_Invariants\<close>: the consistency predicate \<^verbatim>\<open>db_wf\<close> and its preservation by every step.
    \<^verbatim>\<open>Committed_Log\<close>: every log keeps \<^verbatim>\<open>db_wf\<close>, versions advance by at most one. \<^verbatim>\<open>Redelivery\<close>: entries take
    effect once, in stream order, and a rejection is final.

  \<^bold>\<open>Watch.\<close>
  \<^item> \<^verbatim>\<open>Watch_Replay\<close> (\<^verbatim>\<open>replay.rs\<close>, \<^verbatim>\<open>klights-cluster-store/src/\<close>): the composite cursor, through the locale
    \<^verbatim>\<open>replay_cursor\<close>. \<^verbatim>\<open>Watch_Store\<close> (\<^verbatim>\<open>redb/read_core.rs\<close>, \<^verbatim>\<open>sqlite/read_store.rs\<close>): bounded reads of both
    backends, two interpretations of the locale \<^verbatim>\<open>watch_log_backend\<close>; they answer alike, expiry included, but for
    cursors with a listing boundary, where redb serves cursors that SQLite reports as expired.
    \<^verbatim>\<open>Watch_Retention\<close>: garbage collection of the SQLite history never hides an event from a reader silently.
    \<^verbatim>\<open>Watch_Membership\<close> (\<^verbatim>\<open>position_membership.rs\<close>, \<^verbatim>\<open>redb/read_core.rs\<close>): collections at a past position, exact
    up to the version of objects deleted since, because delete rows carry the version of the deletion. \<^verbatim>\<open>Watch_Session\<close> (\<^verbatim>\<open>klights-watch/src/session.rs\<close>, \<^verbatim>\<open>klights-leader-api/src/lib.rs\<close>): a session
    delivers each event once, in order, and a selector watch keeps the client's view exact.
  \<^item> \<^verbatim>\<open>Watch_Consistency\<close>: the events that committed entries append explain the stored objects, for entries
    whose explicit events match their effect, and a deletion that lost its object is announced all the same.
    The property of this theory joins both ends: a client that lists and then watches ends with the stored objects.

  \<^bold>\<open>Kubelet.\<close>
  \<^item> \<^verbatim>\<open>Pod_Lifecycle\<close> (\<^verbatim>\<open>klights-kubelet/src/pod_lifecycle_core/\<close>), \<^verbatim>\<open>Pod_Actor\<close>
    (\<^verbatim>\<open>pod_lifecycle_actor/actor.rs\<close>, the whole message handler) and \<^verbatim>\<open>Pod_Actor_Runs\<close> (sequences of messages):
    operation ids are never reused, results are taken once, stops are retried until done. Operations may overlap:
    a lifecycle command displaces a stop, and a second watch event overtakes the clean-up after a restart.
  \<^item> \<^verbatim>\<open>Node_Outbox\<close> (\<^verbatim>\<open>klights-node-store/src/delivery.rs\<close>, \<^verbatim>\<open>klights-node-datastore/src/delivery.rs\<close>,
    \<^verbatim>\<open>delivery_queries.rs\<close>, \<^verbatim>\<open>schema.rs\<close>): the outbox and dead-letter tables as a record \<^typ>\<open>node_db\<close> and the
    operations on them. \<^verbatim>\<open>Node_Dispatch\<close> (\<^verbatim>\<open>klights-kubelet/src/node_outbox/\<close>): planning, delivery and settlement
    of a claimed row. \<^verbatim>\<open>Node_Streams\<close>: invariants of stream positions. \<^verbatim>\<open>Node_Delivery\<close>: runs of a node and its
    leader as an inductive relation, with repeated and lost deliveries and crashes. The leader never meets a gap and
    every position is open or settled in order; a replayed terminal delete breaks this and is kept out of the runs.

  \<^bold>\<open>Bounds and recursion.\<close> Fuel appears once, in \<^verbatim>\<open>run_session\<close>, which models a loop that waits for ever
  between turns; the session theorem gives the fuel that suffices, two more than twice the number
  of open events. \<^verbatim>\<open>handle\<close>, \<^verbatim>\<open>hydrate_watch_event_data\<close> and \<^verbatim>\<open>split_str\<close> are total functions with
  termination proofs; everything else is structural. Integers are unbounded with the
  saturation of the source written out, except for hashes and float payloads, which are machine words.

  \<^bold>\<open>Parameters.\<close> Third-party code is a parameter: the protobuf codec, the RFC 3339 parser, JSON text, the
  clock and the random UIDs. What a theorem assumes of a parameter is a hypothesis with a name
  (\<^verbatim>\<open>codec_keeps_errors\<close>) and a witness on a concrete function.

  \<^bold>\<open>Not modelled.\<close> Host networking, the container runtime interface, the task supervisor, the Raft runtime,
  the HTTP and RPC surfaces, the controllers, protobuf encodings and the other tables of the node-local store
  are effects or glue around the modelled core: asynchronous code, generated types or third-party calls. Of the
  modelled parts, SQL text is replaced by its meaning on lists of rows, and SQLite failures other
  than constraint violations are left out. The dispatcher settles the rows of a batch one after the other,
  where the code overlaps their deliveries; runs allow any interleaving.
\<close>


section \<open>Listing and watching\<close>

text \<open>A client keeps the objects of the kind and scope it watches, by key, and applies what it is sent.\<close>

definition watched_keys :: "durable_watch_target \<Rightarrow> object_key set"
where
  "watched_keys target =
    {(a, k, ns, n). a = dwt_api_version target \<and> k = dwt_kind target \<and> target_matches_namespace target ns}"

definition listed_objects :: "durable_watch_target \<Rightarrow> cluster_db \<Rightarrow> (object_key \<rightharpoonup> json)"
  where "listed_objects target db = stored_object db |` watched_keys target"

definition client_apply :: "(object_key \<rightharpoonup> json) \<Rightarrow> string \<times> resource \<Rightarrow> (object_key \<rightharpoonup> json)"
where
  "client_apply view delivered =
    (case delivered of (event_type, r) \<Rightarrow>
       view((r_api_version r, r_kind r, r_namespace r, r_name r) :=
         if event_type = ''DELETED'' then None else Some (r_data r)))"

lemma event_key_watched: "event_key row \<in> watched_keys target \<longleftrightarrow> row_matches_target row target"
  by (simp add: event_key_def watched_keys_def row_matches_target_def)

lemma client_apply_row:
  assumes "wer_data row \<noteq> None"
  shows "client_apply view (stored_as (row_event row)) = replay_event view row"
  using assms by (auto simp: client_apply_def stored_as_def row_event_def replay_event_def event_key_def)

lemma restrict_replay:
  "replay_event view row |` watched_keys target =
    (if row_matches_target row target then replay_event (view |` watched_keys target) row
     else view |` watched_keys target)"
  by (auto simp: replay_event_def restrict_map_def fun_eq_iff event_key_watched)

lemma client_replays:
  assumes "list_all (\<lambda>row. wer_data row \<noteq> None) rows"
  shows "foldl client_apply (view |` watched_keys target)
      (map (stored_as \<circ> row_event) (filter (\<lambda>row. row_matches_target row target) rows)) =
    foldl replay_event view rows |` watched_keys target"
  using assms
proof (induction rows arbitrary: view)
  case (Cons row rows)
  have IH: "foldl replay_event (replay_event view row) rows |` watched_keys target =
      foldl client_apply (replay_event view row |` watched_keys target)
        (map (stored_as \<circ> row_event) (filter (\<lambda>row. row_matches_target row target) rows))"
    by (rule Cons.IH [symmetric]) (use Cons.prems in simp)
  show ?case
    using Cons.prems by (auto simp: IH restrict_replay client_apply_row comp_def)
qed simp

text \<open>The events after the head of a snapshot are the open events of a cursor at that head.\<close>

lemma open_after_head:
  assumes "list_all (\<lambda>row. wer_id row \<le> head) old" and "list_all (\<lambda>row. head < wer_id row) new" and "0 < head"
  shows "open_events (event_position head rv) (map row_event (filter P (old @ new))) = map row_event (filter P new)"
proof -
  have "\<not> represents_event (event_position head rv) i v \<longleftrightarrow> head < i" for i v
    using assms(3) by (auto simp: represents_event_def)
  then have "open_events (event_position head rv) (map row_event rows) =
      map row_event (filter (\<lambda>row. head < wer_id row) rows)" for rows
    by (simp add: open_events_def filter_map comp_def row_event_def represents_position_def)
  moreover have "filter (\<lambda>row. head < wer_id row) (filter P old) = []"
    using assms(1) by (auto simp: list_all_iff filter_empty_conv)
  moreover have "filter (\<lambda>row. head < wer_id row) (filter P new) = filter P new"
    using assms(2) by (intro filter_True) (auto simp: list_all_iff)
  ultimately show ?thesis
    by (simp only: filter_append append_Nil)
qed

text \<open>Behind exact floors at most at the head no position from the head on has expired.\<close>

lemma not_expired_from_head:
  assumes "permits_successor (event_position head rv) q" and "0 < head"
    and "list_all wfr_floor_position_exact (sws_floors store)"
    and "list_all (\<lambda>floor. wfr_floor_event_id floor \<le> head) (sws_floors store)"
    and "wrp_event_id q \<le> wrp_event_id (sws_position store)"
  shows "\<not> sqlite_expired store targets q"
proof -
  have head: "head \<le> wrp_event_id q"
    using assms(1) by (auto simp: permits_successor_def split: if_splits)
  have "classify (row_to_boundary floor) q = Available" if "floor \<in> set (sws_floors store)" for floor
    using that assms(2-4) head by (auto simp: row_to_boundary_def list_all_iff)
  then have "\<not> sqlite_watch_position_expired store targets q"
    by (auto simp: sqlite_watch_position_expired_def list_ex_iff classify_all_Expired_iff
        target_replay_boundaries_def read_scope_def read_namespaced_all_def
        split: durable_watch_scope.splits option.splits)
  then show ?thesis
    using head assms(2,5) by (simp add: sqlite_expired_def)
qed

text \<open>C1: Listing and then watching converges. A client lists the objects of a kind and scope at some
  state of the database and opens a watch at the position of that list. Whatever observable entries are
  committed meanwhile, the session delivers, within a bounded number of turns and pages of any size,
  events that turn the listed objects into exactly the objects then stored, and goes idle.\<close>

theorem list_then_watch_converges:
  fixes db db' :: cluster_db
  defines "head \<equiv> event_position (cd_event_sequence db) (cd_resource_version db)"
  assumes "db_wf env db" and "0 < cd_event_sequence db"
    and "list_all live_commit log" and "observable_log env log db" and "db' = apply_log env log db"
    and "\<not> sc_has_selector cfg" and "0 < limit"
    and "\<And>q. sc_history cfg q = sqlite_replay_watch_history (watch_store_of db') [target] q limit"
    and "\<And>e. e \<in> set (sqlite_log (watch_store_of db') [target]) \<Longrightarrow> deliverable cfg (pwe_event e)"
  shows "\<exists>fuel evs q. run_session fuel cfg (session_at head True) = Some (Ok (evs, session_at q False))
    \<and> foldl client_apply (listed_objects target db) (map delivered_as evs) = listed_objects target db'"
proof -
  obtain new where new: "cd_watch_events db' = cd_watch_events db @ new"
      "stored_object db' = foldl replay_event (stored_object db) new"
      "list_all (\<lambda>e. cd_event_sequence db < wer_id e) new"
    and frame: "cd_event_sequence db \<le> cd_event_sequence db'" "cd_floors db' = cd_floors db"
    using log_explains [OF assms(4,2,5)] unfolding explains_def assms(6) by blast
  have wf: "history_wf (watch_store_of db)" "history_wf (watch_store_of db')"
    using assms(2) apply_log_wf [OF assms(4,2)] by (simp_all add: db_wf_def assms(6))
  have floors: "list_all wfr_floor_position_exact (cd_floors db')"
    "list_all (\<lambda>floor. wfr_floor_event_id floor \<le> cd_event_sequence db) (cd_floors db')"
    using wf(1) by (simp_all add: log_wf_iff frame(2))
  let ?log = "sqlite_log (watch_store_of db') [target]"
  have old: "list_all (\<lambda>row. wer_id row \<le> cd_event_sequence db) (cd_watch_events db)"
    using wf(1) by (simp add: log_wf_iff list_all_iff)
  have "open_events head ?log = map row_event (filter (\<lambda>row. row_matches_target row target) new)"
    unfolding head_def sqlite_log_def
    using open_after_head [OF old new(3) assms(3)] by (simp add: watch_store_of_def new(1))
  moreover have "list_all (\<lambda>row. wer_data row \<noteq> None) new"
    using wf(2) by (simp add: log_wf_iff new(1) list_all_iff)
  ultimately have view: "foldl client_apply (listed_objects target db) (map stored_as (open_events head ?log)) =
      listed_objects target db'"
    using client_replays [of new "stored_object db" target] by (simp add: listed_objects_def new(2))
  have "\<exists>evs q. run_session (2 * length (open_events head ?log) + 2) cfg (session_at head True)
      = Some (Ok (evs, session_at q False))
    \<and> map delivered_as evs = map stored_as (open_events head ?log)
    \<and> permits_successor head q \<and> open_events q ?log = []"
  proof (rule sqlite.session_delivers)
    show "\<not> sqlite_expired (watch_store_of db') [target] q"
      if "permits_successor head q" "wrp_event_id q \<le> wrp_event_id (sws_position (watch_store_of db'))" for q
      by (rule not_expired_from_head [OF that(1) [unfolded head_def] assms(3) _ _ that(2)])
        (simp_all add: floors watch_store_of_def)
  qed (use wf(2) assms frame(1) in \<open>auto simp: history_wf_def positioned_cursor_def valid_position_def
      scalar_cursor_def watch_store_of_def db_wf_def versions_wf_def head_def\<close>)
  then show ?thesis
    using view by metis
qed

definition example_removal :: log_apply_commit
where
  "example_removal =
    example_deletion\<lparr>lac_mutations :=
      [LA_PutWatchEvent example_event_row, LA_DeleteResource (example_key\<lparr>lrk_uid := ''u1''\<rparr>)]\<rparr>"

definition example_after :: cluster_db
  where "example_after = apply_log example_env [example_removal] example_state"

definition settings_target :: durable_watch_target
where
  "settings_target =
    \<lparr>dwt_api_version = ''v1'', dwt_kind = ''ConfigMap'', dwt_scope = NamespacedScope (Some ''apps'')\<rparr>"

definition settings_watch :: session_config
where
  "settings_watch =
    \<lparr>sc_request = \<lparr>wq_api_version = ''v1'', wq_kind = ''ConfigMap'', wq_namespace = Some ''apps'',
       wq_scope = ListNamespace ''apps'', wq_start_resource_version = Some 1\<rparr>,
     sc_delivery_scope = NamespacedScope (Some ''apps''), sc_has_selector = False,
     sc_filter_matches = (\<lambda>_. True), sc_projection = None,
     sc_history = (\<lambda>q. sqlite_replay_watch_history (watch_store_of example_after) [settings_target] q 1)\<rparr>"

lemma example_history_rows:
  "map (\<lambda>e. (wer_event_type e, wer_api_version e, wer_kind e, wer_namespace e, wer_name e, wer_resource_version e))
      (cd_watch_events example_after) =
    [(''ADDED'', ''v1'', ''ConfigMap'', Some ''apps'', ''settings'', 1),
     (''DELETED'', ''v1'', ''ConfigMap'', Some ''apps'', ''settings'', 2)]"
  by code_simp

lemma example_removal_observable:
  "observable_log example_env [example_removal] example_state \<and> cd_event_sequence example_state = 1"
  by code_simp

theorem list_then_watch_converges_witness:
  "\<exists>fuel evs q. run_session fuel settings_watch (session_at (event_position (cd_event_sequence example_state)
      (cd_resource_version example_state)) True) = Some (Ok (evs, session_at q False))
    \<and> foldl client_apply (listed_objects settings_target example_state) (map delivered_as evs) =
      listed_objects settings_target example_after"
proof (rule list_then_watch_converges [where env = example_env and log = "[example_removal]" and limit = 1])
  show "db_wf example_env example_state"
    unfolding example_state_def by (intro apply_log_wf empty_db_wf) (simp add: example_entry_live)
  show "deliverable settings_watch (pwe_event e)"
    if delivered: "e \<in> set (sqlite_log (watch_store_of example_after) [settings_target])" for e
  proof -
    obtain row where row: "row \<in> set (cd_watch_events example_after)" "e = row_event row"
      using delivered by (auto simp: sqlite_log_def watch_store_of_def)
    have "(wer_event_type row, wer_api_version row, wer_kind row, wer_namespace row, wer_name row,
        wer_resource_version row) \<in> set
      [(''ADDED'', ''v1'', ''ConfigMap'', Some ''apps'', ''settings'', 1),
       (''DELETED'', ''v1'', ''ConfigMap'', Some ''apps'', ''settings'', 2)]"
      unfolding example_history_rows [symmetric] using row(1) by (auto simp: image_iff)
    then show ?thesis
      by (auto simp: row(2) row_event_def deliverable_def settings_watch_def Let_def)
  qed
qed (use example_removal_observable in \<open>simp_all add: example_after_def settings_watch_def live_commit_def
    example_removal_def example_event_row_def example_key_def\<close>)

end
